(* ===== verification/Prelude.thy ===== *)
theory Prelude
  imports Complex_Main "HOL-Library.AList" "HOL-Library.List_Lexorder"
    "HOL-Library.Char_ord" "HOL-Library.Product_Lexorder" "HOL-Library.Sublist"
begin

text \<open>
  Shared base of the development: the identifiers and instants every component uses, Python's
  exceptions as values, the error-propagating bind, loops over a list that stop at the first
  exception, dictionaries that keep insertion order, and the interface of a dictionary.
  Two collections carry the automation: \<open>err_simps\<close> inverts a successful run of error-propagating
  code, \<open>dict_simps\<close> reads dictionaries after an update.
\<close>

named_theorems err_simps \<open>inversion of successful error-propagating code\<close>
named_theorems dict_simps \<open>reading dictionaries after updates\<close>

section \<open>Identifiers and instants\<close>

text \<open>
  A UUID is its canonical text, which is what \<open>str(uuid)\<close> returns in the source and what the
  name-based identifiers are derived from. An instant is the number of microseconds since the Unix
  epoch: the source compares aware datetimes of one time zone only, and two of them compare as
  their instants do.
\<close>

datatype uuid = UUID (uuid_str: string)

type_synonym instant = int

instantiation uuid :: linorder
begin

definition less_eq_uuid :: "uuid \<Rightarrow> uuid \<Rightarrow> bool" where
  "less_eq_uuid a b \<longleftrightarrow> uuid_str a \<le> uuid_str b"

definition less_uuid :: "uuid \<Rightarrow> uuid \<Rightarrow> bool" where
  "less_uuid a b \<longleftrightarrow> uuid_str a < uuid_str b"

instance
  by standard (auto simp: less_eq_uuid_def less_uuid_def uuid.expand)

end

section \<open>Exceptions as values\<close>

text \<open>
  One constructor per exception class of the modelled modules; the text is the message the source
  raises with, so that two branches that raise differently stay apart.
\<close>

datatype dsignal = Overflow | Inexact | Rounded | DivisionByZero | InvalidOperation

datatype execution_policy_error_code =
    INVALID_INPUT | POLICY_ARITHMETIC_FAILURE | SLIPPAGE_UNREPRESENTABLE
  | FEE_RULE_MISSING | FEE_CURRENCY_MISSING | FEE_CURRENCY_MISMATCH

datatype position_ledger_error_code =
    KEY_MISMATCH | CURRENCY_MISMATCH | TEMPORAL_ORDER | LEDGER_ARITHMETIC_FAILURE

datatype pyexn =
    TypeError string
  | ValueError string
  | KeyError
  | AssertionError
  | RuntimeError string
  | OverflowError string
  | ArithmeticError string
  | DecimalException dsignal
  | ExecutionPolicyError execution_policy_error_code
  | PositionLedgerError position_ledger_error_code
  | InvalidOrderTransition string
  | PaperBrokerInputError string
  | PaperBrokerCapacityError string
  | PaperBrokerCheckpointError string
  | InvalidLiveOrderTransition string

type_synonym 'a result = "pyexn + 'a"

definition ebind :: "'e + 'a \<Rightarrow> ('a \<Rightarrow> 'e + 'b) \<Rightarrow> 'e + 'b" where
  "ebind m f = (case m of Inl e \<Rightarrow> Inl e | Inr x \<Rightarrow> f x)"

abbreviation ethen :: "'e + 'a \<Rightarrow> 'e + 'b \<Rightarrow> 'e + 'b" where
  "ethen m k \<equiv> ebind m (\<lambda>_. k)"

definition require :: "bool \<Rightarrow> 'e \<Rightarrow> 'e + unit" where
  "require b e = (if b then Inr () else Inl e)"

text \<open>A check of a field that may be absent.\<close>

definition optionally :: "('a \<Rightarrow> unit result) \<Rightarrow> 'a option \<Rightarrow> unit result" where
  "optionally check v = (case v of None \<Rightarrow> Inr () | Some x \<Rightarrow> check x)"

lemma ebind_simps [simp]: "ebind (Inl e) f = Inl e" "ebind (Inr x) f = f x"
  by (simp_all add: ebind_def)

lemma ebind_eq_Inr [err_simps]: "ebind m f = Inr y \<longleftrightarrow> (\<exists>x. m = Inr x \<and> f x = Inr y)"
  by (cases m) simp_all

lemma ebind_eq_Inl: "ebind m f = Inl e \<longleftrightarrow> m = Inl e \<or> (\<exists>x. m = Inr x \<and> f x = Inl e)"
  by (cases m) simp_all

lemma require_eq_Inr [err_simps]: "require b e = Inr u \<longleftrightarrow> b"
  by (simp add: require_def)

lemma require_eq_Inl: "require b e = Inl e' \<longleftrightarrow> \<not> b \<and> e' = e"
  by (auto simp: require_def)

lemma require_simps [simp]: "require True e = Inr ()" "require False e = Inl e"
  by (simp_all add: require_def)

lemma optionally_simps [simp]: "optionally check None = Inr ()" "optionally check (Some x) = check x"
  by (simp_all add: optionally_def)

lemma optionally_eq_Inr [err_simps]:
  "optionally check v = Inr u \<longleftrightarrow> (\<forall>x. v = Some x \<longrightarrow> check x = Inr ())"
  by (cases v) auto

text \<open>A \<open>for\<close> loop whose body may raise: the state after the last element, or the first exception.\<close>

fun efold :: "('a \<Rightarrow> 's \<Rightarrow> 'e + 's) \<Rightarrow> 'a list \<Rightarrow> 's \<Rightarrow> 'e + 's" where
  "efold f [] s = Inr s"
| "efold f (x # xs) s = ebind (f x s) (efold f xs)"

lemma efold_append: "efold f (xs @ ys) s = ebind (efold f xs s) (efold f ys)"
  by (induction xs arbitrary: s) (auto simp: ebind_def split: sum.splits)

lemma efold_invariant:
  assumes "efold f xs s = Inr t" and "I s"
    and "\<And>x s t. x \<in> set xs \<Longrightarrow> I s \<Longrightarrow> f x s = Inr t \<Longrightarrow> I t"
  shows "I t"
  using assms
proof (induction xs arbitrary: s)
  case Nil
  then show ?case by simp
next
  case (Cons x xs)
  from Cons.prems(1) obtain u where "f x s = Inr u" and rest: "efold f xs u = Inr t"
    by (auto simp: err_simps)
  with Cons.prems(2,3) have "I u" by (meson list.set_intros(1))
  with rest show ?case using Cons.IH Cons.prems(3) by (meson list.set_intros(2))
qed

text \<open>
  The same with a relation between the state before and after: reflexive, transitive, and
  established by every step that starts from the invariant.
\<close>

lemma efold_related:
  assumes "efold f xs s = Inr t" and "I s"
    and "\<And>x s t. x \<in> set xs \<Longrightarrow> I s \<Longrightarrow> f x s = Inr t \<Longrightarrow> I t \<and> R s t"
    and "\<And>s. R s s" and "\<And>a b c. R a b \<Longrightarrow> R b c \<Longrightarrow> R a c"
  shows "I t \<and> R s t"
proof -
  have "(\<lambda>u. I u \<and> R s u) t"
    by (rule efold_invariant [OF assms(1)]) (use assms in blast)+
  then show ?thesis by simp
qed

section \<open>Dictionaries\<close>

text \<open>
  A Python dict is an association list with distinct keys in insertion order: a store to a key that
  is present replaces its value in place, a store to a new key appends. \<open>AList.update\<close> does exactly
  that.
\<close>

type_synonym ('k, 'v) dict = "('k \<times> 'v) list"

definition dget :: "('k, 'v) dict \<Rightarrow> 'k \<Rightarrow> 'v option" where
  "dget d k = map_of d k"

definition dset :: "'k \<Rightarrow> 'v \<Rightarrow> ('k, 'v) dict \<Rightarrow> ('k, 'v) dict" where
  "dset k v d = AList.update k v d"

definition dkeys :: "('k, 'v) dict \<Rightarrow> 'k list" where
  "dkeys d = map fst d"

definition dvalues :: "('k, 'v) dict \<Rightarrow> 'v list" where
  "dvalues d = map snd d"

definition dict_ok :: "('k, 'v) dict \<Rightarrow> bool" where
  "dict_ok d \<longleftrightarrow> distinct (map fst d)"

lemma dget_Nil [dict_simps, simp]: "dget [] k = None"
  by (simp add: dget_def)

lemma dget_dset [dict_simps, simp]: "dget (dset k v d) j = (if j = k then Some v else dget d j)"
  by (simp add: dget_def dset_def update_conv')

lemma dict_ok_Nil [simp]: "dict_ok []"
  by (simp add: dict_ok_def)

lemma dict_ok_dset [simp]: "dict_ok d \<Longrightarrow> dict_ok (dset k v d)"
  by (simp add: dict_ok_def dset_def distinct_update)

lemma set_dkeys [dict_simps]: "set (dkeys d) = {k. dget d k \<noteq> None}"
  by (auto simp: dkeys_def dget_def map_of_eq_None_iff)

lemma dkeys_dset [dict_simps]:
  "dkeys (dset k v d) = (if dget d k = None then dkeys d @ [k] else dkeys d)"
  by (auto simp: dkeys_def dset_def dget_def update_keys map_of_eq_None_iff)

lemma length_dset [dict_simps]:
  "length (dset k v d) = (if dget d k = None then Suc (length d) else length d)"
proof -
  have "length (dset k v d) = length (dkeys (dset k v d))" by (simp add: dkeys_def)
  also have "\<dots> = (if dget d k = None then Suc (length d) else length d)"
    by (simp only: dkeys_dset) (simp add: dkeys_def)
  finally show ?thesis .
qed

lemma mem_dict [dict_simps]: "dict_ok d \<Longrightarrow> (k, v) \<in> set d \<longleftrightarrow> dget d k = Some v"
  by (auto simp: dict_ok_def dget_def)

lemma set_dvalues [dict_simps]: "dict_ok d \<Longrightarrow> v \<in> set (dvalues d) \<longleftrightarrow> (\<exists>k. dget d k = Some v)"
  by (auto simp: dvalues_def dict_ok_def dget_def image_iff) (metis map_of_SomeD snd_conv)

text \<open>Dictionaries filled by a loop.\<close>

lemma dget_fold_dset:
  "distinct (map k xs) \<Longrightarrow>
     dget (fold (\<lambda>x d. dset (k x) (v x) d) xs d) j
       = (case find (\<lambda>x. k x = j) xs of None \<Rightarrow> dget d j | Some x \<Rightarrow> Some (v x))"
proof (induction xs arbitrary: d)
  case Nil
  then show ?case by simp
next
  case (Cons x xs)
  have "find (\<lambda>y. k y = j) xs = None" if "j = k x"
    using Cons.prems that by (auto simp: find_None_iff image_iff)
  with Cons show ?case by (auto split: option.splits)
qed

lemma find_unique: "distinct (map k xs) \<Longrightarrow> x \<in> set xs \<Longrightarrow> find (\<lambda>y. k y = k x) xs = Some x"
  by (induction xs) (auto simp: image_iff)

lemma fold_dset_dict:
  assumes "dict_ok d" and "set xs = set d" and "distinct (map fst xs)"
  shows "dget (fold (\<lambda>x m. dset (fst x) (snd x) m) xs []) = dget d"
proof
  fix j
  show "dget (fold (\<lambda>x m. dset (fst x) (snd x) m) xs []) j = dget d j"
  proof (cases "dget d j")
    case None
    then have "find (\<lambda>x. fst x = j) xs = None"
      using assms(1,2) mem_dict [OF assms(1)] by (auto simp: find_None_iff) 
    with None show ?thesis by (simp add: dget_fold_dset [OF assms(3)])
  next
    case (Some v)
    then have "(j, v) \<in> set xs" using assms(1,2) mem_dict [OF assms(1)] by simp
    from find_unique [OF assms(3) this] Some show ?thesis by (simp add: dget_fold_dset [OF assms(3)])
  qed
qed

lemma dict_length: "dict_ok d \<Longrightarrow> length d = card (dom (dget d))"
proof -
  assume "dict_ok d"
  then have "length d = card (set (dkeys d))" by (metis dict_ok_def dkeys_def distinct_card length_map)
  also have "set (dkeys d) = dom (dget d)" by (auto simp: set_dkeys)
  finally show ?thesis .
qed

lemma dget_dset_fun: "dget (dset k v d) = (dget d)(k \<mapsto> v)"
  by (rule ext) simp

lemma dict_ok_fold: "dict_ok d \<Longrightarrow> dict_ok (fold (\<lambda>x. dset (k x) (v x)) xs d)"
  by (induction xs arbitrary: d) simp_all

text \<open>What the components rely on when they keep a dictionary, whatever its representation.\<close>

locale dictionary =
  fixes get :: "'d \<Rightarrow> 'k \<Rightarrow> 'v option"
    and put :: "'k \<Rightarrow> 'v \<Rightarrow> 'd \<Rightarrow> 'd"
    and size_of :: "'d \<Rightarrow> nat"
    and ok :: "'d \<Rightarrow> bool"
    and empty :: 'd
  assumes get_empty: "get empty k = None"
    and get_put: "ok d \<Longrightarrow> get (put k v d) j = (if j = k then Some v else get d j)"
    and size_empty: "size_of empty = 0"
    and size_put: "ok d \<Longrightarrow> size_of (put k v d) = (if get d k = None then Suc (size_of d) else size_of d)"
    and ok_empty: "ok empty"
    and ok_put: "ok d \<Longrightarrow> ok (put k v d)"
begin

lemma ok_foldr_put: "ok d \<Longrightarrow> ok (foldr (\<lambda>(k, v). put k v) kvs d)"
  by (induction kvs) (auto simp: ok_put)

lemma get_foldr_put:
  "ok d \<Longrightarrow> get (foldr (\<lambda>(k, v). put k v) kvs d) j
     = (case map_of kvs j of None \<Rightarrow> get d j | Some v \<Rightarrow> Some v)"
  by (induction kvs) (auto simp: get_put ok_foldr_put)

lemma size_put_le: "ok d \<Longrightarrow> size_of (put k v d) \<le> Suc (size_of d)"
  by (simp add: size_put)

lemma size_put_bounded:
  "ok d \<Longrightarrow> size_of d \<le> n \<Longrightarrow> get d k \<noteq> None \<or> size_of d < n \<Longrightarrow> size_of (put k v d) \<le> n"
  by (auto simp: size_put)

end

interpretation pydict: dictionary dget dset length dict_ok "[]"
  by unfold_locales (simp_all add: length_dset)

section \<open>Machines\<close>

text \<open>
  What every stateful component of the program is: a step relation that keeps an invariant. The two
  extensions are a machine with an append-only journal, and one whose steps move forward in an order.
\<close>

locale state_machine =
  fixes step :: "'s \<Rightarrow> 's \<Rightarrow> bool" and inv :: "'s \<Rightarrow> bool"
  assumes inv_step: "inv s \<Longrightarrow> step s t \<Longrightarrow> inv t"
begin

lemma run_inv: "step\<^sup>*\<^sup>* s t \<Longrightarrow> inv s \<Longrightarrow> inv t"
  by (induction rule: rtranclp_induct) (auto intro: inv_step)

end

locale journalled_machine = state_machine +
  fixes journal :: "'s \<Rightarrow> 'e list"
  assumes journal_step: "inv s \<Longrightarrow> step s t \<Longrightarrow> prefix (journal s) (journal t)"
begin

lemma run_journal: "step\<^sup>*\<^sup>* s t \<Longrightarrow> inv s \<Longrightarrow> prefix (journal s) (journal t)"
proof (induction rule: rtranclp_induct)
  case base
  then show ?case by simp
next
  case (step t u)
  then have "prefix (journal t) (journal u)" using run_inv journal_step by blast
  with step show ?case using prefix_order.trans by blast
qed

text \<open>A committed entry keeps its place for ever.\<close>

lemma run_entry:
  "step\<^sup>*\<^sup>* s t \<Longrightarrow> inv s \<Longrightarrow> k < length (journal s) \<Longrightarrow> journal t ! k = journal s ! k"
  using run_journal [of s t] by (auto simp: prefix_def nth_append)

end

locale ordered_machine = state_machine +
  fixes below :: "'s \<Rightarrow> 's \<Rightarrow> bool"
  assumes below_refl: "below s s"
    and below_trans: "below s t \<Longrightarrow> below t u \<Longrightarrow> below s u"
    and below_step: "inv s \<Longrightarrow> step s t \<Longrightarrow> below s t"
begin

lemma run_below: "step\<^sup>*\<^sup>* s t \<Longrightarrow> inv s \<Longrightarrow> below s t"
proof (induction rule: rtranclp_induct)
  case base
  then show ?case by (simp add: below_refl)
next
  case (step t u)
  then show ?case using run_inv below_step below_trans by blast
qed

end

end
