(* ===== verification/PyDecimal.thy ===== *)
theory PyDecimal
  imports Prelude
begin

text \<open>
  Python's \<open>decimal\<close> module, as far as the trading code uses it. A finite \<open>Decimal\<close> is a signed
  coefficient and an exponent; its value is \<open>coefficient * 10 ^ exponent\<close>, and two Decimals that the
  source finds equal (\<open>1.0\<close> and \<open>1.00\<close>) are different here and related by \<open>deq\<close>. NaN and the
  infinities have no representation: every constructor of the modelled contracts rejects them, and
  every operation that could produce one raises under the traps the code installs. The sign of zero
  is not kept; nothing the modelled code computes or compares depends on it.
\<close>

datatype decimal = Dec (coef: int) (expo: int)

datatype rounding = ROUND_HALF_EVEN | ROUND_HALF_UP

text \<open>
  A context: precision, rounding, exponent range, clamping, and whether the signals Inexact and
  Rounded are trapped. Overflow, DivisionByZero and InvalidOperation are trapped in every context
  the code uses (\<open>Context()\<close> takes them from \<open>DefaultContext\<close>), so they are always errors.
\<close>

record dctx =
  prec :: nat
  rnd :: rounding
  emin :: int
  emax :: int
  clamp :: bool
  traps_exact :: bool

definition dzero :: decimal where
  "dzero = Dec 0 0"

definition dec_of_int :: "int \<Rightarrow> decimal" where
  "dec_of_int n = Dec n 0"

definition dval :: "decimal \<Rightarrow> rat" where
  "dval d = of_int (coef d) * 10 powi expo d"

section \<open>Comparison\<close>

definition dalign :: "decimal \<Rightarrow> int \<Rightarrow> int" where
  "dalign d m = coef d * 10 ^ nat (expo d - m)"

definition dle :: "decimal \<Rightarrow> decimal \<Rightarrow> bool" where
  "dle a b = (let m = min (expo a) (expo b) in dalign a m \<le> dalign b m)"

definition dlt :: "decimal \<Rightarrow> decimal \<Rightarrow> bool" where
  "dlt a b = (let m = min (expo a) (expo b) in dalign a m < dalign b m)"

definition deq :: "decimal \<Rightarrow> decimal \<Rightarrow> bool" where
  "deq a b = (let m = min (expo a) (expo b) in dalign a m = dalign b m)"

definition opt_deq :: "decimal option \<Rightarrow> decimal option \<Rightarrow> bool" where
  "opt_deq a b = (case (a, b) of (None, None) \<Rightarrow> True | (Some x, Some y) \<Rightarrow> deq x y | _ \<Rightarrow> False)"

definition dpos :: "decimal \<Rightarrow> bool" where
  "dpos d = (0 < coef d)"

definition dnonneg :: "decimal \<Rightarrow> bool" where
  "dnonneg d = (0 \<le> coef d)"

definition diszero :: "decimal \<Rightarrow> bool" where
  "diszero d = (coef d = 0)"

text \<open>\<open>min(a, b)\<close> of two Decimals keeps the first argument when they are equal.\<close>

definition dmin :: "decimal \<Rightarrow> decimal \<Rightarrow> decimal" where
  "dmin a b = (if dlt b a then b else a)"

lemma ten_powi_nat:
  assumes "m \<le> e"
  shows "(10::rat) powi e = of_int (10 ^ nat (e - m)) * 10 powi m"
proof -
  from assms
  have "e = int (nat (e - m)) + m" by simp
  then have "(10::rat) powi e = 10 powi (int (nat (e - m)) + m)" by simp
  also have "\<dots> = 10 powi int (nat (e - m)) * 10 powi m" by (rule power_int_add) simp
  also have "(10::rat) powi int (nat (e - m)) = of_int (10 ^ nat (e - m))"
    by (simp only: power_int_of_nat) simp
  finally show ?thesis .
qed

lemma dval_dalign: "m \<le> expo d \<Longrightarrow> dval d = of_int (dalign d m) * 10 powi m"
  by (simp add: dval_def dalign_def ten_powi_nat [of m "expo d"])

lemma ten_powi_pos [simp]: "0 < (10::rat) powi m"
  by (rule zero_less_power_int) simp

lemma ten_powi_not_neg [simp]: "\<not> (10::rat) powi m < 0" "\<not> (10::rat) powi m \<le> 0"
  using ten_powi_pos [of m] by linarith+

lemma dle_val: "dle a b \<longleftrightarrow> dval a \<le> dval b"
  by (simp add: dle_def Let_def dval_dalign [of "min (expo a) (expo b)" a]
      dval_dalign [of "min (expo a) (expo b)" b])

lemma dlt_val: "dlt a b \<longleftrightarrow> dval a < dval b"
  by (simp add: dlt_def Let_def dval_dalign [of "min (expo a) (expo b)" a]
      dval_dalign [of "min (expo a) (expo b)" b])

lemma deq_val: "deq a b \<longleftrightarrow> dval a = dval b"
  by (simp add: deq_def Let_def dval_dalign [of "min (expo a) (expo b)" a]
      dval_dalign [of "min (expo a) (expo b)" b])

lemma dpos_val: "dpos d \<longleftrightarrow> 0 < dval d"
  by (simp add: dpos_def dval_def zero_less_mult_iff)

lemma dnonneg_val: "dnonneg d \<longleftrightarrow> 0 \<le> dval d"
  by (simp add: dnonneg_def dval_def zero_le_mult_iff)

lemma diszero_val: "diszero d \<longleftrightarrow> dval d = 0"
  by (simp add: diszero_def dval_def)

lemma dval_dzero [simp]: "dval dzero = 0"
  by (simp add: dval_def dzero_def)

lemma opt_deq_val: "opt_deq a b \<longleftrightarrow> map_option dval a = map_option dval b"
  by (cases a; cases b) (simp_all add: opt_deq_def deq_val)

lemmas dec_order = dle_val dlt_val deq_val dpos_val dnonneg_val diszero_val

lemma dval_dmin [simp]: "dval (dmin a b) = min (dval a) (dval b)"
  by (simp add: dmin_def dlt_val)

lemma deq_refl [simp]: "deq a a"
  by (simp add: deq_val)

lemma opt_deq_refl [simp]: "opt_deq a a"
  by (simp add: opt_deq_val)

section \<open>Rounding to a context\<close>

function ndigits :: "int \<Rightarrow> nat" where
  "ndigits n = (if n < 10 then 1 else Suc (ndigits (n div 10)))"
  by pat_completeness auto
termination by (relation "measure nat") auto

declare ndigits.simps [simp del]

text \<open>Drop the last \<open>k\<close> digits of a coefficient; the flag says whether a nonzero digit was lost.\<close>

definition round_coef :: "rounding \<Rightarrow> int \<Rightarrow> nat \<Rightarrow> int \<times> bool" where
  "round_coef r c k =
     (let n = \<bar>c\<bar>; p = 10 ^ k; q = n div p; x = n mod p;
          up = (case r of ROUND_HALF_EVEN \<Rightarrow> p < 2 * x \<or> (2 * x = p \<and> odd q)
                | ROUND_HALF_UP \<Rightarrow> p \<le> 2 * x)
      in (sgn c * (if up then q + 1 else q), x \<noteq> 0))"

definition etiny :: "dctx \<Rightarrow> int" where
  "etiny c = emin c - int (prec c) + 1"

definition etop :: "dctx \<Rightarrow> int" where
  "etop c = emax c - int (prec c) + 1"

text \<open>\<open>Decimal._fix\<close>: every arithmetic result is rounded to the context by it.\<close>

definition dfix :: "dctx \<Rightarrow> decimal \<Rightarrow> decimal result" where
  "dfix c d =
     (if coef d = 0
      then Inr (Dec 0 (min (max (expo d) (etiny c)) (if clamp c then etop c else emax c)))
      else
        let top = int (ndigits \<bar>coef d\<bar>) + expo d - int (prec c)
        in if etop c < top then Inl (DecimalException Overflow)
           else
             let low = max top (etiny c)
             in if expo d < low
                then
                  let (q, changed) = round_coef (rnd c) (coef d) (nat (low - expo d));
                      carry = prec c < ndigits \<bar>q\<bar>;
                      e = (if carry then low + 1 else low)
                  in if etop c < e then Inl (DecimalException Overflow)
                     else if traps_exact c \<and> changed then Inl (DecimalException Inexact)
                     else if traps_exact c then Inl (DecimalException Rounded)
                     else Inr (Dec (if carry then q div 10 else q) e)
                else if clamp c \<and> etop c < expo d
                then Inr (Dec (coef d * 10 ^ nat (expo d - etop c)) (etop c))
                else Inr d)"

section \<open>Arithmetic\<close>

definition dneg :: "decimal \<Rightarrow> decimal" where
  "dneg d = Dec (- coef d) (expo d)"

definition dadd_exact :: "decimal \<Rightarrow> decimal \<Rightarrow> decimal" where
  "dadd_exact a b = (let m = min (expo a) (expo b) in Dec (dalign a m + dalign b m) m)"

definition dadd :: "dctx \<Rightarrow> decimal \<Rightarrow> decimal \<Rightarrow> decimal result" where
  "dadd c a b = dfix c (dadd_exact a b)"

definition dsub :: "dctx \<Rightarrow> decimal \<Rightarrow> decimal \<Rightarrow> decimal result" where
  "dsub c a b = dadd c a (dneg b)"

definition dmul :: "dctx \<Rightarrow> decimal \<Rightarrow> decimal \<Rightarrow> decimal result" where
  "dmul c a b = dfix c (Dec (coef a * coef b) (expo a + expo b))"

text \<open>Unary plus and \<open>abs\<close> round to the context as well.\<close>

definition dplus :: "dctx \<Rightarrow> decimal \<Rightarrow> decimal result" where
  "dplus c a = dfix c a"

definition dabs :: "dctx \<Rightarrow> decimal \<Rightarrow> decimal result" where
  "dabs c a = dfix c (Dec \<bar>coef a\<bar> (expo a))"

text \<open>
  Division: the quotient to one digit more than the precision, with a sticky last digit when it is
  inexact, and with trailing zeros removed up to the ideal exponent when it is exact.
\<close>

fun strip_zeros :: "nat \<Rightarrow> int \<Rightarrow> int \<Rightarrow> int \<times> int" where
  "strip_zeros 0 c e = (c, e)"
| "strip_zeros (Suc n) c e = (if c mod 10 = 0 then strip_zeros n (c div 10) (e + 1) else (c, e))"

definition ddiv :: "dctx \<Rightarrow> decimal \<Rightarrow> decimal \<Rightarrow> decimal result" where
  "ddiv c a b =
     (if coef b = 0
      then Inl (DecimalException (if coef a = 0 then InvalidOperation else DivisionByZero))
      else if coef a = 0 then dfix c (Dec 0 (expo a - expo b))
      else
        let x = \<bar>coef a\<bar>; y = \<bar>coef b\<bar>;
            shift = int (ndigits y) - int (ndigits x) + int (prec c) + 1;
            e = expo a - expo b - shift;
            num = (if 0 \<le> shift then x * 10 ^ nat shift else x);
            den = (if 0 \<le> shift then y else y * 10 ^ nat (- shift));
            q = num div den;
            s = sgn (coef a) * sgn (coef b)
        in if num mod den \<noteq> 0
           then dfix c (Dec (s * (if q mod 5 = 0 then q + 1 else q)) e)
           else let (q', e') = strip_zeros (nat (expo a - expo b - e)) q e
                in dfix c (Dec (s * q') e'))"

definition to_integral :: "rounding \<Rightarrow> decimal \<Rightarrow> decimal" where
  "to_integral r d = (if 0 \<le> expo d then d else Dec (fst (round_coef r (coef d) (nat (- expo d)))) 0)"

text \<open>The context of a thread that never set one: 28 digits.\<close>

definition default_ctx :: dctx where
  "default_ctx = \<lparr>prec = 28, rnd = ROUND_HALF_EVEN, emin = -999999, emax = 999999, clamp = False,
                  traps_exact = False\<rparr>"

section \<open>What the operations compute\<close>

lemma dval_dneg [simp]: "dval (dneg d) = - dval d"
  by (simp add: dneg_def dval_def)

lemma dval_dadd_exact [simp]: "dval (dadd_exact a b) = dval a + dval b"
proof -
  let ?m = "min (expo a) (expo b)"
  have "dval (dadd_exact a b) = of_int (dalign a ?m + dalign b ?m) * 10 powi ?m"
    by (simp add: dadd_exact_def dval_def Let_def)
  also have "\<dots> = dval a + dval b"
    by (simp add: dval_dalign [of ?m a] dval_dalign [of ?m b] distrib_right)
  finally show ?thesis .
qed

lemma dval_mult [simp]: "dval (Dec (coef a * coef b) (expo a + expo b)) = dval a * dval b"
  by (simp add: dval_def power_int_add)

lemma dval_dec_of_int [simp]: "dval (dec_of_int n) = of_int n"
  by (simp add: dval_def dec_of_int_def)

lemma dval_clamped: "m \<le> e \<Longrightarrow> dval (Dec (n * 10 ^ nat (e - m)) m) = dval (Dec n e)"
  by (simp add: dval_def ten_powi_nat [of m e])

text \<open>A context that traps Inexact and Rounded returns the exact value or nothing.\<close>

lemma dfix_exact:
  assumes "traps_exact c" and "dfix c d = Inr r"
  shows "dval r = dval d"
proof (cases "coef d = 0")
  case True
  with assms(2) show ?thesis by (auto simp: dfix_def dval_def)
next
  case False
  with assms show ?thesis
    by (cases d) (auto simp: dfix_def Let_def dval_clamped split: if_splits prod.splits)
qed

text \<open>A result with no more digits than the precision, above the smallest exponent, is not rounded.\<close>

definition fits :: "dctx \<Rightarrow> decimal \<Rightarrow> bool" where
  "fits c d \<longleftrightarrow> ndigits \<bar>coef d\<bar> \<le> prec c \<and> etiny c \<le> expo d"

lemma dfix_fits:
  assumes "fits c d" and "dfix c d = Inr r"
  shows "dval r = dval d"
proof (cases "coef d = 0")
  case True
  with assms(2) show ?thesis by (auto simp: dfix_def dval_def)
next
  case False
  with assms show ?thesis
    by (cases d) (auto simp: dfix_def fits_def Let_def dval_clamped split: if_splits prod.splits)
qed

lemma dadd_exact_sum: "traps_exact c \<Longrightarrow> dadd c a b = Inr r \<Longrightarrow> dval r = dval a + dval b"
  by (simp add: dadd_def dfix_exact)

lemma dsub_exact_diff: "traps_exact c \<Longrightarrow> dsub c a b = Inr r \<Longrightarrow> dval r = dval a - dval b"
  by (simp add: dsub_def dadd_exact_sum)

lemma dmul_exact_prod: "traps_exact c \<Longrightarrow> dmul c a b = Inr r \<Longrightarrow> dval r = dval a * dval b"
  using dfix_exact [of c "Dec (coef a * coef b) (expo a + expo b)" r] by (simp add: dmul_def)

lemma ndigits_pos: "0 < ndigits n"
  by (subst ndigits.simps) simp

lemma ndigits_upper: "n < 10 ^ ndigits n"
proof (induction n rule: ndigits.induct)
  case (1 n)
  show ?case
  proof (cases "n < 10")
    case True
    then show ?thesis by (simp add: ndigits.simps [of n])
  next
    case False
    with "1.IH" have "n div 10 < 10 ^ ndigits (n div 10)" by simp
    with False show ?thesis by (simp add: ndigits.simps [of n])
  qed
qed

lemma ndigits_lower: "0 < n \<Longrightarrow> 10 ^ (ndigits n - 1) \<le> n"
proof (induction n rule: ndigits.induct)
  case (1 n)
  show ?case
  proof (cases "n < 10")
    case True
    with "1.prems" show ?thesis by (simp add: ndigits.simps [of n])
  next
    case False
    with "1.IH" have "10 ^ (ndigits (n div 10) - 1) \<le> n div 10" by simp
    then have "10 * 10 ^ (ndigits (n div 10) - 1) \<le> n" by linarith
    with False ndigits_pos [of "n div 10"] show ?thesis
      by (simp add: ndigits.simps [of n] flip: power_Suc)
  qed
qed

lemma ndigits_le: "n < 10 ^ k \<Longrightarrow> 0 < k \<Longrightarrow> ndigits n \<le> k"
proof (cases "0 < n")
  case False
  assume "0 < k"
  with False show ?thesis by (simp add: ndigits.simps [of n])
next
  case True
  assume "n < 10 ^ k"
  with True have "(10::int) ^ (ndigits n - 1) < 10 ^ k"
    using ndigits_lower [of n] by linarith
  then have "ndigits n - 1 < k" by simp
  then show ?thesis by linarith
qed

text \<open>Rounding keeps the sign, up to an underflow to zero.\<close>

lemma round_coef_sgn: "0 \<le> a \<Longrightarrow> 0 \<le> fst (round_coef r a k)"
proof -
  assume "0 \<le> a"
  then have "0 \<le> sgn a * m" if "0 \<le> m" for m using that by (simp add: sgn_if)
  then show ?thesis by (simp add: round_coef_def Let_def pos_imp_zdiv_nonneg_iff)
qed

lemma dfix_nonneg:
  assumes "dfix c d = Inr r" and "0 \<le> coef d"
  shows "0 \<le> coef r"
proof -
  let ?e = "max (int (ndigits \<bar>coef d\<bar>) + expo d - int (prec c)) (etiny c)"
  have "0 \<le> fst (round_coef (rnd c) (coef d) (nat (?e - expo d)))"
    using assms(2) by (rule round_coef_sgn)
  with assms show ?thesis
    by (auto simp: dfix_def Let_def pos_imp_zdiv_nonneg_iff split: if_splits prod.splits)
qed

end
