(* ===== verification/PyText.thy ===== *)
theory PyText
  imports PyDecimal
begin

text \<open>
  The text the program derives identifiers and fingerprints from: integers in decimal notation,
  \<open>str.strip\<close>, the JSON encoder (compact separators, sorted keys, with or without ASCII escapes),
  \<open>datetime.isoformat\<close> in the time zone of the exchange, and the two hash functions as parameters.
  A Python string is a HOL \<open>string\<close>, so the code points range over Latin-1.
\<close>

section \<open>Integers\<close>

function show_digits :: "int \<Rightarrow> string" where
  "show_digits n =
     (if n < 10 then [char_of (48 + n)] else show_digits (n div 10) @ [char_of (48 + n mod 10)])"
  by pat_completeness auto
termination by (relation "measure nat") auto

declare show_digits.simps [simp del]

definition show_int :: "int \<Rightarrow> string" where
  "show_int i = (if i < 0 then CHR ''-'' # show_digits (- i) else show_digits i)"

text \<open>Reading the digits back shows that no two integers share a text.\<close>

definition read_digits :: "string \<Rightarrow> int" where
  "read_digits s = foldl (\<lambda>n c. 10 * n + (of_char c - 48)) 0 s"

lemma of_char_digit [simp]:
  fixes d :: int
  assumes "0 \<le> d" "d < 10"
  shows "of_char (char_of (48 + d)) = 48 + d"
  using assms by simp

lemma read_show_digits [simp]: "0 \<le> n \<Longrightarrow> read_digits (show_digits n) = n"
proof (induction n rule: show_digits.induct)
  case (1 n)
  then show ?case
    by (subst show_digits.simps) (auto simp: read_digits_def)
qed

lemma show_digits_inject: "0 \<le> m \<Longrightarrow> 0 \<le> n \<Longrightarrow> show_digits m = show_digits n \<longleftrightarrow> m = n"
  by (metis read_show_digits)

lemma set_show_digits:
  "0 \<le> n \<Longrightarrow> c \<in> set (show_digits n) \<Longrightarrow> 48 \<le> (of_char c :: int) \<and> (of_char c :: int) \<le> 57"
proof (induction n rule: show_digits.induct)
  case (1 n)
  then show ?case
    by (subst (asm) (2) show_digits.simps) (auto split: if_splits)
qed

lemma minus_notin_show_digits [simp]: "0 \<le> n \<Longrightarrow> CHR ''-'' \<notin> set (show_digits n)"
  using set_show_digits [of n "CHR ''-''"] by auto

lemma show_digits_not_minus: "0 \<le> n \<Longrightarrow> show_digits n \<noteq> CHR ''-'' # s"
  using minus_notin_show_digits [of n] by (metis list.set_intros(1))

lemma show_int_inject [simp]: "show_int i = show_int j \<longleftrightarrow> i = j"
proof (cases "i < 0"; cases "j < 0")
  assume "i < 0" "\<not> j < 0"
  then show ?thesis using show_digits_not_minus [of j] by (simp add: show_int_def) (metis linorder_not_less)
next
  assume "\<not> i < 0" "j < 0"
  then show ?thesis using show_digits_not_minus [of i] by (simp add: show_int_def)
qed (simp_all add: show_int_def show_digits_inject)

section \<open>White space\<close>

definition is_space :: "char \<Rightarrow> bool" where
  "is_space c = (let n = (of_char c :: int) in (9 \<le> n \<and> n \<le> 13) \<or> (28 \<le> n \<and> n \<le> 32) \<or> n = 133 \<or> n = 160)"

definition strip :: "string \<Rightarrow> string" where
  "strip s = rev (dropWhile is_space (rev (dropWhile is_space s)))"

section \<open>JSON\<close>

datatype json =
    JNull
  | JBool bool
  | JInt int
  | JStr string
  | JArr "json list"
  | JObj "(string \<times> json) list"

definition hex_digit :: "int \<Rightarrow> char" where
  "hex_digit n = (if n < 10 then char_of (48 + n) else char_of (87 + n))"

definition json_escape_char :: "bool \<Rightarrow> char \<Rightarrow> string" where
  "json_escape_char ascii c =
     (let n = (of_char c :: int) in
      if n = 34 then [CHR 0x5C, CHR 0x22]
      else if n = 92 then [CHR 0x5C, CHR 0x5C]
      else if n = 10 then [CHR 0x5C, CHR ''n'']
      else if n = 13 then [CHR 0x5C, CHR ''r'']
      else if n = 9 then [CHR 0x5C, CHR ''t'']
      else if n = 12 then [CHR 0x5C, CHR ''f'']
      else if n = 8 then [CHR 0x5C, CHR ''b'']
      else if n < 32 \<or> (ascii \<and> 126 < n)
      then [CHR 0x5C, CHR ''u'', CHR ''0'', CHR ''0'', hex_digit (n div 16), hex_digit (n mod 16)]
      else [c])"

definition json_string :: "bool \<Rightarrow> string \<Rightarrow> string" where
  "json_string ascii s = [CHR 0x22] @ concat (map (json_escape_char ascii) s) @ [CHR 0x22]"

definition join :: "string \<Rightarrow> string list \<Rightarrow> string" where
  "join sep xs = (case xs of [] \<Rightarrow> [] | y # ys \<Rightarrow> y @ concat (map (\<lambda>z. sep @ z) ys))"

text \<open>\<open>json.dumps (value, ensure_ascii = ascii, sort_keys = True, separators = (',', ':'))\<close>\<close>

fun json_dumps :: "bool \<Rightarrow> json \<Rightarrow> string" where
  "json_dumps ascii JNull = ''null''"
| "json_dumps ascii (JBool b) = (if b then ''true'' else ''false'')"
| "json_dumps ascii (JInt i) = show_int i"
| "json_dumps ascii (JStr s) = json_string ascii s"
| "json_dumps ascii (JArr xs) = ''['' @ join '','' (map (json_dumps ascii) xs) @ '']''"
| "json_dumps ascii (JObj kvs) =
     ''{'' @ join '','' (map (\<lambda>kv. json_string ascii (fst kv) @ '':'' @ json_dumps ascii (snd kv))
                       (sort_key fst kvs)) @ ''}''"

definition json_opt :: "('a \<Rightarrow> json) \<Rightarrow> 'a option \<Rightarrow> json" where
  "json_opt f x = (case x of None \<Rightarrow> JNull | Some y \<Rightarrow> f y)"

definition json_uuid :: "uuid \<Rightarrow> json" where
  "json_uuid u = JStr (uuid_str u)"

text \<open>\<open>str\<close> of a Decimal: plain notation when the exponent is not positive and small, scientific otherwise.\<close>

definition decimal_str :: "decimal \<Rightarrow> string" where
  "decimal_str d =
     (let digits = show_digits \<bar>coef d\<bar>;
          len = int (length digits);
          left = expo d + len;
          dot = (if expo d \<le> 0 \<and> -6 < left then left else 1);
          body = (if dot \<le> 0 then ''0.'' @ replicate (nat (- dot)) (CHR ''0'') @ digits
                  else if len \<le> dot then digits @ replicate (nat (dot - len)) (CHR ''0'')
                  else take (nat dot) digits @ ''.'' @ drop (nat dot) digits);
          ex = left - dot
      in (if coef d < 0 then ''-'' else []) @ body
         @ (if ex = 0 then [] else ''E'' @ (if 0 < ex then ''+'' else []) @ show_int ex))"

section \<open>Instants\<close>

text \<open>
  \<open>isoformat\<close> of an instant in Asia/Taipei, eight hours ahead of UTC (without daylight saving, which
  the zone last used in 1979). The date is the proleptic Gregorian one.
\<close>

definition pad :: "nat \<Rightarrow> string \<Rightarrow> string" where
  "pad k s = replicate (k - length s) (CHR ''0'') @ s"

definition civil_of_days :: "int \<Rightarrow> int \<times> int \<times> int" where
  "civil_of_days days =
     (let z = days + 719468;
          era = z div 146097;
          doe = z mod 146097;
          yoe = (doe - doe div 1460 + doe div 36524 - doe div 146096) div 365;
          doy = doe - (365 * yoe + yoe div 4 - yoe div 100);
          mp = (5 * doy + 2) div 153;
          d = doy - (153 * mp + 2) div 5 + 1;
          m = (if mp < 10 then mp + 3 else mp - 9)
      in (yoe + era * 400 + (if m \<le> 2 then 1 else 0), m, d))"

definition date_isoformat :: "int \<Rightarrow> string" where
  "date_isoformat days =
     (let (y, m, d) = civil_of_days days
      in pad 4 (show_int y) @ ''-'' @ pad 2 (show_int m) @ ''-'' @ pad 2 (show_int d))"

definition isoformat :: "instant \<Rightarrow> string" where
  "isoformat t =
     (let local = t + 8 * 3600 * 1000000;
          us = local mod 1000000;
          secs = local div 1000000;
          sod = secs mod 86400
      in date_isoformat (secs div 86400) @ ''T''
         @ pad 2 (show_int (sod div 3600)) @ '':'' @ pad 2 (show_int (sod mod 3600 div 60)) @ '':''
         @ pad 2 (show_int (sod mod 60))
         @ (if us = 0 then [] else ''.'' @ pad 6 (show_int us)) @ ''+08:00'')"

definition json_instant :: "instant \<Rightarrow> json" where
  "json_instant t = JStr (isoformat t)"

section \<open>Bytes\<close>

text \<open>\<open>str.encode ('utf-8')\<close> of a Latin-1 text; a byte is a \<open>char\<close> again.\<close>

definition utf8 :: "string \<Rightarrow> string" where
  "utf8 s = concat (map (\<lambda>c. let n = (of_char c :: int) in
     if n < 128 then [c] else [char_of (192 + n div 64), char_of (128 + n mod 64)]) s)"

section \<open>Hash functions\<close>

text \<open>
  \<open>sha256_hex b\<close> is \<open>sha256 (b).hexdigest ()\<close> and \<open>uuid5 ns name\<close> the name-based UUID: both are
  parameters. Where a result needs that no two of the hashed texts collide, it says so.
\<close>

record hashes =
  sha256_hex :: "string \<Rightarrow> string"
  uuid5 :: "uuid \<Rightarrow> string \<Rightarrow> uuid"

end
