(* ===== verification/Paper_Contracts.thy ===== *)
theory Paper_Contracts
  imports PyText
begin

text \<open>
  The immutable contracts of paper order execution, \<open>orders/contracts.py\<close>: the enumerations, the
  frozen dataclasses as records, and what each \<open>__post_init__\<close> checks as a function that returns
  the checked record or the exception, in the order of the source. Checks of Python types are what
  the HOL types say. The one-valued enumeration \<open>ExecutionProvenance\<close> carries no information and has
  no field. A constructor whose checks add or subtract Decimals takes the context of the calling
  thread, since the source computes them in whatever context is active.
\<close>

section \<open>Enumerations\<close>

datatype order_side = BUY | SELL
datatype order_type = MARKET | LIMIT
datatype time_in_force = DAY
datatype order_status = ACCEPTED | PARTIALLY_FILLED | FILLED | CANCELLED | REJECTED

definition is_terminal :: "order_status \<Rightarrow> bool" where
  "is_terminal s = (s \<in> {FILLED, CANCELLED, REJECTED})"

datatype rejection_code =
    INVALID_INTENT | UNKNOWN_ORDER | ORDER_TERMINAL | IDEMPOTENCY_CONFLICT
  | INSTRUMENT_UNAVAILABLE | MARKET_DATA_UNAVAILABLE | CAPACITY_EXCEEDED | INTERNAL_REJECTED

fun public_message :: "rejection_code \<Rightarrow> string" where
  "public_message INVALID_INTENT = ''paper order intent is invalid''"
| "public_message UNKNOWN_ORDER = ''paper order was not found''"
| "public_message ORDER_TERMINAL = ''paper order is already terminal''"
| "public_message IDEMPOTENCY_CONFLICT = ''paper order idempotency conflict''"
| "public_message INSTRUMENT_UNAVAILABLE = ''paper instrument is unavailable''"
| "public_message MARKET_DATA_UNAVAILABLE = ''paper market data is unavailable''"
| "public_message CAPACITY_EXCEEDED = ''paper broker capacity was exceeded''"
| "public_message INTERNAL_REJECTED = ''paper order was rejected''"

datatype match_disposition = PROCESSED | DUPLICATE

datatype match_skip_reason =
    EVENT_NOT_QUOTE | METADATA_UNAVAILABLE | METADATA_MISMATCH | PRICE_SCALE_UNAVAILABLE
  | QUANTITY_SCALE_UNAVAILABLE | PRICE_UNAVAILABLE | QUANTITY_UNAVAILABLE | SIMULATED_QUOTE
  | INVALID_BOOK | NO_LIQUIDITY | ORDER_NOT_ELIGIBLE | LIMIT_NOT_CROSSED | SLIPPAGE_EXCEEDS_LIMIT

datatype slippage_mode = NONE | BASIS_POINTS | ABSOLUTE
datatype fee_policy_kind = ZERO | PER_UNIT
datatype fee_rounding_mode = FEE_ROUND_HALF_UP

datatype paper_event_type =
    ORDER_ACCEPTED | ORDER_PARTIALLY_FILLED | ORDER_FILLED | ORDER_CANCELLED | ORDER_REJECTED
  | FILL_RECORDED | POSITION_CHANGED

fun side_value :: "order_side \<Rightarrow> string" where
  "side_value BUY = ''buy''"
| "side_value SELL = ''sell''"

fun type_value :: "order_type \<Rightarrow> string" where
  "type_value MARKET = ''market''"
| "type_value LIMIT = ''limit''"

fun tif_value :: "time_in_force \<Rightarrow> string" where
  "tif_value DAY = ''day''"

fun status_value :: "order_status \<Rightarrow> string" where
  "status_value ACCEPTED = ''accepted''"
| "status_value PARTIALLY_FILLED = ''partially_filled''"
| "status_value FILLED = ''filled''"
| "status_value CANCELLED = ''cancelled''"
| "status_value REJECTED = ''rejected''"

fun rejection_value :: "rejection_code \<Rightarrow> string" where
  "rejection_value INVALID_INTENT = ''invalid_intent''"
| "rejection_value UNKNOWN_ORDER = ''unknown_order''"
| "rejection_value ORDER_TERMINAL = ''order_terminal''"
| "rejection_value IDEMPOTENCY_CONFLICT = ''idempotency_conflict''"
| "rejection_value INSTRUMENT_UNAVAILABLE = ''instrument_unavailable''"
| "rejection_value MARKET_DATA_UNAVAILABLE = ''market_data_unavailable''"
| "rejection_value CAPACITY_EXCEEDED = ''capacity_exceeded''"
| "rejection_value INTERNAL_REJECTED = ''internal_rejected''"

fun slippage_value :: "slippage_mode \<Rightarrow> string" where
  "slippage_value NONE = ''none''"
| "slippage_value BASIS_POINTS = ''basis_points''"
| "slippage_value ABSOLUTE = ''absolute''"

fun fee_kind_value :: "fee_policy_kind \<Rightarrow> string" where
  "fee_kind_value ZERO = ''zero''"
| "fee_kind_value PER_UNIT = ''per_unit''"

fun fee_rounding_value :: "fee_rounding_mode \<Rightarrow> string" where
  "fee_rounding_value FEE_ROUND_HALF_UP = ''round_half_up''"

fun event_type_value :: "paper_event_type \<Rightarrow> string" where
  "event_type_value ORDER_ACCEPTED = ''order_accepted''"
| "event_type_value ORDER_PARTIALLY_FILLED = ''order_partially_filled''"
| "event_type_value ORDER_FILLED = ''order_filled''"
| "event_type_value ORDER_CANCELLED = ''order_cancelled''"
| "event_type_value ORDER_REJECTED = ''order_rejected''"
| "event_type_value FILL_RECORDED = ''fill_recorded''"
| "event_type_value POSITION_CHANGED = ''position_changed''"

section \<open>Value checks\<close>

definition value_error :: "string \<Rightarrow> string \<Rightarrow> pyexn" where
  "value_error name what = ValueError (name @ what)"

definition strict_string :: "string \<Rightarrow> string \<Rightarrow> unit result" where
  "strict_string name v = require (strip v \<noteq> []) (value_error name '' must not be empty'')"

definition decimal_positive :: "string \<Rightarrow> decimal \<Rightarrow> unit result" where
  "decimal_positive name v = require (dpos v) (value_error name '' must be greater than zero'')"

definition decimal_nonnegative :: "string \<Rightarrow> decimal \<Rightarrow> unit result" where
  "decimal_nonnegative name v = require (dnonneg v) (value_error name '' must be non-negative'')"

definition decimal_bounded :: "string \<Rightarrow> decimal \<Rightarrow> unit result" where
  "decimal_bounded name v =
     require (ndigits \<bar>coef v\<bar> \<le> 34 \<and> -6143 \<le> expo v \<and> expo v \<le> 6144)
       (value_error name '' exceeds the supported Decimal bounds'')"

definition bounded_identifier :: "string \<Rightarrow> string \<Rightarrow> unit result" where
  "bounded_identifier name v =
     ethen (strict_string name v)
       (require (length v \<le> 128) (value_error name '' must be at most 128 characters''))"

definition is_upper_ascii :: "char \<Rightarrow> bool" where
  "is_upper_ascii c = (65 \<le> (of_char c :: int) \<and> (of_char c :: int) \<le> 90)"

definition currency_ok :: "string \<Rightarrow> string \<Rightarrow> unit result" where
  "currency_ok name v =
     require (length v = 3 \<and> list_all is_upper_ascii v)
       (value_error name '' must be an uppercase 3-letter currency'')"

definition fingerprint_ok :: "string \<Rightarrow> string \<Rightarrow> unit result" where
  "fingerprint_ok name v =
     require (take 7 v = ''sha256:'' \<and> length (drop 7 v) = 64
              \<and> list_all (\<lambda>c. c \<in> set ''0123456789abcdef'') (drop 7 v))
       (value_error name '' must be a sha256 fingerprint'')"

definition positive_int :: "string \<Rightarrow> int \<Rightarrow> unit result" where
  "positive_int name v = require (1 \<le> v) (value_error name '' must be at least 1'')"

definition nonnegative_int :: "string \<Rightarrow> int \<Rightarrow> unit result" where
  "nonnegative_int name v = require (0 \<le> v) (value_error name '' must be non-negative'')"

definition source_pair :: "uuid option \<Rightarrow> int option \<Rightarrow> unit result" where
  "source_pair session seq =
     ethen (require ((session = None) = (seq = None))
              (ValueError ''source_session_id and source_ingest_sequence must be provided together''))
       (optionally (nonnegative_int ''source_ingest_sequence'') seq)"

text \<open>\<open>_semantic_decimal\<close>: coefficient without trailing zeros, \<open>e\<close>, exponent.\<close>

function trim_zeros :: "int \<Rightarrow> int \<Rightarrow> int \<times> int" where
  "trim_zeros n e = (if n \<le> 0 \<or> n mod 10 \<noteq> 0 then (n, e) else trim_zeros (n div 10) (e + 1))"
  by pat_completeness auto
termination by (relation "measure (nat \<circ> fst)") auto

declare trim_zeros.simps [simp del]

definition semantic_decimal :: "decimal \<Rightarrow> string" where
  "semantic_decimal v =
     (if coef v = 0 then ''0''
      else let (n, e) = trim_zeros \<bar>coef v\<bar> (expo v)
           in (if coef v < 0 then ''-'' else []) @ show_digits n @ ''e'' @ show_int e)"

section \<open>Execution configuration\<close>

record slippage_config =
  sl_mode :: slippage_mode
  sl_value :: decimal

definition slippage_config_init :: "slippage_config \<Rightarrow> slippage_config result" where
  "slippage_config_init c =
     ethen (decimal_nonnegative ''value'' (sl_value c)) (
     ethen (decimal_bounded ''value'' (sl_value c)) (
     ethen (require (sl_mode c = NONE \<longrightarrow> diszero (sl_value c))
              (ValueError ''NONE slippage requires value equal to zero'')) (
     ethen (require (sl_mode c = BASIS_POINTS \<longrightarrow>
                       dpos (sl_value c) \<and> dlt (sl_value c) (dec_of_int 10000))
              (ValueError ''BASIS_POINTS slippage requires 0 < value < 10000'')) (
     ethen (require (sl_mode c = ABSOLUTE \<longrightarrow> dpos (sl_value c))
              (ValueError ''ABSOLUTE slippage requires value greater than zero''))
     (Inr c)))))"

record paper_fee_rule =
  fr_instrument_id :: string
  fr_currency :: string
  fr_amount_per_unit :: decimal
  fr_quantum :: decimal
  fr_rounding_mode :: fee_rounding_mode
  fr_policy_id :: string
  fr_policy_version :: string

definition paper_fee_rule_init :: "paper_fee_rule \<Rightarrow> paper_fee_rule result" where
  "paper_fee_rule_init r =
     ethen (bounded_identifier ''instrument_id'' (fr_instrument_id r)) (
     ethen (currency_ok ''currency'' (fr_currency r)) (
     ethen (decimal_positive ''amount_per_unit'' (fr_amount_per_unit r)) (
     ethen (decimal_bounded ''amount_per_unit'' (fr_amount_per_unit r)) (
     ethen (decimal_positive ''quantum'' (fr_quantum r)) (
     ethen (decimal_bounded ''quantum'' (fr_quantum r)) (
     ethen (bounded_identifier ''policy_id'' (fr_policy_id r)) (
     ethen (bounded_identifier ''policy_version'' (fr_policy_version r))
     (Inr r))))))))"

record paper_fee_schedule =
  fs_kind :: fee_policy_kind
  fs_rules :: "paper_fee_rule list"

definition paper_fee_schedule_init :: "paper_fee_schedule \<Rightarrow> paper_fee_schedule result" where
  "paper_fee_schedule_init s =
     (let keys = map fr_instrument_id (fs_rules s) in
      ethen (require (fs_kind s = ZERO \<longrightarrow> fs_rules s = [])
               (ValueError ''ZERO fee schedule must not contain rules'')) (
      ethen (require (fs_kind s = PER_UNIT \<longrightarrow> fs_rules s \<noteq> [])
               (ValueError ''PER_UNIT fee schedule requires at least one rule'')) (
      ethen (require (keys = sort keys) (ValueError ''fee rules must be sorted by instrument_id'')) (
      ethen (require (distinct keys)
               (ValueError ''fee rules must have unique instrument_id values''))
      (Inr s)))))"

record paper_execution_config =
  ec_slippage :: slippage_config
  ec_fee_schedule :: paper_fee_schedule
  ec_algorithm_version :: string

definition paper_execution_config_init :: "paper_execution_config \<Rightarrow> paper_execution_config result" where
  "paper_execution_config_init c =
     ethen (bounded_identifier ''algorithm_version'' (ec_algorithm_version c)) (Inr c)"

definition default_execution_config :: paper_execution_config where
  "default_execution_config =
     \<lparr>ec_slippage = \<lparr>sl_mode = NONE, sl_value = dzero\<rparr>,
      ec_fee_schedule = \<lparr>fs_kind = ZERO, fs_rules = []\<rparr>,
      ec_algorithm_version = ''paper-execution-v1''\<rparr>"

definition fee_rule_payload :: "paper_fee_rule \<Rightarrow> json" where
  "fee_rule_payload r =
     JObj [(''amount_per_unit'', JStr (semantic_decimal (fr_amount_per_unit r))),
           (''currency'', JStr (fr_currency r)),
           (''instrument_id'', JStr (fr_instrument_id r)),
           (''policy_id'', JStr (fr_policy_id r)),
           (''policy_version'', JStr (fr_policy_version r)),
           (''quantum'', JStr (semantic_decimal (fr_quantum r))),
           (''rounding_mode'', JStr (fee_rounding_value (fr_rounding_mode r)))]"

definition execution_config_payload :: "paper_execution_config \<Rightarrow> json" where
  "execution_config_payload c =
     JObj [(''algorithm_version'', JStr (ec_algorithm_version c)),
           (''fee_schedule'', JObj
              [(''kind'', JStr (fee_kind_value (fs_kind (ec_fee_schedule c)))),
               (''rules'', JArr (map fee_rule_payload (fs_rules (ec_fee_schedule c))))]),
           (''semantics'', JObj
              [(''decimal_context'', JStr ''decimal128-round-half-even''),
               (''limit_after_slippage'', JBool True),
               (''position_ledger'', JStr ''signed-net-v1-allow-short''),
               (''tick_snapping'', JBool False)]),
           (''slippage'', JObj
              [(''mode'', JStr (slippage_value (sl_mode (ec_slippage c)))),
               (''value'', JStr (semantic_decimal (sl_value (ec_slippage c))))])]"

definition execution_config_fingerprint :: "hashes \<Rightarrow> paper_execution_config \<Rightarrow> string" where
  "execution_config_fingerprint h c =
     ''sha256:'' @ sha256_hex h (''tx_trade.paper.execution.v1:''
                               @ json_dumps True (execution_config_payload c))"

section \<open>Intents\<close>

record order_intent =
  in_strategy_id :: string
  in_client_order_id :: string
  in_account_id :: string
  in_instrument_id :: string
  in_side :: order_side
  in_quantity :: decimal
  in_order_type :: order_type
  in_limit_price :: "decimal option"
  in_time_in_force :: time_in_force
  in_day_trade :: bool
  in_created_at :: instant
  in_source_session_id :: "uuid option"
  in_source_ingest_sequence :: "int option"

definition order_intent_init :: "order_intent \<Rightarrow> order_intent result" where
  "order_intent_init i =
     ethen (strict_string ''strategy_id'' (in_strategy_id i)) (
     ethen (strict_string ''client_order_id'' (in_client_order_id i)) (
     ethen (strict_string ''account_id'' (in_account_id i)) (
     ethen (strict_string ''instrument_id'' (in_instrument_id i)) (
     ethen (decimal_positive ''quantity'' (in_quantity i)) (
     ethen (source_pair (in_source_session_id i) (in_source_ingest_sequence i)) (
     case in_order_type i of
       MARKET \<Rightarrow> ethen (require (in_limit_price i = None)
                          (ValueError ''market orders must not have a limit_price'')) (Inr i)
     | LIMIT \<Rightarrow> (case in_limit_price i of
                    None \<Rightarrow> Inl (TypeError ''limit_price must be Decimal'')
                  | Some p \<Rightarrow> ethen (decimal_positive ''limit_price'' p) (Inr i))))))))"

record cancel_intent =
  cn_strategy_id :: string
  cn_client_order_id :: string
  cn_paper_order_id :: uuid
  cn_requested_at :: instant
  cn_source_session_id :: "uuid option"
  cn_source_ingest_sequence :: "int option"

definition cancel_intent_init :: "cancel_intent \<Rightarrow> cancel_intent result" where
  "cancel_intent_init c =
     ethen (strict_string ''strategy_id'' (cn_strategy_id c)) (
     ethen (strict_string ''client_order_id'' (cn_client_order_id c)) (
     ethen (source_pair (cn_source_session_id c) (cn_source_ingest_sequence c))
     (Inr c)))"

datatype paper_command = SubmitCommand order_intent | CancelCommand cancel_intent

section \<open>Orders, fills, rejections, positions\<close>

record paper_order =
  or_paper_run_id :: uuid
  or_paper_order_id :: uuid
  or_intent :: order_intent
  or_status :: order_status
  or_filled_quantity :: decimal
  or_remaining_quantity :: decimal
  or_average_fill_price :: "decimal option"
  or_accepted_at :: "instant option"
  or_updated_at :: instant

definition order_status_ok :: "paper_order \<Rightarrow> unit result" where
  "order_status_ok p =
     (let q = in_quantity (or_intent p); f = or_filled_quantity p in
      case or_status p of
        ACCEPTED \<Rightarrow> require (diszero f)
          (ValueError ''accepted/rejected orders must have zero filled_quantity'')
      | REJECTED \<Rightarrow> require (diszero f)
          (ValueError ''accepted/rejected orders must have zero filled_quantity'')
      | PARTIALLY_FILLED \<Rightarrow> require (dpos f \<and> dlt f q)
          (ValueError ''partially filled orders require a partial filled_quantity'')
      | FILLED \<Rightarrow> require (deq f q)
          (ValueError ''filled orders require the full intent quantity'')
      | CANCELLED \<Rightarrow> require (dpos (or_remaining_quantity p))
          (ValueError ''cancelled orders must have remaining quantity''))"

definition order_times_ok :: "paper_order \<Rightarrow> unit result" where
  "order_times_ok p =
     ethen (if or_status p = REJECTED
            then require (or_accepted_at p = None)
                   (ValueError ''rejected orders must not have accepted_at'')
            else (case or_accepted_at p of
                    None \<Rightarrow> Inl (ValueError ''non-rejected orders require accepted_at'')
                  | Some t \<Rightarrow> require (in_created_at (or_intent p) \<le> t)
                      (ValueError ''accepted_at must not precede intent.created_at''))) (
     ethen (require (in_created_at (or_intent p) \<le> or_updated_at p)
              (ValueError ''updated_at must not precede intent.created_at''))
     (case or_accepted_at p of
        None \<Rightarrow> Inr ()
      | Some t \<Rightarrow> require (t \<le> or_updated_at p)
          (ValueError ''updated_at must not precede accepted_at'')))"

definition paper_order_init :: "dctx \<Rightarrow> paper_order \<Rightarrow> paper_order result" where
  "paper_order_init c p =
     ethen (decimal_nonnegative ''filled_quantity'' (or_filled_quantity p)) (
     ethen (decimal_nonnegative ''remaining_quantity'' (or_remaining_quantity p)) (
     ethen (optionally (decimal_positive ''average_fill_price'') (or_average_fill_price p)) (
     ebind (dadd c (or_filled_quantity p) (or_remaining_quantity p)) (\<lambda>total.
     ethen (require (deq total (in_quantity (or_intent p)))
              (ValueError ''filled_quantity + remaining_quantity must equal intent quantity'')) (
     ethen (require (diszero (or_filled_quantity p) = (or_average_fill_price p = None))
              (ValueError ''average_fill_price must be present exactly when quantity is filled'')) (
     ethen (order_status_ok p) (
     ethen (order_times_ok p)
     (Inr p))))))))"

record paper_fill =
  fi_paper_run_id :: uuid
  fi_paper_fill_id :: uuid
  fi_paper_order_id :: uuid
  fi_strategy_id :: string
  fi_account_id :: string
  fi_instrument_id :: string
  fi_side :: order_side
  fi_quantity :: decimal
  fi_execution_price :: decimal
  fi_fee :: decimal
  fi_source_session_id :: uuid
  fi_source_ingest_sequence :: int
  fi_occurred_at :: instant
  fi_reference_price :: "decimal option"
  fi_slippage_amount :: decimal
  fi_fee_currency :: "string option"
  fi_execution_config_fingerprint :: string

text \<open>The default of the reference price is the execution price, filled in before the checks.\<close>

definition reference_of :: "paper_fill \<Rightarrow> decimal" where
  "reference_of f = (case fi_reference_price f of None \<Rightarrow> fi_execution_price f | Some p \<Rightarrow> p)"

definition paper_fill_init :: "dctx \<Rightarrow> paper_fill \<Rightarrow> paper_fill result" where
  "paper_fill_init c f =
     ethen (strict_string ''strategy_id'' (fi_strategy_id f)) (
     ethen (strict_string ''account_id'' (fi_account_id f)) (
     ethen (strict_string ''instrument_id'' (fi_instrument_id f)) (
     ethen (decimal_positive ''quantity'' (fi_quantity f)) (
     ethen (decimal_positive ''execution_price'' (fi_execution_price f)) (
     ethen (decimal_nonnegative ''fee'' (fi_fee f)) (
     ethen (decimal_positive ''reference_price'' (reference_of f)) (
     ethen (decimal_nonnegative ''slippage_amount'' (fi_slippage_amount f)) (
     ethen (optionally (currency_ok ''fee_currency'') (fi_fee_currency f)) (
     ethen (fingerprint_ok ''execution_config_fingerprint'' (fi_execution_config_fingerprint f)) (
     ethen (nonnegative_int ''source_ingest_sequence'' (fi_source_ingest_sequence f)) (
     ebind (dsub c (fi_execution_price f) (reference_of f)) (\<lambda>diff.
     ebind (dabs c diff) (\<lambda>delta.
     ethen (require (deq delta (fi_slippage_amount f))
              (ValueError ''slippage_amount must equal the absolute execution price delta'')) (
     ethen (require (fi_side f = BUY \<longrightarrow> dle (reference_of f) (fi_execution_price f))
              (ValueError ''BUY execution_price must not be below reference_price'')) (
     ethen (require (fi_side f = SELL \<longrightarrow> dle (fi_execution_price f) (reference_of f))
              (ValueError ''SELL execution_price must not be above reference_price'')) (
     ethen (require (diszero (fi_fee f) = (fi_fee_currency f = None))
              (ValueError ''fee_currency must be present exactly when fee is nonzero''))
     (Inr (f\<lparr>fi_reference_price := Some (reference_of f)\<rparr>))))))))))))))))))"

record paper_rejection =
  rj_paper_run_id :: uuid
  rj_strategy_id :: string
  rj_client_order_id :: string
  rj_code :: rejection_code
  rj_rejected_at :: instant
  rj_paper_order_id :: "uuid option"

definition paper_rejection_init :: "paper_rejection \<Rightarrow> paper_rejection result" where
  "paper_rejection_init r =
     ethen (strict_string ''strategy_id'' (rj_strategy_id r)) (
     ethen (strict_string ''client_order_id'' (rj_client_order_id r)) (Inr r))"

definition rejection_message :: "paper_rejection \<Rightarrow> string" where
  "rejection_message r = public_message (rj_code r)"

record paper_position =
  po_paper_run_id :: uuid
  po_paper_position_id :: uuid
  po_strategy_id :: string
  po_account_id :: string
  po_instrument_id :: string
  po_net_quantity :: decimal
  po_average_open_price :: "decimal option"
  po_cumulative_fees :: decimal
  po_fee_currency :: "string option"
  po_version :: int
  po_updated_at :: instant

definition paper_position_init :: "paper_position \<Rightarrow> paper_position result" where
  "paper_position_init p =
     ethen (strict_string ''strategy_id'' (po_strategy_id p)) (
     ethen (strict_string ''account_id'' (po_account_id p)) (
     ethen (strict_string ''instrument_id'' (po_instrument_id p)) (
     ethen (optionally (decimal_positive ''average_open_price'') (po_average_open_price p)) (
     ethen (decimal_nonnegative ''cumulative_fees'' (po_cumulative_fees p)) (
     ethen (optionally (currency_ok ''fee_currency'') (po_fee_currency p)) (
     ethen (positive_int ''version'' (po_version p)) (
     ethen (require (diszero (po_net_quantity p) = (po_average_open_price p = None))
              (ValueError ''average_open_price must be present exactly when net_quantity is non-zero'')) (
     ethen (require (diszero (po_cumulative_fees p) = (po_fee_currency p = None))
              (ValueError ''fee_currency must be present exactly when cumulative_fees is nonzero''))
     (Inr p)))))))))"

text \<open>
  Python's equality of the frozen dataclasses: field by field, Decimals by value.
\<close>

definition same_intent :: "order_intent \<Rightarrow> order_intent \<Rightarrow> bool" where
  "same_intent a b \<longleftrightarrow>
     in_strategy_id a = in_strategy_id b \<and> in_client_order_id a = in_client_order_id b
     \<and> in_account_id a = in_account_id b \<and> in_instrument_id a = in_instrument_id b
     \<and> in_side a = in_side b \<and> deq (in_quantity a) (in_quantity b)
     \<and> in_order_type a = in_order_type b \<and> opt_deq (in_limit_price a) (in_limit_price b)
     \<and> in_time_in_force a = in_time_in_force b \<and> in_day_trade a = in_day_trade b
     \<and> in_created_at a = in_created_at b \<and> in_source_session_id a = in_source_session_id b
     \<and> in_source_ingest_sequence a = in_source_ingest_sequence b"

definition same_order :: "paper_order \<Rightarrow> paper_order \<Rightarrow> bool" where
  "same_order a b \<longleftrightarrow>
     or_paper_run_id a = or_paper_run_id b \<and> or_paper_order_id a = or_paper_order_id b
     \<and> same_intent (or_intent a) (or_intent b) \<and> or_status a = or_status b
     \<and> deq (or_filled_quantity a) (or_filled_quantity b)
     \<and> deq (or_remaining_quantity a) (or_remaining_quantity b)
     \<and> opt_deq (or_average_fill_price a) (or_average_fill_price b)
     \<and> or_accepted_at a = or_accepted_at b \<and> or_updated_at a = or_updated_at b"

definition same_fill :: "paper_fill \<Rightarrow> paper_fill \<Rightarrow> bool" where
  "same_fill a b \<longleftrightarrow>
     fi_paper_run_id a = fi_paper_run_id b \<and> fi_paper_fill_id a = fi_paper_fill_id b
     \<and> fi_paper_order_id a = fi_paper_order_id b \<and> fi_strategy_id a = fi_strategy_id b
     \<and> fi_account_id a = fi_account_id b \<and> fi_instrument_id a = fi_instrument_id b
     \<and> fi_side a = fi_side b \<and> deq (fi_quantity a) (fi_quantity b)
     \<and> deq (fi_execution_price a) (fi_execution_price b) \<and> deq (fi_fee a) (fi_fee b)
     \<and> fi_source_session_id a = fi_source_session_id b
     \<and> fi_source_ingest_sequence a = fi_source_ingest_sequence b
     \<and> fi_occurred_at a = fi_occurred_at b
     \<and> opt_deq (fi_reference_price a) (fi_reference_price b)
     \<and> deq (fi_slippage_amount a) (fi_slippage_amount b)
     \<and> fi_fee_currency a = fi_fee_currency b
     \<and> fi_execution_config_fingerprint a = fi_execution_config_fingerprint b"

definition same_position :: "paper_position \<Rightarrow> paper_position \<Rightarrow> bool" where
  "same_position a b \<longleftrightarrow>
     po_paper_run_id a = po_paper_run_id b \<and> po_paper_position_id a = po_paper_position_id b
     \<and> po_strategy_id a = po_strategy_id b \<and> po_account_id a = po_account_id b
     \<and> po_instrument_id a = po_instrument_id b \<and> deq (po_net_quantity a) (po_net_quantity b)
     \<and> opt_deq (po_average_open_price a) (po_average_open_price b)
     \<and> deq (po_cumulative_fees a) (po_cumulative_fees b)
     \<and> po_fee_currency a = po_fee_currency b \<and> po_version a = po_version b
     \<and> po_updated_at a = po_updated_at b"

section \<open>Events\<close>

datatype paper_event_payload =
    OrderPayload paper_order
  | FillPayload paper_fill
  | RejectionPayload paper_rejection
  | PositionPayload paper_position

definition same_payload :: "paper_event_payload \<Rightarrow> paper_event_payload \<Rightarrow> bool" where
  "same_payload a b =
     (case (a, b) of
        (OrderPayload x, OrderPayload y) \<Rightarrow> same_order x y
      | (FillPayload x, FillPayload y) \<Rightarrow> same_fill x y
      | (RejectionPayload x, RejectionPayload y) \<Rightarrow> x = y
      | (PositionPayload x, PositionPayload y) \<Rightarrow> same_position x y
      | _ \<Rightarrow> False)"

fun payload_run_id :: "paper_event_payload \<Rightarrow> uuid" where
  "payload_run_id (OrderPayload p) = or_paper_run_id p"
| "payload_run_id (FillPayload f) = fi_paper_run_id f"
| "payload_run_id (RejectionPayload r) = rj_paper_run_id r"
| "payload_run_id (PositionPayload p) = po_paper_run_id p"

fun payload_time :: "paper_event_payload \<Rightarrow> instant" where
  "payload_time (OrderPayload p) = or_updated_at p"
| "payload_time (FillPayload f) = fi_occurred_at f"
| "payload_time (RejectionPayload r) = rj_rejected_at r"
| "payload_time (PositionPayload p) = po_updated_at p"

fun order_event_status :: "paper_event_type \<Rightarrow> order_status option" where
  "order_event_status ORDER_ACCEPTED = Some ACCEPTED"
| "order_event_status ORDER_PARTIALLY_FILLED = Some PARTIALLY_FILLED"
| "order_event_status ORDER_FILLED = Some FILLED"
| "order_event_status ORDER_CANCELLED = Some CANCELLED"
| "order_event_status _ = None"

definition market_caused :: "paper_event_type \<Rightarrow> bool" where
  "market_caused t = (t \<in> {ORDER_PARTIALLY_FILLED, ORDER_FILLED, FILL_RECORDED, POSITION_CHANGED})"

record paper_event =
  ev_paper_run_id :: uuid
  ev_paper_event_id :: uuid
  ev_paper_sequence :: int
  ev_event_type :: paper_event_type
  ev_payload :: paper_event_payload
  ev_occurred_at :: instant
  ev_source_session_id :: "uuid option"
  ev_source_ingest_sequence :: "int option"

definition same_event :: "paper_event \<Rightarrow> paper_event \<Rightarrow> bool" where
  "same_event a b \<longleftrightarrow>
     ev_paper_run_id a = ev_paper_run_id b \<and> ev_paper_event_id a = ev_paper_event_id b
     \<and> ev_paper_sequence a = ev_paper_sequence b \<and> ev_event_type a = ev_event_type b
     \<and> same_payload (ev_payload a) (ev_payload b) \<and> ev_occurred_at a = ev_occurred_at b
     \<and> ev_source_session_id a = ev_source_session_id b
     \<and> ev_source_ingest_sequence a = ev_source_ingest_sequence b"

definition event_payload_ok :: "paper_event_type \<Rightarrow> paper_event_payload \<Rightarrow> unit result" where
  "event_payload_ok t p =
     (case order_event_status t of
        Some st \<Rightarrow> (case p of OrderPayload ord \<Rightarrow>
              require (or_status ord = st) (ValueError ''order event type must match PaperOrder status'')
            | _ \<Rightarrow> Inl (ValueError ''order event type must match PaperOrder status''))
      | None \<Rightarrow> (case (t, p) of
            (ORDER_REJECTED, RejectionPayload _) \<Rightarrow> Inr ()
          | (ORDER_REJECTED, _) \<Rightarrow> Inl (ValueError ''order_rejected payload must be PaperRejection'')
          | (FILL_RECORDED, FillPayload _) \<Rightarrow> Inr ()
          | (FILL_RECORDED, _) \<Rightarrow> Inl (ValueError ''fill_recorded payload must be PaperFill'')
          | (POSITION_CHANGED, PositionPayload _) \<Rightarrow> Inr ()
          | (POSITION_CHANGED, _) \<Rightarrow> Inl (ValueError ''position_changed payload must be PaperPosition'')
          | _ \<Rightarrow> Inr ()))"

definition paper_event_init :: "paper_event \<Rightarrow> paper_event result" where
  "paper_event_init e =
     ethen (positive_int ''paper_sequence'' (ev_paper_sequence e)) (
     ethen (source_pair (ev_source_session_id e) (ev_source_ingest_sequence e)) (
     ethen (require (payload_run_id (ev_payload e) = ev_paper_run_id e)
              (ValueError ''payload paper_run_id must match event'')) (
     ethen (event_payload_ok (ev_event_type e) (ev_payload e)) (
     ethen (require (market_caused (ev_event_type e) \<longrightarrow> ev_source_session_id e \<noteq> None)
              (ValueError ''fill-driven and position events require market-data source causation'')) (
     ethen (require (ev_occurred_at e = payload_time (ev_payload e))
              (ValueError ''payload time must match event occurred_at'')) (
     ethen (case ev_payload e of
              FillPayload f \<Rightarrow>
                require (ev_source_session_id e = Some (fi_source_session_id f)
                         \<and> ev_source_ingest_sequence e = Some (fi_source_ingest_sequence f))
                  (ValueError ''fill source causation must match event'')
            | _ \<Rightarrow> Inr ())
     (Inr e)))))))"

section \<open>Instrument metadata and limits\<close>

record instrument_metadata =
  im_instrument_id :: string
  im_metadata_version :: int
  im_price_scale :: "decimal option"
  im_quantity_scale :: "decimal option"
  im_currency :: "string option"

definition instrument_metadata_init :: "instrument_metadata \<Rightarrow> instrument_metadata result" where
  "instrument_metadata_init m =
     ethen (strict_string ''instrument_id'' (im_instrument_id m)) (
     ethen (positive_int ''metadata_version'' (im_metadata_version m)) (
     ethen (optionally (decimal_positive ''price_scale'') (im_price_scale m)) (
     ethen (optionally (decimal_positive ''quantity_scale'') (im_quantity_scale m)) (
     ethen (optionally (currency_ok ''currency'') (im_currency m))
     (Inr m)))))"

definition same_metadata :: "instrument_metadata \<Rightarrow> instrument_metadata \<Rightarrow> bool" where
  "same_metadata a b \<longleftrightarrow>
     im_instrument_id a = im_instrument_id b \<and> im_metadata_version a = im_metadata_version b
     \<and> opt_deq (im_price_scale a) (im_price_scale b)
     \<and> opt_deq (im_quantity_scale a) (im_quantity_scale b) \<and> im_currency a = im_currency b"

record paper_broker_limits =
  max_orders :: int
  max_open_orders :: int
  max_fills :: int
  max_events :: int
  max_market_data_records :: int
  max_instrument_versions :: int
  max_positions :: int

definition paper_broker_limits_init :: "paper_broker_limits \<Rightarrow> paper_broker_limits result" where
  "paper_broker_limits_init l =
     ethen (positive_int ''max_orders'' (max_orders l)) (
     ethen (positive_int ''max_open_orders'' (max_open_orders l)) (
     ethen (positive_int ''max_fills'' (max_fills l)) (
     ethen (positive_int ''max_events'' (max_events l)) (
     ethen (positive_int ''max_market_data_records'' (max_market_data_records l)) (
     ethen (positive_int ''max_instrument_versions'' (max_instrument_versions l)) (
     ethen (positive_int ''max_positions'' (max_positions l)) (
     ethen (require (max_open_orders l \<le> max_orders l)
              (ValueError ''max_open_orders must not exceed max_orders''))
     (Inr l))))))))"

section \<open>Canonical JSON\<close>

definition canonical_decimal :: "decimal \<Rightarrow> string" where
  "canonical_decimal v =
     (if coef v = 0 then ''0''
      else
        let (n, e) = trim_zeros \<bar>coef v\<bar> (expo v);
            coefficient = show_digits n;
            len = int (length coefficient);
            sign = (if coef v < 0 then ''-'' else []);
            adjusted = e + len - 1;
            scientific_coefficient =
              (if len = 1 then coefficient else take 1 coefficient @ ''.'' @ drop 1 coefficient);
            scientific = (if adjusted = 0 then sign @ scientific_coefficient
                          else sign @ scientific_coefficient @ ''e'' @ show_int adjusted);
            point = len + e;
            plain_length = (if point \<le> 0 then int (length sign) + 2 - point + len
                            else if len \<le> point then int (length sign) + point
                            else int (length sign) + len + 1)
        in if int (length scientific) < plain_length then scientific
           else if point \<le> 0
           then sign @ ''0.'' @ replicate (nat (- point)) (CHR ''0'') @ coefficient
           else if len \<le> point then sign @ coefficient @ replicate (nat e) (CHR ''0'')
           else sign @ take (nat point) coefficient @ ''.'' @ drop (nat point) coefficient)"

definition json_decimal :: "decimal \<Rightarrow> json" where
  "json_decimal v = JStr (canonical_decimal v)"

definition json_order_intent :: "order_intent \<Rightarrow> json" where
  "json_order_intent i =
     JObj [(''strategy_id'', JStr (in_strategy_id i)),
           (''client_order_id'', JStr (in_client_order_id i)),
           (''account_id'', JStr (in_account_id i)),
           (''instrument_id'', JStr (in_instrument_id i)),
           (''side'', JStr (side_value (in_side i))),
           (''quantity'', json_decimal (in_quantity i)),
           (''order_type'', JStr (type_value (in_order_type i))),
           (''limit_price'', json_opt json_decimal (in_limit_price i)),
           (''time_in_force'', JStr (tif_value (in_time_in_force i))),
           (''day_trade'', JBool (in_day_trade i)),
           (''created_at'', json_instant (in_created_at i)),
           (''source_session_id'', json_opt json_uuid (in_source_session_id i)),
           (''source_ingest_sequence'', json_opt JInt (in_source_ingest_sequence i))]"

definition json_cancel_intent :: "cancel_intent \<Rightarrow> json" where
  "json_cancel_intent c =
     JObj [(''strategy_id'', JStr (cn_strategy_id c)),
           (''client_order_id'', JStr (cn_client_order_id c)),
           (''paper_order_id'', json_uuid (cn_paper_order_id c)),
           (''requested_at'', json_instant (cn_requested_at c)),
           (''source_session_id'', json_opt json_uuid (cn_source_session_id c)),
           (''source_ingest_sequence'', json_opt JInt (cn_source_ingest_sequence c))]"

fun json_command :: "paper_command \<Rightarrow> json" where
  "json_command (SubmitCommand i) = json_order_intent i"
| "json_command (CancelCommand c) = json_cancel_intent c"

definition canonical_json :: "json \<Rightarrow> string" where
  "canonical_json v = json_dumps False v"

section \<open>Decisions\<close>

record paper_decision =
  de_source_session_id :: uuid
  de_source_ingest_sequence :: int
  de_commands :: "paper_command list"
  de_decision_fingerprint :: string

definition paper_decision_fingerprint :: "hashes \<Rightarrow> uuid \<Rightarrow> int \<Rightarrow> paper_command list \<Rightarrow> string" where
  "paper_decision_fingerprint h session seq commands =
     ''sha256:'' @ sha256_hex h (''tx_trade.paper.decision.v1:'' @ json_dumps True (JObj
        [(''commands'', JArr (map json_command commands)),
         (''source_ingest_sequence'', JInt seq),
         (''source_session_id'', json_uuid session)]))"

fun command_source :: "paper_command \<Rightarrow> uuid option \<times> int option" where
  "command_source (SubmitCommand i) = (in_source_session_id i, in_source_ingest_sequence i)"
| "command_source (CancelCommand c) = (cn_source_session_id c, cn_source_ingest_sequence c)"

definition paper_decision_init :: "hashes \<Rightarrow> uuid \<Rightarrow> int \<Rightarrow> paper_command list \<Rightarrow> paper_decision result" where
  "paper_decision_init h session seq commands =
     ethen (nonnegative_int ''source_ingest_sequence'' seq) (
     ethen (require (list_all (\<lambda>c. command_source c = (Some session, Some seq)) commands)
              (ValueError ''command source causation must match decision''))
     (Inr \<lparr>de_source_session_id = session, de_source_ingest_sequence = seq,
           de_commands = commands,
           de_decision_fingerprint = paper_decision_fingerprint h session seq commands\<rparr>))"

section \<open>Results and snapshots\<close>

record match_result =
  mr_paper_run_id :: uuid
  mr_disposition :: match_disposition
  mr_source_session_id :: uuid
  mr_source_ingest_sequence :: int
  mr_fills :: "paper_fill list"
  mr_events :: "paper_event list"
  mr_skip_reasons :: "match_skip_reason list"
  mr_snapshot_version :: int
  mr_positions :: "paper_position list"

definition match_result_init :: "match_result \<Rightarrow> match_result result" where
  "match_result_init r =
     (let run = mr_paper_run_id r; session = mr_source_session_id r; seq = mr_source_ingest_sequence r in
      ethen (nonnegative_int ''source_ingest_sequence'' seq) (
      ethen (nonnegative_int ''snapshot_version'' (mr_snapshot_version r)) (
      ethen (require (distinct (mr_skip_reasons r))
               (ValueError ''skip_reasons must not contain duplicates'')) (
      ethen (efold (\<lambda>f _.
               ethen (require (fi_paper_run_id f = run)
                        (ValueError ''fill paper_run_id must match result''))
                 (require (fi_source_session_id f = session \<and> fi_source_ingest_sequence f = seq)
                        (ValueError ''fill source causation must match result'')))
               (mr_fills r) ()) (
      ethen (efold (\<lambda>e _.
               ethen (require (ev_paper_run_id e = run)
                        (ValueError ''event paper_run_id must match result''))
                 (require (ev_source_session_id e \<noteq> None \<longrightarrow>
                             ev_source_session_id e = Some session
                             \<and> ev_source_ingest_sequence e = Some seq)
                        (ValueError ''event source causation must match result'')))
               (mr_events r) ()) (
      ethen (require (list_all (\<lambda>p. po_paper_run_id p = run) (mr_positions r))
               (ValueError ''position paper_run_id must match result'')) (
      ethen (require (mr_disposition r = DUPLICATE \<longrightarrow>
                        mr_fills r = [] \<and> mr_events r = [] \<and> mr_positions r = [])
               (ValueError ''duplicate results must not contain fills, events, or positions''))
      (Inr r))))))))"

datatype command_outcome = OrderOutcome paper_order | RejectionOutcome paper_rejection

fun outcome_run_id :: "command_outcome \<Rightarrow> uuid" where
  "outcome_run_id (OrderOutcome p) = or_paper_run_id p"
| "outcome_run_id (RejectionOutcome r) = rj_paper_run_id r"

record decision_batch_result =
  br_paper_run_id :: uuid
  br_source_session_id :: uuid
  br_source_ingest_sequence :: int
  br_decision_fingerprint :: string
  br_match_result :: match_result
  br_command_results :: "command_outcome list"
  br_events :: "paper_event list"

fun increasing_sequences :: "paper_event list \<Rightarrow> bool" where
  "increasing_sequences (a # b # es) =
     (ev_paper_sequence a < ev_paper_sequence b \<and> increasing_sequences (b # es))"
| "increasing_sequences _ = True"

definition decision_batch_result_init :: "decision_batch_result \<Rightarrow> decision_batch_result result" where
  "decision_batch_result_init b =
     (let run = br_paper_run_id b; m = br_match_result b;
          session = br_source_session_id b; seq = br_source_ingest_sequence b in
      ethen (nonnegative_int ''source_ingest_sequence'' seq) (
      ethen (fingerprint_ok ''decision_fingerprint'' (br_decision_fingerprint b)) (
      ethen (require (mr_paper_run_id m = run)
               (ValueError ''match_result paper_run_id must match batch result'')) (
      ethen (require (mr_source_session_id m = session \<and> mr_source_ingest_sequence m = seq)
               (ValueError ''match_result source causation must match batch result'')) (
      ethen (require (list_all (\<lambda>c. outcome_run_id c = run) (br_command_results b))
               (ValueError ''command result paper_run_id must match batch result'')) (
      ethen (require (list_all2 same_event (take (length (mr_events m)) (br_events b)) (mr_events m))
               (ValueError ''batch events must start with match_result events'')) (
      ethen (efold (\<lambda>e _.
               ethen (require (ev_paper_run_id e = run)
                        (ValueError ''event paper_run_id must match batch result''))
                 (require (ev_source_session_id e = Some session
                           \<and> ev_source_ingest_sequence e = Some seq)
                        (ValueError ''event source causation must match batch result'')))
               (br_events b) ()) (
      ethen (require (increasing_sequences (br_events b))
               (ValueError ''events must have strictly increasing paper_sequence'')) (
      ethen (require (mr_disposition m = DUPLICATE \<longrightarrow> br_command_results b = [] \<and> br_events b = [])
               (ValueError ''duplicate batch results must not contain command results or events''))
      (Inr b))))))))))"

record paper_broker_snapshot =
  sn_paper_run_id :: uuid
  sn_bound_source_session_id :: "uuid option"
  sn_last_committed_ingest_sequence :: "int option"
  sn_next_paper_sequence :: int
  sn_snapshot_version :: int
  sn_orders :: "paper_order list"
  sn_fills :: "paper_fill list"
  sn_events :: "paper_event list"
  sn_instruments :: "instrument_metadata list"
  sn_positions :: "paper_position list"
  sn_execution_config_fingerprint :: string

definition position_key :: "paper_position \<Rightarrow> string \<times> string \<times> string" where
  "position_key p = (po_strategy_id p, po_account_id p, po_instrument_id p)"

definition paper_broker_snapshot_init :: "paper_broker_snapshot \<Rightarrow> paper_broker_snapshot result" where
  "paper_broker_snapshot_init s =
     (let run = sn_paper_run_id s; keys = map position_key (sn_positions s) in
      ethen (source_pair (sn_bound_source_session_id s) (sn_last_committed_ingest_sequence s)) (
      ethen (positive_int ''next_paper_sequence'' (sn_next_paper_sequence s)) (
      ethen (nonnegative_int ''snapshot_version'' (sn_snapshot_version s)) (
      ethen (fingerprint_ok ''execution_config_fingerprint'' (sn_execution_config_fingerprint s)) (
      ethen (require (list_all (\<lambda>p. or_paper_run_id p = run) (sn_orders s))
               (ValueError ''order paper_run_id must match snapshot'')) (
      ethen (require (list_all (\<lambda>f. fi_paper_run_id f = run) (sn_fills s))
               (ValueError ''fill paper_run_id must match snapshot'')) (
      ethen (require (list_all (\<lambda>e. ev_paper_run_id e = run) (sn_events s))
               (ValueError ''event paper_run_id must match snapshot'')) (
      ethen (require (list_all (\<lambda>p. po_paper_run_id p = run) (sn_positions s))
               (ValueError ''position paper_run_id must match snapshot'')) (
      ethen (require (keys = sort keys)
               (ValueError ''positions must be sorted by strategy, account, and instrument'')) (
      ethen (require (distinct keys)
               (ValueError ''positions must have unique strategy, account, and instrument keys'')) (
      ethen (require (sn_next_paper_sequence s =
                        (if sn_events s = [] then 1 else ev_paper_sequence (last (sn_events s)) + 1))
               (ValueError ''next_paper_sequence must follow the event journal'')) (
      ethen (require (increasing_sequences (sn_events s))
               (ValueError ''events must have strictly increasing paper_sequence''))
      (Inr s)))))))))))))"

end
