(* ===== verification/Execution_Policies.thy ===== *)
theory Execution_Policies
  imports Paper_Contracts
begin

text \<open>
  Slippage, limit and fee policies of paper execution, \<open>orders/execution_policies.py\<close>. Arithmetic runs
  in decimal128 contexts of 34 digits; the fee is the difference of two cumulative fees, each a
  multiple of the quantum, computed in a context that traps every inexact result.
\<close>

definition decimal_context :: "rounding \<Rightarrow> dctx" where
  "decimal_context r = \<lparr>prec = 34, rnd = r, emin = -6143, emax = 6144, clamp = True, traps_exact = False\<rparr>"

definition exact_decimal_context :: "rounding \<Rightarrow> dctx" where
  "exact_decimal_context r = (decimal_context r)\<lparr>traps_exact := True\<rparr>"

text \<open>\<open>except DecimalException as exc: raise ExecutionPolicyError (ARITHMETIC_FAILURE) from exc\<close>\<close>

definition policy_arithmetic :: "'a result \<Rightarrow> 'a result" where
  "policy_arithmetic m =
     (case m of Inl (DecimalException s) \<Rightarrow> Inl (ExecutionPolicyError POLICY_ARITHMETIC_FAILURE) | _ \<Rightarrow> m)"

lemma policy_arithmetic_eq_Inr [err_simps]: "policy_arithmetic m = Inr x \<longleftrightarrow> m = Inr x"
  by (cases m) (auto simp: policy_arithmetic_def split: pyexn.splits)

record slippage_assessment =
  sa_reference_price :: decimal
  sa_execution_price :: decimal
  sa_slippage_amount :: decimal

text \<open>An assessment is executable exactly when it names no skip reason.\<close>

record limit_assessment =
  la_executable :: bool
  la_skip_reason :: "match_skip_reason option"

definition limit_assessment_init :: "bool \<Rightarrow> match_skip_reason option \<Rightarrow> limit_assessment result" where
  "limit_assessment_init executable reason =
     ethen (require (executable = (reason = None))
              (ValueError ''skip_reason must be present exactly when execution is disallowed''))
       (Inr \<lparr>la_executable = executable, la_skip_reason = reason\<rparr>)"

record fee_assessment =
  fa_fee :: decimal
  fa_currency :: "string option"

definition fee_assessment_init :: "decimal \<Rightarrow> string option \<Rightarrow> fee_assessment result" where
  "fee_assessment_init fee currency =
     ethen (require (dnonneg fee) (ValueError ''fee must be a finite non-negative Decimal'')) (
     ethen (require (diszero fee = (currency = None))
              (ValueError ''currency must be present exactly when fee is nonzero''))
       (Inr \<lparr>fa_fee = fee, fa_currency = currency\<rparr>))"

definition slippage_delta :: "dctx \<Rightarrow> decimal \<Rightarrow> slippage_config \<Rightarrow> decimal result" where
  "slippage_delta c reference config =
     (case sl_mode config of
        NONE \<Rightarrow> Inr dzero
      | BASIS_POINTS \<Rightarrow>
          ebind (dmul c reference (sl_value config)) (\<lambda>x. ddiv c x (dec_of_int 10000))
      | ABSOLUTE \<Rightarrow> dplus c (sl_value config))"

definition assess_slippage :: "decimal \<Rightarrow> order_side \<Rightarrow> slippage_config \<Rightarrow> slippage_assessment result" where
  "assess_slippage reference side config =
     ethen (require (dpos reference) (ExecutionPolicyError INVALID_INPUT)) (
     let c = decimal_context ROUND_HALF_EVEN in
     ebind (policy_arithmetic (
       ebind (slippage_delta c reference config) (\<lambda>delta.
       ebind (case side of BUY \<Rightarrow> dadd c reference delta | SELL \<Rightarrow> dsub c reference delta) (\<lambda>execution.
       ebind (dsub c execution reference) (\<lambda>diff.
       ebind (dabs c diff) (\<lambda>actual. Inr (delta, execution, actual))))))) (\<lambda>(delta, execution, actual).
     ethen (require (dnonneg delta) (ExecutionPolicyError POLICY_ARITHMETIC_FAILURE)) (
     ethen (require (\<not> (sl_mode config \<noteq> NONE \<and> (diszero delta \<or> diszero actual)))
              (ExecutionPolicyError SLIPPAGE_UNREPRESENTABLE)) (
     ethen (require (dpos execution) (ExecutionPolicyError SLIPPAGE_UNREPRESENTABLE)) (
     ethen (require (\<not> (side = BUY \<and> dlt execution reference))
              (ExecutionPolicyError SLIPPAGE_UNREPRESENTABLE)) (
     ethen (require (\<not> (side = SELL \<and> dlt reference execution))
              (ExecutionPolicyError SLIPPAGE_UNREPRESENTABLE))
     (Inr \<lparr>sa_reference_price = reference, sa_execution_price = execution,
           sa_slippage_amount = actual\<rparr>)))))))"

definition assess_limit :: "decimal \<Rightarrow> order_side \<Rightarrow> decimal option \<Rightarrow> limit_assessment result" where
  "assess_limit execution side limit =
     ethen (require (dpos execution) (ExecutionPolicyError INVALID_INPUT))
       (case limit of
          None \<Rightarrow> limit_assessment_init True None
        | Some l \<Rightarrow>
            ethen (require (dpos l) (ExecutionPolicyError INVALID_INPUT))
              (if (case side of BUY \<Rightarrow> dle execution l | SELL \<Rightarrow> dle l execution)
               then limit_assessment_init True None
               else limit_assessment_init False (Some SLIPPAGE_EXCEEDS_LIMIT)))"

text \<open>The cumulative fee of a quantity: the amount rounded to a multiple of the quantum.\<close>

definition cumulative_fee_units :: "paper_fee_rule \<Rightarrow> decimal \<Rightarrow> decimal result" where
  "cumulative_fee_units rule quantity =
     (let c = decimal_context ROUND_HALF_UP in
      ebind (dmul c (fr_amount_per_unit rule) quantity) (\<lambda>amount.
      ebind (ddiv c amount (fr_quantum rule)) (\<lambda>ratio.
      Inr (to_integral ROUND_HALF_UP ratio))))"

definition fee_delta :: "paper_fee_rule \<Rightarrow> decimal \<Rightarrow> decimal \<Rightarrow> decimal result" where
  "fee_delta rule before_q after_q =
     (let c = exact_decimal_context ROUND_HALF_UP in
      ebind (cumulative_fee_units rule before_q) (\<lambda>before_units.
      ebind (cumulative_fee_units rule after_q) (\<lambda>after_units.
      ebind (dmul c before_units (fr_quantum rule)) (\<lambda>before_fee.
      ebind (dmul c after_units (fr_quantum rule)) (\<lambda>after_fee.
      dsub c after_fee before_fee)))))"

definition assess_fee ::
  "paper_fee_schedule \<Rightarrow> string \<Rightarrow> string option \<Rightarrow> decimal \<Rightarrow> decimal \<Rightarrow> fee_assessment result" where
  "assess_fee schedule instrument_id currency before_q after_q =
     ethen (require (dnonneg before_q \<and> dlt before_q after_q) (ExecutionPolicyError INVALID_INPUT)) (
     if fs_kind schedule = ZERO then fee_assessment_init dzero None
     else
       case find (\<lambda>r. fr_instrument_id r = instrument_id) (fs_rules schedule) of
         None \<Rightarrow> Inl (ExecutionPolicyError FEE_RULE_MISSING)
       | Some rule \<Rightarrow>
         (case currency of
            None \<Rightarrow> Inl (ExecutionPolicyError FEE_CURRENCY_MISSING)
          | Some cur \<Rightarrow>
              ethen (require (cur = fr_currency rule) (ExecutionPolicyError FEE_CURRENCY_MISMATCH)) (
              ethen (require (fr_rounding_mode rule = FEE_ROUND_HALF_UP) (ExecutionPolicyError INVALID_INPUT)) (
              ebind (policy_arithmetic (fee_delta rule before_q after_q)) (\<lambda>fee.
              ethen (require (dnonneg fee) (ExecutionPolicyError POLICY_ARITHMETIC_FAILURE))
              (fee_assessment_init fee (if diszero fee then None else Some (fr_currency rule))))))))"

section \<open>What the policies guarantee\<close>

lemma assess_slippage_facts:
  assumes "assess_slippage reference side config = Inr a"
  shows "sa_reference_price a = reference \<and> 0 < dval (sa_execution_price a)
    \<and> (side = BUY \<longrightarrow> dval reference \<le> dval (sa_execution_price a))
    \<and> (side = SELL \<longrightarrow> dval (sa_execution_price a) \<le> dval reference)
    \<and> (sl_mode config \<noteq> NONE \<longrightarrow> dval (sa_slippage_amount a) \<noteq> 0)"
  using assms unfolding assess_slippage_def
  by (auto simp: Let_def err_simps dec_order)

text \<open>The slippage policy never improves a price. When it returns, the execution price is positive,
  not below the reference for a buy and not above it for a sell, and under a configured mode it
  differs from the reference.\<close>

theorem slippage_is_adverse:
  assumes "assess_slippage reference side config = Inr a"
  shows "sa_reference_price a = reference \<and> 0 < dval (sa_execution_price a)
    \<and> (side = BUY \<longrightarrow> dval reference \<le> dval (sa_execution_price a))
    \<and> (side = SELL \<longrightarrow> dval (sa_execution_price a) \<le> dval reference)
    \<and> (sl_mode config \<noteq> NONE \<longrightarrow> dval (sa_slippage_amount a) \<noteq> 0)"
  using assms by (rule assess_slippage_facts)

lemma slippage_is_adverse_witness:
  "(0::rat) < dval (sa_execution_price \<lparr>sa_reference_price = Dec 20000 0,
      sa_execution_price = Dec 200050 (-1), sa_slippage_amount = Dec 50 (-1)\<rparr>)"
proof -
  have "assess_slippage (Dec 20000 0) BUY \<lparr>sl_mode = BASIS_POINTS, sl_value = Dec 25 (-1)\<rparr>
      = Inr \<lparr>sa_reference_price = Dec 20000 0, sa_execution_price = Dec 200050 (-1),
              sa_slippage_amount = Dec 50 (-1)\<rparr>"
    by code_simp
  from slippage_is_adverse [OF this] show ?thesis by blast
qed

lemma assess_limit_protects:
  "assess_limit price side (Some l) = Inr a \<Longrightarrow> la_executable a \<Longrightarrow>
     (case side of BUY \<Rightarrow> dval price \<le> dval l | SELL \<Rightarrow> dval l \<le> dval price)"
  unfolding assess_limit_def limit_assessment_init_def
  by (auto simp: err_simps dec_order split: if_splits order_side.splits)

definition cumulative_fee :: "paper_fee_schedule \<Rightarrow> string \<Rightarrow> decimal \<Rightarrow> rat" where
  "cumulative_fee schedule instrument_id q =
     (if fs_kind schedule = ZERO then 0
      else case find (\<lambda>r. fr_instrument_id r = instrument_id) (fs_rules schedule) of
        None \<Rightarrow> 0
      | Some rule \<Rightarrow>
         (case cumulative_fee_units rule q of Inl _ \<Rightarrow> 0 | Inr u \<Rightarrow> dval u * dval (fr_quantum rule)))"

lemma exact_decimal_context_traps [simp]: "traps_exact (exact_decimal_context r)"
  by (simp add: exact_decimal_context_def)

lemma fee_delta_value:
  assumes "fee_delta rule b a = Inr fee"
  obtains ub ua where "cumulative_fee_units rule b = Inr ub" "cumulative_fee_units rule a = Inr ua"
    "dval fee = dval ua * dval (fr_quantum rule) - dval ub * dval (fr_quantum rule)"
  using assms unfolding fee_delta_def
  by (auto simp: Let_def err_simps dest!: dmul_exact_prod [OF exact_decimal_context_traps]
        dsub_exact_diff [OF exact_decimal_context_traps])

lemma assess_fee_value:
  assumes "assess_fee schedule iid cur b a = Inr f"
  shows "dval (fa_fee f) = cumulative_fee schedule iid a - cumulative_fee schedule iid b"
    and "0 \<le> dval (fa_fee f)"
    and "fa_currency f = None \<longleftrightarrow> dval (fa_fee f) = 0"
  using assms unfolding assess_fee_def fee_assessment_init_def cumulative_fee_def
  by (auto simp: err_simps dec_order split: if_splits option.splits elim!: fee_delta_value)

text \<open>A rounded amount is a whole number of units.\<close>

lemma to_integral_int: "\<exists>n::int. dval (to_integral r d) = of_int n"
proof (cases "0 \<le> expo d")
  case True
  then have "dval (to_integral r d) = of_int (coef d * 10 ^ nat (expo d))"
    by (simp add: to_integral_def dval_def power_int_def)
  then show ?thesis ..
next
  case False
  then have "dval (to_integral r d) = of_int (fst (round_coef r (coef d) (nat (- expo d))))"
    by (simp add: to_integral_def dval_def)
  then show ?thesis ..
qed

lemma cumulative_fee_units_int:
  "cumulative_fee_units rule q = Inr u \<Longrightarrow> \<exists>n::int. dval u = of_int n"
  by (auto simp: cumulative_fee_units_def Let_def err_simps intro: to_integral_int)

text \<open>The fees of the successive fills that bring the filled quantity from \<open>q\<close> up through a list.\<close>

fun split_fees ::
  "paper_fee_schedule \<Rightarrow> string \<Rightarrow> string option \<Rightarrow> decimal \<Rightarrow> decimal list \<Rightarrow> fee_assessment list result" where
  "split_fees s i c q [] = Inr []"
| "split_fees s i c q (x # xs) =
     ebind (assess_fee s i c q x) (\<lambda>f. ebind (split_fees s i c x xs) (\<lambda>fs. Inr (f # fs)))"

lemma split_fees_total:
  "split_fees s i c q xs = Inr fs \<Longrightarrow> xs \<noteq> [] \<Longrightarrow>
     (\<Sum>f\<leftarrow>fs. dval (fa_fee f)) = cumulative_fee s i (last xs) - cumulative_fee s i q"
proof (induction xs arbitrary: q fs)
  case (Cons x xs)
  then show ?case by (cases "xs = []") (auto simp: err_simps assess_fee_value(1))
qed simp

text \<open>However an order is split into partial fills, the fees of the fills add up to the fee of
  one fill of the whole quantity, exactly: the fee is a function of the cumulative quantity alone.\<close>

theorem fee_split_invariant:
  assumes "split_fees s i c q xs = Inr fs" and "xs \<noteq> []" and "assess_fee s i c q (last xs) = Inr whole"
  shows "(\<Sum>f\<leftarrow>fs. dval (fa_fee f)) = dval (fa_fee whole)"
  using split_fees_total [OF assms(1,2)] assess_fee_value(1) [OF assms(3)] by simp

definition example_schedule :: paper_fee_schedule where
  "example_schedule =
     \<lparr>fs_kind = PER_UNIT, fs_rules =
        [\<lparr>fr_instrument_id = ''TXF'', fr_currency = ''TWD'', fr_amount_per_unit = Dec 333 (-3),
          fr_quantum = Dec 1 (-2), fr_rounding_mode = FEE_ROUND_HALF_UP, fr_policy_id = ''p'',
          fr_policy_version = ''1''\<rparr>]\<rparr>"

lemma fee_split_invariant_witness:
  "(\<Sum>f\<leftarrow>[\<lparr>fa_fee = Dec 33 (-2), fa_currency = Some ''TWD''\<rparr>,
          \<lparr>fa_fee = Dec 34 (-2), fa_currency = Some ''TWD''\<rparr>,
          \<lparr>fa_fee = Dec 33 (-2), fa_currency = Some ''TWD''\<rparr>]. dval (fa_fee f)) = dval (Dec 100 (-2))"
proof -
  have "split_fees example_schedule ''TXF'' (Some ''TWD'') dzero [Dec 1 0, Dec 2 0, Dec 3 0] =
      Inr [\<lparr>fa_fee = Dec 33 (-2), fa_currency = Some ''TWD''\<rparr>,
           \<lparr>fa_fee = Dec 34 (-2), fa_currency = Some ''TWD''\<rparr>,
           \<lparr>fa_fee = Dec 33 (-2), fa_currency = Some ''TWD''\<rparr>]"
    by code_simp
  moreover have "assess_fee example_schedule ''TXF'' (Some ''TWD'') dzero (last [Dec 1 0, Dec 2 0, Dec 3 0])
      = Inr \<lparr>fa_fee = Dec 100 (-2), fa_currency = Some ''TWD''\<rparr>"
    by code_simp
  ultimately show ?thesis
    using fee_split_invariant [of example_schedule "''TXF''" "Some ''TWD''" dzero
        "[Dec 1 0, Dec 2 0, Dec 3 0]"] by fastforce
qed

end
