(* ===== verification/Market_Models.thy ===== *)
theory Market_Models
  imports PyText
begin

text \<open>
  The market-data contracts of \<open>market_data/models.py\<close>: the domain payloads, the envelope that
  carries one payload with its position in the ingest sequence, the checks of their constructors,
  and the canonical serialisation an envelope's fingerprint is taken from. A date is the number of
  days since the Unix epoch; a raw mapping is an association list of JSON values.
\<close>

section \<open>Enumerations\<close>

datatype source_mode = OFFLINE | REPLAY | LIVE

fun source_mode_value :: "source_mode \<Rightarrow> string" where
  "source_mode_value OFFLINE = ''offline''"
| "source_mode_value REPLAY = ''replay''"
| "source_mode_value LIVE = ''live''"

datatype connection_state =
    CS_NEW | CS_STARTING | CS_COM_READY | CS_LOGGING_IN | CS_LOGGED_IN | CS_ENTERING_MONITOR
  | CS_CONNECTED | CS_STOCKS_READY | CS_SUBSCRIBED | CS_DISCONNECTED | CS_RECONNECTING
  | CS_STOPPING | CS_ERROR | CS_STOPPED

fun connection_state_value :: "connection_state \<Rightarrow> string" where
  "connection_state_value CS_NEW = ''new''"
| "connection_state_value CS_STARTING = ''starting''"
| "connection_state_value CS_COM_READY = ''com_ready''"
| "connection_state_value CS_LOGGING_IN = ''logging_in''"
| "connection_state_value CS_LOGGED_IN = ''logged_in''"
| "connection_state_value CS_ENTERING_MONITOR = ''entering_monitor''"
| "connection_state_value CS_CONNECTED = ''connected''"
| "connection_state_value CS_STOCKS_READY = ''stocks_ready''"
| "connection_state_value CS_SUBSCRIBED = ''subscribed''"
| "connection_state_value CS_DISCONNECTED = ''disconnected''"
| "connection_state_value CS_RECONNECTING = ''reconnecting''"
| "connection_state_value CS_STOPPING = ''stopping''"
| "connection_state_value CS_ERROR = ''error''"
| "connection_state_value CS_STOPPED = ''stopped''"

datatype event_type =
  CONNECTION_STATUS | SERVER_TIME | INSTRUMENT | QUOTE | TICK | ADAPTER_DIAGNOSTIC

fun event_kind_value :: "event_type \<Rightarrow> string" where
  "event_kind_value CONNECTION_STATUS = ''connection_status''"
| "event_kind_value SERVER_TIME = ''server_time''"
| "event_kind_value INSTRUMENT = ''instrument''"
| "event_kind_value QUOTE = ''quote''"
| "event_kind_value TICK = ''tick''"
| "event_kind_value ADAPTER_DIAGNOSTIC = ''adapter_diagnostic''"

section \<open>Value checks\<close>

type_synonym raw_mapping = "(string \<times> json) list"

definition md_nonnegative :: "string \<Rightarrow> int \<Rightarrow> unit result" where
  "md_nonnegative name v = require (0 \<le> v) (ValueError (name @ '' must be a non-negative integer''))"

definition md_positive :: "string \<Rightarrow> int \<Rightarrow> unit result" where
  "md_positive name v = require (1 \<le> v) (ValueError (name @ '' must be at least 1''))"

definition md_strict_str :: "string \<Rightarrow> string \<Rightarrow> unit result" where
  "md_strict_str name v = require (strip v \<noteq> []) (ValueError (name @ '' must not be empty''))"

definition validate_scale :: "string \<Rightarrow> decimal option \<Rightarrow> unit result" where
  "validate_scale name scale =
     optionally (\<lambda>d. require (dpos d) (ValueError (name @ '' must be greater than zero''))) scale"

text \<open>The product \<open>raw * scale\<close> is computed in the context of the calling thread.\<close>

definition validate_normalized ::
  "string \<Rightarrow> int \<Rightarrow> decimal option \<Rightarrow> decimal option \<Rightarrow> unit result" where
  "validate_normalized name raw scale normalized =
     ethen (validate_scale (name @ ''_scale'') scale)
       (case scale of
          None \<Rightarrow> require (normalized = None)
            (ValueError (name @ ''_normalized must be None when scale is unknown''))
        | Some s \<Rightarrow>
            ebind (dmul default_ctx (dec_of_int raw) s) (\<lambda>product.
              require (case normalized of None \<Rightarrow> False | Some n \<Rightarrow> deq n product)
                (ValueError (name @ ''_normalized does not equal raw * scale''))))"

definition diagnostic_kinds :: "string list" where
  "diagnostic_kinds = [''quote_lookup_failure'', ''stock_list_parse_failure'', ''adapter_error'']"

section \<open>Domain payloads\<close>

record connection_status =
  cs_state :: connection_state
  cs_broker_kind_raw :: "int option"
  cs_broker_code_raw :: "int option"
  cs_message :: "string option"
  cs_is_ready :: bool
  cs_changed_at :: instant
  cs_connection_generation :: int

definition connection_status_init :: "connection_status \<Rightarrow> connection_status result" where
  "connection_status_init s =
     ethen (md_nonnegative ''connection_generation'' (cs_connection_generation s)) (Inr s)"

record server_time =
  st_event_at :: "instant option"
  st_hour_raw :: int
  st_minute_raw :: int
  st_second_raw :: int
  st_total_raw :: int
  st_received_at :: instant
  st_trading_day :: "int option"

definition server_time_init :: "server_time \<Rightarrow> server_time result" where
  "server_time_init s =
     ethen (md_nonnegative ''total_raw'' (st_total_raw s)) (
     ethen (require (0 \<le> st_hour_raw s \<and> st_hour_raw s \<le> 23)
              (ValueError ''hour_raw must be between 0 and 23'')) (
     ethen (require (0 \<le> st_minute_raw s \<and> st_minute_raw s \<le> 59
                     \<and> 0 \<le> st_second_raw s \<and> st_second_raw s \<le> 59)
              (ValueError ''minute_raw/second_raw must be between 0 and 59''))
     (Inr s)))"

record instrument =
  it_instrument_id :: string
  it_symbol :: string
  it_venue :: string
  it_market_no :: "int option"
  it_stock_idx :: "int option"
  it_display_name :: "string option"
  it_asset_class :: "string option"
  it_currency :: "string option"
  it_price_scale :: "decimal option"
  it_quantity_scale :: "decimal option"
  it_metadata_version :: int
  it_updated_at :: instant
  it_raw_payload :: "raw_mapping option"

definition instrument_init :: "instrument \<Rightarrow> instrument result" where
  "instrument_init i =
     ethen (md_strict_str ''instrument_id'' (it_instrument_id i)) (
     ethen (md_strict_str ''symbol'' (it_symbol i)) (
     ethen (md_strict_str ''venue'' (it_venue i)) (
     ethen (optionally (md_nonnegative ''market_no'') (it_market_no i)) (
     ethen (optionally (md_nonnegative ''stock_idx'') (it_stock_idx i)) (
     ethen (validate_scale ''price_scale'' (it_price_scale i)) (
     ethen (validate_scale ''quantity_scale'' (it_quantity_scale i)) (
     ethen (md_positive ''metadata_version'' (it_metadata_version i))
     (Inr i))))))))"

record quote =
  qu_instrument_id :: string
  qu_market_no_raw :: int
  qu_stock_idx_raw :: int
  qu_bid_raw :: int
  qu_ask_raw :: int
  qu_last_raw :: int
  qu_bid_normalized :: "decimal option"
  qu_ask_normalized :: "decimal option"
  qu_last_normalized :: "decimal option"
  qu_bid_qty_raw :: "int option"
  qu_ask_qty_raw :: "int option"
  qu_last_qty_raw :: "int option"
  qu_event_at :: "instant option"
  qu_received_at :: instant
  qu_trading_day :: "int option"
  qu_is_simulated :: "bool option"
  qu_is_long_callback :: bool
  qu_price_scale :: "decimal option"

definition quote_init :: "quote \<Rightarrow> quote result" where
  "quote_init q =
     ethen (md_strict_str ''instrument_id'' (qu_instrument_id q)) (
     ethen (md_nonnegative ''market_no_raw'' (qu_market_no_raw q)) (
     ethen (md_nonnegative ''stock_idx_raw'' (qu_stock_idx_raw q)) (
     ethen (validate_normalized ''bid'' (qu_bid_raw q) (qu_price_scale q) (qu_bid_normalized q)) (
     ethen (validate_normalized ''ask'' (qu_ask_raw q) (qu_price_scale q) (qu_ask_normalized q)) (
     ethen (validate_normalized ''last'' (qu_last_raw q) (qu_price_scale q) (qu_last_normalized q)) (
     ethen (optionally (md_nonnegative ''bid_qty_raw'') (qu_bid_qty_raw q)) (
     ethen (optionally (md_nonnegative ''ask_qty_raw'') (qu_ask_qty_raw q)) (
     ethen (optionally (md_nonnegative ''last_qty_raw'') (qu_last_qty_raw q))
     (Inr q)))))))))"

record tick =
  tk_instrument_id :: string
  tk_market_no_raw :: int
  tk_stock_idx_raw :: int
  tk_source_pointer_raw :: int
  tk_date_raw :: int
  tk_time_hms_raw :: int
  tk_time_subsecond_raw :: int
  tk_bid_raw :: int
  tk_ask_raw :: int
  tk_close_raw :: int
  tk_bid_normalized :: "decimal option"
  tk_ask_normalized :: "decimal option"
  tk_close_normalized :: "decimal option"
  tk_quantity_raw :: int
  tk_quantity_normalized :: "decimal option"
  tk_simulate_raw :: int
  tk_is_simulated :: "bool option"
  tk_event_at :: "instant option"
  tk_received_at :: instant
  tk_trading_day :: "int option"
  tk_is_long_callback :: bool
  tk_price_scale :: "decimal option"
  tk_quantity_scale :: "decimal option"

definition tick_init :: "tick \<Rightarrow> tick result" where
  "tick_init t =
     ethen (md_strict_str ''instrument_id'' (tk_instrument_id t)) (
     ethen (md_nonnegative ''market_no_raw'' (tk_market_no_raw t)) (
     ethen (md_nonnegative ''stock_idx_raw'' (tk_stock_idx_raw t)) (
     ethen (md_nonnegative ''source_pointer_raw'' (tk_source_pointer_raw t)) (
     ethen (md_nonnegative ''quantity_raw'' (tk_quantity_raw t)) (
     ethen (md_nonnegative ''date_raw'' (tk_date_raw t)) (
     ethen (md_nonnegative ''time_hms_raw'' (tk_time_hms_raw t)) (
     ethen (md_nonnegative ''time_subsecond_raw'' (tk_time_subsecond_raw t)) (
     ethen (validate_normalized ''bid'' (tk_bid_raw t) (tk_price_scale t) (tk_bid_normalized t)) (
     ethen (validate_normalized ''ask'' (tk_ask_raw t) (tk_price_scale t) (tk_ask_normalized t)) (
     ethen (validate_normalized ''close'' (tk_close_raw t) (tk_price_scale t) (tk_close_normalized t)) (
     ethen (validate_normalized ''quantity'' (tk_quantity_raw t) (tk_quantity_scale t)
              (tk_quantity_normalized t))
     (Inr t))))))))))))"

record adapter_diagnostic =
  ad_diagnostic_kind :: string
  ad_market_no_raw :: "int option"
  ad_stock_idx_raw :: "int option"
  ad_error_code_raw :: "int option"
  ad_message :: string
  ad_received_at :: instant
  ad_attempt :: int
  ad_connection_generation :: int
  ad_callback_sequence :: int
  ad_raw_notification :: raw_mapping

definition adapter_diagnostic_init :: "adapter_diagnostic \<Rightarrow> adapter_diagnostic result" where
  "adapter_diagnostic_init d =
     ethen (md_strict_str ''diagnostic_kind'' (ad_diagnostic_kind d)) (
     ethen (require (ad_diagnostic_kind d \<in> set diagnostic_kinds)
              (ValueError ''invalid diagnostic_kind'')) (
     ethen (optionally (md_nonnegative ''market_no_raw'') (ad_market_no_raw d)) (
     ethen (optionally (md_nonnegative ''stock_idx_raw'') (ad_stock_idx_raw d)) (
     ethen (md_strict_str ''message'' (ad_message d)) (
     ethen (require (length (ad_message d) \<le> 1024)
              (ValueError ''message must not exceed 1024 characters'')) (
     ethen (md_positive ''attempt'' (ad_attempt d)) (
     ethen (md_nonnegative ''connection_generation'' (ad_connection_generation d)) (
     ethen (md_nonnegative ''callback_sequence'' (ad_callback_sequence d))
     (Inr d)))))))))"

section \<open>The envelope\<close>

datatype domain_payload =
    ConnectionStatusPayload connection_status
  | ServerTimePayload server_time
  | InstrumentPayload instrument
  | QuotePayload quote
  | TickPayload tick
  | AdapterDiagnosticPayload adapter_diagnostic

fun payload_event_type :: "domain_payload \<Rightarrow> event_type" where
  "payload_event_type (ConnectionStatusPayload _) = CONNECTION_STATUS"
| "payload_event_type (ServerTimePayload _) = SERVER_TIME"
| "payload_event_type (InstrumentPayload _) = INSTRUMENT"
| "payload_event_type (QuotePayload _) = QUOTE"
| "payload_event_type (TickPayload _) = TICK"
| "payload_event_type (AdapterDiagnosticPayload _) = ADAPTER_DIAGNOSTIC"

record envelope =
  en_schema_version :: int
  en_event_type :: event_type
  en_payload :: domain_payload
  en_source :: string
  en_source_mode :: source_mode
  en_session_id :: uuid
  en_ingest_sequence :: int
  en_connection_generation :: int
  en_sequence :: int
  en_broker_sequence :: "int option"
  en_dedupe_key :: string
  en_event_at :: "instant option"
  en_received_at :: instant
  en_trading_day :: "int option"
  en_metadata_version :: "int option"
  en_raw_payload :: "raw_mapping option"

definition timed_payload_ok ::
  "envelope \<Rightarrow> instant \<Rightarrow> instant option \<Rightarrow> int option \<Rightarrow> unit result" where
  "timed_payload_ok e received event day =
     ethen (require (en_received_at e = received)
              (ValueError ''payload received_at must match envelope'')) (
     ethen (require (en_event_at e = event) (ValueError ''payload event_at must match envelope''))
     (require (en_trading_day e = day) (ValueError ''payload trading_day must match envelope'')))"

definition validate_metadata_mapping :: "envelope \<Rightarrow> unit result" where
  "validate_metadata_mapping e =
     (case en_payload e of
        ConnectionStatusPayload s \<Rightarrow>
          ethen (require (en_event_at e = None \<or> en_event_at e = Some (cs_changed_at s))
                   (ValueError ''connection_status event_at must be None or equal changed_at''))
            (require (en_connection_generation e = cs_connection_generation s)
               (ValueError ''connection generation must match envelope''))
      | InstrumentPayload i \<Rightarrow>
          ethen (require (en_event_at e = Some (it_updated_at i))
                   (ValueError ''instrument event_at must equal updated_at''))
            (require (en_metadata_version e = Some (it_metadata_version i))
               (ValueError ''instrument metadata_version must match envelope''))
      | ServerTimePayload s \<Rightarrow>
          timed_payload_ok e (st_received_at s) (st_event_at s) (st_trading_day s)
      | QuotePayload q \<Rightarrow> timed_payload_ok e (qu_received_at q) (qu_event_at q) (qu_trading_day q)
      | TickPayload t \<Rightarrow> timed_payload_ok e (tk_received_at t) (tk_event_at t) (tk_trading_day t)
      | AdapterDiagnosticPayload d \<Rightarrow>
          ethen (require (en_received_at e = ad_received_at d)
                   (ValueError ''diagnostic received_at must match envelope'')) (
          ethen (require (en_connection_generation e = ad_connection_generation d)
                   (ValueError ''diagnostic generation must match envelope'')) (
          ethen (require (en_sequence e = ad_callback_sequence d)
                   (ValueError ''diagnostic callback sequence must match envelope''))
          (require (en_event_at e = None \<and> en_trading_day e = None)
             (ValueError ''diagnostic event_at and trading_day must be None'')))))"

definition envelope_init :: "envelope \<Rightarrow> envelope result" where
  "envelope_init e =
     ethen (require (en_schema_version e = 1) (ValueError ''schema_version must be 1'')) (
     ethen (require (en_event_type e = payload_event_type (en_payload e))
              (ValueError ''event_type does not match payload'')) (
     ethen (md_strict_str ''source'' (en_source e)) (
     ethen (md_strict_str ''dedupe_key'' (en_dedupe_key e)) (
     ethen (md_nonnegative ''ingest_sequence'' (en_ingest_sequence e)) (
     ethen (md_nonnegative ''connection_generation'' (en_connection_generation e)) (
     ethen (md_nonnegative ''sequence'' (en_sequence e)) (
     ethen (optionally (md_nonnegative ''broker_sequence'') (en_broker_sequence e)) (
     ethen (optionally (md_positive ''metadata_version'') (en_metadata_version e)) (
     ethen (validate_metadata_mapping e)
     (Inr e))))))))))"

section \<open>Canonical serialisation\<close>

definition prim_decimal :: "decimal \<Rightarrow> json" where
  "prim_decimal d = JStr (decimal_str d)"

definition prim_date :: "int \<Rightarrow> json" where
  "prim_date d = JStr (date_isoformat d)"

definition json_connection_status :: "connection_status \<Rightarrow> json" where
  "json_connection_status s =
     JObj [(''state'', JStr (connection_state_value (cs_state s))),
           (''broker_kind_raw'', json_opt JInt (cs_broker_kind_raw s)),
           (''broker_code_raw'', json_opt JInt (cs_broker_code_raw s)),
           (''message'', json_opt JStr (cs_message s)),
           (''is_ready'', JBool (cs_is_ready s)),
           (''changed_at'', json_instant (cs_changed_at s)),
           (''connection_generation'', JInt (cs_connection_generation s))]"

definition json_server_time :: "server_time \<Rightarrow> json" where
  "json_server_time s =
     JObj [(''event_at'', json_opt json_instant (st_event_at s)),
           (''hour_raw'', JInt (st_hour_raw s)),
           (''minute_raw'', JInt (st_minute_raw s)),
           (''second_raw'', JInt (st_second_raw s)),
           (''total_raw'', JInt (st_total_raw s)),
           (''received_at'', json_instant (st_received_at s)),
           (''trading_day'', json_opt prim_date (st_trading_day s))]"

definition json_instrument :: "instrument \<Rightarrow> json" where
  "json_instrument i =
     JObj [(''instrument_id'', JStr (it_instrument_id i)),
           (''symbol'', JStr (it_symbol i)),
           (''venue'', JStr (it_venue i)),
           (''market_no'', json_opt JInt (it_market_no i)),
           (''stock_idx'', json_opt JInt (it_stock_idx i)),
           (''display_name'', json_opt JStr (it_display_name i)),
           (''asset_class'', json_opt JStr (it_asset_class i)),
           (''currency'', json_opt JStr (it_currency i)),
           (''price_scale'', json_opt prim_decimal (it_price_scale i)),
           (''quantity_scale'', json_opt prim_decimal (it_quantity_scale i)),
           (''metadata_version'', JInt (it_metadata_version i)),
           (''updated_at'', json_instant (it_updated_at i)),
           (''raw_payload'', json_opt JObj (it_raw_payload i))]"

definition json_quote :: "quote \<Rightarrow> json" where
  "json_quote q =
     JObj [(''instrument_id'', JStr (qu_instrument_id q)),
           (''market_no_raw'', JInt (qu_market_no_raw q)),
           (''stock_idx_raw'', JInt (qu_stock_idx_raw q)),
           (''bid_raw'', JInt (qu_bid_raw q)),
           (''ask_raw'', JInt (qu_ask_raw q)),
           (''last_raw'', JInt (qu_last_raw q)),
           (''bid_normalized'', json_opt prim_decimal (qu_bid_normalized q)),
           (''ask_normalized'', json_opt prim_decimal (qu_ask_normalized q)),
           (''last_normalized'', json_opt prim_decimal (qu_last_normalized q)),
           (''bid_qty_raw'', json_opt JInt (qu_bid_qty_raw q)),
           (''ask_qty_raw'', json_opt JInt (qu_ask_qty_raw q)),
           (''last_qty_raw'', json_opt JInt (qu_last_qty_raw q)),
           (''event_at'', json_opt json_instant (qu_event_at q)),
           (''received_at'', json_instant (qu_received_at q)),
           (''trading_day'', json_opt prim_date (qu_trading_day q)),
           (''is_simulated'', json_opt JBool (qu_is_simulated q)),
           (''is_long_callback'', JBool (qu_is_long_callback q)),
           (''price_scale'', json_opt prim_decimal (qu_price_scale q))]"

definition json_tick :: "tick \<Rightarrow> json" where
  "json_tick t =
     JObj [(''instrument_id'', JStr (tk_instrument_id t)),
           (''market_no_raw'', JInt (tk_market_no_raw t)),
           (''stock_idx_raw'', JInt (tk_stock_idx_raw t)),
           (''source_pointer_raw'', JInt (tk_source_pointer_raw t)),
           (''date_raw'', JInt (tk_date_raw t)),
           (''time_hms_raw'', JInt (tk_time_hms_raw t)),
           (''time_subsecond_raw'', JInt (tk_time_subsecond_raw t)),
           (''bid_raw'', JInt (tk_bid_raw t)),
           (''ask_raw'', JInt (tk_ask_raw t)),
           (''close_raw'', JInt (tk_close_raw t)),
           (''bid_normalized'', json_opt prim_decimal (tk_bid_normalized t)),
           (''ask_normalized'', json_opt prim_decimal (tk_ask_normalized t)),
           (''close_normalized'', json_opt prim_decimal (tk_close_normalized t)),
           (''quantity_raw'', JInt (tk_quantity_raw t)),
           (''quantity_normalized'', json_opt prim_decimal (tk_quantity_normalized t)),
           (''simulate_raw'', JInt (tk_simulate_raw t)),
           (''is_simulated'', json_opt JBool (tk_is_simulated t)),
           (''event_at'', json_opt json_instant (tk_event_at t)),
           (''received_at'', json_instant (tk_received_at t)),
           (''trading_day'', json_opt prim_date (tk_trading_day t)),
           (''is_long_callback'', JBool (tk_is_long_callback t)),
           (''price_scale'', json_opt prim_decimal (tk_price_scale t)),
           (''quantity_scale'', json_opt prim_decimal (tk_quantity_scale t))]"

definition json_adapter_diagnostic :: "adapter_diagnostic \<Rightarrow> json" where
  "json_adapter_diagnostic d =
     JObj [(''diagnostic_kind'', JStr (ad_diagnostic_kind d)),
           (''market_no_raw'', json_opt JInt (ad_market_no_raw d)),
           (''stock_idx_raw'', json_opt JInt (ad_stock_idx_raw d)),
           (''error_code_raw'', json_opt JInt (ad_error_code_raw d)),
           (''message'', JStr (ad_message d)),
           (''received_at'', json_instant (ad_received_at d)),
           (''attempt'', JInt (ad_attempt d)),
           (''connection_generation'', JInt (ad_connection_generation d)),
           (''callback_sequence'', JInt (ad_callback_sequence d)),
           (''raw_notification'', JObj (ad_raw_notification d))]"

fun json_payload :: "domain_payload \<Rightarrow> json" where
  "json_payload (ConnectionStatusPayload s) = json_connection_status s"
| "json_payload (ServerTimePayload s) = json_server_time s"
| "json_payload (InstrumentPayload i) = json_instrument i"
| "json_payload (QuotePayload q) = json_quote q"
| "json_payload (TickPayload t) = json_tick t"
| "json_payload (AdapterDiagnosticPayload d) = json_adapter_diagnostic d"

definition json_envelope :: "envelope \<Rightarrow> json" where
  "json_envelope e =
     JObj [(''schema_version'', JInt (en_schema_version e)),
           (''event_type'', JStr (event_kind_value (en_event_type e))),
           (''payload'', json_payload (en_payload e)),
           (''source'', JStr (en_source e)),
           (''source_mode'', JStr (source_mode_value (en_source_mode e))),
           (''session_id'', json_uuid (en_session_id e)),
           (''ingest_sequence'', JInt (en_ingest_sequence e)),
           (''connection_generation'', JInt (en_connection_generation e)),
           (''sequence'', JInt (en_sequence e)),
           (''broker_sequence'', json_opt JInt (en_broker_sequence e)),
           (''dedupe_key'', JStr (en_dedupe_key e)),
           (''event_at'', json_opt json_instant (en_event_at e)),
           (''received_at'', json_instant (en_received_at e)),
           (''trading_day'', json_opt prim_date (en_trading_day e)),
           (''metadata_version'', json_opt JInt (en_metadata_version e)),
           (''raw_payload'', json_opt JObj (en_raw_payload e))]"

definition serialize_envelope :: "envelope \<Rightarrow> string" where
  "serialize_envelope e = json_dumps False (json_envelope e)"

definition build_adapter_diagnostic_dedupe_key ::
  "hashes \<Rightarrow> string \<Rightarrow> uuid \<Rightarrow> int \<Rightarrow> string \<Rightarrow> int \<Rightarrow> int \<Rightarrow> string result" where
  "build_adapter_diagnostic_dedupe_key h source session gen kind callback_seq attempt =
     ethen (md_strict_str ''source'' source) (
     ethen (md_nonnegative ''connection_generation'' gen) (
     ethen (md_strict_str ''diagnostic_kind'' kind) (
     ethen (require (kind \<in> set diagnostic_kinds) (ValueError ''invalid diagnostic_kind'')) (
     ethen (md_nonnegative ''callback_sequence'' callback_seq) (
     ethen (md_positive ''attempt'' attempt)
     (Inr (''adapter_diagnostic:sha256:'' @ sha256_hex h (utf8 (json_dumps False (JArr
        [JStr source, json_uuid session, JInt gen, JStr kind, JInt callback_seq, JInt attempt]))))))))))"

end
