(* ===== verification/Matching.thy ===== *)
theory Matching
  imports Execution_Policies Market_Models
begin

text \<open>
  Quote-top matching helpers, \<open>orders/matching.py\<close>: which top-of-book values of a quote are usable, the
  price an order executes at, the running average price, and the capacity of one side.
\<close>

definition matching_context :: dctx where
  "matching_context = \<lparr>prec = 34, rnd = ROUND_HALF_EVEN, emin = -999999, emax = 999999,
                       clamp = False, traps_exact = False\<rparr>"

record quote_top =
  qt_bid :: decimal
  qt_ask :: decimal
  qt_bid_capacity :: "decimal option"
  qt_ask_capacity :: "decimal option"
  qt_currency :: "string option"
  qt_skip_reasons :: "match_skip_reason list"

definition quote_capacity :: "int option \<Rightarrow> decimal \<Rightarrow> decimal option result" where
  "quote_capacity raw scale =
     (case raw of
        None \<Rightarrow> Inr None
      | Some q \<Rightarrow>
          ebind (dmul matching_context (dec_of_int q) scale) (\<lambda>r.
          ethen (require (dnonneg r)
                   (ArithmeticError ''quote capacity is not a finite non-negative Decimal''))
          (Inr (Some r))))"

text \<open>\<open>Inl\<close> of the inner sum is the tuple of skip reasons, \<open>Inr\<close> the usable top.\<close>

definition inspect_quote_top ::
  "quote \<Rightarrow> instrument_metadata option \<Rightarrow> (match_skip_reason list + quote_top) result" where
  "inspect_quote_top q metadata =
     (case metadata of
        None \<Rightarrow> Inr (Inl [METADATA_UNAVAILABLE])
      | Some m \<Rightarrow>
        if qu_instrument_id q \<noteq> im_instrument_id m then Inr (Inl [METADATA_MISMATCH])
        else (case (im_price_scale m, qu_price_scale q) of
          (Some ms, Some qs) \<Rightarrow>
            if \<not> deq qs ms then Inr (Inl [METADATA_MISMATCH])
            else (case im_quantity_scale m of
              None \<Rightarrow> Inr (Inl [QUANTITY_SCALE_UNAVAILABLE])
            | Some scale \<Rightarrow>
              if qu_is_simulated q \<noteq> Some False then Inr (Inl [SIMULATED_QUOTE])
              else (case (qu_bid_normalized q, qu_ask_normalized q) of
                (Some bid, Some ask) \<Rightarrow>
                  if \<not> dpos bid \<or> \<not> dpos ask \<or> dlt ask bid then Inr (Inl [INVALID_BOOK])
                  else
                    ebind (quote_capacity (qu_bid_qty_raw q) scale) (\<lambda>bid_cap.
                    ebind (quote_capacity (qu_ask_qty_raw q) scale) (\<lambda>ask_cap.
                    Inr (Inr \<lparr>qt_bid = bid, qt_ask = ask, qt_bid_capacity = bid_cap,
                      qt_ask_capacity = ask_cap, qt_currency = im_currency m,
                      qt_skip_reasons =
                        (if bid_cap = None \<or> ask_cap = None then [QUANTITY_UNAVAILABLE] else [])
                        @ (if opt_deq bid_cap (Some dzero) \<and> opt_deq ask_cap (Some dzero)
                           then [NO_LIQUIDITY] else [])\<rparr>)))
              | _ \<Rightarrow> Inr (Inl [PRICE_UNAVAILABLE])))
        | _ \<Rightarrow> Inr (Inl [PRICE_SCALE_UNAVAILABLE])))"

definition side_price :: "order_side \<Rightarrow> quote_top \<Rightarrow> decimal" where
  "side_price side tp = (case side of BUY \<Rightarrow> qt_ask tp | SELL \<Rightarrow> qt_bid tp)"

definition execution_price :: "paper_order \<Rightarrow> quote_top \<Rightarrow> decimal option result" where
  "execution_price p tp =
     (let price = side_price (in_side (or_intent p)) tp in
      case in_order_type (or_intent p) of
        MARKET \<Rightarrow> Inr (Some price)
      | LIMIT \<Rightarrow>
          (case in_limit_price (or_intent p) of
             None \<Rightarrow> Inl AssertionError
           | Some limit \<Rightarrow>
               Inr (if (case in_side (or_intent p) of BUY \<Rightarrow> dle price limit | SELL \<Rightarrow> dle limit price)
                    then Some price else None)))"

definition weighted_average ::
  "decimal \<Rightarrow> decimal option \<Rightarrow> decimal \<Rightarrow> decimal \<Rightarrow> decimal result" where
  "weighted_average prev_q prev_avg fill_q fill_price =
     (let c = matching_context in
      ebind (case prev_avg of None \<Rightarrow> Inr dzero | Some a \<Rightarrow> dmul c prev_q a) (\<lambda>notional.
      ebind (dadd c prev_q fill_q) (\<lambda>total.
      ebind (dmul c fill_q fill_price) (\<lambda>added.
      ebind (dadd c notional added) (\<lambda>s.
      ebind (ddiv c s total) (\<lambda>r.
      ethen (require (dpos r) (ArithmeticError ''weighted average is not a finite positive Decimal''))
      (Inr r)))))))"

end
