(* ===== verification/Position_Ledger.thy ===== *)
theory Position_Ledger
  imports Execution_Policies
begin

text \<open>
  The signed-net position ledger, \<open>orders/position_ledger.py\<close>: one fill applied to the position of its
  strategy, account and instrument. Quantities and fees are added in a context that traps inexact
  results, so a position is the exact sum of its fills or an error; the average price is rounded.
\<close>

definition ledger_context :: dctx where
  "ledger_context = decimal_context ROUND_HALF_EVEN"

definition ledger_exact_context :: dctx where
  "ledger_exact_context = exact_decimal_context ROUND_HALF_EVEN"

definition paper_position_id :: "hashes \<Rightarrow> uuid \<Rightarrow> string \<Rightarrow> string \<Rightarrow> string \<Rightarrow> uuid result" where
  "paper_position_id h run strategy account instrument =
     ethen (require (strategy \<noteq> [] \<and> account \<noteq> [] \<and> instrument \<noteq> [])
              (ValueError ''position key values must be non-empty strings''))
       (Inr (uuid5 h run (json_dumps True (JArr
          [JStr ''paper-position-v1'', JStr strategy, JStr account, JStr instrument]))))"

definition ledger_arithmetic :: "'a result \<Rightarrow> 'a result" where
  "ledger_arithmetic m =
     (case m of Inl (DecimalException s) \<Rightarrow> Inl (PositionLedgerError LEDGER_ARITHMETIC_FAILURE) | _ \<Rightarrow> m)"

lemma ledger_arithmetic_eq_Inr [err_simps]: "ledger_arithmetic m = Inr x \<longleftrightarrow> m = Inr x"
  by (cases m) (auto simp: ledger_arithmetic_def split: pyexn.splits)

definition signed_quantity :: "paper_fill \<Rightarrow> decimal" where
  "signed_quantity f = (case fi_side f of BUY \<Rightarrow> fi_quantity f | SELL \<Rightarrow> dneg (fi_quantity f))"

definition check_previous :: "paper_position option \<Rightarrow> paper_fill \<Rightarrow> uuid \<Rightarrow> unit result" where
  "check_previous previous f expected_id =
     (case previous of
        None \<Rightarrow> Inr ()
      | Some p \<Rightarrow>
          ethen (require (po_paper_run_id p = fi_paper_run_id f \<and> po_paper_position_id p = expected_id
                          \<and> po_strategy_id p = fi_strategy_id f \<and> po_account_id p = fi_account_id f
                          \<and> po_instrument_id p = fi_instrument_id f)
                   (PositionLedgerError KEY_MISMATCH))
            (require (po_updated_at p \<le> fi_occurred_at f) (PositionLedgerError TEMPORAL_ORDER)))"

text \<open>The average open price after a fill: only a fill on the side of the position moves it.\<close>

definition next_average ::
  "decimal \<Rightarrow> decimal option \<Rightarrow> decimal \<Rightarrow> decimal \<Rightarrow> decimal \<Rightarrow> decimal option result" where
  "next_average old_q old_avg delta new_q price =
     (let c = ledger_context in
      if diszero old_q then Inr (Some price)
      else if dpos old_q = dpos delta
      then (case old_avg of
              None \<Rightarrow> Inl AssertionError
            | Some avg \<Rightarrow>
                ebind (dabs c old_q) (\<lambda>a. ebind (dmul c a avg) (\<lambda>x.
                ebind (dabs c delta) (\<lambda>b. ebind (dmul c b price) (\<lambda>y.
                ebind (dadd c x y) (\<lambda>s. ebind (dabs c new_q) (\<lambda>n.
                ebind (ddiv c s n) (\<lambda>r. Inr (Some r)))))))))
      else if diszero new_q then Inr None
      else if dpos new_q = dpos old_q then Inr old_avg
      else Inr (Some price))"

definition apply_fill_to_position ::
  "hashes \<Rightarrow> paper_position option \<Rightarrow> paper_fill \<Rightarrow> paper_position result" where
  "apply_fill_to_position h previous f =
     ebind (paper_position_id h (fi_paper_run_id f) (fi_strategy_id f) (fi_account_id f)
              (fi_instrument_id f)) (\<lambda>expected_id.
     ethen (check_previous previous f expected_id) (
     let old_q = (case previous of None \<Rightarrow> dzero | Some p \<Rightarrow> po_net_quantity p);
         old_avg = (case previous of None \<Rightarrow> None | Some p \<Rightarrow> po_average_open_price p);
         old_fees = (case previous of None \<Rightarrow> dzero | Some p \<Rightarrow> po_cumulative_fees p);
         old_cur = (case previous of None \<Rightarrow> None | Some p \<Rightarrow> po_fee_currency p);
         delta = signed_quantity f
     in
     ethen (require (\<not> (\<not> diszero (fi_fee f) \<and> old_cur \<noteq> None \<and> old_cur \<noteq> fi_fee_currency f))
              (PositionLedgerError CURRENCY_MISMATCH)) (
     ebind (ledger_arithmetic (
       ebind (dadd ledger_exact_context old_q delta) (\<lambda>new_q.
       ebind (if diszero (fi_fee f) then Inr old_fees
              else dadd ledger_exact_context old_fees (fi_fee f)) (\<lambda>new_fees.
       ebind (next_average old_q old_avg delta new_q (fi_execution_price f)) (\<lambda>new_avg.
       Inr (new_q, new_fees, new_avg)))))) (\<lambda>(new_q, new_fees, new_avg).
     ethen (require (dnonneg new_fees) (PositionLedgerError LEDGER_ARITHMETIC_FAILURE)) (
     ethen (require (case new_avg of None \<Rightarrow> True | Some a \<Rightarrow> dpos a)
              (PositionLedgerError LEDGER_ARITHMETIC_FAILURE)) (
     paper_position_init
       \<lparr>po_paper_run_id = fi_paper_run_id f, po_paper_position_id = expected_id,
        po_strategy_id = fi_strategy_id f, po_account_id = fi_account_id f,
        po_instrument_id = fi_instrument_id f, po_net_quantity = new_q,
        po_average_open_price = new_avg, po_cumulative_fees = new_fees,
        po_fee_currency = (if \<not> diszero (fi_fee f) \<and> old_cur = None then fi_fee_currency f else old_cur),
        po_version = (case previous of None \<Rightarrow> 1 | Some p \<Rightarrow> po_version p + 1),
        po_updated_at = fi_occurred_at f\<rparr>))))))"

section \<open>What one fill does to a position\<close>

definition net_value :: "paper_position option \<Rightarrow> rat" where
  "net_value p = (case p of None \<Rightarrow> 0 | Some q \<Rightarrow> dval (po_net_quantity q))"

definition fees_value :: "paper_position option \<Rightarrow> rat" where
  "fees_value p = (case p of None \<Rightarrow> 0 | Some q \<Rightarrow> dval (po_cumulative_fees q))"

definition version_of :: "paper_position option \<Rightarrow> int" where
  "version_of p = (case p of None \<Rightarrow> 0 | Some q \<Rightarrow> po_version q)"

lemma ledger_exact_traps [simp]: "traps_exact ledger_exact_context"
  by (simp add: ledger_exact_context_def exact_decimal_context_def)

lemma paper_position_init_same: "paper_position_init p = Inr q \<Longrightarrow> q = p"
  by (auto simp: paper_position_init_def err_simps)

lemma apply_fill_cases:
  assumes "apply_fill_to_position h previous f = Inr p"
  obtains old_q old_fees where
    "dval old_q = net_value previous" and "dval old_fees = fees_value previous"
    and "paper_position_id h (fi_paper_run_id f) (fi_strategy_id f) (fi_account_id f)
              (fi_instrument_id f) = Inr (po_paper_position_id p)"
    and "check_previous previous f (po_paper_position_id p) = Inr ()"
    and "dadd ledger_exact_context old_q (signed_quantity f) = Inr (po_net_quantity p)"
    and "(if diszero (fi_fee f) then Inr old_fees else dadd ledger_exact_context old_fees (fi_fee f))
           = Inr (po_cumulative_fees p)"
    and "paper_position_init p = Inr p"
    and "po_paper_run_id p = fi_paper_run_id f" and "po_updated_at p = fi_occurred_at f"
    and "position_key p = (fi_strategy_id f, fi_account_id f, fi_instrument_id f)"
    and "po_version p = version_of previous + 1"
proof -
  let ?old_q = "case previous of None \<Rightarrow> dzero | Some p \<Rightarrow> po_net_quantity p"
  let ?old_fees = "case previous of None \<Rightarrow> dzero | Some p \<Rightarrow> po_cumulative_fees p"
  have v: "(case previous of None \<Rightarrow> 1 | Some p \<Rightarrow> po_version p + 1) = version_of previous + 1"
    by (simp add: version_of_def split: option.splits)
  from assms show ?thesis
    unfolding apply_fill_to_position_def Let_def v ebind_eq_Inr require_eq_Inr ledger_arithmetic_eq_Inr
      split_paired_Ex prod.case
    apply (elim exE conjE)
    apply (frule paper_position_init_same)
    apply (rule that [of ?old_q ?old_fees])
              apply (simp_all add: net_value_def fees_value_def position_key_def split: option.splits)
    done
qed

lemma apply_fill_net:
  "apply_fill_to_position h previous f = Inr p \<Longrightarrow>
     dval (po_net_quantity p) = net_value previous + dval (signed_quantity f)"
  by (elim apply_fill_cases) (simp add: dadd_exact_sum [OF ledger_exact_traps])

lemma apply_fill_fees:
  "apply_fill_to_position h previous f = Inr p \<Longrightarrow>
     dval (po_cumulative_fees p) = fees_value previous + dval (fi_fee f)"
  by (elim apply_fill_cases)
    (auto simp: diszero_val dest!: dadd_exact_sum [OF ledger_exact_traps] split: if_splits)

lemma apply_fill_fields:
  assumes "apply_fill_to_position h previous f = Inr p"
  shows "po_version p = version_of previous + 1" and "po_updated_at p = fi_occurred_at f"
    and "position_key p = (fi_strategy_id f, fi_account_id f, fi_instrument_id f)"
    and "po_paper_run_id p = fi_paper_run_id f" and "paper_position_init p = Inr p"
    and "paper_position_id h (fi_paper_run_id f) (fi_strategy_id f) (fi_account_id f)
           (fi_instrument_id f) = Inr (po_paper_position_id p)"
  by (rule apply_fill_cases [OF assms], assumption)+

lemma dval_signed_quantity:
  "dval (signed_quantity f) = (case fi_side f of BUY \<Rightarrow> dval (fi_quantity f) | SELL \<Rightarrow> - dval (fi_quantity f))"
  by (simp add: signed_quantity_def split: order_side.splits)

text \<open>The ledger over a sequence of fills of one key.\<close>

definition ledger_run ::
  "hashes \<Rightarrow> paper_fill list \<Rightarrow> paper_position option \<Rightarrow> paper_position option result" where
  "ledger_run h fs start =
     efold (\<lambda>f p. ebind (apply_fill_to_position h p f) (\<lambda>q. Inr (Some q))) fs start"

text \<open>The position after any sequence of fills is the exact signed sum of their quantities, its fees
  the exact sum of their fees, and its version counts them: no rounding, however many fills.\<close>

theorem ledger_exact:
  assumes "ledger_run h fs start = Inr final"
  shows "net_value final = net_value start + (\<Sum>f\<leftarrow>fs. dval (signed_quantity f))
    \<and> fees_value final = fees_value start + (\<Sum>f\<leftarrow>fs. dval (fi_fee f))
    \<and> version_of final = version_of start + int (length fs)"
  using assms unfolding ledger_run_def
proof (induction fs arbitrary: start)
  case Nil
  then show ?case by simp
next
  case (Cons f fs)
  then obtain q where q: "apply_fill_to_position h start f = Inr q"
    and rest: "efold (\<lambda>f p. ebind (apply_fill_to_position h p f) (\<lambda>q. Inr (Some q))) fs (Some q) = Inr final"
    by (auto simp: err_simps)
  from Cons.IH [OF rest] apply_fill_net [OF q] apply_fill_fees [OF q] apply_fill_fields(1) [OF q]
  show ?case by (simp add: net_value_def fees_value_def version_of_def)
qed


definition example_fill :: "order_side \<Rightarrow> decimal \<Rightarrow> decimal \<Rightarrow> instant \<Rightarrow> paper_fill" where
  "example_fill side q price t =
     \<lparr>fi_paper_run_id = UUID ''run'', fi_paper_fill_id = UUID ''f'', fi_paper_order_id = UUID ''o'',
      fi_strategy_id = ''s'', fi_account_id = ''a'', fi_instrument_id = ''i'', fi_side = side,
      fi_quantity = q, fi_execution_price = price, fi_fee = dzero, fi_source_session_id = UUID ''m'',
      fi_source_ingest_sequence = 1, fi_occurred_at = t, fi_reference_price = Some price,
      fi_slippage_amount = dzero, fi_fee_currency = None, fi_execution_config_fingerprint = []\<rparr>"

definition name_hashes :: hashes where
  "name_hashes = \<lparr>sha256_hex = (\<lambda>s. s), uuid5 = (\<lambda>ns name. UUID name)\<rparr>"

definition example_position :: paper_position where
  "example_position =
     \<lparr>po_paper_run_id = UUID ''run'',
      po_paper_position_id = UUID (json_dumps True (JArr
        [JStr ''paper-position-v1'', JStr ''s'', JStr ''a'', JStr ''i''])),
      po_strategy_id = ''s'', po_account_id = ''a'', po_instrument_id = ''i'',
      po_net_quantity = Dec (-2) 0, po_average_open_price = Some (Dec 110 0),
      po_cumulative_fees = dzero, po_fee_currency = None, po_version = 2, po_updated_at = 9\<rparr>"

lemma ledger_exact_witness:
  "net_value (Some example_position)
     = net_value None + (\<Sum>f\<leftarrow>[example_fill BUY (Dec 3 0) (Dec 100 0) 7, example_fill SELL (Dec 5 0) (Dec 110 0) 9].
         dval (signed_quantity f))"
proof -
  have "ledger_run name_hashes [example_fill BUY (Dec 3 0) (Dec 100 0) 7,
          example_fill SELL (Dec 5 0) (Dec 110 0) 9] None = Inr (Some example_position)"
    by code_simp
  from ledger_exact [OF this] show ?thesis by blast
qed

end
