(* ===== verification/Order_State_Machine.thy ===== *)
theory Order_State_Machine
  imports Paper_Contracts
begin

text \<open>
  The paper-order state machine, \<open>orders/state_machine.py\<close>: the graph of allowed status changes and
  the validation of two successive snapshots of one order.
\<close>

fun allowed_transitions :: "order_status \<Rightarrow> order_status list" where
  "allowed_transitions ACCEPTED = [PARTIALLY_FILLED, FILLED, CANCELLED]"
| "allowed_transitions PARTIALLY_FILLED = [PARTIALLY_FILLED, FILLED, CANCELLED]"
| "allowed_transitions FILLED = []"
| "allowed_transitions CANCELLED = []"
| "allowed_transitions REJECTED = []"

definition can_transition :: "order_status \<Rightarrow> order_status \<Rightarrow> bool" where
  "can_transition previous current = (current \<in> set (allowed_transitions previous))"

definition validate_order_transition :: "paper_order \<Rightarrow> paper_order \<Rightarrow> unit result" where
  "validate_order_transition a b =
     ethen (require (or_paper_run_id a = or_paper_run_id b)
              (InvalidOrderTransition ''paper_run_id must not change'')) (
     ethen (require (or_paper_order_id a = or_paper_order_id b)
              (InvalidOrderTransition ''paper_order_id must not change'')) (
     ethen (require (same_intent (or_intent a) (or_intent b))
              (InvalidOrderTransition ''intent must not change'')) (
     ethen (require (or_accepted_at a = or_accepted_at b)
              (InvalidOrderTransition ''accepted_at must not change'')) (
     ethen (require (can_transition (or_status a) (or_status b))
              (InvalidOrderTransition (''transition from '' @ status_value (or_status a) @ '' to ''
                 @ status_value (or_status b) @ '' is not allowed''))) (
     ethen (require (or_updated_at a \<le> or_updated_at b)
              (InvalidOrderTransition ''updated_at must not move backwards'')) (
     ethen (require (dle (or_filled_quantity a) (or_filled_quantity b))
              (InvalidOrderTransition ''filled_quantity must not decrease'')) (
     ethen (require (dle (or_remaining_quantity b) (or_remaining_quantity a))
              (InvalidOrderTransition ''remaining_quantity must not increase'')) (
     ethen (require (\<not> (deq (or_filled_quantity b) (or_filled_quantity a)
                        \<and> \<not> opt_deq (or_average_fill_price b) (or_average_fill_price a)))
              (InvalidOrderTransition
                 ''average_fill_price must not change without additional filled quantity'')) (
     ethen (require (\<not> (or_status b = PARTIALLY_FILLED
                        \<and> dle (or_filled_quantity b) (or_filled_quantity a)))
              (InvalidOrderTransition ''partial-fill transitions must add filled quantity''))
     (require (\<not> (or_status b = CANCELLED \<and> \<not> deq (or_filled_quantity b) (or_filled_quantity a)))
        (InvalidOrderTransition ''cancellation must not add filled quantity'')))))))))))"

lemma can_transition_from_open: "can_transition a b \<Longrightarrow> \<not> is_terminal a"
  by (cases a) (simp_all add: can_transition_def is_terminal_def)

lemma can_transition_target: "can_transition a b \<Longrightarrow> b \<in> {PARTIALLY_FILLED, FILLED, CANCELLED}"
  by (cases a) (auto simp: can_transition_def)

section \<open>Chains of validated transitions\<close>

text \<open>One validated change of an order.\<close>

definition order_step :: "paper_order \<Rightarrow> paper_order \<Rightarrow> bool" where
  "order_step a b \<longleftrightarrow> validate_order_transition a b = Inr ()"

lemmas order_step_simps = order_step_def validate_order_transition_def err_simps

lemma order_step_open: "order_step a b \<Longrightarrow> \<not> is_terminal (or_status a)"
  by (auto simp: order_step_simps dest: can_transition_from_open)

lemma order_step_target: "order_step a b \<Longrightarrow> or_status b \<in> {PARTIALLY_FILLED, FILLED, CANCELLED}"
  by (auto simp: order_step_simps dest: can_transition_target)

definition order_progress :: "paper_order \<Rightarrow> paper_order \<Rightarrow> bool" where
  "order_progress a b \<longleftrightarrow>
     or_paper_run_id b = or_paper_run_id a \<and> or_paper_order_id b = or_paper_order_id a
     \<and> same_intent (or_intent a) (or_intent b)
     \<and> or_accepted_at b = or_accepted_at a \<and> or_updated_at a \<le> or_updated_at b
     \<and> dval (or_filled_quantity a) \<le> dval (or_filled_quantity b)
     \<and> dval (or_remaining_quantity b) \<le> dval (or_remaining_quantity a)"

lemma same_intent_trans: "same_intent a b \<Longrightarrow> same_intent b c \<Longrightarrow> same_intent a c"
  by (simp add: same_intent_def deq_val opt_deq_val)

lemma order_progress_refl: "order_progress a a"
  by (simp add: order_progress_def same_intent_def)

lemma order_progress_trans: "order_progress a b \<Longrightarrow> order_progress b c \<Longrightarrow> order_progress a c"
  by (auto simp: order_progress_def elim: same_intent_trans)

lemma order_step_progress: "order_step a b \<Longrightarrow> order_progress a b"
  by (auto simp: order_step_simps order_progress_def dec_order)

lemma order_chain_facts:
  assumes "order_step\<^sup>*\<^sup>* a b"
  shows "order_progress a b \<and> (is_terminal (or_status a) \<longrightarrow> b = a)
    \<and> (b \<noteq> a \<longrightarrow> or_status b \<in> {PARTIALLY_FILLED, FILLED, CANCELLED})"
  using assms
proof (induction rule: rtranclp_induct)
  case base
  then show ?case by (simp add: order_progress_refl)
next
  case (step b c)
  have "order_progress a c"
    using step.IH order_step_progress [OF step.hyps(2)] by (blast intro: order_progress_trans)
  then show ?case
    using step.IH order_step_open [OF step.hyps(2)] order_step_target [OF step.hyps(2)] by auto
qed

text \<open>Over any chain of validated transitions the identity, intent and acceptance time of an order
  are fixed, its filled quantity never decreases, its remaining quantity never increases, time does
  not run backwards, and an order that was terminal at the start has not changed at all.\<close>

theorem order_chain_progress:
  assumes "order_step\<^sup>*\<^sup>* a b"
  shows "order_progress a b \<and> (is_terminal (or_status a) \<longrightarrow> b = a)
    \<and> (b \<noteq> a \<longrightarrow> or_status b \<in> {PARTIALLY_FILLED, FILLED, CANCELLED})"
  using assms by (rule order_chain_facts)

definition example_intent :: order_intent where
  "example_intent =
     \<lparr>in_strategy_id = ''s'', in_client_order_id = ''c'', in_account_id = ''a'', in_instrument_id = ''i'',
      in_side = BUY, in_quantity = Dec 3 0, in_order_type = MARKET, in_limit_price = None,
      in_time_in_force = DAY, in_day_trade = False, in_created_at = 0, in_source_session_id = None,
      in_source_ingest_sequence = None\<rparr>"

definition example_order :: "order_status \<Rightarrow> int \<Rightarrow> instant \<Rightarrow> paper_order" where
  "example_order s filled t =
     \<lparr>or_paper_run_id = UUID ''run'', or_paper_order_id = UUID ''o'', or_intent = example_intent,
      or_status = s, or_filled_quantity = Dec filled 0, or_remaining_quantity = Dec (3 - filled) 0,
      or_average_fill_price = (if filled = 0 then None else Some (Dec 100 0)),
      or_accepted_at = Some 0, or_updated_at = t\<rparr>"

lemma order_chain_progress_witness:
  "order_progress (example_order ACCEPTED 0 0) (example_order FILLED 3 9)"
proof -
  have "order_step (example_order ACCEPTED 0 0) (example_order PARTIALLY_FILLED 1 5)"
    and "order_step (example_order PARTIALLY_FILLED 1 5) (example_order FILLED 3 9)"
    by code_simp+
  then have "order_step\<^sup>*\<^sup>* (example_order ACCEPTED 0 0) (example_order FILLED 3 9)"
    by (meson converse_rtranclp_into_rtranclp rtranclp.rtrancl_refl)
  from order_chain_progress [OF this] show ?thesis by blast
qed

end
