(* ===== verification/Paper_Broker.thy ===== *)
theory Paper_Broker
  imports Matching Position_Ledger Order_State_Machine
begin

text \<open>
  The transactional in-memory broker, \<open>orders/paper_broker.py\<close>. \<open>broker_env\<close> is what an instance keeps
  fixed (run id, limits, execution configuration), \<open>broker_state\<close> the frozen state it replaces at its
  one commit point. An operation returns the committed state with its result, or the exception; a
  raised exception commits nothing, so the state before the call remains the state of the broker.
  The lock makes every operation one step.
\<close>

record broker_env =
  be_hashes :: hashes
  be_paper_run_id :: uuid
  be_limits :: paper_broker_limits
  be_execution_config :: paper_execution_config

record outcome_record =
  oc_primary_digest :: string
  oc_primary_outcome :: command_outcome
  oc_alternate_digest :: "string option"
  oc_alternate_outcome :: "command_outcome option"

definition outcome_find :: "outcome_record \<Rightarrow> string \<Rightarrow> command_outcome option" where
  "outcome_find r digest =
     (if digest = oc_primary_digest r then Some (oc_primary_outcome r)
      else if Some digest = oc_alternate_digest r then oc_alternate_outcome r
      else None)"

definition has_alternate :: "outcome_record \<Rightarrow> bool" where
  "has_alternate r = (oc_alternate_digest r \<noteq> None)"

definition primary_record :: "string \<Rightarrow> command_outcome \<Rightarrow> outcome_record" where
  "primary_record digest out =
     \<lparr>oc_primary_digest = digest, oc_primary_outcome = out,
      oc_alternate_digest = None, oc_alternate_outcome = None\<rparr>"

definition with_alternate :: "outcome_record \<Rightarrow> string \<Rightarrow> command_outcome \<Rightarrow> outcome_record" where
  "with_alternate r digest out =
     r\<lparr>oc_alternate_digest := Some digest, oc_alternate_outcome := Some out\<rparr>"

type_synonym submit_key = "string \<times> string"
type_synonym cancel_key = "uuid \<times> string \<times> string"
type_synonym pos_key = "string \<times> string \<times> string"

record broker_state =
  bs_effective_session :: "uuid option"
  bs_bound_session :: "uuid option"
  bs_bound_source :: "string option"
  bs_last_sequence :: "int option"
  bs_next_paper_sequence :: int
  bs_snapshot_version :: int
  bs_execution_config_fingerprint :: string
  bs_orders :: "(uuid, paper_order) dict"
  bs_positions :: "(pos_key, paper_position) dict"
  bs_submit_outcomes :: "(submit_key, outcome_record) dict"
  bs_cancel_outcomes :: "(cancel_key, outcome_record) dict"
  bs_acceptance_ordinal :: "(uuid, int) dict"
  bs_eligibility_sequence :: "(uuid, int) dict"
  bs_next_acceptance_ordinal :: int
  bs_fills :: "paper_fill list"
  bs_events :: "paper_event list"
  bs_instruments :: "(string \<times> int, instrument_metadata) dict"
  bs_envelope_fingerprints :: "(int, string) dict"
  bs_decision_fingerprints :: "(int, string) dict"
  bs_dedupe_sequences :: "(string, int) dict"

definition init_broker :: "broker_env \<Rightarrow> uuid option \<Rightarrow> broker_state" where
  "init_broker env expected_session =
     \<lparr>bs_effective_session = expected_session, bs_bound_session = None, bs_bound_source = None,
      bs_last_sequence = None, bs_next_paper_sequence = 1, bs_snapshot_version = 0,
      bs_execution_config_fingerprint =
        execution_config_fingerprint (be_hashes env) (be_execution_config env),
      bs_orders = [], bs_positions = [], bs_submit_outcomes = [], bs_cancel_outcomes = [],
      bs_acceptance_ordinal = [], bs_eligibility_sequence = [], bs_next_acceptance_ordinal = 1,
      bs_fills = [], bs_events = [], bs_instruments = [], bs_envelope_fingerprints = [],
      bs_decision_fingerprints = [], bs_dedupe_sequences = []\<rparr>"

section \<open>Helpers\<close>

definition unit_separator :: string where
  "unit_separator = [CHR 0x1F]"

definition broker_uuid :: "broker_env \<Rightarrow> string list \<Rightarrow> uuid" where
  "broker_uuid env parts = uuid5 (be_hashes env) (be_paper_run_id env) (join unit_separator parts)"

definition broker_order_id :: "broker_env \<Rightarrow> submit_key \<Rightarrow> uuid" where
  "broker_order_id env key = broker_uuid env [''order'', fst key, snd key]"

definition command_digest :: "broker_env \<Rightarrow> json \<Rightarrow> string" where
  "command_digest env command = sha256_hex (be_hashes env) (utf8 (canonical_json command))"

definition open_order_count :: "broker_state \<Rightarrow> int" where
  "open_order_count st = int (length (filter (\<lambda>p. \<not> is_terminal (or_status p)) (dvalues (bs_orders st))))"

definition ordered_ids :: "broker_state \<Rightarrow> uuid list" where
  "ordered_ids st = map fst (sort_key snd (bs_acceptance_ordinal st))"

definition resolve_cached_outcome :: "broker_state \<Rightarrow> command_outcome \<Rightarrow> command_outcome" where
  "resolve_cached_outcome st out =
     (case out of
        OrderOutcome p \<Rightarrow> (case dget (bs_orders st) (or_paper_order_id p) of
            Some q \<Rightarrow> OrderOutcome q | None \<Rightarrow> OrderOutcome p)
      | RejectionOutcome _ \<Rightarrow> out)"

definition unique_reasons :: "match_skip_reason list \<Rightarrow> match_skip_reason list" where
  "unique_reasons rs = rev (remdups (rev rs))"

definition policy_skip_reason :: "pyexn \<Rightarrow> match_skip_reason option" where
  "policy_skip_reason e =
     (case e of
        ExecutionPolicyError c \<Rightarrow>
          (if c = FEE_CURRENCY_MISMATCH then Some METADATA_MISMATCH
           else if c \<in> {FEE_RULE_MISSING, FEE_CURRENCY_MISSING} then Some METADATA_UNAVAILABLE
           else if c = SLIPPAGE_UNREPRESENTABLE then Some PRICE_UNAVAILABLE
           else None)
      | _ \<Rightarrow> None)"

definition make_rejection ::
  "broker_env \<Rightarrow> string \<Rightarrow> string \<Rightarrow> rejection_code \<Rightarrow> instant \<Rightarrow> uuid option \<Rightarrow> paper_rejection result" where
  "make_rejection env strategy client code at_time order_id =
     paper_rejection_init
       \<lparr>rj_paper_run_id = be_paper_run_id env, rj_strategy_id = strategy,
        rj_client_order_id = client, rj_code = code, rj_rejected_at = at_time,
        rj_paper_order_id = order_id\<rparr>"

definition make_event ::
  "broker_env \<Rightarrow> int \<Rightarrow> paper_event_type \<Rightarrow> paper_event_payload \<Rightarrow> instant \<Rightarrow> uuid option \<Rightarrow> int option
     \<Rightarrow> paper_event result" where
  "make_event env seq t payload at_time session ingest =
     paper_event_init
       \<lparr>ev_paper_run_id = be_paper_run_id env,
        ev_paper_event_id = broker_uuid env [''event'', show_int seq, event_type_value t],
        ev_paper_sequence = seq, ev_event_type = t, ev_payload = payload, ev_occurred_at = at_time,
        ev_source_session_id = session, ev_source_ingest_sequence = ingest\<rparr>"

text \<open>The journal gets one event, numbered by the sequence the state holds.\<close>

definition journal_event :: "paper_event \<Rightarrow> broker_state \<Rightarrow> broker_state" where
  "journal_event e st =
     st\<lparr>bs_events := bs_events st @ [e], bs_next_paper_sequence := bs_next_paper_sequence st + 1\<rparr>"

definition bump_version :: "broker_state \<Rightarrow> broker_state" where
  "bump_version st = st\<lparr>bs_snapshot_version := bs_snapshot_version st + 1\<rparr>"

definition events_full :: "broker_env \<Rightarrow> broker_state \<Rightarrow> bool" where
  "events_full env st = (max_events (be_limits env) \<le> int (length (bs_events st)))"

definition append_rejection_event ::
  "broker_env \<Rightarrow> paper_rejection \<Rightarrow> broker_state \<Rightarrow> broker_state result" where
  "append_rejection_event env r st =
     (if events_full env st then Inr st
      else ebind (make_event env (bs_next_paper_sequence st) ORDER_REJECTED (RejectionPayload r)
                    (rj_rejected_at r) None None) (\<lambda>e. Inr (bump_version (journal_event e st))))"

definition stage_rejection ::
  "broker_env \<Rightarrow> broker_state \<Rightarrow> paper_rejection \<Rightarrow> (submit_key, outcome_record) dict
     \<Rightarrow> broker_state result" where
  "stage_rejection env st r outcomes =
     ebind (append_rejection_event env r (st\<lparr>bs_submit_outcomes := outcomes\<rparr>)) (\<lambda>staged.
     Inr (if bs_snapshot_version staged = bs_snapshot_version st then bump_version staged else staged))"

definition commit_new_submit_rejection ::
  "broker_env \<Rightarrow> broker_state \<Rightarrow> broker_state \<Rightarrow> submit_key \<Rightarrow> string \<Rightarrow> paper_rejection
     \<Rightarrow> (broker_state \<times> command_outcome) result" where
  "commit_new_submit_rejection env committed st key digest r =
     (if max_orders (be_limits env) \<le> int (length (bs_submit_outcomes st))
      then Inr (committed, RejectionOutcome r)
      else ebind (stage_rejection env st r
                    (dset key (primary_record digest (RejectionOutcome r)) (bs_submit_outcomes st)))
             (\<lambda>staged. Inr (staged, RejectionOutcome r)))"

section \<open>Submitting\<close>

text \<open>The order a new intent becomes.\<close>

definition accepted_order :: "broker_env \<Rightarrow> order_intent \<Rightarrow> uuid \<Rightarrow> paper_order result" where
  "accepted_order env i order_id =
     paper_order_init matching_context
       \<lparr>or_paper_run_id = be_paper_run_id env, or_paper_order_id = order_id, or_intent = i,
        or_status = ACCEPTED, or_filled_quantity = dzero, or_remaining_quantity = in_quantity i,
        or_average_fill_price = None, or_accepted_at = Some (in_created_at i),
        or_updated_at = in_created_at i\<rparr>"

definition record_acceptance ::
  "paper_order \<Rightarrow> submit_key \<Rightarrow> string \<Rightarrow> int \<Rightarrow> paper_event \<Rightarrow> broker_state \<Rightarrow> broker_state" where
  "record_acceptance p key digest eligible e st =
     journal_event e
       (st\<lparr>bs_orders := dset (or_paper_order_id p) p (bs_orders st),
           bs_submit_outcomes := dset key (primary_record digest (OrderOutcome p)) (bs_submit_outcomes st),
           bs_acceptance_ordinal :=
             dset (or_paper_order_id p) (bs_next_acceptance_ordinal st) (bs_acceptance_ordinal st),
           bs_eligibility_sequence := dset (or_paper_order_id p) eligible (bs_eligibility_sequence st),
           bs_next_acceptance_ordinal := bs_next_acceptance_ordinal st + 1\<rparr>)"

definition submit_rejection ::
  "broker_env \<Rightarrow> order_intent \<Rightarrow> rejection_code \<Rightarrow> paper_rejection result" where
  "submit_rejection env i code =
     make_rejection env (in_strategy_id i) (in_client_order_id i) code (in_created_at i)
       (Some (broker_order_id env (in_strategy_id i, in_client_order_id i)))"

definition orders_full :: "broker_env \<Rightarrow> broker_state \<Rightarrow> bool" where
  "orders_full env st \<longleftrightarrow>
     max_orders (be_limits env) \<le> int (length (bs_orders st))
     \<or> max_open_orders (be_limits env) \<le> open_order_count st
     \<or> events_full env st"

definition submit ::
  "broker_env \<Rightarrow> order_intent \<Rightarrow> broker_state \<Rightarrow> (broker_state \<times> command_outcome) result" where
  "submit env i st =
     (let digest = command_digest env (json_order_intent i);
          key = (in_strategy_id i, in_client_order_id i)
      in case dget (bs_submit_outcomes st) key of
        Some r \<Rightarrow>
          (case outcome_find r digest of
             Some cached \<Rightarrow> Inr (st, resolve_cached_outcome st cached)
           | None \<Rightarrow>
               ebind (submit_rejection env i IDEMPOTENCY_CONFLICT) (\<lambda>conflict.
               if has_alternate r then Inr (st, RejectionOutcome conflict)
               else ebind (stage_rejection env st conflict
                             (dset key (with_alternate r digest (RejectionOutcome conflict))
                                (bs_submit_outcomes st)))
                      (\<lambda>staged. Inr (staged, RejectionOutcome conflict))))
      | None \<Rightarrow>
          if in_source_session_id i \<noteq> None \<and> bs_effective_session st \<noteq> None
             \<and> in_source_session_id i \<noteq> bs_effective_session st
          then ebind (submit_rejection env i INVALID_INTENT) (\<lambda>r.
                 commit_new_submit_rejection env st st key digest r)
          else
            let effective = (if in_source_session_id i \<noteq> None \<and> bs_effective_session st = None
                             then in_source_session_id i else bs_effective_session st)
            in if max_orders (be_limits env) \<le> int (length (bs_submit_outcomes st))
            then ebind (submit_rejection env i CAPACITY_EXCEEDED) (\<lambda>r. Inr (st, RejectionOutcome r))
            else if orders_full env st
            then ebind (submit_rejection env i CAPACITY_EXCEEDED) (\<lambda>r.
                   commit_new_submit_rejection env st (st\<lparr>bs_effective_session := effective\<rparr>) key digest r)
            else
              ebind (accepted_order env i (broker_order_id env key)) (\<lambda>p.
              ebind (make_event env (bs_next_paper_sequence st) ORDER_ACCEPTED (OrderPayload p)
                       (in_created_at i) (in_source_session_id i) (in_source_ingest_sequence i)) (\<lambda>e.
              let eligible = (case in_source_ingest_sequence i of
                                Some n \<Rightarrow> n
                              | None \<Rightarrow> (case bs_last_sequence st of None \<Rightarrow> -1 | Some n \<Rightarrow> n))
              in Inr (bump_version (record_acceptance p key digest eligible e
                        (st\<lparr>bs_effective_session := effective\<rparr>)), OrderOutcome p))))"

section \<open>Cancelling\<close>

definition cancel_rejection ::
  "broker_env \<Rightarrow> cancel_intent \<Rightarrow> rejection_code \<Rightarrow> (command_outcome \<times> paper_event_type option) result" where
  "cancel_rejection env c code =
     ebind (make_rejection env (cn_strategy_id c) (cn_client_order_id c) code (cn_requested_at c)
              (Some (cn_paper_order_id c))) (\<lambda>r. Inr (RejectionOutcome r, None))"

definition evaluate_cancel ::
  "broker_env \<Rightarrow> broker_state \<Rightarrow> cancel_intent \<Rightarrow> (command_outcome \<times> paper_event_type option) result" where
  "evaluate_cancel env st c =
     (case dget (bs_orders st) (cn_paper_order_id c) of
        None \<Rightarrow> cancel_rejection env c UNKNOWN_ORDER
      | Some p \<Rightarrow>
          if in_strategy_id (or_intent p) \<noteq> cn_strategy_id c
             \<or> in_client_order_id (or_intent p) \<noteq> cn_client_order_id c
          then cancel_rejection env c UNKNOWN_ORDER
          else if cn_requested_at c < or_updated_at p then cancel_rejection env c INVALID_INTENT
          else if or_status p = CANCELLED then Inr (OrderOutcome p, None)
          else if is_terminal (or_status p) then cancel_rejection env c ORDER_TERMINAL
          else if events_full env st then cancel_rejection env c CAPACITY_EXCEEDED
          else
            ebind (paper_order_init matching_context
                     (p\<lparr>or_status := CANCELLED, or_updated_at := cn_requested_at c\<rparr>)) (\<lambda>q.
            ethen (validate_order_transition p q)
            (Inr (OrderOutcome q, Some ORDER_CANCELLED))))"

definition can_cache_cancel :: "broker_env \<Rightarrow> broker_state \<Rightarrow> outcome_record option \<Rightarrow> bool" where
  "can_cache_cancel env st r =
     (case r of
        None \<Rightarrow> int (length (bs_cancel_outcomes st)) < max_orders (be_limits env)
      | Some rc \<Rightarrow> \<not> has_alternate rc)"

definition cache_cancel ::
  "cancel_key \<Rightarrow> string \<Rightarrow> command_outcome \<Rightarrow> outcome_record option \<Rightarrow> broker_state \<Rightarrow> broker_state" where
  "cache_cancel key digest out r st =
     st\<lparr>bs_cancel_outcomes := dset key
          (case r of None \<Rightarrow> primary_record digest out | Some rc \<Rightarrow> with_alternate rc digest out)
          (bs_cancel_outcomes st)\<rparr>"

definition cancel ::
  "broker_env \<Rightarrow> cancel_intent \<Rightarrow> broker_state \<Rightarrow> (broker_state \<times> command_outcome) result" where
  "cancel env c committed =
     (let digest = command_digest env (json_cancel_intent c);
          key = (cn_paper_order_id c, cn_strategy_id c, cn_client_order_id c)
      in if cn_source_session_id c \<noteq> None
            \<and> (bs_effective_session committed \<noteq> None
                 \<and> cn_source_session_id c \<noteq> bs_effective_session committed
               \<or> bs_bound_session committed \<noteq> None
                 \<and> cn_source_session_id c \<noteq> bs_bound_session committed)
         then Inl (PaperBrokerInputError ''paper cancel source session mismatch'')
         else
           let st = (if cn_source_session_id c \<noteq> None \<and> bs_effective_session committed = None
                     then committed\<lparr>bs_effective_session := cn_source_session_id c\<rparr> else committed);
               r = dget (bs_cancel_outcomes st) key
           in case (case r of None \<Rightarrow> None | Some rc \<Rightarrow> outcome_find rc digest) of
             Some cached \<Rightarrow> Inr (committed, resolve_cached_outcome st cached)
           | None \<Rightarrow>
               ebind (evaluate_cancel env st c) (\<lambda>(out, kind).
               case (out, kind) of
                 (OrderOutcome p, None) \<Rightarrow> Inr (committed, out)
               | (RejectionOutcome _, Some _) \<Rightarrow> Inl AssertionError
               | (OrderOutcome p, Some t) \<Rightarrow>
                   let staged = (if can_cache_cancel env st r then cache_cancel key digest out r st else st)
                   in ebind (make_event env (bs_next_paper_sequence st) t (OrderPayload p)
                               (cn_requested_at c) (cn_source_session_id c)
                               (cn_source_ingest_sequence c)) (\<lambda>e.
                      Inr (bump_version (journal_event e
                             (staged\<lparr>bs_orders := dset (or_paper_order_id p) p (bs_orders st)\<rparr>)), out))
               | (RejectionOutcome rj, None) \<Rightarrow>
                   if \<not> can_cache_cancel env st r then Inr (committed, out)
                   else ebind (append_rejection_event env rj (cache_cancel key digest out r st)) (\<lambda>staged.
                        Inr (if bs_snapshot_version staged = bs_snapshot_version st
                             then bump_version staged else staged, out))))"

section \<open>Matching a quote\<close>

text \<open>
  The local variables of \<open>_stage_matches\<close> and the mutable collections it is given; the two capacities
  are the entries of the dictionary \<open>capacities\<close>.
\<close>

record match_stage =
  ms_orders :: "(uuid, paper_order) dict"
  ms_positions :: "(pos_key, paper_position) dict"
  ms_fills :: "paper_fill list"
  ms_events :: "paper_event list"
  ms_result_fills :: "paper_fill list"
  ms_result_positions :: "paper_position list"
  ms_result_events :: "paper_event list"
  ms_reasons :: "match_skip_reason list"
  ms_next_sequence :: int
  ms_buy_capacity :: "decimal option"
  ms_sell_capacity :: "decimal option"
  ms_fill_ordinal :: int

definition side_capacity :: "order_side \<Rightarrow> match_stage \<Rightarrow> decimal option" where
  "side_capacity side ms = (case side of BUY \<Rightarrow> ms_buy_capacity ms | SELL \<Rightarrow> ms_sell_capacity ms)"

definition set_capacity :: "order_side \<Rightarrow> decimal \<Rightarrow> match_stage \<Rightarrow> match_stage" where
  "set_capacity side d ms =
     (case side of BUY \<Rightarrow> ms\<lparr>ms_buy_capacity := Some d\<rparr> | SELL \<Rightarrow> ms\<lparr>ms_sell_capacity := Some d\<rparr>)"

definition skip_order :: "match_skip_reason \<Rightarrow> match_stage \<Rightarrow> match_stage" where
  "skip_order r ms = ms\<lparr>ms_reasons := ms_reasons ms @ [r]\<rparr>"

definition causal_time :: "envelope \<Rightarrow> instant" where
  "causal_time e = (case en_event_at e of Some t \<Rightarrow> t | None \<Rightarrow> en_received_at e)"

definition order_position_key :: "paper_order \<Rightarrow> pos_key" where
  "order_position_key p =
     (in_strategy_id (or_intent p), in_account_id (or_intent p), in_instrument_id (or_intent p))"

text \<open>The slippage and limit policies of one order; both raise inside the same \<open>try\<close>.\<close>

definition assess_price ::
  "broker_env \<Rightarrow> decimal \<Rightarrow> order_intent \<Rightarrow> (slippage_assessment \<times> limit_assessment) result" where
  "assess_price env reference i =
     ebind (assess_slippage reference (in_side i) (ec_slippage (be_execution_config env))) (\<lambda>s.
     ebind (assess_limit (sa_execution_price s) (in_side i) (in_limit_price i)) (\<lambda>l.
     Inr (s, l)))"

definition new_fill ::
  "broker_env \<Rightarrow> string \<Rightarrow> envelope \<Rightarrow> uuid \<Rightarrow> paper_order \<Rightarrow> int \<Rightarrow> decimal \<Rightarrow> slippage_assessment
     \<Rightarrow> fee_assessment \<Rightarrow> paper_fill result" where
  "new_fill env config_fp e order_id p ordinal quantity slip fee =
     (let i = or_intent p in
      paper_fill_init matching_context
        \<lparr>fi_paper_run_id = be_paper_run_id env,
         fi_paper_fill_id = broker_uuid env [''fill'', uuid_str order_id,
           uuid_str (en_session_id e), show_int (en_ingest_sequence e), show_int ordinal, config_fp],
         fi_paper_order_id = order_id, fi_strategy_id = in_strategy_id i,
         fi_account_id = in_account_id i, fi_instrument_id = in_instrument_id i,
         fi_side = in_side i, fi_quantity = quantity, fi_execution_price = sa_execution_price slip,
         fi_fee = fa_fee fee, fi_source_session_id = en_session_id e,
         fi_source_ingest_sequence = en_ingest_sequence e, fi_occurred_at = causal_time e,
         fi_reference_price = Some (sa_reference_price slip),
         fi_slippage_amount = sa_slippage_amount slip, fi_fee_currency = fa_currency fee,
         fi_execution_config_fingerprint = config_fp\<rparr>)"

definition filled_order ::
  "envelope \<Rightarrow> paper_order \<Rightarrow> decimal \<Rightarrow> decimal \<Rightarrow> decimal \<Rightarrow> paper_order result" where
  "filled_order e p filled quantity price =
     ebind (dsub matching_context (in_quantity (or_intent p)) filled) (\<lambda>remaining.
     ebind (weighted_average (or_filled_quantity p) (or_average_fill_price p) quantity price) (\<lambda>avg.
     paper_order_init matching_context
       (p\<lparr>or_status := (if deq filled (in_quantity (or_intent p)) then FILLED else PARTIALLY_FILLED),
          or_filled_quantity := filled, or_remaining_quantity := remaining,
          or_average_fill_price := Some avg, or_updated_at := causal_time e\<rparr>)))"

text \<open>The three events of a fill and the state after it.\<close>

definition record_fill ::
  "broker_env \<Rightarrow> envelope \<Rightarrow> uuid \<Rightarrow> paper_order \<Rightarrow> paper_fill \<Rightarrow> paper_position \<Rightarrow> decimal \<Rightarrow> match_stage
     \<Rightarrow> match_stage result" where
  "record_fill env e order_id q f pos remaining_capacity ms =
     (let n = ms_next_sequence ms; t = causal_time e;
          session = Some (en_session_id e); ingest = Some (en_ingest_sequence e)
      in
      ebind (make_event env n FILL_RECORDED (FillPayload f) t session ingest) (\<lambda>fill_event.
      ebind (make_event env (n + 1)
               (if or_status q = FILLED then ORDER_FILLED else ORDER_PARTIALLY_FILLED)
               (OrderPayload q) t session ingest) (\<lambda>order_event.
      ebind (make_event env (n + 2) POSITION_CHANGED (PositionPayload pos) t session ingest) (\<lambda>position_event.
      Inr (set_capacity (in_side (or_intent q)) remaining_capacity
        (ms\<lparr>ms_orders := dset order_id q (ms_orders ms),
            ms_positions := dset (order_position_key q) pos (ms_positions ms),
            ms_fills := ms_fills ms @ [f], ms_result_fills := ms_result_fills ms @ [f],
            ms_result_positions := ms_result_positions ms @ [pos],
            ms_events := ms_events ms @ [fill_event, order_event, position_event],
            ms_result_events := ms_result_events ms @ [fill_event, order_event, position_event],
            ms_next_sequence := n + 3, ms_fill_ordinal := ms_fill_ordinal ms + 1\<rparr>))))))"

text \<open>One fill: the amounts, the fee, the fill, the order after it, the position, in this order.\<close>

definition fill_order ::
  "broker_env \<Rightarrow> string \<Rightarrow> envelope \<Rightarrow> quote_top \<Rightarrow> uuid \<Rightarrow> paper_order \<Rightarrow> decimal \<Rightarrow> slippage_assessment
     \<Rightarrow> match_stage \<Rightarrow> match_stage result" where
  "fill_order env config_fp e tp order_id p available slip ms =
     (let i = or_intent p; quantity = dmin (or_remaining_quantity p) available in
      ebind (dadd matching_context (or_filled_quantity p) quantity) (\<lambda>filled.
      case assess_fee (ec_fee_schedule (be_execution_config env)) (in_instrument_id i)
             (qt_currency tp) (or_filled_quantity p) filled of
        Inl x \<Rightarrow> (case policy_skip_reason x of None \<Rightarrow> Inl x | Some r \<Rightarrow> Inr (skip_order r ms))
      | Inr fee \<Rightarrow>
          ebind (new_fill env config_fp e order_id p (ms_fill_ordinal ms + 1) quantity slip fee) (\<lambda>f.
          ebind (filled_order e p filled quantity (sa_execution_price slip)) (\<lambda>q.
          ethen (validate_order_transition p q) (
          case apply_fill_to_position (be_hashes env)
                 (dget (ms_positions ms) (order_position_key p)) f of
            Inl x \<Rightarrow> if x = PositionLedgerError TEMPORAL_ORDER
                     then Inr (skip_order ORDER_NOT_ELIGIBLE ms) else Inl x
          | Inr pos \<Rightarrow>
              ebind (dsub matching_context available quantity) (\<lambda>remaining_capacity.
              record_fill env e order_id q f pos remaining_capacity ms))))))"

definition order_eligible :: "envelope \<Rightarrow> int \<Rightarrow> paper_order \<Rightarrow> bool" where
  "order_eligible e eligible_after p \<longleftrightarrow>
     eligible_after < en_ingest_sequence e
     \<and> (in_source_session_id (or_intent p) = None
          \<or> in_source_session_id (or_intent p) = Some (en_session_id e))
     \<and> or_updated_at p \<le> causal_time e"

definition match_order ::
  "broker_env \<Rightarrow> broker_state \<Rightarrow> envelope \<Rightarrow> quote \<Rightarrow> quote_top \<Rightarrow> uuid \<Rightarrow> match_stage
     \<Rightarrow> match_stage result" where
  "match_order env st e q tp order_id ms =
     (case dget (ms_orders ms) order_id of
        None \<Rightarrow> Inl KeyError
      | Some p \<Rightarrow>
        if is_terminal (or_status p) \<or> in_instrument_id (or_intent p) \<noteq> qu_instrument_id q then Inr ms
        else (case dget (bs_eligibility_sequence st) order_id of
          None \<Rightarrow> Inl KeyError
        | Some eligible_after \<Rightarrow>
          if \<not> order_eligible e eligible_after p then Inr (skip_order ORDER_NOT_ELIGIBLE ms)
          else
            ebind (execution_price p tp) (\<lambda>price.
            case price of
              None \<Rightarrow> Inr (skip_order LIMIT_NOT_CROSSED ms)
            | Some reference \<Rightarrow>
              (case side_capacity (in_side (or_intent p)) ms of
                 None \<Rightarrow> Inr (skip_order QUANTITY_UNAVAILABLE ms)
               | Some available \<Rightarrow>
                 if \<not> dpos available then Inr (skip_order NO_LIQUIDITY ms)
                 else
                   (case assess_price env reference (or_intent p) of
                      Inl x \<Rightarrow> (case policy_skip_reason x of
                          None \<Rightarrow> Inl x | Some r \<Rightarrow> Inr (skip_order r ms))
                    | Inr (slip, la) \<Rightarrow>
                      if \<not> la_executable la
                      then (case la_skip_reason la of
                              None \<Rightarrow> Inl AssertionError | Some r \<Rightarrow> Inr (skip_order r ms))
                      else fill_order env (bs_execution_config_fingerprint st) e tp order_id p available slip ms)))))"

definition stage_matches ::
  "broker_env \<Rightarrow> broker_state \<Rightarrow> envelope \<Rightarrow> quote \<Rightarrow> quote_top \<Rightarrow> match_stage \<Rightarrow> match_stage result" where
  "stage_matches env st e q tp ms =
     efold (match_order env st e q tp) (ordered_ids st)
       (ms\<lparr>ms_buy_capacity := qt_ask_capacity tp, ms_sell_capacity := qt_bid_capacity tp,
           ms_fill_ordinal := 0\<rparr>)"

section \<open>Commands of a decision batch\<close>

definition stage_batch_rejection ::
  "broker_env \<Rightarrow> broker_state \<Rightarrow> paper_rejection \<Rightarrow> envelope \<Rightarrow> broker_state result" where
  "stage_batch_rejection env st r e =
     (if events_full env st then Inr st
      else ebind (make_event env (bs_next_paper_sequence st) ORDER_REJECTED (RejectionPayload r)
                    (rj_rejected_at r) (Some (en_session_id e)) (Some (en_ingest_sequence e)))
             (\<lambda>ev. Inr (journal_event ev st)))"

definition stage_batch_submit ::
  "broker_env \<Rightarrow> envelope \<Rightarrow> order_intent \<Rightarrow> broker_state \<Rightarrow> (broker_state \<times> command_outcome) result" where
  "stage_batch_submit env e i st =
     (let digest = command_digest env (json_order_intent i);
          key = (in_strategy_id i, in_client_order_id i)
      in case dget (bs_submit_outcomes st) key of
        Some r \<Rightarrow>
          (case outcome_find r digest of
             Some cached \<Rightarrow> Inr (st, resolve_cached_outcome st cached)
           | None \<Rightarrow>
               ebind (submit_rejection env i IDEMPOTENCY_CONFLICT) (\<lambda>conflict.
               if has_alternate r then Inr (st, RejectionOutcome conflict)
               else ebind (stage_batch_rejection env
                             (st\<lparr>bs_submit_outcomes :=
                                dset key (with_alternate r digest (RejectionOutcome conflict))
                                  (bs_submit_outcomes st)\<rparr>) conflict e)
                      (\<lambda>staged. Inr (staged, RejectionOutcome conflict))))
      | None \<Rightarrow>
          if max_orders (be_limits env) \<le> int (length (bs_submit_outcomes st))
          then ebind (submit_rejection env i CAPACITY_EXCEEDED) (\<lambda>r. Inr (st, RejectionOutcome r))
          else if orders_full env st
          then ebind (submit_rejection env i CAPACITY_EXCEEDED) (\<lambda>r.
               ebind (stage_batch_rejection env
                        (st\<lparr>bs_submit_outcomes :=
                           dset key (primary_record digest (RejectionOutcome r))
                             (bs_submit_outcomes st)\<rparr>) r e)
                 (\<lambda>staged. Inr (staged, RejectionOutcome r)))
          else
            ebind (accepted_order env i (broker_order_id env key)) (\<lambda>p.
            ebind (make_event env (bs_next_paper_sequence st) ORDER_ACCEPTED (OrderPayload p)
                     (in_created_at i) (Some (en_session_id e)) (Some (en_ingest_sequence e))) (\<lambda>ev.
            Inr (record_acceptance p key digest (en_ingest_sequence e) ev st, OrderOutcome p))))"

definition stage_batch_cancel ::
  "broker_env \<Rightarrow> envelope \<Rightarrow> cancel_intent \<Rightarrow> broker_state \<Rightarrow> (broker_state \<times> command_outcome) result" where
  "stage_batch_cancel env e c st =
     (let digest = command_digest env (json_cancel_intent c);
          key = (cn_paper_order_id c, cn_strategy_id c, cn_client_order_id c);
          r = dget (bs_cancel_outcomes st) key
      in case (case r of None \<Rightarrow> None | Some rc \<Rightarrow> outcome_find rc digest) of
        Some cached \<Rightarrow> Inr (st, resolve_cached_outcome st cached)
      | None \<Rightarrow>
          ebind (evaluate_cancel env st c) (\<lambda>(out, kind).
          let staged = (if can_cache_cancel env st r then cache_cancel key digest out r st else st)
          in case (out, kind) of
            (OrderOutcome p, None) \<Rightarrow> Inr (st, out)
          | (RejectionOutcome _, Some _) \<Rightarrow> Inl AssertionError
          | (OrderOutcome p, Some t) \<Rightarrow>
              ebind (make_event env (bs_next_paper_sequence staged) t (OrderPayload p)
                       (cn_requested_at c) (Some (en_session_id e)) (Some (en_ingest_sequence e))) (\<lambda>ev.
              Inr (journal_event ev
                     (staged\<lparr>bs_orders := dset (or_paper_order_id p) p (bs_orders staged)\<rparr>), out))
          | (RejectionOutcome rj, None) \<Rightarrow>
              if \<not> can_cache_cancel env st r then Inr (staged, out)
              else ebind (stage_batch_rejection env staged rj e) (\<lambda>staged'. Inr (staged', out))))"

fun stage_batch_command ::
  "broker_env \<Rightarrow> envelope \<Rightarrow> paper_command \<Rightarrow> broker_state \<Rightarrow> (broker_state \<times> command_outcome) result" where
  "stage_batch_command env e (SubmitCommand i) st = stage_batch_submit env e i st"
| "stage_batch_command env e (CancelCommand c) st = stage_batch_cancel env e c st"

text \<open>The loop over the commands of a decision, with the outcomes in order.\<close>

definition stage_batch_commands ::
  "broker_env \<Rightarrow> envelope \<Rightarrow> paper_command list \<Rightarrow> broker_state
     \<Rightarrow> (broker_state \<times> command_outcome list) result" where
  "stage_batch_commands env e commands st =
     efold (\<lambda>c (s, outs). ebind (stage_batch_command env e c s) (\<lambda>(s', out). Inr (s', outs @ [out])))
       commands (st, [])"

section \<open>Market data and decision batches\<close>

text \<open>The fence: \<open>Inr True\<close> is a duplicate of a committed envelope.\<close>

definition validate_envelope_fence ::
  "broker_state \<Rightarrow> envelope \<Rightarrow> string \<Rightarrow> string \<Rightarrow> bool result" where
  "validate_envelope_fence st e fingerprint dedupe_digest =
     ethen (require (bs_effective_session st = None \<or> bs_effective_session st = Some (en_session_id e))
              (PaperBrokerInputError ''market-data source session mismatch'')) (
     ethen (require (bs_bound_source st = None \<or> bs_bound_source st = Some (en_source e))
              (PaperBrokerInputError ''market-data source mismatch'')) (
     case dget (bs_envelope_fingerprints st) (en_ingest_sequence e) of
       Some previous \<Rightarrow>
         if previous = fingerprint then Inr True
         else Inl (PaperBrokerInputError ''market-data sequence content conflict'')
     | None \<Rightarrow>
         ethen (require (case bs_last_sequence st of None \<Rightarrow> True | Some n \<Rightarrow> n \<le> en_ingest_sequence e)
                  (PaperBrokerInputError ''market-data sequence is out of order'')) (
         ethen (require (dget (bs_dedupe_sequences st) dedupe_digest = None)
                  (PaperBrokerInputError ''market-data dedupe key was reused''))
         (Inr False))))"

definition stage_start :: "broker_state \<Rightarrow> match_stage" where
  "stage_start st =
     \<lparr>ms_orders = bs_orders st, ms_positions = bs_positions st, ms_fills = bs_fills st,
      ms_events = bs_events st, ms_result_fills = [], ms_result_positions = [],
      ms_result_events = [], ms_reasons = [], ms_next_sequence = bs_next_paper_sequence st,
      ms_buy_capacity = None, ms_sell_capacity = None, ms_fill_ordinal = 0\<rparr>"

definition stage_instrument ::
  "broker_env \<Rightarrow> instrument \<Rightarrow> broker_state \<Rightarrow> (string \<times> int, instrument_metadata) dict result" where
  "stage_instrument env i st =
     ebind (instrument_metadata_init
              \<lparr>im_instrument_id = it_instrument_id i, im_metadata_version = it_metadata_version i,
               im_price_scale = it_price_scale i, im_quantity_scale = it_quantity_scale i,
               im_currency = it_currency i\<rparr>) (\<lambda>m.
     let key = (it_instrument_id i, it_metadata_version i);
         existing = dget (bs_instruments st) key
     in
     ethen (require (case existing of None \<Rightarrow> True | Some x \<Rightarrow> same_metadata x m)
              (PaperBrokerInputError ''instrument metadata version conflict'')) (
     ethen (require (\<not> (existing = None \<and>
                        max_instrument_versions (be_limits env) \<le> int (length (bs_instruments st))))
              (PaperBrokerCapacityError ''instrument metadata version capacity was exceeded''))
     (Inr (dset key m (bs_instruments st)))))"

definition stage_quote :: "broker_env \<Rightarrow> envelope \<Rightarrow> quote \<Rightarrow> broker_state \<Rightarrow> match_stage result" where
  "stage_quote env e q st =
     ebind (inspect_quote_top q (case en_metadata_version e of
              None \<Rightarrow> None
            | Some v \<Rightarrow> dget (bs_instruments st) (qu_instrument_id q, v))) (\<lambda>assessment.
     case assessment of
       Inl reasons \<Rightarrow> Inr ((stage_start st)\<lparr>ms_reasons := reasons\<rparr>)
     | Inr tp \<Rightarrow> stage_matches env st e q tp ((stage_start st)\<lparr>ms_reasons := qt_skip_reasons tp\<rparr>))"

definition stage_market_data ::
  "broker_env \<Rightarrow> envelope \<Rightarrow> broker_state
     \<Rightarrow> ((string \<times> int, instrument_metadata) dict \<times> match_stage) result" where
  "stage_market_data env e st =
     (case en_event_type e of
        INSTRUMENT \<Rightarrow>
          (case en_payload e of
             InstrumentPayload i \<Rightarrow>
               ebind (stage_instrument env i st) (\<lambda>instruments.
               Inr (instruments, skip_order EVENT_NOT_QUOTE (stage_start st)))
           | _ \<Rightarrow> Inl AssertionError)
      | QUOTE \<Rightarrow>
          (case en_payload e of
             QuotePayload q \<Rightarrow>
               ebind (stage_quote env e q st) (\<lambda>ms. Inr (bs_instruments st, ms))
           | _ \<Rightarrow> Inl AssertionError)
      | _ \<Rightarrow> Inr (bs_instruments st, skip_order EVENT_NOT_QUOTE (stage_start st)))"

definition within_limits :: "broker_env \<Rightarrow> nat \<Rightarrow> nat \<Rightarrow> nat \<Rightarrow> bool" where
  "within_limits env fills events positions \<longleftrightarrow>
     int fills \<le> max_fills (be_limits env) \<and> int events \<le> max_events (be_limits env)
     \<and> int positions \<le> max_positions (be_limits env)"

text \<open>The state with the staged market data, before the commands of the decision.\<close>

definition apply_stage ::
  "envelope \<Rightarrow> (string \<times> int, instrument_metadata) dict \<Rightarrow> match_stage \<Rightarrow> broker_state \<Rightarrow> broker_state" where
  "apply_stage e instruments ms st =
     st\<lparr>bs_effective_session := Some (en_session_id e), bs_bound_session := Some (en_session_id e),
        bs_bound_source := Some (en_source e), bs_last_sequence := Some (en_ingest_sequence e),
        bs_next_paper_sequence := ms_next_sequence ms, bs_orders := ms_orders ms,
        bs_positions := ms_positions ms, bs_fills := ms_fills ms, bs_events := ms_events ms,
        bs_instruments := instruments\<rparr>"

definition record_fence ::
  "envelope \<Rightarrow> string \<Rightarrow> string \<Rightarrow> string \<Rightarrow> broker_state \<Rightarrow> broker_state \<Rightarrow> broker_state" where
  "record_fence e fingerprint dedupe_digest decision_fp st staged =
     staged\<lparr>bs_snapshot_version := bs_snapshot_version st + 1,
        bs_envelope_fingerprints :=
          dset (en_ingest_sequence e) fingerprint (bs_envelope_fingerprints st),
        bs_decision_fingerprints :=
          dset (en_ingest_sequence e) decision_fp (bs_decision_fingerprints st),
        bs_dedupe_sequences := dset dedupe_digest (en_ingest_sequence e) (bs_dedupe_sequences st)\<rparr>"

definition duplicate_batch_result ::
  "broker_env \<Rightarrow> envelope \<Rightarrow> paper_decision \<Rightarrow> broker_state \<Rightarrow> decision_batch_result result" where
  "duplicate_batch_result env e d st =
     ebind (match_result_init
       \<lparr>mr_paper_run_id = be_paper_run_id env, mr_disposition = DUPLICATE,
        mr_source_session_id = en_session_id e, mr_source_ingest_sequence = en_ingest_sequence e,
        mr_fills = [], mr_events = [], mr_skip_reasons = [],
        mr_snapshot_version = bs_snapshot_version st, mr_positions = []\<rparr>) (\<lambda>m.
     decision_batch_result_init
       \<lparr>br_paper_run_id = be_paper_run_id env, br_source_session_id = en_session_id e,
        br_source_ingest_sequence = en_ingest_sequence e,
        br_decision_fingerprint = de_decision_fingerprint d, br_match_result = m,
        br_command_results = [], br_events = []\<rparr>)"

definition processed_batch_result ::
  "broker_env \<Rightarrow> envelope \<Rightarrow> paper_decision \<Rightarrow> match_stage \<Rightarrow> command_outcome list
     \<Rightarrow> paper_event list \<Rightarrow> int \<Rightarrow> decision_batch_result result" where
  "processed_batch_result env e d ms outs command_events version =
     ebind (match_result_init
       \<lparr>mr_paper_run_id = be_paper_run_id env, mr_disposition = PROCESSED,
        mr_source_session_id = en_session_id e, mr_source_ingest_sequence = en_ingest_sequence e,
        mr_fills = ms_result_fills ms, mr_events = ms_result_events ms,
        mr_skip_reasons = unique_reasons (ms_reasons ms), mr_snapshot_version = version,
        mr_positions = ms_result_positions ms\<rparr>) (\<lambda>m.
     decision_batch_result_init
       \<lparr>br_paper_run_id = be_paper_run_id env, br_source_session_id = en_session_id e,
        br_source_ingest_sequence = en_ingest_sequence e,
        br_decision_fingerprint = de_decision_fingerprint d, br_match_result = m,
        br_command_results = outs, br_events = ms_result_events ms @ command_events\<rparr>)"

definition process_decision_batch ::
  "broker_env \<Rightarrow> envelope \<Rightarrow> paper_decision \<Rightarrow> broker_state
     \<Rightarrow> (broker_state \<times> decision_batch_result) result" where
  "process_decision_batch env e d st =
     ethen (require (de_source_session_id d = en_session_id e
                     \<and> de_source_ingest_sequence d = en_ingest_sequence e)
              (PaperBrokerInputError ''paper decision source causation mismatch'')) (
     let fingerprint = sha256_hex (be_hashes env) (utf8 (serialize_envelope e));
         dedupe_digest = sha256_hex (be_hashes env) (utf8 (en_dedupe_key e))
     in
     ebind (validate_envelope_fence st e fingerprint dedupe_digest) (\<lambda>duplicate.
     if duplicate
     then ethen (require (dget (bs_decision_fingerprints st) (en_ingest_sequence e)
                            = Some (de_decision_fingerprint d))
                   (PaperBrokerInputError ''paper decision content conflict'')) (
          ebind (duplicate_batch_result env e d st) (\<lambda>r. Inr (st, r)))
     else
       ethen (require (int (length (bs_envelope_fingerprints st))
                         < max_market_data_records (be_limits env))
                (PaperBrokerCapacityError ''market-data record capacity was exceeded'')) (
       ebind (stage_market_data env e st) (\<lambda>(instruments, ms).
       ethen (require (within_limits env (length (ms_fills ms)) (length (ms_events ms))
                         (length (ms_positions ms)))
                (PaperBrokerCapacityError ''market-data batch exceeds paper broker capacity'')) (
       let staged = apply_stage e instruments ms st in
       ebind (stage_batch_commands env e (de_commands d) staged) (\<lambda>(staged', outs).
       ethen (require (within_limits env (length (bs_fills staged')) (length (bs_events staged'))
                         (length (bs_positions staged')))
                (PaperBrokerCapacityError ''paper decision batch exceeds paper broker capacity'')) (
       let final = record_fence e fingerprint dedupe_digest (de_decision_fingerprint d) st staged' in
       ebind (processed_batch_result env e d ms outs
                (drop (length (bs_events staged)) (bs_events staged')) (bs_snapshot_version final)) (\<lambda>r.
       Inr (final, r)))))))))"

definition process_market_data ::
  "broker_env \<Rightarrow> envelope \<Rightarrow> broker_state \<Rightarrow> (broker_state \<times> match_result) result" where
  "process_market_data env e st =
     ebind (paper_decision_init (be_hashes env) (en_session_id e) (en_ingest_sequence e) []) (\<lambda>d.
     ebind (process_decision_batch env e d st) (\<lambda>(st', r). Inr (st', br_match_result r)))"

section \<open>Queries\<close>

definition get_order :: "broker_state \<Rightarrow> uuid \<Rightarrow> paper_order option" where
  "get_order st order_id = dget (bs_orders st) order_id"

text \<open>A subscript that misses raises KeyError.\<close>

definition dsubscript :: "('k, 'v) dict \<Rightarrow> 'k \<Rightarrow> 'v result" where
  "dsubscript d k = (case dget d k of None \<Rightarrow> Inl KeyError | Some v \<Rightarrow> Inr v)"

definition collect_all :: "('a \<Rightarrow> 'b result) \<Rightarrow> 'a list \<Rightarrow> 'b list result" where
  "collect_all f xs = efold (\<lambda>x ys. ebind (f x) (\<lambda>y. Inr (ys @ [y]))) xs []"

definition list_orders :: "broker_state \<Rightarrow> paper_order list result" where
  "list_orders st = collect_all (dsubscript (bs_orders st)) (ordered_ids st)"

definition list_positions :: "broker_state \<Rightarrow> paper_position list result" where
  "list_positions st = collect_all (dsubscript (bs_positions st)) (sort (dkeys (bs_positions st)))"

definition get_position ::
  "broker_state \<Rightarrow> string \<Rightarrow> string \<Rightarrow> string \<Rightarrow> paper_position option result" where
  "get_position st strategy account instrument =
     ethen (strict_string ''strategy_id'' strategy) (
     ethen (strict_string ''account_id'' account) (
     ethen (strict_string ''instrument_id'' instrument)
     (Inr (dget (bs_positions st) (strategy, account, instrument)))))"

definition broker_snapshot :: "broker_env \<Rightarrow> broker_state \<Rightarrow> paper_broker_snapshot result" where
  "broker_snapshot env st =
     ebind (list_orders st) (\<lambda>orders.
     ebind (collect_all (dsubscript (bs_instruments st)) (sort (dkeys (bs_instruments st)))) (\<lambda>instruments.
     ebind (list_positions st) (\<lambda>positions.
     paper_broker_snapshot_init
       \<lparr>sn_paper_run_id = be_paper_run_id env, sn_bound_source_session_id = bs_bound_session st,
        sn_last_committed_ingest_sequence = bs_last_sequence st,
        sn_next_paper_sequence = bs_next_paper_sequence st,
        sn_snapshot_version = bs_snapshot_version st, sn_orders = orders, sn_fills = bs_fills st,
        sn_events = bs_events st, sn_instruments = instruments, sn_positions = positions,
        sn_execution_config_fingerprint = bs_execution_config_fingerprint st\<rparr>)))"

end
