(* ===== verification/Broker_Book.thy ===== *)
theory Broker_Book
  imports Paper_Broker
begin

text \<open>
  The specification the broker implements: an order book that changes by four kinds of step, a
  rejection that only writes the journal, an acceptance, a cancellation and a fill. The broker's
  operations are shown to run sequences of these steps in \<open>Broker_Refinement\<close>; what every reachable
  book satisfies is shown here, by rule induction over the steps.
\<close>

section \<open>The book and its steps\<close>

record book =
  bk_orders :: "(uuid, paper_order) dict"
  bk_positions :: "(pos_key, paper_position) dict"
  bk_ordinal :: "(uuid, int) dict"
  bk_eligible :: "(uuid, int) dict"
  bk_next_ordinal :: int
  bk_fills :: "paper_fill list"
  bk_events :: "paper_event list"

definition empty_book :: book where
  "empty_book = \<lparr>bk_orders = [], bk_positions = [], bk_ordinal = [], bk_eligible = [],
                 bk_next_ordinal = 1, bk_fills = [], bk_events = []\<rparr>"

definition next_number :: "book \<Rightarrow> int" where
  "next_number b = int (length (bk_events b)) + 1"

definition add_events :: "paper_event list \<Rightarrow> book \<Rightarrow> book" where
  "add_events es b = b\<lparr>bk_events := bk_events b @ es\<rparr>"

text \<open>Everything a fill consists of: what the policies, the contracts and the ledger returned for it.\<close>

definition fill_made ::
  "broker_env \<Rightarrow> string \<Rightarrow> envelope \<Rightarrow> quote_top \<Rightarrow> uuid \<Rightarrow> paper_order \<Rightarrow> decimal \<Rightarrow> int
     \<Rightarrow> paper_fill \<Rightarrow> paper_order \<Rightarrow> bool" where
  "fill_made env config_fp e tp order_id p available ordinal f q \<longleftrightarrow>
     (\<exists>reference slip la filled fee.
        execution_price p tp = Inr (Some reference) \<and> dpos available
        \<and> assess_price env reference (or_intent p) = Inr (slip, la) \<and> la_executable la
        \<and> dadd matching_context (or_filled_quantity p) (dmin (or_remaining_quantity p) available)
            = Inr filled
        \<and> assess_fee (ec_fee_schedule (be_execution_config env)) (in_instrument_id (or_intent p))
            (qt_currency tp) (or_filled_quantity p) filled = Inr fee
        \<and> new_fill env config_fp e order_id p ordinal (dmin (or_remaining_quantity p) available) slip fee
            = Inr f
        \<and> filled_order e p filled (dmin (or_remaining_quantity p) available) (sa_execution_price slip)
            = Inr q
        \<and> validate_order_transition p q = Inr ())"

inductive book_step :: "broker_env \<Rightarrow> book \<Rightarrow> book \<Rightarrow> bool" for env :: broker_env where
  reject: "make_event env (next_number b) ORDER_REJECTED (RejectionPayload r) t session ingest = Inr ev
     \<Longrightarrow> book_step env b (add_events [ev] b)"
| accept: "accepted_order env i order_id = Inr p
     \<Longrightarrow> order_id = broker_order_id env (in_strategy_id i, in_client_order_id i)
     \<Longrightarrow> dget (bk_orders b) order_id = None
     \<Longrightarrow> make_event env (next_number b) ORDER_ACCEPTED (OrderPayload p) (in_created_at i) session ingest
           = Inr ev
     \<Longrightarrow> ingest \<in> {None, Some k}
     \<Longrightarrow> book_step env b (add_events [ev]
           (b\<lparr>bk_orders := dset order_id p (bk_orders b),
              bk_ordinal := dset order_id (bk_next_ordinal b) (bk_ordinal b),
              bk_eligible := dset order_id k (bk_eligible b),
              bk_next_ordinal := bk_next_ordinal b + 1\<rparr>))"
| cancelled: "dget (bk_orders b) order_id = Some p
     \<Longrightarrow> paper_order_init matching_context (p\<lparr>or_status := CANCELLED, or_updated_at := t\<rparr>) = Inr q
     \<Longrightarrow> validate_order_transition p q = Inr ()
     \<Longrightarrow> make_event env (next_number b) ORDER_CANCELLED (OrderPayload q) t session ingest = Inr ev
     \<Longrightarrow> book_step env b (add_events [ev] (b\<lparr>bk_orders := dset order_id q (bk_orders b)\<rparr>))"
| filled: "dget (bk_orders b) order_id = Some p
     \<Longrightarrow> dget (bk_eligible b) order_id = Some k
     \<Longrightarrow> order_eligible e k p
     \<Longrightarrow> fill_made env config_fp e tp order_id p available ordinal f q
     \<Longrightarrow> apply_fill_to_position (be_hashes env) (dget (bk_positions b) (order_position_key p)) f = Inr pos
     \<Longrightarrow> make_event env (next_number b) FILL_RECORDED (FillPayload f) (causal_time e)
           (Some (en_session_id e)) (Some (en_ingest_sequence e)) = Inr ev1
     \<Longrightarrow> make_event env (next_number b + 1)
           (if or_status q = FILLED then ORDER_FILLED else ORDER_PARTIALLY_FILLED)
           (OrderPayload q) (causal_time e) (Some (en_session_id e)) (Some (en_ingest_sequence e)) = Inr ev2
     \<Longrightarrow> make_event env (next_number b + 2) POSITION_CHANGED (PositionPayload pos) (causal_time e)
           (Some (en_session_id e)) (Some (en_ingest_sequence e)) = Inr ev3
     \<Longrightarrow> book_step env b (add_events [ev1, ev2, ev3]
           (b\<lparr>bk_orders := dset order_id q (bk_orders b),
              bk_positions := dset (order_position_key q) pos (bk_positions b),
              bk_fills := bk_fills b @ [f]\<rparr>))"

inductive_cases book_stepE: "book_step env b c"

section \<open>Reading the constructors back\<close>

lemma paper_event_init_same: "paper_event_init e = Inr e' \<Longrightarrow> e' = e"
  by (auto simp: paper_event_init_def err_simps)

lemma paper_order_init_same: "paper_order_init c p = Inr q \<Longrightarrow> q = p"
  by (auto simp: paper_order_init_def err_simps)

lemma paper_fill_init_same:
  "paper_fill_init c f = Inr g \<Longrightarrow> fi_reference_price f = Some r \<Longrightarrow> g = f"
  by (auto simp: paper_fill_init_def err_simps reference_of_def)

lemma paper_rejection_init_same: "paper_rejection_init r = Inr r' \<Longrightarrow> r' = r"
  by (auto simp: paper_rejection_init_def err_simps)

definition event_ok :: "broker_env \<Rightarrow> int \<Rightarrow> paper_event \<Rightarrow> bool" where
  "event_ok env n e \<longleftrightarrow>
     ev_paper_sequence e = n \<and> ev_paper_run_id e = be_paper_run_id env
     \<and> ev_paper_event_id e = broker_uuid env [''event'', show_int n, event_type_value (ev_event_type e)]
     \<and> paper_event_init e = Inr e"

lemma make_eventD:
  assumes "make_event env n t pl at_time s i = Inr e"
  shows "event_ok env n e" and "ev_payload e = pl" and "ev_event_type e = t"
    and "ev_source_session_id e = s" and "ev_source_ingest_sequence e = i" and "ev_occurred_at e = at_time"
  using assms unfolding make_event_def event_ok_def
  by - (frule paper_event_init_same, simp)+

lemma accepted_orderD:
  assumes "accepted_order env i oid = Inr p"
  shows "or_paper_order_id p = oid" and "or_intent p = i" and "or_paper_run_id p = be_paper_run_id env"
    and "paper_order_init matching_context p = Inr p" and "or_status p = ACCEPTED"
    and "or_filled_quantity p = dzero" and "or_remaining_quantity p = in_quantity i"
    and "or_updated_at p = in_created_at i"
  using assms unfolding accepted_order_def
  by - (frule paper_order_init_same, simp)+

lemma new_fillD:
  assumes "new_fill env fp e oid p n quantity slip fee = Inr f"
  shows "fi_paper_order_id f = oid" and "fi_paper_run_id f = be_paper_run_id env"
    and "fi_strategy_id f = in_strategy_id (or_intent p)"
    and "fi_account_id f = in_account_id (or_intent p)"
    and "fi_instrument_id f = in_instrument_id (or_intent p)"
    and "fi_side f = in_side (or_intent p)" and "fi_quantity f = quantity"
    and "fi_execution_price f = sa_execution_price slip" and "fi_fee f = fa_fee fee"
    and "fi_source_session_id f = en_session_id e" and "fi_source_ingest_sequence f = en_ingest_sequence e"
    and "fi_occurred_at f = causal_time e" and "fi_reference_price f = Some (sa_reference_price slip)"
    and "paper_fill_init matching_context f = Inr f"
    and "fi_execution_config_fingerprint f = fp"
  using assms unfolding new_fill_def Let_def
  by - (frule paper_fill_init_same, simp, simp)+

lemma filled_orderD:
  assumes "filled_order e p filled quantity price = Inr q"
  shows "or_paper_order_id q = or_paper_order_id p" and "or_intent q = or_intent p"
    and "or_paper_run_id q = or_paper_run_id p" and "or_filled_quantity q = filled"
    and "dsub matching_context (in_quantity (or_intent p)) filled = Inr (or_remaining_quantity q)"
    and "paper_order_init matching_context q = Inr q"
    and "or_status q = (if deq filled (in_quantity (or_intent p)) then FILLED else PARTIALLY_FILLED)"
    and "or_updated_at q = causal_time e"
  using assms unfolding filled_order_def ebind_eq_Inr
  by - (elim exE conjE, frule paper_order_init_same, simp)+

lemma assess_priceD:
  assumes "assess_price env reference i = Inr (slip, la)" and "la_executable la"
  shows "sa_reference_price slip = reference" and "0 < dval (sa_execution_price slip)"
    and "in_side i = BUY \<Longrightarrow> dval reference \<le> dval (sa_execution_price slip)"
    and "in_side i = SELL \<Longrightarrow> dval (sa_execution_price slip) \<le> dval reference"
    and "in_limit_price i = Some l \<Longrightarrow>
      (case in_side i of BUY \<Rightarrow> dval (sa_execution_price slip) \<le> dval l
                       | SELL \<Rightarrow> dval l \<le> dval (sa_execution_price slip))"
  using assms by (auto simp: assess_price_def err_simps dest: assess_slippage_facts assess_limit_protects)

section \<open>The journal\<close>

definition journal_ok :: "broker_env \<Rightarrow> book \<Rightarrow> bool" where
  "journal_ok env b \<longleftrightarrow> (\<forall>k < length (bk_events b). event_ok env (int k + 1) (bk_events b ! k))"

lemma bk_simps [simp]:
  "bk_events (add_events es b) = bk_events b @ es" "bk_orders (add_events es b) = bk_orders b"
  "bk_positions (add_events es b) = bk_positions b" "bk_ordinal (add_events es b) = bk_ordinal b"
  "bk_eligible (add_events es b) = bk_eligible b" "bk_fills (add_events es b) = bk_fills b"
  "bk_next_ordinal (add_events es b) = bk_next_ordinal b"
  by (simp_all add: add_events_def)

lemma journal_ok_append:
  assumes "journal_ok env b" and "bk_events c = bk_events b @ es"
    and "\<And>j. j < length es \<Longrightarrow> event_ok env (next_number b + int j) (es ! j)"
  shows "journal_ok env c"
  unfolding journal_ok_def
proof (intro allI impI)
  fix k
  assume k: "k < length (bk_events c)"
  show "event_ok env (int k + 1) (bk_events c ! k)"
  proof (cases "k < length (bk_events b)")
    case True
    with assms(1,2) show ?thesis by (simp add: journal_ok_def nth_append)
  next
    case False
    with k assms(2) have "k - length (bk_events b) < length es" by simp
    from assms(3) [OF this] False assms(2) show ?thesis
      by (simp add: nth_append next_number_def algebra_simps of_nat_diff)
  qed
qed

lemma book_step_events:
  assumes "book_step env b c"
  shows "\<exists>es. bk_events c = bk_events b @ es
    \<and> (\<forall>j < length es. event_ok env (next_number b + int j) (es ! j))"
  using assms
proof cases
  case (filled order_id p k e config_fp tp available ordinal f q pos ev1 ev2 ev3)
  then show ?thesis
    by (intro exI [of _ "[ev1, ev2, ev3]"])
      (auto simp: less_Suc_eq numeral_3_eq_3 dest!: make_eventD(1))
qed (auto dest!: make_eventD(1))

lemma journal_ok_step: "journal_ok env b \<Longrightarrow> book_step env b c \<Longrightarrow> journal_ok env c"
  using book_step_events journal_ok_append by metis

section \<open>The state is the journal\<close>

type_synonym book_view = "(uuid, paper_order) dict \<times> (pos_key, paper_position) dict \<times> paper_fill list"

fun apply_payload :: "paper_event_payload \<Rightarrow> book_view \<Rightarrow> book_view" where
  "apply_payload (OrderPayload p) (os, ps, fs) = (dset (or_paper_order_id p) p os, ps, fs)"
| "apply_payload (PositionPayload p) (os, ps, fs) = (os, dset (position_key p) p ps, fs)"
| "apply_payload (FillPayload f) (os, ps, fs) = (os, ps, fs @ [f])"
| "apply_payload (RejectionPayload r) v = v"

definition replay_journal :: "paper_event list \<Rightarrow> book_view" where
  "replay_journal es = foldl (\<lambda>v e. apply_payload (ev_payload e) v) ([], [], []) es"

lemma replay_journal_append:
  "replay_journal (es @ ds) = foldl (\<lambda>v e. apply_payload (ev_payload e) v) (replay_journal es) ds"
  by (simp add: replay_journal_def)

definition order_ok :: "broker_env \<Rightarrow> uuid \<Rightarrow> paper_order \<Rightarrow> bool" where
  "order_ok env oid p \<longleftrightarrow>
     or_paper_order_id p = oid \<and> or_paper_run_id p = be_paper_run_id env
     \<and> oid = broker_order_id env (in_strategy_id (or_intent p), in_client_order_id (or_intent p))
     \<and> paper_order_init matching_context p = Inr p"

definition orders_ok :: "broker_env \<Rightarrow> book \<Rightarrow> bool" where
  "orders_ok env b \<longleftrightarrow>
     dict_ok (bk_orders b) \<and> (\<forall>oid p. dget (bk_orders b) oid = Some p \<longrightarrow> order_ok env oid p)"

definition journal_complete :: "book \<Rightarrow> bool" where
  "journal_complete b \<longleftrightarrow> replay_journal (bk_events b) = (bk_orders b, bk_positions b, bk_fills b)"

lemma fill_madeE:
  assumes "fill_made env fp e tp oid p available n f q"
  obtains reference slip la filled fee where
    "execution_price p tp = Inr (Some reference)" "dpos available"
    "assess_price env reference (or_intent p) = Inr (slip, la)" "la_executable la"
    "dadd matching_context (or_filled_quantity p) (dmin (or_remaining_quantity p) available) = Inr filled"
    "assess_fee (ec_fee_schedule (be_execution_config env)) (in_instrument_id (or_intent p))
        (qt_currency tp) (or_filled_quantity p) filled = Inr fee"
    "new_fill env fp e oid p n (dmin (or_remaining_quantity p) available) slip fee = Inr f"
    "filled_order e p filled (dmin (or_remaining_quantity p) available) (sa_execution_price slip) = Inr q"
    "order_step p q"
  using assms unfolding fill_made_def order_step_def by metis

lemma fill_made_order:
  assumes "fill_made env fp e tp oid p available n f q"
  shows "or_paper_order_id q = or_paper_order_id p" and "or_intent q = or_intent p"
    and "or_paper_run_id q = or_paper_run_id p" and "paper_order_init matching_context q = Inr q"
    and "order_step p q" and "or_updated_at q = causal_time e"
    and "order_position_key q = order_position_key p"
  using assms by - (erule fill_madeE, simp add: filled_orderD order_position_key_def)+

lemma cancelled_order:
  assumes "paper_order_init matching_context (p\<lparr>or_status := CANCELLED, or_updated_at := t\<rparr>) = Inr q"
  shows "q = p\<lparr>or_status := CANCELLED, or_updated_at := t\<rparr>"
    and "paper_order_init matching_context q = Inr q"
  using assms by - (frule paper_order_init_same, simp)+

lemma orders_ok_step:
  assumes "orders_ok env b" and "book_step env b c"
  shows "orders_ok env c"
  using assms(2)
proof cases
  case (reject r t session ingest ev)
  with assms(1) show ?thesis by (simp add: orders_ok_def)
next
  case (accept i order_id p session ingest ev k)
  with assms(1) show ?thesis by (auto simp: orders_ok_def order_ok_def accepted_orderD)
next
  case (cancelled order_id p t q session ingest ev)
  with assms(1) show ?thesis
    using cancelled_order [OF cancelled(3)] by (auto simp: orders_ok_def order_ok_def)
next
  case (filled order_id p k e config_fp tp available ordinal f q pos ev1 ev2 ev3)
  with assms(1) show ?thesis
    using fill_made_order [OF filled(5)] by (auto simp: orders_ok_def order_ok_def)
qed

lemma fill_position_key:
  assumes "fill_made env fp e tp oid p available n f q"
    and "apply_fill_to_position h previous f = Inr pos"
  shows "position_key pos = order_position_key q"
  using assms(1)
  by (elim fill_madeE) (simp add: apply_fill_fields(3) [OF assms(2)] new_fillD filled_orderD order_position_key_def)

lemma journal_complete_step:
  assumes "journal_complete b" and "orders_ok env b" and "book_step env b c"
  shows "journal_complete c"
  using assms(3)
proof cases
  case (reject r t session ingest ev)
  with assms(1) show ?thesis by (simp add: journal_complete_def replay_journal_append make_eventD)
next
  case (accept i order_id p session ingest ev k)
  with assms(1) show ?thesis
    by (simp add: journal_complete_def replay_journal_append make_eventD accepted_orderD)
next
  case (cancelled order_id p t q session ingest ev)
  with assms(1,2) show ?thesis
    using cancelled_order [OF cancelled(3)]
    by (simp add: journal_complete_def replay_journal_append make_eventD orders_ok_def order_ok_def)
next
  case (filled order_id p k e config_fp tp available ordinal f q pos ev1 ev2 ev3)
  with assms(1,2) show ?thesis
    using fill_made_order [OF filled(5)] fill_position_key [OF filled(5,6)]
    by (simp add: journal_complete_def replay_journal_append make_eventD orders_ok_def order_ok_def)
qed

section \<open>Acceptance order\<close>

definition ordinals_ok :: "book \<Rightarrow> bool" where
  "ordinals_ok b \<longleftrightarrow>
     dkeys (bk_ordinal b) = dkeys (bk_orders b) \<and> dkeys (bk_eligible b) = dkeys (bk_orders b)
     \<and> dvalues (bk_ordinal b) = map (\<lambda>n. int n + 1) [0..<length (bk_orders b)]
     \<and> bk_next_ordinal b = int (length (bk_orders b)) + 1"

lemma dset_new: "dget d k = None \<Longrightarrow> dset k v d = d @ [(k, v)]"
  unfolding dget_def dset_def by (induction d) (auto split: if_splits)

lemma dget_dkeys_cong: "dkeys d = dkeys d' \<Longrightarrow> dget d k = None \<longleftrightarrow> dget d' k = None"
  by (metis (mono_tags, lifting) mem_Collect_eq set_dkeys)

lemma ordinals_ok_step:
  assumes "ordinals_ok b" and "book_step env b c"
  shows "ordinals_ok c"
  using assms(2)
proof cases
  case (accept i order_id p session ingest ev k)
  with assms(1) have "dget (bk_ordinal b) order_id = None" "dget (bk_eligible b) order_id = None"
    using dget_dkeys_cong unfolding ordinals_ok_def by metis+
  with accept assms(1) show ?thesis
    by (simp add: ordinals_ok_def dset_new dkeys_def dvalues_def)
qed (use assms(1) in \<open>simp_all add: ordinals_ok_def dkeys_dset length_dset\<close>)

section \<open>Fills against their orders\<close>

definition price_protected :: "order_intent \<Rightarrow> paper_fill \<Rightarrow> bool" where
  "price_protected i f \<longleftrightarrow>
     (case in_limit_price i of None \<Rightarrow> True
      | Some l \<Rightarrow> (case in_side i of BUY \<Rightarrow> dval (fi_execution_price f) \<le> dval l
                                  | SELL \<Rightarrow> dval l \<le> dval (fi_execution_price f)))"

definition price_adverse :: "paper_fill \<Rightarrow> bool" where
  "price_adverse f \<longleftrightarrow>
     (\<exists>r. fi_reference_price f = Some r
        \<and> (case fi_side f of BUY \<Rightarrow> dval r \<le> dval (fi_execution_price f)
                           | SELL \<Rightarrow> dval (fi_execution_price f) \<le> dval r))"

definition fill_matches :: "broker_env \<Rightarrow> order_intent \<Rightarrow> int \<Rightarrow> paper_fill \<Rightarrow> bool" where
  "fill_matches env i k f \<longleftrightarrow>
     k < fi_source_ingest_sequence f
     \<and> (in_source_session_id i = None \<or> in_source_session_id i = Some (fi_source_session_id f))
     \<and> in_created_at i \<le> fi_occurred_at f
     \<and> fi_paper_run_id f = be_paper_run_id env \<and> fi_strategy_id f = in_strategy_id i
     \<and> fi_account_id f = in_account_id i \<and> fi_instrument_id f = in_instrument_id i
     \<and> fi_side f = in_side i \<and> 0 < dval (fi_quantity f) \<and> 0 < dval (fi_execution_price f)
     \<and> price_protected i f \<and> price_adverse f"

definition fills_ok :: "broker_env \<Rightarrow> book \<Rightarrow> bool" where
  "fills_ok env b \<longleftrightarrow>
     (\<forall>f \<in> set (bk_fills b). \<exists>p k. dget (bk_orders b) (fi_paper_order_id f) = Some p
        \<and> dget (bk_eligible b) (fi_paper_order_id f) = Some k \<and> fill_matches env (or_intent p) k f)"

lemma paper_fill_positive:
  "paper_fill_init c f = Inr g \<Longrightarrow> 0 < dval (fi_quantity f) \<and> 0 < dval (fi_execution_price f)"
  by (auto simp: paper_fill_init_def err_simps decimal_positive_def dpos_val)

lemma order_created_before:
  "paper_order_init c p = Inr q \<Longrightarrow> in_created_at (or_intent p) \<le> or_updated_at p"
  by (auto simp: paper_order_init_def order_times_ok_def err_simps)

lemma fill_made_matches:
  assumes "fill_made env fp e tp oid p available n f q"
    and "order_eligible e k p" and "order_ok env oid p"
  shows "fill_matches env (or_intent p) k f" and "fi_paper_order_id f = oid"
proof -
  from assms(1) obtain reference slip la filled fee where
    price: "assess_price env reference (or_intent p) = Inr (slip, la)" "la_executable la"
    and f: "new_fill env fp e oid p n (dmin (or_remaining_quantity p) available) slip fee = Inr f"
    by (elim fill_madeE)
  note facts = new_fillD [OF f] assess_priceD [OF price]
  show "fi_paper_order_id f = oid" by (rule facts)
  have "in_created_at (or_intent p) \<le> or_updated_at p"
    using assms(3) order_created_before by (auto simp: order_ok_def)
  moreover have "price_protected (or_intent p) f" "price_adverse f"
    using facts by (auto simp: price_protected_def price_adverse_def split: option.splits order_side.splits)
  ultimately show "fill_matches env (or_intent p) k f"
    using assms(2) paper_fill_positive [OF facts(14)]
    by (auto simp: fill_matches_def order_eligible_def facts(1-13))
qed

lemma fills_ok_step:
  assumes "fills_ok env b" and "orders_ok env b" and "book_step env b c"
  shows "fills_ok env c"
  using assms(3)
proof cases
  case (reject r t session ingest ev)
  with assms(1) show ?thesis by (simp add: fills_ok_def)
next
  case (accept i order_id p session ingest ev k)
  with assms(1) show ?thesis by (fastforce simp: fills_ok_def)
next
  case (cancelled order_id p t q session ingest ev)
  with assms(1) show ?thesis
    using cancelled_order(1) [OF cancelled(3)] by (fastforce simp: fills_ok_def)
next
  case (filled order_id p k e config_fp tp available ordinal f q pos ev1 ev2 ev3)
  have "order_ok env order_id p" using assms(2) filled(2) by (simp add: orders_ok_def)
  note new = fill_made_matches [OF filled(5) filled(4) this] fill_made_order(2) [OF filled(5)]
  with assms(1) filled(1-3) show ?thesis by (fastforce simp: fills_ok_def)
qed

section \<open>Acceptances against eligibility\<close>

text \<open>An acceptance that names the envelope which caused it makes the order eligible after that one.\<close>

definition accepted_by :: "paper_event \<Rightarrow> uuid \<Rightarrow> int \<Rightarrow> bool" where
  "accepted_by e oid n \<longleftrightarrow>
     ev_event_type e = ORDER_ACCEPTED \<and> ev_source_ingest_sequence e = Some n
     \<and> (\<exists>p. ev_payload e = OrderPayload p \<and> or_paper_order_id p = oid)"

definition acceptances_ok :: "book \<Rightarrow> bool" where
  "acceptances_ok b \<longleftrightarrow>
     (\<forall>e oid n. e \<in> set (bk_events b) \<longrightarrow> accepted_by e oid n \<longrightarrow> dget (bk_eligible b) oid = Some n)"

lemma acceptances_ok_step:
  assumes "acceptances_ok b" and "ordinals_ok b" and "book_step env b c"
  shows "acceptances_ok c"
  using assms(3)
proof cases
  case (reject r t session ingest ev)
  with assms(1) make_eventD(2,3) [OF reject(2)] show ?thesis
    by (auto simp: acceptances_ok_def accepted_by_def)
next
  case (accept i order_id p session ingest ev k)
  note ev = make_eventD [OF accept(5)] accepted_orderD(1) [OF accept(2)]
  have "dget (bk_eligible b) order_id = None"
    using assms(2) accept(4) dget_dkeys_cong unfolding ordinals_ok_def by metis
  with assms(1) accept(1,6) ev show ?thesis
    by (auto simp: acceptances_ok_def accepted_by_def)
next
  case (cancelled order_id p t q session ingest ev)
  with assms(1) make_eventD(3) [OF cancelled(5)] show ?thesis
    by (auto simp: acceptances_ok_def accepted_by_def)
next
  case (filled order_id p k e config_fp tp available ordinal f q pos ev1 ev2 ev3)
  with assms(1) make_eventD(3) [OF filled(7)] make_eventD(3) [OF filled(8)] make_eventD(3) [OF filled(9)]
  show ?thesis by (auto simp: acceptances_ok_def accepted_by_def)
qed

section \<open>Positions against the fills\<close>

definition fill_key :: "paper_fill \<Rightarrow> pos_key" where
  "fill_key f = (fi_strategy_id f, fi_account_id f, fi_instrument_id f)"

definition fills_of :: "pos_key \<Rightarrow> paper_fill list \<Rightarrow> paper_fill list" where
  "fills_of key fs = filter (\<lambda>f. fill_key f = key) fs"

definition position_of :: "book \<Rightarrow> pos_key \<Rightarrow> paper_position option \<Rightarrow> bool" where
  "position_of b key pos \<longleftrightarrow>
     net_value pos = (\<Sum>f\<leftarrow>fills_of key (bk_fills b). dval (signed_quantity f))
     \<and> fees_value pos = (\<Sum>f\<leftarrow>fills_of key (bk_fills b). dval (fi_fee f))
     \<and> version_of pos = int (length (fills_of key (bk_fills b)))"

definition positions_ok :: "book \<Rightarrow> bool" where
  "positions_ok b \<longleftrightarrow>
     dict_ok (bk_positions b) \<and> (\<forall>key. position_of b key (dget (bk_positions b) key))"

lemma fill_made_key: "fill_made env fp e tp oid p available n f q \<Longrightarrow> fill_key f = order_position_key p"
  by (elim fill_madeE) (simp add: fill_key_def order_position_key_def new_fillD)

lemma position_of_Some:
  assumes "apply_fill_to_position h (dget (bk_positions b) key) f = Inr pos" and "fill_key f = key"
    and "position_of b key (dget (bk_positions b) key)" and "bk_fills c = bk_fills b @ [f]"
  shows "position_of c key (Some pos)"
  using assms(2-) apply_fill_net [OF assms(1)] apply_fill_fees [OF assms(1)] apply_fill_fields(1) [OF assms(1)]
  by (simp add: position_of_def fills_of_def net_value_def fees_value_def version_of_def)

lemma positions_ok_step:
  assumes "positions_ok b" and "book_step env b c"
  shows "positions_ok c"
  using assms(2)
proof cases
  case (filled order_id p k e config_fp tp available ordinal f q pos ev1 ev2 ev3)
  note key = fill_made_key [OF filled(5)] fill_made_order(7) [OF filled(5)]
  have old: "dict_ok (bk_positions b)" "position_of b j (dget (bk_positions b) j)" for j
    using assms(1) unfolding positions_ok_def by blast+
  have fills: "bk_fills c = bk_fills b @ [f]" by (simp add: filled(1))
  have "position_of c j (dget (bk_positions c) j)" for j
  proof (cases "j = order_position_key p")
    case True
    with position_of_Some [OF filled(6) key(1) old(2) fills] key(2) show ?thesis
      by (simp add: filled(1))
  next
    case False
    with old(2) [of j] key fills show ?thesis by (simp add: filled(1) position_of_def fills_of_def)
  qed
  with old(1) show ?thesis by (simp add: positions_ok_def filled(1))
qed (use assms(1) in \<open>simp_all add: positions_ok_def position_of_def\<close>)


section \<open>Progress\<close>

text \<open>What a run can change: orders advance along validated transitions, nothing is forgotten.\<close>

definition orders_advance :: "(uuid, paper_order) dict \<Rightarrow> (uuid, paper_order) dict \<Rightarrow> bool" where
  "orders_advance os os' \<longleftrightarrow>
     (\<forall>oid p. dget os oid = Some p \<longrightarrow>
        (\<exists>q. dget os' oid = Some q \<and> or_intent q = or_intent p \<and> order_step\<^sup>*\<^sup>* p q))"

definition dict_extends :: "('k, 'v) dict \<Rightarrow> ('k, 'v) dict \<Rightarrow> bool" where
  "dict_extends d d' \<longleftrightarrow> (\<forall>k v. dget d k = Some v \<longrightarrow> dget d' k = Some v)"

definition book_progress :: "book \<Rightarrow> book \<Rightarrow> bool" where
  "book_progress b c \<longleftrightarrow>
     prefix (bk_events b) (bk_events c) \<and> prefix (bk_fills b) (bk_fills c)
     \<and> orders_advance (bk_orders b) (bk_orders c)
     \<and> dict_extends (bk_ordinal b) (bk_ordinal c) \<and> dict_extends (bk_eligible b) (bk_eligible c)"

lemma orders_advance_refl [simp]: "orders_advance os os"
  by (simp add: orders_advance_def)

lemma orders_advance_trans: "orders_advance a b \<Longrightarrow> orders_advance b c \<Longrightarrow> orders_advance a c"
  unfolding orders_advance_def by (metis rtranclp_trans)

lemma orders_advance_new: "dget os oid = None \<Longrightarrow> orders_advance os (dset oid q os)"
  by (auto simp: orders_advance_def)

lemma orders_advance_step:
  "dget os oid = Some p \<Longrightarrow> or_intent q = or_intent p \<Longrightarrow> order_step p q \<Longrightarrow> orders_advance os (dset oid q os)"
  by (auto simp: orders_advance_def)

lemma dict_extends_refl [simp]: "dict_extends d d"
  by (simp add: dict_extends_def)

lemma dict_extends_trans: "dict_extends a b \<Longrightarrow> dict_extends b c \<Longrightarrow> dict_extends a c"
  by (simp add: dict_extends_def)

lemma dict_extends_new: "dget d k = None \<Longrightarrow> dict_extends d (dset k v d)"
  by (auto simp: dict_extends_def)

lemma book_progress_refl: "book_progress b b"
  by (simp add: book_progress_def)

lemma book_progress_trans: "book_progress a b \<Longrightarrow> book_progress b c \<Longrightarrow> book_progress a c"
  unfolding book_progress_def
  by (elim conjE, intro conjI)
    ((rule prefix_order.trans orders_advance_trans dict_extends_trans; assumption)+)

definition book_inv :: "broker_env \<Rightarrow> book \<Rightarrow> bool" where
  "book_inv env b \<longleftrightarrow> journal_ok env b \<and> orders_ok env b \<and> journal_complete b \<and> ordinals_ok b
     \<and> fills_ok env b \<and> acceptances_ok b \<and> positions_ok b"

lemma book_inv_empty: "book_inv env empty_book"
  by (simp add: book_inv_def empty_book_def journal_ok_def orders_ok_def journal_complete_def
      replay_journal_def ordinals_ok_def dkeys_def dvalues_def fills_ok_def acceptances_ok_def positions_ok_def
      position_of_def fills_of_def net_value_def fees_value_def version_of_def)

lemma book_inv_step: "book_inv env b \<Longrightarrow> book_step env b c \<Longrightarrow> book_inv env c"
  unfolding book_inv_def
  by (elim conjE, intro conjI; (rule journal_ok_step orders_ok_step journal_complete_step ordinals_ok_step
      fills_ok_step acceptances_ok_step positions_ok_step; assumption))

lemma book_step_progress:
  assumes "book_inv env b" and "book_step env b c"
  shows "book_progress b c"
  using assms(2)
proof cases
  case (reject r t session ingest ev)
  then show ?thesis by (simp add: book_progress_def)
next
  case (accept i order_id p session ingest ev k)
  with assms(1) have "dget (bk_ordinal b) order_id = None" "dget (bk_eligible b) order_id = None"
    using dget_dkeys_cong unfolding ordinals_ok_def book_inv_def by metis+
  with accept show ?thesis by (simp add: book_progress_def orders_advance_new dict_extends_new)
next
  case (cancelled order_id p t q session ingest ev)
  then have "order_step p q" by (simp add: order_step_def)
  with cancelled show ?thesis
    using cancelled_order(1) [OF cancelled(3)] by (simp add: book_progress_def orders_advance_step)
next
  case (filled order_id p k e config_fp tp available ordinal f q pos ev1 ev2 ev3)
  with fill_made_order [OF filled(5)] show ?thesis by (simp add: book_progress_def orders_advance_step)
qed

interpretation book: state_machine "book_step env" "book_inv env" for env
  by unfold_locales (rule book_inv_step)

interpretation book_journal: journalled_machine "book_step env" "book_inv env" bk_events for env
  by unfold_locales (use book_step_progress in \<open>auto simp: book_progress_def\<close>)

interpretation book_order: ordered_machine "book_step env" "book_inv env" book_progress for env
  by unfold_locales (use book_progress_refl book_progress_trans book_step_progress in blast)+

end
