(* ===== verification/Broker_Refinement.thy ===== *)
theory Broker_Refinement
  imports Broker_Book
begin

text \<open>
  The broker implements the order book: every operation that returns runs a sequence of book steps and
  keeps the journal number, the outcome caches and the fences consistent.
\<close>

declare split_paired_All [simp del] split_paired_Ex [simp del]

section \<open>The relation an operation establishes\<close>

definition book_of :: "broker_state \<Rightarrow> book" where
  "book_of st = \<lparr>bk_orders = bs_orders st, bk_positions = bs_positions st,
     bk_ordinal = bs_acceptance_ordinal st, bk_eligible = bs_eligibility_sequence st,
     bk_next_ordinal = bs_next_acceptance_ordinal st, bk_fills = bs_fills st, bk_events = bs_events st\<rparr>"

definition order_key :: "paper_order \<Rightarrow> submit_key" where
  "order_key p = (in_strategy_id (or_intent p), in_client_order_id (or_intent p))"

definition intent_key :: "order_intent \<Rightarrow> submit_key" where
  "intent_key i = (in_strategy_id i, in_client_order_id i)"

definition numbered :: "broker_state \<Rightarrow> bool" where
  "numbered st \<longleftrightarrow> bs_next_paper_sequence st = int (length (bs_events st)) + 1"

text \<open>Every order came through the submit cache, under a key the clients use.\<close>

definition submitted :: "submit_key set \<Rightarrow> broker_state \<Rightarrow> bool" where
  "submitted K st \<longleftrightarrow>
     (\<forall>oid p. dget (bs_orders st) oid = Some p \<longrightarrow>
        order_key p \<in> K \<and> dget (bs_submit_outcomes st) (order_key p) \<noteq> None)"

definition broker_inv :: "broker_env \<Rightarrow> submit_key set \<Rightarrow> broker_state \<Rightarrow> bool" where
  "broker_inv env K st \<longleftrightarrow> numbered st \<and> submitted K st \<and> book_inv env (book_of st)"

text \<open>A cached outcome is never replaced; only its free alternate slot may be filled.\<close>

definition outcomes_extend :: "('k, outcome_record) dict \<Rightarrow> ('k, outcome_record) dict \<Rightarrow> bool" where
  "outcomes_extend d d' \<longleftrightarrow>
     (\<forall>k r digest out. dget d k = Some r \<and> outcome_find r digest = Some out \<longrightarrow>
        (\<exists>r'. dget d' k = Some r' \<and> outcome_find r' digest = Some out))
     \<and> (\<forall>k. dget d k \<noteq> None \<longrightarrow> dget d' k \<noteq> None)"

definition advance :: "broker_env \<Rightarrow> submit_key set \<Rightarrow> broker_state \<Rightarrow> broker_state \<Rightarrow> bool" where
  "advance env K st st' \<longleftrightarrow>
     (book_step env)\<^sup>*\<^sup>* (book_of st) (book_of st') \<and> numbered st' \<and> submitted K st'
     \<and> bs_execution_config_fingerprint st' = bs_execution_config_fingerprint st
     \<and> outcomes_extend (bs_submit_outcomes st) (bs_submit_outcomes st')
     \<and> dict_extends (bs_envelope_fingerprints st) (bs_envelope_fingerprints st')
     \<and> dict_extends (bs_decision_fingerprints st) (bs_decision_fingerprints st')"

lemma outcomes_extend_refl [simp]: "outcomes_extend d d"
  by (auto simp: outcomes_extend_def)

lemma outcomes_extend_trans: "outcomes_extend a b \<Longrightarrow> outcomes_extend b c \<Longrightarrow> outcomes_extend a c"
  unfolding outcomes_extend_def by metis

lemma outcomes_extend_new: "dget d k = None \<Longrightarrow> outcomes_extend d (dset k r d)"
  by (auto simp: outcomes_extend_def)

lemma outcome_find_alternate:
  "outcome_find r digest = Some out \<Longrightarrow> \<not> has_alternate r \<Longrightarrow>
     outcome_find (with_alternate r digest' out') digest = Some out"
  by (auto simp: outcome_find_def with_alternate_def has_alternate_def split: if_splits)

lemma outcomes_extend_alternate:
  "dget d k = Some r \<Longrightarrow> \<not> has_alternate r \<Longrightarrow> outcomes_extend d (dset k (with_alternate r digest out) d)"
  by (auto simp: outcomes_extend_def outcome_find_alternate)

lemma advance_refl: "broker_inv env K st \<Longrightarrow> advance env K st st"
  by (simp add: advance_def broker_inv_def)

lemma advance_trans: "advance env K a b \<Longrightarrow> advance env K b c \<Longrightarrow> advance env K a c"
  unfolding advance_def
  by (auto elim: rtranclp_trans outcomes_extend_trans dict_extends_trans)

lemma advance_inv: "broker_inv env K st \<Longrightarrow> advance env K st st' \<Longrightarrow> broker_inv env K st'"
  unfolding broker_inv_def advance_def using book.run_inv by blast

text \<open>Changes outside the book keep the relation.\<close>

lemma book_of_simps [simp]:
  "bk_orders (book_of st) = bs_orders st" "bk_positions (book_of st) = bs_positions st"
  "bk_ordinal (book_of st) = bs_acceptance_ordinal st"
  "bk_eligible (book_of st) = bs_eligibility_sequence st"
  "bk_next_ordinal (book_of st) = bs_next_acceptance_ordinal st"
  "bk_fills (book_of st) = bs_fills st" "bk_events (book_of st) = bs_events st"
  by (simp_all add: book_of_def)

lemma next_number_book_of: "numbered st \<Longrightarrow> next_number (book_of st) = bs_next_paper_sequence st"
  by (simp add: numbered_def next_number_def)

section \<open>Acceptances and rejections\<close>

lemma outcomes_extendD:
  "outcomes_extend d d' \<Longrightarrow> dget d k = Some r \<Longrightarrow> \<exists>r'. dget d' k = Some r'"
  unfolding outcomes_extend_def by blast

lemma advance_stepI:
  assumes "book_step env (book_of st) (book_of st')" and "numbered st'" and "submitted K st'"
    and "bs_execution_config_fingerprint st' = bs_execution_config_fingerprint st"
    and "outcomes_extend (bs_submit_outcomes st) (bs_submit_outcomes st')"
    and "bs_envelope_fingerprints st' = bs_envelope_fingerprints st"
    and "bs_decision_fingerprints st' = bs_decision_fingerprints st"
  shows "advance env K st st'"
  using assms by (simp add: advance_def r_into_rtranclp)

lemma advance_sameI:
  assumes "broker_inv env K st" and "book_of st' = book_of st"
    and "bs_next_paper_sequence st' = bs_next_paper_sequence st"
    and "outcomes_extend (bs_submit_outcomes st) (bs_submit_outcomes st')"
    and "bs_execution_config_fingerprint st' = bs_execution_config_fingerprint st"
    and "dict_extends (bs_envelope_fingerprints st) (bs_envelope_fingerprints st')"
    and "dict_extends (bs_decision_fingerprints st) (bs_decision_fingerprints st')"
  shows "advance env K st st'"
proof -
  have "bs_events st' = bs_events st" "bs_orders st' = bs_orders st"
    using assms(2) by (simp_all add: book_of_def)
  moreover from this assms(1) have "submitted K st'"
    using outcomes_extendD [OF assms(4)] unfolding broker_inv_def submitted_def
    by (metis option.distinct(1) option.exhaust)
  ultimately show ?thesis
    using assms by (simp add: advance_def broker_inv_def numbered_def)
qed

lemma advance_bump: "advance env K st st' \<Longrightarrow> advance env K st (bump_version st')"
  by (simp add: advance_def bump_version_def book_of_def numbered_def submitted_def)

lemma book_of_journal_event: "book_of (journal_event e st) = add_events [e] (book_of st)"
  by (simp add: book_of_def add_events_def journal_event_def)

lemma rejection_advance:
  assumes "make_event env (bs_next_paper_sequence st) ORDER_REJECTED (RejectionPayload r) t s n = Inr e"
    and "broker_inv env K st"
  shows "advance env K st (journal_event e st)"
proof (rule advance_stepI)
  show "book_step env (book_of st) (book_of (journal_event e st))"
    unfolding book_of_journal_event using assms
    by (intro book_step.reject) (simp add: broker_inv_def next_number_book_of)
qed (use assms(2) in \<open>auto simp: journal_event_def broker_inv_def numbered_def submitted_def\<close>)

lemma append_rejection_advance:
  assumes "append_rejection_event env r st = Inr st'" and "broker_inv env K st"
  shows "advance env K st st'"
  using assms
  by (auto simp: append_rejection_event_def err_simps advance_refl rejection_advance advance_bump
      split: if_splits)

lemma stage_batch_rejection_advance:
  assumes "stage_batch_rejection env st r e = Inr st'" and "broker_inv env K st"
  shows "advance env K st st'"
  using assms
  by (auto simp: stage_batch_rejection_def err_simps advance_refl rejection_advance split: if_splits)

text \<open>Storing a submit outcome, then journalling the rejection it holds.\<close>

lemma store_submit_advance:
  assumes "broker_inv env K st" and "outcomes_extend (bs_submit_outcomes st) d"
  shows "advance env K st (st\<lparr>bs_submit_outcomes := d\<rparr>)"
  using assms by (intro advance_sameI) (simp_all add: book_of_def)

lemma stage_rejection_advance:
  assumes "stage_rejection env st r d = Inr st'" and "broker_inv env K st"
    and "outcomes_extend (bs_submit_outcomes st) d"
  shows "advance env K st st'"
proof -
  note stored = store_submit_advance [OF assms(2,3)]
  from assms(1) obtain st1 where
    st1: "append_rejection_event env r (st\<lparr>bs_submit_outcomes := d\<rparr>) = Inr st1"
    and st': "st' = st1 \<or> st' = bump_version st1"
    by (auto simp: stage_rejection_def err_simps split: if_splits)
  have "advance env K st st1"
    using append_rejection_advance [OF st1 advance_inv [OF assms(2) stored]] stored
    by (rule advance_trans [rotated])
  with st' show ?thesis by (auto intro: advance_bump)
qed

text \<open>An acceptance under a fresh key is one step of the book.\<close>

lemma fresh_order:
  assumes "broker_inv env K st" and "inj_on (broker_order_id env) K" and "key \<in> K"
    and "dget (bs_submit_outcomes st) key = None"
  shows "dget (bs_orders st) (broker_order_id env key) = None"
proof (rule ccontr)
  assume "dget (bs_orders st) (broker_order_id env key) \<noteq> None"
  then obtain p where p: "dget (bs_orders st) (broker_order_id env key) = Some p" by auto
  have in_K: "order_key p \<in> K" and cached: "dget (bs_submit_outcomes st) (order_key p) \<noteq> None"
    using assms(1) p by (auto simp: broker_inv_def submitted_def)
  have "broker_order_id env key = broker_order_id env (order_key p)"
    using assms(1) p by (auto simp: broker_inv_def book_inv_def orders_ok_def order_ok_def order_key_def)
  then have "key = order_key p" using inj_onD [OF assms(2) _ assms(3) in_K] by blast
  with cached assms(4) show False by simp
qed

lemma acceptance_advance:
  assumes "broker_inv env K st" and "inj_on (broker_order_id env) K" and "intent_key i \<in> K"
    and "dget (bs_submit_outcomes st) (intent_key i) = None"
    and p: "accepted_order env i (broker_order_id env (intent_key i)) = Inr p"
    and ev: "make_event env (bs_next_paper_sequence st) ORDER_ACCEPTED (OrderPayload p)
               (in_created_at i) s n = Inr e"
    and source: "n \<in> {None, Some k}"
  shows "advance env K st (record_acceptance p (intent_key i) digest k e st)"
proof (rule advance_stepI)
  let ?id = "broker_order_id env (intent_key i)"
  note fresh = fresh_order [OF assms(1-4)]
  have eq: "book_of (record_acceptance p (intent_key i) digest k e st)
      = add_events [e] ((book_of st)\<lparr>bk_orders := dset ?id p (bk_orders (book_of st)),
          bk_ordinal := dset ?id (bk_next_ordinal (book_of st)) (bk_ordinal (book_of st)),
          bk_eligible := dset ?id k (bk_eligible (book_of st)),
          bk_next_ordinal := bk_next_ordinal (book_of st) + 1\<rparr>)"
    by (simp add: record_acceptance_def journal_event_def book_of_def add_events_def accepted_orderD(1) [OF p])
  have number: "bs_next_paper_sequence st = next_number (book_of st)"
    using assms(1) by (simp add: broker_inv_def next_number_book_of)
  show "book_step env (book_of st) (book_of (record_acceptance p (intent_key i) digest k e st))"
    unfolding eq
    by (rule book_step.accept [OF p _ _ ev [unfolded number] source])
      (simp_all add: intent_key_def fresh [unfolded intent_key_def])
  have "order_key p = intent_key i" by (simp add: order_key_def intent_key_def accepted_orderD(2) [OF p])
  then show "submitted K (record_acceptance p (intent_key i) digest k e st)"
    using assms(1,3)
    by (auto simp: submitted_def broker_inv_def record_acceptance_def journal_event_def)
qed (use assms(1,4) in \<open>auto simp: record_acceptance_def journal_event_def broker_inv_def numbered_def
       outcomes_extend_new\<close>)

section \<open>Submitting and cancelling\<close>

lemma session_advance: "broker_inv env K st \<Longrightarrow> advance env K st (st\<lparr>bs_effective_session := s\<rparr>)"
  by (rule advance_sameI) (simp_all add: book_of_def)

lemma conflict_advance:
  assumes "stage_rejection env st c (dset key (with_alternate r digest out) (bs_submit_outcomes st)) = Inr st'"
    and "broker_inv env K st" and "dget (bs_submit_outcomes st) key = Some r" and "\<not> has_alternate r"
  shows "advance env K st st'"
  using stage_rejection_advance [OF assms(1,2) outcomes_extend_alternate [OF assms(3,4)]] .

definition session_kept :: "broker_state \<Rightarrow> uuid option \<Rightarrow> bool" where
  "session_kept st eff \<longleftrightarrow> (bs_effective_session st \<noteq> None \<longrightarrow> eff = bs_effective_session st)"

text \<open>How a submission can end.\<close>

lemma submit_cases:
  assumes "submit env i st = Inr (st', out)"
  obtains (unchanged) "st' = st"
  | (conflict) r c digest where "dget (bs_submit_outcomes st) (intent_key i) = Some r" "\<not> has_alternate r"
      "stage_rejection env st c (dset (intent_key i) (with_alternate r digest (RejectionOutcome c))
         (bs_submit_outcomes st)) = Inr st'"
  | (rejected) eff c digest where "dget (bs_submit_outcomes st) (intent_key i) = None" "session_kept st eff"
      "int (length (bs_submit_outcomes st)) < max_orders (be_limits env)"
      "stage_rejection env (st\<lparr>bs_effective_session := eff\<rparr>) c (dset (intent_key i)
         (primary_record digest (RejectionOutcome c)) (bs_submit_outcomes st)) = Inr st'"
  | (accepted) eff p e k s n where "dget (bs_submit_outcomes st) (intent_key i) = None" "session_kept st eff"
      "int (length (bs_submit_outcomes st)) < max_orders (be_limits env)" "\<not> orders_full env st"
      "accepted_order env i (broker_order_id env (intent_key i)) = Inr p"
      "make_event env (bs_next_paper_sequence st) ORDER_ACCEPTED (OrderPayload p) (in_created_at i) s n = Inr e"
      "n \<in> {None, Some k}"
      "st' = bump_version (record_acceptance p (intent_key i) (command_digest env (json_order_intent i)) k e
         (st\<lparr>bs_effective_session := eff\<rparr>))" "out = OrderOutcome p"
proof (cases "dget (bs_submit_outcomes st) (intent_key i)")
  case (Some r)
  with assms have "st' = st \<or> (\<exists>c digest. \<not> has_alternate r \<and> stage_rejection env st c (dset (intent_key i)
      (with_alternate r digest (RejectionOutcome c)) (bs_submit_outcomes st)) = Inr st')"
    by (auto simp: submit_def Let_def intent_key_def err_simps split: option.splits if_splits)
  with Some unchanged conflict show thesis by blast
next
  case None
  define eff where "eff = (if in_source_session_id i \<noteq> None \<and> bs_effective_session st = None
      then in_source_session_id i else bs_effective_session st)"
  have kept: "session_kept st eff" "session_kept st (bs_effective_session st)"
    by (auto simp: session_kept_def eff_def)
  have same: "st\<lparr>bs_effective_session := bs_effective_session st\<rparr> = st" by simp
  note run = assms [unfolded submit_def Let_def, folded intent_key_def, unfolded None option.case, folded eff_def]
  have reject: thesis if "commit_new_submit_rejection env st (st\<lparr>bs_effective_session := ses\<rparr>)
        (intent_key i) digest r = Inr (st', out)" "session_kept st ses" for ses digest r
    using that unchanged rejected [OF None]
    by (auto simp: commit_new_submit_rejection_def err_simps split: if_splits)
  consider (mismatch) "in_source_session_id i \<noteq> None \<and> bs_effective_session st \<noteq> None
      \<and> in_source_session_id i \<noteq> bs_effective_session st"
    | (cache_full) "max_orders (be_limits env) \<le> int (length (bs_submit_outcomes st))"
      "\<not> (in_source_session_id i \<noteq> None \<and> bs_effective_session st \<noteq> None
      \<and> in_source_session_id i \<noteq> bs_effective_session st)"
    | (orders_full) "\<not> max_orders (be_limits env) \<le> int (length (bs_submit_outcomes st))" "orders_full env st"
      "\<not> (in_source_session_id i \<noteq> None \<and> bs_effective_session st \<noteq> None
      \<and> in_source_session_id i \<noteq> bs_effective_session st)"
    | (ok) "\<not> max_orders (be_limits env) \<le> int (length (bs_submit_outcomes st))" "\<not> orders_full env st"
      "\<not> (in_source_session_id i \<noteq> None \<and> bs_effective_session st \<noteq> None
      \<and> in_source_session_id i \<noteq> bs_effective_session st)"
    by blast
  then show thesis
  proof cases
    case mismatch
    with run obtain r where "commit_new_submit_rejection env st st (intent_key i)
        (command_digest env (json_order_intent i)) r = Inr (st', out)"
      by (auto simp: err_simps)
    with reject [OF _ kept(2)] show thesis by (simp only: same)
  next
    case cache_full
    with run unchanged show thesis by (auto simp: err_simps)
  next
    case orders_full
    with run obtain r where "commit_new_submit_rejection env st (st\<lparr>bs_effective_session := eff\<rparr>) (intent_key i)
        (command_digest env (json_order_intent i)) r = Inr (st', out)"
      by (auto simp: err_simps)
    with reject [OF _ kept(1)] show thesis by blast
  next
    case ok
    from run ok obtain p e k where
      "accepted_order env i (broker_order_id env (intent_key i)) = Inr p"
      "make_event env (bs_next_paper_sequence st) ORDER_ACCEPTED (OrderPayload p)
              (in_created_at i) (in_source_session_id i) (in_source_ingest_sequence i) = Inr e"
      "in_source_ingest_sequence i \<in> {None, Some k}"
      "st' = bump_version (record_acceptance p (intent_key i)
              (command_digest env (json_order_intent i)) k e (st\<lparr>bs_effective_session := eff\<rparr>))"
      "out = OrderOutcome p"
      by (auto simp: err_simps split: option.splits)
    with accepted [OF None kept(1)] ok show thesis by simp
  qed
qed

lemma submit_advance:
  assumes "submit env i st = Inr (st', out)" and inv: "broker_inv env K st"
    and "inj_on (broker_order_id env) K" and "intent_key i \<in> K"
  shows "advance env K st st'"
  using assms(1)
proof (cases rule: submit_cases)
  case unchanged
  with inv show ?thesis by (simp add: advance_refl)
next
  case (conflict r c digest)
  with inv show ?thesis by (blast intro: conflict_advance)
next
  case (rejected eff c digest)
  note moved = session_advance [OF inv, of eff]
  from stage_rejection_advance [OF rejected(4) advance_inv [OF inv moved]] outcomes_extend_new [OF rejected(1)]
  have "advance env K (st\<lparr>bs_effective_session := eff\<rparr>) st'" by auto
  with moved show ?thesis by (rule advance_trans)
next
  case (accepted eff p e k s n)
  note moved = session_advance [OF inv, of eff]
  have "advance env K (st\<lparr>bs_effective_session := eff\<rparr>)
      (record_acceptance p (intent_key i) (command_digest env (json_order_intent i)) k e
         (st\<lparr>bs_effective_session := eff\<rparr>))"
    using acceptance_advance [OF advance_inv [OF inv moved] assms(3,4) _ accepted(5) _ accepted(7)] accepted(1,6) by simp
  with moved accepted(8) show ?thesis by (auto intro: advance_bump advance_trans)
qed

lemma evaluate_cancelD:
  assumes "evaluate_cancel env st c = Inr (OrderOutcome q, Some t)"
  obtains p where "t = ORDER_CANCELLED" and "dget (bs_orders st) (cn_paper_order_id c) = Some p"
    and "paper_order_init matching_context
           (p\<lparr>or_status := CANCELLED, or_updated_at := cn_requested_at c\<rparr>) = Inr q"
    and "validate_order_transition p q = Inr ()" and "\<not> events_full env st"
  using assms
  by (auto simp: evaluate_cancel_def cancel_rejection_def err_simps split: option.splits if_splits)

lemma evaluate_cancel_rejection: "evaluate_cancel env st c \<noteq> Inr (RejectionOutcome r, Some t)"
  by (auto simp: evaluate_cancel_def cancel_rejection_def err_simps split: option.splits if_splits)

lemma cache_cancel_advance: "broker_inv env K st \<Longrightarrow> advance env K st (cache_cancel key digest out r st)"
  by (rule advance_sameI) (simp_all add: cache_cancel_def book_of_def)

text \<open>The cancellation of an order is one step of the book.\<close>

lemma cancelled_advance:
  assumes "broker_inv env K st" and ev: "evaluate_cancel env st0 c = Inr (OrderOutcome q, Some t)"
    and "bs_orders st0 = bs_orders st"
    and e: "make_event env (bs_next_paper_sequence st) t (OrderPayload q) (cn_requested_at c) s n = Inr e"
  shows "advance env K st (journal_event e (st\<lparr>bs_orders := dset (or_paper_order_id q) q (bs_orders st)\<rparr>))"
proof -
  from ev obtain p where t: "t = ORDER_CANCELLED"
    and p: "dget (bs_orders st) (cn_paper_order_id c) = Some p"
    and q: "paper_order_init matching_context
           (p\<lparr>or_status := CANCELLED, or_updated_at := cn_requested_at c\<rparr>) = Inr q"
    and valid: "validate_order_transition p q = Inr ()"
    by (rule evaluate_cancelD) (simp add: assms(3))
  have id: "or_paper_order_id q = cn_paper_order_id c"
    using assms(1) p cancelled_order(1) [OF q]
    by (simp add: broker_inv_def book_inv_def orders_ok_def order_ok_def)
  let ?st' = "journal_event e (st\<lparr>bs_orders := dset (or_paper_order_id q) q (bs_orders st)\<rparr>)"
  have eq: "book_of ?st' = add_events [e]
      ((book_of st)\<lparr>bk_orders := dset (cn_paper_order_id c) q (bk_orders (book_of st))\<rparr>)"
    by (simp add: journal_event_def book_of_def add_events_def id)
  have number: "bs_next_paper_sequence st = next_number (book_of st)"
    using assms(1) by (simp add: broker_inv_def next_number_book_of)
  have key: "order_key q = order_key p" using cancelled_order(1) [OF q] by (simp add: order_key_def)
  show ?thesis
  proof (rule advance_stepI)
    show "book_step env (book_of st) (book_of ?st')"
      unfolding eq
      by (rule book_step.cancelled [OF _ q valid e [unfolded number t]]) (simp add: p)
    show "submitted K ?st'"
      using assms(1) key p by (auto simp: submitted_def broker_inv_def journal_event_def id)
  qed (use assms(1) in \<open>simp_all add: journal_event_def broker_inv_def numbered_def\<close>)
qed

lemma cancel_order_advance:
  assumes inv: "broker_inv env K st" and ec: "evaluate_cancel env st c = Inr (OrderOutcome q, Some t)"
    and e: "make_event env (bs_next_paper_sequence st) t (OrderPayload q) (cn_requested_at c) s n = Inr e"
    and st2: "st2 = (if caching then cache_cancel key digest out r st else st)"
  shows "advance env K st (journal_event e (st2\<lparr>bs_orders := dset (or_paper_order_id q) q (bs_orders st)\<rparr>))"
proof -
  have moved: "advance env K st st2" using inv by (simp add: st2 cache_cancel_advance advance_refl)
  have same: "bs_orders st = bs_orders st2" "bs_next_paper_sequence st = bs_next_paper_sequence st2"
    by (simp_all add: st2 cache_cancel_def)
  show ?thesis
    using moved cancelled_advance [OF advance_inv [OF inv moved] ec same(1) e [unfolded same(2)]]
    by (simp add: same) (rule advance_trans)
qed

lemma cancel_reject_advance:
  assumes inv: "broker_inv env K st"
    and "append_rejection_event env rj (cache_cancel key digest out r st) = Inr st'"
  shows "advance env K st st'"
  using append_rejection_advance [OF assms(2) advance_inv [OF inv cache_cancel_advance [OF inv]]]
    cache_cancel_advance [OF inv] by (blast intro: advance_trans)

text \<open>How a cancellation can end.\<close>

lemma cancel_cases:
  assumes "cancel env c st = Inr (st', out)"
  obtains (unchanged) "st' = st"
  | (cancelled) eff q t e s n caching key digest r where "session_kept st eff"
      "evaluate_cancel env (st\<lparr>bs_effective_session := eff\<rparr>) c = Inr (OrderOutcome q, Some t)"
      "make_event env (bs_next_paper_sequence st) t (OrderPayload q) (cn_requested_at c) s n = Inr e"
      "caching \<Longrightarrow> can_cache_cancel env st (dget (bs_cancel_outcomes st) key)"
      "st' = bump_version (journal_event e ((if caching then cache_cancel key digest (OrderOutcome q) r
           (st\<lparr>bs_effective_session := eff\<rparr>) else (st\<lparr>bs_effective_session := eff\<rparr>))
         \<lparr>bs_orders := dset (or_paper_order_id q) q (bs_orders st)\<rparr>))"
  | (rejected) eff rj st2 key digest r where "session_kept st eff"
      "can_cache_cancel env st (dget (bs_cancel_outcomes st) key)"
      "append_rejection_event env rj (cache_cancel key digest (RejectionOutcome rj) r
         (st\<lparr>bs_effective_session := eff\<rparr>)) = Inr st2"
      "st' = st2 \<or> st' = bump_version st2"
proof -
  define eff where "eff = (if cn_source_session_id c \<noteq> None \<and> bs_effective_session st = None
      then cn_source_session_id c else bs_effective_session st)"
  let ?st1 = "st\<lparr>bs_effective_session := eff\<rparr>"
  have st1: "(if cn_source_session_id c \<noteq> None \<and> bs_effective_session st = None
      then st\<lparr>bs_effective_session := cn_source_session_id c\<rparr> else st) = ?st1"
    by (simp add: eff_def)
  have kept: "session_kept st eff" by (auto simp: session_kept_def eff_def)
  define key where "key = (cn_paper_order_id c, cn_strategy_id c, cn_client_order_id c)"
  define digest where "digest = command_digest env (json_cancel_intent c)"
  define r where "r = dget (bs_cancel_outcomes st) key"
  have cc: "can_cache_cancel env ?st1 r = can_cache_cancel env st r"
    by (simp add: can_cache_cancel_def split: option.splits)
  have r1: "dget (bs_cancel_outcomes ?st1) key = r" by (simp add: r_def)
  note run = assms [unfolded cancel_def Let_def st1, folded key_def digest_def, unfolded r1 cc]
  show thesis
  proof (cases "case r of None \<Rightarrow> None | Some rc \<Rightarrow> outcome_find rc digest")
    case (Some cached)
    with run unchanged show thesis by (auto split: if_splits)
  next
    case uncached: None
    with run obtain o1 kind where ec: "evaluate_cancel env ?st1 c = Inr (o1, kind)"
      by (auto simp: err_simps split: if_splits)
    consider "\<exists>q. o1 = OrderOutcome q \<and> kind = None" | q t where "o1 = OrderOutcome q" "kind = Some t"
      | rj where "o1 = RejectionOutcome rj" "kind = None"
      using ec evaluate_cancel_rejection by (cases o1; cases kind) auto
    then show thesis
    proof cases
      case 1
      with run uncached ec unchanged show thesis by (auto split: if_splits)
    next
      case (2 q t)
      with run uncached ec obtain e where
        "make_event env (bs_next_paper_sequence st) t (OrderPayload q) (cn_requested_at c)
              (cn_source_session_id c) (cn_source_ingest_sequence c) = Inr e"
        "st' = bump_version (journal_event e
              ((if can_cache_cancel env st r then cache_cancel key digest (OrderOutcome q) r ?st1 else ?st1)
                 \<lparr>bs_orders := dset (or_paper_order_id q) q (bs_orders st)\<rparr>))"
        by (auto simp: err_simps split: if_splits)
      with cancelled [OF kept] ec 2 show thesis by (simp add: r_def)
    next
      case (3 rj)
      with run uncached ec have "st' = st \<or> (can_cache_cancel env st r \<and> (\<exists>st2. append_rejection_event env rj
          (cache_cancel key digest (RejectionOutcome rj) r ?st1) = Inr st2 \<and> (st' = st2 \<or> st' = bump_version st2)))"
        by (auto simp: err_simps split: if_splits)
      with unchanged rejected [OF kept] show thesis unfolding r_def by blast
    qed
  qed
qed

lemma cancel_advance:
  assumes "cancel env c st = Inr (st', out)" and inv: "broker_inv env K st"
  shows "advance env K st st'"
  using assms(1)
proof (cases rule: cancel_cases)
  case unchanged
  with inv show ?thesis by (simp add: advance_refl)
next
  case (cancelled eff q t e s n caching key digest r)
  note moved = session_advance [OF inv, of eff]
  from cancel_order_advance [OF advance_inv [OF inv moved] cancelled(2) _ refl, of s n e caching key digest
      "OrderOutcome q" r] cancelled(3)
  have "advance env K (st\<lparr>bs_effective_session := eff\<rparr>) (journal_event e
      ((if caching then cache_cancel key digest (OrderOutcome q) r (st\<lparr>bs_effective_session := eff\<rparr>)
        else (st\<lparr>bs_effective_session := eff\<rparr>))\<lparr>bs_orders := dset (or_paper_order_id q) q (bs_orders st)\<rparr>))"
    by simp
  with moved show ?thesis unfolding cancelled(5) by (blast intro: advance_bump advance_trans)
next
  case (rejected eff rj st2 key digest r)
  note moved = session_advance [OF inv, of eff]
  from cancel_reject_advance [OF advance_inv [OF inv moved] rejected(3)] moved rejected(4)
  show ?thesis by (auto intro: advance_bump advance_trans)
qed

section \<open>The commands of a batch\<close>

lemma store_reject_advance:
  assumes "stage_batch_rejection env (st\<lparr>bs_submit_outcomes := d\<rparr>) r e = Inr st'"
    and "broker_inv env K st" and "outcomes_extend (bs_submit_outcomes st) d"
  shows "advance env K st st'"
  using stage_batch_rejection_advance [OF assms(1) advance_inv [OF assms(2)]]
    store_submit_advance [OF assms(2,3)] by (blast intro: advance_trans)

lemma stage_batch_submit_advance:
  assumes "stage_batch_submit env e i st = Inr (st', out)" and "broker_inv env K st"
    and "inj_on (broker_order_id env) K" and "intent_key i \<in> K"
  shows "advance env K st st'"
proof (cases "dget (bs_submit_outcomes st) (intent_key i)")
  case (Some r)
  note alt = outcomes_extend_alternate [OF Some, of digest out for digest out]
  from Some assms(1) have "st' = st \<or> (\<exists>c digest. \<not> has_alternate r \<and> stage_batch_rejection env
      (st\<lparr>bs_submit_outcomes := dset (intent_key i) (with_alternate r digest (RejectionOutcome c))
         (bs_submit_outcomes st)\<rparr>) c e = Inr st')"
    by (auto simp: stage_batch_submit_def Let_def intent_key_def err_simps split: option.splits if_splits)
  with advance_refl [OF assms(2)] store_reject_advance [OF _ assms(2)] alt
  show ?thesis by blast
next
  case None
  note run = assms(1) [unfolded stage_batch_submit_def Let_def, folded intent_key_def,
      unfolded None option.case]
  note new = outcomes_extend_new [OF None]
  consider "max_orders (be_limits env) \<le> int (length (bs_submit_outcomes st))"
    | "\<not> max_orders (be_limits env) \<le> int (length (bs_submit_outcomes st))" "orders_full env st"
    | "\<not> max_orders (be_limits env) \<le> int (length (bs_submit_outcomes st))" "\<not> orders_full env st"
    by blast
  then show ?thesis
  proof cases
    case 1
    with run assms(2) show ?thesis by (auto simp: err_simps advance_refl)
  next
    case 2
    with run store_reject_advance [OF _ assms(2) new] show ?thesis by (auto simp: err_simps)
  next
    case 3
    with run obtain p ev where
      p: "accepted_order env i (broker_order_id env (intent_key i)) = Inr p"
      and ev: "make_event env (bs_next_paper_sequence st) ORDER_ACCEPTED (OrderPayload p)
          (in_created_at i) (Some (en_session_id e)) (Some (en_ingest_sequence e)) = Inr ev"
      and st': "st' = record_acceptance p (intent_key i)
          (command_digest env (json_order_intent i)) (en_ingest_sequence e) ev st"
      by (auto simp: err_simps)
    from acceptance_advance [OF assms(2-4) None p ev] st' show ?thesis by simp
  qed
qed

lemma stage_batch_cancel_advance:
  assumes "stage_batch_cancel env e c st = Inr (st', out)" and inv: "broker_inv env K st"
  shows "advance env K st st'"
proof -
  define key where "key = (cn_paper_order_id c, cn_strategy_id c, cn_client_order_id c)"
  define digest where "digest = command_digest env (json_cancel_intent c)"
  define r where "r = dget (bs_cancel_outcomes st) key"
  note run = assms(1) [unfolded stage_batch_cancel_def Let_def, folded key_def digest_def, folded r_def]
  show ?thesis
  proof (cases "case r of None \<Rightarrow> None | Some rc \<Rightarrow> outcome_find rc digest")
    case (Some cached)
    with run inv show ?thesis by (auto simp: advance_refl)
  next
    case uncached: None
    with run obtain o1 kind where ec: "evaluate_cancel env st c = Inr (o1, kind)"
      by (auto simp: err_simps)
    consider "\<exists>q. o1 = OrderOutcome q \<and> kind = None" | q t where "o1 = OrderOutcome q" "kind = Some t"
      | rj where "o1 = RejectionOutcome rj" "kind = None"
      using ec evaluate_cancel_rejection by (cases o1; cases kind) auto
    then show ?thesis
    proof cases
      case 1
      with run uncached ec inv show ?thesis by (auto simp: advance_refl)
    next
      case (2 q t)
      define st2 where "st2 = (if can_cache_cancel env st r then cache_cancel key digest o1 r st else st)"
      have same: "bs_orders st2 = bs_orders st" "bs_next_paper_sequence st2 = bs_next_paper_sequence st"
        by (simp_all add: st2_def cache_cancel_def)
      from run uncached ec 2 obtain ev where
        ev: "make_event env (bs_next_paper_sequence st) t (OrderPayload q) (cn_requested_at c)
              (Some (en_session_id e)) (Some (en_ingest_sequence e)) = Inr ev"
        and st': "st' = journal_event ev (st2\<lparr>bs_orders := dset (or_paper_order_id q) q (bs_orders st)\<rparr>)"
        by (auto simp: err_simps st2_def cache_cancel_def split: if_splits)
      from cancel_order_advance [OF inv ec [unfolded 2] ev st2_def] st' show ?thesis by simp
    next
      case (3 rj)
      with run uncached ec have "st' = st \<or> stage_batch_rejection env (cache_cancel key digest o1 r st) rj e
          = Inr st'"
        by (auto simp: err_simps split: if_splits)
      with stage_batch_rejection_advance advance_inv [OF inv] cache_cancel_advance [OF inv]
        advance_refl [OF inv] show ?thesis by (blast intro: advance_trans)
    qed
  qed
qed

fun command_key_in :: "submit_key set \<Rightarrow> paper_command \<Rightarrow> bool" where
  "command_key_in K (SubmitCommand i) = (intent_key i \<in> K)"
| "command_key_in K (CancelCommand c) = True"

lemma stage_batch_command_advance:
  assumes "stage_batch_command env e c st = Inr (st', out)" and "broker_inv env K st"
    and "inj_on (broker_order_id env) K" and "command_key_in K c"
  shows "advance env K st st'"
  using assms by (cases c) (auto intro: stage_batch_submit_advance stage_batch_cancel_advance)

lemma stage_batch_commands_advance:
  assumes "stage_batch_commands env e cs st = Inr (st', outs)" and "broker_inv env K st"
    and "inj_on (broker_order_id env) K" and "list_all (command_key_in K) cs"
  shows "advance env K st st'"
proof -
  let ?I = "\<lambda>s. broker_inv env K (fst s) \<and> advance env K st (fst s)"
  have "?I (st', outs)"
  proof (rule efold_invariant [OF assms(1) [unfolded stage_batch_commands_def]])
    show "?I (st, [])" using assms(2) by (simp add: advance_refl)
  next
    fix c s t
    assume "c \<in> set cs" and I: "?I s"
      and step: "(\<lambda>(s, outs). ebind (stage_batch_command env e c s) (\<lambda>(s', out). Inr (s', outs @ [out]))) s = Inr t"
    then have key: "command_key_in K c" using assms(4) by (simp add: list_all_iff)
    from step obtain out where "stage_batch_command env e c (fst s) = Inr (fst t, out)"
      by (cases s) (auto simp: err_simps)
    from stage_batch_command_advance [OF this _ assms(3) key] I advance_inv advance_trans show "?I t" by blast
  qed
  then show ?thesis by simp
qed

section \<open>Matching a quote\<close>

definition stage_book :: "broker_state \<Rightarrow> match_stage \<Rightarrow> book" where
  "stage_book st ms = \<lparr>bk_orders = ms_orders ms, bk_positions = ms_positions ms,
     bk_ordinal = bs_acceptance_ordinal st, bk_eligible = bs_eligibility_sequence st,
     bk_next_ordinal = bs_next_acceptance_ordinal st, bk_fills = ms_fills ms, bk_events = ms_events ms\<rparr>"

text \<open>What one pass of the loop body can do: skip the order with a reason, or fill it.\<close>

definition stage_skips :: "match_stage \<Rightarrow> match_stage \<Rightarrow> bool" where
  "stage_skips ms ms' \<longleftrightarrow> (\<exists>rs. ms' = ms\<lparr>ms_reasons := rs\<rparr>)"

definition stage_with_fill ::
  "uuid \<Rightarrow> paper_order \<Rightarrow> paper_fill \<Rightarrow> paper_position \<Rightarrow> decimal \<Rightarrow> paper_event list \<Rightarrow> match_stage
     \<Rightarrow> match_stage" where
  "stage_with_fill order_id p f pos cap evs ms =
     set_capacity (in_side (or_intent p)) cap
       (ms\<lparr>ms_orders := dset order_id p (ms_orders ms),
           ms_positions := dset (order_position_key p) pos (ms_positions ms),
           ms_fills := ms_fills ms @ [f], ms_result_fills := ms_result_fills ms @ [f],
           ms_result_positions := ms_result_positions ms @ [pos],
           ms_events := ms_events ms @ evs, ms_result_events := ms_result_events ms @ evs,
           ms_next_sequence := ms_next_sequence ms + 3, ms_fill_ordinal := ms_fill_ordinal ms + 1\<rparr>)"

definition fill_events ::
  "broker_env \<Rightarrow> envelope \<Rightarrow> int \<Rightarrow> paper_order \<Rightarrow> paper_fill \<Rightarrow> paper_position \<Rightarrow> paper_event list \<Rightarrow> bool" where
  "fill_events env e n p f pos evs \<longleftrightarrow>
     (\<exists>ev1 ev2 ev3. evs = [ev1, ev2, ev3]
        \<and> make_event env n FILL_RECORDED (FillPayload f) (causal_time e)
            (Some (en_session_id e)) (Some (en_ingest_sequence e)) = Inr ev1
        \<and> make_event env (n + 1) (if or_status p = FILLED then ORDER_FILLED else ORDER_PARTIALLY_FILLED)
            (OrderPayload p) (causal_time e) (Some (en_session_id e)) (Some (en_ingest_sequence e)) = Inr ev2
        \<and> make_event env (n + 2) POSITION_CHANGED (PositionPayload pos) (causal_time e)
            (Some (en_session_id e)) (Some (en_ingest_sequence e)) = Inr ev3)"

definition stage_fills ::
  "broker_env \<Rightarrow> broker_state \<Rightarrow> envelope \<Rightarrow> quote \<Rightarrow> quote_top \<Rightarrow> uuid \<Rightarrow> match_stage \<Rightarrow> match_stage \<Rightarrow> bool" where
  "stage_fills env st e q tp order_id ms ms' \<longleftrightarrow>
     (\<exists>p k available f p' pos cap evs.
        dget (ms_orders ms) order_id = Some p \<and> \<not> is_terminal (or_status p)
        \<and> in_instrument_id (or_intent p) = qu_instrument_id q
        \<and> dget (bs_eligibility_sequence st) order_id = Some k \<and> order_eligible e k p
        \<and> side_capacity (in_side (or_intent p)) ms = Some available
        \<and> fill_made env (bs_execution_config_fingerprint st) e tp order_id p available
            (ms_fill_ordinal ms + 1) f p'
        \<and> apply_fill_to_position (be_hashes env) (dget (ms_positions ms) (order_position_key p)) f = Inr pos
        \<and> dsub matching_context available (fi_quantity f) = Inr cap
        \<and> fill_events env e (ms_next_sequence ms) p' f pos evs
        \<and> ms' = stage_with_fill order_id p' f pos cap evs ms)"

lemma stage_skips_skip [simp]: "stage_skips ms (skip_order r ms)"
  by (auto simp: stage_skips_def skip_order_def)

lemma stage_skips_refl [simp]: "stage_skips ms ms"
  by (auto simp: stage_skips_def intro: exI [of _ "ms_reasons ms"])

lemma record_fillD:
  "record_fill env e order_id p f pos cap ms = Inr ms' \<Longrightarrow>
     \<exists>evs. fill_events env e (ms_next_sequence ms) p f pos evs
       \<and> ms' = stage_with_fill order_id p f pos cap evs ms"
  unfolding record_fill_def Let_def ebind_eq_Inr fill_events_def stage_with_fill_def by force

lemma fill_order_cases:
  assumes "fill_order env fp e tp order_id p available slip ms = Inr ms'"
    and price: "execution_price p tp = Inr (Some reference)" "dpos available"
      "assess_price env reference (or_intent p) = Inr (slip, la)" "la_executable la"
  shows "stage_skips ms ms' \<or>
    (\<exists>f p' pos cap evs. fill_made env fp e tp order_id p available (ms_fill_ordinal ms + 1) f p'
        \<and> apply_fill_to_position (be_hashes env) (dget (ms_positions ms) (order_position_key p)) f = Inr pos
        \<and> dsub matching_context available (fi_quantity f) = Inr cap
        \<and> fill_events env e (ms_next_sequence ms) p' f pos evs
        \<and> ms' = stage_with_fill order_id p' f pos cap evs ms)"
proof -
  let ?q = "dmin (or_remaining_quantity p) available"
  note run = assms(1) [unfolded fill_order_def Let_def]
  from run obtain filled where
    filled: "dadd matching_context (or_filled_quantity p) ?q = Inr filled" by (auto simp: err_simps)
  show ?thesis
  proof (cases "assess_fee (ec_fee_schedule (be_execution_config env)) (in_instrument_id (or_intent p))
      (qt_currency tp) (or_filled_quantity p) filled")
    case (Inl x)
    with run filled show ?thesis by (auto split: option.splits)
  next
    case fee: (Inr fee)
    with run filled obtain f p' where
      f: "new_fill env fp e order_id p (ms_fill_ordinal ms + 1) ?q slip fee = Inr f"
      and p': "filled_order e p filled ?q (sa_execution_price slip) = Inr p'"
      and valid: "validate_order_transition p p' = Inr ()"
      by (auto simp: err_simps)
    have made: "fill_made env fp e tp order_id p available (ms_fill_ordinal ms + 1) f p'"
      unfolding fill_made_def using price filled fee f p' valid by blast
    show ?thesis
    proof (cases "apply_fill_to_position (be_hashes env) (dget (ms_positions ms) (order_position_key p)) f")
      case (Inl x)
      with run filled fee f p' valid show ?thesis by (auto split: if_splits)
    next
      case pos: (Inr pos)
      with run filled fee f p' valid obtain cap where
        cap: "dsub matching_context available ?q = Inr cap"
        and rec: "record_fill env e order_id p' f pos cap ms = Inr ms'"
        by (auto simp: err_simps)
      have "dsub matching_context available (fi_quantity f) = Inr cap"
        using cap by (simp add: new_fillD(7) [OF f])
      with made pos record_fillD [OF rec] show ?thesis by blast
    qed
  qed
qed

lemma match_order_cases:
  assumes "match_order env st e q tp order_id ms = Inr ms'"
  shows "stage_skips ms ms' \<or> stage_fills env st e q tp order_id ms ms'"
proof (cases "stage_skips ms ms'")
  case skipped: False
  from assms obtain p where p: "dget (ms_orders ms) order_id = Some p"
    by (auto simp: match_order_def split: option.splits)
  note run = assms [unfolded match_order_def p option.case]
  from run skipped have live: "\<not> is_terminal (or_status p)"
      "in_instrument_id (or_intent p) = qu_instrument_id q"
    by (auto split: if_splits)
  with run skipped obtain k where k: "dget (bs_eligibility_sequence st) order_id = Some k"
      "order_eligible e k p"
    by (auto split: option.splits if_splits)
  from run live k obtain price where price: "execution_price p tp = Inr price"
    by (auto simp: err_simps)
  from run live k price skipped obtain reference available where
    reference: "price = Some reference"
    and available: "side_capacity (in_side (or_intent p)) ms = Some available" "dpos available"
    by (auto split: option.splits if_splits)
  show ?thesis
  proof (cases "assess_price env reference (or_intent p)")
    case (Inl x)
    with run live k price reference available skipped show ?thesis by (auto split: option.splits)
  next
    case (Inr sl)
    obtain slip la where sl: "sl = (slip, la)" by (cases sl)
    with run live k price reference available skipped Inr
    have ok: "la_executable la"
      and fill: "fill_order env (bs_execution_config_fingerprint st) e tp order_id p available slip ms = Inr ms'"
      by (auto split: option.splits if_splits)
    from fill_order_cases [OF fill price [unfolded reference] available(2) Inr [unfolded sl] ok] skipped
    show ?thesis unfolding stage_fills_def using p live k available(1) by blast
  qed
qed simp

text \<open>Skips and fills on the book.\<close>

definition stage_ok :: "broker_env \<Rightarrow> submit_key set \<Rightarrow> broker_state \<Rightarrow> match_stage \<Rightarrow> bool" where
  "stage_ok env K st ms \<longleftrightarrow>
     (book_step env)\<^sup>*\<^sup>* (book_of st) (stage_book st ms)
     \<and> ms_next_sequence ms = int (length (ms_events ms)) + 1
     \<and> (\<forall>oid p. dget (ms_orders ms) oid = Some p \<longrightarrow>
          order_key p \<in> K \<and> dget (bs_submit_outcomes st) (order_key p) \<noteq> None)"

lemma set_capacity_simps [simp]:
  "ms_orders (set_capacity s d ms) = ms_orders ms" "ms_positions (set_capacity s d ms) = ms_positions ms"
  "ms_fills (set_capacity s d ms) = ms_fills ms" "ms_events (set_capacity s d ms) = ms_events ms"
  "ms_result_fills (set_capacity s d ms) = ms_result_fills ms"
  "ms_result_events (set_capacity s d ms) = ms_result_events ms"
  "ms_result_positions (set_capacity s d ms) = ms_result_positions ms"
  "ms_next_sequence (set_capacity s d ms) = ms_next_sequence ms"
  "ms_fill_ordinal (set_capacity s d ms) = ms_fill_ordinal ms"
  by (simp_all add: set_capacity_def split: order_side.splits)

lemma stage_ok_skips: "stage_ok env K st ms \<Longrightarrow> stage_skips ms ms' \<Longrightarrow> stage_ok env K st ms'"
  by (auto simp: stage_skips_def stage_ok_def stage_book_def)

lemma stage_fills_book_step:
  assumes "stage_fills env st e q tp order_id ms ms'"
    and "ms_next_sequence ms = int (length (ms_events ms)) + 1"
  shows "book_step env (stage_book st ms) (stage_book st ms')"
proof -
  from assms(1) obtain p k available f p' pos cap evs where
    p: "dget (ms_orders ms) order_id = Some p"
    and k: "dget (bs_eligibility_sequence st) order_id = Some k" "order_eligible e k p"
    and made: "fill_made env (bs_execution_config_fingerprint st) e tp order_id p available
            (ms_fill_ordinal ms + 1) f p'"
    and pos: "apply_fill_to_position (be_hashes env) (dget (ms_positions ms) (order_position_key p)) f = Inr pos"
    and evs: "fill_events env e (ms_next_sequence ms) p' f pos evs"
    and ms': "ms' = stage_with_fill order_id p' f pos cap evs ms"
    unfolding stage_fills_def by blast
  let ?b = "stage_book st ms"
  have number: "next_number ?b = ms_next_sequence ms"
    by (simp add: next_number_def stage_book_def assms(2))
  have sel: "bk_orders ?b = ms_orders ms" "bk_positions ?b = ms_positions ms"
      "bk_eligible ?b = bs_eligibility_sequence st" "bk_fills ?b = ms_fills ms"
    by (simp_all add: stage_book_def)
  from evs obtain ev1 ev2 ev3 where list: "evs = [ev1, ev2, ev3]"
    and ev1: "make_event env (next_number ?b) FILL_RECORDED (FillPayload f) (causal_time e)
            (Some (en_session_id e)) (Some (en_ingest_sequence e)) = Inr ev1"
    and ev2: "make_event env (next_number ?b + 1)
            (if or_status p' = FILLED then ORDER_FILLED else ORDER_PARTIALLY_FILLED)
            (OrderPayload p') (causal_time e) (Some (en_session_id e)) (Some (en_ingest_sequence e)) = Inr ev2"
    and ev3: "make_event env (next_number ?b + 2) POSITION_CHANGED (PositionPayload pos) (causal_time e)
            (Some (en_session_id e)) (Some (en_ingest_sequence e)) = Inr ev3"
    unfolding fill_events_def number by blast
  have eq: "stage_book st ms' = add_events [ev1, ev2, ev3]
           (?b\<lparr>bk_orders := dset order_id p' (bk_orders ?b),
              bk_positions := dset (order_position_key p') pos (bk_positions ?b),
              bk_fills := bk_fills ?b @ [f]\<rparr>)"
    by (simp add: ms' stage_with_fill_def stage_book_def add_events_def list)
  show ?thesis
    unfolding eq
    by (rule book_step.filled [OF _ _ k(2) made _ ev1 ev2 ev3]) (simp_all add: sel p k(1) pos)
qed

lemma stage_ok_fills:
  assumes "stage_ok env K st ms" and "stage_fills env st e q tp order_id ms ms'"
  shows "stage_ok env K st ms'"
proof -
  have number: "ms_next_sequence ms = int (length (ms_events ms)) + 1"
    using assms(1) by (simp add: stage_ok_def)
  from assms(2) obtain p available f p' pos cap evs where
    p: "dget (ms_orders ms) order_id = Some p"
    and made: "fill_made env (bs_execution_config_fingerprint st) e tp order_id p available
            (ms_fill_ordinal ms + 1) f p'"
    and evs: "fill_events env e (ms_next_sequence ms) p' f pos evs"
    and ms': "ms' = stage_with_fill order_id p' f pos cap evs ms"
    unfolding stage_fills_def by blast
  have key: "order_key p' = order_key p" by (simp add: order_key_def fill_made_order(2) [OF made])
  have len: "length evs = 3" using evs by (auto simp: fill_events_def)
  have "(book_step env)\<^sup>*\<^sup>* (book_of st) (stage_book st ms')"
    using assms(1) stage_fills_book_step [OF assms(2) number] unfolding stage_ok_def
    by (meson rtranclp.rtrancl_into_rtrancl)
  moreover have "order_key x \<in> K \<and> dget (bs_submit_outcomes st) (order_key x) \<noteq> None"
    if "dget (ms_orders ms') oid = Some x" for oid x
    using that assms(1) p key by (auto simp: stage_ok_def ms' stage_with_fill_def split: if_splits)
  ultimately show ?thesis
    by (simp add: stage_ok_def ms' stage_with_fill_def number len)
qed

text \<open>Anything skips and fills keep holds after the whole loop.\<close>

lemma stage_matches_induct:
  assumes "stage_matches env st e q tp ms = Inr ms'"
    and "I (ms\<lparr>ms_buy_capacity := qt_ask_capacity tp, ms_sell_capacity := qt_bid_capacity tp,
               ms_fill_ordinal := 0\<rparr>)"
    and "\<And>a b. I a \<Longrightarrow> stage_skips a b \<Longrightarrow> I b"
    and "\<And>a b oid. I a \<Longrightarrow> stage_fills env st e q tp oid a b \<Longrightarrow> I b"
  shows "I ms'"
  by (rule efold_invariant [OF assms(1) [unfolded stage_matches_def]])
    (use assms(2-4) match_order_cases in blast)+

lemma stage_start_ok: "broker_inv env K st \<Longrightarrow> stage_ok env K st (stage_start st)"
  by (simp add: stage_ok_def stage_start_def stage_book_def book_of_def broker_inv_def numbered_def submitted_def)

lemma stage_ok_cong:
  "stage_ok env K st ms \<Longrightarrow> stage_ok env K st (ms\<lparr>ms_reasons := rs\<rparr>)"
  "stage_ok env K st ms \<Longrightarrow> stage_ok env K st
     (ms\<lparr>ms_buy_capacity := b, ms_sell_capacity := s, ms_fill_ordinal := n\<rparr>)"
  by (simp_all add: stage_ok_def stage_book_def)

text \<open>The metadata an envelope names, and the top of the book a batch is matched against.\<close>

definition envelope_metadata :: "broker_state \<Rightarrow> envelope \<Rightarrow> quote \<Rightarrow> instrument_metadata option" where
  "envelope_metadata st e q =
     (case en_metadata_version e of None \<Rightarrow> None
      | Some v \<Rightarrow> dget (bs_instruments st) (qu_instrument_id q, v))"

definition batch_top :: "broker_state \<Rightarrow> envelope \<Rightarrow> quote_top option" where
  "batch_top st e =
     (case en_payload e of
        QuotePayload q \<Rightarrow>
          (case inspect_quote_top q (envelope_metadata st e q) of Inr (Inr tp) \<Rightarrow> Some tp | _ \<Rightarrow> None)
      | _ \<Rightarrow> None)"

lemma stage_quote_cases:
  assumes "stage_quote env e q st = Inr m"
  obtains rs where "m = (stage_start st)\<lparr>ms_reasons := rs\<rparr>"
  | tp rs where "inspect_quote_top q (envelope_metadata st e q) = Inr (Inr tp)"
      "stage_matches env st e q tp ((stage_start st)\<lparr>ms_reasons := rs\<rparr>) = Inr m"
proof -
  note run = assms [unfolded stage_quote_def, folded envelope_metadata_def]
  from run obtain a where a: "inspect_quote_top q (envelope_metadata st e q) = Inr a"
    by (auto simp: err_simps)
  show thesis
  proof (cases a)
    case (Inl rs)
    with a run have "m = (stage_start st)\<lparr>ms_reasons := rs\<rparr>" by simp
    then show thesis by (rule that(1))
  next
    case (Inr tp)
    with a run that(2) [of tp] show thesis by simp
  qed
qed

lemma stage_market_data_ok:
  assumes "stage_market_data env e st = Inr (instruments, ms)" and "broker_inv env K st"
  shows "stage_ok env K st ms"
proof -
  note start = stage_start_ok [OF assms(2)]
  have quote: "stage_ok env K st m" if run: "stage_quote env e q st = Inr m" for q m
  proof -
    from run show ?thesis
    proof (cases rule: stage_quote_cases)
      case (2 tp rs)
      from 2(2) show ?thesis
        by (rule stage_matches_induct)
          (use start in \<open>auto intro: stage_ok_cong stage_ok_skips stage_ok_fills\<close>)
    qed (simp add: stage_ok_cong start)
  qed
  from assms(1) show ?thesis
    by (auto simp: stage_market_data_def err_simps skip_order_def stage_ok_cong start quote
        split: event_type.splits domain_payload.splits)
qed


section \<open>A whole batch, and a whole run\<close>

lemma apply_stage_advance:
  assumes "stage_ok env K st ms"
  shows "advance env K st (apply_stage e instruments ms st)"
proof -
  have "book_of (apply_stage e instruments ms st) = stage_book st ms"
    by (simp add: apply_stage_def book_of_def stage_book_def)
  with assms show ?thesis
    by (simp add: advance_def stage_ok_def numbered_def submitted_def apply_stage_def)
qed

lemma record_fence_simps [simp]:
  "book_of (record_fence e fp dd dfp st staged) = book_of staged"
  "bs_orders (record_fence e fp dd dfp st staged) = bs_orders staged"
  "bs_events (record_fence e fp dd dfp st staged) = bs_events staged"
  "bs_next_paper_sequence (record_fence e fp dd dfp st staged) = bs_next_paper_sequence staged"
  "bs_submit_outcomes (record_fence e fp dd dfp st staged) = bs_submit_outcomes staged"
  "bs_execution_config_fingerprint (record_fence e fp dd dfp st staged) = bs_execution_config_fingerprint staged"
  "bs_envelope_fingerprints (record_fence e fp dd dfp st staged)
     = dset (en_ingest_sequence e) fp (bs_envelope_fingerprints st)"
  "bs_decision_fingerprints (record_fence e fp dd dfp st staged)
     = dset (en_ingest_sequence e) dfp (bs_decision_fingerprints st)"
  "bs_dedupe_sequences (record_fence e fp dd dfp st staged)
     = dset dd (en_ingest_sequence e) (bs_dedupe_sequences st)"
  "bs_last_sequence (record_fence e fp dd dfp st staged) = bs_last_sequence staged"
  by (simp_all add: record_fence_def book_of_def)

lemma record_fence_advance:
  assumes "advance env K st staged"
    and "dget (bs_envelope_fingerprints st) (en_ingest_sequence e) = None"
    and "dget (bs_decision_fingerprints st) (en_ingest_sequence e) = None"
  shows "advance env K st (record_fence e fp dd dfp st staged)"
  using assms by (simp add: advance_def numbered_def submitted_def dict_extends_new)

text \<open>Commands leave the fences alone.\<close>

definition same_fences :: "broker_state \<Rightarrow> broker_state \<Rightarrow> bool" where
  "same_fences st st' \<longleftrightarrow>
     bs_envelope_fingerprints st' = bs_envelope_fingerprints st
     \<and> bs_decision_fingerprints st' = bs_decision_fingerprints st
     \<and> bs_dedupe_sequences st' = bs_dedupe_sequences st
     \<and> bs_last_sequence st' = bs_last_sequence st \<and> bs_instruments st' = bs_instruments st
     \<and> bs_fills st' = bs_fills st \<and> bs_positions st' = bs_positions st
     \<and> bs_bound_session st' = bs_bound_session st \<and> bs_bound_source st' = bs_bound_source st
     \<and> bs_effective_session st' = bs_effective_session st"

lemma same_fences_refl [simp]: "same_fences st st"
  by (simp add: same_fences_def)

lemma same_fences_trans: "same_fences a b \<Longrightarrow> same_fences b c \<Longrightarrow> same_fences a c"
  by (simp add: same_fences_def)

lemma stage_batch_rejection_fences: "stage_batch_rejection env st r e = Inr st' \<Longrightarrow> same_fences st st'"
  by (auto simp: stage_batch_rejection_def err_simps journal_event_def same_fences_def split: if_splits)

lemma stage_batch_submit_fences:
  "stage_batch_submit env e i st = Inr (st', out) \<Longrightarrow> same_fences st st'"
  by (auto simp: stage_batch_submit_def Let_def err_simps record_acceptance_def journal_event_def
      same_fences_def dest!: stage_batch_rejection_fences split: option.splits if_splits)

lemma stage_batch_cancel_fences:
  "stage_batch_cancel env e c st = Inr (st', out) \<Longrightarrow> same_fences st st'"
  by (auto simp: stage_batch_cancel_def Let_def err_simps journal_event_def cache_cancel_def
      same_fences_def dest!: stage_batch_rejection_fences
      split: option.splits if_splits command_outcome.splits prod.splits)

lemma stage_batch_command_fences:
  "stage_batch_command env e c st = Inr (st', out) \<Longrightarrow> same_fences st st'"
  by (cases c) (auto dest: stage_batch_submit_fences stage_batch_cancel_fences)

lemma stage_batch_commands_fences:
  assumes "stage_batch_commands env e cs st = Inr (st', outs)"
  shows "same_fences st st'"
proof -
  have "same_fences st (fst (st', outs))"
  proof (rule efold_invariant [OF assms [unfolded stage_batch_commands_def]])
    fix c s t
    assume I: "same_fences st (fst s)"
      and "(\<lambda>(s, outs). ebind (stage_batch_command env e c s) (\<lambda>(s', out). Inr (s', outs @ [out]))) s = Inr t"
    then obtain out where "stage_batch_command env e c (fst s) = Inr (fst t, out)"
      by (cases s) (auto simp: err_simps)
    with I show "same_fences st (fst t)" by (blast intro: same_fences_trans stage_batch_command_fences)
  qed simp
  then show ?thesis by simp
qed


text \<open>
  The fence: the committed sequences increase strictly, the last one is the bound, and each of them
  has an envelope fingerprint and a decision fingerprint.
\<close>

definition fence_ok :: "broker_state \<Rightarrow> bool" where
  "fence_ok st \<longleftrightarrow>
     dkeys (bs_decision_fingerprints st) = dkeys (bs_envelope_fingerprints st)
     \<and> sorted_wrt (<) (dkeys (bs_envelope_fingerprints st))
     \<and> bs_last_sequence st =
         (if bs_envelope_fingerprints st = [] then None else Some (last (dkeys (bs_envelope_fingerprints st))))
     \<and> (bs_bound_session st = None \<longleftrightarrow> bs_last_sequence st = None)
     \<and> (bs_bound_source st = None \<longleftrightarrow> bs_last_sequence st = None)
     \<and> (bs_bound_session st \<noteq> None \<longrightarrow> bs_effective_session st = bs_bound_session st)"

text \<open>What a processed batch went through.\<close>

lemma process_decision_batch_cases:
  assumes "process_decision_batch env e d st = Inr (st', r)"
  obtains (duplicate) fp where "st' = st" "dget (bs_envelope_fingerprints st) (en_ingest_sequence e) = Some fp"
      "duplicate_batch_result env e d st = Inr r"
  | (processed) instruments ms staged outs fp dd where
      "validate_envelope_fence st e fp dd = Inr False"
      "int (length (bs_envelope_fingerprints st)) < max_market_data_records (be_limits env)"
      "stage_market_data env e st = Inr (instruments, ms)"
      "within_limits env (length (ms_fills ms)) (length (ms_events ms)) (length (ms_positions ms))"
      "stage_batch_commands env e (de_commands d) (apply_stage e instruments ms st) = Inr (staged, outs)"
      "within_limits env (length (bs_fills staged)) (length (bs_events staged)) (length (bs_positions staged))"
      "st' = record_fence e fp dd (de_decision_fingerprint d) st staged"
      "processed_batch_result env e d ms outs
         (drop (length (ms_events ms)) (bs_events staged)) (bs_snapshot_version st + 1) = Inr r"
      "fp = sha256_hex (be_hashes env) (utf8 (serialize_envelope e))"
      "dd = sha256_hex (be_hashes env) (utf8 (en_dedupe_key e))"
proof -
  let ?fp = "sha256_hex (be_hashes env) (utf8 (serialize_envelope e))"
  let ?dd = "sha256_hex (be_hashes env) (utf8 (en_dedupe_key e))"
  from assms obtain dup where dup: "validate_envelope_fence st e ?fp ?dd = Inr dup"
    by (auto simp: process_decision_batch_def Let_def err_simps)
  note run = assms [unfolded process_decision_batch_def Let_def dup ebind_simps]
  show thesis
  proof (cases dup)
    case True
    from dup True obtain fp where "dget (bs_envelope_fingerprints st) (en_ingest_sequence e) = Some fp"
      by (auto simp: validate_envelope_fence_def err_simps split: option.splits if_splits)
    with run True duplicate show thesis by (auto simp: err_simps)
  next
    case False
    with run obtain instruments ms where
      room: "int (length (bs_envelope_fingerprints st)) < max_market_data_records (be_limits env)"
      and ms: "stage_market_data env e st = Inr (instruments, ms)"
      and w1: "within_limits env (length (ms_fills ms)) (length (ms_events ms)) (length (ms_positions ms))"
      by (auto simp: err_simps)
    with run False obtain staged outs where
      staged: "stage_batch_commands env e (de_commands d) (apply_stage e instruments ms st) = Inr (staged, outs)"
      and w2: "within_limits env (length (bs_fills staged)) (length (bs_events staged)) (length (bs_positions staged))"
      by (auto simp: err_simps)
    have st': "st' = record_fence e ?fp ?dd (de_decision_fingerprint d) st staged"
      and r: "processed_batch_result env e d ms outs
         (drop (length (ms_events ms)) (bs_events staged)) (bs_snapshot_version st + 1) = Inr r"
      using run False room ms w1 staged w2
      by (auto simp: err_simps apply_stage_def record_fence_def)
    have "validate_envelope_fence st e ?fp ?dd = Inr False" using dup False by simp
    from processed [OF this room ms w1 staged w2 st' r refl refl] show thesis .
  qed
qed


lemma sorted_le_last: "sorted_wrt (<) (ks :: 'a :: linorder list) \<Longrightarrow> k \<in> set ks \<Longrightarrow> k \<le> last ks"
  by (induction ks rule: rev_induct) (auto simp: sorted_wrt_append)

lemma sorted_snoc:
  "sorted_wrt (<) (ks :: 'a :: linorder list) \<Longrightarrow> ks = [] \<or> last ks < k \<Longrightarrow> sorted_wrt (<) (ks @ [k])"
  using sorted_le_last by (fastforce simp: sorted_wrt_append)

lemma dset_not_Nil [simp]: "dset k v d \<noteq> []"
  by (metis dget_Nil dget_dset option.distinct(1))

lemma fence_fresh:
  assumes "validate_envelope_fence st e fp dd = Inr False" and "fence_ok st"
  shows "dget (bs_envelope_fingerprints st) (en_ingest_sequence e) = None"
    and "dget (bs_decision_fingerprints st) (en_ingest_sequence e) = None"
    and "\<And>n. bs_last_sequence st = Some n \<Longrightarrow> n < en_ingest_sequence e"
proof -
  show fresh: "dget (bs_envelope_fingerprints st) (en_ingest_sequence e) = None"
    using assms(1) by (auto simp: validate_envelope_fence_def err_simps split: option.splits if_splits)
  then show "dget (bs_decision_fingerprints st) (en_ingest_sequence e) = None"
    using assms(2) dget_dkeys_cong unfolding fence_ok_def by metis
  fix n
  assume n: "bs_last_sequence st = Some n"
  with assms fresh have "n \<le> en_ingest_sequence e"
    by (auto simp: validate_envelope_fence_def err_simps split: option.splits if_splits)
  moreover from n assms(2) have "n = last (dkeys (bs_envelope_fingerprints st))"
      "dkeys (bs_envelope_fingerprints st) \<noteq> []"
    by (auto simp: fence_ok_def dkeys_def split: if_splits)
  then have "n \<in> set (dkeys (bs_envelope_fingerprints st))" by simp
  ultimately show "n < en_ingest_sequence e"
    using fresh by (metis (mono_tags, lifting) mem_Collect_eq order_le_imp_less_or_eq set_dkeys)
qed

lemma process_decision_batch_advance:
  assumes "process_decision_batch env e d st = Inr (st', r)" and inv: "broker_inv env K st"
    and "fence_ok st" and "inj_on (broker_order_id env) K"
    and "list_all (command_key_in K) (de_commands d)"
  shows "advance env K st st'"
  using assms(1)
proof (cases rule: process_decision_batch_cases)
  case (duplicate fp)
  with inv show ?thesis by (simp add: advance_refl)
next
  case (processed instruments ms staged outs fp dd)
  note moved = apply_stage_advance [OF stage_market_data_ok [OF processed(3) inv], of e instruments]
  from stage_batch_commands_advance [OF processed(5) advance_inv [OF inv moved] assms(4,5)] moved
  have "advance env K st staged" by (blast intro: advance_trans)
  with processed(7) fence_fresh [OF processed(1) assms(3)] show ?thesis
    by (simp add: record_fence_advance)
qed

lemma fence_ok_process:
  assumes "process_decision_batch env e d st = Inr (st', r)" and "fence_ok st"
  shows "fence_ok st'"
  using assms(1)
proof (cases rule: process_decision_batch_cases)
  case (duplicate fp)
  with assms(2) show ?thesis by simp
next
  case (processed instruments ms staged outs fp dd)
  note fresh = fence_fresh [OF processed(1) assms(2)]
  have kept: "same_fences (apply_stage e instruments ms st) staged"
    by (rule stage_batch_commands_fences [OF processed(5)])
  let ?ks = "dkeys (bs_envelope_fingerprints st)"
  have "?ks = [] \<or> last ?ks < en_ingest_sequence e"
    using assms(2) fresh(3) by (cases "bs_envelope_fingerprints st = []") (auto simp: fence_ok_def dkeys_def)
  with assms(2) have "sorted_wrt (<) (?ks @ [en_ingest_sequence e])"
    by (simp add: fence_ok_def sorted_snoc)
  then show ?thesis
    using assms(2) processed(7) fresh(1,2) kept
    by (simp add: fence_ok_def dkeys_dset same_fences_def apply_stage_def)
      (simp add: record_fence_def)
qed

end
