(* ===== verification/Broker_Run.thy ===== *)
theory Broker_Run
  imports Broker_Refinement
begin

text \<open>
  Runs of the broker: any interleaving of submissions, cancellations and decision batches, the
  invariant every reachable state satisfies, and the configured limits.
\<close>

section \<open>Operations and runs\<close>

datatype broker_op =
    SubmitOp order_intent
  | CancelOp cancel_intent
  | BatchOp envelope paper_decision

fun run_op :: "broker_env \<Rightarrow> broker_op \<Rightarrow> broker_state \<Rightarrow> broker_state result" where
  "run_op env (SubmitOp i) st = ebind (submit env i st) (\<lambda>(st', out). Inr st')"
| "run_op env (CancelOp c) st = ebind (cancel env c st) (\<lambda>(st', out). Inr st')"
| "run_op env (BatchOp e d) st = ebind (process_decision_batch env e d st) (\<lambda>(st', r). Inr st')"

text \<open>The clients submit orders under keys of \<open>K\<close> only.\<close>

fun op_allowed :: "submit_key set \<Rightarrow> broker_op \<Rightarrow> bool" where
  "op_allowed K (SubmitOp i) = (intent_key i \<in> K)"
| "op_allowed K (CancelOp c) = True"
| "op_allowed K (BatchOp e d) = list_all (command_key_in K) (de_commands d)"

definition broker_step :: "broker_env \<Rightarrow> submit_key set \<Rightarrow> broker_state \<Rightarrow> broker_state \<Rightarrow> bool" where
  "broker_step env K st st' \<longleftrightarrow> (\<exists>op. op_allowed K op \<and> run_op env op st = Inr st')"

lemma broker_stepE:
  assumes "broker_step env K st st'"
  obtains (submit) i out where "intent_key i \<in> K" "submit env i st = Inr (st', out)"
  | (cancel) c out where "cancel env c st = Inr (st', out)"
  | (batch) e d r where "list_all (command_key_in K) (de_commands d)"
      "process_decision_batch env e d st = Inr (st', r)"
proof -
  from assms obtain op where op: "op_allowed K op" "run_op env op st = Inr st'"
    by (auto simp: broker_step_def)
  show thesis
  proof (cases op)
    case (SubmitOp i)
    with op submit show thesis by (auto simp: err_simps)
  next
    case (CancelOp c)
    with op cancel show thesis by (auto simp: err_simps)
  next
    case (BatchOp e d)
    with op batch show thesis by (auto simp: err_simps)
  qed
qed

section \<open>The fence under commands\<close>

definition fences_after_command :: "broker_state \<Rightarrow> broker_state \<Rightarrow> bool" where
  "fences_after_command st st' \<longleftrightarrow>
     bs_envelope_fingerprints st' = bs_envelope_fingerprints st
     \<and> bs_decision_fingerprints st' = bs_decision_fingerprints st
     \<and> bs_dedupe_sequences st' = bs_dedupe_sequences st
     \<and> bs_last_sequence st' = bs_last_sequence st \<and> bs_instruments st' = bs_instruments st
     \<and> bs_fills st' = bs_fills st \<and> bs_positions st' = bs_positions st
     \<and> bs_bound_session st' = bs_bound_session st \<and> bs_bound_source st' = bs_bound_source st
     \<and> bs_snapshot_version st \<le> bs_snapshot_version st'
     \<and> (bs_effective_session st \<noteq> None \<longrightarrow> bs_effective_session st' = bs_effective_session st)"

lemma append_rejection_version:
  "append_rejection_event env r st = Inr st' \<Longrightarrow> bs_snapshot_version st \<le> bs_snapshot_version st'"
  by (auto simp: append_rejection_event_def err_simps journal_event_def bump_version_def split: if_splits)

lemma stage_rejection_version:
  "stage_rejection env st r d = Inr st' \<Longrightarrow> bs_snapshot_version st \<le> bs_snapshot_version st'"
  by (auto simp: stage_rejection_def err_simps bump_version_def dest!: append_rejection_version split: if_splits)

lemma append_rejection_fences: "append_rejection_event env r st = Inr st' \<Longrightarrow> same_fences st st'"
  by (auto simp: append_rejection_event_def err_simps journal_event_def bump_version_def same_fences_def
      split: if_splits)

lemma stage_rejection_fences: "stage_rejection env st r d = Inr st' \<Longrightarrow> same_fences st st'"
  by (auto simp: stage_rejection_def err_simps same_fences_def bump_version_def
      dest!: append_rejection_fences split: if_splits)

lemma session_fences: "session_kept st eff \<Longrightarrow> same_fences (st\<lparr>bs_effective_session := eff\<rparr>) st'
    \<Longrightarrow> bs_snapshot_version st \<le> bs_snapshot_version st' \<Longrightarrow> fences_after_command st st'"
  by (auto simp: session_kept_def same_fences_def fences_after_command_def)

lemma submit_fences:
  assumes "submit env i st = Inr (st', out)"
  shows "fences_after_command st st'"
  using assms
proof (cases rule: submit_cases)
  case unchanged
  then show ?thesis by (simp add: fences_after_command_def)
next
  case (conflict r c digest)
  from stage_rejection_fences [OF conflict(3)] stage_rejection_version [OF conflict(3)] show ?thesis
    by (simp add: same_fences_def fences_after_command_def)
next
  case (rejected eff c digest)
  from rejected(2) stage_rejection_fences [OF rejected(4)] show ?thesis
    by (rule session_fences) (use stage_rejection_version [OF rejected(4)] in simp)
next
  case (accepted eff p e k s n)
  from accepted(2) show ?thesis
    by (rule session_fences) (simp_all add: accepted(8) same_fences_def bump_version_def
      record_acceptance_def journal_event_def)
qed

lemma cancel_fences:
  assumes "cancel env c st = Inr (st', out)"
  shows "fences_after_command st st'"
  using assms
proof (cases rule: cancel_cases)
  case unchanged
  then show ?thesis by (simp add: fences_after_command_def)
next
  case (cancelled eff q t e s n caching key digest r)
  from cancelled(1) show ?thesis
    by (rule session_fences) (simp_all add: cancelled(5) same_fences_def bump_version_def
      journal_event_def cache_cancel_def)
next
  case (rejected eff rj st2 key digest r)
  have "same_fences (st\<lparr>bs_effective_session := eff\<rparr>) st'"
    using append_rejection_fences [OF rejected(3)] rejected(4)
    by (auto simp: same_fences_def cache_cancel_def bump_version_def)
  moreover have "bs_snapshot_version st \<le> bs_snapshot_version st'"
    using append_rejection_version [OF rejected(3)] rejected(4) by (auto simp: cache_cancel_def bump_version_def)
  ultimately show ?thesis by (rule session_fences [OF rejected(1)])
qed

lemma fence_ok_command: "fence_ok st \<Longrightarrow> fences_after_command st st' \<Longrightarrow> fence_ok st'"
  by (auto simp: fence_ok_def fences_after_command_def)

section \<open>The invariant of every reachable state\<close>

definition broker_ok :: "broker_env \<Rightarrow> submit_key set \<Rightarrow> broker_state \<Rightarrow> bool" where
  "broker_ok env K st \<longleftrightarrow> inj_on (broker_order_id env) K \<and> broker_inv env K st \<and> fence_ok st"

lemma broker_step_advance:
  assumes "broker_ok env K st" and "broker_step env K st st'"
  shows "advance env K st st'"
  using assms(2)
proof (cases rule: broker_stepE)
  case (submit i out)
  with assms(1) show ?thesis by (blast intro: submit_advance elim: broker_ok_def [THEN iffD1, elim_format])
next
  case (cancel c out)
  with assms(1) show ?thesis by (auto simp: broker_ok_def intro: cancel_advance)
next
  case (batch e d r)
  with assms(1) show ?thesis by (auto simp: broker_ok_def intro: process_decision_batch_advance)
qed

lemma broker_ok_step:
  assumes "broker_ok env K st" and "broker_step env K st st'"
  shows "broker_ok env K st'"
proof -
  from assms(2) have "fence_ok st'"
  proof (cases rule: broker_stepE)
    case (submit i out)
    from submit_fences [OF submit(2)] assms(1) show ?thesis
      by (auto simp: broker_ok_def intro: fence_ok_command)
  next
    case (cancel c out)
    from cancel_fences [OF cancel] assms(1) show ?thesis
      by (auto simp: broker_ok_def intro: fence_ok_command)
  next
    case (batch e d r)
    from fence_ok_process [OF batch(2)] assms(1) show ?thesis by (simp add: broker_ok_def)
  qed
  with assms(1) advance_inv broker_step_advance [OF assms] show ?thesis by (auto simp: broker_ok_def)
qed

lemma broker_ok_init:
  "inj_on (broker_order_id env) K \<Longrightarrow> broker_ok env K (init_broker env session)"
proof -
  assume "inj_on (broker_order_id env) K"
  moreover have "book_of (init_broker env session) = empty_book"
    by (simp add: book_of_def init_broker_def empty_book_def)
  ultimately show ?thesis
    by (simp add: broker_ok_def broker_inv_def book_inv_empty)
      (simp add: numbered_def submitted_def fence_ok_def init_broker_def dkeys_def)
qed

interpretation broker: state_machine "broker_step env K" "broker_ok env K" for env K
  by unfold_locales (rule broker_ok_step)

text \<open>What a batch fixes: the session and the source, once bound; the version only grows.\<close>

definition bindings_kept :: "broker_state \<Rightarrow> broker_state \<Rightarrow> bool" where
  "bindings_kept st st' \<longleftrightarrow>
     bs_snapshot_version st \<le> bs_snapshot_version st'
     \<and> (bs_effective_session st \<noteq> None \<longrightarrow> bs_effective_session st' = bs_effective_session st)
     \<and> (bs_bound_source st \<noteq> None \<longrightarrow> bs_bound_source st' = bs_bound_source st)"

lemma process_bound:
  assumes "process_decision_batch env e d st = Inr (st', r)"
  shows "bs_effective_session st \<in> {None, Some (en_session_id e)}"
    and "bs_bound_source st \<in> {None, Some (en_source e)}"
  using assms
  by (auto simp: process_decision_batch_def Let_def validate_envelope_fence_def err_simps)

lemma process_bindings:
  assumes "process_decision_batch env e d st = Inr (st', r)"
  shows "bindings_kept st st'"
  using assms
proof (cases rule: process_decision_batch_cases)
  case (duplicate fp)
  then show ?thesis by (simp add: bindings_kept_def)
next
  case (processed instruments ms staged outs fp dd)
  with stage_batch_commands_fences [OF processed(5)] process_bound [OF assms] show ?thesis
    by (auto simp: bindings_kept_def record_fence_def same_fences_def apply_stage_def)
qed

lemma broker_step_bindings:
  assumes "broker_step env K st st'"
  shows "bindings_kept st st'"
  using assms
proof (cases rule: broker_stepE)
  case (submit i out)
  from submit_fences [OF submit(2)] show ?thesis by (simp add: bindings_kept_def fences_after_command_def)
next
  case (cancel c out)
  from cancel_fences [OF cancel] show ?thesis by (simp add: bindings_kept_def fences_after_command_def)
next
  case (batch e d r)
  from process_bindings [OF batch(2)] show ?thesis .
qed

lemma bindings_kept_trans: "bindings_kept a b \<Longrightarrow> bindings_kept b c \<Longrightarrow> bindings_kept a c"
  by (auto simp: bindings_kept_def)

text \<open>What later states keep of earlier ones.\<close>

definition broker_below :: "broker_env \<Rightarrow> broker_state \<Rightarrow> broker_state \<Rightarrow> bool" where
  "broker_below env st st' \<longleftrightarrow>
     (book_step env)\<^sup>*\<^sup>* (book_of st) (book_of st')
     \<and> bs_execution_config_fingerprint st' = bs_execution_config_fingerprint st
     \<and> outcomes_extend (bs_submit_outcomes st) (bs_submit_outcomes st')
     \<and> dict_extends (bs_envelope_fingerprints st) (bs_envelope_fingerprints st')
     \<and> dict_extends (bs_decision_fingerprints st) (bs_decision_fingerprints st')
     \<and> bindings_kept st st'"

lemma broker_below_advance: "advance env K st st' \<Longrightarrow> bindings_kept st st' \<Longrightarrow> broker_below env st st'"
  by (simp add: advance_def broker_below_def)

interpretation broker_order: ordered_machine "broker_step env K" "broker_ok env K" "broker_below env"
  for env K
proof unfold_locales
  fix s t u
  show "broker_below env s s" by (simp add: broker_below_def bindings_kept_def)
  show "broker_below env s t \<Longrightarrow> broker_below env t u \<Longrightarrow> broker_below env s u"
    unfolding broker_below_def
    by (auto elim: rtranclp_trans outcomes_extend_trans dict_extends_trans bindings_kept_trans)
  show "broker_ok env K s \<Longrightarrow> broker_step env K s t \<Longrightarrow> broker_below env s t"
    by (blast intro: broker_below_advance broker_step_advance broker_step_bindings)
qed

interpretation broker_journal: journalled_machine "broker_step env K" "broker_ok env K" bs_events for env K
proof unfold_locales
  fix s t
  assume "broker_ok env K s" and "broker_step env K s t"
  then have "(book_step env)\<^sup>*\<^sup>* (book_of s) (book_of t)" "book_inv env (book_of s)"
    using broker_order.below_step by (auto simp: broker_below_def broker_ok_def broker_inv_def)
  from book_journal.run_journal [OF this] show "prefix (bs_events s) (bs_events t)" by simp
qed

text \<open>The facts a property about reachable states needs, in one place.\<close>

lemma reachable:
  assumes "inj_on (broker_order_id env) K" and "(broker_step env K)\<^sup>*\<^sup>* (init_broker env session) st"
  shows "broker_ok env K st" and "book_inv env (book_of st)" and "numbered st" and "fence_ok st"
    and "bs_execution_config_fingerprint st
           = execution_config_fingerprint (be_hashes env) (be_execution_config env)"
proof -
  note start = broker_ok_init [OF assms(1), of session]
  show ok: "broker_ok env K st" by (rule broker.run_inv [OF assms(2) start])
  then show "book_inv env (book_of st)" "numbered st" "fence_ok st"
    by (simp_all add: broker_ok_def broker_inv_def)
  from broker_order.run_below [OF assms(2) start] show "bs_execution_config_fingerprint st
           = execution_config_fingerprint (be_hashes env) (be_execution_config env)"
    by (simp add: broker_below_def init_broker_def)
qed

lemma later:
  assumes "broker_ok env K st" and "(broker_step env K)\<^sup>*\<^sup>* st st'"
  shows "broker_ok env K st'" and "broker_below env st st'" and "book_progress (book_of st) (book_of st')"
proof -
  show "broker_ok env K st'" by (rule broker.run_inv [OF assms(2,1)])
  show below: "broker_below env st st'" by (rule broker_order.run_below [OF assms(2,1)])
  then have "(book_step env)\<^sup>*\<^sup>* (book_of st) (book_of st')" by (simp add: broker_below_def)
  then show "book_progress (book_of st) (book_of st')"
    by (rule book_order.run_below) (use assms(1) in \<open>simp add: broker_ok_def broker_inv_def\<close>)
qed

end
