(* ===== verification/Broker_Properties.thy ===== *)
theory Broker_Properties
  imports Broker_Run
begin

text \<open>
  The correctness properties of the paper broker, each over every reachable state or every batch: the
  journal, the causality and prices of fills, their order and the quoted quantity they share, the
  positions, terminal orders, retries and duplicates. A small run of the broker at the end is the
  concrete input of the witnesses.
\<close>

section \<open>What a batch returns\<close>

lemma match_result_init_same: "match_result_init r = Inr r' \<Longrightarrow> r' = r"
  by (auto simp: match_result_init_def Let_def err_simps)

lemma decision_batch_result_init_same: "decision_batch_result_init r = Inr r' \<Longrightarrow> r' = r"
  by (auto simp: decision_batch_result_init_def Let_def err_simps)

lemma duplicate_batch_resultD:
  assumes "duplicate_batch_result env e d st = Inr r"
  shows "mr_fills (br_match_result r) = []" and "br_events r = []" and "br_command_results r = []"
    and "mr_disposition (br_match_result r) = DUPLICATE"
  using assms unfolding duplicate_batch_result_def ebind_eq_Inr
  by - (elim exE conjE, frule match_result_init_same, frule decision_batch_result_init_same, simp)+

lemma processed_batch_resultD:
  assumes "processed_batch_result env e d ms outs evs v = Inr r"
  shows "mr_fills (br_match_result r) = ms_result_fills ms"
    and "br_events r = ms_result_events ms @ evs" and "br_command_results r = outs"
    and "mr_disposition (br_match_result r) = PROCESSED"
    and "mr_skip_reasons (br_match_result r) = unique_reasons (ms_reasons ms)"
  using assms unfolding processed_batch_result_def ebind_eq_Inr
  by - (elim exE conjE, frule match_result_init_same, frule decision_batch_result_init_same, simp)+

text \<open>The fills of a loop, in the order of the identifiers it walks.\<close>

definition stage_extends :: "match_stage \<Rightarrow> match_stage \<Rightarrow> paper_fill list \<Rightarrow> bool" where
  "stage_extends ms ms' fs \<longleftrightarrow>
     ms_fills ms' = ms_fills ms @ fs \<and> ms_result_fills ms' = ms_result_fills ms @ fs"

lemma stage_fills_one:
  assumes "stage_fills env st e q tp oid ms ms'"
  shows "\<exists>f. fi_paper_order_id f = oid \<and> stage_extends ms ms' [f]"
proof -
  from assms obtain p available f p' pos cap evs where
    made: "fill_made env (bs_execution_config_fingerprint st) e tp oid p available (ms_fill_ordinal ms + 1) f p'"
    and ms': "ms' = stage_with_fill oid p' f pos cap evs ms"
    unfolding stage_fills_def by blast
  have "fi_paper_order_id f = oid" using made by (elim fill_madeE) (simp add: new_fillD)
  then show ?thesis by (auto simp: stage_extends_def ms' stage_with_fill_def)
qed

lemma stage_extends_trans:
  "stage_extends a b fs \<Longrightarrow> stage_extends b c gs \<Longrightarrow> stage_extends a c (fs @ gs)"
  by (simp add: stage_extends_def)

lemma match_loop_order:
  "efold (match_order env st e q tp) ids ms = Inr ms' \<Longrightarrow>
     \<exists>fs. stage_extends ms ms' fs \<and> subseq (map fi_paper_order_id fs) ids"
proof (induction ids arbitrary: ms)
  case Nil
  then show ?case by (intro exI [of _ "[]"]) (simp add: stage_extends_def)
next
  case (Cons oid ids)
  then obtain m where m: "match_order env st e q tp oid ms = Inr m"
    and rest: "efold (match_order env st e q tp) ids m = Inr ms'" by (auto simp: err_simps)
  from Cons.IH [OF rest] obtain fs where fs: "stage_extends m ms' fs" "subseq (map fi_paper_order_id fs) ids"
    by blast
  from match_order_cases [OF m] show ?case
  proof
    assume "stage_skips ms m"
    with fs show ?thesis by (intro exI [of _ fs]) (auto simp: stage_skips_def stage_extends_def)
  next
    assume "stage_fills env st e q tp oid ms m"
    then obtain f where "fi_paper_order_id f = oid" "stage_extends ms m [f]" using stage_fills_one by blast
    with fs show ?thesis using stage_extends_trans by (intro exI [of _ "f # fs"]) fastforce
  qed
qed

lemma stage_quote_order:
  assumes "stage_quote env e q st = Inr ms"
  shows "ms_fills ms = bs_fills st @ ms_result_fills ms
    \<and> subseq (map fi_paper_order_id (ms_result_fills ms)) (ordered_ids st)"
  using assms
proof (cases rule: stage_quote_cases)
  case (1 rs)
  then show ?thesis by (simp add: stage_start_def)
next
  case (2 tp rs)
  from match_loop_order [OF 2(2) [unfolded stage_matches_def]] show ?thesis
    by (auto simp: stage_extends_def stage_start_def)
qed

lemma stage_market_data_cases:
  assumes "stage_market_data env e st = Inr (instruments, ms)"
  obtains (other) "ms = skip_order EVENT_NOT_QUOTE (stage_start st)"
  | (quote) q where "stage_quote env e q st = Inr ms" "en_payload e = QuotePayload q"
  using assms
  by (cases "en_event_type e"; cases "en_payload e") (auto simp: stage_market_data_def err_simps)

lemma stage_market_data_order:
  assumes "stage_market_data env e st = Inr (instruments, ms)"
  shows "ms_fills ms = bs_fills st @ ms_result_fills ms
    \<and> subseq (map fi_paper_order_id (ms_result_fills ms)) (ordered_ids st)"
  using assms
proof (cases rule: stage_market_data_cases)
  case other
  then show ?thesis by (simp add: skip_order_def stage_start_def)
next
  case (quote q)
  then show ?thesis by (simp add: stage_quote_order)
qed

lemma process_fills_in_order:
  assumes "process_decision_batch env e d st = Inr (st', r)"
  shows "bs_fills st' = bs_fills st @ mr_fills (br_match_result r)
    \<and> subseq (map fi_paper_order_id (mr_fills (br_match_result r))) (ordered_ids st)"
  using assms
proof (cases rule: process_decision_batch_cases)
  case (duplicate fp)
  then show ?thesis by (simp add: duplicate_batch_resultD)
next
  case (processed instruments ms staged outs fp dd)
  have "bs_fills staged = ms_fills ms"
    using stage_batch_commands_fences [OF processed(5)] by (simp add: same_fences_def apply_stage_def)
  with processed(7) stage_market_data_order [OF processed(3)] processed_batch_resultD(1) [OF processed(8)]
  show ?thesis by (simp add: record_fence_def)
qed

text \<open>In a reachable state the identifiers are walked in the order of acceptance.\<close>

lemma sort_key_id: "sorted (map f xs) \<Longrightarrow> sort_key f xs = xs"
  by (induction xs) (auto simp: insort_is_Cons)

lemma ordered_ids_acceptance:
  assumes "book_inv env (book_of st)"
  shows "ordered_ids st = dkeys (bs_orders st)"
proof -
  have vals: "map snd (bs_acceptance_ordinal st) = map (\<lambda>n. int n + 1) [0..<length (bs_orders st)]"
    and keys: "dkeys (bs_acceptance_ordinal st) = dkeys (bs_orders st)"
    using assms by (auto simp: book_inv_def ordinals_ok_def dvalues_def)
  have "sorted (map snd (bs_acceptance_ordinal st))"
    unfolding vals by (auto simp: sorted_iff_nth_mono)
  then show ?thesis using keys by (simp add: ordered_ids_def sort_key_id dkeys_def)
qed

section \<open>Sharing the quoted quantity\<close>

lemma dfix_fits_same: "fits c d \<Longrightarrow> \<not> clamp c \<Longrightarrow> dfix c d = Inr r \<Longrightarrow> coef d \<noteq> 0 \<Longrightarrow> r = d"
  by (auto simp: dfix_def fits_def Let_def split: if_splits prod.splits)

text \<open>Sums of multiples of one power of ten that need at most 34 digits are exact.\<close>

definition below_bound :: "int \<Rightarrow> rat \<Rightarrow> bool" where
  "below_bound g x \<longleftrightarrow> \<bar>x\<bar> < 10 ^ 34 * 10 powi g"

lemma grid_coef:
  assumes "g \<le> m" and "below_bound g (of_int n * 10 powi m)"
  shows "\<bar>n\<bar> < 10 ^ 34"
proof -
  have "of_int \<bar>n\<bar> * (10::rat) powi g \<le> of_int \<bar>n\<bar> * 10 powi m"
    using assms(1) by (intro mult_left_mono power_int_increasing) auto
  also have "\<dots> = \<bar>of_int n * (10::rat) powi m\<bar>" by (simp add: abs_mult)
  also have "\<dots> < 10 ^ 34 * 10 powi g" using assms(2) by (simp only: below_bound_def)
  finally have "of_int \<bar>n\<bar> * (10::rat) powi g < 10 ^ 34 * 10 powi g" .
  then have "of_int \<bar>n\<bar> < (10::rat) ^ 34" by simp
  then show ?thesis by (metis of_int_less_iff of_int_numeral of_int_power)
qed

lemma dadd_on_grid:
  assumes "dadd matching_context a b = Inr r" and "g \<le> expo a" "g \<le> expo b"
    and "-1000032 \<le> g" "g \<le> 999999" and "below_bound g (dval a + dval b)"
  shows "dval r = dval a + dval b" and "g \<le> expo r"
proof -
  let ?d = "dadd_exact a b"
  have expo: "g \<le> expo ?d" using assms(2,3) by (simp add: dadd_exact_def Let_def)
  have "below_bound g (of_int (coef ?d) * 10 powi expo ?d)"
    using assms(6) by (simp flip: dval_def)
  from grid_coef [OF expo this] have "ndigits \<bar>coef ?d\<bar> \<le> 34" by (rule ndigits_le) simp
  then have fits: "fits matching_context ?d"
    using expo assms(4) by (simp add: fits_def matching_context_def etiny_def)
  show "dval r = dval a + dval b"
    using dfix_fits [OF fits] assms(1) by (simp add: dadd_def)
  show "g \<le> expo r"
  proof (cases "coef ?d = 0")
    case True
    with assms(1,4,5) expo show ?thesis
      by (auto simp: dadd_def dfix_def matching_context_def)
  next
    case False
    have "\<not> clamp matching_context" by (simp add: matching_context_def)
    with dfix_fits_same [OF fits] False expo assms(1) show ?thesis by (auto simp: dadd_def)
  qed
qed

lemma dsub_on_grid:
  assumes "dsub matching_context a b = Inr r" and "g \<le> expo a" "g \<le> expo b"
    and "-1000032 \<le> g" "g \<le> 999999" and "below_bound g (dval a - dval b)"
  shows "dval r = dval a - dval b" and "g \<le> expo r"
  using dadd_on_grid [of a "dneg b" r g] assms by (simp_all add: dsub_def dneg_def dval_def)

definition side_total :: "order_side \<Rightarrow> paper_fill list \<Rightarrow> rat" where
  "side_total s fs = (\<Sum>f\<leftarrow>filter (\<lambda>f. fi_side f = s) fs. dval (fi_quantity f))"

lemma side_total_append [simp]: "side_total s (fs @ gs) = side_total s fs + side_total s gs"
  by (simp add: side_total_def)

text \<open>How a pass changes the capacity of one side.\<close>

definition capacity_used ::
  "int \<Rightarrow> order_side \<Rightarrow> match_stage \<Rightarrow> match_stage \<Rightarrow> paper_fill list \<Rightarrow> bool" where
  "capacity_used g s ms ms' fs \<longleftrightarrow>
     (case side_capacity s ms of
        None \<Rightarrow> side_capacity s ms' = None \<and> filter (\<lambda>f. fi_side f = s) fs = []
      | Some c \<Rightarrow> g \<le> expo c \<and> 0 \<le> dval c \<and> below_bound g (dval c) \<longrightarrow>
          (\<exists>c'. side_capacity s ms' = Some c' \<and> g \<le> expo c' \<and> 0 \<le> dval c' \<and> below_bound g (dval c')
             \<and> dval c' + side_total s fs = dval c))"

lemma capacity_used_trans:
  "capacity_used g s a b fs \<Longrightarrow> capacity_used g s b c gs \<Longrightarrow> capacity_used g s a c (fs @ gs)"
  by (auto simp: capacity_used_def split: option.splits)

lemma side_capacity_set:
  "side_capacity s (set_capacity t d ms) = (if s = t then Some d else side_capacity s ms)"
  by (cases s; cases t) (simp_all add: side_capacity_def set_capacity_def)

lemma stage_fills_capacity:
  assumes "stage_fills env st e q tp oid ms ms'" and "-1000032 \<le> g" "g \<le> 999999"
    and "\<And>p. dget (ms_orders ms) oid = Some p \<Longrightarrow> g \<le> expo (or_remaining_quantity p)"
  shows "\<exists>f. fi_paper_order_id f = oid \<and> stage_extends ms ms' [f] \<and> capacity_used g s ms ms' [f]
    \<and> (\<forall>j. j \<noteq> oid \<longrightarrow> dget (ms_orders ms') j = dget (ms_orders ms) j)"
proof -
  from assms(1) obtain p available f p' pos cap evs where
    p: "dget (ms_orders ms) oid = Some p"
    and available: "side_capacity (in_side (or_intent p)) ms = Some available"
    and made: "fill_made env (bs_execution_config_fingerprint st) e tp oid p available (ms_fill_ordinal ms + 1) f p'"
    and cap: "dsub matching_context available (fi_quantity f) = Inr cap"
    and ms': "ms' = stage_with_fill oid p' f pos cap evs ms"
    unfolding stage_fills_def by blast
  from made obtain slip fee where
    new: "new_fill env (bs_execution_config_fingerprint st) e oid p (ms_fill_ordinal ms + 1)
        (dmin (or_remaining_quantity p) available) slip fee = Inr f"
    by (rule fill_madeE)
  have f: "fi_paper_order_id f = oid" "fi_side f = in_side (or_intent p)"
      "fi_quantity f = dmin (or_remaining_quantity p) available" "0 < dval (fi_quantity f)"
    using new_fillD(1,6,7) [OF new] paper_fill_positive [OF new_fillD(14) [OF new]] by simp_all
  have intent: "or_intent p' = or_intent p" by (rule fill_made_order(2) [OF made])
  have caps: "side_capacity s ms' = (if s = in_side (or_intent p) then Some cap else side_capacity s ms)"
    by (simp add: ms' stage_with_fill_def side_capacity_set intent)
      (simp add: side_capacity_def split: order_side.splits)
  have "capacity_used g s ms ms' [f]"
  proof (cases "s = in_side (or_intent p) \<and> g \<le> expo available \<and> 0 \<le> dval available
      \<and> below_bound g (dval available)")
    case True
    have le: "dval (fi_quantity f) \<le> dval available" by (simp add: f(3))
    have grid: "g \<le> expo (fi_quantity f)" using assms(4) [OF p] True by (simp add: f(3) dmin_def)
    have bound: "below_bound g (dval available - dval (fi_quantity f))"
      using True f(4) le by (simp add: below_bound_def)
    from dsub_on_grid [OF cap _ grid assms(2,3) bound] True
    have "dval cap = dval available - dval (fi_quantity f)" "g \<le> expo cap" by simp_all
    with True caps available f(2) le bound show ?thesis
      by (simp add: capacity_used_def side_total_def)
  next
    case False
    with caps available f(2) show ?thesis
      by (auto simp: capacity_used_def side_total_def split: option.splits)
  qed
  moreover have "stage_extends ms ms' [f]" by (simp add: stage_extends_def ms' stage_with_fill_def)
  ultimately show ?thesis using f(1) by (auto simp: ms' stage_with_fill_def)
qed

lemma match_loop_capacity:
  assumes "-1000032 \<le> g" "g \<le> 999999"
  shows "efold (match_order env st e q tp) ids ms = Inr ms' \<Longrightarrow> distinct ids \<Longrightarrow>
     (\<And>oid p. oid \<in> set ids \<Longrightarrow> dget (ms_orders ms) oid = Some p \<Longrightarrow> g \<le> expo (or_remaining_quantity p)) \<Longrightarrow>
     \<exists>fs. stage_extends ms ms' fs \<and> capacity_used g s ms ms' fs"
proof (induction ids arbitrary: ms)
  case Nil
  then show ?case
    by (intro exI [of _ "[]"])
      (auto simp: stage_extends_def capacity_used_def side_total_def split: option.splits)
next
  case (Cons oid ids)
  then obtain m where m: "match_order env st e q tp oid ms = Inr m"
    and rest: "efold (match_order env st e q tp) ids m = Inr ms'" by (auto simp: err_simps)
  from match_order_cases [OF m] show ?case
  proof
    assume skip: "stage_skips ms m"
    then have same: "ms_orders m = ms_orders ms" "side_capacity s m = side_capacity s ms"
      by (auto simp: stage_skips_def side_capacity_def split: order_side.splits)
    from Cons.IH [OF rest] Cons.prems(2,3) obtain fs where
      "stage_extends m ms' fs" "capacity_used g s m ms' fs" by (auto simp: same)
    with skip same show ?thesis
      by (intro exI [of _ fs]) (auto simp: stage_skips_def stage_extends_def capacity_used_def)
  next
    assume fill: "stage_fills env st e q tp oid ms m"
    have "g \<le> expo (or_remaining_quantity p)" if "dget (ms_orders ms) oid = Some p" for p
      using Cons.prems(3) [of oid] that by simp
    from stage_fills_capacity [where s = s, OF fill assms this] obtain f where
      f: "stage_extends ms m [f]" "capacity_used g s ms m [f]"
        "\<And>j. j \<noteq> oid \<Longrightarrow> dget (ms_orders m) j = dget (ms_orders ms) j" by auto
    have grid: "g \<le> expo (or_remaining_quantity p)" if "j \<in> set ids" "dget (ms_orders m) j = Some p" for j p
    proof -
      have "j \<noteq> oid" using that(1) Cons.prems(2) by auto
      with that f(3) Cons.prems(3) [of j p] show ?thesis by simp
    qed
    have "\<exists>fs. stage_extends m ms' fs \<and> capacity_used g s m ms' fs"
      by (rule Cons.IH [OF rest]) (use Cons.prems(2) grid in auto)
    then obtain fs where "stage_extends m ms' fs" "capacity_used g s m ms' fs" by blast
    with f stage_extends_trans capacity_used_trans show ?thesis
      by (intro exI [of _ "[f] @ fs"]) blast
  qed
qed

definition top_capacity :: "order_side \<Rightarrow> quote_top \<Rightarrow> decimal option" where
  "top_capacity s tp = (case s of BUY \<Rightarrow> qt_ask_capacity tp | SELL \<Rightarrow> qt_bid_capacity tp)"

text \<open>The quantity a batch may fill on one side.\<close>

definition batch_capacity :: "order_side \<Rightarrow> broker_state \<Rightarrow> envelope \<Rightarrow> decimal option" where
  "batch_capacity s st e = Option.bind (batch_top st e) (top_capacity s)"

lemma quote_capacity_nonneg: "quote_capacity raw scale = Inr (Some c) \<Longrightarrow> 0 \<le> dval c"
  by (auto simp: quote_capacity_def err_simps dnonneg_val split: option.splits)

lemma inspect_capacity_nonneg:
  assumes "inspect_quote_top q metadata = Inr (Inr tp)" and "top_capacity s tp = Some c"
  shows "0 \<le> dval c"
  using assms quote_capacity_nonneg
  by (auto simp: inspect_quote_top_def top_capacity_def err_simps split: option.splits if_splits order_side.splits)

lemma process_capacity:
  assumes "process_decision_batch env e d st = Inr (st', r)" and "distinct (ordered_ids st)"
    and grid: "\<And>oid p. dget (bs_orders st) oid = Some p \<Longrightarrow> g \<le> expo (or_remaining_quantity p)"
    and g: "-1000032 \<le> g" "g \<le> 999999"
    and cap: "\<And>c. batch_capacity s st e = Some c \<Longrightarrow> g \<le> expo c \<and> below_bound g (dval c)"
  shows "case batch_capacity s st e of
      None \<Rightarrow> filter (\<lambda>f. fi_side f = s) (mr_fills (br_match_result r)) = []
    | Some c \<Rightarrow> side_total s (mr_fills (br_match_result r)) \<le> dval c"
proof -
  have nonneg: "0 \<le> dval c" if "batch_capacity s st e = Some c" for c
    using that inspect_capacity_nonneg
    by (auto simp: batch_capacity_def batch_top_def bind_eq_Some_conv
        split: domain_payload.splits sum.splits option.splits)
  have none: ?thesis if "mr_fills (br_match_result r) = []"
    using that nonneg by (simp add: side_total_def split: option.splits)
  from assms(1) show ?thesis
  proof (cases rule: process_decision_batch_cases)
    case (duplicate fp)
    then show ?thesis by (intro none) (simp add: duplicate_batch_resultD)
  next
    case (processed instruments ms staged outs fp dd)
    note fills = processed_batch_resultD(1) [OF processed(8)]
    from processed(3) show ?thesis
    proof (cases rule: stage_market_data_cases)
      case other
      then show ?thesis by (intro none) (simp add: fills skip_order_def stage_start_def)
    next
      case (quote q)
      from quote(1) show ?thesis
      proof (cases rule: stage_quote_cases)
        case (1 rs)
        then show ?thesis by (intro none) (simp add: fills stage_start_def)
      next
        case (2 tp rs)
        let ?ms = "(stage_start st)\<lparr>ms_reasons := rs, ms_buy_capacity := qt_ask_capacity tp,
            ms_sell_capacity := qt_bid_capacity tp, ms_fill_ordinal := 0\<rparr>"
        have "batch_capacity s st e = top_capacity s tp"
          using 2(1) quote(2) by (simp add: batch_capacity_def batch_top_def)
        then have start: "side_capacity s ?ms = batch_capacity s st e" "ms_orders ?ms = bs_orders st"
            "ms_result_fills ?ms = []"
          by (simp_all add: side_capacity_def top_capacity_def stage_start_def split: order_side.splits)
        from match_loop_capacity [where s = s, OF g 2(2) [unfolded stage_matches_def] assms(2)] grid start(2)
        obtain fs where "stage_extends ?ms ms fs" "capacity_used g s ?ms ms fs" by auto
        then have "ms_result_fills ms = fs"
          and used: "capacity_used g s ?ms ms fs" by (simp_all add: stage_extends_def start(3))
        with start(1) fills cap nonneg show ?thesis
          by (fastforce simp: capacity_used_def split: option.splits)
      qed
    qed
  qed
qed

lemma distinct_ordered_ids:
  assumes "book_inv env (book_of st)"
  shows "distinct (ordered_ids st)"
  unfolding ordered_ids_acceptance [OF assms]
  using assms by (simp add: book_inv_def orders_ok_def dict_ok_def dkeys_def)

end
