(* ===== verification/Broker_Retries.thy ===== *)
theory Broker_Retries
  imports Broker_Properties
begin

text \<open>
  Retries of the paper broker: what a submission and a batch leave behind for the calls that repeat them,
  and why such a call changes nothing, whatever happened in between.
\<close>

section \<open>Retries and duplicates\<close>

lemma submit_fresh_order:
  assumes "submit env i st = Inr (st1, OrderOutcome p)" and "dget (bs_submit_outcomes st) (intent_key i) = None"
  shows "dget (bs_orders st1) (or_paper_order_id p) = Some p \<and> dget (bs_submit_outcomes st1) (intent_key i)
    = Some (primary_record (command_digest env (json_order_intent i)) (OrderOutcome p))"
  using assms
  by (auto simp: submit_def intent_key_def Let_def err_simps commit_new_submit_rejection_def
      record_acceptance_def journal_event_def bump_version_def split: if_splits)

lemma submit_cached:
  assumes "dget (bs_submit_outcomes st) (intent_key i) = Some r"
    and "outcome_find r (command_digest env (json_order_intent i)) = Some out"
  shows "submit env i st = Inr (st, resolve_cached_outcome st out)"
  using assms by (simp add: submit_def intent_key_def Let_def)

lemma primary_found: "outcome_find (primary_record digest out) digest = Some out"
  by (simp add: outcome_find_def primary_record_def)

lemma outcomes_extend_found:
  "outcomes_extend d d' \<Longrightarrow> dget d k = Some r \<Longrightarrow> outcome_find r digest = Some out \<Longrightarrow>
     \<exists>r'. dget d' k = Some r' \<and> outcome_find r' digest = Some out"
  unfolding outcomes_extend_def by blast

lemma submit_retry:
  assumes ok: "broker_ok env K st" and key: "intent_key i \<in> K"
    and fresh: "dget (bs_submit_outcomes st) (intent_key i) = None"
    and first: "submit env i st = Inr (st1, OrderOutcome p)"
    and run: "(broker_step env K)\<^sup>*\<^sup>* st1 st'"
  shows "\<exists>q. submit env i st' = Inr (st', OrderOutcome q)
    \<and> dget (bs_orders st') (or_paper_order_id p) = Some q \<and> order_step\<^sup>*\<^sup>* p q"
proof -
  note stored = submit_fresh_order [OF first fresh]
  have "broker_step env K st st1"
    unfolding broker_step_def by (rule exI [of _ "SubmitOp i"]) (simp add: key first)
  then have "broker_ok env K st1" by (rule broker_ok_step [OF ok])
  note after = later [OF this run]
  from after(2) stored obtain r' where
    r': "dget (bs_submit_outcomes st') (intent_key i) = Some r'"
      "outcome_find r' (command_digest env (json_order_intent i)) = Some (OrderOutcome p)"
    using outcomes_extend_found primary_found unfolding broker_below_def by metis
  from after(3) stored obtain q where "dget (bs_orders st') (or_paper_order_id p) = Some q" "order_step\<^sup>*\<^sup>* p q"
    by (auto simp: book_progress_def orders_advance_def)
  with submit_cached [OF r'] show ?thesis by (simp add: resolve_cached_outcome_def)
qed

text \<open>What a processed batch leaves for its duplicates.\<close>

definition batch_recorded :: "broker_env \<Rightarrow> envelope \<Rightarrow> paper_decision \<Rightarrow> broker_state \<Rightarrow> bool" where
  "batch_recorded env e d st \<longleftrightarrow>
     dget (bs_envelope_fingerprints st) (en_ingest_sequence e)
       = Some (sha256_hex (be_hashes env) (utf8 (serialize_envelope e)))
     \<and> dget (bs_decision_fingerprints st) (en_ingest_sequence e) = Some (de_decision_fingerprint d)
     \<and> bs_effective_session st = Some (en_session_id e) \<and> bs_bound_source st = Some (en_source e)
     \<and> 0 \<le> bs_snapshot_version st"

lemma batch_recorded_later:
  "batch_recorded env e d st \<Longrightarrow> broker_below env st st' \<Longrightarrow> batch_recorded env e d st'"
  by (auto simp: batch_recorded_def broker_below_def dict_extends_def bindings_kept_def)

lemma duplicate_version:
  "duplicate_batch_result env e d st = Inr r \<Longrightarrow> 0 \<le> bs_snapshot_version st"
  by (auto simp: duplicate_batch_result_def match_result_init_def Let_def err_simps nonnegative_int_def)

lemma processed_version:
  "processed_batch_result env e d ms outs evs v = Inr r \<Longrightarrow> 0 \<le> v"
  by (auto simp: processed_batch_result_def match_result_init_def Let_def err_simps nonnegative_int_def)

lemma batch_result_source:
  assumes "process_decision_batch env e d st = Inr (st', r)"
  shows "0 \<le> en_ingest_sequence e" and "fingerprint_ok ''decision_fingerprint'' (de_decision_fingerprint d) = Inr ()"
    and "de_source_session_id d = en_session_id e" and "de_source_ingest_sequence d = en_ingest_sequence e"
  using assms
  by (auto simp: process_decision_batch_def Let_def processed_batch_result_def duplicate_batch_result_def
      match_result_init_def decision_batch_result_init_def nonnegative_int_def err_simps split: if_splits
      dest!: match_result_init_same)

lemma process_records:
  assumes run: "process_decision_batch env e d st = Inr (st1, r)" and "fence_ok st"
  shows "batch_recorded env e d st1"
  using run
proof (cases rule: process_decision_batch_cases)
  case (duplicate fp)
  note dup = duplicate
  have fences: "dget (bs_envelope_fingerprints st) (en_ingest_sequence e)
       = Some (sha256_hex (be_hashes env) (utf8 (serialize_envelope e)))"
    "dget (bs_decision_fingerprints st) (en_ingest_sequence e) = Some (de_decision_fingerprint d)"
    using dup run by (auto simp: process_decision_batch_def Let_def validate_envelope_fence_def err_simps
        split: option.splits if_splits)
  then have "bs_last_sequence st \<noteq> None" using assms(2) by (auto simp: fence_ok_def)
  then show ?thesis
    using fences assms(2) process_bound [OF run] duplicate_version dup
    by (auto simp: batch_recorded_def fence_ok_def)
next
  case (processed instruments ms staged outs fp dd)
  have "same_fences (apply_stage e instruments ms st) staged"
    by (rule stage_batch_commands_fences [OF processed(5)])
  with processed show ?thesis
    using processed_version [OF processed(8)]
    by (auto simp: batch_recorded_def same_fences_def apply_stage_def record_fence_def)
qed

lemma recorded_duplicate:
  assumes "batch_recorded env e d st"
    and "0 \<le> en_ingest_sequence e" and "fingerprint_ok ''decision_fingerprint'' (de_decision_fingerprint d) = Inr ()"
    and "de_source_session_id d = en_session_id e" and "de_source_ingest_sequence d = en_ingest_sequence e"
  shows "\<exists>r. process_decision_batch env e d st = Inr (st, r) \<and> duplicate_batch_result env e d st = Inr r"
proof -
  have "\<exists>r. duplicate_batch_result env e d st = Inr r"
    using assms
    by (simp add: duplicate_batch_result_def match_result_init_def decision_batch_result_init_def Let_def
        nonnegative_int_def batch_recorded_def)
  with assms show ?thesis
    by (auto simp: process_decision_batch_def Let_def validate_envelope_fence_def batch_recorded_def)
qed

lemma batch_redelivered:
  assumes ok: "broker_ok env K st" and first: "process_decision_batch env e d st = Inr (st1, r1)"
    and "list_all (command_key_in K) (de_commands d)" and run: "(broker_step env K)\<^sup>*\<^sup>* st1 st'"
  shows "\<exists>r. process_decision_batch env e d st' = Inr (st', r)
    \<and> mr_disposition (br_match_result r) = DUPLICATE \<and> mr_fills (br_match_result r) = []
    \<and> br_events r = [] \<and> br_command_results r = []"
proof -
  have "broker_step env K st st1"
    unfolding broker_step_def by (rule exI [of _ "BatchOp e d"]) (simp add: assms(3) first)
  then have ok1: "broker_ok env K st1" by (rule broker_ok_step [OF ok])
  have "batch_recorded env e d st1" using process_records [OF first] ok by (simp add: broker_ok_def)
  from batch_recorded_later [OF this later(2) [OF ok1 run]] recorded_duplicate batch_result_source [OF first]
  obtain r where "process_decision_batch env e d st' = Inr (st', r)" "duplicate_batch_result env e d st' = Inr r"
    by blast
  then show ?thesis by (intro exI [of _ r]) (simp add: duplicate_batch_resultD)
qed

section \<open>The fence\<close>

lemma processed_fence:
  assumes "process_decision_batch env e d st = Inr (st', r)" and "fence_ok st"
    and "mr_disposition (br_match_result r) = PROCESSED"
  shows "bs_last_sequence st' = Some (en_ingest_sequence e)
    \<and> (\<forall>n. bs_last_sequence st = Some n \<longrightarrow> n < en_ingest_sequence e)
    \<and> dget (bs_dedupe_sequences st) (sha256_hex (be_hashes env) (utf8 (en_dedupe_key e))) = None
    \<and> bs_snapshot_version st' = bs_snapshot_version st + 1"
  using assms(1)
proof (cases rule: process_decision_batch_cases)
  case (duplicate fp)
  with assms(3) show ?thesis by (simp add: duplicate_batch_resultD)
next
  case (processed instruments ms staged outs fp dd)
  have "dget (bs_dedupe_sequences st) dd = None"
    using processed(1) by (auto simp: validate_envelope_fence_def err_simps split: option.splits if_splits)
  moreover have "same_fences (apply_stage e instruments ms st) staged"
    by (rule stage_batch_commands_fences [OF processed(5)])
  ultimately show ?thesis
    using processed fence_fresh(3) [OF processed(1) assms(2)]
    by (auto simp: same_fences_def apply_stage_def record_fence_def)
qed

end
