(* ===== verification/Broker_Limits.thy ===== *)
theory Broker_Limits
  imports Broker_Run
begin

text \<open>
  The configured capacities: orders, open orders, cached outcomes, fills, events, positions, metadata
  versions and market-data records never exceed the limits of the broker, in any reachable state.
\<close>

section \<open>Slots the commands use\<close>

definition slots_ok :: "broker_env \<Rightarrow> broker_state \<Rightarrow> bool" where
  "slots_ok env st \<longleftrightarrow>
     int (length (bs_orders st)) \<le> max_orders (be_limits env)
     \<and> open_order_count st \<le> max_open_orders (be_limits env)
     \<and> int (length (bs_events st)) \<le> max_events (be_limits env)
     \<and> int (length (bs_submit_outcomes st)) \<le> max_orders (be_limits env)
     \<and> int (length (bs_cancel_outcomes st)) \<le> max_orders (be_limits env)"

definition limits_ok :: "broker_env \<Rightarrow> broker_state \<Rightarrow> bool" where
  "limits_ok env st \<longleftrightarrow> slots_ok env st
     \<and> int (length (bs_fills st)) \<le> max_fills (be_limits env)
     \<and> int (length (bs_positions st)) \<le> max_positions (be_limits env)
     \<and> int (length (bs_instruments st)) \<le> max_instrument_versions (be_limits env)
     \<and> int (length (bs_envelope_fingerprints st)) \<le> max_market_data_records (be_limits env)"

definition open_count :: "(uuid, paper_order) dict \<Rightarrow> int" where
  "open_count d = int (length (filter (\<lambda>p. \<not> is_terminal (or_status p)) (dvalues d)))"

lemma open_order_count_eq: "open_order_count st = open_count (bs_orders st)"
  by (simp add: open_order_count_def open_count_def)

lemma open_count_dset:
  "open_count (dset k p d) = open_count d
     - (case dget d k of Some q \<Rightarrow> if is_terminal (or_status q) then 0 else 1 | None \<Rightarrow> 0)
     + (if is_terminal (or_status p) then 0 else 1)"
  unfolding open_count_def dget_def dset_def dvalues_def
  by (induction d) (auto split: option.splits)

lemma open_count_dset_new: "open_count (dset k p d) \<le> open_count d + 1"
  by (simp add: open_count_dset split: option.splits)

lemma open_count_dset_terminal: "is_terminal (or_status p) \<Longrightarrow> open_count (dset k p d) \<le> open_count d"
  by (simp add: open_count_dset split: option.splits)

lemma open_count_dset_live:
  "dget d k = Some q \<Longrightarrow> \<not> is_terminal (or_status q) \<Longrightarrow> open_count (dset k p d) \<le> open_count d"
  by (simp add: open_count_dset)

lemma length_dset_le: "length (dset k v d) \<le> Suc (length d)"
  by (simp add: length_dset)

lemma length_dset_same: "dget d k \<noteq> None \<Longrightarrow> length (dset k v d) = length d"
  by (simp add: length_dset)

section \<open>Rejections\<close>

lemma slots_ok_cong:
  "slots_ok env st \<Longrightarrow> slots_ok env (st\<lparr>bs_effective_session := s\<rparr>)"
  "slots_ok env (bump_version st) = slots_ok env st"
  by (simp_all add: slots_ok_def bump_version_def open_order_count_eq)

lemma slots_ok_submit_outcomes:
  "slots_ok env st \<Longrightarrow> int (length d) \<le> max_orders (be_limits env) \<Longrightarrow>
     slots_ok env (st\<lparr>bs_submit_outcomes := d\<rparr>)"
  by (simp add: slots_ok_def open_order_count_eq)

lemma slots_ok_journal: "slots_ok env st \<Longrightarrow> \<not> events_full env st \<Longrightarrow> slots_ok env (journal_event e st)"
  by (simp add: slots_ok_def journal_event_def events_full_def open_order_count_eq)

lemma slots_ok_append_rejection:
  "append_rejection_event env r st = Inr st' \<Longrightarrow> slots_ok env st \<Longrightarrow> slots_ok env st'"
  by (auto simp: append_rejection_event_def err_simps slots_ok_cong slots_ok_journal split: if_splits)

lemma slots_ok_batch_rejection:
  "stage_batch_rejection env st r e = Inr st' \<Longrightarrow> slots_ok env st \<Longrightarrow> slots_ok env st'"
  by (auto simp: stage_batch_rejection_def err_simps slots_ok_journal split: if_splits)

lemma slots_ok_stage_rejection:
  assumes "stage_rejection env st r d = Inr st'" and "slots_ok env st"
    and "int (length d) \<le> max_orders (be_limits env)"
  shows "slots_ok env st'"
  using assms(1) slots_ok_append_rejection [OF _ slots_ok_submit_outcomes [OF assms(2,3)]]
  by (auto simp: stage_rejection_def err_simps slots_ok_cong)

lemma slots_ok_cache_cancel:
  assumes "slots_ok env st" and "can_cache_cancel env st (dget (bs_cancel_outcomes st) key)"
  shows "slots_ok env (cache_cancel key digest out r st)"
  using assms
  by (auto simp: slots_ok_def cache_cancel_def can_cache_cancel_def length_dset open_order_count_eq
      split: option.splits)

section \<open>Acceptances and cancellations\<close>

lemma slots_ok_acceptance:
  assumes "slots_ok env st" and "\<not> orders_full env st"
    and "int (length (bs_submit_outcomes st)) < max_orders (be_limits env)"
  shows "slots_ok env (record_acceptance p key digest k e st)"
proof -
  let ?d = "dset (or_paper_order_id p) p (bs_orders st)"
  have "open_count ?d \<le> open_count (bs_orders st) + 1" by (rule open_count_dset_new)
  moreover have "length ?d \<le> Suc (length (bs_orders st))" by (rule length_dset_le)
  moreover have "length (dset key (primary_record digest (OrderOutcome p)) (bs_submit_outcomes st))
      \<le> Suc (length (bs_submit_outcomes st))" by (rule length_dset_le)
  ultimately show ?thesis
    using assms
    by (simp add: slots_ok_def orders_full_def events_full_def record_acceptance_def journal_event_def
        open_order_count_eq)
qed

lemma slots_ok_cancelled:
  assumes "slots_ok env st" and "broker_inv env K st" and "bs_orders st0 = bs_orders st"
    and "length (bs_events st0) = length (bs_events st)"
    and ec: "evaluate_cancel env st0 c = Inr (OrderOutcome q, Some t)"
  shows "slots_ok env (journal_event e (st\<lparr>bs_orders := dset (or_paper_order_id q) q (bs_orders st)\<rparr>))"
proof -
  from ec obtain p where p: "dget (bs_orders st) (cn_paper_order_id c) = Some p"
    and q: "paper_order_init matching_context
           (p\<lparr>or_status := CANCELLED, or_updated_at := cn_requested_at c\<rparr>) = Inr q"
    and room: "\<not> events_full env st0"
    by (rule evaluate_cancelD) (simp add: assms(3))
  have id: "dget (bs_orders st) (or_paper_order_id q) \<noteq> None"
    using assms(2) p cancelled_order(1) [OF q]
    by (simp add: broker_inv_def book_inv_def orders_ok_def order_ok_def)
  have "is_terminal (or_status q)" using cancelled_order(1) [OF q] by (simp add: is_terminal_def)
  from open_count_dset_terminal [OF this] length_dset_same [OF id] assms(1,4) room
  show ?thesis
    by (auto simp: slots_ok_def journal_event_def events_full_def open_order_count_eq intro: order_trans)
qed

lemma slots_ok_submit:
  assumes "submit env i st = Inr (st', out)" and "slots_ok env st"
  shows "slots_ok env st'"
  using assms(1)
proof (cases rule: submit_cases)
  case unchanged
  with assms(2) show ?thesis by simp
next
  case (conflict r c digest)
  with slots_ok_stage_rejection [OF conflict(3) assms(2)] assms(2) show ?thesis
    by (simp add: length_dset slots_ok_def)
next
  case (rejected eff c digest)
  with slots_ok_stage_rejection [OF rejected(4) slots_ok_cong(1) [OF assms(2)]] show ?thesis
    by (simp add: length_dset)
next
  case (accepted eff p e k s n)
  have "\<not> orders_full env (st\<lparr>bs_effective_session := eff\<rparr>)"
    using accepted(4) by (simp add: orders_full_def events_full_def open_order_count_eq)
  with slots_ok_acceptance [OF slots_ok_cong(1) [OF assms(2)] this] accepted(3,8) show ?thesis
    by (simp add: slots_ok_cong)
qed

lemma can_cache_cancel_session [simp]:
  "can_cache_cancel env (st\<lparr>bs_effective_session := s\<rparr>) r = can_cache_cancel env st r"
  by (simp add: can_cache_cancel_def split: option.splits)

lemma broker_inv_session: "broker_inv env K st \<Longrightarrow> broker_inv env K (st\<lparr>bs_effective_session := s\<rparr>)"
  by (rule advance_inv [OF _ session_advance])

lemma broker_inv_cache_cancel: "broker_inv env K st \<Longrightarrow> broker_inv env K (cache_cancel key digest out r st)"
  by (rule advance_inv [OF _ cache_cancel_advance])

lemma cache_cancel_same [simp]:
  "bs_orders (cache_cancel key digest out r st) = bs_orders st"
  "bs_events (cache_cancel key digest out r st) = bs_events st"
  "bs_next_paper_sequence (cache_cancel key digest out r st) = bs_next_paper_sequence st"
  by (simp_all add: cache_cancel_def)

lemma slots_ok_maybe_cached:
  assumes "slots_ok env st" and "broker_inv env K st" and "bs_orders st0 = bs_orders st"
    and "length (bs_events st0) = length (bs_events st)"
    and "evaluate_cancel env st0 c = Inr (OrderOutcome q, Some t)"
    and "caching \<Longrightarrow> can_cache_cancel env st (dget (bs_cancel_outcomes st) key)"
  shows "slots_ok env (journal_event e ((if caching then cache_cancel key digest out r st else st)
           \<lparr>bs_orders := dset (or_paper_order_id q) q (bs_orders st)\<rparr>))"
proof (cases caching)
  case True
  note cached = slots_ok_cache_cancel [OF assms(1) assms(6) [OF True]] broker_inv_cache_cancel [OF assms(2)]
  show ?thesis
    using slots_ok_cancelled [OF cached _ _ assms(5)] True assms(3,4) by simp
next
  case False
  with slots_ok_cancelled [OF assms(1-5)] show ?thesis by simp
qed

lemma slots_ok_cancel:
  assumes "cancel env c st = Inr (st', out)" and "slots_ok env st" and inv: "broker_inv env K st"
  shows "slots_ok env st'"
  using assms(1)
proof (cases rule: cancel_cases)
  case unchanged
  with assms(2) show ?thesis by simp
next
  case (cancelled eff q t e s n caching key digest r)
  have "caching \<Longrightarrow> can_cache_cancel env (st\<lparr>bs_effective_session := eff\<rparr>)
      (dget (bs_cancel_outcomes (st\<lparr>bs_effective_session := eff\<rparr>)) key)"
    using cancelled(4) by simp
  from slots_ok_maybe_cached [OF slots_ok_cong(1) [OF assms(2)] broker_inv_session [OF inv] refl refl
      cancelled(2) this] cancelled(5)
  show ?thesis by (simp add: slots_ok_cong)
next
  case (rejected eff rj st2 key digest r)
  have "slots_ok env (cache_cancel key digest (RejectionOutcome rj) r (st\<lparr>bs_effective_session := eff\<rparr>))"
    using rejected(2) by (intro slots_ok_cache_cancel slots_ok_cong(1) assms(2)) simp
  from slots_ok_append_rejection [OF rejected(3) this] rejected(4) show ?thesis
    by (auto simp: slots_ok_cong)
qed

section \<open>Batches\<close>

lemma slots_ok_batch_submit:
  assumes "stage_batch_submit env e i st = Inr (st', out)" and "slots_ok env st"
  shows "slots_ok env st'"
proof (cases "dget (bs_submit_outcomes st) (intent_key i)")
  case (Some r)
  with assms(1) have "st' = st \<or> (\<exists>c digest. stage_batch_rejection env
      (st\<lparr>bs_submit_outcomes := dset (intent_key i) (with_alternate r digest (RejectionOutcome c))
         (bs_submit_outcomes st)\<rparr>) c e = Inr st')"
    by (auto simp: stage_batch_submit_def Let_def intent_key_def err_simps split: option.splits if_splits)
  moreover have "slots_ok env (st\<lparr>bs_submit_outcomes := dset (intent_key i)
      (with_alternate r digest (RejectionOutcome c)) (bs_submit_outcomes st)\<rparr>)" for digest c
    using assms(2) Some by (simp add: slots_ok_def open_order_count_eq length_dset_same)
  ultimately show ?thesis using assms(2) slots_ok_batch_rejection by blast
next
  case None
  note run = assms(1) [unfolded stage_batch_submit_def Let_def, folded intent_key_def,
      unfolded None option.case]
  show ?thesis
  proof (cases "max_orders (be_limits env) \<le> int (length (bs_submit_outcomes st))")
    case True
    with run assms(2) show ?thesis by (auto simp: err_simps)
  next
    case False
    then have room: "int (length (bs_submit_outcomes st)) < max_orders (be_limits env)" by simp
    have stored: "slots_ok env (st\<lparr>bs_submit_outcomes := dset (intent_key i) r (bs_submit_outcomes st)\<rparr>)" for r
      using room by (intro slots_ok_submit_outcomes assms(2)) (simp add: length_dset)
    show ?thesis
    proof (cases "orders_full env st")
      case True
      with run False slots_ok_batch_rejection [OF _ stored] show ?thesis by (auto simp: err_simps)
    next
      case not_full: False
      from run False not_full obtain p ev digest where
        "st' = record_acceptance p (intent_key i) digest (en_ingest_sequence e) ev st"
        by (auto simp: err_simps)
      with slots_ok_acceptance [OF assms(2) not_full room] show ?thesis by blast
    qed
  qed
qed

lemma slots_ok_batch_cancel:
  assumes "stage_batch_cancel env e c st = Inr (st', out)" and "slots_ok env st" and inv: "broker_inv env K st"
  shows "slots_ok env st'"
proof -
  define key where "key = (cn_paper_order_id c, cn_strategy_id c, cn_client_order_id c)"
  define digest where "digest = command_digest env (json_cancel_intent c)"
  define r where "r = dget (bs_cancel_outcomes st) key"
  note run = assms(1) [unfolded stage_batch_cancel_def Let_def, folded key_def digest_def, folded r_def]
  have cached: "slots_ok env (cache_cancel key digest o1 r st)" if "can_cache_cancel env st r" for o1
    by (rule slots_ok_cache_cancel [OF assms(2)]) (use that in \<open>simp add: r_def\<close>)
  show ?thesis
  proof (cases "case r of None \<Rightarrow> None | Some rc \<Rightarrow> outcome_find rc digest")
    case (Some x)
    with run assms(2) show ?thesis by auto
  next
    case uncached: None
    with run obtain o1 kind where ec: "evaluate_cancel env st c = Inr (o1, kind)"
      by (auto simp: err_simps)
    show ?thesis
    proof (cases o1)
      case (OrderOutcome q)
      show ?thesis
      proof (cases kind)
        case None
        with run uncached ec OrderOutcome assms(2) show ?thesis by auto
      next
        case (Some t)
        have caching: "can_cache_cancel env st r \<Longrightarrow> can_cache_cancel env st (dget (bs_cancel_outcomes st) key)"
          by (simp add: r_def)
        from run uncached ec OrderOutcome Some show ?thesis
          using slots_ok_maybe_cached [OF assms(2) inv refl refl ec [unfolded OrderOutcome Some] caching]
          by (auto simp: err_simps if_distrib [of bs_orders] cong: if_cong)
      qed
    next
      case (RejectionOutcome rj)
      with ec evaluate_cancel_rejection have "kind = None" by (cases kind) auto
      with run uncached ec RejectionOutcome assms(2) slots_ok_batch_rejection [OF _ cached]
      show ?thesis by (auto simp: err_simps split: if_splits)
    qed
  qed
qed

lemma slots_ok_batch_command:
  "stage_batch_command env e c st = Inr (st', out) \<Longrightarrow> slots_ok env st \<Longrightarrow> broker_inv env K st \<Longrightarrow> slots_ok env st'"
  by (cases c) (auto dest: slots_ok_batch_submit slots_ok_batch_cancel)

lemma slots_ok_batch_commands:
  assumes "stage_batch_commands env e cs st = Inr (st', outs)" and "slots_ok env st"
    and "broker_inv env K st" and "inj_on (broker_order_id env) K" and "list_all (command_key_in K) cs"
  shows "slots_ok env st'"
proof -
  let ?I = "\<lambda>s. broker_inv env K (fst s) \<and> slots_ok env (fst s)"
  have "?I (st', outs)"
  proof (rule efold_invariant [OF assms(1) [unfolded stage_batch_commands_def]])
    fix c s t
    assume "c \<in> set cs" and I: "?I s"
      and step: "(\<lambda>(s, outs). ebind (stage_batch_command env e c s) (\<lambda>(s', out). Inr (s', outs @ [out]))) s = Inr t"
    then have key: "command_key_in K c" using assms(5) by (simp add: list_all_iff)
    from step obtain out where run: "stage_batch_command env e c (fst s) = Inr (fst t, out)"
      by (cases s) (auto simp: err_simps)
    have "broker_inv env K (fst t)"
      using advance_inv [OF _ stage_batch_command_advance [OF run _ assms(4) key]] I by blast
    moreover have "slots_ok env (fst t)" using slots_ok_batch_command [OF run] I by blast
    ultimately show "?I t" by simp
  qed (use assms(2,3) in simp)
  then show ?thesis by simp
qed

text \<open>Matching replaces open orders by their successors.\<close>

definition orders_stay :: "broker_state \<Rightarrow> match_stage \<Rightarrow> bool" where
  "orders_stay st ms \<longleftrightarrow> length (ms_orders ms) = length (bs_orders st)
     \<and> open_count (ms_orders ms) \<le> open_count (bs_orders st)"

lemma orders_stay_start [simp]: "orders_stay st (stage_start st)"
  by (simp add: orders_stay_def stage_start_def)

lemma orders_stay_quote:
  assumes "stage_quote env e q st = Inr ms"
  shows "orders_stay st ms"
  using assms
proof (cases rule: stage_quote_cases)
  case (1 rs)
  then show ?thesis by (simp add: orders_stay_def stage_start_def)
next
  case (2 tp rs)
  show ?thesis
  proof (rule stage_matches_induct [OF 2(2)])
    fix a b oid
    assume I: "orders_stay st a" and "stage_fills env st e q tp oid a b"
    then obtain p p' f pos cap evs where p: "dget (ms_orders a) oid = Some p" "\<not> is_terminal (or_status p)"
      and b: "b = stage_with_fill oid p' f pos cap evs a"
      unfolding stage_fills_def by blast
    have "ms_orders b = dset oid p' (ms_orders a)"
      by (simp add: b stage_with_fill_def set_capacity_def split: order_side.splits)
    with I p open_count_dset_live [OF p, of p'] show "orders_stay st b"
      by (simp add: orders_stay_def length_dset_same)
  qed (auto simp: orders_stay_def stage_start_def stage_skips_def)
qed

lemma stage_instrument_room:
  assumes "stage_instrument env i st = Inr d"
    and "int (length (bs_instruments st)) \<le> max_instrument_versions (be_limits env)"
  shows "int (length d) \<le> max_instrument_versions (be_limits env)"
  using assms by (auto simp: stage_instrument_def Let_def err_simps length_dset)

lemma orders_stay_market_data:
  assumes "stage_market_data env e st = Inr (instruments, ms)"
  shows "orders_stay st ms"
proof (cases "ms = skip_order EVENT_NOT_QUOTE (stage_start st)")
  case True
  then show ?thesis by (simp add: orders_stay_def skip_order_def stage_start_def)
next
  case False
  with assms have "\<exists>q. stage_quote env e q st = Inr ms"
    by (cases "en_event_type e"; cases "en_payload e") (auto simp: stage_market_data_def err_simps)
  then show ?thesis by (blast intro: orders_stay_quote)
qed

lemma instruments_market_data:
  assumes "stage_market_data env e st = Inr (instruments, ms)"
    and "int (length (bs_instruments st)) \<le> max_instrument_versions (be_limits env)"
  shows "int (length instruments) \<le> max_instrument_versions (be_limits env)"
  using assms
  by (cases "en_event_type e"; cases "en_payload e")
    (auto simp: stage_market_data_def err_simps dest: stage_instrument_room)

lemma limits_ok_process:
  assumes run: "process_decision_batch env e d st = Inr (st', r)" and lim: "limits_ok env st"
    and inv: "broker_inv env K st" and "inj_on (broker_order_id env) K"
    and "list_all (command_key_in K) (de_commands d)"
  shows "limits_ok env st'"
  using run
proof (cases rule: process_decision_batch_cases)
  case (duplicate fp)
  with lim show ?thesis by simp
next
  case (processed instruments ms staged outs fp dd)
  let ?st = "apply_stage e instruments ms st"
  have moved: "broker_inv env K ?st"
    by (rule advance_inv [OF inv apply_stage_advance [OF stage_market_data_ok [OF processed(3) inv]]])
  have "slots_ok env ?st"
    using lim orders_stay_market_data [OF processed(3)] processed(4)
    by (simp add: limits_ok_def slots_ok_def orders_stay_def apply_stage_def open_order_count_eq within_limits_def)
  from slots_ok_batch_commands [OF processed(5) this moved assms(4,5)]
  have slots: "slots_ok env staged" .
  have "int (length (bs_instruments staged)) \<le> max_instrument_versions (be_limits env)"
    using stage_batch_commands_fences [OF processed(5)] instruments_market_data [OF processed(3)] lim
    by (simp add: same_fences_def apply_stage_def limits_ok_def)
  with slots lim processed(2,6) show ?thesis
    by (simp add: limits_ok_def processed(7) slots_ok_def open_order_count_eq record_fence_def
        length_dset within_limits_def)
qed

lemma limits_ok_command: "limits_ok env st \<Longrightarrow> fences_after_command st st' \<Longrightarrow> slots_ok env st' \<Longrightarrow> limits_ok env st'"
  by (simp add: limits_ok_def fences_after_command_def)

lemma limits_ok_step:
  assumes "broker_ok env K st \<and> limits_ok env st" and "broker_step env K st st'"
  shows "broker_ok env K st' \<and> limits_ok env st'"
proof
  show "broker_ok env K st'" using assms broker_ok_step by blast
  from assms(2) show "limits_ok env st'"
  proof (cases rule: broker_stepE)
    case (submit i out)
    with assms(1) show ?thesis
      by (intro limits_ok_command [OF _ submit_fences [OF submit(2)]] slots_ok_submit [OF submit(2)])
        (simp_all add: limits_ok_def)
  next
    case (cancel c out)
    with assms(1) show ?thesis
      by (intro limits_ok_command [OF _ cancel_fences [OF cancel]] slots_ok_cancel [OF cancel, of K])
        (simp_all add: limits_ok_def broker_ok_def)
  next
    case (batch e d r)
    with assms(1) show ?thesis
      by (intro limits_ok_process [OF batch(2)]) (simp_all add: broker_ok_def)
  qed
qed

interpretation broker_limits: state_machine "broker_step env K" "\<lambda>st. broker_ok env K st \<and> limits_ok env st"
  for env K
  by unfold_locales (rule limits_ok_step)

text \<open>The limits are positive, as their constructor checks.\<close>

lemma limits_ok_init:
  assumes "paper_broker_limits_init (be_limits env) = Inr l"
  shows "limits_ok env (init_broker env session)"
  using assms
  by (auto simp: paper_broker_limits_init_def err_simps positive_int_def limits_ok_def slots_ok_def
      init_broker_def open_order_count_eq open_count_def dvalues_def)

lemma reachable_limits:
  assumes "paper_broker_limits_init (be_limits env) = Inr l" and "inj_on (broker_order_id env) K"
    and "(broker_step env K)\<^sup>*\<^sup>* (init_broker env session) st"
  shows "limits_ok env st"
  using broker_limits.run_inv [OF assms(3)] limits_ok_init [OF assms(1)] broker_ok_init [OF assms(2)]
  by blast

end
