(* ===== verification/Broker_Checkpoint.thy ===== *)
theory Broker_Checkpoint
  imports Paper_Broker
begin

text \<open>
  The validation of a checkpointed broker state, \<open>PaperBroker._validate_checkpoint_state\<close> and the helpers
  after it, on decoded states. Every check raises the same exception; the type tests that the HOL types
  make vacuous are left out. The textual codec of the checkpoint document is not modelled.
\<close>

definition checkpoint_invalid :: pyexn where
  "checkpoint_invalid = PaperBrokerCheckpointError ''paper broker checkpoint is invalid''"

definition check :: "bool \<Rightarrow> unit result" where
  "check b = require b checkpoint_invalid"

lemma check_eq_Inr [err_simps]: "check b = Inr u \<longleftrightarrow> b"
  by (simp add: check_def require_eq_Inr)

section \<open>Counters, sessions and the journal\<close>

definition check_counters :: "broker_env \<Rightarrow> broker_state \<Rightarrow> bool" where
  "check_counters env st \<longleftrightarrow>
     1 \<le> bs_next_paper_sequence st \<and> 0 \<le> bs_snapshot_version st \<and> 1 \<le> bs_next_acceptance_ordinal st
     \<and> list_all (\<lambda>(key, value). key = (im_instrument_id value, im_metadata_version value)) (bs_instruments st)
     \<and> bs_execution_config_fingerprint st
         = execution_config_fingerprint (be_hashes env) (be_execution_config env)
     \<and> (bs_effective_session st \<noteq> None \<longrightarrow> bs_bound_session st \<in> {None, bs_effective_session st})
     \<and> (bs_bound_session st = None) = (bs_bound_source st = None)
     \<and> (bs_bound_session st = None) = (bs_last_sequence st = None)"

definition check_journal :: "broker_env \<Rightarrow> broker_state \<Rightarrow> bool" where
  "check_journal env st \<longleftrightarrow>
     bs_next_paper_sequence st = int (length (bs_events st)) + 1
     \<and> map ev_paper_sequence (bs_events st) = map (\<lambda>k. int k + 1) [0..<length (bs_events st)]
     \<and> list_all (\<lambda>e. ev_paper_event_id e = broker_uuid env
           [''event'', show_int (ev_paper_sequence e), event_type_value (ev_event_type e)]) (bs_events st)"

definition check_ordinals :: "broker_state \<Rightarrow> bool" where
  "check_ordinals st \<longleftrightarrow>
     set (dkeys (bs_acceptance_ordinal st)) = set (dkeys (bs_orders st))
     \<and> sort (dvalues (bs_acceptance_ordinal st))
         = map (\<lambda>k. int k + 1) [0..<nat (bs_next_acceptance_ordinal st - 1)]
     \<and> set (dkeys (bs_eligibility_sequence st)) = set (dkeys (bs_orders st))
     \<and> list_all (\<lambda>n. -1 \<le> n) (dvalues (bs_eligibility_sequence st))"

section \<open>Orders, fills and positions\<close>

definition check_order_record :: "broker_env \<Rightarrow> broker_state \<Rightarrow> uuid \<Rightarrow> paper_order \<Rightarrow> bool" where
  "check_order_record env st order_id p \<longleftrightarrow>
     or_paper_run_id p = be_paper_run_id env \<and> order_id = or_paper_order_id p
     \<and> order_id = broker_order_id env (in_strategy_id (or_intent p), in_client_order_id (or_intent p))
     \<and> (case dget (bs_submit_outcomes st) (in_strategy_id (or_intent p), in_client_order_id (or_intent p)) of
          None \<Rightarrow> False
        | Some r \<Rightarrow>
            (case oc_primary_outcome r of
               RejectionOutcome _ \<Rightarrow> False
             | OrderOutcome q \<Rightarrow>
                 or_paper_order_id q = order_id \<and> or_status q = ACCEPTED
                 \<and> oc_primary_digest r = command_digest env (json_order_intent (or_intent q))))"

text \<open>The loop over the fills counts, for every order and envelope, how many fills came before.\<close>

type_synonym fill_counts = "(uuid \<times> uuid \<times> int, int) dict"

definition check_fill :: "broker_env \<Rightarrow> broker_state \<Rightarrow> paper_fill \<Rightarrow> fill_counts \<Rightarrow> fill_counts result" where
  "check_fill env st f counts =
     (let key = (fi_paper_order_id f, fi_source_session_id f, fi_source_ingest_sequence f);
          n = (case dget counts key of None \<Rightarrow> 0 | Some k \<Rightarrow> k) + 1
      in
      ethen (check (fi_paper_fill_id f = broker_uuid env [''fill'', uuid_str (fi_paper_order_id f),
               uuid_str (fi_source_session_id f), show_int (fi_source_ingest_sequence f), show_int n,
               bs_execution_config_fingerprint st])) (
      ethen (check (dget (bs_orders st) (fi_paper_order_id f) \<noteq> None
               \<and> fi_execution_config_fingerprint f = bs_execution_config_fingerprint st))
      (Inr (dset key n counts))))"

definition check_fills :: "broker_env \<Rightarrow> broker_state \<Rightarrow> unit result" where
  "check_fills env st =
     ethen (check (list_all (\<lambda>f. fi_paper_run_id f = be_paper_run_id env) (bs_fills st))) (
     ebind (efold (check_fill env st) (bs_fills st) []) (\<lambda>counts. Inr ()))"

definition check_position :: "broker_env \<Rightarrow> pos_key \<times> paper_position \<Rightarrow> unit \<Rightarrow> unit result" where
  "check_position env kp u =
     (let (key, p) = kp; (strategy, account, instrument) = key in
      ethen (check (po_paper_run_id p = be_paper_run_id env \<and> key = position_key p)) (
      ebind (paper_position_id (be_hashes env) (be_paper_run_id env) strategy account instrument) (\<lambda>pid.
      check (po_paper_position_id p = pid))))"

section \<open>Events against the state\<close>

definition fill_payload :: "paper_event \<Rightarrow> paper_fill option" where
  "fill_payload e = (case ev_payload e of FillPayload f \<Rightarrow> Some f | _ \<Rightarrow> None)"

definition check_fill_events :: "broker_state \<Rightarrow> bool" where
  "check_fill_events st \<longleftrightarrow>
     (let fill_events = filter (\<lambda>e. ev_event_type e = FILL_RECORDED) (bs_events st) in
      length fill_events = length (bs_fills st)
      \<and> set (List.map_filter (\<lambda>e. map_option fi_paper_fill_id (fill_payload e)) fill_events)
          = set (map fi_paper_fill_id (bs_fills st))
      \<and> list_all (\<lambda>e. case fill_payload e of None \<Rightarrow> False | Some f \<Rightarrow> list_ex (same_fill f) (bs_fills st))
          fill_events)"

definition order_payload :: "paper_event \<Rightarrow> paper_order option" where
  "order_payload e = (case ev_payload e of OrderPayload p \<Rightarrow> Some p | _ \<Rightarrow> None)"

definition is_order_event :: "uuid \<Rightarrow> paper_event \<Rightarrow> bool" where
  "is_order_event order_id e = (map_option or_paper_order_id (order_payload e) = Some order_id)"

text \<open>\<open>sum\<close> starts from \<open>Decimal("0")\<close> and adds in the default context of 28 digits.\<close>

definition decimal_sum :: "decimal list \<Rightarrow> decimal result" where
  "decimal_sum ds = efold (\<lambda>d s. dadd default_ctx s d) ds dzero"

definition check_order_events :: "broker_state \<Rightarrow> uuid \<times> paper_order \<Rightarrow> unit \<Rightarrow> unit result" where
  "check_order_events st op u =
     (let (order_id, p) = op;
          order_events = filter (is_order_event order_id) (bs_events st);
          order_fills = filter (\<lambda>f. fi_paper_order_id f = order_id) (bs_fills st)
      in
      ethen (check (order_events \<noteq> [])) (
      ethen (check (ev_event_type (hd order_events) = ORDER_ACCEPTED)) (
      ethen (check (case order_payload (last order_events) of None \<Rightarrow> False | Some q \<Rightarrow> same_order q p)) (
      ebind (decimal_sum (map fi_quantity order_fills)) (\<lambda>total.
      check (deq total (or_filled_quantity p)))))))"

definition position_payload :: "paper_event \<Rightarrow> paper_position option" where
  "position_payload e = (case ev_payload e of PositionPayload p \<Rightarrow> Some p | _ \<Rightarrow> None)"

definition check_position_events :: "broker_state \<Rightarrow> pos_key \<Rightarrow> paper_position \<Rightarrow> bool" where
  "check_position_events st key p \<longleftrightarrow>
     (let es = filter (\<lambda>e. map_option position_key (position_payload e) = Some key) (bs_events st) in
      es \<noteq> [] \<and> (case position_payload (last es) of None \<Rightarrow> False | Some q \<Rightarrow> same_position q p))"

definition check_known_orders :: "broker_state \<Rightarrow> bool" where
  "check_known_orders st \<longleftrightarrow>
     list_all (\<lambda>e. case ev_payload e of
         OrderPayload p \<Rightarrow> dget (bs_orders st) (or_paper_order_id p) \<noteq> None
       | FillPayload f \<Rightarrow> dget (bs_orders st) (fi_paper_order_id f) \<noteq> None
       | _ \<Rightarrow> True) (bs_events st)"

section \<open>Capacities, fences and cached outcomes\<close>

definition check_limits :: "broker_env \<Rightarrow> broker_state \<Rightarrow> bool" where
  "check_limits env st \<longleftrightarrow>
     (let l = be_limits env; size = (\<lambda>n. int n) in
      size (length (bs_orders st)) \<le> max_orders l \<and> open_order_count st \<le> max_open_orders l
      \<and> size (length (bs_fills st)) \<le> max_fills l \<and> size (length (bs_events st)) \<le> max_events l
      \<and> size (length (bs_positions st)) \<le> max_positions l
      \<and> size (length (bs_instruments st)) \<le> max_instrument_versions l
      \<and> size (length (bs_submit_outcomes st)) \<le> max_orders l
      \<and> size (length (bs_cancel_outcomes st)) \<le> max_orders l
      \<and> size (length (bs_acceptance_ordinal st)) \<le> max_orders l
      \<and> size (length (bs_eligibility_sequence st)) \<le> max_orders l)"

definition check_fences :: "broker_env \<Rightarrow> broker_state \<Rightarrow> bool" where
  "check_fences env st \<longleftrightarrow>
     (let fence_keys = dkeys (bs_envelope_fingerprints st) in
      int (length fence_keys) \<le> max_market_data_records (be_limits env)
      \<and> list_all (\<lambda>k. 0 \<le> k) fence_keys
      \<and> list_all (\<lambda>v. length v = 64) (dvalues (bs_envelope_fingerprints st))
      \<and> list_all (\<lambda>v. prefix ''sha256:'' v) (dvalues (bs_decision_fingerprints st))
      \<and> list_all (\<lambda>k. length k = 64) (dkeys (bs_dedupe_sequences st))
      \<and> set fence_keys = set (dkeys (bs_decision_fingerprints st))
      \<and> list_all (\<lambda>n. n \<in> set fence_keys) (dvalues (bs_dedupe_sequences st))
      \<and> (case bs_last_sequence st of
           None \<Rightarrow> True
         | Some n \<Rightarrow> fence_keys \<noteq> [] \<and> Max (set fence_keys) = n))"

definition hex_digest :: "string \<Rightarrow> bool" where
  "hex_digest s \<longleftrightarrow> length s = 64 \<and> list_all (\<lambda>c. c \<in> set ''0123456789abcdef'') s"

definition outcome_record_ok :: "outcome_record \<Rightarrow> bool" where
  "outcome_record_ok r \<longleftrightarrow>
     hex_digest (oc_primary_digest r)
     \<and> (oc_alternate_digest r = None) = (oc_alternate_outcome r = None)
     \<and> oc_alternate_digest r \<noteq> Some (oc_primary_digest r)
     \<and> (case oc_alternate_digest r of None \<Rightarrow> True | Some d \<Rightarrow> hex_digest d)"

definition outcome_strategy_client :: "command_outcome \<Rightarrow> submit_key" where
  "outcome_strategy_client out =
     (case out of
        OrderOutcome p \<Rightarrow> (in_strategy_id (or_intent p), in_client_order_id (or_intent p))
      | RejectionOutcome r \<Rightarrow> (rj_strategy_id r, rj_client_order_id r))"

definition outcome_order_id :: "command_outcome \<Rightarrow> uuid option" where
  "outcome_order_id out =
     (case out of OrderOutcome p \<Rightarrow> Some (or_paper_order_id p) | RejectionOutcome r \<Rightarrow> rj_paper_order_id r)"

definition record_outcomes :: "outcome_record \<Rightarrow> command_outcome list" where
  "record_outcomes r =
     oc_primary_outcome r # (case oc_alternate_outcome r of None \<Rightarrow> [] | Some out \<Rightarrow> [out])"

definition check_submit_record :: "broker_env \<Rightarrow> submit_key \<Rightarrow> outcome_record \<Rightarrow> bool" where
  "check_submit_record env key r \<longleftrightarrow>
     list_all (\<lambda>out. key = outcome_strategy_client out \<and> outcome_run_id out = be_paper_run_id env)
       (record_outcomes r)
     \<and> outcome_record_ok r"

definition check_cancel_record :: "broker_env \<Rightarrow> broker_state \<Rightarrow> cancel_key \<Rightarrow> outcome_record \<Rightarrow> bool" where
  "check_cancel_record env st key r \<longleftrightarrow>
     list_all (\<lambda>out. outcome_order_id out = Some (fst key) \<and> snd key = outcome_strategy_client out
                   \<and> outcome_run_id out = be_paper_run_id env) (record_outcomes r)
     \<and> (dget (bs_orders st) (fst key) \<noteq> None
          \<or> (case oc_primary_outcome r of RejectionOutcome rj \<Rightarrow> rj_code rj = UNKNOWN_ORDER | _ \<Rightarrow> False))
     \<and> outcome_record_ok r"

section \<open>The whole validation\<close>

definition validate_checkpoint_state :: "broker_env \<Rightarrow> broker_state \<Rightarrow> unit result" where
  "validate_checkpoint_state env st =
     ethen (check (check_counters env st)) (
     ethen (check (check_journal env st)) (
     ethen (check (check_ordinals st)) (
     ethen (check (list_all (\<lambda>(k, p). check_order_record env st k p) (bs_orders st))) (
     ethen (check_fills env st) (
     ethen (efold (check_position env) (bs_positions st) ()) (
     ethen (check (check_fill_events st)) (
     ethen (efold (check_order_events st) (bs_orders st) ()) (
     ethen (check (list_all (\<lambda>(k, p). check_position_events st k p) (bs_positions st))) (
     ethen (check (check_known_orders st)) (
     ethen (check (check_limits env st)) (
     ethen (check (check_fences env st)) (
     ethen (check (list_all (\<lambda>(k, r). check_submit_record env k r) (bs_submit_outcomes st))) (
     check (list_all (\<lambda>(k, r). check_cancel_record env st k r) (bs_cancel_outcomes st)))))))))))))))"

text \<open>Restoring: the constructor, the validation, then the assignment of the state.\<close>

definition restore_state :: "broker_env \<Rightarrow> broker_state \<Rightarrow> broker_state result" where
  "restore_state env st =
     ethen (validate_checkpoint_state env st) (Inr st)"

end
