(* ===== verification/Broker_Demo.thy ===== *)
theory Broker_Demo
  imports Broker_Checkpoint Broker_Properties
begin

text \<open>
  A small concrete run of the broker, the input of the witnesses: a market order, a batch that brings
  the metadata of the instrument and submits a limit order, a batch with a quote that fills both, a
  cancellation, and the runs that follow from it. The kernel evaluates it once.
\<close>

declare split_paired_All [simp del] split_paired_Ex [simp del]

section \<open>Sequences of operations\<close>

fun run_ops :: "broker_env \<Rightarrow> broker_op list \<Rightarrow> broker_state \<Rightarrow> broker_state result" where
  "run_ops env [] st = Inr st"
| "run_ops env (op # ops) st = ebind (run_op env op st) (run_ops env ops)"

lemma run_ops_reachable:
  "run_ops env ops st = Inr st' \<Longrightarrow> list_all (op_allowed K) ops \<Longrightarrow> (broker_step env K)\<^sup>*\<^sup>* st st'"
proof (induction ops arbitrary: st)
  case Nil
  then show ?case by simp
next
  case (Cons op ops)
  then obtain m where "run_op env op st = Inr m" "run_ops env ops m = Inr st'" by (auto simp: err_simps)
  with Cons show ?case
    by (auto simp: broker_step_def intro: converse_rtranclp_into_rtranclp)
qed

section \<open>The inputs\<close>

text \<open>Hash functions for the examples: the digest counts characters, the name is the identifier.\<close>

definition demo_hashes :: hashes where
  "demo_hashes = \<lparr>sha256_hex = (\<lambda>s. pad 64 (show_int (int (length s)))), uuid5 = (\<lambda>ns name. UUID name)\<rparr>"

definition demo_env :: broker_env where
  "demo_env = \<lparr>be_hashes = demo_hashes, be_paper_run_id = UUID ''run'',
     be_limits = \<lparr>max_orders = 10, max_open_orders = 5, max_fills = 10, max_events = 50,
       max_market_data_records = 10, max_instrument_versions = 5, max_positions = 5\<rparr>,
     be_execution_config = default_execution_config\<rparr>"

definition demo_intent :: "string \<Rightarrow> order_side \<Rightarrow> int \<Rightarrow> decimal option \<Rightarrow> order_intent" where
  "demo_intent client side q l =
     \<lparr>in_strategy_id = ''s'', in_client_order_id = client, in_account_id = ''a'',
      in_instrument_id = ''TXF'', in_side = side, in_quantity = Dec q 0,
      in_order_type = (if l = None then MARKET else LIMIT), in_limit_price = l,
      in_time_in_force = DAY, in_day_trade = False, in_created_at = 0, in_source_session_id = None,
      in_source_ingest_sequence = None\<rparr>"

definition demo_instrument :: instrument where
  "demo_instrument = \<lparr>it_instrument_id = ''TXF'', it_symbol = ''TXF'', it_venue = ''TAIFEX'',
     it_market_no = None, it_stock_idx = None, it_display_name = None, it_asset_class = None,
     it_currency = None, it_price_scale = Some (Dec 1 0), it_quantity_scale = Some (Dec 1 0),
     it_metadata_version = 1, it_updated_at = 5, it_raw_payload = None\<rparr>"

definition demo_quote :: quote where
  "demo_quote = \<lparr>qu_instrument_id = ''TXF'', qu_market_no_raw = 2, qu_stock_idx_raw = 7,
     qu_bid_raw = 99, qu_ask_raw = 100, qu_last_raw = 100, qu_bid_normalized = Some (Dec 99 0),
     qu_ask_normalized = Some (Dec 100 0), qu_last_normalized = Some (Dec 100 0),
     qu_bid_qty_raw = Some 4, qu_ask_qty_raw = Some 4, qu_last_qty_raw = None,
     qu_event_at = Some 9, qu_received_at = 9, qu_trading_day = None, qu_is_simulated = Some False,
     qu_is_long_callback = False, qu_price_scale = Some (Dec 1 0)\<rparr>"

definition demo_envelope :: "event_type \<Rightarrow> domain_payload \<Rightarrow> int \<Rightarrow> string \<Rightarrow> instant \<Rightarrow> envelope" where
  "demo_envelope kind payload n key t =
     \<lparr>en_schema_version = 1, en_event_type = kind, en_payload = payload, en_source = ''src'',
      en_source_mode = OFFLINE, en_session_id = UUID ''m'', en_ingest_sequence = n,
      en_connection_generation = 0, en_sequence = n, en_broker_sequence = None, en_dedupe_key = key,
      en_event_at = Some t, en_received_at = t, en_trading_day = None, en_metadata_version = Some 1,
      en_raw_payload = None\<rparr>"

definition demo_decision :: "int \<Rightarrow> paper_command list \<Rightarrow> paper_decision" where
  "demo_decision n commands = \<lparr>de_source_session_id = UUID ''m'', de_source_ingest_sequence = n,
     de_commands = commands,
     de_decision_fingerprint = paper_decision_fingerprint demo_hashes (UUID ''m'') n commands\<rparr>"

definition demo_market :: order_intent where
  "demo_market = demo_intent ''c1'' BUY 3 None"

definition demo_limit :: order_intent where
  "demo_limit = (demo_intent ''c2'' BUY 2 (Some (Dec 101 0)))
     \<lparr>in_source_session_id := Some (UUID ''m''), in_source_ingest_sequence := Some 1\<rparr>"

definition demo_quote_envelope :: envelope where
  "demo_quote_envelope = demo_envelope QUOTE (QuotePayload demo_quote) 2 ''kk'' 9"

definition demo_quote_batch :: broker_op where
  "demo_quote_batch =
     BatchOp demo_quote_envelope (demo_decision 2 [])"

definition demo_cancel :: cancel_intent where
  "demo_cancel = \<lparr>cn_strategy_id = ''s'', cn_client_order_id = ''c2'',
     cn_paper_order_id = broker_order_id demo_env (''s'', ''c2''), cn_requested_at = 12,
     cn_source_session_id = None, cn_source_ingest_sequence = None\<rparr>"

definition demo_instrument_batch :: broker_op where
  "demo_instrument_batch =
     BatchOp (demo_envelope INSTRUMENT (InstrumentPayload demo_instrument) 1 ''k'' 5)
       (demo_decision 1 [SubmitCommand demo_limit])"

definition demo_keys :: "submit_key set" where
  "demo_keys = {(''s'', ''c1''), (''s'', ''c2'')}"
section \<open>The run\<close>

text \<open>The states after each operation, and what the first and the third returned.\<close>

record demo_trace =
  dt_submitted :: broker_state
  dt_outcome :: command_outcome
  dt_prepared :: broker_state
  dt_filled :: broker_state
  dt_result :: decision_batch_result
  dt_final :: broker_state

definition demo_trace_of_run :: "demo_trace result" where
  "demo_trace_of_run =
     ebind (submit demo_env demo_market (init_broker demo_env None)) (\<lambda>(a, out).
     ebind (run_op demo_env demo_instrument_batch a) (\<lambda>b.
     ebind (process_decision_batch demo_env demo_quote_envelope (demo_decision 2 []) b) (\<lambda>(c, r).
     ebind (run_op demo_env (CancelOp demo_cancel) c) (\<lambda>f.
     Inr \<lparr>dt_submitted = a, dt_outcome = out, dt_prepared = b, dt_filled = c, dt_result = r,
          dt_final = f\<rparr>))))"

definition demo_order_1 :: uuid where
  "demo_order_1 = UUID (''order'' @ unit_separator @ ''s'' @ unit_separator @ ''c1'')"

definition demo_order_2 :: uuid where
  "demo_order_2 = UUID (''order'' @ unit_separator @ ''s'' @ unit_separator @ ''c2'')"

definition order_status_of :: "broker_state \<Rightarrow> uuid \<Rightarrow> order_status option" where
  "order_status_of st oid = map_option or_status (dget (bs_orders st) oid)"

text \<open>What the witnesses need of the run, evaluated in one go.\<close>

definition demo_trace_ok :: "demo_trace \<Rightarrow> bool" where
  "demo_trace_ok t \<longleftrightarrow>
     map ev_event_type (bs_events (dt_final t)) = [ORDER_ACCEPTED, ORDER_ACCEPTED, FILL_RECORDED, ORDER_FILLED,
       POSITION_CHANGED, FILL_RECORDED, ORDER_PARTIALLY_FILLED, POSITION_CHANGED, ORDER_CANCELLED]
     \<and> ev_source_ingest_sequence (bs_events (dt_final t) ! 1) = Some 1
     \<and> (case ev_payload (bs_events (dt_final t) ! 1) of
          OrderPayload p \<Rightarrow> or_paper_order_id p = demo_order_2 | _ \<Rightarrow> False)
     \<and> map fi_paper_order_id (bs_fills (dt_final t)) = [demo_order_1, demo_order_2]
     \<and> (case dt_outcome t of OrderOutcome p \<Rightarrow> or_paper_order_id p = demo_order_1 | _ \<Rightarrow> False)
     \<and> order_status_of (dt_submitted t) demo_order_1 = Some ACCEPTED
     \<and> order_status_of (dt_filled t) demo_order_1 = Some FILLED
     \<and> order_status_of (dt_final t) demo_order_1 = Some FILLED
     \<and> order_status_of (dt_filled t) demo_order_2 = Some PARTIALLY_FILLED
     \<and> order_status_of (dt_final t) demo_order_2 = Some CANCELLED
     \<and> mr_disposition (br_match_result (dt_result t)) = PROCESSED
     \<and> list_all (\<lambda>p. expo (or_remaining_quantity p) = 0) (dvalues (bs_orders (dt_prepared t)))
     \<and> batch_top (dt_prepared t) demo_quote_envelope = Some
         \<lparr>qt_bid = Dec 99 0, qt_ask = Dec 100 0, qt_bid_capacity = Some (Dec 4 0),
          qt_ask_capacity = Some (Dec 4 0), qt_currency = None, qt_skip_reasons = []\<rparr>
     \<and> validate_checkpoint_state demo_env (dt_prepared t) = Inr ()
     \<and> validate_checkpoint_state demo_env (dt_final t) = Inl checkpoint_invalid"

lemma demo_run_ok: "(case demo_trace_of_run of Inl e \<Rightarrow> False | Inr t \<Rightarrow> demo_trace_ok t)"
  by code_simp

definition demo :: demo_trace where
  "demo = (case demo_trace_of_run of Inr t \<Rightarrow> t | Inl e \<Rightarrow> undefined)"


text \<open>What the demonstration run shows, in the form the witnesses use it.\<close>

lemma demo_trace_eq: "demo_trace_of_run = Inr demo" and demo_ok: "demo_trace_ok demo"
proof -
  from demo_run_ok obtain t where t: "demo_trace_of_run = Inr t" "demo_trace_ok t"
    by (metis (no_types, lifting) old.sum.exhaust old.sum.simps(5,6))
  have "demo = t" by (simp only: demo_def t sum.case)
  with t show "demo_trace_of_run = Inr demo" "demo_trace_ok demo" by (simp_all only:)
qed

lemma demo_trace_steps:
  assumes "demo_trace_of_run = Inr t"
  shows "submit demo_env demo_market (init_broker demo_env None) = Inr (dt_submitted t, dt_outcome t)
    \<and> run_op demo_env demo_instrument_batch (dt_submitted t) = Inr (dt_prepared t)
    \<and> process_decision_batch demo_env demo_quote_envelope (demo_decision 2 []) (dt_prepared t)
        = Inr (dt_filled t, dt_result t)
    \<and> run_op demo_env (CancelOp demo_cancel) (dt_filled t) = Inr (dt_final t)"
  using assms unfolding demo_trace_of_run_def ebind_eq_Inr by (elim exE conjE) (auto simp: err_simps)

lemmas demo_steps = demo_trace_steps [OF demo_trace_eq]
lemmas demo_step_1 = demo_steps [THEN conjunct1]
lemmas demo_step_2 = demo_steps [THEN conjunct2, THEN conjunct1]
lemmas demo_step_3 = demo_steps [THEN conjunct2, THEN conjunct2, THEN conjunct1]
lemmas demo_step_4 = demo_steps [THEN conjunct2, THEN conjunct2, THEN conjunct2]

lemma demo_inj: "inj_on (broker_order_id demo_env) demo_keys"
  by (simp add: inj_on_def demo_keys_def broker_order_id_def broker_uuid_def demo_env_def demo_hashes_def
      join_def unit_separator_def)

lemma demo_allowed:
  "op_allowed demo_keys (SubmitOp demo_market)" "op_allowed demo_keys demo_instrument_batch"
  "op_allowed demo_keys demo_quote_batch" "op_allowed demo_keys (CancelOp demo_cancel)"
  by (simp_all add: demo_keys_def demo_market_def demo_limit_def demo_intent_def intent_key_def
      demo_instrument_batch_def demo_quote_batch_def demo_decision_def)

lemma broker_step_run:
  "op_allowed K op \<Longrightarrow> run_op env op st = Inr st' \<Longrightarrow> (broker_step env K)\<^sup>*\<^sup>* st st'"
  unfolding broker_step_def by blast

lemma demo_reachable:
  shows demo_from_start: "(broker_step demo_env demo_keys)\<^sup>*\<^sup>* (init_broker demo_env None) (dt_submitted demo)"
    and demo_prepared: "(broker_step demo_env demo_keys)\<^sup>*\<^sup>* (dt_submitted demo) (dt_prepared demo)"
    and demo_filled: "(broker_step demo_env demo_keys)\<^sup>*\<^sup>* (dt_prepared demo) (dt_filled demo)"
    and demo_final: "(broker_step demo_env demo_keys)\<^sup>*\<^sup>* (dt_filled demo) (dt_final demo)"
  by (rule broker_step_run [OF demo_allowed(1)], simp only: run_op.simps demo_step_1 ebind_simps prod.case,
      rule broker_step_run [OF demo_allowed(2) demo_step_2],
      rule broker_step_run [OF demo_allowed(3)],
      simp only: demo_quote_batch_def run_op.simps demo_step_3 ebind_simps prod.case,
      rule broker_step_run [OF demo_allowed(4) demo_step_4])

lemma demo_all:
  "(broker_step demo_env demo_keys)\<^sup>*\<^sup>* (init_broker demo_env None) (dt_prepared demo)"
  "(broker_step demo_env demo_keys)\<^sup>*\<^sup>* (init_broker demo_env None) (dt_filled demo)"
  "(broker_step demo_env demo_keys)\<^sup>*\<^sup>* (init_broker demo_env None) (dt_final demo)"
  "(broker_step demo_env demo_keys)\<^sup>*\<^sup>* (dt_submitted demo) (dt_final demo)"
  using demo_from_start demo_prepared demo_filled demo_final by (auto elim: rtranclp_trans)
section \<open>Facts of the run\<close>

lemma demo_counts: "length (bs_events (dt_final demo)) = 9" "length (bs_fills (dt_final demo)) = 2"
  by (rule map_eq_imp_length_eq [of ev_event_type _ id, THEN trans], simp add: demo_ok [unfolded demo_trace_ok_def],
      simp, rule map_eq_imp_length_eq [of fi_paper_order_id _ id, THEN trans],
      simp add: demo_ok [unfolded demo_trace_ok_def], simp)

lemma demo_fill_2: "bs_fills (dt_final demo) ! 1 \<in> set (bs_fills (dt_final demo))"
  by (rule nth_mem) (simp add: demo_counts)

lemma demo_event_2: "bs_events (dt_final demo) ! 1 \<in> set (bs_events (dt_final demo))"
  by (rule nth_mem) (simp add: demo_counts)

lemma demo_accepted_by:
  "accepted_by (bs_events (dt_final demo) ! 1) (fi_paper_order_id (bs_fills (dt_final demo) ! 1)) 1"
proof -
  have "ev_event_type (bs_events (dt_final demo) ! 1) = map ev_event_type (bs_events (dt_final demo)) ! 1"
    "fi_paper_order_id (bs_fills (dt_final demo) ! 1) = map fi_paper_order_id (bs_fills (dt_final demo)) ! 1"
    by (simp_all add: demo_counts)
  then show ?thesis
    using demo_ok by (auto simp: accepted_by_def demo_trace_ok_def split: paper_event_payload.splits)
qed

lemma demo_limits: "paper_broker_limits_init (be_limits demo_env) = Inr (be_limits demo_env)"
  by (simp add: demo_env_def paper_broker_limits_init_def positive_int_def)

lemma demo_filled_order:
  obtains p where "dget (bs_orders (dt_filled demo)) demo_order_1 = Some p" "or_status p = FILLED"
  using demo_ok by (auto simp: demo_trace_ok_def order_status_of_def)

lemma demo_outcome:
  obtains p where "dt_outcome demo = OrderOutcome p"
  using demo_ok by (auto simp: demo_trace_ok_def split: command_outcome.splits)

lemma demo_processed: "mr_disposition (br_match_result (dt_result demo)) = PROCESSED"
  using demo_ok by (simp add: demo_trace_ok_def)

lemma dget_dvalues: "dget d k = Some v \<Longrightarrow> v \<in> set (dvalues d)"
  unfolding dget_def dvalues_def by (induction d) (auto split: if_splits)

lemma demo_grid: "dget (bs_orders (dt_prepared demo)) oid = Some p \<Longrightarrow> 0 \<le> expo (or_remaining_quantity p)"
  using demo_ok by (auto simp: demo_trace_ok_def list_all_iff dest!: dget_dvalues)

lemma demo_capacity: "batch_capacity BUY (dt_prepared demo) demo_quote_envelope = Some (Dec 4 0)"
  using demo_ok by (simp add: demo_trace_ok_def batch_capacity_def top_capacity_def)

end
