(* ===== verification/Broker_Theorems.thy ===== *)
theory Broker_Theorems
  imports Broker_Retries Broker_Limits Broker_Demo
begin

text \<open>
  The properties of the paper broker over every run: the refinement of the book, causality, the journal,
  positions, capacities, idempotence, order of processing. Each is a few steps over the invariants of
  \<open>Broker_Run\<close>, and applied to the demonstration run.
\<close>

section \<open>Properties of every reachable state\<close>

text \<open>C1: the broker refines the order book. Every operation that returns, from a reachable state, runs a
  finite sequence of book steps (reject, accept, cancel, fill), each with the guards of the book.\<close>

theorem broker_refines_book:
  assumes "inj_on (broker_order_id env) K" and "(broker_step env K)\<^sup>*\<^sup>* (init_broker env session) st"
    and "op_allowed K op" and "run_op env op st = Inr st'"
  shows "(book_step env)\<^sup>*\<^sup>* (book_of st) (book_of st')"
proof -
  have "broker_step env K st st'" using assms(3,4) unfolding broker_step_def by blast
  from broker_step_advance [OF reachable(1) [OF assms(1,2)] this] show ?thesis by (simp add: advance_def)
qed

lemma broker_refines_book_witness:
  "(book_step demo_env)\<^sup>*\<^sup>* (book_of (dt_filled demo)) (book_of (dt_final demo))"
  by (rule broker_refines_book [OF demo_inj demo_all(2) demo_allowed(4) demo_step_4])

text \<open>C2: no look-ahead. An order whose acceptance was caused by the envelope with ingest sequence \<open>n\<close> is
  only ever filled by envelopes with a strictly greater sequence.\<close>

theorem no_look_ahead:
  assumes "inj_on (broker_order_id env) K" and "(broker_step env K)\<^sup>*\<^sup>* (init_broker env session) st"
    and "e \<in> set (bs_events st)" and "accepted_by e (fi_paper_order_id f) n" and "f \<in> set (bs_fills st)"
  shows "n < fi_source_ingest_sequence f"
proof -
  note inv = reachable(2) [OF assms(1,2)]
  have "dget (bs_eligibility_sequence st) (fi_paper_order_id f) = Some n"
    using inv assms(3,4) by (auto simp: book_inv_def acceptances_ok_def)
  with inv assms(5) show ?thesis by (auto simp: book_inv_def fills_ok_def fill_matches_def)
qed

lemma no_look_ahead_witness: "1 < fi_source_ingest_sequence (bs_fills (dt_final demo) ! 1)"
  by (rule no_look_ahead [OF demo_inj demo_all(3) demo_event_2 demo_accepted_by demo_fill_2])

text \<open>The journal has no gaps. The event at position \<open>k\<close> has paper sequence \<open>k + 1\<close>, belongs to the
  run, carries the identifier derived from its sequence and type, and satisfies the event contract.\<close>

theorem journal_gap_free:
  assumes "inj_on (broker_order_id env) K" and "(broker_step env K)\<^sup>*\<^sup>* (init_broker env session) st"
    and "k < length (bs_events st)"
  shows "event_ok env (int k + 1) (bs_events st ! k)
    \<and> bs_next_paper_sequence st = int (length (bs_events st)) + 1"
  using reachable(2,3) [OF assms(1,2)] assms(3)
  by (simp add: book_inv_def journal_ok_def numbered_def)

lemma journal_gap_free_witness: "event_ok demo_env 9 (bs_events (dt_final demo) ! 8)"
  using journal_gap_free [OF demo_inj demo_all(3), of 8] by (simp add: demo_counts)

text \<open>C3: the journal is the state. Replaying the payloads of the events in order rebuilds the orders, the
  positions and the fills of the broker exactly.\<close>

theorem journal_replays_state:
  assumes "inj_on (broker_order_id env) K" and "(broker_step env K)\<^sup>*\<^sup>* (init_broker env session) st"
  shows "replay_journal (bs_events st) = (bs_orders st, bs_positions st, bs_fills st)"
  using reachable(2) [OF assms] by (simp add: book_inv_def journal_complete_def)

lemma journal_replays_state_witness:
  "replay_journal (bs_events (dt_final demo))
     = (bs_orders (dt_final demo), bs_positions (dt_final demo), bs_fills (dt_final demo))"
  by (rule journal_replays_state [OF demo_inj demo_all(3)])

text \<open>C17: every fill belongs to an order of the broker and honours its intent: the same run, strategy,
  account, instrument, side and market-data session, not before the intent was created, a positive
  quantity, a price no worse than the limit and no better than the quoted reference, after the order
  became eligible.\<close>

theorem fills_honour_orders:
  assumes "inj_on (broker_order_id env) K" and "(broker_step env K)\<^sup>*\<^sup>* (init_broker env session) st"
    and "f \<in> set (bs_fills st)"
  shows "\<exists>p k. dget (bs_orders st) (fi_paper_order_id f) = Some p
    \<and> dget (bs_eligibility_sequence st) (fi_paper_order_id f) = Some k \<and> fill_matches env (or_intent p) k f"
  using reachable(2) [OF assms(1,2)] assms(3) by (simp add: book_inv_def fills_ok_def)

lemma fills_honour_orders_witness:
  "\<exists>p k. dget (bs_orders (dt_final demo)) (fi_paper_order_id (bs_fills (dt_final demo) ! 1)) = Some p
    \<and> dget (bs_eligibility_sequence (dt_final demo)) (fi_paper_order_id (bs_fills (dt_final demo) ! 1)) = Some k
    \<and> fill_matches demo_env (or_intent p) k (bs_fills (dt_final demo) ! 1)"
  by (rule fills_honour_orders [OF demo_inj demo_all(3) demo_fill_2])

text \<open>C16: positions are the exact sums of the fills. For every key the net quantity is the signed sum of the
  quantities of its fills, the fees the sum of their fees, and the version their number.\<close>

theorem positions_are_sums:
  assumes "inj_on (broker_order_id env) K" and "(broker_step env K)\<^sup>*\<^sup>* (init_broker env session) st"
  shows "net_value (dget (bs_positions st) key)
      = (\<Sum>f\<leftarrow>fills_of key (bs_fills st). dval (signed_quantity f))
    \<and> fees_value (dget (bs_positions st) key) = (\<Sum>f\<leftarrow>fills_of key (bs_fills st). dval (fi_fee f))
    \<and> version_of (dget (bs_positions st) key) = int (length (fills_of key (bs_fills st)))"
  using reachable(2) [OF assms] by (simp add: book_inv_def positions_ok_def position_of_def)

lemma positions_are_sums_witness:
  "net_value (dget (bs_positions (dt_final demo)) (''s'', ''a'', ''TXF''))
     = (\<Sum>f\<leftarrow>fills_of (''s'', ''a'', ''TXF'') (bs_fills (dt_final demo)). dval (signed_quantity f))"
  using positions_are_sums [OF demo_inj demo_all(3)] by blast

text \<open>The capacities hold. Orders, open orders, cached outcomes, events, fills, positions, metadata
  versions and market-data records stay within the configured limits.\<close>

theorem capacities_hold:
  assumes "paper_broker_limits_init (be_limits env) = Inr l" and "inj_on (broker_order_id env) K"
    and "(broker_step env K)\<^sup>*\<^sup>* (init_broker env session) st"
  shows "limits_ok env st"
  by (rule reachable_limits [OF assms])

lemma capacities_hold_witness: "limits_ok demo_env (dt_final demo)"
  by (rule capacities_hold [OF demo_limits demo_inj demo_all(3)])

section \<open>Properties of runs\<close>

text \<open>Orders only move forward. From any reachable state to any later one an order keeps its identity
  and intent, its filled quantity does not shrink, and once it is filled, cancelled or rejected it never
  changes again.\<close>

theorem orders_move_forward:
  assumes "inj_on (broker_order_id env) K" and "(broker_step env K)\<^sup>*\<^sup>* (init_broker env session) st"
    and "(broker_step env K)\<^sup>*\<^sup>* st st'" and "dget (bs_orders st) oid = Some p"
  shows "\<exists>q. dget (bs_orders st') oid = Some q \<and> or_intent q = or_intent p \<and> order_progress p q
    \<and> (is_terminal (or_status p) \<longrightarrow> q = p)"
proof -
  from later(3) [OF reachable(1) [OF assms(1,2)] assms(3)] assms(4) obtain q where
    "dget (bs_orders st') oid = Some q" "or_intent q = or_intent p" "order_step\<^sup>*\<^sup>* p q"
    by (auto simp: book_progress_def orders_advance_def)
  with order_chain_facts show ?thesis by blast
qed

lemma orders_move_forward_witness:
  "\<exists>p. dget (bs_orders (dt_filled demo)) demo_order_1 = Some p
     \<and> dget (bs_orders (dt_final demo)) demo_order_1 = Some p"
proof -
  obtain p where p: "dget (bs_orders (dt_filled demo)) demo_order_1 = Some p" "or_status p = FILLED"
    by (rule demo_filled_order)
  from orders_move_forward [OF demo_inj demo_all(2) demo_final p(1)] p show ?thesis
    by (auto simp: is_terminal_def)
qed

text \<open>History is append-only. Every event, fill and acceptance of a reachable state is still there, at
  the same place, in every later state.\<close>

theorem history_is_append_only:
  assumes "inj_on (broker_order_id env) K" and "(broker_step env K)\<^sup>*\<^sup>* (init_broker env session) st"
    and "(broker_step env K)\<^sup>*\<^sup>* st st'"
  shows "prefix (bs_events st) (bs_events st') \<and> prefix (bs_fills st) (bs_fills st')
    \<and> dict_extends (bs_acceptance_ordinal st) (bs_acceptance_ordinal st')
    \<and> dict_extends (bs_eligibility_sequence st) (bs_eligibility_sequence st')"
  using later(3) [OF reachable(1) [OF assms(1,2)] assms(3)] by (simp add: book_progress_def)

lemma history_is_append_only_witness: "prefix (bs_events (dt_filled demo)) (bs_events (dt_final demo))"
  using history_is_append_only [OF demo_inj demo_all(2) demo_final] by blast

text \<open>C18: submission is idempotent. When a fresh intent was accepted, submitting it again in any later state
  changes nothing and returns the current version of the same order.\<close>

theorem resubmission_is_idempotent:
  assumes "inj_on (broker_order_id env) K" and "(broker_step env K)\<^sup>*\<^sup>* (init_broker env session) st"
    and "intent_key i \<in> K" and "dget (bs_submit_outcomes st) (intent_key i) = None"
    and "submit env i st = Inr (st1, OrderOutcome p)" and "(broker_step env K)\<^sup>*\<^sup>* st1 st'"
  shows "\<exists>q. submit env i st' = Inr (st', OrderOutcome q)
    \<and> dget (bs_orders st') (or_paper_order_id p) = Some q \<and> order_step\<^sup>*\<^sup>* p q"
  by (rule submit_retry [OF reachable(1) [OF assms(1,2)] assms(3-6)])

lemma resubmission_is_idempotent_witness:
  "\<exists>q. submit demo_env demo_market (dt_final demo) = Inr (dt_final demo, OrderOutcome q)"
proof -
  obtain p where "dt_outcome demo = OrderOutcome p" by (rule demo_outcome)
  with demo_step_1 have first: "submit demo_env demo_market (init_broker demo_env None)
      = Inr (dt_submitted demo, OrderOutcome p)" by simp
  have "intent_key demo_market \<in> demo_keys"
    by (simp add: demo_keys_def demo_market_def demo_intent_def intent_key_def)
  moreover have "dget (bs_submit_outcomes (init_broker demo_env None)) (intent_key demo_market) = None"
    by (simp add: init_broker_def)
  ultimately show ?thesis
    using resubmission_is_idempotent [OF demo_inj rtranclp.rtrancl_refl _ _ first demo_all(4)] by blast
qed

text \<open>C19: delivery is idempotent. A batch that was committed is, in every later state, recognised as a
  duplicate: it returns without fills, events or command results and leaves the state as it is.\<close>

theorem redelivery_is_idempotent:
  assumes "inj_on (broker_order_id env) K" and "(broker_step env K)\<^sup>*\<^sup>* (init_broker env session) st"
    and "list_all (command_key_in K) (de_commands d)"
    and "process_decision_batch env e d st = Inr (st1, r1)" and "(broker_step env K)\<^sup>*\<^sup>* st1 st'"
  shows "\<exists>r. process_decision_batch env e d st' = Inr (st', r)
    \<and> mr_disposition (br_match_result r) = DUPLICATE \<and> mr_fills (br_match_result r) = []
    \<and> br_events r = [] \<and> br_command_results r = []"
  by (rule batch_redelivered [OF reachable(1) [OF assms(1,2)] assms(4,3,5)])

lemma redelivery_is_idempotent_witness:
  "\<exists>r. process_decision_batch demo_env demo_quote_envelope (demo_decision 2 []) (dt_final demo)
     = Inr (dt_final demo, r) \<and> mr_disposition (br_match_result r) = DUPLICATE"
proof -
  have "list_all (command_key_in demo_keys) (de_commands (demo_decision 2 []))"
    by (simp add: demo_decision_def)
  from redelivery_is_idempotent [OF demo_inj demo_all(1) this demo_step_3 demo_final] show ?thesis by blast
qed

text \<open>Market data is processed once and in order. A processed batch moves the last committed sequence to
  that of its envelope, which is greater than any before it, its dedupe key was new, and the snapshot
  version grows by one.\<close>

theorem market_data_in_order:
  assumes "inj_on (broker_order_id env) K" and "(broker_step env K)\<^sup>*\<^sup>* (init_broker env session) st"
    and "process_decision_batch env e d st = Inr (st', r)" and "mr_disposition (br_match_result r) = PROCESSED"
  shows "bs_last_sequence st' = Some (en_ingest_sequence e)
    \<and> (\<forall>n. bs_last_sequence st = Some n \<longrightarrow> n < en_ingest_sequence e)
    \<and> dget (bs_dedupe_sequences st) (sha256_hex (be_hashes env) (utf8 (en_dedupe_key e))) = None
    \<and> bs_snapshot_version st' = bs_snapshot_version st + 1"
  by (rule processed_fence [OF assms(3) reachable(4) [OF assms(1,2)] assms(4)])

lemma market_data_in_order_witness: "bs_last_sequence (dt_filled demo) = Some 2"
proof -
  have "en_ingest_sequence demo_quote_envelope = 2"
    by (simp add: demo_quote_envelope_def demo_envelope_def)
  with market_data_in_order [OF demo_inj demo_all(1) demo_step_3 demo_processed] show ?thesis by simp
qed

section \<open>Properties of batches\<close>

text \<open>First come, first served. The fills of a batch are appended to the fills of the broker in the
  order in which their orders were accepted, at most one for each order.\<close>

theorem fills_in_acceptance_order:
  assumes "inj_on (broker_order_id env) K" and "(broker_step env K)\<^sup>*\<^sup>* (init_broker env session) st"
    and "process_decision_batch env e d st = Inr (st', r)"
  shows "bs_fills st' = bs_fills st @ mr_fills (br_match_result r)
    \<and> subseq (map fi_paper_order_id (mr_fills (br_match_result r))) (dkeys (bs_orders st))
    \<and> map snd (bs_acceptance_ordinal st) = map (\<lambda>n. int n + 1) [0..<length (bs_orders st)]
    \<and> map fst (bs_acceptance_ordinal st) = dkeys (bs_orders st)"
  using process_fills_in_order [OF assms(3)] reachable(2) [OF assms(1,2)]
    ordered_ids_acceptance [OF reachable(2) [OF assms(1,2)]]
  by (simp add: book_inv_def ordinals_ok_def) (simp add: dvalues_def dkeys_def)

lemma fills_in_acceptance_order_witness:
  "subseq (map fi_paper_order_id (mr_fills (br_match_result (dt_result demo))))
     (dkeys (bs_orders (dt_prepared demo)))"
  using fills_in_acceptance_order [OF demo_inj demo_all(1) demo_step_3] by blast

text \<open>The quoted quantity is not oversold. When the remaining quantities and the quoted quantity are
  multiples of one power of ten within 34 digits, the buys of a batch together fill at most the ask
  quantity of the quote and the sells at most its bid quantity.\<close>

theorem quoted_quantity_shared:
  assumes "inj_on (broker_order_id env) K" and "(broker_step env K)\<^sup>*\<^sup>* (init_broker env session) st"
    and "process_decision_batch env e d st = Inr (st', r)" and "-1000032 \<le> g" and "g \<le> 999999"
    and "\<And>oid p. dget (bs_orders st) oid = Some p \<Longrightarrow> g \<le> expo (or_remaining_quantity p)"
    and "\<And>c. batch_capacity s st e = Some c \<Longrightarrow> g \<le> expo c \<and> below_bound g (dval c)"
  shows "case batch_capacity s st e of
      None \<Rightarrow> filter (\<lambda>f. fi_side f = s) (mr_fills (br_match_result r)) = []
    | Some c \<Rightarrow> side_total s (mr_fills (br_match_result r)) \<le> dval c"
  by (rule process_capacity [OF assms(3) distinct_ordered_ids [OF reachable(2) [OF assms(1,2)]] assms(6,4,5,7)])

lemma quoted_quantity_shared_witness: "side_total BUY (mr_fills (br_match_result (dt_result demo))) \<le> 4"
proof -
  have "0 \<le> expo c \<and> below_bound 0 (dval c)"
    if "batch_capacity BUY (dt_prepared demo) demo_quote_envelope = Some c" for c
    using that by (auto simp: demo_capacity below_bound_def dval_def)
  from quoted_quantity_shared [where g = 0 and s = BUY, OF demo_inj demo_all(1) demo_step_3 _ _ demo_grid this]
  show ?thesis by (auto simp: demo_capacity dval_def)
qed


text \<open>
  What the model shows the broker does and does not intend: order identifiers are derived by joining the
  strategy and the client order id with a separator that both may contain, so different keys can share
  one identifier and the second acceptance replaces the first order; and the fills of one quote are
  numbered across orders, while the checkpoint validation numbers them for each order.
\<close>

text \<open>Two different submit keys get the same order identifier whenever moving the unit separator from
  one part to the other turns one into the other, whatever the hash function and the run.\<close>

theorem order_ids_collide:
  "broker_order_id env (a @ unit_separator @ b, c) = broker_order_id env (a, b @ unit_separator @ c)"
  by (simp add: broker_order_id_def broker_uuid_def join_def)




end
