(* ===== verification/Live_Contracts.thy ===== *)
theory Live_Contracts
  imports PyText
begin

text \<open>
  The broker-neutral contracts of live orders, \<open>orders/live_contracts.py\<close>: enumerations, commands,
  pending bindings, orders, dispatch receipts, normalised broker events, canonical encoding and
  fingerprints. Decimals are added and subtracted in the default context of 28 digits, since this
  module sets none. Constructors that share a name with another enumeration carry a prefix.
\<close>

section \<open>Enumerations\<close>

datatype live_side = BUY | SELL
datatype live_order_type = MARKET | LIMIT
datatype live_time_in_force = DAY | IOC | FOK

datatype live_order_state =
    CREATED | VALIDATED | SUBMITTING | ACCEPTED | PARTIALLY_FILLED | FILLED | REJECTED
  | CANCEL_PENDING | CANCELLED | SUBMISSION_UNKNOWN | RECONCILING

definition live_is_terminal :: "live_order_state \<Rightarrow> bool" where
  "live_is_terminal s = (s \<in> {FILLED, REJECTED, CANCELLED})"

datatype live_command_kind = NEW | CANCEL | AMEND | DECREASE
datatype dispatch_state = SUCCEEDED | FAILED | UNKNOWN
datatype command_deduplication = FIRST_SEEN | EXACT_RETRY | PAYLOAD_CONFLICT

datatype broker_order_event_type =
    NEW_ACCEPTED | NEW_REJECTED | BROKER_CANCEL_PENDING | BROKER_CANCELLED | CANCEL_REJECTED
  | DYNAMIC_CANCELLED | PRICE_AMENDED | QUANTITY_DECREASED | PRICE_AND_QUANTITY_AMENDED
  | AMEND_REJECTED | OUTCOME_UNKNOWN

datatype correlation_status = CANDIDATE | CONFIRMED | AMBIGUOUS
datatype account_readiness = READY | NOT_READY | READINESS_UNKNOWN

datatype live_failure_code =
    INVALID_COMMAND | IDEMPOTENCY_CONFLICT | ACCOUNT_NOT_READY | RISK_REJECTED | DISPATCH_FAILED
  | DISPATCH_OUTCOME_UNKNOWN | BROKER_REJECTED | FAIL_CANCEL_REJECTED | FAIL_AMEND_REJECTED
  | BROKER_TIMEOUT | CORRELATION_CONFLICT | BROKER_EVENT_INVALID | RECONCILIATION_REQUIRED
  | INTERNAL_FAILURE

fun live_side_value :: "live_side \<Rightarrow> string" where
  "live_side_value BUY = ''buy''"
| "live_side_value SELL = ''sell''"

fun live_type_value :: "live_order_type \<Rightarrow> string" where
  "live_type_value MARKET = ''market''"
| "live_type_value LIMIT = ''limit''"

fun live_tif_value :: "live_time_in_force \<Rightarrow> string" where
  "live_tif_value DAY = ''day''"
| "live_tif_value IOC = ''ioc''"
| "live_tif_value FOK = ''fok''"

fun live_state_value :: "live_order_state \<Rightarrow> string" where
  "live_state_value CREATED = ''created''"
| "live_state_value VALIDATED = ''validated''"
| "live_state_value SUBMITTING = ''submitting''"
| "live_state_value ACCEPTED = ''accepted''"
| "live_state_value PARTIALLY_FILLED = ''partially_filled''"
| "live_state_value FILLED = ''filled''"
| "live_state_value REJECTED = ''rejected''"
| "live_state_value CANCEL_PENDING = ''cancel_pending''"
| "live_state_value CANCELLED = ''cancelled''"
| "live_state_value SUBMISSION_UNKNOWN = ''submission_unknown''"
| "live_state_value RECONCILING = ''reconciling''"

fun kind_value :: "live_command_kind \<Rightarrow> string" where
  "kind_value NEW = ''new''"
| "kind_value CANCEL = ''cancel''"
| "kind_value AMEND = ''amend''"
| "kind_value DECREASE = ''decrease''"

fun dispatch_state_value :: "dispatch_state \<Rightarrow> string" where
  "dispatch_state_value SUCCEEDED = ''succeeded''"
| "dispatch_state_value FAILED = ''failed''"
| "dispatch_state_value UNKNOWN = ''unknown''"

fun broker_event_value :: "broker_order_event_type \<Rightarrow> string" where
  "broker_event_value NEW_ACCEPTED = ''new_accepted''"
| "broker_event_value NEW_REJECTED = ''new_rejected''"
| "broker_event_value BROKER_CANCEL_PENDING = ''cancel_pending''"
| "broker_event_value BROKER_CANCELLED = ''cancelled''"
| "broker_event_value CANCEL_REJECTED = ''cancel_rejected''"
| "broker_event_value DYNAMIC_CANCELLED = ''dynamic_cancelled''"
| "broker_event_value PRICE_AMENDED = ''price_amended''"
| "broker_event_value QUANTITY_DECREASED = ''quantity_decreased''"
| "broker_event_value PRICE_AND_QUANTITY_AMENDED = ''price_and_quantity_amended''"
| "broker_event_value AMEND_REJECTED = ''amend_rejected''"
| "broker_event_value OUTCOME_UNKNOWN = ''outcome_unknown''"

fun failure_value :: "live_failure_code \<Rightarrow> string" where
  "failure_value INVALID_COMMAND = ''invalid_command''"
| "failure_value IDEMPOTENCY_CONFLICT = ''idempotency_conflict''"
| "failure_value ACCOUNT_NOT_READY = ''account_not_ready''"
| "failure_value RISK_REJECTED = ''risk_rejected''"
| "failure_value DISPATCH_FAILED = ''dispatch_failed''"
| "failure_value DISPATCH_OUTCOME_UNKNOWN = ''dispatch_outcome_unknown''"
| "failure_value BROKER_REJECTED = ''broker_rejected''"
| "failure_value FAIL_CANCEL_REJECTED = ''cancel_rejected''"
| "failure_value FAIL_AMEND_REJECTED = ''amend_rejected''"
| "failure_value BROKER_TIMEOUT = ''broker_timeout''"
| "failure_value CORRELATION_CONFLICT = ''correlation_conflict''"
| "failure_value BROKER_EVENT_INVALID = ''broker_event_invalid''"
| "failure_value RECONCILIATION_REQUIRED = ''reconciliation_required''"
| "failure_value INTERNAL_FAILURE = ''internal_failure''"

fun failure_message :: "live_failure_code \<Rightarrow> string" where
  "failure_message INVALID_COMMAND = ''live command is invalid''"
| "failure_message IDEMPOTENCY_CONFLICT = ''live command idempotency conflict''"
| "failure_message ACCOUNT_NOT_READY = ''live account is not ready''"
| "failure_message RISK_REJECTED = ''live command was rejected by risk controls''"
| "failure_message DISPATCH_FAILED = ''live command dispatch failed''"
| "failure_message DISPATCH_OUTCOME_UNKNOWN = ''live command dispatch outcome is unknown''"
| "failure_message BROKER_REJECTED = ''live command was rejected by broker''"
| "failure_message FAIL_CANCEL_REJECTED = ''live cancel was rejected by broker''"
| "failure_message FAIL_AMEND_REJECTED = ''live amendment was rejected by broker''"
| "failure_message BROKER_TIMEOUT = ''live broker outcome timed out''"
| "failure_message CORRELATION_CONFLICT = ''live broker correlation is ambiguous''"
| "failure_message BROKER_EVENT_INVALID = ''live broker event is invalid''"
| "failure_message RECONCILIATION_REQUIRED = ''live state requires reconciliation''"
| "failure_message INTERNAL_FAILURE = ''live operation failed''"

section \<open>Value checks\<close>

definition is_alnum_ascii :: "char \<Rightarrow> bool" where
  "is_alnum_ascii c = (let n = (of_char c :: int) in
     (48 \<le> n \<and> n \<le> 57) \<or> (65 \<le> n \<and> n \<le> 90) \<or> (97 \<le> n \<and> n \<le> 122))"

text \<open>The regular expression of identifiers: a letter or digit, then up to 127 of the wider alphabet.\<close>

definition identifier_ok :: "string \<Rightarrow> bool" where
  "identifier_ok v =
     (case v of
        [] \<Rightarrow> False
      | c # cs \<Rightarrow> is_alnum_ascii c \<and> length cs \<le> 127
          \<and> list_all (\<lambda>x. is_alnum_ascii x \<or> x \<in> set ''._:/-'') cs)"

definition live_identifier :: "string \<Rightarrow> string \<Rightarrow> unit result" where
  "live_identifier name v =
     require (identifier_ok v) (ValueError (name @ '' must be 1..128 ASCII identifier characters''))"

definition live_decimal :: "bool \<Rightarrow> bool \<Rightarrow> string \<Rightarrow> decimal \<Rightarrow> unit result" where
  "live_decimal positive nonnegative name v =
     ethen (require (ndigits \<bar>coef v\<bar> \<le> 34 \<and> -6143 \<le> expo v \<and> expo v \<le> 6144)
              (ValueError (name @ '' exceeds supported Decimal bounds''))) (
     ethen (require (positive \<longrightarrow> dpos v) (ValueError (name @ '' must be greater than zero'')))
       (require (nonnegative \<longrightarrow> dnonneg v) (ValueError (name @ '' must be non-negative''))))"

definition live_positive_int :: "string \<Rightarrow> int \<Rightarrow> unit result" where
  "live_positive_int name v = require (1 \<le> v) (ValueError (name @ '' must be positive''))"

definition live_fingerprint_ok :: "string \<Rightarrow> string \<Rightarrow> unit result" where
  "live_fingerprint_ok name v =
     require (take 7 v = ''sha256:'' \<and> length (drop 7 v) = 64
              \<and> list_all (\<lambda>c. c \<in> set ''0123456789abcdef'') (drop 7 v))
       (ValueError (name @ '' must be a sha256 fingerprint''))"

section \<open>Intents and commands\<close>

record live_order_intent =
  li_strategy_id :: string
  li_client_order_id :: string
  li_account_id :: string
  li_instrument_id :: string
  li_side :: live_side
  li_quantity :: decimal
  li_order_type :: live_order_type
  li_limit_price :: "decimal option"
  li_time_in_force :: live_time_in_force
  li_day_trade :: bool
  li_created_at :: instant

definition live_order_intent_init :: "live_order_intent \<Rightarrow> live_order_intent result" where
  "live_order_intent_init i =
     ethen (live_identifier ''strategy_id'' (li_strategy_id i)) (
     ethen (live_identifier ''client_order_id'' (li_client_order_id i)) (
     ethen (live_identifier ''account_id'' (li_account_id i)) (
     ethen (live_identifier ''instrument_id'' (li_instrument_id i)) (
     ethen (live_decimal True False ''quantity'' (li_quantity i)) (
     ethen (optionally (live_decimal True False ''limit_price'') (li_limit_price i)) (
     ethen (require (\<not> (li_order_type i = MARKET \<and> li_limit_price i \<noteq> None))
              (ValueError ''market order must not have limit_price'')) (
     ethen (require (\<not> (li_order_type i = LIMIT \<and> li_limit_price i = None))
              (ValueError ''limit order requires limit_price''))
     (Inr i))))))))"

definition same_live_intent :: "live_order_intent \<Rightarrow> live_order_intent \<Rightarrow> bool" where
  "same_live_intent a b \<longleftrightarrow>
     li_strategy_id a = li_strategy_id b \<and> li_client_order_id a = li_client_order_id b
     \<and> li_account_id a = li_account_id b \<and> li_instrument_id a = li_instrument_id b
     \<and> li_side a = li_side b \<and> deq (li_quantity a) (li_quantity b)
     \<and> li_order_type a = li_order_type b \<and> opt_deq (li_limit_price a) (li_limit_price b)
     \<and> li_time_in_force a = li_time_in_force b \<and> li_day_trade a = li_day_trade b
     \<and> li_created_at a = li_created_at b"

record new_order_command =
  nw_client_command_id :: string
  nw_intent :: live_order_intent
  nw_requested_at :: instant

record cancel_order_command =
  cc_client_command_id :: string
  cc_client_order_id :: string
  cc_requested_at :: instant

record amend_order_command =
  am_client_command_id :: string
  am_client_order_id :: string
  am_new_limit_price :: decimal
  am_requested_at :: instant

record decrease_order_command =
  dc_client_command_id :: string
  dc_client_order_id :: string
  dc_expected_total_quantity :: decimal
  dc_new_total_quantity :: decimal
  dc_requested_at :: instant

definition new_order_command_init :: "new_order_command \<Rightarrow> new_order_command result" where
  "new_order_command_init c = ethen (live_identifier ''client_command_id'' (nw_client_command_id c)) (Inr c)"

definition cancel_order_command_init :: "cancel_order_command \<Rightarrow> cancel_order_command result" where
  "cancel_order_command_init c =
     ethen (live_identifier ''client_command_id'' (cc_client_command_id c)) (
     ethen (live_identifier ''client_order_id'' (cc_client_order_id c)) (Inr c))"

definition amend_order_command_init :: "amend_order_command \<Rightarrow> amend_order_command result" where
  "amend_order_command_init c =
     ethen (live_identifier ''client_command_id'' (am_client_command_id c)) (
     ethen (live_identifier ''client_order_id'' (am_client_order_id c)) (
     ethen (live_decimal True False ''new_limit_price'' (am_new_limit_price c)) (Inr c)))"

definition decrease_order_command_init :: "decrease_order_command \<Rightarrow> decrease_order_command result" where
  "decrease_order_command_init c =
     ethen (live_identifier ''client_command_id'' (dc_client_command_id c)) (
     ethen (live_identifier ''client_order_id'' (dc_client_order_id c)) (
     ethen (live_decimal True False ''expected_total_quantity'' (dc_expected_total_quantity c)) (
     ethen (live_decimal True False ''new_total_quantity'' (dc_new_total_quantity c)) (
     ethen (require (dlt (dc_new_total_quantity c) (dc_expected_total_quantity c))
              (ValueError ''new_total_quantity must be less than expected_total_quantity''))
     (Inr c)))))"

datatype live_command =
    NewOrderCommand new_order_command
  | CancelOrderCommand cancel_order_command
  | AmendOrderCommand amend_order_command
  | DecreaseOrderCommand decrease_order_command

fun command_kind_of :: "live_command \<Rightarrow> live_command_kind" where
  "command_kind_of (NewOrderCommand c) = NEW"
| "command_kind_of (CancelOrderCommand c) = CANCEL"
| "command_kind_of (AmendOrderCommand c) = AMEND"
| "command_kind_of (DecreaseOrderCommand c) = DECREASE"

fun command_id_of :: "live_command \<Rightarrow> string" where
  "command_id_of (NewOrderCommand c) = nw_client_command_id c"
| "command_id_of (CancelOrderCommand c) = cc_client_command_id c"
| "command_id_of (AmendOrderCommand c) = am_client_command_id c"
| "command_id_of (DecreaseOrderCommand c) = dc_client_command_id c"

fun requested_at_of :: "live_command \<Rightarrow> instant" where
  "requested_at_of (NewOrderCommand c) = nw_requested_at c"
| "requested_at_of (CancelOrderCommand c) = cc_requested_at c"
| "requested_at_of (AmendOrderCommand c) = am_requested_at c"
| "requested_at_of (DecreaseOrderCommand c) = dc_requested_at c"
section \<open>Canonical encoding\<close>

text \<open>\<open>Decimal.normalize\<close>: round to the context, then drop the trailing zeros.\<close>

function drop_zeros :: "int \<Rightarrow> int \<Rightarrow> int \<times> int" where
  "drop_zeros n e =
     (if n \<le> 0 \<or> n mod 10 \<noteq> 0 \<or> emax default_ctx \<le> e then (n, e) else drop_zeros (n div 10) (e + 1))"
  by pat_completeness auto
termination by (relation "measure (nat \<circ> fst)") auto

declare drop_zeros.simps [simp del]

definition normalize_decimal :: "decimal \<Rightarrow> decimal result" where
  "normalize_decimal v =
     ebind (dplus default_ctx v) (\<lambda>r.
     if coef r = 0 then Inr (Dec 0 0)
     else let (n, e) = drop_zeros \<bar>coef r\<bar> (expo r) in Inr (Dec (if coef r < 0 then - n else n) e))"

definition live_canonical_decimal :: "decimal \<Rightarrow> string result" where
  "live_canonical_decimal v =
     (if coef v = 0 then Inr ''0''
      else
        ebind (normalize_decimal v) (\<lambda>r.
        let coefficient = show_digits \<bar>coef r\<bar>;
            len = int (length coefficient);
            adjusted = expo r + len - 1;
            scientific_coefficient =
              (if len = 1 then coefficient else take 1 coefficient @ ''.'' @ drop 1 coefficient);
            scientific = (if adjusted = 0 then scientific_coefficient
                          else scientific_coefficient @ ''e'' @ show_int adjusted);
            point = len + expo r;
            plain = (if point \<le> 0 then ''0.'' @ replicate (nat (- point)) (CHR ''0'') @ coefficient
                     else if len \<le> point then coefficient @ replicate (nat (expo r)) (CHR ''0'')
                     else take (nat point) coefficient @ ''.'' @ drop (nat point) coefficient);
            text = (if length scientific < length plain then scientific else plain)
        in Inr (if coef r < 0 then ''-'' @ text else text)))"

definition json_live_decimal :: "decimal \<Rightarrow> json result" where
  "json_live_decimal v = ebind (live_canonical_decimal v) (\<lambda>s. Inr (JStr s))"

definition json_live_optional :: "decimal option \<Rightarrow> json result" where
  "json_live_optional v = (case v of None \<Rightarrow> Inr JNull | Some d \<Rightarrow> json_live_decimal d)"

text \<open>\<open>isoformat\<close> in UTC with the offset written \<open>Z\<close>.\<close>

definition utc_isoformat :: "instant \<Rightarrow> string" where
  "utc_isoformat t =
     (let us = t mod 1000000; secs = t div 1000000; sod = secs mod 86400
      in date_isoformat (secs div 86400) @ ''T''
         @ pad 2 (show_int (sod div 3600)) @ '':'' @ pad 2 (show_int (sod mod 3600 div 60)) @ '':''
         @ pad 2 (show_int (sod mod 60)) @ (if us = 0 then [] else ''.'' @ pad 6 (show_int us)) @ ''Z'')"

definition json_utc :: "instant \<Rightarrow> json" where
  "json_utc t = JStr (utc_isoformat t)"

definition json_live_intent :: "live_order_intent \<Rightarrow> json result" where
  "json_live_intent i =
     ebind (json_live_decimal (li_quantity i)) (\<lambda>quantity.
     ebind (json_live_optional (li_limit_price i)) (\<lambda>limit.
     Inr (JObj
       [(''strategy_id'', JStr (li_strategy_id i)), (''client_order_id'', JStr (li_client_order_id i)),
        (''account_id'', JStr (li_account_id i)), (''instrument_id'', JStr (li_instrument_id i)),
        (''side'', JStr (live_side_value (li_side i))), (''quantity'', quantity),
        (''order_type'', JStr (live_type_value (li_order_type i))), (''limit_price'', limit),
        (''time_in_force'', JStr (live_tif_value (li_time_in_force i))),
        (''day_trade'', JBool (li_day_trade i)), (''created_at'', json_utc (li_created_at i))])))"

fun json_live_command :: "live_command \<Rightarrow> json result" where
  "json_live_command (NewOrderCommand c) =
     ebind (json_live_intent (nw_intent c)) (\<lambda>intent.
     Inr (JObj [(''client_command_id'', JStr (nw_client_command_id c)), (''intent'', intent),
                (''requested_at'', json_utc (nw_requested_at c)), (''kind'', JStr (kind_value NEW))]))"
| "json_live_command (CancelOrderCommand c) =
     Inr (JObj [(''client_command_id'', JStr (cc_client_command_id c)),
                (''client_order_id'', JStr (cc_client_order_id c)),
                (''requested_at'', json_utc (cc_requested_at c)), (''kind'', JStr (kind_value CANCEL))])"
| "json_live_command (AmendOrderCommand c) =
     ebind (json_live_decimal (am_new_limit_price c)) (\<lambda>price.
     Inr (JObj [(''client_command_id'', JStr (am_client_command_id c)),
                (''client_order_id'', JStr (am_client_order_id c)), (''new_limit_price'', price),
                (''requested_at'', json_utc (am_requested_at c)), (''kind'', JStr (kind_value AMEND))]))"
| "json_live_command (DecreaseOrderCommand c) =
     ebind (json_live_decimal (dc_expected_total_quantity c)) (\<lambda>expected.
     ebind (json_live_decimal (dc_new_total_quantity c)) (\<lambda>total.
     Inr (JObj [(''client_command_id'', JStr (dc_client_command_id c)),
                (''client_order_id'', JStr (dc_client_order_id c)),
                (''expected_total_quantity'', expected), (''new_total_quantity'', total),
                (''requested_at'', json_utc (dc_requested_at c)), (''kind'', JStr (kind_value DECREASE))])))"

definition canonical_bytes :: "json \<Rightarrow> string" where
  "canonical_bytes v = utf8 (json_dumps False v)"

fun command_domain :: "live_command \<Rightarrow> string" where
  "command_domain (NewOrderCommand c) = ''tx_trade.live.command.new.v1''"
| "command_domain (CancelOrderCommand c) = ''tx_trade.live.command.cancel.v1''"
| "command_domain (AmendOrderCommand c) = ''tx_trade.live.command.amend.v1''"
| "command_domain (DecreaseOrderCommand c) = ''tx_trade.live.command.decrease.v1''"

definition domain_fingerprint :: "hashes \<Rightarrow> string \<Rightarrow> json \<Rightarrow> string" where
  "domain_fingerprint h domain v = ''sha256:'' @ sha256_hex h (domain @ [CHR 0x00] @ canonical_bytes v)"

definition payload_fingerprint :: "hashes \<Rightarrow> live_command \<Rightarrow> string result" where
  "payload_fingerprint h c =
     ebind (json_live_command c) (\<lambda>v. Inr (domain_fingerprint h (command_domain c) v))"

section \<open>Pending commands\<close>

record pending_command_binding =
  pb_command :: live_command
  pb_payload_fingerprint :: string

definition pending_command_binding_init ::
  "hashes \<Rightarrow> pending_command_binding \<Rightarrow> pending_command_binding result" where
  "pending_command_binding_init h b =
     ethen (live_fingerprint_ok ''payload_fingerprint'' (pb_payload_fingerprint b)) (
     ebind (payload_fingerprint h (pb_command b)) (\<lambda>expected.
     ethen (require (pb_payload_fingerprint b = expected)
              (ValueError ''payload_fingerprint must match the exact bound command''))
     (Inr b)))"

definition binding_kind :: "pending_command_binding \<Rightarrow> live_command_kind" where
  "binding_kind b = command_kind_of (pb_command b)"

definition bound_at :: "pending_command_binding \<Rightarrow> instant" where
  "bound_at b = requested_at_of (pb_command b)"

definition expected_new_limit_price :: "pending_command_binding \<Rightarrow> decimal option" where
  "expected_new_limit_price b =
     (case pb_command b of AmendOrderCommand c \<Rightarrow> Some (am_new_limit_price c) | _ \<Rightarrow> None)"

definition expected_current_total_quantity :: "pending_command_binding \<Rightarrow> decimal option" where
  "expected_current_total_quantity b =
     (case pb_command b of DecreaseOrderCommand c \<Rightarrow> Some (dc_expected_total_quantity c) | _ \<Rightarrow> None)"

definition expected_new_total_quantity :: "pending_command_binding \<Rightarrow> decimal option" where
  "expected_new_total_quantity b =
     (case pb_command b of DecreaseOrderCommand c \<Rightarrow> Some (dc_new_total_quantity c) | _ \<Rightarrow> None)"

section \<open>Orders, fills, receipts\<close>

record live_order =
  lo_intent :: live_order_intent
  lo_state :: live_order_state
  lo_total_quantity :: decimal
  lo_filled_quantity :: decimal
  lo_remaining_quantity :: decimal
  lo_average_fill_price :: "decimal option"
  lo_working_limit_price :: "decimal option"
  lo_version :: int
  lo_updated_at :: instant
  lo_accepted_at :: "instant option"
  lo_pending_command :: "pending_command_binding option"

definition pending_targets_order :: "live_order \<Rightarrow> pending_command_binding \<Rightarrow> unit result" where
  "pending_targets_order x b =
     (let targets = (\<lambda>client. require (client = li_client_order_id (lo_intent x))
            (ValueError ''pending command must target this order client_order_id''))
      in case pb_command b of
        NewOrderCommand c \<Rightarrow> require (same_live_intent (nw_intent c) (lo_intent x))
          (ValueError ''NEW pending command intent must equal order intent'')
      | CancelOrderCommand c \<Rightarrow> targets (cc_client_order_id c)
      | AmendOrderCommand c \<Rightarrow> targets (am_client_order_id c)
      | DecreaseOrderCommand c \<Rightarrow> targets (dc_client_order_id c))"

definition binding_required :: "live_order_state \<Rightarrow> bool" where
  "binding_required s = (s \<in> {SUBMITTING, SUBMISSION_UNKNOWN, RECONCILING, CANCEL_PENDING})"

definition live_order_binding_ok :: "live_order \<Rightarrow> unit result" where
  "live_order_binding_ok x =
     (let s = lo_state x; b = lo_pending_command x in
      ethen (require (\<not> (binding_required s \<and> b = None))
               (ValueError (live_state_value s @ '' order requires pending command binding''))) (
      ethen (require (\<not> (b \<noteq> None \<and> s \<in> {CREATED, VALIDATED, FILLED, REJECTED, CANCELLED}))
               (ValueError (live_state_value s @ '' order must not retain pending command binding''))) (
      require (\<not> (s = CANCEL_PENDING \<and> map_option binding_kind b \<noteq> Some CANCEL))
        (ValueError ''cancel_pending order requires CANCEL pending command''))))"

definition live_order_quantities_ok :: "live_order \<Rightarrow> unit result" where
  "live_order_quantities_ok x =
     (let s = lo_state x in
      ethen (require (\<not> (s = PARTIALLY_FILLED
                        \<and> \<not> (dlt dzero (lo_filled_quantity x)
                             \<and> dlt (lo_filled_quantity x) (lo_total_quantity x))))
               (ValueError ''partially filled order requires a partial filled_quantity'')) (
      ethen (require (\<not> (s = FILLED \<and> \<not> diszero (lo_remaining_quantity x)))
               (ValueError ''filled order must have zero remaining_quantity'')) (
      ethen (require (\<not> (s \<in> {CREATED, VALIDATED, SUBMITTING, ACCEPTED, REJECTED}
                        \<and> \<not> diszero (lo_filled_quantity x)))
               (ValueError (live_state_value s @ '' order must have zero filled_quantity''))) (
      require (\<not> (s \<in> {CANCEL_PENDING, CANCELLED} \<and> diszero (lo_remaining_quantity x)))
        (ValueError (live_state_value s @ '' order must have remaining quantity''))))))"

definition live_order_init :: "live_order \<Rightarrow> live_order result" where
  "live_order_init x =
     ethen (live_decimal True False ''total_quantity'' (lo_total_quantity x)) (
     ethen (live_decimal False True ''filled_quantity'' (lo_filled_quantity x)) (
     ethen (live_decimal False True ''remaining_quantity'' (lo_remaining_quantity x)) (
     ethen (optionally (live_decimal True False ''average_fill_price'') (lo_average_fill_price x)) (
     ethen (optionally (live_decimal True False ''working_limit_price'') (lo_working_limit_price x)) (
     ethen (require (\<not> (li_order_type (lo_intent x) = MARKET \<and> lo_working_limit_price x \<noteq> None))
              (ValueError ''market order must not have working_limit_price'')) (
     ethen (require (\<not> (li_order_type (lo_intent x) = LIMIT \<and> lo_working_limit_price x = None))
              (ValueError ''limit order requires working_limit_price'')) (
     ebind (dadd default_ctx (lo_filled_quantity x) (lo_remaining_quantity x)) (\<lambda>total.
     ethen (require (deq total (lo_total_quantity x))
              (ValueError ''filled_quantity + remaining_quantity must equal total_quantity'')) (
     ethen (require (dle (lo_total_quantity x) (li_quantity (lo_intent x)))
              (ValueError ''total_quantity must not exceed intent quantity'')) (
     ethen (require (diszero (lo_filled_quantity x) = (lo_average_fill_price x = None))
              (ValueError ''average_fill_price must exist exactly when filled_quantity is positive'')) (
     ethen (require (1 \<le> lo_version x) (ValueError ''version must be at least 1'')) (
     ethen (require (\<not> (lo_state x \<in> {ACCEPTED, PARTIALLY_FILLED, FILLED, CANCEL_PENDING, CANCELLED}
                       \<and> lo_accepted_at x = None))
              (ValueError ''broker-authoritative state requires accepted_at'')) (
     ethen (require (case lo_accepted_at x of None \<Rightarrow> True | Some t \<Rightarrow> t \<le> lo_updated_at x)
              (ValueError ''accepted_at must not be after updated_at'')) (
     ethen (optionally (\<lambda>b. ethen (require (bound_at b \<le> lo_updated_at x)
                (ValueError ''pending command must not be bound after updated_at''))
              (pending_targets_order x b)) (lo_pending_command x)) (
     ethen (live_order_binding_ok x) (
     ethen (live_order_quantities_ok x)
     (Inr x)))))))))))))))))"

record live_fill =
  lf_fill_id :: string
  lf_client_order_id :: string
  lf_strategy_id :: string
  lf_account_id :: string
  lf_instrument_id :: string
  lf_side :: live_side
  lf_quantity :: decimal
  lf_execution_price :: decimal
  lf_occurred_at :: instant

definition live_fill_init :: "live_fill \<Rightarrow> live_fill result" where
  "live_fill_init f =
     ethen (live_identifier ''fill_id'' (lf_fill_id f)) (
     ethen (live_identifier ''client_order_id'' (lf_client_order_id f)) (
     ethen (live_identifier ''strategy_id'' (lf_strategy_id f)) (
     ethen (live_identifier ''account_id'' (lf_account_id f)) (
     ethen (live_identifier ''instrument_id'' (lf_instrument_id f)) (
     ethen (live_decimal True False ''quantity'' (lf_quantity f)) (
     ethen (live_decimal True False ''execution_price'' (lf_execution_price f))
     (Inr f)))))))"

record dispatch_receipt =
  dr_client_command_id :: string
  dr_payload_fingerprint :: string
  dr_state :: dispatch_state
  dr_attempted_at :: instant
  dr_completed_at :: "instant option"
  dr_failure_code :: "live_failure_code option"

definition dispatch_receipt_init :: "dispatch_receipt \<Rightarrow> dispatch_receipt result" where
  "dispatch_receipt_init r =
     ethen (live_identifier ''client_command_id'' (dr_client_command_id r)) (
     ethen (live_fingerprint_ok ''payload_fingerprint'' (dr_payload_fingerprint r)) (
     ethen (require (case dr_completed_at r of None \<Rightarrow> True | Some t \<Rightarrow> dr_attempted_at r \<le> t)
              (ValueError ''completed_at must not be before attempted_at'')) (
     ethen (require (\<not> (dr_state r = SUCCEEDED \<and> dr_failure_code r \<noteq> None))
              (ValueError ''successful dispatch must not have failure_code'')) (
     ethen (require (\<not> (dr_state r \<noteq> SUCCEEDED \<and> dr_failure_code r = None))
              (ValueError ''non-successful dispatch requires failure_code'')) (
     ethen (require (\<not> (dr_state r \<noteq> UNKNOWN \<and> dr_completed_at r = None))
              (ValueError ''known dispatch outcome requires completed_at''))
     (Inr r))))))"

definition json_dispatch_receipt :: "dispatch_receipt \<Rightarrow> json" where
  "json_dispatch_receipt r =
     JObj [(''client_command_id'', JStr (dr_client_command_id r)),
           (''payload_fingerprint'', JStr (dr_payload_fingerprint r)),
           (''state'', JStr (dispatch_state_value (dr_state r))),
           (''attempted_at'', json_utc (dr_attempted_at r)),
           (''completed_at'', json_opt json_utc (dr_completed_at r)),
           (''failure_code'', json_opt (\<lambda>c. JStr (failure_value c)) (dr_failure_code r))]"

section \<open>Broker events\<close>

record broker_correlation =
  bc_broker_session_generation :: int
  bc_adapter_received_sequence :: int
  bc_status :: correlation_status
  bc_correlated_at :: instant
  bc_submission_attempt_id :: "string option"
  bc_async_thread_id :: "string option"
  bc_proxy_stamp_id :: "string option"
  bc_broker_order_sequence :: "string option"
  bc_broker_book_no :: "string option"
  bc_broker_fill_id :: "string option"
  bc_execution_no :: "string option"
  bc_client_order_id :: "string option"

definition broker_correlation_init :: "broker_correlation \<Rightarrow> broker_correlation result" where
  "broker_correlation_init c =
     ethen (live_positive_int ''broker_session_generation'' (bc_broker_session_generation c)) (
     ethen (live_positive_int ''adapter_received_sequence'' (bc_adapter_received_sequence c)) (
     ethen (optionally (live_identifier ''submission_attempt_id'') (bc_submission_attempt_id c)) (
     ethen (optionally (live_identifier ''async_thread_id'') (bc_async_thread_id c)) (
     ethen (optionally (live_identifier ''proxy_stamp_id'') (bc_proxy_stamp_id c)) (
     ethen (optionally (live_identifier ''broker_order_sequence'') (bc_broker_order_sequence c)) (
     ethen (optionally (live_identifier ''broker_book_no'') (bc_broker_book_no c)) (
     ethen (optionally (live_identifier ''broker_fill_id'') (bc_broker_fill_id c)) (
     ethen (optionally (live_identifier ''execution_no'') (bc_execution_no c)) (
     ethen (optionally (live_identifier ''client_order_id'') (bc_client_order_id c)) (
     ethen (require (\<not> list_all (\<lambda>clue. clue = None)
                [bc_async_thread_id c, bc_proxy_stamp_id c, bc_broker_order_sequence c,
                 bc_broker_book_no c, bc_broker_fill_id c, bc_execution_no c])
              (ValueError ''correlation requires at least one broker correlation clue'')) (
     ethen (require (\<not> (bc_status c = CONFIRMED \<and> bc_client_order_id c = None))
              (ValueError ''confirmed correlation requires client_order_id''))
     (Inr c))))))))))))"

record broker_order_event =
  be_event_id :: string
  be_account_id :: string
  be_instrument_id :: string
  be_event_type :: broker_order_event_type
  be_received_at :: instant
  be_broker_session_generation :: int
  be_adapter_received_sequence :: int
  be_correlation :: broker_correlation
  be_occurred_at :: "instant option"
  be_failure_code :: "live_failure_code option"
  be_decreased_quantity :: "decimal option"
  be_new_limit_price :: "decimal option"

definition expected_failure :: "broker_order_event_type \<Rightarrow> live_failure_code option" where
  "expected_failure t =
     (case t of
        NEW_REJECTED \<Rightarrow> Some BROKER_REJECTED
      | CANCEL_REJECTED \<Rightarrow> Some FAIL_CANCEL_REJECTED
      | AMEND_REJECTED \<Rightarrow> Some FAIL_AMEND_REJECTED
      | OUTCOME_UNKNOWN \<Rightarrow> Some BROKER_TIMEOUT
      | _ \<Rightarrow> None)"

definition correlation_matches :: "broker_correlation \<Rightarrow> int \<Rightarrow> int \<Rightarrow> unit result" where
  "correlation_matches c generation sequence =
     ethen (require (bc_broker_session_generation c = generation)
              (ValueError ''correlation broker_session_generation must match event''))
       (require (bc_adapter_received_sequence c = sequence)
          (ValueError ''correlation adapter_received_sequence must match event''))"

definition broker_order_event_init :: "broker_order_event \<Rightarrow> broker_order_event result" where
  "broker_order_event_init e =
     ethen (live_identifier ''event_id'' (be_event_id e)) (
     ethen (live_identifier ''account_id'' (be_account_id e)) (
     ethen (live_identifier ''instrument_id'' (be_instrument_id e)) (
     ethen (live_positive_int ''broker_session_generation'' (be_broker_session_generation e)) (
     ethen (live_positive_int ''adapter_received_sequence'' (be_adapter_received_sequence e)) (
     ethen (correlation_matches (be_correlation e) (be_broker_session_generation e)
              (be_adapter_received_sequence e)) (
     ethen (require (case be_occurred_at e of None \<Rightarrow> True | Some t \<Rightarrow> t \<le> be_received_at e)
              (ValueError ''occurred_at must not be after received_at'')) (
     ethen (optionally (live_decimal True False ''decreased_quantity'') (be_decreased_quantity e)) (
     ethen (optionally (live_decimal True False ''new_limit_price'') (be_new_limit_price e)) (
     ethen (require ((be_event_type e \<in> {QUANTITY_DECREASED, PRICE_AND_QUANTITY_AMENDED})
                       = (be_decreased_quantity e \<noteq> None))
              (ValueError ''decreased_quantity is required exactly for quantity-change events'')) (
     ethen (require ((be_event_type e \<in> {PRICE_AMENDED, PRICE_AND_QUANTITY_AMENDED})
                       = (be_new_limit_price e \<noteq> None))
              (ValueError ''new_limit_price is required exactly for price-change events'')) (
     ethen (require (be_failure_code e = expected_failure (be_event_type e))
              (ValueError ''failure_code must match broker order event semantics''))
     (Inr e))))))))))))"

record broker_fill_event =
  bf_event_id :: string
  bf_account_id :: string
  bf_instrument_id :: string
  bf_side :: live_side
  bf_quantity :: decimal
  bf_execution_price :: decimal
  bf_received_at :: instant
  bf_broker_session_generation :: int
  bf_adapter_received_sequence :: int
  bf_correlation :: broker_correlation
  bf_occurred_at :: "instant option"

definition broker_fill_event_init :: "broker_fill_event \<Rightarrow> broker_fill_event result" where
  "broker_fill_event_init e =
     ethen (live_identifier ''event_id'' (bf_event_id e)) (
     ethen (live_identifier ''account_id'' (bf_account_id e)) (
     ethen (live_identifier ''instrument_id'' (bf_instrument_id e)) (
     ethen (live_decimal True False ''quantity'' (bf_quantity e)) (
     ethen (live_decimal True False ''execution_price'' (bf_execution_price e)) (
     ethen (live_positive_int ''broker_session_generation'' (bf_broker_session_generation e)) (
     ethen (live_positive_int ''adapter_received_sequence'' (bf_adapter_received_sequence e)) (
     ethen (correlation_matches (bf_correlation e) (bf_broker_session_generation e)
              (bf_adapter_received_sequence e)) (
     ethen (require (bc_broker_fill_id (bf_correlation e) \<noteq> None \<or> bc_execution_no (bf_correlation e) \<noteq> None)
              (ValueError ''fill evidence requires broker_fill_id or execution_no'')) (
     ethen (require (case bf_occurred_at e of None \<Rightarrow> True | Some t \<Rightarrow> t \<le> bf_received_at e)
              (ValueError ''occurred_at must not be after received_at''))
     (Inr e))))))))))"

text \<open>Whether a working change of the broker proves exactly the target of the pending command.\<close>

definition matches_authoritative_working_change ::
  "pending_command_binding \<Rightarrow> broker_order_event \<Rightarrow> decimal \<Rightarrow> bool result" where
  "matches_authoritative_working_change b e current_total =
     ethen (live_decimal True False ''current_total_quantity'' current_total) (
     if binding_kind b = AMEND \<and> be_event_type e = PRICE_AMENDED
     then Inr (opt_deq (be_new_limit_price e) (expected_new_limit_price b))
     else (case be_decreased_quantity e of
       Some decreased \<Rightarrow>
         if binding_kind b = DECREASE \<and> be_event_type e = QUANTITY_DECREASED
         then if opt_deq (Some current_total) (expected_current_total_quantity b)
              then ebind (dsub default_ctx current_total decreased) (\<lambda>total.
                   Inr (opt_deq (Some total) (expected_new_total_quantity b)))
              else Inr False
         else Inr False
     | None \<Rightarrow> Inr False))"

text \<open>The fingerprint of what a broker event says, without its delivery metadata.\<close>

definition order_event_fingerprint :: "hashes \<Rightarrow> broker_order_event \<Rightarrow> string result" where
  "order_event_fingerprint h e =
     ebind (json_live_optional (be_new_limit_price e)) (\<lambda>price.
     ebind (json_live_optional (be_decreased_quantity e)) (\<lambda>decreased.
     Inr (domain_fingerprint h ''tx_trade.live.broker.order-event.v1'' (JObj
       [(''account_id'', JStr (be_account_id e)), (''event_id'', JStr (be_event_id e)),
        (''event_type'', JStr (broker_event_value (be_event_type e))),
        (''failure_code'', json_opt (\<lambda>c. JStr (failure_value c)) (be_failure_code e)),
        (''instrument_id'', JStr (be_instrument_id e)), (''new_limit_price'', price),
        (''decreased_quantity'', decreased)]))))"

definition fill_event_fingerprint :: "hashes \<Rightarrow> broker_fill_event \<Rightarrow> string result" where
  "fill_event_fingerprint h e =
     ebind (json_live_decimal (bf_execution_price e)) (\<lambda>price.
     ebind (json_live_decimal (bf_quantity e)) (\<lambda>quantity.
     Inr (domain_fingerprint h ''tx_trade.live.broker.fill-event.v1'' (JObj
       [(''account_id'', JStr (bf_account_id e)), (''event_id'', JStr (bf_event_id e)),
        (''execution_price'', price), (''instrument_id'', JStr (bf_instrument_id e)),
        (''quantity'', quantity), (''side'', JStr (live_side_value (bf_side e)))]))))"

end
