(* ===== verification/Live_State_Machine.thy ===== *)
theory Live_State_Machine
  imports Live_Contracts
begin

text \<open>
  The reducer of live orders, \<open>orders/live_state_machine.py\<close>: local transitions, dispatch receipts,
  normalised broker events and fills, each returning the order, the ledger of applied events, the
  disposition and what else the caller gets; \<open>Inl\<close> is the exception.
\<close>

section \<open>Results and the ledger of applied events\<close>

datatype reduction_disposition =
    APPLIED | NO_CHANGE | EXACT_DUPLICATE | EVENT_CONFLICT | REDUCTION_RECONCILIATION_REQUIRED
  | STALE | TERMINAL_IMMUTABLE

record applied_event =
  ae_source :: string
  ae_event_id :: string
  ae_fingerprint :: string

type_synonym event_ledger = "applied_event list"

definition ledger_find :: "event_ledger \<Rightarrow> string \<Rightarrow> string \<Rightarrow> applied_event option" where
  "ledger_find l source event_id = find (\<lambda>e. ae_source e = source \<and> ae_event_id e = event_id) l"

record reduction_result =
  rr_order :: live_order
  rr_ledger :: event_ledger
  rr_disposition :: reduction_disposition
  rr_fill :: "live_fill option"
  rr_failure_code :: "live_failure_code option"

definition reduction ::
  "live_order \<Rightarrow> event_ledger \<Rightarrow> reduction_disposition \<Rightarrow> live_fill option \<Rightarrow> live_failure_code option
     \<Rightarrow> reduction_result" where
  "reduction x l d f c = \<lparr>rr_order = x, rr_ledger = l, rr_disposition = d, rr_fill = f, rr_failure_code = c\<rparr>"

definition reconciliation_required :: "reduction_result \<Rightarrow> bool" where
  "reconciliation_required r = (rr_disposition r \<in> {EVENT_CONFLICT, REDUCTION_RECONCILIATION_REQUIRED})"

text \<open>\<open>_deduplicate\<close> and \<open>_record\<close>, on the fingerprint of the value,
  which is computed only where the code computes it.\<close>

definition deduplicate ::
  "event_ledger \<Rightarrow> string \<Rightarrow> string \<Rightarrow> string result \<Rightarrow> reduction_disposition option result" where
  "deduplicate l source event_id fingerprint =
     (case ledger_find l source event_id of
        None \<Rightarrow> Inr None
      | Some r \<Rightarrow>
          ebind fingerprint (\<lambda>f.
          Inr (Some (if ae_fingerprint r = f then EXACT_DUPLICATE else EVENT_CONFLICT))))"

definition record_event :: "event_ledger \<Rightarrow> string \<Rightarrow> string \<Rightarrow> string result \<Rightarrow> event_ledger result" where
  "record_event l source event_id fingerprint =
     ebind fingerprint (\<lambda>f.
     Inr (l @ [\<lparr>ae_source = source, ae_event_id = event_id, ae_fingerprint = f\<rparr>]))"

definition dispatch_fingerprint :: "hashes \<Rightarrow> dispatch_receipt \<Rightarrow> string" where
  "dispatch_fingerprint h r = ''sha256:'' @ sha256_hex h (canonical_bytes (json_dispatch_receipt r))"

definition reconcile :: "live_order \<Rightarrow> event_ledger \<Rightarrow> reduction_result" where
  "reconcile x l = reduction x l REDUCTION_RECONCILIATION_REQUIRED None (Some RECONCILIATION_REQUIRED)"

definition broker_duplicate_result ::
  "live_order \<Rightarrow> event_ledger \<Rightarrow> reduction_disposition \<Rightarrow> reduction_result" where
  "broker_duplicate_result x l d =
     reduction x l d None (if d = EVENT_CONFLICT then Some CORRELATION_CONFLICT else None)"

section \<open>Local transitions\<close>

definition create_live_order :: "live_order_intent \<Rightarrow> live_order result" where
  "create_live_order i =
     live_order_init
       \<lparr>lo_intent = i, lo_state = CREATED, lo_total_quantity = li_quantity i, lo_filled_quantity = dzero,
        lo_remaining_quantity = li_quantity i, lo_average_fill_price = None,
        lo_working_limit_price = li_limit_price i, lo_version = 1, lo_updated_at = li_created_at i,
        lo_accepted_at = None, lo_pending_command = None\<rparr>"

text \<open>\<open>_snapshot\<close>: the next version of an order, with the fields that are given replaced.\<close>

definition live_snapshot :: "live_order \<Rightarrow> instant \<Rightarrow> live_order \<Rightarrow> live_order result" where
  "live_snapshot x t next =
     ethen (require (lo_updated_at x \<le> t)
              (InvalidLiveOrderTransition ''updated_at must not move backwards''))
       (live_order_init (next\<lparr>lo_version := lo_version x + 1, lo_updated_at := t\<rparr>))"

definition require_binding_for_order ::
  "live_order \<Rightarrow> pending_command_binding option \<Rightarrow> live_command_kind \<Rightarrow> instant \<Rightarrow> unit result" where
  "require_binding_for_order x binding kind t =
     (case binding of
        None \<Rightarrow> Inl (InvalidLiveOrderTransition ''exact pending command binding is required'')
      | Some b \<Rightarrow>
          ethen (require (binding_kind b = kind)
                   (InvalidLiveOrderTransition (''pending command must be '' @ kind_value kind))) (
          ethen (require (bound_at b \<le> t)
                   (InvalidLiveOrderTransition ''pending command cannot be bound in the future'')) (
          case pb_command b of
            NewOrderCommand c \<Rightarrow> require (same_live_intent (nw_intent c) (lo_intent x))
              (InvalidLiveOrderTransition ''NEW command intent does not match order'')
          | CancelOrderCommand c \<Rightarrow> require (cc_client_order_id c = li_client_order_id (lo_intent x))
              (InvalidLiveOrderTransition ''command client_order_id does not match order'')
          | AmendOrderCommand c \<Rightarrow> require (am_client_order_id c = li_client_order_id (lo_intent x))
              (InvalidLiveOrderTransition ''command client_order_id does not match order'')
          | DecreaseOrderCommand c \<Rightarrow> require (dc_client_order_id c = li_client_order_id (lo_intent x))
              (InvalidLiveOrderTransition ''command client_order_id does not match order''))))"

definition validate_order_and_time :: "live_order \<Rightarrow> instant \<Rightarrow> unit result" where
  "validate_order_and_time x t =
     require (lo_updated_at x \<le> t) (InvalidLiveOrderTransition ''updated_at must not move backwards'')"

definition advance_local ::
  "live_order \<Rightarrow> live_order_state \<Rightarrow> instant \<Rightarrow> pending_command_binding option \<Rightarrow> live_order result" where
  "advance_local x target t binding =
     ethen (validate_order_and_time x t) (
     if lo_state x = CREATED \<and> target = VALIDATED
     then ethen (require (binding = None)
                   (InvalidLiveOrderTransition ''validation must not bind a command''))
            (live_snapshot x t (x\<lparr>lo_state := target, lo_pending_command := None\<rparr>))
     else if lo_state x = VALIDATED \<and> target = SUBMITTING
     then ethen (require_binding_for_order x binding NEW t)
            (live_snapshot x t (x\<lparr>lo_state := target, lo_pending_command := binding\<rparr>))
     else if lo_state x = SUBMISSION_UNKNOWN \<and> target = RECONCILING \<and> binding = None
     then live_snapshot x t (x\<lparr>lo_state := target\<rparr>)
     else Inl (InvalidLiveOrderTransition (''transition from '' @ live_state_value (lo_state x)
            @ '' to '' @ live_state_value target @ '' is not allowed'')))"

definition request_cancel :: "live_order \<Rightarrow> pending_command_binding \<Rightarrow> instant \<Rightarrow> live_order result" where
  "request_cancel x b t =
     ethen (validate_order_and_time x t) (
     ethen (require_binding_for_order x (Some b) CANCEL t) (
     ethen (require (lo_state x \<in> {ACCEPTED, PARTIALLY_FILLED})
              (InvalidLiveOrderTransition (''cancel request is not allowed from ''
                 @ live_state_value (lo_state x)))) (
     ethen (require (lo_pending_command x = None)
              (InvalidLiveOrderTransition ''order already has a pending command''))
     (live_snapshot x t (x\<lparr>lo_state := CANCEL_PENDING, lo_pending_command := Some b\<rparr>)))))"

definition bind_operation :: "live_order \<Rightarrow> pending_command_binding \<Rightarrow> instant \<Rightarrow> live_order result" where
  "bind_operation x b t =
     ethen (validate_order_and_time x t) (
     ethen (require (binding_kind b \<in> {AMEND, DECREASE})
              (InvalidLiveOrderTransition ''operation binding must be AMEND or DECREASE'')) (
     ethen (require_binding_for_order x (Some b) (binding_kind b) t) (
     ethen (require (lo_state x \<in> {ACCEPTED, PARTIALLY_FILLED})
              (InvalidLiveOrderTransition (''operation is not allowed from ''
                 @ live_state_value (lo_state x)))) (
     ethen (require (lo_pending_command x = None)
              (InvalidLiveOrderTransition ''order already has a pending command'')) (
     ethen (require (case pb_command b of
                       DecreaseOrderCommand c \<Rightarrow> deq (dc_expected_total_quantity c) (lo_total_quantity x)
                     | _ \<Rightarrow> True)
              (InvalidLiveOrderTransition
                 ''decrease expected_total_quantity does not match current order total''))
     (live_snapshot x t (x\<lparr>lo_pending_command := Some b\<rparr>)))))))"

section \<open>Dispatch receipts\<close>

definition reduce_dispatch ::
  "hashes \<Rightarrow> live_order \<Rightarrow> dispatch_receipt \<Rightarrow> event_ledger \<Rightarrow> reduction_result result" where
  "reduce_dispatch h x r l =
     (case lo_pending_command x of
        None \<Rightarrow> Inr (reduction x l EVENT_CONFLICT None (Some IDEMPOTENCY_CONFLICT))
      | Some b \<Rightarrow>
          if dr_client_command_id r \<noteq> command_id_of (pb_command b)
             \<or> dr_payload_fingerprint r \<noteq> pb_payload_fingerprint b
          then Inr (reduction x l EVENT_CONFLICT None (Some IDEMPOTENCY_CONFLICT))
          else
            let fingerprint = Inr (dispatch_fingerprint h r) in
            ebind (deduplicate l ''dispatch'' (dr_client_command_id r) fingerprint) (\<lambda>duplicate.
            case duplicate of
              Some d \<Rightarrow> Inr (reduction x l d None None)
            | None \<Rightarrow>
                ebind (record_event l ''dispatch'' (dr_client_command_id r) fingerprint) (\<lambda>next_ledger.
                let evidence_at = (case dr_completed_at r of Some t \<Rightarrow> t | None \<Rightarrow> dr_attempted_at r)
                in if dr_state r = SUCCEEDED
                   then Inr (reduction x next_ledger NO_CHANGE None None)
                   else
                     let target = (if binding_kind b = NEW \<and> dr_state r = UNKNOWN
                                   then SUBMISSION_UNKNOWN else RECONCILING)
                     in ebind (live_snapshot x (max (lo_updated_at x) evidence_at) (x\<lparr>lo_state := target\<rparr>))
                          (\<lambda>y. Inr (reduction y next_ledger
                             (if dr_state r = UNKNOWN then APPLIED else REDUCTION_RECONCILIATION_REQUIRED)
                             None (dr_failure_code r))))))"

section \<open>Broker order events\<close>

definition confirmed_for_order :: "live_order \<Rightarrow> broker_correlation \<Rightarrow> string \<Rightarrow> string \<Rightarrow> bool" where
  "confirmed_for_order x c account instrument \<longleftrightarrow>
     bc_status c = CONFIRMED
     \<and> bc_client_order_id c = Some (li_client_order_id (lo_intent x))
     \<and> account = li_account_id (lo_intent x) \<and> instrument = li_instrument_id (lo_intent x)"

type_synonym transition =
  "live_order_state \<times> decimal \<times> decimal option \<times> pending_command_binding option"

definition open_state :: "live_order \<Rightarrow> live_order_state" where
  "open_state x = (if dpos (lo_filled_quantity x) then PARTIALLY_FILLED else ACCEPTED)"

text \<open>The next state, total quantity, limit price and pending command; \<open>None\<close> asks for reconciliation.\<close>

definition keep_working :: "live_order \<Rightarrow> live_order_state \<Rightarrow> pending_command_binding option \<Rightarrow> transition option" where
  "keep_working x s b = Some (s, lo_total_quantity x, lo_working_limit_price x, b)"

definition pending_kind :: "live_order \<Rightarrow> live_command_kind option" where
  "pending_kind x = map_option binding_kind (lo_pending_command x)"

definition working_change :: "live_order \<Rightarrow> broker_order_event \<Rightarrow> transition option result" where
  "working_change x e =
     (case lo_pending_command x of
        None \<Rightarrow> Inr None
      | Some b \<Rightarrow>
          ebind (matches_authoritative_working_change b e (lo_total_quantity x)) (\<lambda>proved.
          if \<not> proved then Inr None
          else if be_new_limit_price e \<noteq> None \<and> lo_working_limit_price x = None then Inr None
          else
            ebind (case be_decreased_quantity e of
                     Some d \<Rightarrow> dsub default_ctx (lo_total_quantity x) d
                   | None \<Rightarrow> Inr (lo_total_quantity x)) (\<lambda>new_total.
            if dlt new_total (lo_filled_quantity x) \<or> dlt (lo_total_quantity x) new_total then Inr None
            else Inr (Some (if deq new_total (lo_filled_quantity x) then FILLED else open_state x, new_total,
                            (case be_new_limit_price e of Some p \<Rightarrow> Some p | None \<Rightarrow> lo_working_limit_price x),
                            None)))))"

definition broker_transition :: "live_order \<Rightarrow> broker_order_event \<Rightarrow> transition option result" where
  "broker_transition x e =
     (if live_is_terminal (lo_state x) then Inr None
      else case be_event_type e of
        NEW_ACCEPTED \<Rightarrow>
          Inr (if lo_accepted_at x \<noteq> None then keep_working x (lo_state x) (lo_pending_command x)
               else keep_working x (open_state x) None)
      | NEW_REJECTED \<Rightarrow>
          Inr (if dpos (lo_filled_quantity x) \<or> lo_accepted_at x \<noteq> None then None
               else keep_working x REJECTED None)
      | BROKER_CANCEL_PENDING \<Rightarrow>
          Inr (if pending_kind x \<noteq> Some CANCEL \<or> lo_state x \<noteq> CANCEL_PENDING then None
               else keep_working x (lo_state x) (lo_pending_command x))
      | BROKER_CANCELLED \<Rightarrow>
          Inr (if diszero (lo_remaining_quantity x) then None else keep_working x CANCELLED None)
      | DYNAMIC_CANCELLED \<Rightarrow>
          Inr (if diszero (lo_remaining_quantity x)
                  \<or> lo_state x \<notin> {ACCEPTED, PARTIALLY_FILLED, CANCEL_PENDING} then None
               else keep_working x CANCELLED None)
      | CANCEL_REJECTED \<Rightarrow>
          Inr (if pending_kind x \<noteq> Some CANCEL then None else keep_working x (open_state x) None)
      | AMEND_REJECTED \<Rightarrow>
          Inr (if pending_kind x \<notin> {Some AMEND, Some DECREASE} then None
               else keep_working x (open_state x) None)
      | OUTCOME_UNKNOWN \<Rightarrow>
          Inr (case lo_pending_command x of
                 None \<Rightarrow> None
               | Some b \<Rightarrow> keep_working x (if binding_kind b = NEW then SUBMISSION_UNKNOWN else RECONCILING) (Some b))
      | _ \<Rightarrow> working_change x e)"

definition acceptance_time :: "live_order \<Rightarrow> instant option \<Rightarrow> instant \<Rightarrow> instant option" where
  "acceptance_time x occurred received =
     (case lo_accepted_at x of
        Some t \<Rightarrow> Some t
      | None \<Rightarrow> Some (case occurred of Some t \<Rightarrow> t | None \<Rightarrow> received))"

text \<open>The order after an authoritative event.\<close>

definition apply_transition ::
  "live_order \<Rightarrow> broker_order_event \<Rightarrow> transition \<Rightarrow> live_order result" where
  "apply_transition x e tr =
     (let (s, new_total, limit, pending) = tr in
      ebind (dsub default_ctx new_total (lo_filled_quantity x)) (\<lambda>remaining.
      live_snapshot x (max (lo_updated_at x) (be_received_at e))
        (x\<lparr>lo_state := s, lo_total_quantity := new_total, lo_remaining_quantity := remaining,
           lo_working_limit_price := (case limit of Some p \<Rightarrow> Some p | None \<Rightarrow> lo_working_limit_price x),
           lo_accepted_at :=
             (if s \<in> {CREATED, VALIDATED, SUBMITTING, SUBMISSION_UNKNOWN, RECONCILING, REJECTED}
              then lo_accepted_at x else acceptance_time x (be_occurred_at e) (be_received_at e)),
           lo_pending_command := pending\<rparr>)))"

definition reduce_broker_order_event ::
  "hashes \<Rightarrow> live_order \<Rightarrow> broker_order_event \<Rightarrow> event_ledger \<Rightarrow> reduction_result result" where
  "reduce_broker_order_event h x e l =
     (let fingerprint = order_event_fingerprint h e;
          record_it = record_event l ''broker-event'' (be_event_id e) fingerprint
      in
      ebind (deduplicate l ''broker-event'' (be_event_id e) fingerprint) (\<lambda>duplicate.
      case duplicate of
        Some d \<Rightarrow> Inr (broker_duplicate_result x l d)
      | None \<Rightarrow>
          if \<not> confirmed_for_order x (be_correlation e) (be_account_id e) (be_instrument_id e)
          then Inr (reconcile x l)
          else if lo_state x = CANCELLED \<and> be_event_type e \<in> {BROKER_CANCELLED, DYNAMIC_CANCELLED}
          then ebind record_it (\<lambda>next_ledger. Inr (reduction x next_ledger NO_CHANGE None None))
          else
            ebind (broker_transition x e) (\<lambda>tr.
            case tr of
              None \<Rightarrow> Inr (reconcile x l)
            | Some t \<Rightarrow>
                ebind record_it (\<lambda>next_ledger.
                ebind (apply_transition x e t) (\<lambda>y.
                Inr (reduction y next_ledger APPLIED None (be_failure_code e)))))))"

section \<open>Broker fills\<close>

text \<open>The state and the pending command after a fill.\<close>

definition fill_outcome :: "live_order \<Rightarrow> decimal \<Rightarrow> live_order_state \<times> pending_command_binding option" where
  "fill_outcome x remaining =
     (if diszero remaining then (FILLED, None)
      else if lo_state x = CANCELLED then (CANCELLED, None)
      else if lo_state x = RECONCILING then (RECONCILING, lo_pending_command x)
      else if lo_state x = CANCEL_PENDING then (CANCEL_PENDING, lo_pending_command x)
      else (PARTIALLY_FILLED, if pending_kind x = Some NEW then None else lo_pending_command x))"

definition average_after_fill :: "live_order \<Rightarrow> broker_fill_event \<Rightarrow> decimal \<Rightarrow> decimal result" where
  "average_after_fill x e new_filled =
     ebind (case lo_average_fill_price x of
              Some a \<Rightarrow> dmul default_ctx (lo_filled_quantity x) a
            | None \<Rightarrow> Inr dzero) (\<lambda>prior.
     ebind (dmul default_ctx (bf_quantity e) (bf_execution_price e)) (\<lambda>added.
     ebind (dadd default_ctx prior added) (\<lambda>notional.
     ddiv default_ctx notional new_filled)))"

text \<open>The order after a fill.\<close>

definition apply_live_fill :: "live_order \<Rightarrow> broker_fill_event \<Rightarrow> live_order result" where
  "apply_live_fill x e =
     ebind (dadd default_ctx (lo_filled_quantity x) (bf_quantity e)) (\<lambda>new_filled.
     ebind (dsub default_ctx (lo_total_quantity x) new_filled) (\<lambda>new_remaining.
     ebind (average_after_fill x e new_filled) (\<lambda>average.
     let (s, pending) = fill_outcome x new_remaining in
     live_snapshot x (max (lo_updated_at x) (bf_received_at e))
       (x\<lparr>lo_state := s, lo_filled_quantity := new_filled, lo_remaining_quantity := new_remaining,
          lo_average_fill_price := Some average,
          lo_accepted_at := acceptance_time x (bf_occurred_at e) (bf_received_at e),
          lo_pending_command := pending\<rparr>))))"

definition live_fill_of :: "live_order \<Rightarrow> broker_fill_event \<Rightarrow> live_fill result" where
  "live_fill_of x e =
     ebind (case (bc_broker_fill_id (bf_correlation e), bc_execution_no (bf_correlation e)) of
              (Some n, _) \<Rightarrow> Inr n | (None, Some n) \<Rightarrow> Inr n | (None, None) \<Rightarrow> Inl AssertionError) (\<lambda>fill_id.
     live_fill_init
       \<lparr>lf_fill_id = fill_id, lf_client_order_id = li_client_order_id (lo_intent x),
        lf_strategy_id = li_strategy_id (lo_intent x), lf_account_id = li_account_id (lo_intent x),
        lf_instrument_id = li_instrument_id (lo_intent x), lf_side = li_side (lo_intent x),
        lf_quantity = bf_quantity e, lf_execution_price = bf_execution_price e,
        lf_occurred_at = (case bf_occurred_at e of Some t \<Rightarrow> t | None \<Rightarrow> bf_received_at e)\<rparr>)"

definition reduce_broker_fill_event ::
  "hashes \<Rightarrow> live_order \<Rightarrow> broker_fill_event \<Rightarrow> event_ledger \<Rightarrow> reduction_result result" where
  "reduce_broker_fill_event h x e l =
     (let fingerprint = fill_event_fingerprint h e in
      ebind (deduplicate l ''broker-event'' (bf_event_id e) fingerprint) (\<lambda>duplicate.
      case duplicate of
        Some d \<Rightarrow> Inr (broker_duplicate_result x l d)
      | None \<Rightarrow>
          if \<not> confirmed_for_order x (bf_correlation e) (bf_account_id e) (bf_instrument_id e)
             \<or> bf_side e \<noteq> li_side (lo_intent x)
          then Inr (reconcile x l)
          else if lo_state x \<in> {REJECTED, FILLED} then Inr (reconcile x l)
          else if dlt (lo_remaining_quantity x) (bf_quantity e) then Inr (reconcile x l)
          else
            ebind (record_event l ''broker-event'' (bf_event_id e) fingerprint) (\<lambda>next_ledger.
            ebind (apply_live_fill x e) (\<lambda>y.
            ebind (live_fill_of x e) (\<lambda>fill.
            Inr (reduction y next_ledger APPLIED (Some fill) None))))))"

end
