(* ===== verification/Whole_Quantities.thy ===== *)
theory Whole_Quantities
  imports PyDecimal
begin

text \<open>
  Exactness of the default decimal context on whole quantities. A quantity of lots is a whole number
  below \<open>10 ^ 28\<close>, however its Decimal is written; sums and differences that stay in that range lose
  nothing to the 28 digits the live-order code computes with.
\<close>

text \<open>Whether a Decimal is a whole number of at most 28 digits.\<close>

definition lots :: "decimal \<Rightarrow> bool" where
  "lots d =
     (if 0 \<le> expo d then \<bar>coef d\<bar> * 10 ^ nat (expo d) < 10 ^ 28
      else coef d mod 10 ^ nat (- expo d) = 0 \<and> \<bar>coef d div 10 ^ nat (- expo d)\<bar> < 10 ^ 28)"

text \<open>Whether the bounds of the live contracts admit the exponent.\<close>

definition expo_ok :: "decimal \<Rightarrow> bool" where
  "expo_ok d = (-6143 \<le> expo d \<and> expo d \<le> 6144)"

lemma dval_nonneg_expo: "0 \<le> expo d \<Longrightarrow> dval d = of_int (coef d * 10 ^ nat (expo d))"
  by (simp add: dval_def power_int_def)

lemma dval_neg_expo: "expo d \<le> 0 \<Longrightarrow> dval d * 10 ^ nat (- expo d) = of_int (coef d)"
proof -
  assume "expo d \<le> 0"
  then have "(10::rat) powi expo d * 10 ^ nat (- expo d) = 1"
    by (cases "expo d = 0") (simp_all add: power_int_def flip: power_mult_distrib)
  then show ?thesis by (simp add: dval_def mult.assoc)
qed

lemma lots_whole:
  assumes "lots d" obtains n where "dval d = of_int n" and "\<bar>n\<bar> < 10 ^ 28"
proof (cases "0 \<le> expo d")
  case True
  have "dval d = of_int (coef d * 10 ^ nat (expo d))" using dval_nonneg_expo [OF True] .
  moreover have "\<bar>coef d * 10 ^ nat (expo d)\<bar> < 10 ^ 28"
    using assms True by (simp add: lots_def abs_mult)
  ultimately show ?thesis by (rule that)
next
  case False
  let ?p = "10 ^ nat (- expo d) :: int"
  have eq: "coef d = coef d div ?p * ?p"
    using assms False div_mult_mod_eq [of "coef d" ?p] by (simp add: lots_def)
  have "dval d * of_int ?p = of_int (coef d)" using dval_neg_expo [of d] False by simp
  also have "\<dots> = of_int (coef d div ?p) * of_int ?p" by (simp only: of_int_mult [symmetric] eq [symmetric])
  finally have "dval d = of_int (coef d div ?p)" by (rule mult_right_cancel [THEN iffD1, rotated]) simp
  then show ?thesis using assms False by (intro that [of "coef d div ?p"]) (simp_all add: lots_def)
qed

lemma whole_lots:
  assumes "dval d = of_int n" and "\<bar>n\<bar> < 10 ^ 28" shows "lots d"
proof (cases "0 \<le> expo d")
  case True
  with assms(1) have "of_int (coef d * 10 ^ nat (expo d)) = (of_int n :: rat)" by (simp only: dval_nonneg_expo)
  then have "coef d * 10 ^ nat (expo d) = n" by (simp only: of_int_eq_iff)
  with True assms(2) show ?thesis by (auto simp: lots_def abs_mult)
next
  case False
  let ?p = "10 ^ nat (- expo d) :: int"
  have "of_int (n * ?p) = (of_int (coef d) :: rat)" using dval_neg_expo [of d] False assms(1) by simp
  then have eq: "coef d = n * ?p" by (simp only: of_int_eq_iff)
  with False assms(2) show ?thesis by (simp add: lots_def)
qed

lemma lots_iff: "lots d \<longleftrightarrow> (\<exists>n. dval d = of_int n \<and> \<bar>n\<bar> < 10 ^ 28)"
  using lots_whole whole_lots by metis

lemma lots_deq: "dval a = dval b \<Longrightarrow> lots a = lots b"
  by (simp add: lots_iff)

text \<open>The digit a whole number is rounded at lies left of all its fraction zeros.\<close>

lemma lots_digits:
  assumes "lots d" and "coef d \<noteq> 0"
  shows "int (ndigits \<bar>coef d\<bar>) + expo d \<le> 28"
proof (cases "0 \<le> expo d")
  case True
  have "10 ^ (ndigits \<bar>coef d\<bar> - 1) * 10 ^ nat (expo d) \<le> \<bar>coef d\<bar> * 10 ^ nat (expo d)"
    using ndigits_lower [of "\<bar>coef d\<bar>"] assms(2) by simp
  also have "\<dots> < 10 ^ 28" using assms(1) True by (simp add: lots_def)
  finally have "(10::int) ^ (ndigits \<bar>coef d\<bar> - 1 + nat (expo d)) < 10 ^ 28" by (simp only: power_add)
  then have "ndigits \<bar>coef d\<bar> - 1 + nat (expo d) < 28" by (rule power_less_imp_less_exp [rotated]) simp
  with True ndigits_pos [of "\<bar>coef d\<bar>"] show ?thesis by linarith
next
  case False
  let ?p = "10 ^ nat (- expo d) :: int"
  have eq: "coef d = coef d div ?p * ?p"
    using assms False div_mult_mod_eq [of "coef d" ?p] by (simp add: lots_def)
  have small: "\<bar>coef d div ?p\<bar> < 10 ^ 28" using assms(1) False by (simp add: lots_def)
  have "\<bar>coef d\<bar> = \<bar>coef d div ?p\<bar> * ?p" by (subst eq) (simp add: abs_mult)
  also have "\<dots> < 10 ^ 28 * ?p" using small by (intro mult_strict_right_mono) simp_all
  also have "\<dots> = 10 ^ (28 + nat (- expo d))" by (simp only: power_add)
  finally have "ndigits \<bar>coef d\<bar> \<le> 28 + nat (- expo d)" by (intro ndigits_le) simp_all
  with False show ?thesis by linarith
qed

lemma lots_dvd:
  assumes "lots d" and "k \<le> nat (- expo d)"
  shows "10 ^ k dvd coef d"
proof (cases "0 \<le> expo d")
  case True
  with assms(2) show ?thesis by simp
next
  case False
  then have "10 ^ nat (- expo d) dvd coef d" using assms(1) by (simp add: lots_def mod_eq_0_iff_dvd)
  then show ?thesis using assms(2) le_imp_power_dvd dvd_trans by blast
qed

text \<open>Rounding digits that are all zero changes nothing.\<close>

lemma round_coef_exact:
  assumes "10 ^ k dvd c" shows "round_coef r c k = (c div 10 ^ k, False)"
proof -
  from assms obtain q where c: "c = 10 ^ k * q" by (auto elim: dvdE)
  have "\<bar>c\<bar> = 10 ^ k * \<bar>q\<bar>" by (simp add: c abs_mult)
  then have "\<bar>c\<bar> div 10 ^ k = \<bar>q\<bar>" and "\<bar>c\<bar> mod 10 ^ k = 0" by simp_all
  moreover have "sgn c * \<bar>q\<bar> = q" by (simp add: c sgn_mult) (simp add: sgn_if abs_if)
  moreover have "c div 10 ^ k = q" by (simp add: c)
  ultimately show ?thesis using not_le [THEN iffD2, OF zero_less_power [of "10::int" k]]
    by (cases r) (auto simp: round_coef_def Let_def)
qed

lemma dfix_rounded:
  assumes "coef d \<noteq> 0" "low = max (int (ndigits \<bar>coef d\<bar>) + expo d - int (prec c)) (etiny c)"
    "\<not> etop c < low" "expo d < low" "round_coef (rnd c) (coef d) (nat (low - expo d)) = (q, False)"
    "ndigits \<bar>q\<bar> \<le> prec c" "\<not> traps_exact c"
  shows "dfix c d = Inr (Dec q low)"
proof -
  have "\<not> etop c < int (ndigits \<bar>coef d\<bar>) + expo d - int (prec c)" using assms(2,3) by simp
  with assms show ?thesis by (simp add: dfix_def Let_def)
qed

text \<open>The default context keeps whole quantities, and keeps them inside the contract's bounds.\<close>

definition kept :: "decimal \<Rightarrow> decimal \<Rightarrow> bool" where
  "kept d r \<longleftrightarrow> dval r = dval d \<and> expo_ok r \<and> ndigits \<bar>coef r\<bar> \<le> 28"

lemma dfix_lots:
  assumes "lots d" and "expo_ok d"
  shows "\<exists>r. dfix default_ctx d = Inr r \<and> kept d r"
proof (cases "coef d = 0")
  case True
  with assms(2) show ?thesis
    by (auto simp: dfix_def default_ctx_def etiny_def kept_def expo_ok_def dval_def ndigits.simps)
next
  case False
  let ?n = "int (ndigits \<bar>coef d\<bar>)"
  let ?top = "?n + expo d - 28"
  have top: "?top \<le> 0" using lots_digits [OF assms(1) False] by simp
  have tiny: "etiny default_ctx = -1000026" and etop: "etop default_ctx = 999972"
    and prec: "prec default_ctx = 28"
    by (simp_all add: etiny_def etop_def default_ctx_def)
  show ?thesis
  proof (cases "expo d < ?top")
    case False
    then have "dfix default_ctx d = Inr d"
      using top assms(2) \<open>coef d \<noteq> 0\<close>
      by (simp add: dfix_def tiny etop prec Let_def expo_ok_def)
    moreover have "kept d d" using False assms(2) by (simp add: kept_def)
    ultimately show ?thesis by blast
  next
    case True
    define k where "k = nat (?top - expo d)"
    have k: "int k = ?n - 28" "k \<le> nat (- expo d)" and ktop: "?top = expo d + int k"
      using True top by (simp_all add: k_def)
    have dvd: "10 ^ k dvd coef d" using assms(1) k(2) by (rule lots_dvd)
    define q where "q = coef d div 10 ^ k"
    have qk: "coef d = q * 10 ^ k" using dvd by (simp add: q_def)
    have rc: "round_coef ROUND_HALF_EVEN (coef d) k = (q, False)" unfolding q_def by (rule round_coef_exact [OF dvd])
    have digits: "ndigits \<bar>coef d\<bar> = 28 + k" using k(1) by linarith
    have "\<bar>q\<bar> * 10 ^ k = \<bar>coef d\<bar>" by (simp add: qk abs_mult)
    also have "\<dots> < 10 ^ 28 * 10 ^ k"
      using ndigits_upper [of "\<bar>coef d\<bar>"] by (simp only: digits power_add)
    finally have "\<bar>q\<bar> < 10 ^ 28" by (simp only: mult_less_cancel_right) simp
    then have small: "ndigits \<bar>q\<bar> \<le> 28" by (intro ndigits_le) simp_all
    have low: "max ?top (-1000026) = expo d + int k" using assms(2) True by (simp add: expo_ok_def digits)
    have ctx: "rnd default_ctx = ROUND_HALF_EVEN" "\<not> traps_exact default_ctx" by (simp_all add: default_ctx_def)
    have "dfix default_ctx d = Inr (Dec q (expo d + int k))"
    proof (rule dfix_rounded)
      show "expo d + int k = max (?n + expo d - int (prec default_ctx)) (etiny default_ctx)"
        using low by (simp only: tiny prec of_nat_numeral)
      show "\<not> etop default_ctx < expo d + int k" unfolding etop using top ktop by linarith
      show "expo d < expo d + int k" using True ktop by linarith
      show "round_coef (rnd default_ctx) (coef d) (nat (expo d + int k - expo d)) = (q, False)"
        using rc by (simp only: ctx add_diff_cancel_left' nat_int)
    qed (use small ctx prec \<open>coef d \<noteq> 0\<close> in simp_all)
    moreover have "dval (Dec q (expo d + int k)) = dval d"
      using dval_clamped [of "expo d" "expo d + int k" q] qk by (cases d) simp
    moreover have "expo d + int k \<le> 0" using top ktop by simp
    ultimately show ?thesis using small assms(2) by (auto simp: kept_def expo_ok_def)
  qed
qed

section \<open>Sums and differences of whole quantities\<close>

lemma dadd_expo: "expo_ok a \<Longrightarrow> expo_ok b \<Longrightarrow> expo_ok (dadd_exact a b)"
  by (auto simp: dadd_exact_def expo_ok_def Let_def min_def)

lemma expo_ok_dneg [simp]: "expo_ok (dneg d) = expo_ok d"
  by (simp add: dneg_def expo_ok_def)

lemma dadd_lots:
  assumes "expo_ok a" "expo_ok b" "lots (dadd_exact a b)"
  shows "\<exists>r. dadd default_ctx a b = Inr r \<and> kept (dadd_exact a b) r"
  unfolding dadd_def by (rule dfix_lots [OF assms(3) dadd_expo [OF assms(1,2)]])

text \<open>What is left of a whole total, and what a fill adds, are exact.\<close>

lemma lots_diff:
  assumes "lots a" "lots b" "0 \<le> dval b" "dval b \<le> dval a"
  shows "lots (dadd_exact a (dneg b))"
proof -
  obtain m n where "dval a = of_int m" "\<bar>m\<bar> < 10 ^ 28" "dval b = of_int n" "\<bar>n\<bar> < 10 ^ 28"
    using assms(1,2) by (metis lots_whole)
  moreover from this assms(3,4) have "0 \<le> n" "n \<le> m" by simp_all
  ultimately show ?thesis by (intro whole_lots [of _ "m - n"]) auto
qed

lemma lots_sum:
  assumes "lots a" "lots b" "lots t" "0 \<le> dval a" "0 \<le> dval b" "dval a + dval b \<le> dval t"
  shows "lots (dadd_exact a b)"
proof -
  obtain m n k where "dval a = of_int m" "dval b = of_int n" "dval t = of_int k" "\<bar>k\<bar> < 10 ^ 28"
    using assms(1-3) by (metis lots_whole)
  moreover from this assms(4-6) have "0 \<le> m" "0 \<le> n" "m + n \<le> k"
    by (simp_all flip: of_int_add)
  ultimately show ?thesis by (intro whole_lots [of _ "m + n"]) auto
qed

lemma dsub_lots:
  assumes "expo_ok a" "expo_ok b" "lots a" "lots b" "0 \<le> dval b" "dval b \<le> dval a"
  shows "\<exists>r. dsub default_ctx a b = Inr r \<and> dval r = dval a - dval b \<and> expo_ok r \<and> ndigits \<bar>coef r\<bar> \<le> 28"
  using dadd_lots [of a "dneg b"] lots_diff [OF assms(3-6)] assms(1,2)
  by (auto simp: dsub_def kept_def)

lemma dsum_lots:
  assumes "expo_ok a" "expo_ok b" "lots a" "lots b" "lots t" "0 \<le> dval a" "0 \<le> dval b"
    "dval a + dval b \<le> dval t"
  shows "\<exists>r. dadd default_ctx a b = Inr r \<and> dval r = dval a + dval b \<and> expo_ok r \<and> ndigits \<bar>coef r\<bar> \<le> 28"
  using dadd_lots [of a b] lots_sum [OF assms(3-8)] assms(1,2) by (auto simp: kept_def)

end
