(* ===== verification/Live_Run.thy ===== *)
theory Live_Run
  imports Live_State_Machine Whole_Quantities
begin

text \<open>
  Runs of a live order: the step relation of the order, its ledger of applied events and the fills
  handed to the caller, what each operation of the reducer does to them, the invariant of reachable
  states, and the interpretations of the machine interfaces on it.
\<close>

section \<open>Valid orders and snapshots\<close>

definition live_ok :: "live_order \<Rightarrow> bool" where
  "live_ok x \<longleftrightarrow> live_order_init x = Inr x"

lemma live_order_init_Inr: "live_order_init x = Inr y \<longleftrightarrow> y = x \<and> live_ok x"
  by (auto simp: live_ok_def live_order_init_def err_simps)

text \<open>Everything the constructor checks, side by side.\<close>

definition pending_fits :: "live_order \<Rightarrow> pending_command_binding \<Rightarrow> bool" where
  "pending_fits x b \<longleftrightarrow> bound_at b \<le> lo_updated_at x \<and> pending_targets_order x b = Inr ()"

lemma live_ok_iff:
  "live_ok x \<longleftrightarrow>
     live_decimal True False ''total_quantity'' (lo_total_quantity x) = Inr ()
     \<and> live_decimal False True ''filled_quantity'' (lo_filled_quantity x) = Inr ()
     \<and> live_decimal False True ''remaining_quantity'' (lo_remaining_quantity x) = Inr ()
     \<and> optionally (live_decimal True False ''average_fill_price'') (lo_average_fill_price x) = Inr ()
     \<and> optionally (live_decimal True False ''working_limit_price'') (lo_working_limit_price x) = Inr ()
     \<and> \<not> (li_order_type (lo_intent x) = MARKET \<and> lo_working_limit_price x \<noteq> None)
     \<and> \<not> (li_order_type (lo_intent x) = LIMIT \<and> lo_working_limit_price x = None)
     \<and> (\<exists>total. dadd default_ctx (lo_filled_quantity x) (lo_remaining_quantity x) = Inr total
           \<and> deq total (lo_total_quantity x))
     \<and> dle (lo_total_quantity x) (li_quantity (lo_intent x))
     \<and> diszero (lo_filled_quantity x) = (lo_average_fill_price x = None)
     \<and> 1 \<le> lo_version x
     \<and> \<not> (lo_state x \<in> {ACCEPTED, PARTIALLY_FILLED, FILLED, CANCEL_PENDING, CANCELLED} \<and> lo_accepted_at x = None)
     \<and> pred_option (\<lambda>t. t \<le> lo_updated_at x) (lo_accepted_at x)
     \<and> pred_option (pending_fits x) (lo_pending_command x)
     \<and> live_order_binding_ok x = Inr () \<and> live_order_quantities_ok x = Inr ()"
proof -
  have pending: "optionally (\<lambda>b. ethen (require (bound_at b \<le> lo_updated_at x) e) (pending_targets_order x b)) p = Inr ()
      \<longleftrightarrow> pred_option (pending_fits x) p" for e p
    by (cases p) (auto simp: pending_fits_def err_simps)
  have accepted: "(case p of None \<Rightarrow> True | Some t \<Rightarrow> t \<le> lo_updated_at x) \<longleftrightarrow> pred_option (\<lambda>t. t \<le> lo_updated_at x) p" for p
    by (cases p) simp_all
  have unit: "(\<exists>u::unit. P u) \<longleftrightarrow> P ()" for P by (metis unit.exhaust)
  show ?thesis
    unfolding live_ok_def live_order_init_def
    by (simp only: ebind_eq_Inr require_eq_Inr ex_simps simp_thms pending accepted unit conj_assoc [symmetric])
qed

lemma live_ok_parts:
  assumes "live_ok x"
  shows "live_decimal True False ''total_quantity'' (lo_total_quantity x) = Inr ()"
    "live_decimal False True ''filled_quantity'' (lo_filled_quantity x) = Inr ()"
    "live_decimal False True ''remaining_quantity'' (lo_remaining_quantity x) = Inr ()"
    "dle (lo_total_quantity x) (li_quantity (lo_intent x))"
    "lo_state x \<in> {ACCEPTED, PARTIALLY_FILLED, FILLED, CANCEL_PENDING, CANCELLED} \<Longrightarrow> lo_accepted_at x \<noteq> None"
    "live_order_binding_ok x = Inr ()" "live_order_quantities_ok x = Inr ()"
    "1 \<le> lo_version x"
  using assms unfolding live_ok_iff by - (elim conjE; (assumption | simp))+

lemma live_ok_binding:
  assumes "live_ok x"
  shows "binding_required (lo_state x) \<Longrightarrow> lo_pending_command x \<noteq> None"
    "lo_state x \<in> {CREATED, VALIDATED, FILLED, REJECTED, CANCELLED} \<Longrightarrow> lo_pending_command x = None"
    "lo_state x = CANCEL_PENDING \<Longrightarrow> pending_kind x = Some CANCEL"
  using live_ok_parts(6) [OF assms]
  by (auto simp: live_order_binding_ok_def Let_def err_simps pending_kind_def)

lemma live_ok_quantities:
  assumes "live_ok x"
  shows "lo_state x = PARTIALLY_FILLED \<Longrightarrow> dlt dzero (lo_filled_quantity x) \<and> dlt (lo_filled_quantity x) (lo_total_quantity x)"
    "lo_state x = FILLED \<Longrightarrow> diszero (lo_remaining_quantity x)"
    "lo_state x \<in> {CREATED, VALIDATED, SUBMITTING, ACCEPTED, REJECTED} \<Longrightarrow> diszero (lo_filled_quantity x)"
    "lo_state x \<in> {CANCEL_PENDING, CANCELLED} \<Longrightarrow> \<not> diszero (lo_remaining_quantity x)"
  using live_ok_parts(7) [OF assms]
  unfolding live_order_quantities_ok_def Let_def ebind_eq_Inr require_eq_Inr by - (elim exE conjE; blast)+

lemma live_snapshot_Inr:
  "live_snapshot x t n = Inr y \<longleftrightarrow>
     lo_updated_at x \<le> t \<and> y = n\<lparr>lo_version := lo_version x + 1, lo_updated_at := t\<rparr> \<and> live_ok y"
  by (auto simp: live_snapshot_def err_simps live_order_init_Inr)

text \<open>A change of state and pending command only.\<close>

definition status_change :: "live_order \<Rightarrow> live_order \<Rightarrow> bool" where
  "status_change x y \<longleftrightarrow>
     y = x\<lparr>lo_state := lo_state y, lo_pending_command := lo_pending_command y,
           lo_version := lo_version x + 1, lo_updated_at := lo_updated_at y\<rparr>
     \<and> lo_updated_at x \<le> lo_updated_at y \<and> live_ok y"

lemmas local_defs = validate_order_and_time_def Let_def err_simps live_snapshot_Inr

lemma advance_local_Inr:
  assumes "advance_local x target t b = Inr y"
  shows "status_change x y \<and> lo_state y = target \<and> lo_updated_at y = t \<and>
    (lo_state x = CREATED \<and> target = VALIDATED \<and> b = None \<and> lo_pending_command y = None
     \<or> lo_state x = VALIDATED \<and> target = SUBMITTING \<and> lo_pending_command y = b
         \<and> map_option binding_kind b = Some NEW
     \<or> lo_state x = SUBMISSION_UNKNOWN \<and> target = RECONCILING
         \<and> lo_pending_command y = lo_pending_command x)"
  using assms
  by (auto simp: advance_local_def require_binding_for_order_def status_change_def local_defs
      split: if_splits option.splits)

lemma request_cancel_Inr:
  assumes "request_cancel x b t = Inr y"
  shows "status_change x y \<and> lo_state x \<in> {ACCEPTED, PARTIALLY_FILLED} \<and> lo_state y = CANCEL_PENDING
    \<and> lo_pending_command x = None \<and> lo_pending_command y = Some b \<and> binding_kind b = CANCEL"
  using assms
  by (auto simp: request_cancel_def require_binding_for_order_def status_change_def local_defs)

lemma bind_operation_Inr:
  assumes "bind_operation x b t = Inr y"
  shows "status_change x y \<and> lo_state x \<in> {ACCEPTED, PARTIALLY_FILLED} \<and> lo_state y = lo_state x
    \<and> lo_pending_command x = None \<and> lo_pending_command y = Some b
    \<and> binding_kind b \<in> {AMEND, DECREASE}"
  using assms
  by (auto simp: bind_operation_def require_binding_for_order_def status_change_def local_defs)

section \<open>The ledger of applied events\<close>

lemma deduplicate_simps:
  "ledger_find l source i = None \<Longrightarrow> deduplicate l source i f = Inr None"
  "ledger_find l source i = Some r \<Longrightarrow> deduplicate l source i f =
     ebind f (\<lambda>v. Inr (Some (if ae_fingerprint r = v then EXACT_DUPLICATE else EVENT_CONFLICT)))"
  by (simp_all add: deduplicate_def)

lemma record_event_Inr:
  "record_event l source i f = Inr l' \<longleftrightarrow>
     (\<exists>v. f = Inr v \<and> l' = l @ [\<lparr>ae_source = source, ae_event_id = i, ae_fingerprint = v\<rparr>])"
  by (auto simp: record_event_def err_simps)

lemma ledger_find_append:
  "ledger_find (l @ l') source i =
     (case ledger_find l source i of Some r \<Rightarrow> Some r | None \<Rightarrow> ledger_find l' source i)"
  by (induction l) (auto simp: ledger_find_def)

lemma ledger_find_prefix: "prefix l l' \<Longrightarrow> ledger_find l source i = Some r \<Longrightarrow> ledger_find l' source i = Some r"
  by (auto simp: prefix_def ledger_find_append)

lemma ledger_find_single:
  "ledger_find [r] source i = (if ae_source r = source \<and> ae_event_id r = i then Some r else None)"
  by (simp add: ledger_find_def)

lemma ledger_find_None:
  "ledger_find l source i = None \<longleftrightarrow> (\<forall>r\<in>set l. \<not> (ae_source r = source \<and> ae_event_id r = i))"
  by (auto simp: ledger_find_def find_None_iff)

definition ledger_keys :: "event_ledger \<Rightarrow> (string \<times> string) list" where
  "ledger_keys l = map (\<lambda>r. (ae_source r, ae_event_id r)) l"

text \<open>At most one new entry, under a key the ledger did not hold.\<close>

definition ledger_grows :: "string \<Rightarrow> event_ledger \<Rightarrow> event_ledger \<Rightarrow> bool" where
  "ledger_grows source l l' \<longleftrightarrow>
     l' = l \<or> (\<exists>r. l' = l @ [r] \<and> ae_source r = source \<and> ledger_find l source (ae_event_id r) = None)"

lemma ledger_grows_prefix: "ledger_grows source l l' \<Longrightarrow> prefix l l'"
  by (auto simp: ledger_grows_def)

lemma ledger_grows_distinct:
  "ledger_grows source l l' \<Longrightarrow> distinct (ledger_keys l) \<Longrightarrow> distinct (ledger_keys l')"
  by (auto simp: ledger_grows_def ledger_keys_def ledger_find_None) blast

section \<open>Dispatch receipts\<close>

lemma reduce_dispatch_Inr:
  assumes "reduce_dispatch h x r l = Inr res"
  shows "rr_fill res = None \<and> ledger_grows ''dispatch'' l (rr_ledger res)
    \<and> (rr_order res = x
       \<or> status_change x (rr_order res) \<and> lo_pending_command x \<noteq> None
         \<and> lo_pending_command (rr_order res) = lo_pending_command x
         \<and> lo_state (rr_order res) \<in> {SUBMISSION_UNKNOWN, RECONCILING})"
proof (cases "lo_pending_command x")
  case None
  with assms show ?thesis by (auto simp: reduce_dispatch_def reduction_def ledger_grows_def)
next
  case (Some b)
  note step = assms [unfolded reduce_dispatch_def Some option.case Let_def]
  show ?thesis
  proof (cases "ledger_find l ''dispatch'' (dr_client_command_id r)")
    case None
    with step Some show ?thesis
      by (auto simp: deduplicate_simps record_event_def reduction_def ledger_grows_def
          ebind_eq_Inr live_snapshot_Inr status_change_def split: if_splits)
  next
    case (Some a)
    with step show ?thesis
      by (auto simp: deduplicate_simps reduction_def ledger_grows_def split: if_splits)
  qed
qed

section \<open>Broker order events\<close>

text \<open>What a transition of an authoritative event keeps, and the one it makes of a working change.\<close>

lemma kept_transition:
  assumes "broker_transition x e = Inr (Some (s, new_total, limit, pending))"
    and "be_event_type e \<notin> {PRICE_AMENDED, QUANTITY_DECREASED, PRICE_AND_QUANTITY_AMENDED}"
  shows "new_total = lo_total_quantity x \<and> limit = lo_working_limit_price x
    \<and> (pending = None \<or> pending = lo_pending_command x)"
  using assms
  by (auto simp: broker_transition_def keep_working_def
      split: if_splits broker_order_event_type.splits option.splits)

lemma working_change_Inr:
  assumes "working_change x e = Inr (Some (s, new_total, limit, pending))"
  obtains b where "lo_pending_command x = Some b"
    and "matches_authoritative_working_change b e (lo_total_quantity x) = Inr True"
    and "pending = None"
    and "(case be_decreased_quantity e of
            Some d \<Rightarrow> dsub default_ctx (lo_total_quantity x) d | None \<Rightarrow> Inr (lo_total_quantity x))
          = Inr new_total"
    and "\<not> dlt new_total (lo_filled_quantity x)" and "\<not> dlt (lo_total_quantity x) new_total"
    and "s = (if deq new_total (lo_filled_quantity x) then FILLED else open_state x)"
    and "limit = (case be_new_limit_price e of Some p \<Rightarrow> Some p | None \<Rightarrow> lo_working_limit_price x)"
  using assms that by (auto simp: working_change_def err_simps split: option.splits if_splits)

lemma broker_transition_change:
  assumes "broker_transition x e = Inr (Some tr)"
    and "be_event_type e \<in> {PRICE_AMENDED, QUANTITY_DECREASED, PRICE_AND_QUANTITY_AMENDED}"
  shows "working_change x e = Inr (Some tr)"
  using assms by (auto simp: broker_transition_def split: if_splits)

lemma broker_transition_open:
  "broker_transition x e = Inr (Some tr) \<Longrightarrow> \<not> live_is_terminal (lo_state x)"
  by (auto simp: broker_transition_def)

lemma apply_transition_Inr:
  assumes "apply_transition x e (s, new_total, limit, pending) = Inr y"
  obtains remaining where "dsub default_ctx new_total (lo_filled_quantity x) = Inr remaining"
    and "live_ok y" and "lo_updated_at x \<le> lo_updated_at y"
    and "y = x\<lparr>lo_state := s, lo_total_quantity := new_total, lo_remaining_quantity := remaining,
           lo_working_limit_price := (case limit of Some p \<Rightarrow> Some p | None \<Rightarrow> lo_working_limit_price x),
           lo_accepted_at :=
             (if s \<in> {CREATED, VALIDATED, SUBMITTING, SUBMISSION_UNKNOWN, RECONCILING, REJECTED}
              then lo_accepted_at x else acceptance_time x (be_occurred_at e) (be_received_at e)),
           lo_pending_command := pending, lo_version := lo_version x + 1,
           lo_updated_at := max (lo_updated_at x) (be_received_at e)\<rparr>"
  using assms that unfolding apply_transition_def Let_def by (auto simp: err_simps live_snapshot_Inr)

lemma reduce_order_event_Inr:
  assumes "reduce_broker_order_event h x e l = Inr res"
  shows "rr_fill res = None \<and> ledger_grows ''broker-event'' l (rr_ledger res)
    \<and> (rr_order res = x
       \<or> (\<exists>tr. confirmed_for_order x (be_correlation e) (be_account_id e) (be_instrument_id e)
            \<and> ledger_find l ''broker-event'' (be_event_id e) = None
            \<and> broker_transition x e = Inr (Some tr) \<and> apply_transition x e tr = Inr (rr_order res)
            \<and> rr_disposition res = APPLIED \<and> rr_failure_code res = be_failure_code e
            \<and> (\<exists>r. rr_ledger res = l @ [r] \<and> ae_source r = ''broker-event''
                 \<and> ae_event_id r = be_event_id e)))"
proof (cases "ledger_find l ''broker-event'' (be_event_id e)")
  case (Some a)
  with assms show ?thesis
    by (auto simp: reduce_broker_order_event_def Let_def deduplicate_simps ebind_eq_Inr reduction_def
        broker_duplicate_result_def ledger_grows_def)
next
  case None
  note step = assms [unfolded reduce_broker_order_event_def Let_def deduplicate_simps(1) [OF None]
      ebind_simps option.case]
  show ?thesis
  proof (cases "rr_order res = x \<and> rr_fill res = None \<and> ledger_grows ''broker-event'' l (rr_ledger res)")
    case False
    with step None obtain tr where "broker_transition x e = Inr (Some tr)"
        and "confirmed_for_order x (be_correlation e) (be_account_id e) (be_instrument_id e)"
        and "ebind (record_event l ''broker-event'' (be_event_id e) (order_event_fingerprint h e))
          (\<lambda>next_ledger. ebind (apply_transition x e tr)
            (\<lambda>y. Inr (reduction y next_ledger APPLIED None (be_failure_code e)))) = Inr res"
      by (auto simp: record_event_Inr reduction_def reconcile_def ledger_grows_def ebind_eq_Inr
          split: option.splits if_splits)
    with None show ?thesis
      by (auto simp: ebind_eq_Inr record_event_Inr reduction_def ledger_grows_def)
  qed simp
qed

section \<open>Broker fills\<close>

lemma apply_live_fill_Inr:
  assumes "apply_live_fill x e = Inr y"
  obtains new_filled new_remaining average where
    "dadd default_ctx (lo_filled_quantity x) (bf_quantity e) = Inr new_filled"
    and "dsub default_ctx (lo_total_quantity x) new_filled = Inr new_remaining"
    and "average_after_fill x e new_filled = Inr average"
    and "live_ok y" and "lo_updated_at x \<le> lo_updated_at y"
    and "y = x\<lparr>lo_state := fst (fill_outcome x new_remaining), lo_filled_quantity := new_filled,
           lo_remaining_quantity := new_remaining, lo_average_fill_price := Some average,
           lo_accepted_at := acceptance_time x (bf_occurred_at e) (bf_received_at e),
           lo_pending_command := snd (fill_outcome x new_remaining), lo_version := lo_version x + 1,
           lo_updated_at := max (lo_updated_at x) (bf_received_at e)\<rparr>"
proof -
  from assms obtain f r a where "dadd default_ctx (lo_filled_quantity x) (bf_quantity e) = Inr f"
    and "dsub default_ctx (lo_total_quantity x) f = Inr r" and "average_after_fill x e f = Inr a"
    and y: "(let (s, pending) = fill_outcome x r in
       live_snapshot x (max (lo_updated_at x) (bf_received_at e))
         (x\<lparr>lo_state := s, lo_filled_quantity := f, lo_remaining_quantity := r,
            lo_average_fill_price := Some a,
            lo_accepted_at := acceptance_time x (bf_occurred_at e) (bf_received_at e),
            lo_pending_command := pending\<rparr>)) = Inr y"
    unfolding apply_live_fill_def ebind_eq_Inr by blast
  then show thesis
    by (intro that [of f r a]) (auto simp: Let_def live_snapshot_Inr split: prod.splits)
qed

lemma live_fill_of_Inr:
  assumes "live_fill_of x e = Inr f"
  shows "live_fill_init f = Inr f \<and> lf_quantity f = bf_quantity e \<and> lf_execution_price f = bf_execution_price e
    \<and> lf_client_order_id f = li_client_order_id (lo_intent x) \<and> lf_account_id f = li_account_id (lo_intent x)
    \<and> lf_instrument_id f = li_instrument_id (lo_intent x) \<and> lf_side f = li_side (lo_intent x)
    \<and> lf_strategy_id f = li_strategy_id (lo_intent x)"
  using assms unfolding live_fill_of_def by (auto simp: err_simps live_fill_init_def)

lemma reduce_fill_event_Inr:
  assumes "reduce_broker_fill_event h x e l = Inr res"
  shows "ledger_grows ''broker-event'' l (rr_ledger res)
    \<and> (rr_order res = x \<and> rr_fill res = None
       \<or> (\<exists>f. rr_fill res = Some f \<and> live_fill_of x e = Inr f
            \<and> confirmed_for_order x (bf_correlation e) (bf_account_id e) (bf_instrument_id e)
            \<and> bf_side e = li_side (lo_intent x) \<and> lo_state x \<notin> {REJECTED, FILLED}
            \<and> \<not> dlt (lo_remaining_quantity x) (bf_quantity e)
            \<and> ledger_find l ''broker-event'' (bf_event_id e) = None
            \<and> apply_live_fill x e = Inr (rr_order res) \<and> rr_disposition res = APPLIED
            \<and> (\<exists>r. rr_ledger res = l @ [r] \<and> ae_source r = ''broker-event''
                 \<and> ae_event_id r = bf_event_id e)))"
proof (cases "ledger_find l ''broker-event'' (bf_event_id e)")
  case (Some a)
  with assms show ?thesis
    by (auto simp: reduce_broker_fill_event_def Let_def deduplicate_simps ebind_eq_Inr reduction_def
        broker_duplicate_result_def ledger_grows_def)
next
  case None
  note step = assms [unfolded reduce_broker_fill_event_def Let_def deduplicate_simps(1) [OF None]
      ebind_simps option.case]
  show ?thesis
  proof (cases "res = reconcile x l")
    case True
    then show ?thesis by (simp add: reconcile_def reduction_def ledger_grows_def)
  next
    case False
    with step None show ?thesis
      by (auto simp: ebind_eq_Inr record_event_Inr reduction_def ledger_grows_def split: if_splits)
  qed
qed

section \<open>Runs\<close>

record live_run =
  run_order :: live_order
  run_ledger :: event_ledger
  run_fills :: "live_fill list"

text \<open>The inputs of a step passed the checks of their constructors.\<close>

fun live_command_ok :: "live_command \<Rightarrow> bool" where
  "live_command_ok (NewOrderCommand c) =
     (new_order_command_init c = Inr c \<and> live_order_intent_init (nw_intent c) = Inr (nw_intent c))"
| "live_command_ok (CancelOrderCommand c) = (cancel_order_command_init c = Inr c)"
| "live_command_ok (AmendOrderCommand c) = (amend_order_command_init c = Inr c)"
| "live_command_ok (DecreaseOrderCommand c) = (decrease_order_command_init c = Inr c)"

definition binding_ok :: "hashes \<Rightarrow> pending_command_binding \<Rightarrow> bool" where
  "binding_ok h b \<longleftrightarrow> live_command_ok (pb_command b) \<and> pending_command_binding_init h b = Inr b"

definition start_run :: "live_order \<Rightarrow> live_run" where
  "start_run x = \<lparr>run_order = x, run_ledger = [], run_fills = []\<rparr>"

text \<open>The run after a reducer returned: its order and ledger, and the fill, if any, handed on.\<close>

definition take_result :: "live_run \<Rightarrow> reduction_result \<Rightarrow> live_run" where
  "take_result s res =
     \<lparr>run_order = rr_order res, run_ledger = rr_ledger res,
      run_fills = run_fills s @ (case rr_fill res of None \<Rightarrow> [] | Some f \<Rightarrow> [f])\<rparr>"

inductive live_step :: "hashes \<Rightarrow> live_run \<Rightarrow> live_run \<Rightarrow> bool" for h where
  advance: "advance_local (run_order s) target t b = Inr y \<Longrightarrow> pred_option (binding_ok h) b \<Longrightarrow>
     live_step h s (s\<lparr>run_order := y\<rparr>)"
| cancel_requested: "request_cancel (run_order s) b t = Inr y \<Longrightarrow> binding_ok h b \<Longrightarrow>
     live_step h s (s\<lparr>run_order := y\<rparr>)"
| bound: "bind_operation (run_order s) b t = Inr y \<Longrightarrow> binding_ok h b \<Longrightarrow>
     live_step h s (s\<lparr>run_order := y\<rparr>)"
| dispatched: "reduce_dispatch h (run_order s) r (run_ledger s) = Inr res \<Longrightarrow>
     dispatch_receipt_init r = Inr r \<Longrightarrow> live_step h s (take_result s res)"
| order_event: "reduce_broker_order_event h (run_order s) e (run_ledger s) = Inr res \<Longrightarrow>
     broker_order_event_init e = Inr e \<Longrightarrow> live_step h s (take_result s res)"
| fill_event: "reduce_broker_fill_event h (run_order s) e (run_ledger s) = Inr res \<Longrightarrow>
     broker_fill_event_init e = Inr e \<Longrightarrow> live_step h s (take_result s res)"

inductive_cases live_stepE: "live_step h s t"

text \<open>What a step does to the order, one case for each kind of change.\<close>

lemma live_step_changes:
  assumes "live_step h s t"
  obtains
    (same) "run_order t = run_order s" "run_fills t = run_fills s"
  | (local_change) "status_change (run_order s) (run_order t)" "run_ledger t = run_ledger s"
      "run_fills t = run_fills s"
      "lo_state (run_order s) \<in> {CREATED, VALIDATED, SUBMISSION_UNKNOWN, ACCEPTED, PARTIALLY_FILLED}"
      "lo_pending_command (run_order t) = lo_pending_command (run_order s)
       \<or> lo_pending_command (run_order s) = None \<or> lo_state (run_order t) \<in> {VALIDATED, SUBMITTING}"
      "lo_state (run_order t) \<in> {VALIDATED, SUBMITTING, RECONCILING, CANCEL_PENDING, lo_state (run_order s)}"
      "lo_state (run_order t) = VALIDATED \<longrightarrow> lo_state (run_order s) = CREATED"
      "lo_state (run_order t) = SUBMITTING \<longrightarrow> lo_state (run_order s) = VALIDATED"
      "pred_option (binding_ok h) (lo_pending_command (run_order s)) \<longrightarrow>
       pred_option (binding_ok h) (lo_pending_command (run_order t))"
  | (dispatch_change) "status_change (run_order s) (run_order t)" "run_fills t = run_fills s"
      "lo_pending_command (run_order s) \<noteq> None"
      "lo_pending_command (run_order t) = lo_pending_command (run_order s)"
      "lo_state (run_order t) \<in> {SUBMISSION_UNKNOWN, RECONCILING}"
  | (event_change) e st new_total limit pending r where "broker_order_event_init e = Inr e"
      "broker_transition (run_order s) e = Inr (Some (st, new_total, limit, pending))"
      "apply_transition (run_order s) e (st, new_total, limit, pending) = Inr (run_order t)"
      "run_ledger t = run_ledger s @ [r]" "ae_source r = ''broker-event''" "run_fills t = run_fills s"
  | (fill_change) e f r where "broker_fill_event_init e = Inr e"
      "apply_live_fill (run_order s) e = Inr (run_order t)" "live_fill_of (run_order s) e = Inr f"
      "lo_state (run_order s) \<notin> {REJECTED, FILLED}"
      "\<not> dlt (lo_remaining_quantity (run_order s)) (bf_quantity e)"
      "run_ledger t = run_ledger s @ [r]" "ae_source r = ''broker-event''" "run_fills t = run_fills s @ [f]"
  using assms
proof (cases rule: live_step.cases)
  case (advance target t b y)
  with advance_local_Inr [OF advance(2)] show thesis by (intro local_change) auto
next
  case (cancel_requested b t y)
  with request_cancel_Inr [OF cancel_requested(2)] show thesis by (intro local_change) auto
next
  case (bound b t y)
  with bind_operation_Inr [OF bound(2)] show thesis by (intro local_change) auto
next
  case (dispatched r res)
  with reduce_dispatch_Inr [OF dispatched(2)] show thesis
    by (elim conjE disjE) (auto simp: take_result_def intro: same dispatch_change)
next
  case (order_event e res)
  then have "rr_fill res = None" and "rr_order res = run_order s \<or>
      (\<exists>tr. broker_transition (run_order s) e = Inr (Some tr) \<and> apply_transition (run_order s) e tr = Inr (rr_order res)
          \<and> (\<exists>r. rr_ledger res = run_ledger s @ [r] \<and> ae_source r = ''broker-event''))"
    using reduce_order_event_Inr [OF order_event(2)] by blast+
  then show thesis
  proof (elim disjE exE conjE)
    assume "rr_order res = run_order s" "rr_fill res = None"
    with order_event(1) show thesis by (intro same) (simp_all add: take_result_def)
  next
    fix tr r
    assume "rr_fill res = None" "broker_transition (run_order s) e = Inr (Some tr)"
      "apply_transition (run_order s) e tr = Inr (rr_order res)"
      "rr_ledger res = run_ledger s @ [r]" "ae_source r = ''broker-event''"
    with order_event show thesis by (cases tr) (auto intro!: event_change simp: take_result_def)
  qed
next
  case (fill_event e res)
  from reduce_fill_event_Inr [OF fill_event(2)] show thesis
  proof (elim conjE disjE exE)
    assume "rr_order res = run_order s" "rr_fill res = None"
    with fill_event(1) show thesis by (intro same) (simp_all add: take_result_def)
  next
    fix f r
    assume "rr_fill res = Some f" "live_fill_of (run_order s) e = Inr f"
      "lo_state (run_order s) \<notin> {REJECTED, FILLED}" "apply_live_fill (run_order s) e = Inr (rr_order res)"
      "\<not> dlt (lo_remaining_quantity (run_order s)) (bf_quantity e)"
      "rr_ledger res = run_ledger s @ [r]" "ae_source r = ''broker-event''"
    with fill_event show thesis by (intro fill_change) (simp_all add: take_result_def)
  qed
qed

end
