(* ===== verification/Live_Machine.thy ===== *)
theory Live_Machine
  imports Live_Run
begin

text \<open>
  The invariant of the reachable runs of a live order and their progress: what every step keeps, and
  in which direction it may move the order. Both are instances of the machine interfaces of the prelude.
\<close>

lemma live_step_ledger:
  assumes "live_step h s t"
  shows "\<exists>source. ledger_grows source (run_ledger s) (run_ledger t)"
  using assms
proof (cases rule: live_step.cases)
  case (dispatched r res)
  then show ?thesis using reduce_dispatch_Inr [OF dispatched(2)] by (auto simp: take_result_def)
next
  case (order_event e res)
  then show ?thesis using reduce_order_event_Inr [OF order_event(2)] by (auto simp: take_result_def)
next
  case (fill_event e res)
  then show ?thesis using reduce_fill_event_Inr [OF fill_event(2)] by (auto simp: take_result_def)
qed (auto simp: ledger_grows_def)

lemma live_step_prefix: "live_step h s t \<Longrightarrow> prefix (run_ledger s) (run_ledger t)"
  using live_step_ledger ledger_grows_prefix by blast

lemma live_step_fills: "live_step h s t \<Longrightarrow> prefix (run_fills s) (run_fills t)"
  by (erule live_step_changes) auto

section \<open>The invariant\<close>

definition broker_evidence :: "event_ledger \<Rightarrow> bool" where
  "broker_evidence l \<longleftrightarrow> (\<exists>r\<in>set l. ae_source r = ''broker-event'')"

definition fill_belongs :: "live_order \<Rightarrow> live_fill \<Rightarrow> bool" where
  "fill_belongs x f \<longleftrightarrow>
     live_fill_init f = Inr f \<and> lf_client_order_id f = li_client_order_id (lo_intent x)
     \<and> lf_strategy_id f = li_strategy_id (lo_intent x) \<and> lf_account_id f = li_account_id (lo_intent x)
     \<and> lf_instrument_id f = li_instrument_id (lo_intent x) \<and> lf_side f = li_side (lo_intent x)"

definition live_inv :: "hashes \<Rightarrow> live_run \<Rightarrow> bool" where
  "live_inv h s \<longleftrightarrow>
     live_ok (run_order s) \<and> distinct (ledger_keys (run_ledger s))
     \<and> pred_option (binding_ok h) (lo_pending_command (run_order s))
     \<and> (lo_accepted_at (run_order s) \<noteq> None \<or> lo_state (run_order s) = REJECTED
         \<longrightarrow> broker_evidence (run_ledger s))
     \<and> (\<not> diszero (lo_filled_quantity (run_order s)) \<longrightarrow> lo_accepted_at (run_order s) \<noteq> None)
     \<and> (\<forall>f\<in>set (run_fills s). fill_belongs (run_order s) f)"

lemma broker_evidence_prefix: "broker_evidence l \<Longrightarrow> prefix l l' \<Longrightarrow> broker_evidence l'"
  by (auto simp: broker_evidence_def prefix_def)

lemma broker_evidence_snoc: "ae_source r = ''broker-event'' \<Longrightarrow> broker_evidence (l @ [r])"
  by (simp add: broker_evidence_def)

lemma status_change_fields:
  assumes "status_change x y"
  shows "lo_intent y = lo_intent x" "lo_total_quantity y = lo_total_quantity x"
    "lo_filled_quantity y = lo_filled_quantity x" "lo_remaining_quantity y = lo_remaining_quantity x"
    "lo_average_fill_price y = lo_average_fill_price x" "lo_working_limit_price y = lo_working_limit_price x"
    "lo_accepted_at y = lo_accepted_at x" "lo_version y = lo_version x + 1"
    "lo_updated_at x \<le> lo_updated_at y" "live_ok y"
proof -
  from assms obtain st p t where "y = x\<lparr>lo_state := st, lo_pending_command := p, lo_version := lo_version x + 1,
      lo_updated_at := t\<rparr>"
    unfolding status_change_def by blast
  with assms show "lo_intent y = lo_intent x" "lo_total_quantity y = lo_total_quantity x"
    "lo_filled_quantity y = lo_filled_quantity x" "lo_remaining_quantity y = lo_remaining_quantity x"
    "lo_average_fill_price y = lo_average_fill_price x" "lo_working_limit_price y = lo_working_limit_price x"
    "lo_accepted_at y = lo_accepted_at x" "lo_version y = lo_version x + 1"
    "lo_updated_at x \<le> lo_updated_at y" "live_ok y"
    by (simp_all add: status_change_def)
qed

lemma apply_transition_fields:
  assumes "apply_transition x e (st, new_total, limit, pending) = Inr y"
  shows "lo_intent y = lo_intent x" "lo_state y = st" "lo_total_quantity y = new_total"
    "lo_filled_quantity y = lo_filled_quantity x" "lo_average_fill_price y = lo_average_fill_price x"
    "lo_pending_command y = pending" "lo_version y = lo_version x + 1" "lo_updated_at x \<le> lo_updated_at y"
    "live_ok y" "dsub default_ctx new_total (lo_filled_quantity x) = Inr (lo_remaining_quantity y)"
    "lo_accepted_at x \<noteq> None \<longrightarrow> lo_accepted_at y = lo_accepted_at x"
    "lo_working_limit_price y = (case limit of Some p \<Rightarrow> Some p | None \<Rightarrow> lo_working_limit_price x)"
  by (rule apply_transition_Inr [OF assms], auto simp: acceptance_time_def split: option.splits)+

lemma apply_live_fill_fields:
  assumes "apply_live_fill x e = Inr y"
  shows "lo_intent y = lo_intent x" "lo_total_quantity y = lo_total_quantity x"
    "lo_working_limit_price y = lo_working_limit_price x" "lo_version y = lo_version x + 1"
    "lo_updated_at x \<le> lo_updated_at y" "live_ok y" "lo_accepted_at y \<noteq> None"
    "lo_accepted_at x \<noteq> None \<longrightarrow> lo_accepted_at y = lo_accepted_at x"
    "dadd default_ctx (lo_filled_quantity x) (bf_quantity e) = Inr (lo_filled_quantity y)"
    "dsub default_ctx (lo_total_quantity x) (lo_filled_quantity y) = Inr (lo_remaining_quantity y)"
    "(lo_state y, lo_pending_command y) = fill_outcome x (lo_remaining_quantity y)"
  by (rule apply_live_fill_Inr [OF assms], auto simp: acceptance_time_def split: option.splits)+

lemma fill_outcome_fields:
  assumes "(st, p) = fill_outcome x r"
  shows "st \<in> {FILLED, CANCELLED, RECONCILING, CANCEL_PENDING, PARTIALLY_FILLED}"
    and "p = None \<or> p = lo_pending_command x"
    and "st = CANCELLED \<longrightarrow> lo_state x = CANCELLED"
    and "lo_state x = CANCELLED \<longrightarrow> st \<in> {CANCELLED, FILLED} \<and> p = None"
  using assms by (auto simp: fill_outcome_def split: if_splits)

lemma transition_pending:
  assumes "broker_transition x e = Inr (Some (st, new_total, limit, pending))"
  shows "pending = None \<or> pending = lo_pending_command x"
proof (cases "be_event_type e \<in> {PRICE_AMENDED, QUANTITY_DECREASED, PRICE_AND_QUANTITY_AMENDED}")
  case True
  from broker_transition_change [OF assms True] show ?thesis by (rule working_change_Inr) simp
qed (use kept_transition [OF assms] in blast)

lemma live_inv_step:
  assumes inv: "live_inv h s" and step: "live_step h s t"
  shows "live_inv h t"
proof -
  note keys = live_step_ledger [OF step] and grow = live_step_prefix [OF step]
  have distinct: "distinct (ledger_keys (run_ledger t))"
    using keys inv ledger_grows_distinct by (auto simp: live_inv_def)
  have evidence: "broker_evidence (run_ledger t)" if "broker_evidence (run_ledger s)"
    using broker_evidence_prefix [OF that grow] .
  from step show ?thesis
  proof (cases rule: live_step_changes)
    case same
    with inv distinct evidence show ?thesis by (auto simp: live_inv_def)
  next
    case local_change
    note f = status_change_fields [OF local_change(1)]
    have "lo_state (run_order t) \<noteq> REJECTED" using local_change(4,6) by auto
    moreover have "pred_option (binding_ok h) (lo_pending_command (run_order t))"
      using inv local_change(9) by (simp add: live_inv_def)
    ultimately show ?thesis
      using inv distinct evidence local_change(3) f(1,3,7,10)
      unfolding live_inv_def fill_belongs_def by simp
  next
    case dispatch_change
    note f = status_change_fields [OF dispatch_change(1)]
    show ?thesis
      using inv distinct evidence dispatch_change(2-5) f(1,3,7,10)
      by (auto simp: live_inv_def fill_belongs_def)
  next
    case (event_change e st new_total limit pending r)
    note f = apply_transition_fields [OF event_change(3)]
    have "pending = None \<or> pending = lo_pending_command (run_order s)"
      using event_change(2) by (rule transition_pending)
    moreover have "broker_evidence (run_ledger t)"
      unfolding event_change(4) using event_change(5) by (rule broker_evidence_snoc)
    ultimately show ?thesis
      using inv distinct event_change(6) f(1,4,6,9,11)
      by (auto simp: live_inv_def fill_belongs_def)
  next
    case (fill_change e f r)
    note g = apply_live_fill_fields [OF fill_change(2)]
    have "lo_pending_command (run_order t) = None \<or> lo_pending_command (run_order t) = lo_pending_command (run_order s)"
      using fill_outcome_fields(2) [OF g(11)] .
    moreover have "broker_evidence (run_ledger t)"
      unfolding fill_change(6) using fill_change(7) by (rule broker_evidence_snoc)
    moreover have "fill_belongs (run_order t) f"
      using live_fill_of_Inr [OF fill_change(3)] g(1) by (simp add: fill_belongs_def)
    ultimately show ?thesis
      using inv distinct fill_change(8) g(1,6,7) by (auto simp: live_inv_def fill_belongs_def)
  qed
qed

lemma live_inv_start:
  assumes "create_live_order i = Inr x" shows "live_inv h (start_run x)"
  using assms
  by (auto simp: create_live_order_def live_order_init_Inr live_inv_def start_run_def ledger_keys_def
      diszero_def dzero_def)

interpretation live: journalled_machine "live_step h" "live_inv h" run_ledger for h
  by unfold_locales (auto intro: live_inv_step live_step_prefix)

section \<open>Progress\<close>

text \<open>How far an order is: local preparation, submitted, closed by a cancellation, closed for good.\<close>

fun stage :: "live_order_state \<Rightarrow> nat" where
  "stage CREATED = 0"
| "stage VALIDATED = 1"
| "stage SUBMITTING = 2"
| "stage CANCELLED = 4"
| "stage FILLED = 5"
| "stage REJECTED = 5"
| "stage _ = 3"

definition live_progress :: "live_order \<Rightarrow> live_order \<Rightarrow> bool" where
  "live_progress x y \<longleftrightarrow>
     lo_intent y = lo_intent x \<and> lo_version x \<le> lo_version y \<and> lo_updated_at x \<le> lo_updated_at y
     \<and> (lo_version x = lo_version y \<longrightarrow> y = x)
     \<and> stage (lo_state x) \<le> stage (lo_state y)
     \<and> dval (lo_total_quantity y) \<le> dval (lo_total_quantity x)
     \<and> (lo_accepted_at x \<noteq> None \<longrightarrow> lo_accepted_at y = lo_accepted_at x)
     \<and> (lo_state x \<in> {FILLED, REJECTED} \<longrightarrow> y = x)
     \<and> (lo_state x = CANCELLED \<longrightarrow> lo_state y \<in> {CANCELLED, FILLED} \<and> lo_pending_command y = lo_pending_command x
          \<and> lo_total_quantity y = lo_total_quantity x \<and> lo_working_limit_price y = lo_working_limit_price x)"

lemma live_progressI:
  assumes "lo_intent y = lo_intent x" and "lo_version y = lo_version x + 1"
    and "lo_updated_at x \<le> lo_updated_at y" and "stage (lo_state x) \<le> stage (lo_state y)"
    and "dval (lo_total_quantity y) \<le> dval (lo_total_quantity x)"
    and "lo_accepted_at x \<noteq> None \<Longrightarrow> lo_accepted_at y = lo_accepted_at x"
    and "lo_state x \<notin> {FILLED, REJECTED, CANCELLED}"
  shows "live_progress x y"
  using assms by (simp add: live_progress_def)

lemma live_progress_refl: "live_progress x x"
  by (simp add: live_progress_def)

lemma live_progress_trans: "live_progress x y \<Longrightarrow> live_progress y z \<Longrightarrow> live_progress x z"
  by (auto simp: live_progress_def)

lemma stage_open: "\<not> live_is_terminal s \<Longrightarrow> stage s \<le> 3"
  by (cases s) (auto simp: live_is_terminal_def)

lemma stage_low: "s \<notin> {CREATED, VALIDATED, SUBMITTING} \<Longrightarrow> 3 \<le> stage s"
  by (cases s) auto

lemma transition_stage:
  assumes "broker_transition x e = Inr (Some (st, new_total, limit, pending))"
  shows "stage (lo_state x) \<le> stage st" and "dval new_total \<le> dval (lo_total_quantity x)"
proof -
  have early: "stage (lo_state x) \<le> 3"
    using broker_transition_open [OF assms] by (rule stage_open)
  have "stage (lo_state x) \<le> stage st \<and> dval new_total \<le> dval (lo_total_quantity x)"
  proof (cases "be_event_type e \<in> {PRICE_AMENDED, QUANTITY_DECREASED, PRICE_AND_QUANTITY_AMENDED}")
    case True
    from broker_transition_change [OF assms True] show ?thesis
      by (rule working_change_Inr) (use early in \<open>auto simp: open_state_def dlt_val\<close>)
  next
    case False
    with assms have "st = lo_state x \<or> st \<notin> {CREATED, VALIDATED, SUBMITTING}"
      by (auto simp: broker_transition_def keep_working_def open_state_def
          split: if_splits broker_order_event_type.splits option.splits)
    with early stage_low [of st] have "stage (lo_state x) \<le> stage st" by auto
    with kept_transition [OF assms False] show ?thesis by simp
  qed
  then show "stage (lo_state x) \<le> stage st" "dval new_total \<le> dval (lo_total_quantity x)" by simp_all
qed

lemma live_progress_step:
  assumes "live_inv h s" and "live_step h s t"
  shows "live_progress (run_order s) (run_order t)"
  using assms(2)
proof (cases rule: live_step_changes)
  case same
  then show ?thesis by (simp add: live_progress_refl)
next
  case local_change
  note f = status_change_fields [OF local_change(1)]
  have "lo_state (run_order s) \<notin> {FILLED, REJECTED, CANCELLED}" using local_change(4) by auto
  moreover have "stage (lo_state (run_order s)) \<le> stage (lo_state (run_order t))"
    using local_change(4,6-8) stage_low [of "lo_state (run_order t)"]
    by (cases "lo_state (run_order t)"; cases "lo_state (run_order s)") simp_all
  ultimately show ?thesis using f(1,2,7-9) by (intro live_progressI) simp_all
next
  case dispatch_change
  note f = status_change_fields [OF dispatch_change(1)]
  have "lo_state (run_order s) \<notin> {CREATED, VALIDATED, FILLED, REJECTED, CANCELLED}"
    using live_ok_binding(2) [of "run_order s"] assms(1) dispatch_change(3) by (auto simp: live_inv_def)
  then have "stage (lo_state (run_order s)) \<le> 3" by (intro stage_open) (simp add: live_is_terminal_def)
  moreover have "3 \<le> stage (lo_state (run_order t))" using dispatch_change(5) by auto
  ultimately show ?thesis
    using \<open>lo_state (run_order s) \<notin> _\<close> f(1,2,7-9) by (intro live_progressI) simp_all
next
  case (event_change e st new_total limit pending r)
  note f = apply_transition_fields [OF event_change(3)]
  have "lo_state (run_order s) \<notin> {FILLED, REJECTED, CANCELLED}"
    using broker_transition_open [OF event_change(2)] by (simp add: live_is_terminal_def)
  moreover have "stage (lo_state (run_order s)) \<le> stage (lo_state (run_order t))"
    and "dval (lo_total_quantity (run_order t)) \<le> dval (lo_total_quantity (run_order s))"
    unfolding f(2,3) by (rule transition_stage [OF event_change(2)])+
  ultimately show ?thesis using f(1,7,8,11) by (intro live_progressI) simp_all
next
  case (fill_change e f r)
  note g = apply_live_fill_fields [OF fill_change(2)]
  note o = fill_outcome_fields [OF g(11)]
  have "lo_state (run_order s) = CANCELLED \<longrightarrow> lo_pending_command (run_order s) = None"
    using live_ok_binding(2) [of "run_order s"] assms(1) by (auto simp: live_inv_def)
  moreover have "stage (lo_state (run_order s)) \<le> stage (lo_state (run_order t))"
  proof (cases "lo_state (run_order s) = CANCELLED")
    case True
    with o(4) show ?thesis by auto
  next
    case False
    with fill_change(4) have "stage (lo_state (run_order s)) \<le> 3"
      by (intro stage_open) (simp add: live_is_terminal_def)
    with o(1) show ?thesis by auto
  qed
  ultimately show ?thesis using g(1-8) o(4) fill_change(4) by (auto simp: live_progress_def)
qed

interpretation live_order_progress: ordered_machine "live_step h" "live_inv h"
    "\<lambda>s t. live_progress (run_order s) (run_order t)" for h
  by unfold_locales (auto intro: live_progress_refl live_progress_trans live_progress_step)

end
