(* ===== verification/Live_Quantities.thy ===== *)
theory Live_Quantities
  imports Live_Machine
begin

text \<open>
  Conservation of quantity over a run of whole lots: what the broker filled, what is left and the
  total add up exactly, although the code rounds every sum to 28 digits.
\<close>

section \<open>Contract bounds\<close>

lemma live_decimal_Inr:
  assumes "live_decimal p n name v = Inr ()"
  shows "expo_ok v" "ndigits \<bar>coef v\<bar> \<le> 34" "p \<Longrightarrow> 0 < dval v" "n \<Longrightarrow> 0 \<le> dval v"
  using assms by (simp_all add: live_decimal_def expo_ok_def err_simps dec_order)

lemma live_decimal_intro:
  assumes "expo_ok v" "ndigits \<bar>coef v\<bar> \<le> 34" "p \<Longrightarrow> 0 < dval v" "n \<Longrightarrow> 0 \<le> dval v"
  shows "live_decimal p n name v = Inr ()"
  using assms by (simp add: live_decimal_def expo_ok_def err_simps dec_order)

lemma live_ok_bounds:
  assumes "live_ok x"
  shows "expo_ok (lo_total_quantity x)" "0 < dval (lo_total_quantity x)"
    "expo_ok (lo_filled_quantity x)" "0 \<le> dval (lo_filled_quantity x)"
    "expo_ok (lo_remaining_quantity x)" "0 \<le> dval (lo_remaining_quantity x)"
  using live_decimal_Inr [OF live_ok_parts(1) [OF assms]] live_decimal_Inr [OF live_ok_parts(2) [OF assms]]
    live_decimal_Inr [OF live_ok_parts(3) [OF assms]]
  by simp_all

lemma order_event_fields:
  assumes "broker_order_event_init e = Inr e"
  shows "optionally (live_decimal True False ''decreased_quantity'') (be_decreased_quantity e) = Inr ()"
    "optionally (live_decimal True False ''new_limit_price'') (be_new_limit_price e) = Inr ()"
    "(be_event_type e \<in> {QUANTITY_DECREASED, PRICE_AND_QUANTITY_AMENDED}) = (be_decreased_quantity e \<noteq> None)"
    "(be_event_type e \<in> {PRICE_AMENDED, PRICE_AND_QUANTITY_AMENDED}) = (be_new_limit_price e \<noteq> None)"
    "be_failure_code e = expected_failure (be_event_type e)"
    "case be_occurred_at e of None \<Rightarrow> True | Some t \<Rightarrow> t \<le> be_received_at e"
  using assms unfolding broker_order_event_init_def ebind_eq_Inr require_eq_Inr
  by - (elim exE conjE; simp)+

lemma fill_event_fields:
  assumes "broker_fill_event_init e = Inr e"
  shows "live_decimal True False ''quantity'' (bf_quantity e) = Inr ()"
    "live_decimal True False ''execution_price'' (bf_execution_price e) = Inr ()"
    "bc_broker_fill_id (bf_correlation e) \<noteq> None \<or> bc_execution_no (bf_correlation e) \<noteq> None"
    "case bf_occurred_at e of None \<Rightarrow> True | Some t \<Rightarrow> t \<le> bf_received_at e"
  using assms unfolding broker_fill_event_init_def ebind_eq_Inr require_eq_Inr
  by - (elim exE conjE; (assumption | simp))+

section \<open>Whole-lot runs\<close>

definition whole_run :: "live_run \<Rightarrow> bool" where
  "whole_run s \<longleftrightarrow>
     lots (lo_total_quantity (run_order s)) \<and> (\<forall>f\<in>set (run_fills s). lots (lf_quantity f))"

text \<open>A step after which the total of the order and every fill are whole.\<close>

definition lot_step :: "hashes \<Rightarrow> live_run \<Rightarrow> live_run \<Rightarrow> bool" where
  "lot_step h s t \<longleftrightarrow> live_step h s t \<and> whole_run t"

definition fills_total :: "live_run \<Rightarrow> rat" where
  "fills_total s = sum_list (map (\<lambda>f. dval (lf_quantity f)) (run_fills s))"

definition conserved :: "hashes \<Rightarrow> live_run \<Rightarrow> bool" where
  "conserved h s \<longleftrightarrow>
     live_inv h s \<and> whole_run s \<and> lots (lo_filled_quantity (run_order s))
     \<and> dval (lo_filled_quantity (run_order s)) = fills_total s
     \<and> dval (lo_filled_quantity (run_order s)) + dval (lo_remaining_quantity (run_order s))
         = dval (lo_total_quantity (run_order s))
     \<and> (dval (lo_remaining_quantity (run_order s)) = 0 \<longrightarrow> lo_state (run_order s) = FILLED)"

text \<open>A fill of a whole quantity that is not more than what is left is booked exactly.\<close>

lemma exact_fill:
  assumes "live_ok x" "lots (lo_total_quantity x)" "lots (lo_filled_quantity x)" "lots q" "expo_ok q"
    and "0 \<le> dval q" "dval q \<le> dval (lo_remaining_quantity x)"
    and "dval (lo_filled_quantity x) + dval (lo_remaining_quantity x) = dval (lo_total_quantity x)"
    and "dadd default_ctx (lo_filled_quantity x) q = Inr new_filled"
    and "dsub default_ctx (lo_total_quantity x) new_filled = Inr new_remaining"
  shows "dval new_filled = dval (lo_filled_quantity x) + dval q" "lots new_filled"
    "dval new_filled + dval new_remaining = dval (lo_total_quantity x)"
proof -
  note b = live_ok_bounds [OF assms(1)]
  from dsum_lots [OF b(3) assms(5) assms(3,4,2) b(4) assms(6)] assms(7-9)
  have f: "dval new_filled = dval (lo_filled_quantity x) + dval q" "expo_ok new_filled" by auto
  obtain k where "dval (lo_total_quantity x) = of_int k" "\<bar>k\<bar> < 10 ^ 28"
    using assms(2) by (rule lots_whole)
  moreover have "lots (dadd_exact (lo_filled_quantity x) q)"
    by (rule lots_sum [OF assms(3,4,2) b(4) assms(6)]) (use assms(7,8) in simp)
  then show l: "lots new_filled" using f(1) by (metis dval_dadd_exact lots_deq)
  from dsub_lots [OF b(1) f(2) assms(2) l] f(1) b(4) assms(6-8,10)
  show "dval new_filled + dval new_remaining = dval (lo_total_quantity x)" by auto
  show "dval new_filled = dval (lo_filled_quantity x) + dval q" by (rule f(1))
qed

lemma exact_remaining:
  assumes "live_ok x" "lots t" "expo_ok t" "lots (lo_filled_quantity x)"
    and "dval (lo_filled_quantity x) \<le> dval t" "dsub default_ctx t (lo_filled_quantity x) = Inr r"
  shows "dval (lo_filled_quantity x) + dval r = dval t"
proof -
  note b = live_ok_bounds [OF assms(1)]
  from dsub_lots [OF assms(3) b(3) assms(2,4) b(4) assms(5)] assms(6) show ?thesis by auto
qed

text \<open>The total of a transition covers what is filled; only a fully filled order has nothing left.\<close>

lemma transition_total:
  assumes "broker_transition x e = Inr (Some (st, new_total, limit, pending))"
    and "dval (lo_filled_quantity x) + dval (lo_remaining_quantity x) = dval (lo_total_quantity x)"
    and "0 \<le> dval (lo_remaining_quantity x)"
    and "dval (lo_remaining_quantity x) = 0 \<longrightarrow> lo_state x = FILLED"
  shows "dval (lo_filled_quantity x) \<le> dval new_total \<and> (dval (lo_filled_quantity x) = dval new_total \<longrightarrow> st = FILLED)"
proof (cases "be_event_type e \<in> {PRICE_AMENDED, QUANTITY_DECREASED, PRICE_AND_QUANTITY_AMENDED}")
  case True
  from broker_transition_change [OF assms(1) True] show ?thesis
    by (rule working_change_Inr) (simp add: dlt_val deq_val)
next
  case False
  have "lo_state x \<noteq> FILLED" using broker_transition_open [OF assms(1)] by (auto simp: live_is_terminal_def)
  then show ?thesis using kept_transition [OF assms(1) False] assms(2-4) by simp
qed

lemma conserved_step:
  assumes con: "conserved h s" and "lot_step h s t"
  shows "conserved h t"
proof -
  from assms(2) have step: "live_step h s t" and whole: "whole_run t" by (simp_all add: lot_step_def)
  have inv: "live_inv h t" using con step live_inv_step by (auto simp: conserved_def)
  have ok: "live_ok (run_order s)" "live_ok (run_order t)"
    using con inv by (simp_all add: conserved_def live_inv_def)
  have sum: "dval (lo_filled_quantity (run_order s)) + dval (lo_remaining_quantity (run_order s))
      = dval (lo_total_quantity (run_order s))" and ls: "lots (lo_filled_quantity (run_order s))"
    and fin: "dval (lo_remaining_quantity (run_order s)) = 0 \<longrightarrow> lo_state (run_order s) = FILLED"
    using con by (simp_all add: conserved_def)
  note bounds = live_ok_bounds [OF ok(1)] and bounds' = live_ok_bounds [OF ok(2)]
  from step show ?thesis
  proof (cases rule: live_step_changes)
    case same
    with con inv whole show ?thesis by (simp add: conserved_def fills_total_def)
  next
    case local_change
    note f = status_change_fields [OF local_change(1)]
    have "lo_state (run_order s) \<noteq> FILLED" using local_change(4) by auto
    with con inv whole local_change(3) f(2-4) show ?thesis by (simp add: conserved_def fills_total_def)
  next
    case dispatch_change
    note f = status_change_fields [OF dispatch_change(1)]
    have "lo_state (run_order s) \<noteq> FILLED" using dispatch_change(3) live_ok_binding(2) [OF ok(1)] by auto
    with con inv whole dispatch_change(2) f(2-4) show ?thesis by (simp add: conserved_def fills_total_def)
  next
    case (event_change e st new_total limit pending r)
    note f = apply_transition_fields [OF event_change(3)]
    have total: "dval (lo_filled_quantity (run_order s)) \<le> dval new_total"
      "dval (lo_filled_quantity (run_order s)) = dval new_total \<longrightarrow> st = FILLED"
      using transition_total [OF event_change(2) sum bounds(6) fin] by simp_all
    have "lots new_total" "expo_ok new_total" using whole bounds'(1) f(3) by (simp_all add: whole_run_def)
    from exact_remaining [OF ok(1) this ls total(1) f(10)]
    show ?thesis using con inv whole event_change(6) ls total(2) f(2-4)
      by (auto simp: conserved_def fills_total_def)
  next
    case (fill_change e f r)
    note g = apply_live_fill_fields [OF fill_change(2)]
    have q: "lf_quantity f = bf_quantity e" using live_fill_of_Inr [OF fill_change(3)] by simp
    then have "lots (bf_quantity e)" using whole fill_change(8) by (simp add: whole_run_def)
    moreover note live_decimal_Inr [OF fill_event_fields(1) [OF fill_change(1)]]
    moreover have "dval (bf_quantity e) \<le> dval (lo_remaining_quantity (run_order s))"
      using fill_change(5) by (simp add: dlt_val)
    moreover have "lots (lo_total_quantity (run_order s))" using con by (simp add: conserved_def whole_run_def)
    ultimately have x: "dval (lo_filled_quantity (run_order t)) = dval (lo_filled_quantity (run_order s)) + dval (bf_quantity e)"
      "lots (lo_filled_quantity (run_order t))"
      "dval (lo_filled_quantity (run_order t)) + dval (lo_remaining_quantity (run_order t)) = dval (lo_total_quantity (run_order s))"
      using exact_fill [OF ok(1) _ ls _ _ _ _ sum g(9,10)] by simp_all
    have "dval (lo_remaining_quantity (run_order t)) = 0 \<longrightarrow> lo_state (run_order t) = FILLED"
      using g(11) by (auto simp: fill_outcome_def diszero_val split: if_splits)
    then show ?thesis using con inv whole x g(2) q fill_change(8) by (simp add: conserved_def fills_total_def)
  qed
qed

interpretation lot_run: state_machine "lot_step h" "conserved h" for h
  by unfold_locales (rule conserved_step)

lemma conserved_start:
  assumes "create_live_order i = Inr x" and "lots (li_quantity i)"
  shows "conserved h (start_run x)"
proof -
  from assms(1) have x: "lo_total_quantity x = li_quantity i" "lo_remaining_quantity x = li_quantity i"
      "lo_filled_quantity x = dzero" "live_ok x"
    by (auto simp: create_live_order_def live_order_init_Inr)
  have "lots dzero" by (simp add: lots_def dzero_def)
  with x assms(2) live_inv_start [OF assms(1)] live_ok_bounds(2) [OF x(4)] show ?thesis
    by (simp add: conserved_def start_run_def whole_run_def fills_total_def)
qed

lemma lot_run_live: "(lot_step h)\<^sup>*\<^sup>* s t \<Longrightarrow> (live_step h)\<^sup>*\<^sup>* s t"
  by (induction rule: rtranclp_induct) (auto simp: lot_step_def intro: rtranclp.rtrancl_into_rtrancl)

end
