(* ===== verification/Live_Totality.thy ===== *)
theory Live_Totality
  imports Live_Quantities
begin

text \<open>
  The reducer of broker order events returns a result for every event its contract admits: no
  branch of it raises on a conserved run.
\<close>

section \<open>The default context does not overflow on contract values\<close>

lemma ndigits_mono: "a \<le> b \<Longrightarrow> ndigits a \<le> ndigits b"
proof (cases "0 < a")
  case True
  assume "a \<le> b"
  then have "a < 10 ^ ndigits b" using ndigits_upper [of b] by linarith
  then show ?thesis using ndigits_pos by (rule ndigits_le)
next
  case False
  then show ?thesis using ndigits_pos [of b] by (simp add: ndigits.simps [of a])
qed

lemma dfix_total:
  assumes "int (ndigits \<bar>coef d\<bar>) + expo d \<le> 900000" and "-900000 \<le> expo d"
  shows "\<exists>r. dfix default_ctx d = Inr r"
proof (cases "coef d = 0")
  case True
  then show ?thesis by (simp add: dfix_def)
next
  case False
  let ?low = "max (int (ndigits \<bar>coef d\<bar>) + expo d - 28) (etiny default_ctx)"
  have ctx: "prec default_ctx = 28" "\<not> traps_exact default_ctx" "\<not> clamp default_ctx"
    "etop default_ctx = 999972" "etiny default_ctx = -1000026"
    by (simp_all add: default_ctx_def etop_def etiny_def)
  have low: "?low + 1 \<le> 999972" using assms by (simp add: ctx)
  have "\<not> etop default_ctx < int (ndigits \<bar>coef d\<bar>) + expo d - int (prec default_ctx)"
    using assms(1) by (simp add: ctx)
  with False low show ?thesis
    by (auto simp: dfix_def Let_def ctx split: prod.splits)
qed

text \<open>A Decimal the contracts admit.\<close>

definition contract_dec :: "decimal \<Rightarrow> bool" where
  "contract_dec d \<longleftrightarrow> expo_ok d \<and> ndigits \<bar>coef d\<bar> \<le> 34"

lemma live_decimal_contract: "live_decimal p n name v = Inr () \<Longrightarrow> contract_dec v"
  using live_decimal_Inr(1,2) by (auto simp: contract_dec_def)

lemma contract_coef: "contract_dec d \<Longrightarrow> \<bar>coef d\<bar> < 10 ^ 34"
proof -
  assume "contract_dec d"
  then have "(10::int) ^ ndigits \<bar>coef d\<bar> \<le> 10 ^ 34" by (intro power_increasing) (simp_all add: contract_dec_def)
  with ndigits_upper [of "\<bar>coef d\<bar>"] show ?thesis by linarith
qed

lemma contract_dneg: "contract_dec d \<Longrightarrow> contract_dec (dneg d)"
  by (simp add: contract_dec_def dneg_def expo_ok_def)

lemma contract_align:
  assumes "contract_dec d" and "-6143 \<le> m" and "m \<le> expo d"
  shows "\<bar>dalign d m\<bar> < 10 ^ 12321"
proof -
  have "\<bar>dalign d m\<bar> = \<bar>coef d\<bar> * 10 ^ nat (expo d - m)" by (simp add: dalign_def abs_mult)
  also have "\<dots> < 10 ^ 34 * 10 ^ nat (expo d - m)"
    using contract_coef [OF assms(1)] by (intro mult_strict_right_mono) simp_all
  also have "\<dots> \<le> 10 ^ 34 * 10 ^ 12287"
    using assms by (intro mult_left_mono power_increasing) (auto simp: contract_dec_def expo_ok_def)
  also have "\<dots> = (10::int) ^ 12321" by (subst power_add [symmetric]) (simp only: numeral_plus_numeral add_num_simps)
  finally show ?thesis .
qed

lemma contract_add_total:
  assumes "contract_dec a" "contract_dec b"
  shows "\<exists>r. dadd default_ctx a b = Inr r"
proof -
  let ?m = "min (expo a) (expo b)"
  define big :: int where "big = 10 ^ 12321"
  have pos: "0 < big" unfolding big_def by (rule zero_less_power) simp
  have m: "-6143 \<le> ?m" "?m \<le> 6144" "?m \<le> expo a" "?m \<le> expo b"
    using assms by (auto simp: contract_dec_def expo_ok_def)
  have "\<bar>dalign a ?m\<bar> < big" "\<bar>dalign b ?m\<bar> < big"
    unfolding big_def by (rule contract_align [OF assms(1) m(1,3)], rule contract_align [OF assms(2) m(1,4)])
  then have "\<bar>dalign a ?m + dalign b ?m\<bar> < 10 * big" using pos by linarith
  also have "\<dots> = 10 ^ Suc 12321" unfolding big_def by (rule power_Suc [symmetric])
  finally have "ndigits \<bar>coef (dadd_exact a b)\<bar> \<le> Suc 12321"
    unfolding dadd_exact_def Let_def decimal.sel by (rule ndigits_le) (rule zero_less_Suc)
  moreover have "expo (dadd_exact a b) = ?m" by (simp add: dadd_exact_def Let_def)
  ultimately show ?thesis unfolding dadd_def by (intro dfix_total) (use m in linarith)+
qed

lemma contract_sub_total: "contract_dec a \<Longrightarrow> contract_dec b \<Longrightarrow> \<exists>r. dsub default_ctx a b = Inr r"
  unfolding dsub_def by (intro contract_add_total contract_dneg)

lemma canonical_total: "contract_dec v \<Longrightarrow> \<exists>s. live_canonical_decimal v = Inr s"
proof -
  assume c: "contract_dec v"
  then have "\<exists>r. dfix default_ctx v = Inr r" by (intro dfix_total) (auto simp: contract_dec_def expo_ok_def)
  then obtain r where r: "dfix default_ctx v = Inr r" by blast
  then show ?thesis by (auto simp: live_canonical_decimal_def normalize_decimal_def dplus_def Let_def split: prod.splits)
qed

section \<open>Broker order events return\<close>

lemma order_fingerprint_total:
  assumes "broker_order_event_init e = Inr e"
  shows "\<exists>f. order_event_fingerprint h e = Inr f"
proof -
  have opt: "\<exists>j. json_live_optional v = Inr j"
    if "optionally (live_decimal True False n) v = Inr ()" for n v
    using that canonical_total live_decimal_contract
    by (cases v) (fastforce simp: json_live_optional_def json_live_decimal_def)+
  obtain a b where "json_live_optional (be_new_limit_price e) = Inr a"
    and "json_live_optional (be_decreased_quantity e) = Inr b"
    using opt [OF order_event_fields(1) [OF assms]] opt [OF order_event_fields(2) [OF assms]] by blast
  then show ?thesis by (simp add: order_event_fingerprint_def)
qed

lemma lots_difference:
  assumes "expo_ok a" "expo_ok b" "lots a" "lots b" "0 \<le> dval a" "0 \<le> dval b"
  shows "\<exists>r. dsub default_ctx a b = Inr r \<and> dval r = dval a - dval b \<and> lots r \<and> contract_dec r"
proof -
  obtain m n where "dval a = of_int m" "\<bar>m\<bar> < 10 ^ 28" "dval b = of_int n" "\<bar>n\<bar> < 10 ^ 28"
    using assms(3,4) by (metis lots_whole)
  moreover from this assms(5,6) have "0 \<le> m" "0 \<le> n" by simp_all
  ultimately have whole: "lots (dadd_exact a (dneg b))" by (intro whole_lots [of _ "m - n"]) auto
  from dadd_lots [of a "dneg b"] assms(1,2) this obtain r
    where r: "dsub default_ctx a b = Inr r" "kept (dadd_exact a (dneg b)) r" by (auto simp: dsub_def)
  with whole have "lots r" by (metis kept_def lots_deq)
  with r show ?thesis by (auto simp: kept_def contract_dec_def)
qed

text \<open>The pending command and the quantities an authoritative event leaves fit its new state.\<close>

lemma binding_ok_intro:
  assumes "binding_required (lo_state y) \<Longrightarrow> lo_pending_command y \<noteq> None"
    and "lo_pending_command y \<noteq> None \<Longrightarrow> lo_state y \<notin> {CREATED, VALIDATED, FILLED, REJECTED, CANCELLED}"
    and "lo_state y = CANCEL_PENDING \<Longrightarrow> pending_kind y = Some CANCEL"
  shows "live_order_binding_ok y = Inr ()"
  using assms by (auto simp: live_order_binding_ok_def Let_def err_simps pending_kind_def)

lemma transition_binding:
  assumes ok: "live_ok x" and tr: "broker_transition x e = Inr (Some (st, new_total, limit, pending))"
  shows "(binding_required st \<longrightarrow> pending \<noteq> None)
    \<and> (pending \<noteq> None \<longrightarrow> st \<notin> {CREATED, VALIDATED, FILLED, REJECTED, CANCELLED})
    \<and> (st = CANCEL_PENDING \<longrightarrow> map_option binding_kind pending = Some CANCEL)"
proof (cases "be_event_type e \<in> {PRICE_AMENDED, QUANTITY_DECREASED, PRICE_AND_QUANTITY_AMENDED}")
  case True
  from broker_transition_change [OF tr True] show ?thesis
    by (rule working_change_Inr) (auto simp: binding_required_def open_state_def)
next
  case False
  note b = live_ok_binding [OF ok]
  have kept: ?thesis if "st = lo_state x" "pending = lo_pending_command x"
    using b that by (auto simp: pending_kind_def)
  have other: ?thesis if "pending = None" "st \<in> {ACCEPTED, PARTIALLY_FILLED, REJECTED, CANCELLED}"
    using that by (auto simp: binding_required_def)
  have unknown: ?thesis if "pending \<noteq> None" "st \<in> {SUBMISSION_UNKNOWN, RECONCILING}"
    using that by auto
  from tr False have "(st = lo_state x \<and> pending = lo_pending_command x)
      \<or> (pending = None \<and> st \<in> {ACCEPTED, PARTIALLY_FILLED, REJECTED, CANCELLED})
      \<or> (pending \<noteq> None \<and> st \<in> {SUBMISSION_UNKNOWN, RECONCILING})"
    by (cases "be_event_type e") (auto simp: broker_transition_def keep_working_def open_state_def
        split: if_splits option.splits)
  then show ?thesis using kept other unknown by blast
qed

lemma quantities_ok_intro:
  assumes "dval (lo_filled_quantity y) + dval (lo_remaining_quantity y) = dval (lo_total_quantity y)"
    and "0 \<le> dval (lo_filled_quantity y)" "0 \<le> dval (lo_remaining_quantity y)"
    and "lo_state y = FILLED \<longleftrightarrow> dval (lo_remaining_quantity y) = 0"
    and "lo_state y = PARTIALLY_FILLED \<Longrightarrow> 0 < dval (lo_filled_quantity y)"
    and "lo_state y \<in> {CREATED, VALIDATED, SUBMITTING, ACCEPTED, REJECTED} \<Longrightarrow> dval (lo_filled_quantity y) = 0"
  shows "live_order_quantities_ok y = Inr ()"
  using assms by (auto simp: live_order_quantities_ok_def Let_def err_simps dec_order)

lemma transition_filled:
  assumes ok: "live_ok x" and tr: "broker_transition x e = Inr (Some (st, new_total, limit, pending))"
  shows "(st = PARTIALLY_FILLED \<longrightarrow> 0 < dval (lo_filled_quantity x))
    \<and> (st \<in> {CREATED, VALIDATED, SUBMITTING, ACCEPTED, REJECTED} \<longrightarrow> dval (lo_filled_quantity x) = 0)"
proof -
  note q = live_ok_quantities [OF ok] and b = live_ok_bounds [OF ok]
  have kept: ?thesis if "st = lo_state x" using that q(1,3) by (auto simp: dec_order)
  have fresh: ?thesis if "st = open_state x" using that b(4) by (auto simp: open_state_def dec_order)
  have reject: ?thesis if "st = REJECTED" "\<not> dpos (lo_filled_quantity x)" using that b(4) by (auto simp: dec_order)
  have other: ?thesis if "st \<in> {CANCELLED, FILLED, SUBMISSION_UNKNOWN, RECONCILING, CANCEL_PENDING}"
    using that by auto
  show ?thesis
  proof (cases "be_event_type e \<in> {PRICE_AMENDED, QUANTITY_DECREASED, PRICE_AND_QUANTITY_AMENDED}")
    case True
    from broker_transition_change [OF tr True] show ?thesis
      by (rule working_change_Inr) (use fresh other in \<open>auto split: if_splits\<close>)
  next
    case False
    with tr have "st = lo_state x \<or> st = open_state x \<or> (st = REJECTED \<and> \<not> dpos (lo_filled_quantity x))
        \<or> st \<in> {CANCELLED, FILLED, SUBMISSION_UNKNOWN, RECONCILING, CANCEL_PENDING}"
      by (cases "be_event_type e") (auto simp: broker_transition_def keep_working_def
          split: if_splits option.splits)
    then show ?thesis using kept fresh reject other by blast
  qed
qed

lemma opt_live_decimal:
  "optionally (live_decimal p n name) v = Inr () \<Longrightarrow> v = Some d \<Longrightarrow> live_decimal p n name d = Inr ()"
  by simp

lemma matches_total:
  assumes "live_ok x" "broker_order_event_init e = Inr e"
  shows "\<exists>m. matches_authoritative_working_change b e (lo_total_quantity x) = Inr m"
proof -
  have total: "live_decimal True False ''current_total_quantity'' (lo_total_quantity x) = Inr ()"
    using live_ok_parts(1) [OF assms(1)] by (simp add: live_decimal_def err_simps)
  have c: "contract_dec (lo_total_quantity x)" using live_decimal_contract [OF live_ok_parts(1) [OF assms(1)]] .
  show ?thesis
  proof (cases "be_decreased_quantity e")
    case (Some d)
    then have "contract_dec d"
      using opt_live_decimal [OF order_event_fields(1) [OF assms(2)]] live_decimal_contract by blast
    with c obtain r where "dsub default_ctx (lo_total_quantity x) d = Inr r" using contract_sub_total by blast
    with total Some show ?thesis by (simp add: matches_authoritative_working_change_def ex_bool_eq)
  qed (simp add: matches_authoritative_working_change_def total ex_bool_eq)
qed

lemma broker_transition_total:
  assumes "live_ok x" "broker_order_event_init e = Inr e"
  shows "\<exists>tr. broker_transition x e = Inr tr"
proof -
  have change: "\<exists>tr. working_change x e = Inr tr"
  proof (cases "lo_pending_command x")
    case (Some b)
    obtain m where m: "matches_authoritative_working_change b e (lo_total_quantity x) = Inr m"
      using matches_total [OF assms] by blast
    have "\<exists>r. (case be_decreased_quantity e of Some d \<Rightarrow> dsub default_ctx (lo_total_quantity x) d
        | None \<Rightarrow> Inr (lo_total_quantity x)) = Inr r"
      using contract_sub_total live_decimal_contract [OF live_ok_parts(1) [OF assms(1)]]
        live_decimal_contract opt_live_decimal [OF order_event_fields(1) [OF assms(2)]]
      by (cases "be_decreased_quantity e") (simp, metis option.simps(5))
    with Some m show ?thesis by (auto simp: working_change_def)
  qed (simp add: working_change_def)
  show ?thesis
    by (cases "be_event_type e") (use change in \<open>auto simp: broker_transition_def\<close>)
qed

text \<open>A whole decrease leaves a whole total inside the bounds.\<close>

lemma transition_whole:
  assumes ok: "live_ok x" and ev: "broker_order_event_init e = Inr e"
    and tr: "broker_transition x e = Inr (Some (st, new_total, limit, pending))"
    and "lots (lo_total_quantity x)" "pred_option lots (be_decreased_quantity e)"
  shows "lots new_total \<and> contract_dec new_total"
proof (cases "be_event_type e \<in> {PRICE_AMENDED, QUANTITY_DECREASED, PRICE_AND_QUANTITY_AMENDED}")
  case True
  note b = live_ok_bounds [OF ok]
  from broker_transition_change [OF tr True] show ?thesis
  proof (rule working_change_Inr)
    assume eq: "(case be_decreased_quantity e of Some d \<Rightarrow> dsub default_ctx (lo_total_quantity x) d
      | None \<Rightarrow> Inr (lo_total_quantity x)) = Inr new_total"
    show ?thesis
    proof (cases "be_decreased_quantity e")
      case None
      with eq assms(4) live_decimal_contract [OF live_ok_parts(1) [OF ok]] show ?thesis by simp
    next
      case (Some d)
      note d = live_decimal_Inr [OF opt_live_decimal [OF order_event_fields(1) [OF ev] Some]]
      from lots_difference [OF b(1) d(1) assms(4) _ less_imp_le [OF b(2)] less_imp_le [OF d(3)]] Some assms(5) eq
      show ?thesis by auto
    qed
  qed
next
  case False
  with kept_transition [OF tr] assms(4) live_decimal_contract [OF live_ok_parts(1) [OF ok]]
  show ?thesis by simp
qed

lemma transition_price:
  assumes ok: "live_ok x" and ev: "broker_order_event_init e = Inr e"
    and tr: "broker_transition x e = Inr (Some (st, new_total, limit, pending))"
  shows "optionally (live_decimal True False ''working_limit_price'') limit = Inr ()
    \<and> (limit = None \<longleftrightarrow> lo_working_limit_price x = None)"
proof -
  have old: "optionally (live_decimal True False ''working_limit_price'') (lo_working_limit_price x) = Inr ()"
    using ok by (simp add: live_ok_iff)
  show ?thesis
  proof (cases "be_event_type e \<in> {PRICE_AMENDED, QUANTITY_DECREASED, PRICE_AND_QUANTITY_AMENDED}")
    case True
    note change = broker_transition_change [OF tr True]
    have "be_new_limit_price e = None \<or> lo_working_limit_price x \<noteq> None"
      using change by (auto simp: working_change_def err_simps split: option.splits if_splits)
    moreover have "optionally (live_decimal True False ''working_limit_price'') (be_new_limit_price e) = Inr ()"
      using order_event_fields(2) [OF ev] by (cases "be_new_limit_price e") (auto simp: live_decimal_def err_simps)
    moreover from change have "limit = (case be_new_limit_price e of Some p \<Rightarrow> Some p | None \<Rightarrow> lo_working_limit_price x)"
      by (rule working_change_Inr)
    ultimately show ?thesis using old by (cases "be_new_limit_price e") auto
  next
    case False
    with kept_transition [OF tr] old show ?thesis by simp
  qed
qed

text \<open>A proved change of the total is the target of the bound decrease, which is positive.\<close>

lemma proved_decrease:
  assumes "matches_authoritative_working_change b e t = Inr True" and "be_decreased_quantity e = Some d"
    and "be_event_type e \<noteq> PRICE_AMENDED"
  shows "\<exists>c r. pb_command b = DecreaseOrderCommand c \<and> be_event_type e = QUANTITY_DECREASED
    \<and> dsub default_ctx t d = Inr r \<and> dval r = dval (dc_new_total_quantity c)
    \<and> dval t = dval (dc_expected_total_quantity c)"
  using assms
  by (auto simp: matches_authoritative_working_change_def err_simps opt_deq_val
      expected_new_total_quantity_def expected_current_total_quantity_def split: if_splits live_command.splits)

lemma transition_positive:
  assumes ok: "live_ok x" and ev: "broker_order_event_init e = Inr e"
    and tr: "broker_transition x e = Inr (Some (st, new_total, limit, pending))"
    and bind: "pred_option (binding_ok h) (lo_pending_command x)"
  shows "0 < dval new_total"
proof (cases "be_event_type e \<in> {PRICE_AMENDED, QUANTITY_DECREASED, PRICE_AND_QUANTITY_AMENDED}")
  case True
  from broker_transition_change [OF tr True] show ?thesis
  proof (rule working_change_Inr)
    fix b
    assume pb: "lo_pending_command x = Some b"
      and proved: "matches_authoritative_working_change b e (lo_total_quantity x) = Inr True"
      and eq: "(case be_decreased_quantity e of Some d \<Rightarrow> dsub default_ctx (lo_total_quantity x) d
        | None \<Rightarrow> Inr (lo_total_quantity x)) = Inr new_total"
    show ?thesis
    proof (cases "be_decreased_quantity e")
      case None
      with eq live_ok_bounds(2) [OF ok] show ?thesis by simp
    next
      case (Some d)
      then have "be_event_type e \<noteq> PRICE_AMENDED" using order_event_fields(3) [OF ev] by auto
      from proved_decrease [OF proved Some this] obtain c r where c: "pb_command b = DecreaseOrderCommand c"
        and "dsub default_ctx (lo_total_quantity x) d = Inr r" "dval r = dval (dc_new_total_quantity c)" by blast
      moreover from c bind pb have "decrease_order_command_init c = Inr c" by (simp add: binding_ok_def)
      then have "0 < dval (dc_new_total_quantity c)"
        by (auto simp: decrease_order_command_init_def err_simps live_decimal_def dpos_val)
      ultimately show ?thesis using eq Some by simp
    qed
  qed
next
  case False
  with kept_transition [OF tr] live_ok_bounds(2) [OF ok] show ?thesis by simp
qed

lemma transition_closed:
  assumes "broker_transition x e = Inr (Some (FILLED, new_total, limit, pending))"
  shows "dval new_total = dval (lo_filled_quantity x)"
proof (cases "be_event_type e \<in> {PRICE_AMENDED, QUANTITY_DECREASED, PRICE_AND_QUANTITY_AMENDED}")
  case True
  from broker_transition_change [OF assms True] show ?thesis
    by (rule working_change_Inr) (auto simp: open_state_def deq_val split: if_splits)
next
  case False
  with assms broker_transition_open [OF assms] show ?thesis
    by (cases "be_event_type e") (auto simp: broker_transition_def keep_working_def open_state_def
        live_is_terminal_def split: if_splits option.splits)
qed

lemma pending_fits_later:
  assumes "lo_intent y = lo_intent x" "lo_updated_at x \<le> lo_updated_at y" "pred_option (pending_fits x) p"
  shows "pred_option (pending_fits y) p"
proof -
  have "pending_targets_order y b = pending_targets_order x b" for b
    using assms(1) by (cases "pb_command b") (simp_all add: pending_targets_order_def)
  with assms(2,3) show ?thesis by (cases p) (auto simp: pending_fits_def)
qed

text \<open>The order after an authoritative event passes the constructor again.\<close>

lemma apply_transition_total:
  assumes con: "conserved h s" and ev: "broker_order_event_init e = Inr e"
    and x: "x = run_order s"
    and tr: "broker_transition x e = Inr (Some (st, new_total, limit, pending))"
    and whole: "pred_option lots (be_decreased_quantity e)"
  shows "\<exists>y. apply_transition x e (st, new_total, limit, pending) = Inr y"
proof -
  have ok: "live_ok x" and lots: "lots (lo_total_quantity x)" "lots (lo_filled_quantity x)"
    and sum: "dval (lo_filled_quantity x) + dval (lo_remaining_quantity x) = dval (lo_total_quantity x)"
    and fin: "dval (lo_remaining_quantity x) = 0 \<longrightarrow> lo_state x = FILLED"
    using con by (simp_all add: conserved_def live_inv_def whole_run_def x)
  note b = live_ok_bounds [OF ok]
  have nt: "lots new_total" "contract_dec new_total" using transition_whole [OF ok ev tr lots(1) whole] by simp_all
  have cover: "dval (lo_filled_quantity x) \<le> dval new_total"
    "dval (lo_filled_quantity x) = dval new_total \<Longrightarrow> st = FILLED"
    using transition_total [OF tr sum b(6) fin] by simp_all
  have "expo_ok new_total" using nt(2) by (simp add: contract_dec_def)
  then obtain r where r: "dsub default_ctx new_total (lo_filled_quantity x) = Inr r"
    "dval r = dval new_total - dval (lo_filled_quantity x)" "expo_ok r" "ndigits \<bar>coef r\<bar> \<le> 28" "lots r"
    using dsub_lots [OF _ b(3) nt(1) lots(2) b(4) cover(1)] lots_difference [OF _ b(3) nt(1) lots(2) _ b(4)] cover(1) b(4)
    by (metis Inr_inject order_trans)
  let ?u = "max (lo_updated_at x) (be_received_at e)"
  let ?a = "if st \<in> {CREATED, VALIDATED, SUBMITTING, SUBMISSION_UNKNOWN, RECONCILING, REJECTED}
    then lo_accepted_at x else acceptance_time x (be_occurred_at e) (be_received_at e)"
  let ?l = "case limit of Some p \<Rightarrow> Some p | None \<Rightarrow> lo_working_limit_price x"
  define y where "y = x\<lparr>lo_state := st, lo_total_quantity := new_total, lo_remaining_quantity := r,
    lo_working_limit_price := ?l, lo_accepted_at := ?a, lo_pending_command := pending,
    lo_version := lo_version x + 1, lo_updated_at := ?u\<rparr>"
  have fields: "lo_intent y = lo_intent x" "lo_state y = st" "lo_total_quantity y = new_total"
    "lo_filled_quantity y = lo_filled_quantity x" "lo_remaining_quantity y = r" "lo_accepted_at y = ?a"
    "lo_average_fill_price y = lo_average_fill_price x" "lo_working_limit_price y = ?l"
    "lo_pending_command y = pending" "lo_version y = lo_version x + 1" "lo_updated_at y = ?u"
    by (simp_all add: y_def)
  have limit: "?l = limit" using transition_price [OF ok ev tr] by (cases limit) auto
  have bind: "pred_option (binding_ok h) (lo_pending_command x)" using con by (simp add: conserved_def live_inv_def x)
  note old = ok [unfolded live_ok_iff]
  then have accepted: "pred_option (\<lambda>t. t \<le> lo_updated_at x) (lo_accepted_at x)"
    and fits: "pred_option (pending_fits x) (lo_pending_command x)" by blast+
  have "live_decimal True False ''total_quantity'' new_total = Inr ()"
    using nt(2) transition_positive [OF ok ev tr bind] by (intro live_decimal_intro) (auto simp: contract_dec_def)
  moreover have "live_decimal False True ''remaining_quantity'' r = Inr ()"
    using r(2-4) cover(1) by (intro live_decimal_intro) auto
  moreover have "optionally (live_decimal True False ''working_limit_price'') ?l = Inr ()"
    and "\<not> (li_order_type (lo_intent x) = MARKET \<and> ?l \<noteq> None)"
    and "\<not> (li_order_type (lo_intent x) = LIMIT \<and> ?l = None)"
    using transition_price [OF ok ev tr] old unfolding limit by simp_all
  moreover have "\<exists>t. dadd default_ctx (lo_filled_quantity x) r = Inr t \<and> deq t new_total"
    using dsum_lots [OF b(3) r(3) lots(2) r(5) nt(1) b(4)] r(2) cover(1) by (auto simp: deq_val)
  moreover have "dle new_total (li_quantity (lo_intent x))"
    using old transition_stage(2) [OF tr] by (auto simp: dle_val)
  moreover have "\<not> (st \<in> {ACCEPTED, PARTIALLY_FILLED, FILLED, CANCEL_PENDING, CANCELLED} \<and> ?a = None)"
    by (auto simp: acceptance_time_def split: option.splits)
  moreover have "pred_option (\<lambda>t. t \<le> ?u) ?a"
    using accepted order_event_fields(6) [OF ev] by (auto simp: acceptance_time_def split: option.splits)
  moreover have "pred_option (pending_fits y) pending"
    using fits transition_pending [OF tr] fields(1,11) by (auto intro: pending_fits_later [of y x])
  moreover have "live_order_binding_ok y = Inr ()"
    using transition_binding [OF ok tr] by (intro binding_ok_intro) (auto simp: fields pending_kind_def)
  moreover have "live_order_quantities_ok y = Inr ()"
  proof (rule quantities_ok_intro)
    show "lo_state y = FILLED \<longleftrightarrow> dval (lo_remaining_quantity y) = 0"
      using cover(2) r(2) transition_closed [of x e new_total limit pending] tr
      unfolding fields(2,5) by auto
    show "dval (lo_filled_quantity y) + dval (lo_remaining_quantity y) = dval (lo_total_quantity y)"
      and "0 \<le> dval (lo_filled_quantity y)" and "0 \<le> dval (lo_remaining_quantity y)"
      using r(2) cover(1) b(4) by (simp_all add: fields(3-5))
    show "0 < dval (lo_filled_quantity y)" if "lo_state y = PARTIALLY_FILLED"
      using transition_filled [OF ok tr] that by (simp add: fields(2,4))
    show "dval (lo_filled_quantity y) = 0" if "lo_state y \<in> {CREATED, VALIDATED, SUBMITTING, ACCEPTED, REJECTED}"
      using transition_filled [OF ok tr] that unfolding fields(2,4) by blast
  qed
  moreover have "live_decimal False True ''filled_quantity'' (lo_filled_quantity x) = Inr ()"
    and "optionally (live_decimal True False ''average_fill_price'') (lo_average_fill_price x) = Inr ()"
    and "diszero (lo_filled_quantity x) = (lo_average_fill_price x = None)" and "1 \<le> lo_version x + 1"
    using old by simp_all
  ultimately have "live_ok y" unfolding live_ok_iff fields by (intro conjI)
  then show ?thesis
    using r(1) unfolding apply_transition_def Let_def
    by (auto simp: live_snapshot_def live_order_init_Inr y_def err_simps intro!: exI)
qed

lemma order_event_returns:
  assumes con: "conserved h s" and ev: "broker_order_event_init e = Inr e"
    and whole: "pred_option lots (be_decreased_quantity e)"
  shows "\<exists>res. reduce_broker_order_event h (run_order s) e (run_ledger s) = Inr res"
proof -
  obtain f where f: "order_event_fingerprint h e = Inr f" using order_fingerprint_total [OF ev] by blast
  have ok: "live_ok (run_order s)" using con by (simp add: conserved_def live_inv_def)
  obtain tr where tr: "broker_transition (run_order s) e = Inr tr" using broker_transition_total [OF ok ev] by blast
  show ?thesis
  proof (cases "ledger_find (run_ledger s) ''broker-event'' (be_event_id e)")
    case (Some r)
    then show ?thesis by (simp add: reduce_broker_order_event_def Let_def deduplicate_simps f)
  next
    case None
    show ?thesis
    proof (cases tr)
      case None
      with tr \<open>ledger_find _ _ _ = None\<close> f show ?thesis
        by (simp add: reduce_broker_order_event_def Let_def deduplicate_simps record_event_def)
    next
      case (Some t)
      obtain st nt l p where t: "t = (st, nt, l, p)" by (cases t)
      from apply_transition_total [OF con ev refl _ whole] tr Some t
      obtain y where "apply_transition (run_order s) e (st, nt, l, p) = Inr y" by blast
      with tr Some t None f show ?thesis
        by (simp add: reduce_broker_order_event_def Let_def deduplicate_simps record_event_def)
    qed
  qed
qed

text \<open>A confirmed cancellation closes every open order.\<close>

lemma cancellation_closes:
  assumes con: "conserved h s" and ev: "broker_order_event_init e = Inr e"
    and kind: "be_event_type e = BROKER_CANCELLED"
    and working: "\<not> live_is_terminal (lo_state (run_order s))"
    and new: "ledger_find (run_ledger s) ''broker-event'' (be_event_id e) = None"
    and confirmed: "confirmed_for_order (run_order s) (be_correlation e) (be_account_id e) (be_instrument_id e)"
  shows "\<exists>res. reduce_broker_order_event h (run_order s) e (run_ledger s) = Inr res
    \<and> rr_disposition res = APPLIED \<and> lo_state (rr_order res) = CANCELLED
    \<and> lo_pending_command (rr_order res) = None"
proof -
  have none: "be_decreased_quantity e = None" using order_event_fields(3) [OF ev] kind by simp
  then obtain res where res: "reduce_broker_order_event h (run_order s) e (run_ledger s) = Inr res"
    using order_event_returns [OF con ev] by auto
  have "\<not> diszero (lo_remaining_quantity (run_order s))"
    using con working by (auto simp: conserved_def diszero_val live_is_terminal_def)
  then have tr: "broker_transition (run_order s) e = Inr (keep_working (run_order s) CANCELLED None)"
    using kind working by (simp add: broker_transition_def)
  from res working new confirmed tr obtain l y where "res = reduction y l APPLIED None (be_failure_code e)"
    and y: "apply_transition (run_order s) e (CANCELLED, lo_total_quantity (run_order s),
      lo_working_limit_price (run_order s), None) = Inr y"
    by (auto simp: reduce_broker_order_event_def Let_def deduplicate_simps keep_working_def
        live_is_terminal_def ebind_eq_Inr)
  with apply_transition_fields(2,6) [OF y] res show ?thesis by (simp add: reduction_def)
qed

end
