(* ===== verification/Live_Demo.thy ===== *)
theory Live_Demo
  imports Live_Totality
begin

text \<open>
  A concrete run of a live order, the input of the witnesses: a limit order for five lots that is
  submitted, accepted, partly filled, decreased, cancelled after a further fill, and closed by a late
  fill. The kernel evaluates it once.
\<close>

section \<open>Sequences of operations\<close>

datatype live_op =
    Advance live_order_state instant "pending_command_binding option"
  | RequestCancel pending_command_binding instant
  | BindOperation pending_command_binding instant
  | Dispatched dispatch_receipt
  | OrderEvent broker_order_event
  | FillEvent broker_fill_event

fun live_op_ok :: "hashes \<Rightarrow> live_op \<Rightarrow> bool" where
  "live_op_ok h (Advance target t b) = (case b of None \<Rightarrow> True | Some c \<Rightarrow> binding_ok h c)"
| "live_op_ok h (RequestCancel b t) = binding_ok h b"
| "live_op_ok h (BindOperation b t) = binding_ok h b"
| "live_op_ok h (Dispatched r) = (dispatch_receipt_init r = Inr r)"
| "live_op_ok h (OrderEvent e) = (broker_order_event_init e = Inr e)"
| "live_op_ok h (FillEvent e) = (broker_fill_event_init e = Inr e)"

fun run_live_op :: "hashes \<Rightarrow> live_op \<Rightarrow> live_run \<Rightarrow> live_run result" where
  "run_live_op h (Advance target t b) s =
     ebind (advance_local (run_order s) target t b) (\<lambda>y. Inr (s\<lparr>run_order := y\<rparr>))"
| "run_live_op h (RequestCancel b t) s =
     ebind (request_cancel (run_order s) b t) (\<lambda>y. Inr (s\<lparr>run_order := y\<rparr>))"
| "run_live_op h (BindOperation b t) s =
     ebind (bind_operation (run_order s) b t) (\<lambda>y. Inr (s\<lparr>run_order := y\<rparr>))"
| "run_live_op h (Dispatched r) s =
     ebind (reduce_dispatch h (run_order s) r (run_ledger s)) (\<lambda>res. Inr (take_result s res))"
| "run_live_op h (OrderEvent e) s =
     ebind (reduce_broker_order_event h (run_order s) e (run_ledger s)) (\<lambda>res. Inr (take_result s res))"
| "run_live_op h (FillEvent e) s =
     ebind (reduce_broker_fill_event h (run_order s) e (run_ledger s)) (\<lambda>res. Inr (take_result s res))"

lemma run_live_op_step:
  assumes "live_op_ok h op" and "run_live_op h op s = Inr t"
  shows "live_step h s t"
  using assms
  by (cases op) (auto simp: err_simps split: option.splits intro: live_step.intros)

text \<open>The states after each of a list of operations.\<close>

fun live_trace :: "hashes \<Rightarrow> live_op list \<Rightarrow> live_run \<Rightarrow> live_run list result" where
  "live_trace h [] s = Inr [s]"
| "live_trace h (op # ops) s =
     ethen (require (live_op_ok h op) AssertionError) (
     ebind (run_live_op h op s) (\<lambda>t. ebind (live_trace h ops t) (\<lambda>ts. Inr (s # ts))))"

lemma live_trace_nth:
  assumes "live_trace h ops s = Inr ts"
  shows "length ts = Suc (length ops) \<and> ts ! 0 = s
    \<and> (\<forall>i<length ops. live_op_ok h (ops ! i) \<and> run_live_op h (ops ! i) (ts ! i) = Inr (ts ! Suc i))"
  using assms
proof (induction ops arbitrary: s ts)
  case Nil
  then show ?case by auto
next
  case (Cons op ops)
  then obtain t us where op: "live_op_ok h op" "run_live_op h op s = Inr t" "live_trace h ops t = Inr us"
    "ts = s # us" by (auto simp: err_simps)
  from Cons.IH [OF op(3)] op show ?case by (auto simp: nth_Cons split: nat.splits)
qed

lemma live_trace_runs:
  assumes "live_trace h ops s = Inr ts"
  shows "ts ! 0 = s \<and> successively (live_step h) ts"
  using live_trace_nth [OF assms] run_live_op_step by (auto simp: successively_conv_nth)

lemma successively_reaches:
  "successively R xs \<Longrightarrow> i \<le> j \<Longrightarrow> j < length xs \<Longrightarrow> R\<^sup>*\<^sup>* (xs ! i) (xs ! j)"
proof (induction j)
  case 0
  then show ?case by simp
next
  case (Suc j)
  show ?case
  proof (cases "i = Suc j")
    case False
    with Suc have "R\<^sup>*\<^sup>* (xs ! i) (xs ! j)" "R (xs ! j) (xs ! Suc j)"
      by (auto simp: successively_conv_nth)
    then show ?thesis by (rule rtranclp.rtrancl_into_rtrancl)
  qed simp
qed

section \<open>The inputs\<close>

definition live_hashes :: hashes where
  "live_hashes = \<lparr>sha256_hex = (\<lambda>s. pad 64 (show_int (int (length s)))), uuid5 = (\<lambda>ns name. UUID name)\<rparr>"

definition live_intent :: live_order_intent where
  "live_intent = \<lparr>li_strategy_id = ''s'', li_client_order_id = ''c1'', li_account_id = ''a'',
     li_instrument_id = ''TXF'', li_side = BUY, li_quantity = Dec 5 0, li_order_type = LIMIT,
     li_limit_price = Some (Dec 100 0), li_time_in_force = DAY, li_day_trade = False, li_created_at = 0\<rparr>"

definition bind_command :: "live_command \<Rightarrow> pending_command_binding" where
  "bind_command c = \<lparr>pb_command = c,
     pb_payload_fingerprint = (case payload_fingerprint live_hashes c of Inr f \<Rightarrow> f | Inl _ \<Rightarrow> [])\<rparr>"

definition new_binding :: pending_command_binding where
  "new_binding = bind_command (NewOrderCommand
     \<lparr>nw_client_command_id = ''n1'', nw_intent = live_intent, nw_requested_at = 2\<rparr>)"

definition decrease_binding :: pending_command_binding where
  "decrease_binding = bind_command (DecreaseOrderCommand
     \<lparr>dc_client_command_id = ''d1'', dc_client_order_id = ''c1'', dc_expected_total_quantity = Dec 5 0,
      dc_new_total_quantity = Dec 4 0, dc_requested_at = 6\<rparr>)"

definition cancel_binding :: pending_command_binding where
  "cancel_binding = bind_command (CancelOrderCommand
     \<lparr>cc_client_command_id = ''x1'', cc_client_order_id = ''c1'', cc_requested_at = 8\<rparr>)"

definition live_correlation :: "int \<Rightarrow> instant \<Rightarrow> broker_correlation" where
  "live_correlation n t = \<lparr>bc_broker_session_generation = 1, bc_adapter_received_sequence = n,
     bc_status = CONFIRMED, bc_correlated_at = t, bc_submission_attempt_id = None,
     bc_async_thread_id = None, bc_proxy_stamp_id = None, bc_broker_order_sequence = None,
     bc_broker_book_no = None, bc_broker_fill_id = None, bc_execution_no = Some ''x'',
     bc_client_order_id = Some ''c1''\<rparr>"

definition live_event :: "string \<Rightarrow> broker_order_event_type \<Rightarrow> int \<Rightarrow> instant \<Rightarrow> broker_order_event" where
  "live_event i kind n t = \<lparr>be_event_id = i, be_account_id = ''a'', be_instrument_id = ''TXF'',
     be_event_type = kind, be_received_at = t, be_broker_session_generation = 1,
     be_adapter_received_sequence = n, be_correlation = live_correlation n t, be_occurred_at = None,
     be_failure_code = expected_failure kind, be_decreased_quantity = None, be_new_limit_price = None\<rparr>"

definition live_fill_event :: "string \<Rightarrow> int \<Rightarrow> int \<Rightarrow> instant \<Rightarrow> broker_fill_event" where
  "live_fill_event i q n t = \<lparr>bf_event_id = i, bf_account_id = ''a'', bf_instrument_id = ''TXF'',
     bf_side = BUY, bf_quantity = Dec q 0, bf_execution_price = Dec 99 0, bf_received_at = t,
     bf_broker_session_generation = 1, bf_adapter_received_sequence = n,
     bf_correlation = live_correlation n t, bf_occurred_at = None\<rparr>"

definition live_receipt :: dispatch_receipt where
  "live_receipt = \<lparr>dr_client_command_id = ''n1'', dr_payload_fingerprint = pb_payload_fingerprint new_binding,
     dr_state = UNKNOWN, dr_attempted_at = 2, dr_completed_at = None,
     dr_failure_code = Some DISPATCH_OUTCOME_UNKNOWN\<rparr>"

definition live_decreased :: broker_order_event where
  "live_decreased = (live_event ''e2'' QUANTITY_DECREASED 3 7)\<lparr>be_decreased_quantity := Some (Dec 1 0)\<rparr>"

definition live_ops :: "live_op list" where
  "live_ops =
     [Advance VALIDATED 1 None, Advance SUBMITTING 2 (Some new_binding), Dispatched live_receipt,
      OrderEvent (live_event ''e1'' NEW_ACCEPTED 1 4), FillEvent (live_fill_event ''f1'' 2 2 5),
      BindOperation decrease_binding 6, OrderEvent live_decreased,
      RequestCancel cancel_binding 8, FillEvent (live_fill_event ''f2'' 1 4 9),
      OrderEvent (live_event ''e3'' BROKER_CANCELLED 5 10), FillEvent (live_fill_event ''f3'' 1 6 11)]"

section \<open>The run\<close>

definition live_first :: live_order where
  "live_first = \<lparr>lo_intent = live_intent, lo_state = CREATED, lo_total_quantity = Dec 5 0,
     lo_filled_quantity = dzero, lo_remaining_quantity = Dec 5 0, lo_average_fill_price = None,
     lo_working_limit_price = Some (Dec 100 0), lo_version = 1, lo_updated_at = 0, lo_accepted_at = None,
     lo_pending_command = None\<rparr>"

definition live_states :: "live_run list" where
  "live_states = (case live_trace live_hashes live_ops (start_run live_first) of Inr ts \<Rightarrow> ts | Inl _ \<Rightarrow> [])"

text \<open>What the witnesses need of the run, evaluated in one go.\<close>

definition live_states_ok :: "live_run list \<Rightarrow> bool" where
  "live_states_ok ts \<longleftrightarrow>
     map (\<lambda>s. lo_state (run_order s)) ts =
       [CREATED, VALIDATED, SUBMITTING, SUBMISSION_UNKNOWN, ACCEPTED, PARTIALLY_FILLED, PARTIALLY_FILLED,
        PARTIALLY_FILLED, CANCEL_PENDING, CANCEL_PENDING, CANCELLED, FILLED]
     \<and> map (\<lambda>s. lo_total_quantity (run_order s)) ts = [Dec 5 0, Dec 5 0, Dec 5 0, Dec 5 0, Dec 5 0, Dec 5 0, Dec 5 0, Dec 4 0, Dec 4 0, Dec 4 0, Dec 4 0, Dec 4 0]
     \<and> map (\<lambda>s. lo_filled_quantity (run_order s)) ts
         = [Dec 0 0, Dec 0 0, Dec 0 0, Dec 0 0, Dec 0 0,
           Dec 2 0, Dec 2 0, Dec 2 0, Dec 2 0, Dec 3 0, Dec 3 0, Dec 4 0]
     \<and> list_all whole_run ts"

lemma live_states_evaluated:
  "create_live_order live_intent = Inr live_first
   \<and> (case live_trace live_hashes live_ops (start_run live_first) of
         Inl _ \<Rightarrow> False | Inr ts \<Rightarrow> live_states_ok ts)"
  by code_simp

lemma live_created: "create_live_order live_intent = Inr live_first"
  using live_states_evaluated by blast

lemma live_run_trace:
  shows live_traced: "live_trace live_hashes live_ops (start_run live_first) = Inr live_states"
    and live_checked: "live_states_ok live_states"
proof -
  from live_states_evaluated obtain ts
    where t: "live_trace live_hashes live_ops (start_run live_first) = Inr ts" "live_states_ok ts"
    by (auto split: sum.splits)
  have "live_states = ts" by (simp only: live_states_def t sum.case)
  with t show "live_trace live_hashes live_ops (start_run live_first) = Inr live_states"
    and "live_states_ok live_states" by (simp_all only:)
qed

lemma live_states_length: "length live_states = 12"
proof -
  have "length (map (\<lambda>s. lo_state (run_order s)) live_states) = 12"
    using live_checked by (simp add: live_states_ok_def)
  then show ?thesis by simp
qed

text \<open>The fields the witnesses read off a state.\<close>

lemma nth_of_map: "map g xs = ys \<Longrightarrow> i < length xs \<Longrightarrow> g (xs ! i) = ys ! i"
  by auto

lemma live_state_fields:
  assumes "i < 12"
  shows "lo_state (run_order (live_states ! i)) =
      [CREATED, VALIDATED, SUBMITTING, SUBMISSION_UNKNOWN, ACCEPTED, PARTIALLY_FILLED, PARTIALLY_FILLED,
       PARTIALLY_FILLED, CANCEL_PENDING, CANCEL_PENDING, CANCELLED, FILLED] ! i"
    and "lo_total_quantity (run_order (live_states ! i)) = [Dec 5 0, Dec 5 0, Dec 5 0, Dec 5 0, Dec 5 0, Dec 5 0, Dec 5 0, Dec 4 0, Dec 4 0, Dec 4 0, Dec 4 0, Dec 4 0] ! i"
    and "lo_filled_quantity (run_order (live_states ! i))
         = [Dec 0 0, Dec 0 0, Dec 0 0, Dec 0 0, Dec 0 0,
           Dec 2 0, Dec 2 0, Dec 2 0, Dec 2 0, Dec 3 0, Dec 3 0, Dec 4 0] ! i"
    and "whole_run (live_states ! i)"
proof -
  have i: "i < length live_states" using assms live_states_length by simp
  note ok = live_checked [unfolded live_states_ok_def]
  note state = nth_of_map [OF ok [THEN conjunct1] i]
    and total = nth_of_map [OF ok [THEN conjunct2, THEN conjunct1] i]
    and filled = nth_of_map [OF ok [THEN conjunct2, THEN conjunct2, THEN conjunct1] i]
  show "lo_state (run_order (live_states ! i)) =
      [CREATED, VALIDATED, SUBMITTING, SUBMISSION_UNKNOWN, ACCEPTED, PARTIALLY_FILLED, PARTIALLY_FILLED,
       PARTIALLY_FILLED, CANCEL_PENDING, CANCEL_PENDING, CANCELLED, FILLED] ! i" by (rule state)
  show "lo_total_quantity (run_order (live_states ! i)) = [Dec 5 0, Dec 5 0, Dec 5 0, Dec 5 0, Dec 5 0, Dec 5 0, Dec 5 0, Dec 4 0, Dec 4 0, Dec 4 0, Dec 4 0, Dec 4 0] ! i"
    by (rule total)
  show "lo_filled_quantity (run_order (live_states ! i))
      = [Dec 0 0, Dec 0 0, Dec 0 0, Dec 0 0, Dec 0 0,
           Dec 2 0, Dec 2 0, Dec 2 0, Dec 2 0, Dec 3 0, Dec 3 0, Dec 4 0] ! i"
    by (rule filled)
  show "whole_run (live_states ! i)"
    using ok assms live_states_length by (auto simp: list_all_length)
qed

lemma live_first_state: "live_states ! 0 = start_run live_first"
  using live_trace_runs [OF live_traced] by blast

lemma live_steps: "i < 11 \<Longrightarrow> live_step live_hashes (live_states ! i) (live_states ! Suc i)"
  using live_trace_runs [OF live_traced] live_states_length by (simp add: successively_conv_nth)

lemma live_reaches: "i \<le> j \<Longrightarrow> j < 12 \<Longrightarrow> (live_step live_hashes)\<^sup>*\<^sup>* (live_states ! i) (live_states ! j)"
  using live_trace_runs [OF live_traced] live_states_length by (intro successively_reaches) simp_all

lemma live_lot_reaches: "i \<le> j \<Longrightarrow> j < 12 \<Longrightarrow> (lot_step live_hashes)\<^sup>*\<^sup>* (live_states ! i) (live_states ! j)"
proof (induction j)
  case (Suc j)
  show ?case
  proof (cases "i = Suc j")
    case False
    with Suc have "(lot_step live_hashes)\<^sup>*\<^sup>* (live_states ! i) (live_states ! j)" by simp
    moreover have "lot_step live_hashes (live_states ! j) (live_states ! Suc j)"
      using Suc.prems live_steps [of j] live_state_fields(4) [of "Suc j"] by (simp add: lot_step_def)
    ultimately show ?thesis by (rule rtranclp.rtrancl_into_rtrancl)
  qed simp
qed simp

end
