(* ===== verification/Live_Theorems.thy ===== *)
theory Live_Theorems
  imports Live_Demo
begin

text \<open>
  The properties of live orders over every run of the reducer, each a few steps over the invariants of
  \<open>Live_Machine\<close> and \<open>Live_Quantities\<close>, and applied to the run of \<open>Live_Demo\<close>.
\<close>

lemma live_from_start:
  assumes "create_live_order i = Inr x" and "(live_step h)\<^sup>*\<^sup>* (start_run x) s"
  shows "live_inv h s"
  using live.run_inv [OF assms(2)] live_inv_start [OF assms(1)] by blast

lemma live_demo_reached: "i < 12 \<Longrightarrow> (live_step live_hashes)\<^sup>*\<^sup>* (start_run live_first) (live_states ! i)"
  using live_reaches [of 0 i] by (simp add: live_first_state)

section \<open>Evidence\<close>

text \<open>C20: a live order leaves the states before acceptance (accepted, filled, cancelled or rejected),
  carries an acceptance time or a filled quantity, only after a normalised broker event was applied:
  in every reachable state the ledger holds one, or the order is still waiting and nothing is filled.\<close>

theorem acceptance_needs_broker_evidence:
  assumes "create_live_order i = Inr x" and "(live_step h)\<^sup>*\<^sup>* (start_run x) s"
  shows "broker_evidence (run_ledger s)
    \<or> (lo_state (run_order s) \<in> {CREATED, VALIDATED, SUBMITTING, SUBMISSION_UNKNOWN, RECONCILING}
       \<and> lo_accepted_at (run_order s) = None \<and> diszero (lo_filled_quantity (run_order s)))"
proof -
  have inv: "live_inv h s" using live_from_start [OF assms] .
  then have "live_ok (run_order s)" by (simp add: live_inv_def)
  from live_ok_parts(5) [OF this] inv show ?thesis
    by (cases "lo_state (run_order s)") (auto simp: live_inv_def)
qed

lemma acceptance_needs_broker_evidence_witness: "broker_evidence (run_ledger (live_states ! 4))"
  using acceptance_needs_broker_evidence [OF live_created live_demo_reached [of 4]] live_state_fields(1) [of 4] by simp

text \<open>What the adapter reports of a dispatch is never evidence of the broker: a receipt changes at
  most the state, to submission-unknown or reconciling, and never a quantity, a price, the acceptance
  time or the pending command; it produces no fill.\<close>

theorem dispatch_never_accepts:
  assumes "reduce_dispatch h x r l = Inr res"
  shows "rr_fill res = None
    \<and> lo_state (rr_order res) \<in> {lo_state x, SUBMISSION_UNKNOWN, RECONCILING}
    \<and> lo_accepted_at (rr_order res) = lo_accepted_at x
    \<and> lo_total_quantity (rr_order res) = lo_total_quantity x
    \<and> lo_filled_quantity (rr_order res) = lo_filled_quantity x
    \<and> lo_working_limit_price (rr_order res) = lo_working_limit_price x
    \<and> lo_pending_command (rr_order res) = lo_pending_command x"
  using reduce_dispatch_Inr [OF assms] status_change_fields [of x "rr_order res"] by auto

lemma dispatch_never_accepts_witness:
  "\<exists>res. reduce_dispatch live_hashes (run_order (live_states ! 2)) live_receipt (run_ledger (live_states ! 2)) = Inr res
     \<and> lo_accepted_at (rr_order res) = lo_accepted_at (run_order (live_states ! 2))"
proof -
  have "run_live_op live_hashes (Dispatched live_receipt) (live_states ! 2) = Inr (live_states ! 3)"
    using live_trace_nth [OF live_traced] by (auto simp: live_ops_def nth_Cons' dest!: spec [of _ 2])
  then obtain res where
    "reduce_dispatch live_hashes (run_order (live_states ! 2)) live_receipt (run_ledger (live_states ! 2)) = Inr res"
    by (auto simp: err_simps)
  with dispatch_never_accepts [OF this] show ?thesis by blast
qed

section \<open>Redelivery\<close>

lemma recorded_fill:
  assumes "reduce_broker_fill_event h x e l = Inr res" and "rr_disposition res = APPLIED"
  shows "\<exists>r. fill_event_fingerprint h e = Inr (ae_fingerprint r)
    \<and> ledger_find (rr_ledger res) ''broker-event'' (bf_event_id e) = Some r"
proof (cases "ledger_find l ''broker-event'' (bf_event_id e)")
  case (Some a)
  with assms show ?thesis
    by (auto simp: reduce_broker_fill_event_def Let_def deduplicate_simps ebind_eq_Inr reduction_def
        broker_duplicate_result_def split: if_splits)
next
  case None
  with assms show ?thesis
    by (auto simp: reduce_broker_fill_event_def Let_def deduplicate_simps ebind_eq_Inr reduction_def
        record_event_Inr reconcile_def ledger_find_append ledger_find_single split: if_splits)
qed

lemma recorded_order_event:
  assumes "reduce_broker_order_event h x e l = Inr res" and "rr_disposition res \<in> {APPLIED, NO_CHANGE}"
  shows "\<exists>r. order_event_fingerprint h e = Inr (ae_fingerprint r)
    \<and> ledger_find (rr_ledger res) ''broker-event'' (be_event_id e) = Some r"
proof (cases "ledger_find l ''broker-event'' (be_event_id e)")
  case (Some a)
  with assms show ?thesis
    by (auto simp: reduce_broker_order_event_def Let_def deduplicate_simps ebind_eq_Inr reduction_def
        broker_duplicate_result_def split: if_splits)
next
  case None
  with assms show ?thesis
    by (auto simp: reduce_broker_order_event_def Let_def deduplicate_simps ebind_eq_Inr reduction_def
        record_event_Inr reconcile_def ledger_find_append ledger_find_single split: if_splits option.splits)
qed

lemma live_run_find:
  assumes "(live_step h)\<^sup>*\<^sup>* s t" and "ledger_find (run_ledger s) source i = Some r"
  shows "ledger_find (run_ledger t) source i = Some r"
  using assms by (induction rule: rtranclp_induct) (auto intro: ledger_find_prefix dest: live_step_prefix)

text \<open>C11: a broker fill is booked at most once. Once a fill event was applied, any later event with the
  same identifier leaves order and ledger as they are: it is an exact duplicate when it says the same,
  whatever the session, sequence and time of its delivery, and a conflict when it says something else.\<close>

theorem fill_is_booked_once:
  assumes "reduce_broker_fill_event h (run_order s) e (run_ledger s) = Inr res" and "rr_disposition res = APPLIED"
    and "(live_step h)\<^sup>*\<^sup>* (take_result s res) t"
    and "bf_event_id e' = bf_event_id e" and "fill_event_fingerprint h e' = Inr f"
  shows "reduce_broker_fill_event h (run_order t) e' (run_ledger t) =
    Inr (broker_duplicate_result (run_order t) (run_ledger t)
      (if fill_event_fingerprint h e = Inr f then EXACT_DUPLICATE else EVENT_CONFLICT))"
proof -
  obtain r where r: "fill_event_fingerprint h e = Inr (ae_fingerprint r)"
    and "ledger_find (run_ledger (take_result s res)) ''broker-event'' (bf_event_id e) = Some r"
    using recorded_fill [OF assms(1,2)] by (auto simp: take_result_def)
  from live_run_find [OF assms(3) this(2)] show ?thesis
    by (simp add: reduce_broker_fill_event_def Let_def assms(4,5) deduplicate_simps r)
qed

lemma demo_fill:
  "\<exists>res. reduce_broker_fill_event live_hashes (run_order (live_states ! 4)) (live_fill_event ''f1'' 2 2 5)
      (run_ledger (live_states ! 4)) = Inr res \<and> rr_disposition res = APPLIED
    \<and> take_result (live_states ! 4) res = live_states ! 5"
proof -
  have "run_live_op live_hashes (FillEvent (live_fill_event ''f1'' 2 2 5)) (live_states ! 4) = Inr (live_states ! 5)"
    using live_trace_nth [OF live_traced] by (auto simp: live_ops_def nth_Cons' dest!: spec [of _ 4])
  then obtain res where res: "reduce_broker_fill_event live_hashes (run_order (live_states ! 4))
      (live_fill_event ''f1'' 2 2 5) (run_ledger (live_states ! 4)) = Inr res"
    "take_result (live_states ! 4) res = live_states ! 5" by (auto simp: err_simps)
  have "rr_order res \<noteq> run_order (live_states ! 4)"
    using arg_cong [OF res(2), of run_order] live_state_fields(1) [of 4] live_state_fields(1) [of 5]
    by (auto simp: take_result_def)
  with reduce_fill_event_Inr [OF res(1)] res show ?thesis by blast
qed

lemma fill_is_booked_once_witness:
  "reduce_broker_fill_event live_hashes (run_order (live_states ! 11)) (live_fill_event ''f1'' 2 9 20)
      (run_ledger (live_states ! 11))
   = Inr (broker_duplicate_result (run_order (live_states ! 11)) (run_ledger (live_states ! 11)) EXACT_DUPLICATE)"
proof -
  from demo_fill obtain res where res: "reduce_broker_fill_event live_hashes (run_order (live_states ! 4))
      (live_fill_event ''f1'' 2 2 5) (run_ledger (live_states ! 4)) = Inr res" "rr_disposition res = APPLIED"
    "take_result (live_states ! 4) res = live_states ! 5" by blast
  have same: "fill_event_fingerprint live_hashes (live_fill_event ''f1'' 2 9 20)
      = fill_event_fingerprint live_hashes (live_fill_event ''f1'' 2 2 5)"
    by (simp add: fill_event_fingerprint_def live_fill_event_def)
  obtain f where f: "fill_event_fingerprint live_hashes (live_fill_event ''f1'' 2 2 5) = Inr f"
    using recorded_fill [OF res(1,2)] by blast
  from fill_is_booked_once [OF res(1,2), of "live_states ! 11" "live_fill_event ''f1'' 2 9 20" f]
    live_reaches [of 5 11] f same
  show ?thesis by (simp add: res(3)) (simp add: live_fill_event_def)
qed

text \<open>An authoritative order event is applied at most once: once it was applied, or found to change
  nothing, a later event with its identifier is an exact duplicate or a conflict and changes nothing.\<close>

theorem order_event_is_applied_once:
  assumes "reduce_broker_order_event h (run_order s) e (run_ledger s) = Inr res"
    and "rr_disposition res \<in> {APPLIED, NO_CHANGE}"
    and "(live_step h)\<^sup>*\<^sup>* (take_result s res) t"
    and "be_event_id e' = be_event_id e" and "order_event_fingerprint h e' = Inr f"
  shows "reduce_broker_order_event h (run_order t) e' (run_ledger t) =
    Inr (broker_duplicate_result (run_order t) (run_ledger t)
      (if order_event_fingerprint h e = Inr f then EXACT_DUPLICATE else EVENT_CONFLICT))"
proof -
  obtain r where r: "order_event_fingerprint h e = Inr (ae_fingerprint r)"
    and "ledger_find (run_ledger (take_result s res)) ''broker-event'' (be_event_id e) = Some r"
    using recorded_order_event [OF assms(1,2)] by (auto simp: take_result_def)
  from live_run_find [OF assms(3) this(2)] show ?thesis
    by (simp add: reduce_broker_order_event_def Let_def assms(4,5) deduplicate_simps r)
qed

lemma demo_order_event:
  "\<exists>res. reduce_broker_order_event live_hashes (run_order (live_states ! 6)) live_decreased
      (run_ledger (live_states ! 6)) = Inr res \<and> rr_disposition res = APPLIED
    \<and> take_result (live_states ! 6) res = live_states ! 7"
proof -
  have "run_live_op live_hashes (OrderEvent live_decreased) (live_states ! 6) = Inr (live_states ! 7)"
    using live_trace_nth [OF live_traced] by (auto simp: live_ops_def nth_Cons' dest!: spec [of _ 6])
  then obtain res where res: "reduce_broker_order_event live_hashes (run_order (live_states ! 6))
      live_decreased (run_ledger (live_states ! 6)) = Inr res"
    "take_result (live_states ! 6) res = live_states ! 7" by (auto simp: err_simps)
  have "rr_order res \<noteq> run_order (live_states ! 6)"
    using arg_cong [OF res(2), of run_order] live_state_fields(2) [of 6] live_state_fields(2) [of 7]
    by (auto simp: take_result_def)
  with reduce_order_event_Inr [OF res(1)] res show ?thesis by blast
qed

lemma order_event_is_applied_once_witness:
  "reduce_broker_order_event live_hashes (run_order (live_states ! 11)) live_decreased (run_ledger (live_states ! 11))
   = Inr (broker_duplicate_result (run_order (live_states ! 11)) (run_ledger (live_states ! 11)) EXACT_DUPLICATE)"
proof -
  from demo_order_event obtain res where res: "reduce_broker_order_event live_hashes (run_order (live_states ! 6))
      live_decreased (run_ledger (live_states ! 6)) = Inr res" "rr_disposition res = APPLIED"
    "take_result (live_states ! 6) res = live_states ! 7" by blast
  obtain f where f: "order_event_fingerprint live_hashes live_decreased = Inr f"
    using recorded_order_event [OF res(1)] res(2) by blast
  from order_event_is_applied_once [OF res(1) _ _ refl f, of "live_states ! 11"] res(2) live_reaches [of 7 11] f
  show ?thesis by (simp add: res(3))
qed

section \<open>Progress\<close>

text \<open>C35: over every run the intent of a live order is fixed, its version and clock never go back and a
  change of anything advances the version, its stage only rises, its total never grows, its acceptance
  time never changes, a filled or rejected order is final, and a cancelled one changes only by late fills.\<close>

theorem live_orders_move_forward:
  assumes "create_live_order i = Inr x" and "(live_step h)\<^sup>*\<^sup>* (start_run x) s" and "(live_step h)\<^sup>*\<^sup>* s t"
  shows "live_progress (run_order s) (run_order t)"
  using live_order_progress.run_below [OF assms(3)] live_from_start [OF assms(1,2)] by blast

lemma live_orders_move_forward_witness:
  "live_progress (run_order (live_states ! 5)) (run_order (live_states ! 10))"
  by (rule live_orders_move_forward [OF live_created live_demo_reached [of 5] live_reaches]) simp_all

text \<open>C39: every reachable live order passes the checks of its constructor again, its pending command is
  one whose fingerprint matches its content, every fill handed on is a valid fill of this order, and the
  ledger never holds two entries of one source and identifier.\<close>

theorem reachable_live_orders_valid:
  assumes "create_live_order i = Inr x" and "(live_step h)\<^sup>*\<^sup>* (start_run x) s"
  shows "live_order_init (run_order s) = Inr (run_order s)
    \<and> pred_option (\<lambda>b. pending_command_binding_init h b = Inr b) (lo_pending_command (run_order s))
    \<and> list_all (fill_belongs (run_order s)) (run_fills s) \<and> distinct (ledger_keys (run_ledger s))"
  using live_from_start [OF assms]
  by (auto simp: live_inv_def live_ok_def binding_ok_def list_all_iff pred_option_def)

lemma reachable_live_orders_valid_witness:
  "live_order_init (run_order (live_states ! 8)) = Inr (run_order (live_states ! 8))"
  using reachable_live_orders_valid [OF live_created live_demo_reached [of 8]] by simp

section \<open>Quantities\<close>

lemma demo_lot_reached: "i < 12 \<Longrightarrow> (lot_step live_hashes)\<^sup>*\<^sup>* (start_run live_first) (live_states ! i)"
  using live_lot_reaches [of 0 i] by (simp add: live_first_state)

lemma conserved_reached:
  assumes "create_live_order i = Inr x" and "lots (li_quantity i)" and "(lot_step h)\<^sup>*\<^sup>* (start_run x) s"
  shows "conserved h s"
  using lot_run.run_inv [OF assms(3)] conserved_start [OF assms(1,2)] by blast

text \<open>C4: over a run of whole lots the filled quantity is the sum of the fills handed on, filled and
  remaining add up to the total exactly although every sum is rounded to 28 digits, the fills never
  exceed the quantity of the intent, and nothing is left exactly when the order is filled.\<close>

theorem live_quantities_conserved:
  assumes "create_live_order i = Inr x" and "lots (li_quantity i)" and "(lot_step h)\<^sup>*\<^sup>* (start_run x) s"
  shows "dval (lo_filled_quantity (run_order s)) = fills_total s
    \<and> dval (lo_filled_quantity (run_order s)) + dval (lo_remaining_quantity (run_order s))
        = dval (lo_total_quantity (run_order s))
    \<and> fills_total s \<le> dval (li_quantity (lo_intent (run_order s)))
    \<and> (dval (lo_remaining_quantity (run_order s)) = 0 \<longleftrightarrow> lo_state (run_order s) = FILLED)"
proof -
  have con: "conserved h s" using conserved_reached [OF assms] .
  then have ok: "live_ok (run_order s)" by (simp add: conserved_def live_inv_def)
  with live_ok_bounds(6) [OF ok] live_ok_parts(4) [OF ok] live_ok_quantities(2) [OF ok] con show ?thesis
    by (auto simp: conserved_def dec_order)
qed

lemma live_quantities_conserved_witness: "fills_total (live_states ! 11) = 4"
proof -
  have "lots (li_quantity live_intent)" by (simp add: live_intent_def lots_def)
  from live_quantities_conserved [OF live_created this demo_lot_reached [of 11]] live_state_fields(3) [of 11]
  have "fills_total (live_states ! 11) = dval (Dec 4 0)" by simp
  then show ?thesis by (simp add: dval_def)
qed

text \<open>A proved working change is the target of the bound command: an amendment or a decrease.\<close>

lemma proved_amendment:
  assumes "matches_authoritative_working_change b e n = Inr True"
    and "be_decreased_quantity e = None" and "be_new_limit_price e \<noteq> None"
  obtains c p where "pb_command b = AmendOrderCommand c" "be_new_limit_price e = Some p" "deq p (am_new_limit_price c)"
  using assms
  by (auto simp: matches_authoritative_working_change_def err_simps expected_new_limit_price_def opt_deq_def
      split: if_splits live_command.splits)

lemma bound_change:
  assumes e: "broker_order_event_init e = Inr e" and ap: "apply_transition x e (st, nt, limit, None) = Inr y"
    and b: "lo_pending_command x = Some b"
    and proved: "matches_authoritative_working_change b e (lo_total_quantity x) = Inr True"
    and nt: "(case be_decreased_quantity e of Some d \<Rightarrow> dsub default_ctx (lo_total_quantity x) d
      | None \<Rightarrow> Inr (lo_total_quantity x)) = Inr nt"
    and limit: "limit = (case be_new_limit_price e of Some p \<Rightarrow> Some p | None \<Rightarrow> lo_working_limit_price x)"
  shows "(lo_total_quantity y = lo_total_quantity x \<or>
      (\<exists>b c. lo_pending_command x = Some b \<and> pb_command b = DecreaseOrderCommand c
         \<and> dval (lo_total_quantity x) = dval (dc_expected_total_quantity c)
         \<and> dval (lo_total_quantity y) = dval (dc_new_total_quantity c)
         \<and> be_event_type e = QUANTITY_DECREASED \<and> lo_pending_command y = None))
    \<and> (lo_working_limit_price y = lo_working_limit_price x \<or>
      (\<exists>b c p. lo_pending_command x = Some b \<and> pb_command b = AmendOrderCommand c
         \<and> lo_working_limit_price y = Some p \<and> deq p (am_new_limit_price c)
         \<and> be_event_type e = PRICE_AMENDED \<and> lo_pending_command y = None))"
proof (cases "be_event_type e = PRICE_AMENDED")
  note f = apply_transition_fields [OF ap] and ev = order_event_fields(3,4) [OF e]
  case True
  then have d: "be_decreased_quantity e = None" and price: "be_new_limit_price e \<noteq> None" using ev by auto
  with nt f(3) have "lo_total_quantity y = lo_total_quantity x" by simp
  moreover obtain c p where "pb_command b = AmendOrderCommand c" "be_new_limit_price e = Some p"
    "deq p (am_new_limit_price c)" using proved_amendment [OF proved d price] .
  ultimately show ?thesis using b True limit f(6,12) by auto
next
  note f = apply_transition_fields [OF ap] and ev = order_event_fields(3,4) [OF e]
  case False
  have "be_decreased_quantity e \<noteq> None" using proved False
    by (auto simp: matches_authoritative_working_change_def err_simps split: option.splits)
  then obtain d where d: "be_decreased_quantity e = Some d" by blast
  from proved_decrease [OF proved d False] obtain c where c: "pb_command b = DecreaseOrderCommand c"
    "be_event_type e = QUANTITY_DECREASED" "dval nt = dval (dc_new_total_quantity c)"
    "dval (lo_total_quantity x) = dval (dc_expected_total_quantity c)" using nt d by auto
  then have "be_new_limit_price e = None" using ev by auto
  with limit f(12) have "lo_working_limit_price y = lo_working_limit_price x"
    by (auto split: option.splits)
  with b c f(3,6) show ?thesis by auto
qed

text \<open>C21: the total quantity changes only by a decrease the caller had bound, when the broker reports
  exactly it: from the expected total to the commanded one. The limit price changes only by the bound
  amendment, to the commanded price. Either closes the pending command.\<close>

theorem working_changes_are_bound:
  assumes "broker_order_event_init e = Inr e"
    and "reduce_broker_order_event h x e l = Inr res" and "y = rr_order res"
  shows "(lo_total_quantity y = lo_total_quantity x \<or>
      (\<exists>b c. lo_pending_command x = Some b \<and> pb_command b = DecreaseOrderCommand c
         \<and> dval (lo_total_quantity x) = dval (dc_expected_total_quantity c)
         \<and> dval (lo_total_quantity y) = dval (dc_new_total_quantity c)
         \<and> be_event_type e = QUANTITY_DECREASED \<and> lo_pending_command y = None))
    \<and> (lo_working_limit_price y = lo_working_limit_price x \<or>
      (\<exists>b c p. lo_pending_command x = Some b \<and> pb_command b = AmendOrderCommand c
         \<and> lo_working_limit_price y = Some p \<and> deq p (am_new_limit_price c)
         \<and> be_event_type e = PRICE_AMENDED \<and> lo_pending_command y = None))"
proof (cases "y = x")
  case False
  with reduce_order_event_Inr [OF assms(2)] assms(3) obtain st nt limit pending where
    tr: "broker_transition x e = Inr (Some (st, nt, limit, pending))"
    and ap: "apply_transition x e (st, nt, limit, pending) = Inr y" by auto
  note f = apply_transition_fields [OF ap]
  show ?thesis
  proof (cases "be_event_type e \<in> {PRICE_AMENDED, QUANTITY_DECREASED, PRICE_AND_QUANTITY_AMENDED}")
    case False
    with kept_transition [OF tr] f(3,12) show ?thesis by (auto split: option.splits)
  next
    case True
    from broker_transition_change [OF tr True] show ?thesis
      by (rule working_change_Inr) (rule bound_change [OF assms(1)], use ap in simp_all)
  qed
qed simp

lemma working_changes_are_bound_witness:
  "\<exists>res c. reduce_broker_order_event live_hashes (run_order (live_states ! 6)) live_decreased
      (run_ledger (live_states ! 6)) = Inr res
    \<and> dval (lo_total_quantity (rr_order res)) = dval (dc_new_total_quantity c)
    \<and> map_option pb_command (lo_pending_command (run_order (live_states ! 6))) = Some (DecreaseOrderCommand c)"
proof -
  from demo_order_event obtain res where res: "reduce_broker_order_event live_hashes (run_order (live_states ! 6))
      live_decreased (run_ledger (live_states ! 6)) = Inr res"
    "take_result (live_states ! 6) res = live_states ! 7" by blast
  have "lo_total_quantity (rr_order res) \<noteq> lo_total_quantity (run_order (live_states ! 6))"
    using arg_cong [OF res(2), of run_order] live_state_fields(2) [of 6] live_state_fields(2) [of 7]
    by (auto simp: take_result_def)
  moreover have "broker_order_event_init live_decreased = Inr live_decreased"
    using live_trace_nth [OF live_traced] by (auto simp: live_ops_def nth_Cons' dest!: spec [of _ 6])
  ultimately show ?thesis using working_changes_are_bound [OF _ res(1) refl] res(1) by auto
qed

section \<open>Every event gets an answer\<close>

text \<open>C36: on a run of whole lots the reducer of broker order events never raises: every event that its
  contract admits, with a whole decreased quantity if it has one, gets a result, and an event that is
  not confirmed for this order leaves the order as it is.\<close>

theorem broker_order_events_get_results:
  assumes "create_live_order i = Inr x" and "lots (li_quantity i)" and "(lot_step h)\<^sup>*\<^sup>* (start_run x) s"
    and "broker_order_event_init e = Inr e" and "pred_option lots (be_decreased_quantity e)"
  shows "\<exists>res. reduce_broker_order_event h (run_order s) e (run_ledger s) = Inr res
    \<and> (confirmed_for_order (run_order s) (be_correlation e) (be_account_id e) (be_instrument_id e)
        \<or> rr_order res = run_order s)"
  using order_event_returns [OF conserved_reached [OF assms(1-3)] assms(4,5)] reduce_order_event_Inr by blast

lemma demo_event_valid:
  "broker_order_event_init (live_event ''e9'' BROKER_CANCELLED 7 12) = Inr (live_event ''e9'' BROKER_CANCELLED 7 12)"
  by code_simp

lemma demo_whole_intent: "lots (li_quantity live_intent)"
  by (simp add: live_intent_def lots_def)

lemma broker_order_events_get_results_witness:
  "\<exists>res. reduce_broker_order_event live_hashes (run_order (live_states ! 5))
     (live_event ''e9'' BROKER_CANCELLED 7 12) (run_ledger (live_states ! 5)) = Inr res"
  using broker_order_events_get_results [OF live_created demo_whole_intent demo_lot_reached [of 5] demo_event_valid]
  by (auto simp: live_event_def)

text \<open>No order stays open for ever: from every reachable open state of a run of whole lots, a new
  confirmed cancellation of the broker is applied and closes the order with no command pending.\<close>

theorem confirmed_cancellation_closes:
  assumes "create_live_order i = Inr x" and "lots (li_quantity i)" and "(lot_step h)\<^sup>*\<^sup>* (start_run x) s"
    and "\<not> live_is_terminal (lo_state (run_order s))"
    and "broker_order_event_init e = Inr e" and "be_event_type e = BROKER_CANCELLED"
    and "ledger_find (run_ledger s) ''broker-event'' (be_event_id e) = None"
    and "confirmed_for_order (run_order s) (be_correlation e) (be_account_id e) (be_instrument_id e)"
  shows "\<exists>res. reduce_broker_order_event h (run_order s) e (run_ledger s) = Inr res
    \<and> rr_disposition res = APPLIED \<and> lo_state (rr_order res) = CANCELLED
    \<and> lo_pending_command (rr_order res) = None"
  by (rule cancellation_closes [OF conserved_reached [OF assms(1-3)] assms(5,6,4,7,8)])

lemma confirmed_cancellation_closes_witness:
  "\<exists>res. reduce_broker_order_event live_hashes live_first
     (live_event ''e9'' BROKER_CANCELLED 7 12) [] = Inr res \<and> lo_state (rr_order res) = CANCELLED"
proof -
  let ?e = "live_event ''e9'' BROKER_CANCELLED 7 12"
  have "\<not> live_is_terminal (lo_state (run_order (start_run live_first)))"
    "be_event_type ?e = BROKER_CANCELLED"
    "ledger_find (run_ledger (start_run live_first)) ''broker-event'' (be_event_id ?e) = None"
    "confirmed_for_order (run_order (start_run live_first)) (be_correlation ?e) (be_account_id ?e) (be_instrument_id ?e)"
    by (simp_all add: start_run_def live_first_def live_is_terminal_def live_event_def live_correlation_def
        live_intent_def confirmed_for_order_def ledger_find_def)
  from confirmed_cancellation_closes [OF live_created demo_whole_intent rtranclp.rtrancl_refl this(1)
      demo_event_valid this(2-4), where h = live_hashes]
  show ?thesis by (simp add: start_run_def) blast
qed

text \<open>A fill that is not confirmed for the order, is for the other side, comes after the order was
  filled or rejected, or is for more than what is left, changes neither order nor ledger and is flagged
  for reconciliation, unless its identifier is already known.\<close>

theorem misfit_fill_changes_nothing:
  assumes "ledger_find l ''broker-event'' (bf_event_id e) = None"
    and "\<not> confirmed_for_order x (bf_correlation e) (bf_account_id e) (bf_instrument_id e)
      \<or> bf_side e \<noteq> li_side (lo_intent x) \<or> lo_state x \<in> {REJECTED, FILLED}
      \<or> dval (lo_remaining_quantity x) < dval (bf_quantity e)"
  shows "reduce_broker_fill_event h x e l = Inr (reconcile x l) \<and> reconciliation_required (reconcile x l)"
  using assms
  by (auto simp: reduce_broker_fill_event_def Let_def deduplicate_simps dlt_val reconcile_def reduction_def
      reconciliation_required_def)

lemma misfit_fill_changes_nothing_witness:
  "reduce_broker_fill_event live_hashes live_first (live_fill_event ''f9'' 6 1 1) [] = Inr (reconcile live_first [])"
  using misfit_fill_changes_nothing [of "[]" "live_fill_event ''f9'' 6 1 1" live_first live_hashes]
  by (simp add: ledger_find_def live_first_def live_fill_event_def dval_def)


text \<open>
  What the model of live orders shows against the code: values of 29 to 34 digits pass the contracts,
  but the module computes and fingerprints them in the default context of 28 digits.
\<close>

section \<open>Fingerprints round\<close>

definition precise_fill :: "int \<Rightarrow> broker_fill_event" where
  "precise_fill price = (live_fill_event ''f1'' 1 1 1)\<lparr>bf_execution_price := Dec price 0\<rparr>"

lemma rounded_digits:
  "live_canonical_decimal (Dec 10000000000000000000000000001 0)
   = live_canonical_decimal (Dec 10000000000000000000000000002 0)"
  by code_simp

text \<open>Two valid fill events with one identifier and different prices have the same fingerprint, for
  every hash function, so the second is taken for an exact duplicate of the first instead of a conflict.\<close>

theorem fingerprint_ignores_digits:
  "broker_fill_event_init (precise_fill 10000000000000000000000000001)
     = Inr (precise_fill 10000000000000000000000000001)
   \<and> broker_fill_event_init (precise_fill 10000000000000000000000000002)
     = Inr (precise_fill 10000000000000000000000000002)
   \<and> fill_event_fingerprint h (precise_fill 10000000000000000000000000001)
     = fill_event_fingerprint h (precise_fill 10000000000000000000000000002)"
proof (intro conjI)
  show "broker_fill_event_init (precise_fill 10000000000000000000000000001)
     = Inr (precise_fill 10000000000000000000000000001)" by code_simp
  show "broker_fill_event_init (precise_fill 10000000000000000000000000002)
     = Inr (precise_fill 10000000000000000000000000002)" by code_simp
  show "fill_event_fingerprint h (precise_fill 10000000000000000000000000001)
     = fill_event_fingerprint h (precise_fill 10000000000000000000000000002)"
    by (simp add: fill_event_fingerprint_def precise_fill_def json_live_decimal_def rounded_digits
        live_fill_event_def)
qed

section \<open>Sums round\<close>

text \<open>A valid intent of 29 digits that no live order can be created for.\<close>

definition precise_intent :: live_order_intent where
  "precise_intent = live_intent\<lparr>li_quantity := Dec 10000000000000000000000000001 0\<rparr>"

lemma valid_intent_without_order:
  "live_order_intent_init precise_intent = Inr precise_intent
   \<and> create_live_order precise_intent
     = Inl (ValueError ''filled_quantity + remaining_quantity must equal total_quantity'')"
  by code_simp





end
