(* ===== verification/Captured_Events.thy ===== *)
theory Captured_Events
  imports Market_Models
begin

text \<open>
  The captured events of \<open>market_data/models.py\<close>: what the callbacks of the vendor delivered, before
  an ingest sequence is assigned. The checks that only reject values of another type are left out.
\<close>

datatype captured_kind =
    QUOTE_SNAPSHOT | TICK_NOTIFICATION | CONNECTION_NOTIFICATION | SERVER_TIME_NOTIFICATION
  | STOCK_LIST_NOTIFICATION | CAPTURED_DIAGNOSTIC

record sta_quote_notification =
  sn_market_no_raw :: int
  sn_stock_idx_raw :: int
  sn_is_long_callback :: bool
  sn_callback_sequence :: int
  sn_received_at :: instant

definition sta_quote_notification_init :: "sta_quote_notification \<Rightarrow> sta_quote_notification result" where
  "sta_quote_notification_init n =
     ethen (md_nonnegative ''market_no_raw'' (sn_market_no_raw n)) (
     ethen (md_nonnegative ''stock_idx_raw'' (sn_stock_idx_raw n)) (
     ethen (md_nonnegative ''callback_sequence'' (sn_callback_sequence n)) (Inr n)))"

record captured_quote =
  cq_market_no_raw :: int
  cq_stock_idx_raw :: int
  cq_bid_raw :: int
  cq_ask_raw :: int
  cq_last_raw :: int
  cq_bid_qty_raw :: "int option"
  cq_ask_qty_raw :: "int option"
  cq_last_qty_raw :: "int option"
  cq_is_long_callback :: bool
  cq_callback_sequence :: int
  cq_received_at :: instant

definition captured_quote_init :: "captured_quote \<Rightarrow> captured_quote result" where
  "captured_quote_init q =
     ethen (md_nonnegative ''market_no_raw'' (cq_market_no_raw q)) (
     ethen (md_nonnegative ''stock_idx_raw'' (cq_stock_idx_raw q)) (
     ethen (md_nonnegative ''callback_sequence'' (cq_callback_sequence q)) (
     ethen (optionally (md_nonnegative ''bid_qty_raw'') (cq_bid_qty_raw q)) (
     ethen (optionally (md_nonnegative ''ask_qty_raw'') (cq_ask_qty_raw q)) (
     ethen (optionally (md_nonnegative ''last_qty_raw'') (cq_last_qty_raw q)) (Inr q))))))"

record captured_tick =
  ct_market_no_raw :: int
  ct_stock_idx_raw :: int
  ct_source_pointer_raw :: int
  ct_date_raw :: int
  ct_time_hms_raw :: int
  ct_time_subsecond_raw :: int
  ct_bid_raw :: int
  ct_ask_raw :: int
  ct_close_raw :: int
  ct_quantity_raw :: int
  ct_simulate_raw :: int
  ct_is_long_callback :: bool
  ct_callback_sequence :: int
  ct_received_at :: instant

definition captured_tick_init :: "captured_tick \<Rightarrow> captured_tick result" where
  "captured_tick_init t =
     ethen (md_nonnegative ''market_no_raw'' (ct_market_no_raw t)) (
     ethen (md_nonnegative ''stock_idx_raw'' (ct_stock_idx_raw t)) (
     ethen (md_nonnegative ''source_pointer_raw'' (ct_source_pointer_raw t)) (
     ethen (md_nonnegative ''quantity_raw'' (ct_quantity_raw t)) (
     ethen (md_nonnegative ''date_raw'' (ct_date_raw t)) (
     ethen (md_nonnegative ''time_hms_raw'' (ct_time_hms_raw t)) (
     ethen (md_nonnegative ''time_subsecond_raw'' (ct_time_subsecond_raw t)) (
     ethen (md_nonnegative ''callback_sequence'' (ct_callback_sequence t)) (Inr t))))))))"

record captured_connection =
  cn_broker_kind_raw :: int
  cn_broker_code_raw :: int
  cn_callback_sequence :: int
  cn_received_at :: instant

definition captured_connection_init :: "captured_connection \<Rightarrow> captured_connection result" where
  "captured_connection_init c =
     ethen (md_nonnegative ''callback_sequence'' (cn_callback_sequence c)) (Inr c)"

record captured_server_time =
  cs_hour_raw :: int
  cs_minute_raw :: int
  cs_second_raw :: int
  cs_total_raw :: int
  cs_callback_sequence :: int
  cs_received_at :: instant

definition captured_server_time_init :: "captured_server_time \<Rightarrow> captured_server_time result" where
  "captured_server_time_init s =
     ethen (md_nonnegative ''total_raw'' (cs_total_raw s)) (
     ethen (require (0 \<le> cs_hour_raw s \<and> cs_hour_raw s \<le> 23)
              (ValueError ''hour_raw must be between 0 and 23'')) (
     ethen (require (0 \<le> cs_minute_raw s \<and> cs_minute_raw s \<le> 59
                     \<and> 0 \<le> cs_second_raw s \<and> cs_second_raw s \<le> 59)
              (ValueError ''minute_raw/second_raw must be between 0 and 59'')) (
     ethen (md_nonnegative ''callback_sequence'' (cs_callback_sequence s)) (Inr s))))"

datatype raw_list = RawText string | RawBytes string

record captured_stock_list =
  sl_market_no_raw :: int
  sl_stock_list_raw :: raw_list
  sl_callback_sequence :: int
  sl_received_at :: instant

definition captured_stock_list_init :: "captured_stock_list \<Rightarrow> captured_stock_list result" where
  "captured_stock_list_init s =
     ethen (md_nonnegative ''market_no_raw'' (sl_market_no_raw s)) (
     ethen (md_nonnegative ''callback_sequence'' (sl_callback_sequence s)) (Inr s))"

text \<open>A captured diagnostic has the fields and the checks of the domain diagnostic.\<close>

type_synonym captured_diagnostic = adapter_diagnostic

datatype captured_payload =
    QuoteCaptured captured_quote
  | TickCaptured captured_tick
  | ConnectionCaptured captured_connection
  | ServerTimeCaptured captured_server_time
  | StockListCaptured captured_stock_list
  | DiagnosticCaptured captured_diagnostic

fun payload_kind :: "captured_payload \<Rightarrow> captured_kind" where
  "payload_kind (QuoteCaptured _) = QUOTE_SNAPSHOT"
| "payload_kind (TickCaptured _) = TICK_NOTIFICATION"
| "payload_kind (ConnectionCaptured _) = CONNECTION_NOTIFICATION"
| "payload_kind (ServerTimeCaptured _) = SERVER_TIME_NOTIFICATION"
| "payload_kind (StockListCaptured _) = STOCK_LIST_NOTIFICATION"
| "payload_kind (DiagnosticCaptured _) = CAPTURED_DIAGNOSTIC"

fun payload_received_at :: "captured_payload \<Rightarrow> instant" where
  "payload_received_at (QuoteCaptured q) = cq_received_at q"
| "payload_received_at (TickCaptured t) = ct_received_at t"
| "payload_received_at (ConnectionCaptured c) = cn_received_at c"
| "payload_received_at (ServerTimeCaptured s) = cs_received_at s"
| "payload_received_at (StockListCaptured s) = sl_received_at s"
| "payload_received_at (DiagnosticCaptured d) = ad_received_at d"

fun payload_callback_sequence :: "captured_payload \<Rightarrow> int" where
  "payload_callback_sequence (QuoteCaptured q) = cq_callback_sequence q"
| "payload_callback_sequence (TickCaptured t) = ct_callback_sequence t"
| "payload_callback_sequence (ConnectionCaptured c) = cn_callback_sequence c"
| "payload_callback_sequence (ServerTimeCaptured s) = cs_callback_sequence s"
| "payload_callback_sequence (StockListCaptured s) = sl_callback_sequence s"
| "payload_callback_sequence (DiagnosticCaptured d) = ad_callback_sequence d"

record captured_event =
  ca_captured_kind :: captured_kind
  ca_payload :: captured_payload
  ca_raw_payload :: "raw_mapping option"
  ca_source :: string
  ca_source_mode :: source_mode
  ca_session_id :: uuid
  ca_connection_generation :: int
  ca_sequence :: int
  ca_broker_sequence :: "int option"
  ca_received_at :: instant
  ca_event_at :: "instant option"
  ca_trading_day :: "int option"
  ca_metadata_version :: "int option"
  ca_dedupe_candidate :: "string option"

definition captured_event_init :: "captured_event \<Rightarrow> captured_event result" where
  "captured_event_init c =
     ethen (require (ca_captured_kind c = payload_kind (ca_payload c))
              (ValueError ''captured_kind does not match payload'')) (
     ethen (md_strict_str ''source'' (ca_source c)) (
     ethen (require (ca_source_mode c \<noteq> REPLAY) (ValueError ''replay is not a Phase 1 capture source'')) (
     ethen (md_nonnegative ''connection_generation'' (ca_connection_generation c)) (
     ethen (md_nonnegative ''sequence'' (ca_sequence c)) (
     ethen (optionally (md_nonnegative ''broker_sequence'') (ca_broker_sequence c)) (
     ethen (optionally (md_positive ''metadata_version'') (ca_metadata_version c)) (
     ethen (optionally (md_strict_str ''dedupe_candidate'') (ca_dedupe_candidate c)) (
     ethen (require (payload_received_at (ca_payload c) = ca_received_at c)
              (ValueError ''payload received_at must match captured event'')) (
     ethen (require (payload_callback_sequence (ca_payload c) = ca_sequence c)
              (ValueError ''payload callback_sequence must match captured sequence'')) (
     ethen (require (case ca_payload c of
                       DiagnosticCaptured d \<Rightarrow> ad_connection_generation d = ca_connection_generation c
                     | _ \<Rightarrow> True)
              (ValueError ''diagnostic generation must match captured event''))
     (Inr c)))))))))))"

end
