(* ===== verification/Monitoring.thy ===== *)
theory Monitoring
  imports PyText
begin

text \<open>
  Operational state shared by the ingress, \<open>monitoring/health.py\<close> and \<open>monitoring/metrics.py\<close>: the
  health of the pipeline, the damage done to each recording session, the shutdown request, and the
  counters of the ingress lanes. Each method holds its object's lock for its whole body, so it is one
  atomic function of the state. A method that changes its object before it raises returns the changed
  state together with the exception: such a method is an action.
\<close>

section \<open>Actions\<close>

type_synonym ('s, 'a) action = "'s \<Rightarrow> 's \<times> 'a result"

definition areturn :: "'a \<Rightarrow> ('s, 'a) action" where
  "areturn x s = (s, Inr x)"

definition abind :: "('s, 'a) action \<Rightarrow> ('a \<Rightarrow> ('s, 'b) action) \<Rightarrow> ('s, 'b) action" where
  "abind m f s = (case m s of (t, Inl e) \<Rightarrow> (t, Inl e) | (t, Inr x) \<Rightarrow> f x t)"

abbreviation athen :: "('s, 'a) action \<Rightarrow> ('s, 'b) action \<Rightarrow> ('s, 'b) action" where
  "athen m k \<equiv> abind m (\<lambda>_. k)"

definition amodify :: "('s \<Rightarrow> 's) \<Rightarrow> ('s, unit) action" where
  "amodify f s = (f s, Inr ())"

text \<open>A step that raises before it changes anything.\<close>

definition apure :: "('s \<Rightarrow> 's result) \<Rightarrow> ('s, unit) action" where
  "apure f s = (case f s of Inl e \<Rightarrow> (s, Inl e) | Inr t \<Rightarrow> (t, Inr ()))"

fun is_runtime_error :: "pyexn \<Rightarrow> bool" where
  "is_runtime_error (RuntimeError _) = True"
| "is_runtime_error _ = False"

text \<open>\<open>try: m except RuntimeError: handler\<close>.\<close>

definition atry_runtime :: "('s, 'a) action \<Rightarrow> ('s, 'a) action \<Rightarrow> ('s, 'a) action" where
  "atry_runtime m handler s =
     (case m s of
        (t, Inl e) \<Rightarrow> if is_runtime_error e then handler t else (t, Inl e)
      | (t, Inr x) \<Rightarrow> (t, Inr x))"

lemma abind_simps:
  "m s = (t, Inr x) \<Longrightarrow> abind m f s = f x t" "m s = (t, Inl e) \<Longrightarrow> abind m f s = (t, Inl e)"
  by (simp_all add: abind_def)

lemma abind_eq:
  "abind m f s = (u, Inr y) \<longleftrightarrow> (\<exists>t x. m s = (t, Inr x) \<and> f x t = (u, Inr y))"
  by (auto simp: abind_def split: prod.splits sum.splits)

lemma areturn_apply [simp]: "areturn x s = (s, Inr x)"
  by (simp add: areturn_def)

lemma amodify_apply [simp]: "amodify f s = (f s, Inr ())"
  by (simp add: amodify_def)

section \<open>Health\<close>

definition reason_check :: "string \<Rightarrow> unit result" where
  "reason_check v = require (strip v \<noteq> []) (ValueError ''reason must be a non-empty string'')"

datatype health_state = HEALTHY | DEGRADED | HEALTH_FAILED

text \<open>\<open>_reason_set\<close> always holds the elements of \<open>_reasons\<close>, so the list stands for both.\<close>

record pipeline_health =
  ph_max_reasons :: nat
  ph_state :: health_state
  ph_reasons :: "string list"

definition omitted_reasons :: string where
  "omitted_reasons = ''additional_reasons_omitted''"

definition add_reason :: "nat \<Rightarrow> string \<Rightarrow> string list \<Rightarrow> string list" where
  "add_reason n reason rs =
     (if reason \<in> set rs then rs
      else if length rs < n then rs @ [reason]
      else if omitted_reasons \<notin> set rs then butlast rs @ [omitted_reasons]
      else rs)"

definition new_health :: "nat \<Rightarrow> pipeline_health result" where
  "new_health n =
     ethen (require (0 < n) (ValueError ''max_reasons must be a positive integer''))
       (Inr \<lparr>ph_max_reasons = n, ph_state = HEALTHY, ph_reasons = []\<rparr>)"

definition change_health :: "health_state \<Rightarrow> string \<Rightarrow> pipeline_health \<Rightarrow> pipeline_health result" where
  "change_health st reason p =
     ethen (reason_check reason)
       (Inr (p\<lparr>ph_state := (if st = HEALTH_FAILED \<or> ph_state p = HEALTHY then st else ph_state p),
               ph_reasons := add_reason (ph_max_reasons p) reason (ph_reasons p)\<rparr>))"

definition degrade :: "string \<Rightarrow> pipeline_health \<Rightarrow> pipeline_health result" where
  "degrade = change_health DEGRADED"

definition fail_health :: "string \<Rightarrow> pipeline_health \<Rightarrow> pipeline_health result" where
  "fail_health = change_health HEALTH_FAILED"

section \<open>Damage to recording sessions\<close>

record session_impact =
  im_reasons :: "string list"
  im_dropped_tick_count :: int
  im_first_dropped :: "int option"
  im_last_dropped :: "int option"

record impact_tracker =
  it_max_sessions :: nat
  it_max_reasons :: nat
  it_sessions :: "(uuid, session_impact) dict"
  it_capacity_exhausted :: bool

definition fresh_impact :: session_impact where
  "fresh_impact = \<lparr>im_reasons = [], im_dropped_tick_count = 0, im_first_dropped = None, im_last_dropped = None\<rparr>"

definition new_tracker :: "nat \<Rightarrow> nat \<Rightarrow> impact_tracker result" where
  "new_tracker sessions reasons =
     ethen (require (0 < sessions) (ValueError ''max_sessions must be a positive integer'')) (
     ethen (require (0 < reasons) (ValueError ''max_reasons must be a positive integer''))
       (Inr \<lparr>it_max_sessions = sessions, it_max_reasons = reasons, it_sessions = [],
             it_capacity_exhausted = False\<rparr>))"

definition get_or_create :: "uuid \<Rightarrow> (impact_tracker, session_impact) action" where
  "get_or_create sid t =
     (case dget (it_sessions t) sid of
        Some im \<Rightarrow> (t, Inr im)
      | None \<Rightarrow>
          if it_max_sessions t \<le> length (it_sessions t)
          then (t\<lparr>it_capacity_exhausted := True\<rparr>, Inl (RuntimeError ''session impact capacity exhausted''))
          else (t\<lparr>it_sessions := dset sid fresh_impact (it_sessions t)\<rparr>, Inr fresh_impact))"

definition mark_incomplete :: "uuid \<Rightarrow> string \<Rightarrow> (impact_tracker, unit) action" where
  "mark_incomplete sid reason =
     athen (apure (\<lambda>t. ethen (reason_check reason) (Inr t))) (
     abind (get_or_create sid) (\<lambda>im.
     amodify (\<lambda>t. t\<lparr>it_sessions := dset sid
       (im\<lparr>im_reasons := add_reason (it_max_reasons t) reason (im_reasons im)\<rparr>) (it_sessions t)\<rparr>)))"

definition record_dropped_tick :: "uuid \<Rightarrow> int \<Rightarrow> (impact_tracker, unit) action" where
  "record_dropped_tick sid sequence =
     athen (apure (\<lambda>t. ethen (require (0 \<le> sequence)
              (ValueError ''sequence must be a non-negative integer'')) (Inr t))) (
     abind (get_or_create sid) (\<lambda>im.
     amodify (\<lambda>t. t\<lparr>it_sessions := dset sid
       (im\<lparr>im_dropped_tick_count := im_dropped_tick_count im + 1,
           im_first_dropped := (case im_first_dropped im of None \<Rightarrow> Some sequence | Some n \<Rightarrow> Some n),
           im_last_dropped := Some sequence\<rparr>) (it_sessions t)\<rparr>)))"

definition effective_terminal_status :: "uuid \<Rightarrow> string \<Rightarrow> impact_tracker \<Rightarrow> string result" where
  "effective_terminal_status sid requested t =
     ethen (require (requested \<noteq> []) (ValueError ''requested must be a non-empty string''))
       (Inr (if it_capacity_exhausted t \<or> dget (it_sessions t) sid \<noteq> None then ''incomplete'' else requested))"

record impact_snapshot =
  is_session_id :: uuid
  is_incomplete :: bool
  is_reasons :: "string list"
  is_dropped_tick_count :: int
  is_first_dropped :: "int option"
  is_last_dropped :: "int option"

definition snapshot_impact :: "uuid \<Rightarrow> impact_tracker \<Rightarrow> impact_snapshot" where
  "snapshot_impact sid t =
     (case dget (it_sessions t) sid of
        None \<Rightarrow> \<lparr>is_session_id = sid, is_incomplete = it_capacity_exhausted t,
                 is_reasons = (if it_capacity_exhausted t then [''session_impact_capacity_exhausted''] else []),
                 is_dropped_tick_count = 0, is_first_dropped = None, is_last_dropped = None\<rparr>
      | Some im \<Rightarrow> \<lparr>is_session_id = sid, is_incomplete = True, is_reasons = im_reasons im,
                    is_dropped_tick_count = im_dropped_tick_count im,
                    is_first_dropped = im_first_dropped im, is_last_dropped = im_last_dropped im\<rparr>)"

definition clear_impact :: "uuid \<Rightarrow> impact_tracker \<Rightarrow> impact_tracker" where
  "clear_impact sid t = t\<lparr>it_sessions := AList.delete sid (it_sessions t)\<rparr>"

section \<open>Controlled shutdown\<close>

record controlled_shutdown =
  sd_reason :: "string option"
  sd_request_count :: int

definition new_shutdown :: controlled_shutdown where
  "new_shutdown = \<lparr>sd_reason = None, sd_request_count = 0\<rparr>"

text \<open>The result says whether this request was the first.\<close>

definition request_shutdown :: "string \<Rightarrow> (controlled_shutdown, bool) action" where
  "request_shutdown reason =
     athen (apure (\<lambda>t. ethen (reason_check reason) (Inr t)))
       (\<lambda>t. case sd_reason t of
          Some _ \<Rightarrow> (t, Inr False)
        | None \<Rightarrow> (t\<lparr>sd_reason := Some reason, sd_request_count := 1\<rparr>, Inr True))"

section \<open>Ingress counters\<close>

datatype ingress_lane = LANE_DIAGNOSTIC | LANE_CONTROL | LANE_QUOTE | LANE_TICK | LANE_STA_QUOTE

fun lane_value :: "ingress_lane \<Rightarrow> string" where
  "lane_value LANE_DIAGNOSTIC = ''diagnostic''"
| "lane_value LANE_CONTROL = ''control''"
| "lane_value LANE_QUOTE = ''quote''"
| "lane_value LANE_TICK = ''tick''"
| "lane_value LANE_STA_QUOTE = ''sta_quote''"

text \<open>The decision of an ingress, from \<open>market_data/ports.py\<close>.\<close>

datatype ingress_decision = ING_ACCEPTED | ING_COALESCED | ING_DROPPED | ING_DUPLICATE

record ingress_metrics =
  me_received :: "ingress_lane \<Rightarrow> int"
  me_accepted :: "ingress_lane \<Rightarrow> int"
  me_coalesced :: "ingress_lane \<Rightarrow> int"
  me_dropped :: "ingress_lane \<Rightarrow> int"
  me_duplicates :: "ingress_lane \<Rightarrow> int"
  me_depth :: "ingress_lane \<Rightarrow> int"
  me_capacity :: "ingress_lane \<Rightarrow> int"
  me_overflow :: "ingress_lane \<Rightarrow> int"
  me_first_dropped_tick :: "int option"
  me_last_dropped_tick :: "int option"
  me_shutdown_requests :: int
  me_processing_failures :: int
  me_storage_failures :: int

definition new_metrics :: ingress_metrics where
  "new_metrics = \<lparr>me_received = (\<lambda>_. 0), me_accepted = (\<lambda>_. 0), me_coalesced = (\<lambda>_. 0), me_dropped = (\<lambda>_. 0),
     me_duplicates = (\<lambda>_. 0), me_depth = (\<lambda>_. 0), me_capacity = (\<lambda>_. 0), me_overflow = (\<lambda>_. 0),
     me_first_dropped_tick = None, me_last_dropped_tick = None, me_shutdown_requests = 0,
     me_processing_failures = 0, me_storage_failures = 0\<rparr>"

definition set_lane_capacity :: "ingress_lane \<Rightarrow> int \<Rightarrow> ingress_metrics \<Rightarrow> ingress_metrics result" where
  "set_lane_capacity lane c m =
     ethen (require (0 < c) (ValueError ''capacity must be a positive integer'')) (
     ethen (require (me_capacity m lane \<in> {0, c}) (ValueError ''capacity was already set differently''))
       (Inr (m\<lparr>me_capacity := (me_capacity m)(lane := c)\<rparr>)))"

definition count_up :: "ingress_lane \<Rightarrow> (ingress_lane \<Rightarrow> int) \<Rightarrow> ingress_lane \<Rightarrow> int" where
  "count_up lane f = f(lane := f lane + 1)"

definition depth_fits :: "ingress_lane \<Rightarrow> int \<Rightarrow> ingress_metrics \<Rightarrow> unit result" where
  "depth_fits lane depth m =
     require (\<not> (me_capacity m lane \<noteq> 0 \<and> me_capacity m lane < depth)) (ValueError ''depth exceeds capacity'')"

definition count_decision :: "ingress_lane \<Rightarrow> ingress_decision \<Rightarrow> ingress_metrics \<Rightarrow> ingress_metrics" where
  "count_decision lane d m =
     (case d of
        ING_ACCEPTED \<Rightarrow> m\<lparr>me_accepted := count_up lane (me_accepted m)\<rparr>
      | ING_COALESCED \<Rightarrow> m\<lparr>me_coalesced := count_up lane (me_coalesced m)\<rparr>
      | ING_DROPPED \<Rightarrow> m\<lparr>me_dropped := count_up lane (me_dropped m)\<rparr>
      | ING_DUPLICATE \<Rightarrow> m\<lparr>me_duplicates := count_up lane (me_duplicates m)\<rparr>)"

definition record_result ::
  "ingress_lane \<Rightarrow> ingress_decision \<Rightarrow> int option \<Rightarrow> bool \<Rightarrow> int option \<Rightarrow> ingress_metrics
     \<Rightarrow> ingress_metrics result" where
  "record_result lane d sequence overflow depth m =
     (let dropped_tick = (lane = LANE_TICK \<and> d = ING_DROPPED) in
      ethen (require (dropped_tick \<longrightarrow> pred_option (\<lambda>n. 0 \<le> n) sequence \<and> sequence \<noteq> None)
               (ValueError ''dropped tick requires a non-negative sequence'')) (
      ethen (require (pred_option (\<lambda>n. 0 \<le> n) depth) (ValueError ''depth must be non-negative'')) (
      ethen (optionally (\<lambda>n. depth_fits lane n m) depth) (
      let m = count_decision lane d (m\<lparr>me_received := count_up lane (me_received m)\<rparr>);
          m = (if overflow then m\<lparr>me_overflow := count_up lane (me_overflow m)\<rparr> else m);
          m = (case depth of None \<Rightarrow> m | Some n \<Rightarrow> m\<lparr>me_depth := (me_depth m)(lane := n)\<rparr>)
      in Inr (if dropped_tick
              then m\<lparr>me_first_dropped_tick := (case me_first_dropped_tick m of None \<Rightarrow> sequence | Some n \<Rightarrow> Some n),
                     me_last_dropped_tick := sequence\<rparr>
              else m)))))"

definition update_depth :: "ingress_lane \<Rightarrow> int \<Rightarrow> ingress_metrics \<Rightarrow> ingress_metrics result" where
  "update_depth lane depth m =
     ethen (require (0 \<le> depth) (ValueError ''depth must be non-negative'')) (
     ethen (depth_fits lane depth m) (Inr (m\<lparr>me_depth := (me_depth m)(lane := depth)\<rparr>)))"

definition record_shutdown_request :: "ingress_metrics \<Rightarrow> ingress_metrics" where
  "record_shutdown_request m = m\<lparr>me_shutdown_requests := me_shutdown_requests m + 1\<rparr>"

definition record_processing_failure :: "ingress_metrics \<Rightarrow> ingress_metrics" where
  "record_processing_failure m = m\<lparr>me_processing_failures := me_processing_failures m + 1\<rparr>"

definition record_storage_failure :: "ingress_metrics \<Rightarrow> ingress_metrics" where
  "record_storage_failure m = m\<lparr>me_storage_failures := me_storage_failures m + 1\<rparr>"

end
