(* ===== verification/Ingress.thy ===== *)
theory Ingress
  imports Captured_Events Monitoring
begin

text \<open>
  The bounded ingress of \<open>market_data/ingress.py\<close>: four lanes between the callbacks of the vendor and
  the processing thread, with coalescing of quotes, a window of recent keys, priorities with a burst
  limit, and what an overflow does to health, session and shutdown. The lock makes the queue part of
  each method atomic; the monitors it shares with the rest of the pipeline are the second half of the
  state. An exception leaves the changes that were made before it.
\<close>

section \<open>State\<close>

type_synonym quote_key = "uuid \<times> int \<times> int \<times> int"
type_synonym dedupe_key = "uuid \<times> int \<times> string"

record monitors =
  mo_health :: pipeline_health
  mo_metrics :: ingress_metrics
  mo_impact :: impact_tracker
  mo_shutdown :: controlled_shutdown

record bounded_ingress =
  ig_capacities :: "ingress_lane \<Rightarrow> int"
  ig_dedupe_capacity :: int
  ig_diagnostic :: "captured_event list"
  ig_control :: "captured_event list"
  ig_quotes :: "(quote_key, captured_event) dict"
  ig_ticks :: "captured_event list"
  ig_recent :: "dedupe_key list"
  ig_market_turn :: ingress_lane
  ig_critical_turn :: ingress_lane
  ig_burst_limit :: int
  ig_burst :: int

type_synonym ingress = "bounded_ingress \<times> monitors"

text \<open>Actions on one half of the state.\<close>

definition on_queues :: "(bounded_ingress, 'a) action \<Rightarrow> (ingress, 'a) action" where
  "on_queues m s = (case m (fst s) of (q, r) \<Rightarrow> ((q, snd s), r))"

definition on_metrics :: "(ingress_metrics \<Rightarrow> ingress_metrics result) \<Rightarrow> (monitors, unit) action" where
  "on_metrics f mo =
     (case f (mo_metrics mo) of Inl e \<Rightarrow> (mo, Inl e) | Inr m \<Rightarrow> (mo\<lparr>mo_metrics := m\<rparr>, Inr ()))"

definition on_health :: "(pipeline_health \<Rightarrow> pipeline_health result) \<Rightarrow> (monitors, unit) action" where
  "on_health f mo =
     (case f (mo_health mo) of Inl e \<Rightarrow> (mo, Inl e) | Inr p \<Rightarrow> (mo\<lparr>mo_health := p\<rparr>, Inr ()))"

definition on_impact :: "(impact_tracker, 'a) action \<Rightarrow> (monitors, 'a) action" where
  "on_impact m mo = (case m (mo_impact mo) of (t, r) \<Rightarrow> (mo\<lparr>mo_impact := t\<rparr>, r))"

definition on_shutdown :: "(controlled_shutdown, 'a) action \<Rightarrow> (monitors, 'a) action" where
  "on_shutdown m mo = (case m (mo_shutdown mo) of (t, r) \<Rightarrow> (mo\<lparr>mo_shutdown := t\<rparr>, r))"

definition on_monitors :: "(monitors, 'a) action \<Rightarrow> ('q \<times> monitors, 'a) action" where
  "on_monitors m s = (case m (snd s) of (t, r) \<Rightarrow> ((fst s, t), r))"

definition positive_setting :: "string \<Rightarrow> int \<Rightarrow> unit result" where
  "positive_setting name v = require (0 < v) (ValueError (name @ '' must be a positive integer''))"

definition lane_capacities :: "int \<Rightarrow> int \<Rightarrow> int \<Rightarrow> int \<Rightarrow> ingress_lane \<Rightarrow> int" where
  "lane_capacities control diagnostic quote tick lane =
     (case lane of LANE_CONTROL \<Rightarrow> control | LANE_DIAGNOSTIC \<Rightarrow> diagnostic | LANE_QUOTE \<Rightarrow> quote
      | LANE_TICK \<Rightarrow> tick | LANE_STA_QUOTE \<Rightarrow> 0)"

definition new_ingress ::
  "int \<Rightarrow> int \<Rightarrow> int \<Rightarrow> int \<Rightarrow> int \<Rightarrow> int \<Rightarrow> monitors \<Rightarrow> ingress result" where
  "new_ingress control diagnostic quote tick dedupe burst mo =
     ethen (positive_setting ''control_capacity'' control) (
     ethen (positive_setting ''diagnostic_capacity'' diagnostic) (
     ethen (positive_setting ''quote_capacity'' quote) (
     ethen (positive_setting ''tick_capacity'' tick) (
     ethen (positive_setting ''dedupe_capacity'' dedupe) (
     ethen (positive_setting ''priority_burst_limit'' burst) (
     ebind (set_lane_capacity LANE_CONTROL control (mo_metrics mo)) (\<lambda>m.
     ebind (set_lane_capacity LANE_DIAGNOSTIC diagnostic m) (\<lambda>m.
     ebind (set_lane_capacity LANE_QUOTE quote m) (\<lambda>m.
     ebind (set_lane_capacity LANE_TICK tick m) (\<lambda>m.
     Inr (\<lparr>ig_capacities = lane_capacities control diagnostic quote tick, ig_dedupe_capacity = dedupe,
           ig_diagnostic = [], ig_control = [], ig_quotes = [], ig_ticks = [], ig_recent = [],
           ig_market_turn = LANE_QUOTE, ig_critical_turn = LANE_DIAGNOSTIC,
           ig_burst_limit = burst, ig_burst = 0\<rparr>, mo\<lparr>mo_metrics := m\<rparr>)))))))))))"

section \<open>Publishing\<close>

fun lane_of :: "captured_kind \<Rightarrow> ingress_lane" where
  "lane_of CAPTURED_DIAGNOSTIC = LANE_DIAGNOSTIC"
| "lane_of CONNECTION_NOTIFICATION = LANE_CONTROL"
| "lane_of SERVER_TIME_NOTIFICATION = LANE_CONTROL"
| "lane_of STOCK_LIST_NOTIFICATION = LANE_CONTROL"
| "lane_of QUOTE_SNAPSHOT = LANE_QUOTE"
| "lane_of TICK_NOTIFICATION = LANE_TICK"

definition dedupe_key_of :: "captured_event \<Rightarrow> dedupe_key option" where
  "dedupe_key_of e =
     map_option (\<lambda>c. (ca_session_id e, ca_connection_generation e, c)) (ca_dedupe_candidate e)"

text \<open>\<open>move_to_end\<close> and the trimming loop of the window of recent keys.\<close>

definition move_to_end :: "'k \<Rightarrow> 'k list \<Rightarrow> 'k list" where
  "move_to_end k ks = filter (\<lambda>x. x \<noteq> k) ks @ [k]"

function trim_front :: "int \<Rightarrow> 'k list \<Rightarrow> 'k list" where
  "trim_front n ks = (if n < int (length ks) \<and> ks \<noteq> [] then trim_front n (tl ks) else ks)"
  by pat_completeness auto
termination by (relation "measure (length \<circ> snd)") auto

declare trim_front.simps [simp del]

definition remember :: "dedupe_key \<Rightarrow> bounded_ingress \<Rightarrow> bounded_ingress" where
  "remember k q = q\<lparr>ig_recent := trim_front (ig_dedupe_capacity q) (move_to_end k (ig_recent q))\<rparr>"

definition lane_depth :: "ingress_lane \<Rightarrow> bounded_ingress \<Rightarrow> int" where
  "lane_depth lane q =
     (case lane of
        LANE_DIAGNOSTIC \<Rightarrow> int (length (ig_diagnostic q)) | LANE_CONTROL \<Rightarrow> int (length (ig_control q))
      | LANE_QUOTE \<Rightarrow> int (length (ig_quotes q)) | LANE_TICK \<Rightarrow> int (length (ig_ticks q))
      | LANE_STA_QUOTE \<Rightarrow> 0)"

definition publish_fifo ::
  "ingress_lane \<Rightarrow> captured_event \<Rightarrow> bounded_ingress \<Rightarrow> bounded_ingress \<times> ingress_decision" where
  "publish_fifo lane e q =
     (if ig_capacities q lane \<le> lane_depth lane q then (q, ING_DROPPED)
      else (case lane of
              LANE_DIAGNOSTIC \<Rightarrow> (q\<lparr>ig_diagnostic := ig_diagnostic q @ [e]\<rparr>, ING_ACCEPTED)
            | LANE_CONTROL \<Rightarrow> (q\<lparr>ig_control := ig_control q @ [e]\<rparr>, ING_ACCEPTED)
            | _ \<Rightarrow> (q\<lparr>ig_ticks := ig_ticks q @ [e]\<rparr>, ING_ACCEPTED)))"

definition publish_quote ::
  "captured_event \<Rightarrow> captured_quote \<Rightarrow> bounded_ingress \<Rightarrow> bounded_ingress \<times> ingress_decision" where
  "publish_quote e p q =
     (let key = (ca_session_id e, ca_connection_generation e, cq_market_no_raw p, cq_stock_idx_raw p)
      in case dget (ig_quotes q) key of
           Some pending \<Rightarrow>
             if ca_sequence e \<le> ca_sequence pending then (q, ING_DUPLICATE)
             else (q\<lparr>ig_quotes := dset key e (ig_quotes q)\<rparr>, ING_COALESCED)
         | None \<Rightarrow>
             if ig_capacities q LANE_QUOTE \<le> int (length (ig_quotes q)) then (q, ING_DROPPED)
             else (q\<lparr>ig_quotes := dset key e (ig_quotes q)\<rparr>, ING_ACCEPTED))"

text \<open>The part of \<open>try_publish\<close> under the lock, without the counters.\<close>

definition offer :: "captured_event \<Rightarrow> (bounded_ingress, ingress_decision) action" where
  "offer e q =
     (let lane = lane_of (ca_captured_kind e) in
      if lane = LANE_QUOTE
      then (case ca_payload e of
              QuoteCaptured p \<Rightarrow> (let (q', d) = publish_quote e p q in (q', Inr d))
            | _ \<Rightarrow> (q, Inl AssertionError))
      else (let (q', d) = publish_fifo lane e q in (q', Inr d)))"

definition enqueue :: "captured_event \<Rightarrow> (bounded_ingress, ingress_decision) action" where
  "enqueue e q =
     (case dedupe_key_of e of
        None \<Rightarrow> offer e q
      | Some k \<Rightarrow>
          if k \<in> set (ig_recent q) then (q\<lparr>ig_recent := move_to_end k (ig_recent q)\<rparr>, Inr ING_DUPLICATE)
          else abind (offer e) (\<lambda>d q'.
                 (if d \<in> {ING_ACCEPTED, ING_COALESCED} then remember k q' else q', Inr d)) q)"

section \<open>Overflow\<close>

definition request_controlled_shutdown :: "string \<Rightarrow> (monitors, unit) action" where
  "request_controlled_shutdown reason =
     abind (on_shutdown (request_shutdown reason)) (\<lambda>first.
     if first then on_metrics (\<lambda>m. Inr (record_shutdown_request m)) else areturn ())"

definition impact_capacity_failed :: "(monitors, unit) action" where
  "impact_capacity_failed =
     athen (on_health (fail_health ''session_impact_capacity_exhausted''))
       (request_controlled_shutdown ''session_impact_capacity_exhausted'')"

definition mark_session :: "uuid \<Rightarrow> string \<Rightarrow> (monitors, unit) action" where
  "mark_session sid reason =
     atry_runtime (on_impact (mark_incomplete sid reason)) impact_capacity_failed"

definition handle_overflow :: "ingress_lane \<Rightarrow> captured_event \<Rightarrow> (monitors, unit) action" where
  "handle_overflow lane e =
     (let reason = lane_value lane @ ''_ingress_overflow'';
          critical = (lane \<in> {LANE_DIAGNOSTIC, LANE_CONTROL})
      in
      athen (on_health (if critical then fail_health reason else degrade reason)) (
      athen (mark_session (ca_session_id e) reason) (
      athen (if lane = LANE_TICK
             then atry_runtime (on_impact (record_dropped_tick (ca_session_id e) (ca_sequence e)))
                    impact_capacity_failed
             else areturn ())
        (if critical then request_controlled_shutdown reason else areturn ()))))"

definition try_publish :: "captured_event \<Rightarrow> (ingress, ingress_decision) action" where
  "try_publish e =
     (let lane = lane_of (ca_captured_kind e) in
      abind (on_queues (enqueue e)) (\<lambda>d.
      abind (\<lambda>s. on_monitors (on_metrics (record_result lane d
               (if lane = LANE_TICK then Some (ca_sequence e) else None) (d = ING_DROPPED)
               (Some (lane_depth lane (fst s))))) s) (\<lambda>_.
      athen (if d = ING_DROPPED then on_monitors (handle_overflow lane e) else areturn ())
        (areturn d))))"

section \<open>Popping\<close>

definition pop_critical :: "bounded_ingress \<Rightarrow> bounded_ingress \<times> ingress_lane \<times> captured_event" where
  "pop_critical q =
     (let both = (ig_diagnostic q \<noteq> [] \<and> ig_control q \<noteq> []);
          lane = (if both then ig_critical_turn q
                  else if ig_diagnostic q \<noteq> [] then LANE_DIAGNOSTIC else LANE_CONTROL);
          q' = (if both
                then q\<lparr>ig_critical_turn := (if lane = LANE_DIAGNOSTIC then LANE_CONTROL else LANE_DIAGNOSTIC)\<rparr>
                else q)
      in if lane = LANE_DIAGNOSTIC
         then (q'\<lparr>ig_diagnostic := tl (ig_diagnostic q)\<rparr>, lane, hd (ig_diagnostic q))
         else (q'\<lparr>ig_control := tl (ig_control q)\<rparr>, lane, hd (ig_control q)))"

definition pop_market :: "bounded_ingress \<Rightarrow> bounded_ingress \<times> ingress_lane \<times> captured_event" where
  "pop_market q =
     (let both = (ig_quotes q \<noteq> [] \<and> ig_ticks q \<noteq> []);
          lane = (if both then ig_market_turn q
                  else if ig_quotes q \<noteq> [] then LANE_QUOTE else LANE_TICK);
          q' = (if both
                then q\<lparr>ig_market_turn := (if lane = LANE_QUOTE then LANE_TICK else LANE_QUOTE)\<rparr>
                else q)
      in if lane = LANE_QUOTE
         then (q'\<lparr>ig_quotes := tl (ig_quotes q)\<rparr>, lane, snd (hd (ig_quotes q)))
         else (q'\<lparr>ig_ticks := tl (ig_ticks q)\<rparr>, lane, hd (ig_ticks q)))"

definition critical_waiting :: "bounded_ingress \<Rightarrow> bool" where
  "critical_waiting q \<longleftrightarrow> ig_diagnostic q \<noteq> [] \<or> ig_control q \<noteq> []"

definition market_waiting :: "bounded_ingress \<Rightarrow> bool" where
  "market_waiting q \<longleftrightarrow> ig_quotes q \<noteq> [] \<or> ig_ticks q \<noteq> []"

definition dequeue :: "bounded_ingress \<Rightarrow> (bounded_ingress \<times> ingress_lane \<times> captured_event) option" where
  "dequeue q =
     (if critical_waiting q \<and> (\<not> market_waiting q \<or> ig_burst q < ig_burst_limit q)
      then (let (q', lane, e) = pop_critical q
            in Some (q'\<lparr>ig_burst := min (ig_burst q + 1) (ig_burst_limit q)\<rparr>, lane, e))
      else if market_waiting q
      then (let (q', lane, e) = pop_market q in Some (q'\<lparr>ig_burst := 0\<rparr>, lane, e))
      else None)"

definition try_pop :: "(ingress, captured_event option) action" where
  "try_pop s =
     (case dequeue (fst s) of
        None \<Rightarrow> (s, Inr None)
      | Some (q, lane, e) \<Rightarrow>
          athen (on_monitors (on_metrics (update_depth lane (lane_depth lane q)))) (areturn (Some e)) (q, snd s))"

end
