(* ===== verification/Ingress_Processor.thy ===== *)
theory Ingress_Processor
  imports Ingress
begin

text \<open>
  What runs behind the ingress: the ingest sequencer of \<open>market_data/sequencer.py\<close>, the pipeline of
  \<open>market_data/pipeline.py\<close>, the processor that drains the ingress, the queue of the vendor's apartment
  thread and the bridge of storage failures, of \<open>market_data/ingress.py\<close>. Mapper, sink and observer are
  injected objects: parameters of the definitions that call them.
\<close>

section \<open>Sequencer\<close>

definition max_ingest_sequence :: int where
  "max_ingest_sequence = 2 ^ 63 - 1"

type_synonym sequencer = "(uuid, int) dict"

definition next_sequence :: "uuid \<Rightarrow> (sequencer, int) action" where
  "next_sequence sid s =
     (let previous = (case dget s sid of None \<Rightarrow> -1 | Some n \<Rightarrow> n) in
      if max_ingest_sequence \<le> previous
      then (s, Inl (OverflowError ''ingest_sequence exceeds signed 64-bit range''))
      else (dset sid (previous + 1) s, Inr (previous + 1)))"

definition peek_last :: "uuid \<Rightarrow> sequencer \<Rightarrow> int option" where
  "peek_last sid s = dget s sid"

section \<open>Pipeline\<close>

record 'k pipeline_ports =
  pp_validate :: "captured_event \<Rightarrow> unit result"
  pp_build_envelope :: "captured_event \<Rightarrow> int \<Rightarrow> envelope result"
  pp_publish :: "envelope \<Rightarrow> ('k, unit) action"

definition keeps :: "string \<Rightarrow> bool \<Rightarrow> unit result" where
  "keeps name same = require same (ValueError (''mapper changed '' @ name))"

definition check_envelope :: "captured_event \<Rightarrow> int \<Rightarrow> envelope \<Rightarrow> unit result" where
  "check_envelope e n v =
     ethen (keeps ''ingest_sequence'' (en_ingest_sequence v = n)) (
     ethen (keeps ''source'' (en_source v = ca_source e)) (
     ethen (keeps ''source_mode'' (en_source_mode v = ca_source_mode e)) (
     ethen (keeps ''session_id'' (en_session_id v = ca_session_id e)) (
     ethen (keeps ''connection_generation'' (en_connection_generation v = ca_connection_generation e)) (
     ethen (keeps ''sequence'' (en_sequence v = ca_sequence e)) (
     ethen (keeps ''broker_sequence'' (en_broker_sequence v = ca_broker_sequence e)) (
     ethen (keeps ''received_at'' (en_received_at v = ca_received_at e)) (
     ethen (keeps ''event_at'' (en_event_at v = ca_event_at e)) (
     ethen (keeps ''trading_day'' (en_trading_day v = ca_trading_day e)) (
     ethen (keeps ''metadata_version'' (en_metadata_version v = ca_metadata_version e))
     (keeps ''raw_payload'' (en_raw_payload v = ca_raw_payload e))))))))))))"

type_synonym 'k pipeline = "sequencer \<times> 'k"

definition on_sink :: "('k, 'a) action \<Rightarrow> ('k pipeline, 'a) action" where
  "on_sink m s = (case m (snd s) of (t, r) \<Rightarrow> ((fst s, t), r))"

definition on_sequencer :: "(sequencer, 'a) action \<Rightarrow> ('k pipeline, 'a) action" where
  "on_sequencer m s = (case m (fst s) of (t, r) \<Rightarrow> ((t, snd s), r))"

definition alift :: "'a result \<Rightarrow> ('s, 'a) action" where
  "alift r s = (s, r)"

definition pipeline_accept :: "'k pipeline_ports \<Rightarrow> captured_event \<Rightarrow> ('k pipeline, envelope) action" where
  "pipeline_accept p e =
     athen (alift (pp_validate p e)) (
     abind (on_sequencer (next_sequence (ca_session_id e))) (\<lambda>n.
     abind (alift (pp_build_envelope p e n)) (\<lambda>v.
     athen (alift (check_envelope e n v)) (
     athen (on_sink (pp_publish p v)) (areturn v)))))"

section \<open>Processor\<close>

record ingress_processor =
  pr_halted :: bool
  pr_failed_event :: "captured_event option"

definition new_processor :: ingress_processor where
  "new_processor = \<lparr>pr_halted = False, pr_failed_event = None\<rparr>"

record 'k processing =
  ps_ingress :: ingress
  ps_pipeline :: "'k pipeline"
  ps_processor :: ingress_processor

definition on_ingress :: "(ingress, 'a) action \<Rightarrow> ('k processing, 'a) action" where
  "on_ingress m s = (case m (ps_ingress s) of (t, r) \<Rightarrow> (s\<lparr>ps_ingress := t\<rparr>, r))"

text \<open>What the processor and the storage bridge report: a counter, the health, the damaged session, the shutdown.\<close>

definition report_failure ::
  "(ingress_metrics \<Rightarrow> ingress_metrics) \<Rightarrow> (pipeline_health \<Rightarrow> pipeline_health result) \<Rightarrow> uuid \<Rightarrow> string
     \<Rightarrow> (monitors, unit) action" where
  "report_failure count health sid reason =
     athen (on_metrics (\<lambda>m. Inr (count m))) (
     athen (on_health health) (
     athen (atry_runtime (on_impact (mark_incomplete sid reason))
              (on_health (fail_health ''session_impact_capacity_exhausted'')))
       (request_controlled_shutdown reason)))"

definition halt_on :: "captured_event \<Rightarrow> 'k processing \<Rightarrow> 'k processing" where
  "halt_on e s = s\<lparr>ps_processor := \<lparr>pr_halted = True, pr_failed_event = Some e\<rparr>\<rparr>"

definition observer_failed :: pyexn where
  "observer_failed = RuntimeError ''accepted event observer failed''"

definition process_event ::
  "'k pipeline_ports \<Rightarrow> (captured_event \<Rightarrow> unit result) option \<Rightarrow> captured_event
     \<Rightarrow> ('k processing, bool) action" where
  "process_event p observer e s =
     (case pipeline_accept p e (ps_pipeline s) of
        (pl, Inl x) \<Rightarrow>
          let reason = ''ingress_processing_failure'' in
          athen (amodify (halt_on e)) (
          athen (on_ingress (on_monitors (report_failure record_processing_failure (fail_health reason)
                   (ca_session_id e) reason)))
            (alift (Inl x))) (s\<lparr>ps_pipeline := pl\<rparr>)
      | (pl, Inr _) \<Rightarrow>
          (case (case observer of None \<Rightarrow> Inr () | Some f \<Rightarrow> f e) of
             Inl _ \<Rightarrow>
               let reason = ''accepted_event_observer_failure'' in
               athen (amodify (halt_on e)) (
               athen (on_ingress (on_monitors (report_failure record_processing_failure (degrade reason)
                        (ca_session_id e) reason)))
                 (alift (Inl observer_failed))) (s\<lparr>ps_pipeline := pl\<rparr>)
           | Inr _ \<Rightarrow> (s\<lparr>ps_pipeline := pl\<rparr>, Inr True)))"

definition process_one ::
  "'k pipeline_ports \<Rightarrow> (captured_event \<Rightarrow> unit result) option \<Rightarrow> ('k processing, bool) action" where
  "process_one p observer s =
     (if pr_halted (ps_processor s) then (s, Inl (RuntimeError ''ingress processor is halted''))
      else abind (on_ingress try_pop) (\<lambda>popped.
             case popped of None \<Rightarrow> areturn False | Some e \<Rightarrow> process_event p observer e) s)"

text \<open>The loop of \<open>drain\<close>; the first argument is how many events it may still process.\<close>

fun drain_loop ::
  "nat \<Rightarrow> 'k pipeline_ports \<Rightarrow> (captured_event \<Rightarrow> unit result) option \<Rightarrow> ('k processing, int) action" where
  "drain_loop 0 p observer = areturn 0"
| "drain_loop (Suc n) p observer =
     abind (process_one p observer) (\<lambda>more.
     if more then abind (drain_loop n p observer) (\<lambda>k. areturn (k + 1)) else areturn 0)"

definition drain ::
  "int \<Rightarrow> 'k pipeline_ports \<Rightarrow> (captured_event \<Rightarrow> unit result) option \<Rightarrow> ('k processing, int) action" where
  "drain max_events p observer =
     athen (alift (positive_setting ''max_events'' max_events)) (drain_loop (nat max_events) p observer)"

definition notify_storage_failure :: "uuid \<Rightarrow> (monitors, unit) action" where
  "notify_storage_failure sid =
     report_failure record_storage_failure (fail_health ''background_storage_failure'') sid
       ''background_storage_failure''"

section \<open>The queue of the apartment thread\<close>

record sta_queue =
  sq_capacity :: int
  sq_session_id :: uuid
  sq_queue :: "sta_quote_notification list"
  sq_overflow :: "sta_quote_notification option"

datatype sta_decision = STA_ACCEPTED | STA_OVERFLOW

type_synonym sta = "sta_queue \<times> monitors"

definition new_sta_queue :: "int \<Rightarrow> uuid \<Rightarrow> monitors \<Rightarrow> sta result" where
  "new_sta_queue capacity sid mo =
     ethen (positive_setting ''capacity'' capacity) (
     ebind (set_lane_capacity LANE_STA_QUOTE (capacity + 1) (mo_metrics mo)) (\<lambda>m.
     Inr (\<lparr>sq_capacity = capacity, sq_session_id = sid, sq_queue = [], sq_overflow = None\<rparr>,
          mo\<lparr>mo_metrics := m\<rparr>)))"

definition sta_depth :: "sta_queue \<Rightarrow> int" where
  "sta_depth q = int (length (sq_queue q)) + (if sq_overflow q = None then 0 else 1)"

definition fail_and_shutdown :: "string \<Rightarrow> (monitors, unit) action" where
  "fail_and_shutdown reason = athen (on_health (fail_health reason)) (request_controlled_shutdown reason)"

definition sta_enqueue :: "sta_quote_notification \<Rightarrow> sta_queue \<Rightarrow> sta_queue \<times> bool \<times> bool" where
  "sta_enqueue n q =
     (if int (length (sq_queue q)) < sq_capacity q then (q\<lparr>sq_queue := sq_queue q @ [n]\<rparr>, True, False)
      else if sq_overflow q \<noteq> None then (q, False, True)
      else (q\<lparr>sq_overflow := Some n\<rparr>, False, False))"

definition sta_overflowed :: "uuid \<Rightarrow> bool \<Rightarrow> (monitors, unit) action" where
  "sta_overflowed sid fatal =
     (let reason = ''sta_quote_ingress_overflow'' in
      athen (on_health (degrade reason)) (
      athen (atry_runtime (on_impact (mark_incomplete sid reason))
               (fail_and_shutdown ''session_impact_capacity_exhausted''))
        (if fatal then fail_and_shutdown ''sta_quote_overflow_slot_exhausted'' else areturn ())))"

definition sta_try_publish :: "sta_quote_notification \<Rightarrow> (sta, sta_decision) action" where
  "sta_try_publish n s =
     (let (q, accepted, fatal) = sta_enqueue n (fst s) in
      athen (on_monitors (on_metrics (record_result LANE_STA_QUOTE
               (if accepted then ING_ACCEPTED else ING_DROPPED) None (\<not> accepted) (Some (sta_depth q)))))
        (if accepted then areturn STA_ACCEPTED
         else athen (on_monitors (sta_overflowed (sq_session_id q) fatal)) (areturn STA_OVERFLOW)) (q, snd s))"

definition sta_try_pop :: "(sta, sta_quote_notification option) action" where
  "sta_try_pop s =
     (case sq_queue (fst s) of
        [] \<Rightarrow> (s, Inr None)
      | n # rest \<Rightarrow>
          let q = (fst s)\<lparr>sq_queue := rest\<rparr> in
          athen (on_monitors (on_metrics (update_depth LANE_STA_QUOTE (sta_depth q)))) (areturn (Some n)) (q, snd s))"

definition sta_try_pop_overflow :: "(sta, sta_quote_notification option) action" where
  "sta_try_pop_overflow s =
     (let q = (fst s)\<lparr>sq_overflow := None\<rparr> in
      case sq_overflow (fst s) of
        None \<Rightarrow> ((q, snd s), Inr None)
      | Some n \<Rightarrow>
          athen (on_monitors (on_metrics (update_depth LANE_STA_QUOTE (int (length (sq_queue q))))))
            (areturn (Some n)) (q, snd s))"

end
