(* ===== verification/Ingress_Overflow.thy ===== *)
theory Ingress_Overflow
  imports Ingress_Processor
begin

text \<open>
  What the monitors promise whoever reports to them: no report raises, health never improves, damaged
  sessions stay damaged until they are cleared, the first shutdown reason stays. Whatever was reported
  holds from then on, so reports compose.
\<close>

fun severity :: "health_state \<Rightarrow> nat" where
  "severity HEALTHY = 0"
| "severity DEGRADED = 1"
| "severity HEALTH_FAILED = 2"

definition session_damaged :: "uuid \<Rightarrow> monitors \<Rightarrow> bool" where
  "session_damaged sid mo \<longleftrightarrow> it_capacity_exhausted (mo_impact mo) \<or> dget (it_sessions (mo_impact mo)) sid \<noteq> None"

text \<open>The counters of the lanes, not those of shutdown requests and failures.\<close>

definition same_counters :: "ingress_metrics \<Rightarrow> ingress_metrics \<Rightarrow> bool" where
  "same_counters a b \<longleftrightarrow> b = a\<lparr>me_shutdown_requests := me_shutdown_requests b,
     me_processing_failures := me_processing_failures b, me_storage_failures := me_storage_failures b\<rparr>"

definition monitors_grow :: "monitors \<Rightarrow> monitors \<Rightarrow> bool" where
  "monitors_grow a b \<longleftrightarrow>
     same_counters (mo_metrics a) (mo_metrics b)
     \<and> severity (ph_state (mo_health a)) \<le> severity (ph_state (mo_health b))
     \<and> (\<forall>sid. session_damaged sid a \<longrightarrow> session_damaged sid b)
     \<and> (\<forall>r. sd_reason (mo_shutdown a) = Some r \<longrightarrow> sd_reason (mo_shutdown b) = Some r)"

lemma monitors_grow_refl: "monitors_grow a a"
  by (simp add: monitors_grow_def same_counters_def)

lemma same_counters_trans: "same_counters a b \<Longrightarrow> same_counters b c \<Longrightarrow> same_counters a c"
  unfolding same_counters_def by (cases a; cases b; cases c) auto

lemma monitors_grow_trans: "monitors_grow a b \<Longrightarrow> monitors_grow b c \<Longrightarrow> monitors_grow a c"
  unfolding monitors_grow_def using same_counters_trans by (meson order_trans)

text \<open>An action that never raises, only grows the monitors, and establishes a lasting fact.\<close>

definition reports :: "(monitors, 'a) action \<Rightarrow> (monitors \<Rightarrow> bool) \<Rightarrow> bool" where
  "reports m Q \<longleftrightarrow> (\<forall>a. \<exists>b x. m a = (b, Inr x) \<and> monitors_grow a b \<and> Q b)"

definition lasting :: "(monitors \<Rightarrow> bool) \<Rightarrow> bool" where
  "lasting Q \<longleftrightarrow> (\<forall>a b. Q a \<longrightarrow> monitors_grow a b \<longrightarrow> Q b)"

named_theorems report_rules \<open>reports that compose\<close>

lemma reports_then:
  assumes "reports m Q" and "reports k R" and "lasting Q"
  shows "reports (athen m k) (\<lambda>s. Q s \<and> R s)"
  unfolding reports_def
proof
  fix a
  obtain b x where b: "m a = (b, Inr x)" "monitors_grow a b" "Q b" using assms(1) unfolding reports_def by blast
  obtain c y where c: "k b = (c, Inr y)" "monitors_grow b c" "R c" using assms(2) unfolding reports_def by blast
  have "Q c" using assms(3) b(3) c(2) by (auto simp: lasting_def)
  with b c show "\<exists>c y. athen m k a = (c, Inr y) \<and> monitors_grow a c \<and> Q c \<and> R c"
    using monitors_grow_trans by (auto simp: abind_simps)
qed

lemma reports_skip: "reports (areturn x) (\<lambda>_. True)"
  by (simp add: reports_def monitors_grow_refl)

lemma reports_weaken: "reports m Q \<Longrightarrow> (\<And>s. Q s \<Longrightarrow> R s) \<Longrightarrow> reports m R"
  unfolding reports_def by blast

lemma reports_if: "(b \<Longrightarrow> reports m Q) \<Longrightarrow> (\<not> b \<Longrightarrow> reports k R) \<Longrightarrow> reports (if b then m else k) (if b then Q else R)"
  by simp

section \<open>The facts reported\<close>

definition health_at_least :: "nat \<Rightarrow> monitors \<Rightarrow> bool" where
  "health_at_least n mo \<longleftrightarrow> n \<le> severity (ph_state (mo_health mo))"

definition shutdown_requested :: "monitors \<Rightarrow> bool" where
  "shutdown_requested mo \<longleftrightarrow> sd_reason (mo_shutdown mo) \<noteq> None"

lemma lasting_facts:
  "lasting (\<lambda>_. True)" "lasting (health_at_least n)" "lasting shutdown_requested" "lasting (session_damaged sid)"
  "lasting Q \<Longrightarrow> lasting R \<Longrightarrow> lasting (\<lambda>s. Q s \<and> R s)"
  by (auto simp: lasting_def health_at_least_def shutdown_requested_def monitors_grow_def)

lemma reports_fail [report_rules]:
  "strip reason \<noteq> [] \<Longrightarrow> reports (on_health (fail_health reason)) (health_at_least 2)"
proof -
  assume r: "strip reason \<noteq> []"
  have "\<exists>b x. on_health (fail_health reason) a = (b, Inr x) \<and> monitors_grow a b \<and> health_at_least 2 b" for a
    using r by (cases "ph_state (mo_health a)")
      (auto simp: on_health_def fail_health_def change_health_def reason_check_def monitors_grow_def
        same_counters_def session_damaged_def health_at_least_def)
  then show ?thesis by (simp add: reports_def)
qed

lemma reports_degrade [report_rules]:
  "strip reason \<noteq> [] \<Longrightarrow> reports (on_health (degrade reason)) (health_at_least 1)"
proof -
  assume r: "strip reason \<noteq> []"
  have "\<exists>b x. on_health (degrade reason) a = (b, Inr x) \<and> monitors_grow a b \<and> health_at_least 1 b" for a
    using r by (cases "ph_state (mo_health a)")
      (auto simp: on_health_def degrade_def change_health_def reason_check_def monitors_grow_def
        same_counters_def session_damaged_def health_at_least_def)
  then show ?thesis by (simp add: reports_def)
qed

lemma reports_shutdown [report_rules]:
  "strip reason \<noteq> [] \<Longrightarrow> reports (request_controlled_shutdown reason) shutdown_requested"
proof -
  assume r: "strip reason \<noteq> []"
  have "\<exists>b x. request_controlled_shutdown reason a = (b, Inr x) \<and> monitors_grow a b \<and> shutdown_requested b" for a
    using r by (cases "sd_reason (mo_shutdown a)")
      (auto simp: request_controlled_shutdown_def on_shutdown_def request_shutdown_def apure_def reason_check_def
        abind_def on_metrics_def record_shutdown_request_def monitors_grow_def same_counters_def
        session_damaged_def shutdown_requested_def)
  then show ?thesis by (simp add: reports_def)
qed

section \<open>Damaged sessions\<close>

definition tracker_grows :: "impact_tracker \<Rightarrow> impact_tracker \<Rightarrow> bool" where
  "tracker_grows t u \<longleftrightarrow>
     (it_capacity_exhausted t \<longrightarrow> it_capacity_exhausted u)
     \<and> (\<forall>sid. dget (it_sessions t) sid \<noteq> None \<longrightarrow> dget (it_sessions u) sid \<noteq> None)"

text \<open>An update of the tracker either notes the session or runs out of room for it.\<close>

definition notes_session :: "uuid \<Rightarrow> (impact_tracker, unit) action \<Rightarrow> bool" where
  "notes_session sid m \<longleftrightarrow>
     (\<forall>t. \<exists>u r. m t = (u, r) \<and> tracker_grows t u
        \<and> (r = Inr () \<and> dget (it_sessions u) sid \<noteq> None
           \<or> (\<exists>v. r = Inl (RuntimeError v)) \<and> it_capacity_exhausted u))"

lemma notes_mark: "strip reason \<noteq> [] \<Longrightarrow> notes_session sid (mark_incomplete sid reason)"
  by (auto simp: notes_session_def mark_incomplete_def apure_def reason_check_def abind_def get_or_create_def
      tracker_grows_def split: option.splits)

lemma notes_dropped: "0 \<le> n \<Longrightarrow> notes_session sid (record_dropped_tick sid n)"
  by (auto simp: notes_session_def record_dropped_tick_def apure_def abind_def get_or_create_def
      tracker_grows_def split: option.splits)

lemma reports_session:
  assumes "notes_session sid m" and "reports handler Q"
  shows "reports (atry_runtime (on_impact m) handler) (session_damaged sid)"
  unfolding reports_def
proof
  fix a :: monitors
  obtain u r where u: "m (mo_impact a) = (u, r)" "tracker_grows (mo_impact a) u"
    and r: "r = Inr () \<and> dget (it_sessions u) sid \<noteq> None \<or> (\<exists>v. r = Inl (RuntimeError v)) \<and> it_capacity_exhausted u"
    using assms(1) unfolding notes_session_def by blast
  let ?b = "a\<lparr>mo_impact := u\<rparr>"
  have b: "monitors_grow a ?b"
    using u(2) by (auto simp: monitors_grow_def same_counters_def session_damaged_def tracker_grows_def)
  have dam: "session_damaged sid ?b" using r by (auto simp: session_damaged_def)
  from r show "\<exists>c x. atry_runtime (on_impact m) handler a = (c, Inr x) \<and> monitors_grow a c \<and> session_damaged sid c"
  proof
    assume "r = Inr () \<and> dget (it_sessions u) sid \<noteq> None"
    with u(1) b dam show ?thesis by (auto simp: atry_runtime_def on_impact_def)
  next
    assume "(\<exists>v. r = Inl (RuntimeError v)) \<and> it_capacity_exhausted u"
    moreover obtain c x where c: "handler ?b = (c, Inr x)" "monitors_grow ?b c"
      using assms(2) unfolding reports_def by blast
    moreover have "session_damaged sid c" using dam c(2) by (auto simp: monitors_grow_def)
    ultimately show ?thesis using u(1) monitors_grow_trans [OF b]
      by (auto simp: atry_runtime_def on_impact_def)
  qed
qed

lemma impact_reason: "strip ''session_impact_capacity_exhausted'' \<noteq> []"
  by code_simp

lemma overflow_reason: "strip (lane_value lane @ ''_ingress_overflow'') \<noteq> []"
  by (cases lane) (simp_all only: lane_value.simps, code_simp+)

lemma reports_impact_failed [report_rules]: "reports impact_capacity_failed (\<lambda>s. health_at_least 2 s \<and> shutdown_requested s)"
  unfolding impact_capacity_failed_def
  by (rule reports_then [OF reports_fail [OF impact_reason] reports_shutdown [OF impact_reason] lasting_facts(2)])

lemma reports_mark_session [report_rules]:
  "strip reason \<noteq> [] \<Longrightarrow> reports (mark_session sid reason) (session_damaged sid)"
  unfolding mark_session_def by (rule reports_session [OF notes_mark reports_impact_failed])

text \<open>What an overflow of a lane leaves behind.\<close>

definition overflow_noted :: "ingress_lane \<Rightarrow> captured_event \<Rightarrow> monitors \<Rightarrow> bool" where
  "overflow_noted lane e mo \<longleftrightarrow>
     health_at_least (if lane \<in> {LANE_DIAGNOSTIC, LANE_CONTROL} then 2 else 1) mo
     \<and> session_damaged (ca_session_id e) mo
     \<and> (lane \<in> {LANE_DIAGNOSTIC, LANE_CONTROL} \<longrightarrow> shutdown_requested mo)"

lemma reports_overflow:
  assumes "0 \<le> ca_sequence e"
  shows "reports (handle_overflow lane e) (overflow_noted lane e)"
proof -
  let ?c = "lane \<in> {LANE_DIAGNOSTIC, LANE_CONTROL}" and ?r = "lane_value lane @ ''_ingress_overflow''"
  have h: "reports (on_health (if ?c then fail_health ?r else degrade ?r)) (health_at_least (if ?c then 2 else 1))"
    using reports_fail [OF overflow_reason] reports_degrade [OF overflow_reason] by (cases ?c) simp_all
  have d: "reports (if lane = LANE_TICK
       then atry_runtime (on_impact (record_dropped_tick (ca_session_id e) (ca_sequence e))) impact_capacity_failed
       else areturn ()) (\<lambda>_. True)"
    using reports_session [OF notes_dropped [OF assms] reports_impact_failed, THEN reports_weaken] reports_skip
    by (cases "lane = LANE_TICK") simp_all
  have s: "reports (if ?c then request_controlled_shutdown ?r else areturn ()) (\<lambda>mo. ?c \<longrightarrow> shutdown_requested mo)"
    using reports_shutdown [OF overflow_reason, THEN reports_weaken] reports_skip
    by (cases ?c) simp_all
  have "reports (handle_overflow lane e) (\<lambda>mo. health_at_least (if ?c then 2 else 1) mo
      \<and> session_damaged (ca_session_id e) mo \<and> True \<and> (?c \<longrightarrow> shutdown_requested mo))"
    unfolding handle_overflow_def Let_def
    by (rule reports_then [OF h reports_then [OF reports_mark_session [OF overflow_reason]
          reports_then [OF d s lasting_facts(1)] lasting_facts(4)] lasting_facts(2)])
  then show ?thesis by (rule reports_weaken) (simp add: overflow_noted_def)
qed

end
