(* ===== verification/Ingress_Queues.thy ===== *)
theory Ingress_Queues
  imports Ingress_Overflow
begin

text \<open>
  What publishing and popping do to the lanes, seen as lists of events, and the invariant of the
  ingress: lanes inside their capacities, counters that agree with the lanes, no method that raises.
\<close>

section \<open>Lanes as lists\<close>

definition lane_events :: "ingress_lane \<Rightarrow> bounded_ingress \<Rightarrow> captured_event list" where
  "lane_events lane q =
     (case lane of
        LANE_DIAGNOSTIC \<Rightarrow> ig_diagnostic q | LANE_CONTROL \<Rightarrow> ig_control q
      | LANE_QUOTE \<Rightarrow> map snd (ig_quotes q) | LANE_TICK \<Rightarrow> ig_ticks q | LANE_STA_QUOTE \<Rightarrow> [])"

lemma lane_events_simps:
  "lane_events LANE_DIAGNOSTIC q = ig_diagnostic q" "lane_events LANE_CONTROL q = ig_control q"
  "lane_events LANE_QUOTE q = map snd (ig_quotes q)" "lane_events LANE_TICK q = ig_ticks q"
  "lane_events LANE_STA_QUOTE q = []"
  by (simp_all add: lane_events_def)

lemma all_lanes:
  "(\<forall>l. P l) \<longleftrightarrow> P LANE_DIAGNOSTIC \<and> P LANE_CONTROL \<and> P LANE_QUOTE \<and> P LANE_TICK \<and> P LANE_STA_QUOTE"
  by (metis ingress_lane.exhaust)

lemma lane_depth_events: "lane_depth lane q = int (length (lane_events lane q))"
  by (cases lane) (simp_all add: lane_depth_def lane_events_def)

lemma dset_fresh: "dget d k = None \<Longrightarrow> dset k v d = d @ [(k, v)]"
  unfolding dset_def dget_def by (induction d) (auto split: if_splits)

definition same_settings :: "bounded_ingress \<Rightarrow> bounded_ingress \<Rightarrow> bool" where
  "same_settings q q' \<longleftrightarrow>
     ig_capacities q' = ig_capacities q \<and> ig_dedupe_capacity q' = ig_dedupe_capacity q
     \<and> ig_burst_limit q' = ig_burst_limit q"

text \<open>What an accepted, coalesced or refused event does to the lanes.\<close>

definition lanes_after :: "captured_event \<Rightarrow> ingress_decision \<Rightarrow> bounded_ingress \<Rightarrow> bounded_ingress \<Rightarrow> bool" where
  "lanes_after e d q q' \<longleftrightarrow>
     same_settings q q' \<and> ig_burst q' = ig_burst q \<and> ig_market_turn q' = ig_market_turn q
     \<and> ig_critical_turn q' = ig_critical_turn q
     \<and> (\<forall>lane. lane \<noteq> lane_of (ca_captured_kind e) \<longrightarrow> lane_events lane q' = lane_events lane q)
     \<and> (case d of
          ING_ACCEPTED \<Rightarrow> lane_events (lane_of (ca_captured_kind e)) q' = lane_events (lane_of (ca_captured_kind e)) q @ [e]
            \<and> int (length (lane_events (lane_of (ca_captured_kind e)) q)) < ig_capacities q (lane_of (ca_captured_kind e))
        | ING_COALESCED \<Rightarrow> lane_of (ca_captured_kind e) = LANE_QUOTE
            \<and> length (lane_events LANE_QUOTE q') = length (lane_events LANE_QUOTE q)
            \<and> set (lane_events LANE_QUOTE q') \<subseteq> insert e (set (lane_events LANE_QUOTE q))
        | _ \<Rightarrow> lane_events (lane_of (ca_captured_kind e)) q' = lane_events (lane_of (ca_captured_kind e)) q)"

lemmas lanes_simps = lanes_after_def same_settings_def lane_events_simps all_lanes

lemma lane_of_shared: "lane_of k \<noteq> LANE_STA_QUOTE"
  by (cases k) simp_all

lemma dset_values: "(a, b) \<in> set (dset k v d) \<Longrightarrow> b = v \<or> (a, b) \<in> set d"
  unfolding dset_def by (induction d) (auto split: if_splits)

lemma publish_quote_lanes:
  assumes "publish_quote e p q = (q', d)" and "lane_of (ca_captured_kind e) = LANE_QUOTE"
  shows "lanes_after e d q q' \<and> (dict_ok (ig_quotes q) \<longrightarrow> dict_ok (ig_quotes q')) \<and> ig_recent q' = ig_recent q"
proof -
  let ?k = "(ca_session_id e, ca_connection_generation e, cq_market_no_raw p, cq_stock_idx_raw p)"
  show ?thesis
  proof (cases "dget (ig_quotes q) ?k")
    case None
    with assms show ?thesis
      by (auto simp: publish_quote_def lanes_simps dset_fresh split: if_splits)
        (metis dict_ok_dset dset_fresh)+
  next
    case (Some pending)
    with assms show ?thesis
      by (auto simp: publish_quote_def lanes_simps length_dset image_iff dest!: dset_values split: if_splits)
  qed
qed

lemma publish_fifo_lanes:
  assumes "publish_fifo lane e q = (q', d)" and "lane = lane_of (ca_captured_kind e)" and "lane \<noteq> LANE_QUOTE"
  shows "lanes_after e d q q' \<and> ig_quotes q' = ig_quotes q \<and> ig_recent q' = ig_recent q"
  using assms lane_of_shared [of "ca_captured_kind e"]
  by (cases lane)
    (auto simp: publish_fifo_def lanes_simps lane_depth_def split: if_splits)

lemma offer_lanes:
  assumes "offer e q = (q', Inr d)"
  shows "lanes_after e d q q' \<and> (dict_ok (ig_quotes q) \<longrightarrow> dict_ok (ig_quotes q')) \<and> ig_recent q' = ig_recent q"
proof (cases "lane_of (ca_captured_kind e) = LANE_QUOTE")
  case True
  with assms obtain p where "publish_quote e p q = (q', d)"
    by (auto simp: offer_def split: captured_payload.splits prod.splits)
  with True show ?thesis using publish_quote_lanes by blast
next
  case False
  with assms have "publish_fifo (lane_of (ca_captured_kind e)) e q = (q', d)"
    by (auto simp: offer_def split: prod.splits)
  with False show ?thesis using publish_fifo_lanes by fastforce
qed

lemma lanes_after_recent: "lanes_after e d q q' \<Longrightarrow> lanes_after e d q (q'\<lparr>ig_recent := r\<rparr>)"
  by (cases d; cases "lane_of (ca_captured_kind e)") (simp_all add: lanes_simps)

lemma enqueue_lanes:
  assumes "enqueue e q = (q', Inr d)"
  shows "lanes_after e d q q' \<and> (dict_ok (ig_quotes q) \<longrightarrow> dict_ok (ig_quotes q'))"
proof (cases "dedupe_key_of e")
  case None
  with assms offer_lanes show ?thesis by (simp add: enqueue_def)
next
  case (Some k)
  show ?thesis
  proof (cases "k \<in> set (ig_recent q)")
    case True
    with Some assms have "q' = q\<lparr>ig_recent := move_to_end k (ig_recent q)\<rparr>" "d = ING_DUPLICATE"
      by (simp_all add: enqueue_def)
    moreover have "lanes_after e ING_DUPLICATE q q" by (simp add: lanes_after_def same_settings_def)
    ultimately show ?thesis using lanes_after_recent by auto
  next
    case False
    with Some assms obtain q1 where q1: "offer e q = (q1, Inr d)"
      and q': "q' = (if d \<in> {ING_ACCEPTED, ING_COALESCED} then remember k q1 else q1)"
      by (auto simp: enqueue_def abind_eq)
    from offer_lanes [OF q1] q' lanes_after_recent show ?thesis
      by (auto simp: remember_def)
  qed
qed

text \<open>A captured event that its constructor admits is never refused with an exception.\<close>

lemma enqueue_total:
  assumes "captured_event_init e = Inr e" shows "\<exists>q' d. enqueue e q = (q', Inr d)"
proof -
  have "ca_captured_kind e = payload_kind (ca_payload e)"
    using assms by (auto simp: captured_event_init_def err_simps)
  then have "\<exists>q' d. offer e q = (q', Inr d)"
    by (cases "ca_payload e") (auto simp: offer_def split: prod.splits)
  then show ?thesis by (auto simp: enqueue_def abind_def split: option.splits)
qed

section \<open>Popping\<close>

lemma pop_critical_lanes:
  assumes "pop_critical q = (q', lane, e)" and "critical_waiting q" and "ig_critical_turn q \<in> {LANE_DIAGNOSTIC, LANE_CONTROL}"
  shows "lane \<in> {LANE_DIAGNOSTIC, LANE_CONTROL} \<and> lane_events lane q = e # lane_events lane q'
    \<and> (\<forall>l. l \<noteq> lane \<longrightarrow> lane_events l q' = lane_events l q) \<and> same_settings q q' \<and> ig_quotes q' = ig_quotes q
    \<and> ig_recent q' = ig_recent q \<and> ig_burst q' = ig_burst q \<and> ig_market_turn q' = ig_market_turn q
    \<and> ig_critical_turn q' \<in> {LANE_DIAGNOSTIC, LANE_CONTROL}"
  using assms
  by (auto simp: pop_critical_def Let_def critical_waiting_def lanes_simps split: if_splits)

lemma pop_market_lanes:
  assumes "pop_market q = (q', lane, e)" and "market_waiting q" and "ig_market_turn q \<in> {LANE_QUOTE, LANE_TICK}"
  shows "lane \<in> {LANE_QUOTE, LANE_TICK} \<and> lane_events lane q = e # lane_events lane q'
    \<and> (\<forall>l. l \<noteq> lane \<longrightarrow> lane_events l q' = lane_events l q) \<and> same_settings q q'
    \<and> (ig_quotes q' = ig_quotes q \<or> ig_quotes q' = tl (ig_quotes q))
    \<and> ig_recent q' = ig_recent q \<and> ig_burst q' = ig_burst q \<and> ig_critical_turn q' = ig_critical_turn q
    \<and> ig_market_turn q' \<in> {LANE_QUOTE, LANE_TICK}"
  using assms
  by (cases "ig_quotes q") (auto simp: pop_market_def Let_def market_waiting_def lanes_simps split: if_splits)

end
