(* ===== verification/Ingress_Run.thy ===== *)
theory Ingress_Run
  imports Ingress_Queues
begin

text \<open>
  The window of recent keys against its reference, the invariant of the ingress, and its runs: any
  sequence of publications and pops, between which the rest of the pipeline may use the monitors.
\<close>

section \<open>The window of recent keys\<close>

lemma trim_front_drop: "0 \<le> n \<Longrightarrow> trim_front n ks = drop (length ks - nat n) ks"
proof (induction n ks rule: trim_front.induct)
  case (1 n ks)
  show ?case
  proof (cases "n < int (length ks)")
    case True
    with "1.prems" have "ks \<noteq> []" by auto
    with True "1.IH" "1.prems" have "trim_front n ks = drop (length (tl ks) - nat n) (tl ks)"
      by (subst trim_front.simps) simp
    with True \<open>ks \<noteq> []\<close> "1.prems" show ?thesis
      by (cases ks) (simp, simp add: Suc_diff_le nat_le_iff)
  next
    case False
    then show ?thesis using "1.prems" by (subst trim_front.simps) simp
  qed
qed

text \<open>The last \<open>n\<close> distinct keys of a history: what the window is meant to hold.\<close>

definition last_keys :: "nat \<Rightarrow> 'k list \<Rightarrow> 'k list" where
  "last_keys n ks = (let d = remdups ks in drop (length d - n) d)"

lemma remdups_snoc: "remdups (ks @ [k]) = filter (\<lambda>x. x \<noteq> k) (remdups ks) @ [k]"
  by (induction ks) auto

lemma length_without:
  assumes "distinct ks" shows "length ks \<le> Suc (length (filter (\<lambda>x. x \<noteq> k) ks))"
proof -
  have "length ks \<le> card (insert k (set (filter (\<lambda>x. x \<noteq> k) ks)))"
    using assms distinct_card [of ks] card_mono [of "insert k (set (filter (\<lambda>x. x \<noteq> k) ks))" "set ks"] by auto
  also have "\<dots> \<le> Suc (card (set (filter (\<lambda>x. x \<noteq> k) ks)))" by (rule card_insert_le_m1) simp_all
  also have "card (set (filter (\<lambda>x. x \<noteq> k) ks)) \<le> length (filter (\<lambda>x. x \<noteq> k) ks)" by (rule card_length)
  finally show ?thesis by simp
qed

text \<open>Moving a key to the end and trimming is the reference on the longer history.\<close>

lemma touch_window:
  assumes "0 < n" and window: "w = last_keys n ks"
  shows "drop (length (move_to_end k w) - n) (move_to_end k w) = last_keys n (ks @ [k])"
proof -
  define d where "d = remdups ks"
  define p where "p = take (length d - n) d"
  have w: "w = drop (length d - n) d" by (simp add: window last_keys_def d_def Let_def)
  have d: "d = p @ w" by (simp add: p_def w)
  have "distinct w" by (simp add: w d_def)
  have "p = [] \<or> length w = n" by (auto simp: p_def w)
  let ?without = "filter (\<lambda>x. x \<noteq> k)"
  have last: "drop (length (a @ b) - n) (a @ b) = drop (length b - n) b" if "a = [] \<or> n \<le> length b" for a b :: "'a list"
    using that by auto
  have "last_keys n (ks @ [k]) = drop (length (?without p @ move_to_end k w) - n) (?without p @ move_to_end k w)"
    by (simp add: last_keys_def Let_def remdups_snoc d_def [symmetric] d move_to_end_def)
  also have "\<dots> = drop (length (move_to_end k w) - n) (move_to_end k w)"
    using \<open>p = [] \<or> length w = n\<close> length_without [OF \<open>distinct w\<close>, of k]
    by (intro last) (auto simp: move_to_end_def)
  finally show ?thesis by simp
qed

lemma last_keys_bounds: "length (last_keys n ks) \<le> n" "distinct (last_keys n ks)"
  by (simp_all add: last_keys_def Let_def)

section \<open>The invariant\<close>

definition shared_lane :: "ingress_lane \<Rightarrow> bool" where
  "shared_lane lane \<longleftrightarrow> lane \<noteq> LANE_STA_QUOTE"

definition queues_ok :: "bounded_ingress \<Rightarrow> bool" where
  "queues_ok q \<longleftrightarrow>
     (\<forall>lane. shared_lane lane \<longrightarrow> 0 < ig_capacities q lane
        \<and> int (length (lane_events lane q)) \<le> ig_capacities q lane
        \<and> (\<forall>e\<in>set (lane_events lane q). lane_of (ca_captured_kind e) = lane))
     \<and> dict_ok (ig_quotes q) \<and> ig_market_turn q \<in> {LANE_QUOTE, LANE_TICK}
     \<and> ig_critical_turn q \<in> {LANE_DIAGNOSTIC, LANE_CONTROL}
     \<and> 0 < ig_burst_limit q \<and> 0 \<le> ig_burst q \<and> ig_burst q \<le> ig_burst_limit q \<and> 0 < ig_dedupe_capacity q"

definition counters_ok :: "ingress_metrics \<Rightarrow> bool" where
  "counters_ok m \<longleftrightarrow>
     (\<forall>lane. shared_lane lane \<longrightarrow>
        me_received m lane = me_accepted m lane + me_coalesced m lane + me_dropped m lane + me_duplicates m lane)"

definition depths_agree :: "bounded_ingress \<Rightarrow> ingress_metrics \<Rightarrow> bool" where
  "depths_agree q m \<longleftrightarrow>
     (\<forall>lane. shared_lane lane \<longrightarrow> me_capacity m lane = ig_capacities q lane
        \<and> me_depth m lane = int (length (lane_events lane q)))"

definition ingress_inv :: "ingress \<Rightarrow> bool" where
  "ingress_inv s \<longleftrightarrow>
     queues_ok (fst s) \<and> counters_ok (mo_metrics (snd s)) \<and> depths_agree (fst s) (mo_metrics (snd s))"

lemma lanes_after_ok:
  assumes "lanes_after e d q q'" and "queues_ok q" and "dict_ok (ig_quotes q')"
  shows "queues_ok q'"
proof -
  have "int (length (lane_events lane q')) \<le> ig_capacities q' lane
      \<and> (\<forall>e\<in>set (lane_events lane q'). lane_of (ca_captured_kind e) = lane)" if "shared_lane lane" for lane
  proof (cases "lane = lane_of (ca_captured_kind e)")
    case True
    have "int (length (lane_events lane q)) \<le> ig_capacities q lane"
      "\<forall>e\<in>set (lane_events lane q). lane_of (ca_captured_kind e) = lane"
      using assms(2) that by (simp_all add: queues_ok_def)
    with True show ?thesis
      using assms(1) by (cases d) (auto simp: lanes_after_def same_settings_def)
  next
    case False
    with assms that show ?thesis by (simp add: queues_ok_def lanes_after_def same_settings_def)
  qed
  then show ?thesis using assms by (simp add: queues_ok_def lanes_after_def same_settings_def)
qed

lemma count_decision_fields:
  "me_capacity (count_decision lane d m) = me_capacity m" "me_depth (count_decision lane d m) = me_depth m"
  "me_received (count_decision lane d m) = me_received m"
  by (cases d; simp add: count_decision_def)+

lemma counted:
  "counters_ok m \<Longrightarrow> counters_ok (count_decision lane d (m\<lparr>me_received := count_up lane (me_received m)\<rparr>))"
  by (cases d) (auto simp: counters_ok_def count_decision_def count_up_def)

text \<open>Counting an event never raises when the depth is inside the capacity.\<close>

lemma record_result_total:
  assumes "counters_ok m" and "0 \<le> n" and "n \<le> me_capacity m lane" and "lane = LANE_TICK \<Longrightarrow> \<exists>k\<ge>0. sequence = Some k"
  shows "\<exists>m'. record_result lane d sequence overflow (Some n) m = Inr m' \<and> counters_ok m'
    \<and> me_capacity m' = me_capacity m \<and> me_depth m' = (me_depth m)(lane := n)"
proof -
  have ok: "counters_ok (count_decision lane d (m\<lparr>me_received := count_up lane (me_received m)\<rparr>))"
    using counted [OF assms(1)] .
  have drop: "lane = LANE_TICK \<and> d = ING_DROPPED \<longrightarrow> pred_option (\<lambda>n. 0 \<le> n) sequence \<and> sequence \<noteq> None"
    using assms(4) by auto
  show ?thesis
    using assms(2,3) ok drop
    by (auto simp: record_result_def Let_def depth_fits_def count_decision_fields counters_ok_def)
qed

lemma same_counters_ok:
  assumes "same_counters m m'"
  shows "counters_ok m' = counters_ok m" "depths_agree q m' = depths_agree q m"
proof -
  from assms obtain n k l where
    "m' = m\<lparr>me_shutdown_requests := n, me_processing_failures := k, me_storage_failures := l\<rparr>"
    by (auto simp: same_counters_def)
  then show "counters_ok m' = counters_ok m" "depths_agree q m' = depths_agree q m"
    by (simp_all add: counters_ok_def depths_agree_def)
qed

section \<open>Publishing and popping never raise\<close>

lemma captured_sequence: "captured_event_init e = Inr e \<Longrightarrow> 0 \<le> ca_sequence e"
  unfolding captured_event_init_def ebind_eq_Inr md_nonnegative_def require_eq_Inr by (elim exE conjE)

lemma try_publish_total:
  assumes inv: "ingress_inv s" and ev: "captured_event_init e = Inr e"
  shows "\<exists>t d. try_publish e s = (t, Inr d) \<and> ingress_inv t \<and> enqueue e (fst s) = (fst t, Inr d)
    \<and> lanes_after e d (fst s) (fst t)
    \<and> (d = ING_DROPPED \<longrightarrow> overflow_noted (lane_of (ca_captured_kind e)) e (snd t))"
proof -
  let ?lane = "lane_of (ca_captured_kind e)"
  obtain q mo where s: "s = (q, mo)" by (cases s)
  obtain q' d where enq: "enqueue e q = (q', Inr d)" using enqueue_total [OF ev] by blast
  have ok: "queues_ok q" "counters_ok (mo_metrics mo)" "depths_agree q (mo_metrics mo)"
    using inv by (simp_all add: ingress_inv_def s)
  have lanes: "lanes_after e d q q'" and "dict_ok (ig_quotes q')"
    using enqueue_lanes [OF enq] ok(1) by (auto simp: queues_ok_def)
  then have ok': "queues_ok q'" using lanes_after_ok [OF _ ok(1)] by blast
  have shared: "shared_lane ?lane" using lane_of_shared by (simp add: shared_lane_def)
  have cap: "me_capacity (mo_metrics mo) ?lane = ig_capacities q' ?lane"
    using ok(3) shared lanes by (simp add: depths_agree_def lanes_after_def same_settings_def)
  have "lane_depth ?lane q' \<le> me_capacity (mo_metrics mo) ?lane"
    using ok' shared by (simp add: cap lane_depth_events queues_ok_def)
  then obtain m where m: "record_result ?lane d (if ?lane = LANE_TICK then Some (ca_sequence e) else None)
        (d = ING_DROPPED) (Some (lane_depth ?lane q')) (mo_metrics mo) = Inr m"
      "counters_ok m" "me_capacity m = me_capacity (mo_metrics mo)"
      "me_depth m = (me_depth (mo_metrics mo))(?lane := lane_depth ?lane q')"
    using record_result_total [OF ok(2), of "lane_depth ?lane q'" ?lane
        "if ?lane = LANE_TICK then Some (ca_sequence e) else None" d "d = ING_DROPPED"] captured_sequence [OF ev]
    by (fastforce simp: lane_depth_events)
  have agree: "depths_agree q' m"
    using ok(3) lanes m(3,4)
    by (auto simp: depths_agree_def lanes_after_def same_settings_def lane_depth_events shared_lane_def)
  let ?mo = "mo\<lparr>mo_metrics := m\<rparr>"
  have mid: "try_publish e s = athen (if d = ING_DROPPED then on_monitors (handle_overflow ?lane e) else areturn ())
      (areturn d) (q', ?mo)"
    by (cases "d = ING_DROPPED")
      (use m(1) in \<open>simp_all add: try_publish_def Let_def s on_queues_def enq abind_def on_monitors_def on_metrics_def
        split: prod.splits sum.splits\<close>)
  show ?thesis
  proof (cases "d = ING_DROPPED")
    case False
    with mid ok' agree m(2) lanes enq s show ?thesis by (auto simp: abind_def ingress_inv_def)
  next
    case True
    obtain mo' x where mo': "handle_overflow ?lane e ?mo = (mo', Inr x)" "monitors_grow ?mo mo'"
      "overflow_noted ?lane e mo'"
      using reports_overflow [OF captured_sequence [OF ev], of ?lane] unfolding reports_def by blast
    then have "try_publish e s = ((q', mo'), Inr d)" using True by (simp add: mid abind_def on_monitors_def)
    moreover have "ingress_inv (q', mo')"
      using ok' agree m(2) mo'(2) same_counters_ok [of m "mo_metrics mo'"] by (simp add: ingress_inv_def monitors_grow_def)
    ultimately show ?thesis using lanes enq mo'(3) s by auto
  qed
qed

end
