(* ===== verification/Ingress_Machine.thy ===== *)
theory Ingress_Machine
  imports Ingress_Run
begin

text \<open>
  Runs of the ingress: any interleaving of publications and pops with whatever the rest of the pipeline
  does to the shared monitors, as long as it leaves the counters of the four lanes alone. A run carries
  the log of what was published and popped.
\<close>

section \<open>Popping\<close>

lemma dequeue_lanes:
  assumes "dequeue q = Some (q', lane, e)" and ok: "queues_ok q"
  shows "shared_lane lane \<and> lane_events lane q = e # lane_events lane q'
    \<and> (\<forall>l. l \<noteq> lane \<longrightarrow> lane_events l q' = lane_events l q) \<and> queues_ok q' \<and> same_settings q q'
    \<and> ig_recent q' = ig_recent q
    \<and> ig_burst q' = (if lane \<in> {LANE_QUOTE, LANE_TICK} then 0 else min (ig_burst q + 1) (ig_burst_limit q))
    \<and> (lane \<in> {LANE_DIAGNOSTIC, LANE_CONTROL} \<and> market_waiting q \<longrightarrow> ig_burst q < ig_burst_limit q)"
proof -
  have step: ?thesis if
      shape: "lane_events lane q = e # lane_events lane q1" "\<forall>l. l \<noteq> lane \<longrightarrow> lane_events l q1 = lane_events l q"
        "same_settings q q1" "ig_recent q1 = ig_recent q" "dict_ok (ig_quotes q1)"
        "ig_market_turn q1 \<in> {LANE_QUOTE, LANE_TICK}" "ig_critical_turn q1 \<in> {LANE_DIAGNOSTIC, LANE_CONTROL}"
      and lane: "shared_lane lane"
      and q': "q' = q1\<lparr>ig_burst := (if lane \<in> {LANE_QUOTE, LANE_TICK} then 0 else min (ig_burst q + 1) (ig_burst_limit q))\<rparr>"
      and burst: "lane \<in> {LANE_DIAGNOSTIC, LANE_CONTROL} \<and> market_waiting q \<longrightarrow> ig_burst q < ig_burst_limit q" for q1
  proof -
    have ev: "lane_events l q' = lane_events l q1" for l by (cases l) (simp_all add: lane_events_simps q')
    have "queues_ok q'"
      unfolding queues_ok_def
    proof (intro conjI allI impI)
      fix l assume l: "shared_lane l"
      have old: "0 < ig_capacities q l" "int (length (lane_events l q)) \<le> ig_capacities q l"
        "\<forall>e\<in>set (lane_events l q). lane_of (ca_captured_kind e) = l"
        using ok l by (simp_all add: queues_ok_def)
      show "0 < ig_capacities q' l" using old(1) shape(3) by (simp add: q' same_settings_def)
      show "int (length (lane_events l q')) \<le> ig_capacities q' l"
        using old(2) shape(1-3) by (cases "l = lane") (simp_all add: ev, simp_all add: q' same_settings_def)
      show "\<forall>e\<in>set (lane_events l q'). lane_of (ca_captured_kind e) = l"
        using old(3) shape(1,2) by (cases "l = lane") (simp_all add: ev)
    qed (use ok shape in \<open>simp_all add: q' queues_ok_def same_settings_def\<close>)
    then show ?thesis using shape lane burst by (simp add: ev) (simp add: q' same_settings_def)
  qed
  show ?thesis
  proof (cases "critical_waiting q \<and> (\<not> market_waiting q \<or> ig_burst q < ig_burst_limit q)")
    case True
    obtain q1 l1 e1 where pop: "pop_critical q = (q1, l1, e1)" by (metis prod_cases3)
    with True assms(1) have eq: "q' = q1\<lparr>ig_burst := min (ig_burst q + 1) (ig_burst_limit q)\<rparr>" "l1 = lane" "e1 = e"
      by (simp_all add: dequeue_def)
    have facts: "lane \<in> {LANE_DIAGNOSTIC, LANE_CONTROL}" "lane_events lane q = e # lane_events lane q1"
        "\<forall>l. l \<noteq> lane \<longrightarrow> lane_events l q1 = lane_events l q" "same_settings q q1" "ig_quotes q1 = ig_quotes q"
        "ig_recent q1 = ig_recent q" "ig_market_turn q1 = ig_market_turn q"
        "ig_critical_turn q1 \<in> {LANE_DIAGNOSTIC, LANE_CONTROL}"
      using pop_critical_lanes [OF pop] True ok eq by (simp_all add: queues_ok_def)
    show ?thesis
      by (rule step [of q1]) (use facts ok eq True in \<open>auto simp: queues_ok_def shared_lane_def\<close>)
  next
    case False
    then have waiting: "market_waiting q" using assms(1) by (auto simp: dequeue_def split: if_splits)
    obtain q1 l1 e1 where pop: "pop_market q = (q1, l1, e1)" by (metis prod_cases3)
    with False waiting assms(1) have eq: "q' = q1\<lparr>ig_burst := 0\<rparr>" "l1 = lane" "e1 = e"
      by (auto simp: dequeue_def)
    have facts: "lane \<in> {LANE_QUOTE, LANE_TICK}" "lane_events lane q = e # lane_events lane q1"
        "\<forall>l. l \<noteq> lane \<longrightarrow> lane_events l q1 = lane_events l q" "same_settings q q1"
        "ig_quotes q1 = ig_quotes q \<or> ig_quotes q1 = tl (ig_quotes q)"
        "ig_recent q1 = ig_recent q" "ig_critical_turn q1 = ig_critical_turn q"
        "ig_market_turn q1 \<in> {LANE_QUOTE, LANE_TICK}"
      using pop_market_lanes [OF pop] waiting ok eq by (simp_all add: queues_ok_def)
    have "dict_ok (ig_quotes q1)"
      using facts(5) ok by (cases "ig_quotes q") (auto simp: queues_ok_def dict_ok_def)
    then show ?thesis
      by (intro step [of q1]) (use facts ok eq in \<open>auto simp: queues_ok_def shared_lane_def\<close>)
  qed
qed

lemma dequeue_None: "dequeue q = None \<longleftrightarrow> \<not> critical_waiting q \<and> \<not> market_waiting q"
  by (auto simp: dequeue_def split: prod.splits)

lemma update_depth_total:
  assumes "0 \<le> n" "n \<le> me_capacity m lane"
  shows "update_depth lane n m = Inr (m\<lparr>me_depth := (me_depth m)(lane := n)\<rparr>)"
  using assms by (simp add: update_depth_def depth_fits_def)

lemma try_pop_total:
  assumes inv: "ingress_inv s"
  shows "\<exists>t r. try_pop s = (t, Inr r) \<and> ingress_inv t
    \<and> (case dequeue (fst s) of None \<Rightarrow> t = s \<and> r = None | Some (q, lane, e) \<Rightarrow> fst t = q \<and> r = Some e)"
proof (cases "dequeue (fst s)")
  case None
  with inv show ?thesis by (simp add: try_pop_def)
next
  case (Some p)
  obtain q lane e where p: "p = (q, lane, e)" by (cases p)
  let ?m = "mo_metrics (snd s)"
  have ok: "queues_ok (fst s)" "counters_ok ?m" "depths_agree (fst s) ?m"
    using inv by (simp_all add: ingress_inv_def)
  have deq: "shared_lane lane" "lane_events lane (fst s) = e # lane_events lane q"
      "\<forall>l. l \<noteq> lane \<longrightarrow> lane_events l q = lane_events l (fst s)" "queues_ok q" "same_settings (fst s) q"
    using dequeue_lanes [OF Some [unfolded p] ok(1)] by blast+
  have agree: "me_capacity ?m l = ig_capacities q l" "l \<noteq> lane \<Longrightarrow> me_depth ?m l = int (length (lane_events l q))"
    if "shared_lane l" for l
    using ok(3) deq(3,5) that by (simp_all add: depths_agree_def same_settings_def)
  have "int (length (lane_events lane q)) \<le> me_capacity ?m lane"
    using deq(1,4) agree(1) [OF deq(1)] by (simp add: queues_ok_def)
  from update_depth_total [OF _ this]
  have upd: "update_depth lane (lane_depth lane q) ?m
      = Inr (?m\<lparr>me_depth := (me_depth ?m)(lane := lane_depth lane q)\<rparr>)"
    by (simp add: lane_depth_events)
  have "ingress_inv (q, (snd s)\<lparr>mo_metrics := ?m\<lparr>me_depth := (me_depth ?m)(lane := lane_depth lane q)\<rparr>\<rparr>)"
    using deq(4) ok(2) agree by (simp add: ingress_inv_def counters_ok_def depths_agree_def lane_depth_events)
  with Some p upd show ?thesis
    by (simp add: try_pop_def abind_def on_monitors_def on_metrics_def)
qed

section \<open>Runs\<close>

text \<open>What the rest of the pipeline leaves alone: the counters of the four lanes.\<close>

definition elsewhere :: "monitors \<Rightarrow> monitors \<Rightarrow> bool" where
  "elsewhere a b \<longleftrightarrow>
     (\<forall>lane. shared_lane lane \<longrightarrow>
        me_received (mo_metrics b) lane = me_received (mo_metrics a) lane
        \<and> me_accepted (mo_metrics b) lane = me_accepted (mo_metrics a) lane
        \<and> me_coalesced (mo_metrics b) lane = me_coalesced (mo_metrics a) lane
        \<and> me_dropped (mo_metrics b) lane = me_dropped (mo_metrics a) lane
        \<and> me_duplicates (mo_metrics b) lane = me_duplicates (mo_metrics a) lane
        \<and> me_depth (mo_metrics b) lane = me_depth (mo_metrics a) lane
        \<and> me_capacity (mo_metrics b) lane = me_capacity (mo_metrics a) lane)"

datatype log_entry = Published captured_event ingress_decision | Popped captured_event

type_synonym logged_ingress = "ingress \<times> log_entry list"

inductive ingress_step :: "logged_ingress \<Rightarrow> logged_ingress \<Rightarrow> bool" where
  publish_step:
    "captured_event_init e = Inr e \<Longrightarrow> try_publish e s = (t, Inr d)
      \<Longrightarrow> ingress_step (s, lg) (t, lg @ [Published e d])"
| pop_step: "try_pop s = (t, Inr (Some e)) \<Longrightarrow> ingress_step (s, lg) (t, lg @ [Popped e])"
| elsewhere_step: "elsewhere (snd s) mo \<Longrightarrow> ingress_step (s, lg) ((fst s, mo), lg)"

text \<open>The lanes of a log: what was accepted for a lane, and what was popped from it.\<close>

fun accepted_in :: "ingress_lane \<Rightarrow> log_entry list \<Rightarrow> captured_event list" where
  "accepted_in lane [] = []"
| "accepted_in lane (Published e d # lg) =
     (if lane_of (ca_captured_kind e) = lane \<and> d = ING_ACCEPTED then e # accepted_in lane lg
      else accepted_in lane lg)"
| "accepted_in lane (Popped e # lg) = accepted_in lane lg"

fun popped_in :: "ingress_lane \<Rightarrow> log_entry list \<Rightarrow> captured_event list" where
  "popped_in lane [] = []"
| "popped_in lane (Published e d # lg) = popped_in lane lg"
| "popped_in lane (Popped e # lg) =
     (if lane_of (ca_captured_kind e) = lane then e # popped_in lane lg else popped_in lane lg)"

lemma accepted_append [simp]: "accepted_in lane (a @ b) = accepted_in lane a @ accepted_in lane b"
  by (induction lane a rule: accepted_in.induct) auto

lemma popped_append [simp]: "popped_in lane (a @ b) = popped_in lane a @ popped_in lane b"
  by (induction lane a rule: popped_in.induct) auto

text \<open>
  The keys a log has used, in order: a key is used when its event is admitted, and again whenever its
  event comes back while the key is among the last \<open>n\<close>.
\<close>

definition use_key :: "nat \<Rightarrow> dedupe_key list \<Rightarrow> log_entry \<Rightarrow> dedupe_key list" where
  "use_key n ks entry =
     (case entry of
        Popped _ \<Rightarrow> ks
      | Published e d \<Rightarrow>
          (case dedupe_key_of e of
             None \<Rightarrow> ks
           | Some k \<Rightarrow> if k \<in> set (last_keys n ks) \<or> d \<in> {ING_ACCEPTED, ING_COALESCED} then ks @ [k] else ks))"

definition used_keys :: "nat \<Rightarrow> log_entry list \<Rightarrow> dedupe_key list" where
  "used_keys n lg = foldl (use_key n) [] lg"

lemma used_keys_simps [simp]: "used_keys n [] = []" "used_keys n (lg @ [x]) = use_key n (used_keys n lg) x"
  by (simp_all add: used_keys_def)

lemma last_keys_Nil [simp]: "last_keys n [] = []"
  by (simp add: last_keys_def)

lemma enqueue_recent:
  assumes enq: "enqueue e q = (q', Inr d)" and cap: "0 < ig_dedupe_capacity q"
    and window: "ig_recent q = last_keys (nat (ig_dedupe_capacity q)) ks"
  shows "ig_recent q' = last_keys (nat (ig_dedupe_capacity q)) (use_key (nat (ig_dedupe_capacity q)) ks (Published e d))"
proof (cases "dedupe_key_of e")
  case None
  with enq have "ig_recent q' = ig_recent q" using offer_lanes by (simp add: enqueue_def)
  with None window show ?thesis by (simp add: use_key_def)
next
  case (Some k)
  let ?n = "nat (ig_dedupe_capacity q)"
  have n: "0 < ?n" using cap by simp
  note touch = touch_window [OF n window, of k]
  show ?thesis
  proof (cases "k \<in> set (ig_recent q)")
    case True
    have short: "length (move_to_end k (ig_recent q)) \<le> ?n"
      using True last_keys_bounds [of ?n ks] length_filter_less [of k "ig_recent q" "\<lambda>x. x \<noteq> k"]
      by (simp add: move_to_end_def window)
    have "ig_recent q' = move_to_end k (ig_recent q)" using True Some enq by (auto simp: enqueue_def)
    with touch short True Some window show ?thesis by (simp add: use_key_def)
  next
    case False
    with Some enq obtain q1 where q1: "offer e q = (q1, Inr d)"
      and q': "q' = (if d \<in> {ING_ACCEPTED, ING_COALESCED} then remember k q1 else q1)"
      by (auto simp: enqueue_def abind_eq)
    have "ig_recent q1 = ig_recent q" "ig_dedupe_capacity q1 = ig_dedupe_capacity q"
      using offer_lanes [OF q1] by (simp_all add: lanes_after_def same_settings_def)
    with q' touch False Some window cap show ?thesis
      by (auto simp: use_key_def remember_def trim_front_drop)
  qed
qed

section \<open>The invariant of runs\<close>

definition fifo_lane :: "ingress_lane \<Rightarrow> bool" where
  "fifo_lane lane \<longleftrightarrow> lane \<in> {LANE_DIAGNOSTIC, LANE_CONTROL, LANE_TICK}"

definition run_ok :: "bounded_ingress \<Rightarrow> logged_ingress \<Rightarrow> bool" where
  "run_ok start x \<longleftrightarrow>
     ingress_inv (fst x) \<and> same_settings start (fst (fst x))
     \<and> ig_recent (fst (fst x))
         = last_keys (nat (ig_dedupe_capacity start)) (used_keys (nat (ig_dedupe_capacity start)) (snd x))
     \<and> (\<forall>lane. fifo_lane lane \<longrightarrow>
          accepted_in lane (snd x) = popped_in lane (snd x) @ lane_events lane (fst (fst x)))
     \<and> length (accepted_in LANE_QUOTE (snd x))
         = length (popped_in LANE_QUOTE (snd x)) + length (lane_events LANE_QUOTE (fst (fst x)))"

lemma same_settings_trans: "same_settings a b \<Longrightarrow> same_settings b c \<Longrightarrow> same_settings a c"
  by (simp add: same_settings_def)

lemma run_ok_publish:
  assumes ok: "run_ok q0 (s, lg)" and ev: "captured_event_init e = Inr e" and pub: "try_publish e s = (t, Inr d)"
  shows "run_ok q0 (t, lg @ [Published e d])"
proof -
  have facts: "ingress_inv t" "enqueue e (fst s) = (fst t, Inr d)" "lanes_after e d (fst s) (fst t)"
    using try_publish_total [OF _ ev, of s] ok pub by (auto simp: run_ok_def)
  have old: "same_settings q0 (fst s)" "0 < ig_dedupe_capacity (fst s)"
    using ok by (simp_all add: run_ok_def ingress_inv_def queues_ok_def)
  have cap: "ig_dedupe_capacity (fst s) = ig_dedupe_capacity q0" using old(1) by (simp add: same_settings_def)
  have recent: "ig_recent (fst t)
      = last_keys (nat (ig_dedupe_capacity q0)) (used_keys (nat (ig_dedupe_capacity q0)) (lg @ [Published e d]))"
    using enqueue_recent [OF facts(2) old(2), of "used_keys (nat (ig_dedupe_capacity q0)) lg"] ok
    by (simp add: cap run_ok_def)
  have settings: "same_settings q0 (fst t)"
    using facts(3) same_settings_trans [OF old(1)] by (simp add: lanes_after_def)
  have fifo: "accepted_in lane (lg @ [Published e d]) = popped_in lane (lg @ [Published e d]) @ lane_events lane (fst t)"
    if "fifo_lane lane" for lane
  proof -
    have "accepted_in lane lg = popped_in lane lg @ lane_events lane (fst s)" using ok that by (simp add: run_ok_def)
    then show ?thesis
      using facts(3) that
      by (cases d; cases "lane_of (ca_captured_kind e) = lane") (auto simp: lanes_after_def fifo_lane_def)
  qed
  have "length (accepted_in LANE_QUOTE lg) = length (popped_in LANE_QUOTE lg) + length (lane_events LANE_QUOTE (fst s))"
    using ok by (simp add: run_ok_def)
  then have "length (accepted_in LANE_QUOTE (lg @ [Published e d]))
      = length (popped_in LANE_QUOTE (lg @ [Published e d])) + length (lane_events LANE_QUOTE (fst t))"
    using facts(3) by (cases d; cases "lane_of (ca_captured_kind e) = LANE_QUOTE") (auto simp: lanes_after_def)
  with facts(1) recent settings fifo show ?thesis by (simp add: run_ok_def)
qed

lemma popped_kind:
  assumes "queues_ok q" and "dequeue q = Some (q', lane, e)" shows "lane_of (ca_captured_kind e) = lane"
  using dequeue_lanes [OF assms(2,1)] assms(1) by (simp add: queues_ok_def)

lemma run_ok_pop:
  assumes ok: "run_ok q0 (s, lg)" and pop: "try_pop s = (t, Inr (Some e))"
  shows "run_ok q0 (t, lg @ [Popped e])"
proof -
  obtain lane where deq: "dequeue (fst s) = Some (fst t, lane, e)" and inv: "ingress_inv t"
    using try_pop_total [of s] ok pop by (auto simp: run_ok_def split: option.splits)
  have q: "queues_ok (fst s)" using ok by (simp add: run_ok_def ingress_inv_def)
  note facts = dequeue_lanes [OF deq q] and kind = popped_kind [OF q deq]
  have fifo: "accepted_in l (lg @ [Popped e]) = popped_in l (lg @ [Popped e]) @ lane_events l (fst t)"
    if "fifo_lane l" for l
  proof -
    have "accepted_in l lg = popped_in l lg @ lane_events l (fst s)" using ok that by (simp add: run_ok_def)
    then show ?thesis using facts kind by (cases "l = lane") simp_all
  qed
  have "length (accepted_in LANE_QUOTE lg) = length (popped_in LANE_QUOTE lg) + length (lane_events LANE_QUOTE (fst s))"
    using ok by (simp add: run_ok_def)
  then have "length (accepted_in LANE_QUOTE (lg @ [Popped e]))
      = length (popped_in LANE_QUOTE (lg @ [Popped e])) + length (lane_events LANE_QUOTE (fst t))"
    using facts kind by (cases "lane = LANE_QUOTE") simp_all
  moreover have "same_settings q0 (fst t)" using ok facts same_settings_trans by (auto simp: run_ok_def)
  ultimately show ?thesis using inv fifo facts ok by (simp add: run_ok_def use_key_def)
qed

lemma run_ok_elsewhere:
  assumes "run_ok q0 (s, lg)" and "elsewhere (snd s) mo" shows "run_ok q0 ((fst s, mo), lg)"
  using assms by (simp add: run_ok_def ingress_inv_def counters_ok_def depths_agree_def elsewhere_def)

lemma run_ok_step: "run_ok q0 x \<Longrightarrow> ingress_step x y \<Longrightarrow> run_ok q0 y"
  by (cases y rule: prod.exhaust, erule ingress_step.cases) (auto intro: run_ok_publish run_ok_pop run_ok_elsewhere)

interpretation ingress_run: state_machine ingress_step "run_ok q0" for q0
  by unfold_locales (rule run_ok_step)

text \<open>The log is never rewritten.\<close>

interpretation ingress_log: journalled_machine ingress_step "run_ok q0" snd for q0
  by unfold_locales (auto elim!: ingress_step.cases)

lemma new_ingress_ok:
  assumes "new_ingress control diagnostic quote tick dedupe burst mo = Inr s" and "mo_metrics mo = new_metrics"
  shows "run_ok (fst s) (s, [])"
proof -
  from assms(1) have pos: "0 < control" "0 < diagnostic" "0 < quote" "0 < tick" "0 < dedupe" "0 < burst"
    by (auto simp: new_ingress_def positive_setting_def err_simps)
  with assms have s: "s = (\<lparr>ig_capacities = lane_capacities control diagnostic quote tick, ig_dedupe_capacity = dedupe,
       ig_diagnostic = [], ig_control = [], ig_quotes = [], ig_ticks = [], ig_recent = [],
       ig_market_turn = LANE_QUOTE, ig_critical_turn = LANE_DIAGNOSTIC, ig_burst_limit = burst, ig_burst = 0\<rparr>,
       mo\<lparr>mo_metrics := new_metrics\<lparr>me_capacity := lane_capacities control diagnostic quote tick\<rparr>\<rparr>)"
    by (auto simp: new_ingress_def set_lane_capacity_def err_simps new_metrics_def lane_capacities_def fun_eq_iff
        split: ingress_lane.splits)
  show ?thesis
    unfolding s
    by (simp add: run_ok_def ingress_inv_def queues_ok_def counters_ok_def depths_agree_def same_settings_def
        lane_events_simps all_lanes shared_lane_def lane_capacities_def new_metrics_def dict_ok_def pos pos [THEN less_imp_le]
        fifo_lane_def)
qed

end
