(* ===== verification/Ingress_Drain.thy ===== *)
theory Ingress_Drain
  imports Ingress_Machine
begin

text \<open>
  What the users of the monitors leave alone, and the processor that drains the ingress: it pops one
  event for each accepted one, and a failure halts it with the event kept and the failure reported.
\<close>

section \<open>The other users of the monitors\<close>

definition keeps_lanes :: "(monitors, 'a) action \<Rightarrow> bool" where
  "keeps_lanes m \<longleftrightarrow> (\<forall>a. elsewhere a (fst (m a)))"

lemma elsewhere_refl: "elsewhere a a"
  by (simp add: elsewhere_def)

lemma elsewhere_trans: "elsewhere a b \<Longrightarrow> elsewhere b c \<Longrightarrow> elsewhere a c"
  by (simp add: elsewhere_def)

lemma keeps_then: "keeps_lanes m \<Longrightarrow> (\<And>x. keeps_lanes (k x)) \<Longrightarrow> keeps_lanes (abind m k)"
  unfolding keeps_lanes_def abind_def
  by (auto split: prod.splits sum.splits) (metis elsewhere_trans fst_conv)+

lemma keeps_try: "keeps_lanes m \<Longrightarrow> keeps_lanes k \<Longrightarrow> keeps_lanes (atry_runtime m k)"
  unfolding keeps_lanes_def atry_runtime_def
  by (auto split: prod.splits sum.splits) (metis elsewhere_trans fst_conv)+

lemma keeps_basic:
  "keeps_lanes (areturn x)" "keeps_lanes (on_health f)" "keeps_lanes (on_impact u)" "keeps_lanes (on_shutdown v)"
  by (auto simp: keeps_lanes_def elsewhere_def on_health_def on_impact_def on_shutdown_def split: sum.splits prod.splits)

lemma keeps_counts:
  "keeps_lanes (on_metrics (\<lambda>m. Inr (record_shutdown_request m)))"
  "keeps_lanes (on_metrics (\<lambda>m. Inr (record_processing_failure m)))"
  "keeps_lanes (on_metrics (\<lambda>m. Inr (record_storage_failure m)))"
  by (simp_all add: keeps_lanes_def elsewhere_def on_metrics_def record_shutdown_request_def
      record_processing_failure_def record_storage_failure_def)

lemma keeps_sta_counts:
  "keeps_lanes (on_metrics (record_result LANE_STA_QUOTE d sequence overflow depth))"
  "keeps_lanes (on_metrics (update_depth LANE_STA_QUOTE n))"
proof -
  have "elsewhere a (a\<lparr>mo_metrics := m\<rparr>)"
    if "record_result LANE_STA_QUOTE d sequence overflow depth (mo_metrics a) = Inr m" for a m
    using that
    by (cases d; cases depth)
      (auto simp: record_result_def Let_def elsewhere_def count_decision_def count_up_def shared_lane_def err_simps)
  then show "keeps_lanes (on_metrics (record_result LANE_STA_QUOTE d sequence overflow depth))"
    by (auto simp: keeps_lanes_def on_metrics_def elsewhere_refl split: sum.splits)
  have "elsewhere a (a\<lparr>mo_metrics := m\<rparr>)" if "update_depth LANE_STA_QUOTE n (mo_metrics a) = Inr m" for a m
    using that by (auto simp: update_depth_def elsewhere_def shared_lane_def err_simps)
  then show "keeps_lanes (on_metrics (update_depth LANE_STA_QUOTE n))"
    by (auto simp: keeps_lanes_def on_metrics_def elsewhere_refl split: sum.splits)
qed

lemmas keeps_rules = keeps_then keeps_try keeps_basic keeps_counts keeps_sta_counts

lemma keeps_request: "keeps_lanes (request_controlled_shutdown reason)"
  unfolding request_controlled_shutdown_def by (auto intro!: keeps_rules)

lemma keeps_storage: "keeps_lanes (notify_storage_failure sid)"
  unfolding notify_storage_failure_def report_failure_def by (intro keeps_rules keeps_request)

lemma keeps_sta_overflowed: "keeps_lanes (sta_overflowed sid fatal)"
  unfolding sta_overflowed_def Let_def fail_and_shutdown_def by (auto intro!: keeps_rules keeps_request)

text \<open>The queue of the apartment thread is such a user too.\<close>

definition sta_keeps :: "(sta, 'a) action \<Rightarrow> bool" where
  "sta_keeps m \<longleftrightarrow> (\<forall>s. elsewhere (snd s) (snd (fst (m s))))"

lemma sta_keeps_rules:
  "sta_keeps (areturn x)" "keeps_lanes m \<Longrightarrow> sta_keeps (on_monitors m)"
  "sta_keeps u \<Longrightarrow> (\<And>x. sta_keeps (k x)) \<Longrightarrow> sta_keeps (abind u k)"
proof -
  show "sta_keeps (areturn x)" by (simp add: sta_keeps_def elsewhere_refl)
  show "keeps_lanes m \<Longrightarrow> sta_keeps (on_monitors m)"
    by (auto simp: sta_keeps_def keeps_lanes_def on_monitors_def split: prod.splits) (metis fst_conv)
  show "sta_keeps u \<Longrightarrow> (\<And>x. sta_keeps (k x)) \<Longrightarrow> sta_keeps (abind u k)"
    unfolding sta_keeps_def abind_def
    by (auto split: prod.splits sum.splits) (metis elsewhere_trans fst_conv snd_conv)+
qed

lemma sta_keeps_from: "sta_keeps m \<Longrightarrow> elsewhere (snd s) (snd (fst (m (q, snd s))))"
  unfolding sta_keeps_def by (metis snd_conv)

lemma sta_queue_elsewhere:
  "elsewhere (snd s) (snd (fst (sta_try_publish n s)))"
  "elsewhere (snd s) (snd (fst (sta_try_pop s)))"
  "elsewhere (snd s) (snd (fst (sta_try_pop_overflow s)))"
  unfolding sta_try_publish_def sta_try_pop_def sta_try_pop_overflow_def Let_def
  by (auto split: prod.splits list.splits option.splits intro!: elsewhere_refl sta_keeps_from sta_keeps_rules
      keeps_sta_counts keeps_sta_overflowed)

section \<open>Draining\<close>

definition backlog :: "bounded_ingress \<Rightarrow> nat" where
  "backlog q = length (ig_diagnostic q) + length (ig_control q) + length (ig_quotes q) + length (ig_ticks q)"

definition failure_noted :: "captured_event \<Rightarrow> monitors \<Rightarrow> bool" where
  "failure_noted e mo \<longleftrightarrow>
     health_at_least 1 mo \<and> session_damaged (ca_session_id e) mo \<and> shutdown_requested mo"

definition plain_count :: "(ingress_metrics \<Rightarrow> ingress_metrics) \<Rightarrow> bool" where
  "plain_count f \<longleftrightarrow> (\<forall>m. same_counters m (f m))"

lemma plain_counts: "plain_count record_processing_failure" "plain_count record_storage_failure"
  by (simp_all add: plain_count_def same_counters_def record_processing_failure_def record_storage_failure_def)

lemma reports_count: "plain_count f \<Longrightarrow> reports (on_metrics (\<lambda>m. Inr (f m))) (\<lambda>_. True)"
  by (simp add: reports_def on_metrics_def monitors_grow_def plain_count_def session_damaged_def)

lemma reports_failure:
  assumes "plain_count f" and "reports (on_health health) (health_at_least 1)" and "strip reason \<noteq> []"
  shows "reports (report_failure f health (ca_session_id e) reason) (failure_noted e)"
proof -
  have "reports (report_failure f health (ca_session_id e) reason)
      (\<lambda>mo. True \<and> health_at_least 1 mo \<and> session_damaged (ca_session_id e) mo \<and> shutdown_requested mo)"
    unfolding report_failure_def
    by (intro reports_then reports_count reports_session [OF _ reports_fail [OF impact_reason]] notes_mark
        reports_shutdown lasting_facts assms)
  then show ?thesis by (rule reports_weaken) (simp add: failure_noted_def)
qed

lemma ingress_inv_grow:
  "ingress_inv (q, a) \<Longrightarrow> monitors_grow a b \<Longrightarrow> ingress_inv (q, b)"
  using same_counters_ok [of "mo_metrics a" "mo_metrics b"] by (simp add: ingress_inv_def monitors_grow_def)

text \<open>An event that was popped is processed, or it halts the processor and its failure is reported.\<close>

definition processed :: "'k processing \<Rightarrow> 'k processing \<Rightarrow> bool" where
  "processed s t \<longleftrightarrow> ps_ingress t = ps_ingress s \<and> ps_processor t = ps_processor s"

definition halted_on :: "captured_event \<Rightarrow> 'k processing \<Rightarrow> bool" where
  "halted_on e s \<longleftrightarrow> ps_processor s = \<lparr>pr_halted = True, pr_failed_event = Some e\<rparr>
     \<and> failure_noted e (snd (ps_ingress s))"

lemma failing_step:
  assumes "reports m (failure_noted e)" and "ingress_inv (ps_ingress s)"
  shows "\<exists>t. athen (amodify (halt_on e)) (athen (on_ingress (on_monitors m)) (alift (Inl x))) s = (t, Inl x)
    \<and> halted_on e t \<and> ingress_inv (ps_ingress t) \<and> fst (ps_ingress t) = fst (ps_ingress s)"
proof -
  obtain b y where b: "m (snd (ps_ingress s)) = (b, Inr y)" "monitors_grow (snd (ps_ingress s)) b" "failure_noted e b"
    using assms(1) unfolding reports_def by blast
  have "ingress_inv (fst (ps_ingress s), b)" using assms(2) ingress_inv_grow [OF _ b(2)] by simp
  with b show ?thesis
    by (simp add: abind_def on_ingress_def on_monitors_def halt_on_def alift_def halted_on_def)
qed

text \<open>Why an event may halt the processor: the pipeline refused it, or the observer failed on it.\<close>

definition refused ::
  "'k pipeline_ports \<Rightarrow> (captured_event \<Rightarrow> unit result) option \<Rightarrow> captured_event \<Rightarrow> pyexn \<Rightarrow> bool" where
  "refused p observer e x \<longleftrightarrow>
     (\<exists>pl pl'. pipeline_accept p e pl = (pl', Inl x))
     \<or> x = observer_failed \<and> (\<exists>f y. observer = Some f \<and> f e = Inl y)"

lemma processing_reasons: "strip ''ingress_processing_failure'' \<noteq> []" "strip ''accepted_event_observer_failure'' \<noteq> []"
  by code_simp+

lemma process_event_outcome:
  assumes inv: "ingress_inv (ps_ingress s)"
  shows "\<exists>t r. process_event p observer e s = (t, r) \<and> ingress_inv (ps_ingress t)
    \<and> fst (ps_ingress t) = fst (ps_ingress s)
    \<and> (r = Inr True \<and> ps_processor t = ps_processor s \<or> (\<exists>x. r = Inl x \<and> refused p observer e x) \<and> halted_on e t)"
proof -
  obtain pl r where pl: "pipeline_accept p e (ps_pipeline s) = (pl, r)" by fastforce
  let ?s = "s\<lparr>ps_pipeline := pl\<rparr>"
  have inv': "ingress_inv (ps_ingress ?s)" using inv by simp
  have weaker: "health_at_least 1 mo" if "health_at_least 2 mo" for mo using that by (simp add: health_at_least_def)
  note failed = failing_step [OF reports_failure [OF plain_counts(1)
        reports_weaken [OF reports_fail [OF processing_reasons(1)] weaker] processing_reasons(1), of e] inv']
  note degraded = failing_step [OF reports_failure [OF plain_counts(1)
        reports_degrade [OF processing_reasons(2)] processing_reasons(2), of e] inv', of observer_failed]
  show ?thesis
  proof (cases r)
    case (Inl x)
    with pl have "refused p observer e x" unfolding refused_def by blast
    with pl Inl failed [of x] show ?thesis by (simp add: process_event_def Let_def) blast
  next
    case (Inr v)
    show ?thesis
    proof (cases "case observer of None \<Rightarrow> Inr () | Some f \<Rightarrow> f e")
      case (Inl x)
      then have "refused p observer e observer_failed" by (auto simp: refused_def split: option.splits)
      with pl Inl Inr degraded show ?thesis by (simp add: process_event_def Let_def) blast
    next
      case Inr: (Inr u)
      with pl \<open>r = Inr v\<close> inv show ?thesis by (simp add: process_event_def)
    qed
  qed
qed

lemma backlog_dequeue:
  assumes "dequeue q = Some (q', lane, e)" and "queues_ok q"
  shows "backlog q = Suc (backlog q')"
proof -
  note facts = dequeue_lanes [OF assms]
  have len: "length (lane_events l q') = length (lane_events l q)" if "l \<noteq> lane" for l using facts that by simp
  show ?thesis
    using facts len [of LANE_DIAGNOSTIC] len [of LANE_CONTROL] len [of LANE_QUOTE] len [of LANE_TICK]
      length_map [of snd "ig_quotes q"] length_map [of snd "ig_quotes q'"]
    by (cases lane) (simp_all add: backlog_def lane_events_simps shared_lane_def del: length_map)
qed

lemma backlog_None: "dequeue q = None \<longleftrightarrow> backlog q = 0"
  by (auto simp: dequeue_None backlog_def critical_waiting_def market_waiting_def)

definition drain_outcome ::
  "nat \<Rightarrow> 'k pipeline_ports \<Rightarrow> (captured_event \<Rightarrow> unit result) option \<Rightarrow> 'k processing \<Rightarrow> 'k processing
     \<Rightarrow> int result \<Rightarrow> bool" where
  "drain_outcome n p observer s t r \<longleftrightarrow>
     ingress_inv (ps_ingress t)
     \<and> (r = Inr (int (min n (backlog (fst (ps_ingress s)))))
          \<and> backlog (fst (ps_ingress t)) = backlog (fst (ps_ingress s)) - n \<and> \<not> pr_halted (ps_processor t)
        \<or> (\<exists>x e. r = Inl x \<and> refused p observer e x \<and> halted_on e t \<and> backlog (fst (ps_ingress t)) < backlog (fst (ps_ingress s))))"

lemma process_one_outcome:
  assumes inv: "ingress_inv (ps_ingress s)" and run: "\<not> pr_halted (ps_processor s)"
  shows "\<exists>t r. process_one p observer s = (t, r) \<and> ingress_inv (ps_ingress t)
    \<and> (backlog (fst (ps_ingress s)) = 0 \<and> r = Inr False \<and> t = s
       \<or> backlog (fst (ps_ingress s)) = Suc (backlog (fst (ps_ingress t)))
         \<and> (r = Inr True \<and> ps_processor t = ps_processor s \<or> (\<exists>x e. r = Inl x \<and> refused p observer e x \<and> halted_on e t)))"
proof -
  obtain u r where pop: "try_pop (ps_ingress s) = (u, Inr r)" "ingress_inv u"
      "case dequeue (fst (ps_ingress s)) of None \<Rightarrow> u = ps_ingress s \<and> r = None
       | Some (q, lane, e) \<Rightarrow> fst u = q \<and> r = Some e"
    using try_pop_total [OF inv] by blast
  show ?thesis
  proof (cases "dequeue (fst (ps_ingress s))")
    case None
    with pop inv run show ?thesis by (simp add: process_one_def on_ingress_def abind_def backlog_None)
  next
    case (Some a)
    obtain q lane e where a: "a = (q, lane, e)" by (cases a)
    with Some pop have r: "r = Some e" "fst u = q" by simp_all
    have less: "backlog (fst (ps_ingress s)) = Suc (backlog (fst u))"
      using backlog_dequeue [of "fst (ps_ingress s)"] Some a r inv by (auto simp: ingress_inv_def)
    have "process_one p observer s = process_event p observer e (s\<lparr>ps_ingress := u\<rparr>)"
      using pop(1) r run by (simp add: process_one_def on_ingress_def abind_def)
    with process_event_outcome [of "s\<lparr>ps_ingress := u\<rparr>" p observer e] pop(2) less
    show ?thesis by auto
  qed
qed

lemma drain_loop_outcome:
  "ingress_inv (ps_ingress s) \<Longrightarrow> \<not> pr_halted (ps_processor s)
    \<Longrightarrow> \<exists>t r. drain_loop n p observer s = (t, r) \<and> drain_outcome n p observer s t r"
proof (induction n arbitrary: s)
  case 0
  then show ?case by (simp add: drain_outcome_def)
next
  case (Suc n)
  obtain t r where one: "process_one p observer s = (t, r)" "ingress_inv (ps_ingress t)"
    and cases: "backlog (fst (ps_ingress s)) = 0 \<and> r = Inr False \<and> t = s
       \<or> backlog (fst (ps_ingress s)) = Suc (backlog (fst (ps_ingress t)))
         \<and> (r = Inr True \<and> ps_processor t = ps_processor s \<or> (\<exists>x e. r = Inl x \<and> refused p observer e x \<and> halted_on e t))"
    using process_one_outcome [OF Suc.prems] by blast
  from cases consider (empty) "backlog (fst (ps_ingress s)) = 0" "r = Inr False" "t = s"
    | (more) "backlog (fst (ps_ingress s)) = Suc (backlog (fst (ps_ingress t)))" "r = Inr True" "ps_processor t = ps_processor s"
    | (halt) x e where "backlog (fst (ps_ingress s)) = Suc (backlog (fst (ps_ingress t)))" "r = Inl x" "refused p observer e x" "halted_on e t"
    by (elim disjE conjE exE) (rule that, assumption+)+
  then show ?case
  proof cases
    case empty
    with one Suc.prems show ?thesis by (simp add: abind_def drain_outcome_def)
  next
    case more
    with Suc.IH [OF one(2)] Suc.prems obtain u v where "drain_loop n p observer t = (u, v)" "drain_outcome n p observer t u v"
      by auto
    with more one(1) show ?thesis
      by (cases v) (auto simp: abind_def drain_outcome_def)
  next
    case halt
    with one show ?thesis by (auto simp: abind_def drain_outcome_def)
  qed
qed

end
