(* ===== verification/Ingress_Demo.thy ===== *)
theory Ingress_Demo
  imports Ingress_Drain
begin

text \<open>
  A concrete run of a small ingress, the input of the witnesses: events are admitted, coalesced, found
  again in the window and refused, the lanes fill and are drained in turns. The kernel evaluates it once.
\<close>

section \<open>Sequences of operations\<close>

text \<open>The queues decide alone what a publication or a pop returns; the monitors follow.\<close>

datatype ingress_op = Publish captured_event | Pop

fun queue_act :: "ingress_op \<Rightarrow> bounded_ingress \<times> log_entry list \<Rightarrow> (bounded_ingress \<times> log_entry list) option" where
  "queue_act (Publish e) (q, lg) =
     (if captured_event_init e = Inr e
      then (case enqueue e q of (q', Inr d) \<Rightarrow> Some (q', lg @ [Published e d]) | _ \<Rightarrow> None)
      else None)"
| "queue_act Pop (q, lg) =
     (case dequeue q of Some (q', lane, e) \<Rightarrow> Some (q', lg @ [Popped e]) | None \<Rightarrow> None)"

fun queue_trace :: "ingress_op list \<Rightarrow> bounded_ingress \<times> log_entry list \<Rightarrow> (bounded_ingress \<times> log_entry list) option" where
  "queue_trace [] x = Some x"
| "queue_trace (op # ops) x = (case queue_act op x of None \<Rightarrow> None | Some y \<Rightarrow> queue_trace ops y)"

lemma queue_act_step:
  assumes "run_ok q0 ((q, mo), lg)" and "queue_act op (q, lg) = Some (q', lg')"
  shows "\<exists>mo'. ingress_step ((q, mo), lg) ((q', mo'), lg')"
proof (cases op)
  case (Publish e)
  with assms(2) obtain d where e: "captured_event_init e = Inr e" "enqueue e q = (q', Inr d)" "lg' = lg @ [Published e d]"
    by (auto split: if_splits prod.splits sum.splits)
  from try_publish_total [OF _ e(1), of "(q, mo)"] assms(1) e(2)
  obtain mo' where "try_publish e (q, mo) = ((q', mo'), Inr d)" by (auto simp: run_ok_def)
  with e show ?thesis by (auto intro: publish_step)
next
  case Pop
  with assms(2) obtain lane e where e: "dequeue q = Some (q', lane, e)" "lg' = lg @ [Popped e]"
    by (auto split: option.splits)
  with try_pop_total [of "(q, mo)"] assms(1)
  obtain mo' where "try_pop (q, mo) = ((q', mo'), Inr (Some e))" by (auto simp: run_ok_def)
  with e show ?thesis by (auto intro: pop_step)
qed

lemma queue_trace_run:
  "run_ok q0 ((q, mo), lg) \<Longrightarrow> queue_trace ops (q, lg) = Some (q', lg')
    \<Longrightarrow> \<exists>mo'. ingress_step\<^sup>*\<^sup>* ((q, mo), lg) ((q', mo'), lg')"
proof (induction ops arbitrary: q mo lg)
  case Nil
  then show ?case by auto
next
  case (Cons op ops)
  then obtain q1 l1 where one: "queue_act op (q, lg) = Some (q1, l1)" "queue_trace ops (q1, l1) = Some (q', lg')"
    by (auto split: option.splits)
  obtain m1 where m1: "ingress_step ((q, mo), lg) ((q1, m1), l1)" using queue_act_step [OF Cons.prems(1) one(1)] by blast
  from Cons.IH [OF run_ok_step [OF Cons.prems(1) m1] one(2)] m1 show ?case
    by (meson converse_rtranclp_into_rtranclp)
qed

section \<open>The inputs\<close>

definition demo_event :: "captured_payload \<Rightarrow> int \<Rightarrow> string option \<Rightarrow> captured_event" where
  "demo_event p n key = \<lparr>ca_captured_kind = payload_kind p, ca_payload = p, ca_raw_payload = None,
     ca_source = ''capital'', ca_source_mode = LIVE, ca_session_id = UUID ''s'', ca_connection_generation = 1,
     ca_sequence = n, ca_broker_sequence = None, ca_received_at = n, ca_event_at = None,
     ca_trading_day = None, ca_metadata_version = None, ca_dedupe_candidate = key\<rparr>"

definition ingress_demo_quote :: "int \<Rightarrow> captured_event" where
  "ingress_demo_quote n = demo_event (QuoteCaptured \<lparr>cq_market_no_raw = 1, cq_stock_idx_raw = 2, cq_bid_raw = 10,
     cq_ask_raw = 11, cq_last_raw = 10, cq_bid_qty_raw = None, cq_ask_qty_raw = None, cq_last_qty_raw = None,
     cq_is_long_callback = False, cq_callback_sequence = n, cq_received_at = n\<rparr>) n None"

definition demo_tick :: "int \<Rightarrow> string option \<Rightarrow> captured_event" where
  "demo_tick n key = demo_event (TickCaptured \<lparr>ct_market_no_raw = 1, ct_stock_idx_raw = 2,
     ct_source_pointer_raw = n, ct_date_raw = 1, ct_time_hms_raw = 1, ct_time_subsecond_raw = 0, ct_bid_raw = 10,
     ct_ask_raw = 11, ct_close_raw = 10, ct_quantity_raw = 1, ct_simulate_raw = 0, ct_is_long_callback = False,
     ct_callback_sequence = n, ct_received_at = n\<rparr>) n key"

definition demo_connection :: "int \<Rightarrow> captured_event" where
  "demo_connection n = demo_event (ConnectionCaptured \<lparr>cn_broker_kind_raw = 1, cn_broker_code_raw = 2,
     cn_callback_sequence = n, cn_received_at = n\<rparr>) n None"

definition demo_monitors :: monitors where
  "demo_monitors = \<lparr>mo_health = \<lparr>ph_max_reasons = 4, ph_state = HEALTHY, ph_reasons = []\<rparr>,
     mo_metrics = new_metrics,
     mo_impact = \<lparr>it_max_sessions = 2, it_max_reasons = 4, it_sessions = [], it_capacity_exhausted = False\<rparr>,
     mo_shutdown = new_shutdown\<rparr>"

definition demo_queues :: bounded_ingress where
  "demo_queues = \<lparr>ig_capacities = lane_capacities 1 1 1 2, ig_dedupe_capacity = 2,
     ig_diagnostic = [], ig_control = [], ig_quotes = [], ig_ticks = [], ig_recent = [],
     ig_market_turn = LANE_QUOTE, ig_critical_turn = LANE_DIAGNOSTIC, ig_burst_limit = 1, ig_burst = 0\<rparr>"

text \<open>Two ticks fill their lane, with a retry between them; a third is dropped; a quote is coalesced;
  a notification fills the control lane and the next is dropped; then the lanes are popped in turns.\<close>

definition demo_ops :: "ingress_op list" where
  "demo_ops =
     [Publish (demo_tick 1 (Some ''a'')), Publish (demo_tick 2 (Some ''a'')), Publish (demo_tick 3 (Some ''b'')),
      Publish (demo_tick 4 None), Publish (ingress_demo_quote 5), Publish (ingress_demo_quote 6), Publish (demo_connection 7),
      Publish (demo_connection 8), Pop, Publish (demo_connection 9)]"

section \<open>The run\<close>

fun entry_outcome :: "log_entry \<Rightarrow> ingress_decision option \<times> int" where
  "entry_outcome (Published e d) = (Some d, ca_sequence e)"
| "entry_outcome (Popped e) = (None, ca_sequence e)"

definition demo_expected :: "bounded_ingress \<times> log_entry list \<Rightarrow> bool" where
  "demo_expected x \<longleftrightarrow>
     map entry_outcome (snd x) =
        [(Some ING_ACCEPTED, 1), (Some ING_DUPLICATE, 2), (Some ING_ACCEPTED, 3), (Some ING_DROPPED, 4),
         (Some ING_ACCEPTED, 5), (Some ING_COALESCED, 6), (Some ING_ACCEPTED, 7), (Some ING_DROPPED, 8),
         (None, 7), (Some ING_ACCEPTED, 9)]
     \<and> map ca_sequence (ig_ticks (fst x)) = [1, 3] \<and> map ca_sequence (ig_control (fst x)) = [9]
     \<and> map (ca_sequence \<circ> snd) (ig_quotes (fst x)) = [6]
     \<and> ig_diagnostic (fst x) = []
     \<and> ig_recent (fst x) = [(UUID ''s'', 1, ''a''), (UUID ''s'', 1, ''b'')]
     \<and> ig_burst (fst x) = 1"

lemma demo_evaluated:
  "case queue_trace demo_ops (demo_queues, []) of None \<Rightarrow> False | Some x \<Rightarrow> demo_expected x"
  by code_simp

definition demo_end :: bounded_ingress where
  "demo_end = fst (the (queue_trace demo_ops (demo_queues, [])))"

definition demo_log :: "log_entry list" where
  "demo_log = snd (the (queue_trace demo_ops (demo_queues, [])))"

lemma demo_traced: "queue_trace demo_ops (demo_queues, []) = Some (demo_end, demo_log)"
  "demo_expected (demo_end, demo_log)"
  using demo_evaluated by (auto simp: demo_end_def demo_log_def split: option.splits)

definition demo_first :: ingress where
  "demo_first = (demo_queues,
     demo_monitors\<lparr>mo_metrics := new_metrics\<lparr>me_capacity := lane_capacities 1 1 1 2\<rparr>\<rparr>)"

lemma demo_created: "new_ingress 1 1 1 2 2 1 demo_monitors = Inr demo_first"
  "mo_metrics demo_monitors = new_metrics"
  by (auto simp: new_ingress_def positive_setting_def set_lane_capacity_def err_simps new_metrics_def
      demo_monitors_def demo_first_def demo_queues_def lane_capacities_def fun_eq_iff split: ingress_lane.splits)

lemma demo_first_ok: "run_ok demo_queues ((demo_queues, snd demo_first), [])"
  using new_ingress_ok [OF demo_created] by (simp add: demo_first_def)

lemma ingress_demo_reached:
  obtains mo where "ingress_step\<^sup>*\<^sup>* (demo_first, []) ((demo_end, mo), demo_log)"
proof -
  from queue_trace_run [OF demo_first_ok demo_traced(1)] show thesis
    using that by (auto simp: demo_first_def)
qed

text \<open>After eight operations both kinds of events wait and the next pop returns the notification.\<close>

lemma demo_middle:
  "case queue_trace (take 8 demo_ops) (demo_queues, []) of None \<Rightarrow> False
   | Some (q, lg) \<Rightarrow> market_waiting q
       \<and> (case dequeue q of None \<Rightarrow> False
          | Some (q', lane, e) \<Rightarrow> lane_of (ca_captured_kind e) = LANE_CONTROL \<and> market_waiting q')"
  by code_simp

lemma demo_admitted:
  "captured_event_init (demo_connection 10) = Inr (demo_connection 10)"
  "captured_event_init (demo_tick 11 (Some ''b'')) = Inr (demo_tick 11 (Some ''b''))"
  by code_simp+

lemma demo_refused: "snd (enqueue (demo_connection 10) demo_end) = Inr ING_DROPPED"
  unfolding demo_end_def by code_simp

section \<open>A pipeline\<close>

definition ingress_demo_envelope :: "captured_event \<Rightarrow> int \<Rightarrow> envelope" where
  "ingress_demo_envelope e n = \<lparr>en_schema_version = 1, en_event_type = CONNECTION_STATUS,
     en_payload = ConnectionStatusPayload \<lparr>cs_state = CS_CONNECTED, cs_broker_kind_raw = Some 1,
       cs_broker_code_raw = Some 2, cs_message = None, cs_is_ready = False, cs_changed_at = ca_received_at e,
       cs_connection_generation = ca_connection_generation e\<rparr>, en_source = ca_source e, en_source_mode = ca_source_mode e,
     en_session_id = ca_session_id e, en_ingest_sequence = n,
     en_connection_generation = ca_connection_generation e, en_sequence = ca_sequence e,
     en_broker_sequence = ca_broker_sequence e, en_dedupe_key = ''k'', en_event_at = ca_event_at e,
     en_received_at = ca_received_at e, en_trading_day = ca_trading_day e,
     en_metadata_version = ca_metadata_version e, en_raw_payload = ca_raw_payload e\<rparr>"

definition demo_ports :: "envelope list pipeline_ports" where
  "demo_ports = \<lparr>pp_validate = (\<lambda>_. Inr ()), pp_build_envelope = (\<lambda>e n. Inr (ingress_demo_envelope e n)),
     pp_publish = (\<lambda>v. amodify (\<lambda>vs. vs @ [v]))\<rparr>"

end
