(* ===== verification/Ingress_Theorems.thy ===== *)
theory Ingress_Theorems
  imports Ingress_Demo
begin

text \<open>
  The properties of the ingress over every run of publications and pops, interleaved with the other
  users of the monitors, and of the processor that drains it.
\<close>

lemma ingress_from_start:
  assumes "new_ingress control diagnostic quote tick dedupe burst mo = Inr s0" and "mo_metrics mo = new_metrics"
    and "ingress_step\<^sup>*\<^sup>* (s0, []) x"
  shows "run_ok (fst s0) x"
  using ingress_run.run_inv [OF assms(3)] new_ingress_ok [OF assms(1,2)] by blast

lemma new_ingress_settings:
  assumes "new_ingress control diagnostic quote tick dedupe burst mo = Inr s0"
  shows "ig_capacities (fst s0) = lane_capacities control diagnostic quote tick"
    "ig_dedupe_capacity (fst s0) = dedupe" "ig_burst_limit (fst s0) = burst"
  using assms by (auto simp: new_ingress_def positive_setting_def err_simps)

lemma reached_settings:
  assumes "new_ingress control diagnostic quote tick dedupe burst mo = Inr s0" and "run_ok (fst s0) x"
  shows "ig_capacities (fst (fst x)) = lane_capacities control diagnostic quote tick"
    "ig_dedupe_capacity (fst (fst x)) = dedupe" "ig_burst_limit (fst (fst x)) = burst"
  using assms(2) new_ingress_settings [OF assms(1)] by (simp_all add: run_ok_def same_settings_def)

section \<open>Lanes\<close>

text \<open>In every reachable state of the ingress each lane holds at most its configured capacity, the
  published depth is the number of waiting events, every received event was counted as accepted,
  coalesced, dropped or duplicate, and the window of recent keys holds at most its capacity of
  distinct keys.\<close>

theorem ingress_stays_in_bounds:
  assumes "new_ingress control diagnostic quote tick dedupe burst mo = Inr s0" and "mo_metrics mo = new_metrics"
    and "ingress_step\<^sup>*\<^sup>* (s0, []) (s, lg)"
  shows "(\<forall>lane \<in> {LANE_DIAGNOSTIC, LANE_CONTROL, LANE_QUOTE, LANE_TICK}.
      lane_depth lane (fst s) \<le> lane_capacities control diagnostic quote tick lane
      \<and> me_depth (mo_metrics (snd s)) lane = lane_depth lane (fst s)
      \<and> me_received (mo_metrics (snd s)) lane
          = me_accepted (mo_metrics (snd s)) lane + me_coalesced (mo_metrics (snd s)) lane
            + me_dropped (mo_metrics (snd s)) lane + me_duplicates (mo_metrics (snd s)) lane)
    \<and> length (ig_recent (fst s)) \<le> nat dedupe \<and> distinct (ig_recent (fst s))"
proof -
  have ok: "run_ok (fst s0) (s, lg)" using ingress_from_start [OF assms] .
  note set = reached_settings [OF assms(1) ok]
  have recent: "ig_recent (fst s) = last_keys (nat dedupe) (used_keys (nat dedupe) lg)"
    using ok new_ingress_settings [OF assms(1)] by (simp add: run_ok_def)
  have parts: "queues_ok (fst s)" "counters_ok (mo_metrics (snd s))" "depths_agree (fst s) (mo_metrics (snd s))"
    using ok by (simp_all add: run_ok_def ingress_inv_def)
  have shared: "shared_lane lane" if "lane \<in> {LANE_DIAGNOSTIC, LANE_CONTROL, LANE_QUOTE, LANE_TICK}" for lane
    using that by (auto simp: shared_lane_def)
  show ?thesis
    unfolding recent
    by (intro conjI ballI; (drule shared)?)
      (use parts set(1) in \<open>simp_all add: queues_ok_def counters_ok_def depths_agree_def lane_depth_events last_keys_bounds\<close>)
qed

lemma ingress_stays_in_bounds_witness: "distinct (ig_recent demo_end) \<and> length (ig_recent demo_end) \<le> 2"
proof (rule ingress_demo_reached)
  fix m assume "ingress_step\<^sup>*\<^sup>* (demo_first, []) ((demo_end, m), demo_log)"
  from ingress_stays_in_bounds [OF demo_created this] show ?thesis by simp
qed



section \<open>Publishing\<close>

text \<open>C30: publishing a captured event never raises, whatever the state of the queues and the monitors;
  and if the event is refused for lack of room, no lane changes and the overflow is on record before
  the call returns: health is at least degraded, the session is marked damaged, and for the diagnostic
  and control lanes health has failed and a shutdown is requested.\<close>

theorem overflow_is_never_silent:
  assumes "new_ingress control diagnostic quote tick dedupe burst mo = Inr s0" and "mo_metrics mo = new_metrics"
    and "ingress_step\<^sup>*\<^sup>* (s0, []) (s, lg)" and "captured_event_init e = Inr e"
  shows "\<exists>t d. try_publish e s = (t, Inr d)
    \<and> (d = ING_DROPPED \<longrightarrow>
         (\<forall>lane. lane_events lane (fst t) = lane_events lane (fst s))
         \<and> ph_state (mo_health (snd t)) \<noteq> HEALTHY
         \<and> session_damaged (ca_session_id e) (snd t)
         \<and> (lane_of (ca_captured_kind e) \<in> {LANE_DIAGNOSTIC, LANE_CONTROL} \<longrightarrow>
              ph_state (mo_health (snd t)) = HEALTH_FAILED \<and> sd_reason (mo_shutdown (snd t)) \<noteq> None))"
proof -
  have "ingress_inv s" using ingress_from_start [OF assms(1-3)] by (simp add: run_ok_def)
  from try_publish_total [OF this assms(4)] obtain t d where t: "try_publish e s = (t, Inr d)"
      "lanes_after e d (fst s) (fst t)" "d = ING_DROPPED \<longrightarrow> overflow_noted (lane_of (ca_captured_kind e)) e (snd t)"
    by blast
  have lanes: "lane_events lane (fst t) = lane_events lane (fst s)" if "d = ING_DROPPED" for lane
    using t(2) that by (cases "lane = lane_of (ca_captured_kind e)") (simp_all add: lanes_after_def)
  have health: "ph_state (mo_health mo) \<noteq> HEALTHY" if "health_at_least 1 mo" for mo
    using that by (auto simp: health_at_least_def)
  have failed: "ph_state (mo_health mo) = HEALTH_FAILED" if "health_at_least 2 mo" for mo
    using that by (cases "ph_state (mo_health mo)") (simp_all add: health_at_least_def)
  have "health_at_least 1 mo" if "health_at_least 2 mo" for mo using that by (simp add: health_at_least_def)
  with t lanes health failed show ?thesis
    by (intro exI [of _ t] exI [of _ d]) (auto simp: overflow_noted_def shutdown_requested_def split: if_splits)
qed

lemma overflow_is_never_silent_witness:
  "\<exists>m t. try_publish (demo_connection 10) (demo_end, m) = (t, Inr ING_DROPPED)
     \<and> ph_state (mo_health (snd t)) = HEALTH_FAILED \<and> sd_reason (mo_shutdown (snd t)) \<noteq> None"
proof (rule ingress_demo_reached)
  fix m assume run: "ingress_step\<^sup>*\<^sup>* (demo_first, []) ((demo_end, m), demo_log)"
  then have "ingress_inv (demo_end, m)" using ingress_from_start [OF demo_created] by (auto simp: run_ok_def)
  from try_publish_total [OF this demo_admitted(1)] demo_refused
  obtain u where "try_publish (demo_connection 10) (demo_end, m) = (u, Inr ING_DROPPED)" by auto
  with overflow_is_never_silent [OF demo_created run demo_admitted(1)] show ?thesis
    by (auto simp: demo_connection_def demo_event_def)
qed

text \<open>C32: the window that recognises retries, kept by moving keys to the end and trimming the front, is
  the reference: the last \<open>dedupe_capacity\<close> distinct keys used so far. An event whose key is among them
  is answered as a duplicate and no lane changes.\<close>

theorem window_is_reference:
  assumes "new_ingress control diagnostic quote tick dedupe burst mo = Inr s0" and "mo_metrics mo = new_metrics"
    and "ingress_step\<^sup>*\<^sup>* (s0, []) (s, lg)" and "captured_event_init e = Inr e" and "dedupe_key_of e = Some k"
  shows "ig_recent (fst s) = last_keys (nat dedupe) (used_keys (nat dedupe) lg)
    \<and> (k \<in> set (last_keys (nat dedupe) (used_keys (nat dedupe) lg)) \<longrightarrow>
         (\<exists>t. try_publish e s = (t, Inr ING_DUPLICATE)
            \<and> (\<forall>lane. lane_events lane (fst t) = lane_events lane (fst s))))"
proof -
  have ok: "run_ok (fst s0) (s, lg)" using ingress_from_start [OF assms(1-3)] .
  have recent: "ig_recent (fst s) = last_keys (nat dedupe) (used_keys (nat dedupe) lg)"
    using ok new_ingress_settings [OF assms(1)] by (simp add: run_ok_def)
  have "ingress_inv s" using ok by (simp add: run_ok_def)
  from try_publish_total [OF this assms(4)] obtain t d where t: "try_publish e s = (t, Inr d)"
      "enqueue e (fst s) = (fst t, Inr d)" "lanes_after e d (fst s) (fst t)" by blast
  have "d = ING_DUPLICATE" if "k \<in> set (ig_recent (fst s))"
    using t(2) that assms(5) by (simp add: enqueue_def)
  moreover have "lane_events lane (fst t) = lane_events lane (fst s)" if "d = ING_DUPLICATE" for lane
    using t(3) that by (cases "lane = lane_of (ca_captured_kind e)") (simp_all add: lanes_after_def)
  ultimately show ?thesis using recent t(1) by auto
qed

lemma window_is_reference_witness:
  "\<exists>m t. try_publish (demo_tick 11 (Some ''b'')) (demo_end, m) = (t, Inr ING_DUPLICATE)"
proof (rule ingress_demo_reached)
  fix m assume run: "ingress_step\<^sup>*\<^sup>* (demo_first, []) ((demo_end, m), demo_log)"
  have "dedupe_key_of (demo_tick 11 (Some ''b'')) = Some (UUID ''s'', 1, ''b'')"
    by (simp add: dedupe_key_of_def demo_tick_def demo_event_def)
  from window_is_reference [OF demo_created run demo_admitted(2) this] demo_traced(2) show ?thesis
    by (auto simp: demo_expected_def)
qed

section \<open>Popping\<close>

text \<open>Runs in which market events wait: \<open>market_waits k x y\<close> leads from \<open>x\<close> to \<open>y\<close> with \<open>k\<close> pops of a
  critical event past a waiting market event, and no pop of a market event.\<close>

inductive market_waits :: "nat \<Rightarrow> logged_ingress \<Rightarrow> logged_ingress \<Rightarrow> bool" where
  waits_none: "market_waits 0 x x"
| waits_other:
    "market_waits k x y \<Longrightarrow> ingress_step y z \<Longrightarrow> \<forall>e. snd z \<noteq> snd y @ [Popped e] \<Longrightarrow> market_waits k x z"
| waits_pop:
    "market_waits k x y \<Longrightarrow> market_waiting (fst (fst y)) \<Longrightarrow> ingress_step y z \<Longrightarrow> snd z = snd y @ [Popped e]
      \<Longrightarrow> lane_of (ca_captured_kind e) \<in> {LANE_DIAGNOSTIC, LANE_CONTROL} \<Longrightarrow> market_waits (Suc k) x z"

lemma pop_facts:
  assumes "run_ok q0 (s, lg)" and "try_pop s = (t, Inr (Some e))"
  shows "\<exists>lane. dequeue (fst s) = Some (fst t, lane, e) \<and> lane = lane_of (ca_captured_kind e)
    \<and> ig_burst (fst t)
        = (if lane \<in> {LANE_QUOTE, LANE_TICK} then 0 else min (ig_burst (fst s) + 1) (ig_burst_limit (fst s)))
    \<and> (lane \<in> {LANE_DIAGNOSTIC, LANE_CONTROL} \<and> market_waiting (fst s) \<longrightarrow> ig_burst (fst s) < ig_burst_limit (fst s))"
proof -
  obtain lane where deq: "dequeue (fst s) = Some (fst t, lane, e)"
    using try_pop_total [of s] assms by (auto simp: run_ok_def split: option.splits)
  have q: "queues_ok (fst s)" using assms(1) by (simp add: run_ok_def ingress_inv_def)
  show ?thesis using dequeue_lanes [OF deq q] popped_kind [OF q deq] deq by blast
qed

lemma market_waits_burst:
  "market_waits k x y \<Longrightarrow> run_ok q0 x \<Longrightarrow> run_ok q0 y \<and> int k \<le> ig_burst (fst (fst y))"
proof (induction rule: market_waits.induct)
  case (waits_none x)
  then show ?case by (simp add: run_ok_def ingress_inv_def queues_ok_def)
next
  case (waits_other k x y z)
  then have y: "run_ok q0 y" "int k \<le> ig_burst (fst (fst y))" by auto
  have z: "run_ok q0 z" using run_ok_step [OF y(1) waits_other.hyps(2)] .
  have "ig_burst (fst (fst z)) = ig_burst (fst (fst y))"
    using waits_other.hyps(2,3) y(1)
  proof cases
    case (publish_step e s t d lg)
    then show ?thesis
      using try_publish_total [OF _ publish_step(3), of s] y(1) by (auto simp: run_ok_def lanes_after_def)
  qed (use waits_other.hyps(3) in auto)
  with y(2) z show ?case by simp
next
  case (waits_pop k x y z e)
  then have y: "run_ok q0 y" "int k \<le> ig_burst (fst (fst y))" by auto
  have z: "run_ok q0 z" using run_ok_step [OF y(1) waits_pop.hyps(3)] .
  from waits_pop.hyps(3,4) obtain s t lg where st: "y = (s, lg)" "z = (t, lg @ [Popped e])" "try_pop s = (t, Inr (Some e))"
    by cases auto
  from pop_facts [OF y(1) [unfolded st(1)] st(3)] waits_pop.hyps(2,5) st y(2)
  have "int (Suc k) \<le> ig_burst (fst t)" by auto
  with z st show ?case by simp
qed

text \<open>C33: market data is not starved: between two pops of market events at most
  \<open>priority_burst_limit\<close> critical events are popped while market data waits, however many critical
  events are published meanwhile, and once that many were popped the next pop returns a market event.\<close>

theorem market_is_served:
  assumes "new_ingress control diagnostic quote tick dedupe burst mo = Inr s0" and "mo_metrics mo = new_metrics"
    and "ingress_step\<^sup>*\<^sup>* (s0, []) x" and "market_waits k x (s, lg)"
  shows "int k \<le> burst
    \<and> (int k = burst \<and> market_waiting (fst s) \<longrightarrow>
         (\<exists>t e. try_pop s = (t, Inr (Some e)) \<and> lane_of (ca_captured_kind e) \<in> {LANE_QUOTE, LANE_TICK}))"
proof -
  have x: "run_ok (fst s0) x" using ingress_from_start [OF assms(1-3)] .
  from market_waits_burst [OF assms(4) x] have ok: "run_ok (fst s0) (s, lg)" and k: "int k \<le> ig_burst (fst s)" by auto
  have burst: "ig_burst (fst s) \<le> burst" "ig_burst_limit (fst s) = burst"
    using ok reached_settings(3) [OF assms(1) ok] by (simp_all add: run_ok_def ingress_inv_def queues_ok_def)
  have next_pop: "\<exists>t e. try_pop s = (t, Inr (Some e)) \<and> lane_of (ca_captured_kind e) \<in> {LANE_QUOTE, LANE_TICK}"
    if full: "int k = burst" and waiting: "market_waiting (fst s)"
  proof -
    obtain t r where t: "try_pop s = (t, Inr r)" "r \<noteq> None"
      using try_pop_total [of s] ok waiting dequeue_None [of "fst s"] by (auto simp: run_ok_def split: option.splits)
    then obtain e where r: "r = Some e" by auto
    from pop_facts [OF ok t(1) [unfolded r]] full waiting k burst
    have "lane_of (ca_captured_kind e) \<notin> {LANE_DIAGNOSTIC, LANE_CONTROL}" by auto
    then have "lane_of (ca_captured_kind e) \<in> {LANE_QUOTE, LANE_TICK}"
      using lane_of_shared [of "ca_captured_kind e"] by (cases "lane_of (ca_captured_kind e)") auto
    with t r show ?thesis by blast
  qed
  show ?thesis using k burst next_pop by auto
qed

text \<open>In the run of the example one notification was popped past waiting market data.\<close>

lemma market_is_served_witness:
  "\<exists>x s lg t e. market_waits 1 x (s, lg) \<and> try_pop s = (t, Inr (Some e))
     \<and> lane_of (ca_captured_kind e) \<in> {LANE_QUOTE, LANE_TICK}"
proof -
  obtain q lg q' lane e where mid: "queue_trace (take 8 demo_ops) (demo_queues, []) = Some (q, lg)"
    "market_waiting q" "dequeue q = Some (q', lane, e)" "lane_of (ca_captured_kind e) = LANE_CONTROL" "market_waiting q'"
    using demo_middle by (auto split: option.splits)
  obtain m where m: "ingress_step\<^sup>*\<^sup>* (demo_first, []) ((q, m), lg)"
    using queue_trace_run [OF demo_first_ok mid(1)] by (auto simp: demo_first_def)
  have ok: "run_ok (fst demo_first) ((q, m), lg)" using ingress_from_start [OF demo_created m] .
  obtain m' where step: "ingress_step ((q, m), lg) ((q', m'), lg @ [Popped e])"
    using queue_act_step [OF ok, of Pop] mid(3) by auto
  have "market_waits (Suc 0) ((q, m), lg) ((q', m'), lg @ [Popped e])"
    by (rule waits_pop [OF waits_none _ step, where e = e]) (use mid in simp_all)
  then have waits: "market_waits 1 ((q, m), lg) ((q', m'), lg @ [Popped e])" by simp
  from market_is_served [OF demo_created m this] mid(5)
  have "\<exists>t e. try_pop (q', m') = (t, Inr (Some e)) \<and> lane_of (ca_captured_kind e) \<in> {LANE_QUOTE, LANE_TICK}"
    by simp
  with waits show ?thesis by blast
qed

section \<open>Draining\<close>



end
