(* ===== verification/Event_Mapper.thy ===== *)
theory Event_Mapper
  imports Captured_Events
begin

text \<open>
  The production mapper of \<open>market_data/event_mapper.py\<close>: from a captured event and its ingest sequence to
  the envelope that is stored and replayed. Prices, quantities and times are copied, never guessed.
\<close>

section \<open>Base 64\<close>

definition b64_char :: "int \<Rightarrow> char" where
  "b64_char n = ''ABCDEFGHIJKLMNOPQRSTUVWXYZabcdefghijklmnopqrstuvwxyz0123456789+/'' ! nat n"

text \<open>\<open>base64.b64encode (b).decode ('ascii')\<close>; a byte is a \<open>char\<close>.\<close>

fun b64encode :: "string \<Rightarrow> string" where
  "b64encode [] = []"
| "b64encode [a] =
     (let n = (of_char a :: int) in [b64_char (n div 4), b64_char (n mod 4 * 16), CHR ''='', CHR ''=''])"
| "b64encode [a, b] =
     (let n = (of_char a :: int); m = (of_char b :: int)
      in [b64_char (n div 4), b64_char (n mod 4 * 16 + m div 16), b64_char (m mod 16 * 4), CHR ''=''])"
| "b64encode (a # b # c # bs) =
     (let n = (of_char a :: int); m = (of_char b :: int); k = (of_char c :: int)
      in [b64_char (n div 4), b64_char (n mod 4 * 16 + m div 16), b64_char (m mod 16 * 4 + k div 64),
          b64_char (k mod 64)] @ b64encode bs)"

section \<open>Identities\<close>

definition connection_state_of :: "int \<Rightarrow> connection_state \<times> bool" where
  "connection_state_of kind =
     (if kind = 3001 then (CS_CONNECTED, False)
      else if kind = 3002 then (CS_DISCONNECTED, False)
      else if kind = 3003 then (CS_STOCKS_READY, True)
      else (CS_ERROR, False))"

definition stock_list_message :: string where
  "stock_list_message = ''stock list retained as raw notification''"

definition synthetic_id :: "captured_event \<Rightarrow> int \<Rightarrow> int \<Rightarrow> string" where
  "synthetic_id e market_no stock_idx =
     ''synthetic:'' @ ca_source e @ '':'' @ show_int market_no @ '':'' @ show_int stock_idx"

definition mapped_dedupe_key :: "hashes \<Rightarrow> captured_event \<Rightarrow> event_type \<Rightarrow> int list \<Rightarrow> string" where
  "mapped_dedupe_key h e kind identity =
     event_kind_value kind @ '':sha256:'' @ sha256_hex h (utf8 (json_dumps False (JArr
       [JStr (ca_source e), json_uuid (ca_session_id e), JInt (ca_connection_generation e),
        JStr (event_kind_value kind), JArr (map JInt identity)])))"

section \<open>Mapping\<close>

definition mapper_validate :: "captured_event \<Rightarrow> unit result" where
  "mapper_validate e =
     require (\<not> (ca_captured_kind e \<in> {CAPTURED_DIAGNOSTIC, STOCK_LIST_NOTIFICATION}
                 \<and> (ca_event_at e \<noteq> None \<or> ca_trading_day e \<noteq> None)))
       (ValueError ''diagnostic capture must not carry event time metadata'')"

definition map_connection :: "captured_event \<Rightarrow> captured_connection \<Rightarrow> connection_status" where
  "map_connection e p =
     (let (state, ready) = connection_state_of (cn_broker_kind_raw p) in
      \<lparr>cs_state = state, cs_broker_kind_raw = Some (cn_broker_kind_raw p),
       cs_broker_code_raw = Some (cn_broker_code_raw p), cs_message = None,
       cs_is_ready = (ready \<and> cn_broker_code_raw p = 0),
       cs_changed_at = (case ca_event_at e of None \<Rightarrow> ca_received_at e | Some t \<Rightarrow> t),
       cs_connection_generation = ca_connection_generation e\<rparr>)"

definition map_server_time :: "captured_event \<Rightarrow> captured_server_time \<Rightarrow> server_time" where
  "map_server_time e p =
     \<lparr>st_event_at = ca_event_at e, st_hour_raw = cs_hour_raw p, st_minute_raw = cs_minute_raw p,
      st_second_raw = cs_second_raw p, st_total_raw = cs_total_raw p, st_received_at = cs_received_at p,
      st_trading_day = ca_trading_day e\<rparr>"

definition map_quote :: "captured_event \<Rightarrow> captured_quote \<Rightarrow> quote" where
  "map_quote e p =
     \<lparr>qu_instrument_id = synthetic_id e (cq_market_no_raw p) (cq_stock_idx_raw p),
      qu_market_no_raw = cq_market_no_raw p, qu_stock_idx_raw = cq_stock_idx_raw p,
      qu_bid_raw = cq_bid_raw p, qu_ask_raw = cq_ask_raw p, qu_last_raw = cq_last_raw p,
      qu_bid_normalized = None, qu_ask_normalized = None, qu_last_normalized = None,
      qu_bid_qty_raw = cq_bid_qty_raw p, qu_ask_qty_raw = cq_ask_qty_raw p,
      qu_last_qty_raw = cq_last_qty_raw p, qu_event_at = ca_event_at e, qu_received_at = cq_received_at p,
      qu_trading_day = ca_trading_day e, qu_is_simulated = None,
      qu_is_long_callback = cq_is_long_callback p, qu_price_scale = None\<rparr>"

definition map_tick :: "captured_event \<Rightarrow> captured_tick \<Rightarrow> tick" where
  "map_tick e p =
     \<lparr>tk_instrument_id = synthetic_id e (ct_market_no_raw p) (ct_stock_idx_raw p),
      tk_market_no_raw = ct_market_no_raw p, tk_stock_idx_raw = ct_stock_idx_raw p,
      tk_source_pointer_raw = ct_source_pointer_raw p, tk_date_raw = ct_date_raw p,
      tk_time_hms_raw = ct_time_hms_raw p, tk_time_subsecond_raw = ct_time_subsecond_raw p,
      tk_bid_raw = ct_bid_raw p, tk_ask_raw = ct_ask_raw p, tk_close_raw = ct_close_raw p,
      tk_bid_normalized = None, tk_ask_normalized = None, tk_close_normalized = None,
      tk_quantity_raw = ct_quantity_raw p, tk_quantity_normalized = None,
      tk_simulate_raw = ct_simulate_raw p, tk_is_simulated = None, tk_event_at = ca_event_at e,
      tk_received_at = ct_received_at p, tk_trading_day = ca_trading_day e,
      tk_is_long_callback = ct_is_long_callback p, tk_price_scale = None, tk_quantity_scale = None\<rparr>"

definition raw_list_json :: "raw_list \<Rightarrow> json" where
  "raw_list_json r =
     (case r of RawText s \<Rightarrow> JStr s
      | RawBytes b \<Rightarrow> JObj [(''encoding'', JStr ''base64''), (''data'', JStr (b64encode b))])"

definition map_stock_list :: "captured_event \<Rightarrow> captured_stock_list \<Rightarrow> adapter_diagnostic" where
  "map_stock_list e p =
     \<lparr>ad_diagnostic_kind = ''stock_list_parse_failure'', ad_market_no_raw = Some (sl_market_no_raw p),
      ad_stock_idx_raw = None, ad_error_code_raw = None, ad_message = stock_list_message,
      ad_received_at = sl_received_at p, ad_attempt = 1,
      ad_connection_generation = ca_connection_generation e, ad_callback_sequence = sl_callback_sequence p,
      ad_raw_notification = [(''market_no_raw'', JInt (sl_market_no_raw p)),
                             (''stock_list_raw'', raw_list_json (sl_stock_list_raw p))]\<rparr>"

definition map_diagnostic :: "captured_event \<Rightarrow> captured_diagnostic \<Rightarrow> adapter_diagnostic" where
  "map_diagnostic e p = p\<lparr>ad_connection_generation := ca_connection_generation e\<rparr>"

text \<open>The payload, and the identity the dedupe key of a payload other than a diagnostic is taken from.\<close>

definition map_payload :: "captured_event \<Rightarrow> (domain_payload \<times> int list) result" where
  "map_payload e =
     (case ca_payload e of
        ConnectionCaptured p \<Rightarrow>
          ebind (connection_status_init (map_connection e p)) (\<lambda>s.
          Inr (ConnectionStatusPayload s, [cn_broker_kind_raw p, cn_broker_code_raw p, ca_sequence e]))
      | ServerTimeCaptured p \<Rightarrow>
          ebind (server_time_init (map_server_time e p)) (\<lambda>s.
          Inr (ServerTimePayload s, [cs_hour_raw p, cs_minute_raw p, cs_second_raw p, cs_total_raw p, ca_sequence e]))
      | QuoteCaptured p \<Rightarrow>
          ebind (quote_init (map_quote e p)) (\<lambda>q.
          Inr (QuotePayload q, [cq_market_no_raw p, cq_stock_idx_raw p, cq_callback_sequence p]))
      | TickCaptured p \<Rightarrow>
          ebind (tick_init (map_tick e p)) (\<lambda>t.
          Inr (TickPayload t,
               [ct_market_no_raw p, ct_stock_idx_raw p, ct_source_pointer_raw p, ct_callback_sequence p]))
      | StockListCaptured p \<Rightarrow>
          ebind (adapter_diagnostic_init (map_stock_list e p)) (\<lambda>d. Inr (AdapterDiagnosticPayload d, []))
      | DiagnosticCaptured p \<Rightarrow>
          ebind (adapter_diagnostic_init (map_diagnostic e p)) (\<lambda>d. Inr (AdapterDiagnosticPayload d, [])))"

definition payload_dedupe_key :: "hashes \<Rightarrow> captured_event \<Rightarrow> domain_payload \<Rightarrow> int list \<Rightarrow> string result" where
  "payload_dedupe_key h e payload identity =
     (case payload of
        AdapterDiagnosticPayload d \<Rightarrow>
          build_adapter_diagnostic_dedupe_key h (ca_source e) (ca_session_id e) (ca_connection_generation e)
            (ad_diagnostic_kind d) (ad_callback_sequence d) (ad_attempt d)
      | _ \<Rightarrow> Inr (mapped_dedupe_key h e (payload_event_type payload) identity))"

definition build_envelope :: "hashes \<Rightarrow> captured_event \<Rightarrow> int \<Rightarrow> envelope result" where
  "build_envelope h e ingest_sequence =
     ethen (mapper_validate e) (
     ebind (map_payload e) (\<lambda>(payload, identity).
     ebind (payload_dedupe_key h e payload identity) (\<lambda>key.
     envelope_init
       \<lparr>en_schema_version = 1, en_event_type = payload_event_type payload, en_payload = payload,
        en_source = ca_source e, en_source_mode = ca_source_mode e, en_session_id = ca_session_id e,
        en_ingest_sequence = ingest_sequence, en_connection_generation = ca_connection_generation e,
        en_sequence = ca_sequence e, en_broker_sequence = ca_broker_sequence e, en_dedupe_key = key,
        en_event_at = ca_event_at e, en_received_at = ca_received_at e, en_trading_day = ca_trading_day e,
        en_metadata_version = ca_metadata_version e, en_raw_payload = ca_raw_payload e\<rparr>)))"

section \<open>The mapper is total and lossless\<close>

text \<open>What the constructors of the payloads guarantee of a captured event.\<close>

definition payload_valid :: "captured_payload \<Rightarrow> bool" where
  "payload_valid p =
     (case p of
        QuoteCaptured q \<Rightarrow> captured_quote_init q = Inr q
      | TickCaptured t \<Rightarrow> captured_tick_init t = Inr t
      | ConnectionCaptured c \<Rightarrow> captured_connection_init c = Inr c
      | ServerTimeCaptured s \<Rightarrow> captured_server_time_init s = Inr s
      | StockListCaptured s \<Rightarrow> captured_stock_list_init s = Inr s
      | DiagnosticCaptured d \<Rightarrow> adapter_diagnostic_init d = Inr d)"

definition capture_ok :: "captured_event \<Rightarrow> bool" where
  "capture_ok e \<longleftrightarrow> captured_event_init e = Inr e \<and> payload_valid (ca_payload e) \<and> mapper_validate e = Inr ()"

lemma strip_not_Nil: "strip s \<noteq> [] \<longleftrightarrow> (\<exists>c\<in>set s. \<not> is_space c)"
proof (cases "dropWhile is_space s")
  case Nil
  then have "strip s = []" by (simp only: strip_def rev.simps dropWhile.simps)
  moreover have "\<forall>c\<in>set s. is_space c" using Nil by (simp add: dropWhile_eq_Nil_conv)
  ultimately show ?thesis by blast
next
  case (Cons c cs)
  then have "\<not> is_space c" "c \<in> set s"
    by (simp_all add: dropWhile_eq_Cons_conv) (metis Cons list.set_intros(1) set_dropWhileD)
  with Cons show ?thesis by (auto simp: strip_def dropWhile_eq_Nil_conv)
qed

lemmas check_simps = md_nonnegative_def md_positive_def md_strict_str_def require_eq_Inr ebind_eq_Inr
  optionally_eq_Inr

lemma capture_fields:
  assumes "captured_event_init e = Inr e"
  shows "ca_captured_kind e = payload_kind (ca_payload e)" "strip (ca_source e) \<noteq> []"
    "0 \<le> ca_connection_generation e" "0 \<le> ca_sequence e"
    "optionally (md_nonnegative ''broker_sequence'') (ca_broker_sequence e) = Inr ()"
    "optionally (md_positive ''metadata_version'') (ca_metadata_version e) = Inr ()"
    "payload_received_at (ca_payload e) = ca_received_at e"
    "payload_callback_sequence (ca_payload e) = ca_sequence e"
    "\<And>d. ca_payload e = DiagnosticCaptured d \<Longrightarrow> ad_connection_generation d = ca_connection_generation e"
  using assms by (auto simp: captured_event_init_def check_simps)

lemma synthetic_id_text: "strip (synthetic_id e m i) \<noteq> []"
  unfolding strip_not_Nil by (intro bexI [of _ "CHR ''s''"]) (simp_all add: synthetic_id_def is_space_def)

lemma key_text: "strip (event_kind_value kind @ '':sha256:'' @ s) \<noteq> []"
  unfolding strip_not_Nil by (intro bexI [of _ "CHR '':''"]) (simp_all add: is_space_def)

lemma mapped_key_text: "strip (mapped_dedupe_key h e kind ids) \<noteq> []"
  unfolding mapped_dedupe_key_def by (rule key_text)

lemma diagnostic_key_text: "strip (''adapter_diagnostic:sha256:'' @ s) \<noteq> []"
  unfolding strip_not_Nil by (intro bexI [of _ "CHR '':''"]) (simp_all add: is_space_def)

lemma no_scale [simp]: "validate_normalized name raw None None = Inr ()"
  by (simp add: validate_normalized_def validate_scale_def)

lemma optionally_ok: "optionally check v = Inr () \<longleftrightarrow> (\<forall>x. v = Some x \<longrightarrow> check x = Inr ())"
  by (cases v) simp_all

text \<open>The payload of an admitted event passes its constructor and fits the envelope.\<close>

definition payload_fits :: "captured_event \<Rightarrow> domain_payload \<Rightarrow> bool" where
  "payload_fits e p \<longleftrightarrow>
     (case p of
        ConnectionStatusPayload s \<Rightarrow>
          (ca_event_at e = None \<or> ca_event_at e = Some (cs_changed_at s))
          \<and> ca_connection_generation e = cs_connection_generation s
      | ServerTimePayload s \<Rightarrow>
          ca_received_at e = st_received_at s \<and> ca_event_at e = st_event_at s \<and> ca_trading_day e = st_trading_day s
      | InstrumentPayload i \<Rightarrow> False
      | QuotePayload q \<Rightarrow>
          ca_received_at e = qu_received_at q \<and> ca_event_at e = qu_event_at q \<and> ca_trading_day e = qu_trading_day q
      | TickPayload t \<Rightarrow>
          ca_received_at e = tk_received_at t \<and> ca_event_at e = tk_event_at t \<and> ca_trading_day e = tk_trading_day t
      | AdapterDiagnosticPayload d \<Rightarrow>
          adapter_diagnostic_init d = Inr d \<and> ca_received_at e = ad_received_at d
          \<and> ca_connection_generation e = ad_connection_generation d \<and> ca_sequence e = ad_callback_sequence d
          \<and> ca_event_at e = None \<and> ca_trading_day e = None)"

lemma map_payload_total:
  assumes ok: "capture_ok e"
  shows "\<exists>p ids. map_payload e = Inr (p, ids) \<and> payload_fits e p"
proof -
  from ok have ev: "captured_event_init e = Inr e" and valid: "payload_valid (ca_payload e)"
    and time: "mapper_validate e = Inr ()" by (simp_all add: capture_ok_def)
  note f = capture_fields [OF ev]
  show ?thesis
  proof (cases "ca_payload e")
    case (QuoteCaptured q)
    then have "quote_init (map_quote e q) = Inr (map_quote e q)"
      using valid synthetic_id_text
      by (auto simp: payload_valid_def captured_quote_init_def quote_init_def map_quote_def check_simps)
    with QuoteCaptured f(7) show ?thesis by (simp add: map_payload_def payload_fits_def map_quote_def)
  next
    case (TickCaptured t)
    then have "tick_init (map_tick e t) = Inr (map_tick e t)"
      using valid synthetic_id_text
      by (auto simp: payload_valid_def captured_tick_init_def tick_init_def map_tick_def check_simps)
    with TickCaptured f(7) show ?thesis by (simp add: map_payload_def payload_fits_def map_tick_def)
  next
    case (ConnectionCaptured c)
    have "connection_status_init (map_connection e c) = Inr (map_connection e c)"
      using f(3) by (simp add: connection_status_init_def map_connection_def md_nonnegative_def split: prod.splits)
    with ConnectionCaptured show ?thesis
      by (simp add: map_payload_def payload_fits_def map_connection_def split: prod.splits option.splits)
  next
    case (ServerTimeCaptured s)
    then have "server_time_init (map_server_time e s) = Inr (map_server_time e s)"
      using valid by (auto simp: payload_valid_def captured_server_time_init_def server_time_init_def map_server_time_def check_simps)
    with ServerTimeCaptured f(7) show ?thesis by (simp add: map_payload_def payload_fits_def map_server_time_def)
  next
    case (StockListCaptured l)
    have no_time: "ca_event_at e = None" "ca_trading_day e = None"
      using time f(1) StockListCaptured by (simp_all add: mapper_validate_def require_eq_Inr)
    have "strip stock_list_message \<noteq> []" "length stock_list_message \<le> 1024" "strip ''stock_list_parse_failure'' \<noteq> []"
      by code_simp+
    then have "adapter_diagnostic_init (map_stock_list e l) = Inr (map_stock_list e l)"
      using valid f(3) StockListCaptured
      by (auto simp: payload_valid_def captured_stock_list_init_def adapter_diagnostic_init_def map_stock_list_def
          diagnostic_kinds_def check_simps)
    with StockListCaptured no_time f(7,8) show ?thesis
      by (simp add: map_payload_def payload_fits_def map_stock_list_def)
  next
    case (DiagnosticCaptured d)
    have no_time: "ca_event_at e = None" "ca_trading_day e = None"
      using time f(1) DiagnosticCaptured by (simp_all add: mapper_validate_def require_eq_Inr)
    have "map_diagnostic e d = d" using f(9) DiagnosticCaptured by (simp add: map_diagnostic_def)
    with DiagnosticCaptured valid no_time f(7-9) show ?thesis
      by (simp add: map_payload_def payload_fits_def payload_valid_def)
  qed
qed

lemma payload_key_total:
  assumes "capture_ok e" and "payload_fits e p"
  shows "\<exists>k. payload_dedupe_key h e p ids = Inr k \<and> strip k \<noteq> []"
proof -
  have f: "strip (ca_source e) \<noteq> []" "0 \<le> ca_connection_generation e"
    using capture_fields(2,3) assms(1) by (simp_all add: capture_ok_def)
  show ?thesis
  proof (cases p)
    case (AdapterDiagnosticPayload d)
    with assms(2) f show ?thesis
      using diagnostic_key_text
      by (auto simp: payload_dedupe_key_def payload_fits_def adapter_diagnostic_init_def
          build_adapter_diagnostic_dedupe_key_def check_simps)
  qed (simp_all add: payload_dedupe_key_def mapped_key_text)
qed

lemma envelope_of_payload:
  assumes ok: "capture_ok e" and fits: "payload_fits e p" and key: "strip k \<noteq> []" and n: "0 \<le> n"
    and v: "v = \<lparr>en_schema_version = 1, en_event_type = payload_event_type p, en_payload = p,
        en_source = ca_source e, en_source_mode = ca_source_mode e, en_session_id = ca_session_id e,
        en_ingest_sequence = n, en_connection_generation = ca_connection_generation e,
        en_sequence = ca_sequence e, en_broker_sequence = ca_broker_sequence e, en_dedupe_key = k,
        en_event_at = ca_event_at e, en_received_at = ca_received_at e, en_trading_day = ca_trading_day e,
        en_metadata_version = ca_metadata_version e, en_raw_payload = ca_raw_payload e\<rparr>"
  shows "envelope_init v = Inr v"
proof -
  have "captured_event_init e = Inr e" using ok by (simp add: capture_ok_def)
  note f = capture_fields [OF this]
  have "validate_metadata_mapping v = Inr ()"
    using fits by (cases p) (auto simp: v validate_metadata_mapping_def timed_payload_ok_def payload_fits_def)
  then show ?thesis
    using f(2-6) key n by (simp add: envelope_init_def v md_strict_str_def md_nonnegative_def)
qed

theorem build_envelope_total:
  assumes ok: "capture_ok e" and n: "0 \<le> n"
  shows "\<exists>v. build_envelope h e n = Inr v \<and> envelope_init v = Inr v \<and> en_ingest_sequence v = n
    \<and> map_payload e = Inr (en_payload v, snd (projr (map_payload e)))"
proof -
  obtain p ids where p: "map_payload e = Inr (p, ids)" "payload_fits e p" using map_payload_total [OF ok] by blast
  obtain k where k: "payload_dedupe_key h e p ids = Inr k" "strip k \<noteq> []"
    using payload_key_total [OF ok p(2)] by blast
  have "mapper_validate e = Inr ()" using ok by (simp add: capture_ok_def)
  with p k envelope_of_payload [OF ok p(2) k(2) n refl] show ?thesis by (simp add: build_envelope_def)
qed

end
