(* ===== verification/Capture_Pipeline.thy ===== *)
theory Capture_Pipeline
  imports Event_Mapper Ingress_Processor
begin

text \<open>
  The pipeline with the production mapper: what reaches the sink for a sequence of captured events.
\<close>

definition capture_ports :: "hashes \<Rightarrow> (envelope \<Rightarrow> ('k, unit) action) \<Rightarrow> 'k pipeline_ports" where
  "capture_ports h publish =
     \<lparr>pp_validate = mapper_validate, pp_build_envelope = build_envelope h, pp_publish = publish\<rparr>"

text \<open>The events accepted one after the other, until one is refused.\<close>

fun accept_all :: "'k pipeline_ports \<Rightarrow> captured_event list \<Rightarrow> ('k pipeline, envelope list) action" where
  "accept_all p [] = areturn []"
| "accept_all p (e # es) =
     abind (pipeline_accept p e) (\<lambda>v. abind (accept_all p es) (\<lambda>vs. areturn (v # vs)))"

text \<open>What of a captured event its envelope repeats.\<close>

definition repeats :: "captured_event \<Rightarrow> envelope \<Rightarrow> bool" where
  "repeats e v \<longleftrightarrow>
     en_source v = ca_source e \<and> en_source_mode v = ca_source_mode e \<and> en_session_id v = ca_session_id e
     \<and> en_connection_generation v = ca_connection_generation e \<and> en_sequence v = ca_sequence e
     \<and> en_broker_sequence v = ca_broker_sequence e \<and> en_received_at v = ca_received_at e
     \<and> en_event_at v = ca_event_at e \<and> en_trading_day v = ca_trading_day e
     \<and> en_metadata_version v = ca_metadata_version e \<and> en_raw_payload v = ca_raw_payload e"

lemma check_envelope_iff: "check_envelope e n v = Inr () \<longleftrightarrow> en_ingest_sequence v = n \<and> repeats e v"
  by (auto simp: check_envelope_def keeps_def repeats_def require_eq_Inr ebind_eq_Inr)

definition last_number :: "uuid \<Rightarrow> sequencer \<Rightarrow> int" where
  "last_number sid q = (case peek_last sid q of None \<Rightarrow> -1 | Some n \<Rightarrow> n)"

lemma next_sequence_Inr:
  "next_sequence sid q = (q', Inr n) \<longleftrightarrow>
     last_number sid q < max_ingest_sequence \<and> n = last_number sid q + 1 \<and> q' = dset sid n q"
  by (auto simp: next_sequence_def last_number_def peek_last_def Let_def split: option.splits if_splits)

lemma pipeline_accept_Inr:
  assumes "pipeline_accept p e (q, k) = ((q', k'), Inr v)"
  shows "q' = dset (ca_session_id e) (last_number (ca_session_id e) q + 1) q \<and> repeats e v
    \<and> en_ingest_sequence v = last_number (ca_session_id e) q + 1
    \<and> pp_build_envelope p e (en_ingest_sequence v) = Inr v \<and> pp_publish p v k = (k', Inr ())"
proof -
  from assms obtain n where n: "next_sequence (ca_session_id e) q = (q', Inr n)"
    and v: "pp_build_envelope p e n = Inr v" "check_envelope e n v = Inr ()" "pp_publish p v k = (k', Inr ())"
    by (auto simp: pipeline_accept_def abind_def alift_def on_sequencer_def on_sink_def
        split: prod.splits sum.splits)
  then show ?thesis by (auto simp: next_sequence_Inr check_envelope_iff)
qed

lemma last_number_dset: "last_number sid (dset i n q) = (if sid = i then n else last_number sid q)"
  by (simp add: last_number_def peek_last_def)

text \<open>Every session is numbered on from its last number, without gaps.\<close>

lemma accept_all_numbers:
  "accept_all p es (q, k) = ((q', k'), Inr vs) \<Longrightarrow>
     list_all2 repeats es vs
     \<and> map en_ingest_sequence (filter (\<lambda>v. en_session_id v = sid) vs)
         = map (\<lambda>i. last_number sid q + 1 + int i) [0..<length (filter (\<lambda>e. ca_session_id e = sid) es)]
     \<and> last_number sid q' = last_number sid q + int (length (filter (\<lambda>e. ca_session_id e = sid) es))"
proof (induction es arbitrary: q k vs)
  case Nil
  then show ?case by simp
next
  case (Cons e es)
  then obtain q1 k1 v us where one: "pipeline_accept p e (q, k) = ((q1, k1), Inr v)"
    and rest: "accept_all p es (q1, k1) = ((q', k'), Inr us)" and vs: "vs = v # us"
    by (auto simp: abind_def split: prod.splits sum.splits)
  note a = pipeline_accept_Inr [OF one]
  have shift: "map (\<lambda>i. m + 1 + int i) [0..<Suc l] = (m + 1) # map (\<lambda>i. (m + 1) + 1 + int i) [0..<l]" for m l
    by (simp add: upt_conv_Cons map_Suc_upt [symmetric] del: upt_Suc)
  from Cons.IH [OF rest] a shift [of "last_number sid q"] show ?case
    by (auto simp: vs last_number_dset repeats_def)
qed

text \<open>With the production mapper a valid event is refused only by the sink or an exhausted sequence.\<close>

lemma capture_accept:
  assumes ok: "capture_ok e" and low: "last_number (ca_session_id e) q < max_ingest_sequence"
    and pos: "-1 \<le> last_number (ca_session_id e) q"
  shows "\<exists>v. envelope_init v = Inr v \<and> repeats e v \<and> en_ingest_sequence v = last_number (ca_session_id e) q + 1
    \<and> map_payload e = Inr (en_payload v, snd (projr (map_payload e)))
    \<and> pipeline_accept (capture_ports h publish) e (q, k)
        = (let q' = dset (ca_session_id e) (en_ingest_sequence v) q in
           case publish v k of (k', Inl x) \<Rightarrow> ((q', k'), Inl x) | (k', Inr u) \<Rightarrow> ((q', k'), Inr v))"
proof -
  let ?n = "last_number (ca_session_id e) q + 1"
  obtain v where v: "build_envelope h e ?n = Inr v" "envelope_init v = Inr v" "en_ingest_sequence v = ?n"
    "map_payload e = Inr (en_payload v, snd (projr (map_payload e)))"
    using build_envelope_total [OF ok, of ?n h] pos by auto
  have rep: "repeats e v"
    using v(1) by (auto simp: build_envelope_def envelope_init_def ebind_eq_Inr repeats_def split: prod.splits)
  have seq: "next_sequence (ca_session_id e) q = (dset (ca_session_id e) ?n q, Inr ?n)"
    using low by (simp add: next_sequence_Inr)
  have chk: "check_envelope e ?n v = Inr ()" using rep v(3) by (simp add: check_envelope_iff)
  have "mapper_validate e = Inr ()" using ok by (simp add: capture_ok_def)
  with seq v chk have "pipeline_accept (capture_ports h publish) e (q, k)
        = (let q' = dset (ca_session_id e) (en_ingest_sequence v) q in
           case publish v k of (k', Inl x) \<Rightarrow> ((q', k'), Inl x) | (k', Inr u) \<Rightarrow> ((q', k'), Inr v))"
    by (simp add: pipeline_accept_def capture_ports_def abind_def alift_def on_sequencer_def on_sink_def Let_def
        split: prod.splits sum.splits)
  with v rep show ?thesis by blast
qed

text \<open>Against a sink that accepts everything, a list of valid events is published completely.\<close>

definition accepting :: "(envelope \<Rightarrow> ('k, unit) action) \<Rightarrow> bool" where
  "accepting publish \<longleftrightarrow> (\<forall>v k. \<exists>k'. publish v k = (k', Inr ()))"

lemma accept_all_total:
  assumes sink: "accepting publish"
  shows "\<forall>e\<in>set es. capture_ok e \<Longrightarrow> (\<And>sid. -1 \<le> last_number sid q)
    \<Longrightarrow> (\<And>sid. last_number sid q + int (length es) \<le> max_ingest_sequence)
    \<Longrightarrow> \<exists>q' k' vs. accept_all (capture_ports h publish) es (q, k) = ((q', k'), Inr vs)
          \<and> (\<forall>v\<in>set vs. envelope_init v = Inr v)"
proof (induction es arbitrary: q k)
  case Nil
  then show ?case by simp
next
  case (Cons e es)
  let ?i = "ca_session_id e"
  have low: "last_number ?i q < max_ingest_sequence" using Cons.prems(3) [of ?i] by simp
  obtain v where v: "envelope_init v = Inr v" "en_ingest_sequence v = last_number ?i q + 1"
    "pipeline_accept (capture_ports h publish) e (q, k)
        = (let q' = dset ?i (en_ingest_sequence v) q in
           case publish v k of (k', Inl x) \<Rightarrow> ((q', k'), Inl x) | (k', Inr u) \<Rightarrow> ((q', k'), Inr v))"
    using capture_accept [OF _ low Cons.prems(2), of h publish k] Cons.prems(1) by auto
  obtain k1 where k1: "publish v k = (k1, Inr ())" using sink unfolding accepting_def by blast
  let ?q = "dset ?i (last_number ?i q + 1) q"
  have step: "pipeline_accept (capture_ports h publish) e (q, k) = ((?q, k1), Inr v)"
    using v(2,3) k1 by (simp add: Let_def)
  have "-1 \<le> last_number sid ?q" "last_number sid ?q + int (length es) \<le> max_ingest_sequence" for sid
    using Cons.prems(2,3) [of sid] Cons.prems(2,3) [of ?i] by (simp_all add: last_number_dset)
  with Cons.IH [of ?q k1] Cons.prems(1) obtain q' k' vs where
    "accept_all (capture_ports h publish) es (?q, k1) = ((q', k'), Inr vs)" "\<forall>v\<in>set vs. envelope_init v = Inr v"
    by auto
  with step v(1) show ?case by (auto simp: abind_def)
qed

end
