(* ===== verification/Capture_Theorems.thy ===== *)
theory Capture_Theorems
  imports Capture_Pipeline Ingress_Demo
begin

text \<open>The properties of the production mapper and of the pipeline that runs it.\<close>




lemma demo_capture_ok: "\<forall>e\<in>set [demo_connection 1, ingress_demo_quote 2, demo_tick 3 None]. capture_ok e"
  unfolding capture_ok_def payload_valid_def by code_simp

definition capture_hashes :: hashes where
  "capture_hashes = \<lparr>sha256_hex = (\<lambda>s. s), uuid5 = (\<lambda>ns name. UUID name)\<rparr>"


text \<open>A list of valid captured events runs through the whole pipeline, mapper included, when the sink
  accepts: every event is published, in order and once; and the envelopes of each session are numbered
  0, 1, 2 and so on without gaps, whatever other sessions are interleaved.\<close>

theorem pipeline_numbers_sessions:
  assumes "\<forall>e\<in>set es. capture_ok e" and "int (length es) \<le> max_ingest_sequence + 1"
    and "accepting publish"
  shows "\<exists>q k' vs. accept_all (capture_ports h publish) es ([], k) = ((q, k'), Inr vs)
    \<and> list_all2 repeats es vs \<and> (\<forall>v\<in>set vs. envelope_init v = Inr v)
    \<and> (\<forall>sid. map en_ingest_sequence (filter (\<lambda>v. en_session_id v = sid) vs)
         = map int [0..<length (filter (\<lambda>e. ca_session_id e = sid) es)])"
proof -
  have fresh: "last_number sid [] = -1" for sid by (simp add: last_number_def peek_last_def)
  obtain q k' vs where run: "accept_all (capture_ports h publish) es ([], k) = ((q, k'), Inr vs)"
    "\<forall>v\<in>set vs. envelope_init v = Inr v"
    using accept_all_total [OF assms(3) assms(1), where q = "[]" and h = h and k = k] assms(2) fresh by auto
  from accept_all_numbers [OF run(1)] run show ?thesis by (auto simp: fresh)
qed

lemma pipeline_numbers_sessions_witness:
  "\<exists>q k' vs. accept_all (capture_ports capture_hashes (\<lambda>v. amodify (\<lambda>vs. vs @ [v])))
       [demo_connection 1, ingress_demo_quote 2, demo_tick 3 None] ([], []) = ((q, k'), Inr vs)
     \<and> length vs = 3"
proof -
  have "int (length [demo_connection 1, ingress_demo_quote 2, demo_tick 3 None]) \<le> max_ingest_sequence + 1"
    by (simp add: max_ingest_sequence_def)
  moreover have "accepting (\<lambda>v. amodify (\<lambda>vs. vs @ [v]))" by (simp add: accepting_def)
  ultimately show ?thesis
    using pipeline_numbers_sessions [OF demo_capture_ok, of "\<lambda>v. amodify (\<lambda>vs. vs @ [v])" capture_hashes "[]"]
    by (fastforce dest: list_all2_lengthD)
qed

end
