(* ===== verification/Strategy_Runtime.thy ===== *)
theory Strategy_Runtime
  imports Paper_Broker Monitoring
begin

text \<open>
  The strategy runtime: the contracts of \<open>strategy/contracts.py\<close>, the strategies of
  \<open>strategy/builtins.py\<close>, and the coordinator of \<open>strategy/coordinator.py\<close> that asks the registered
  strategies for commands on each replayed envelope and runs them as one batch of the paper broker.
  A strategy is a function from the envelope and its context to commands or an exception.
\<close>

section \<open>Contracts\<close>

datatype execution_mode = OBSERVE_ONLY | PAPER

definition strategy_string :: "string \<Rightarrow> string \<Rightarrow> unit result" where
  "strategy_string name v = require (strip v \<noteq> []) (ValueError (name @ '' must not be empty''))"

definition strategy_nonnegative :: "string \<Rightarrow> int \<Rightarrow> unit result" where
  "strategy_nonnegative name v = require (0 \<le> v) (ValueError (name @ '' must be non-negative''))"

record strategy_context =
  sc_strategy_id :: string
  sc_source_session_id :: uuid
  sc_source_ingest_sequence :: int
  sc_decision_at :: instant
  sc_orders :: "paper_order list"
  sc_positions :: "paper_position list"
  sc_broker_snapshot_version :: int

definition order_context_key :: "paper_order \<Rightarrow> string \<times> string \<times> string \<times> string" where
  "order_context_key p =
     (in_account_id (or_intent p), in_instrument_id (or_intent p), in_client_order_id (or_intent p),
      uuid_str (or_paper_order_id p))"

definition position_context_key :: "paper_position \<Rightarrow> string \<times> string \<times> string" where
  "position_context_key p = (po_account_id p, po_instrument_id p, uuid_str (po_paper_position_id p))"

definition strategy_context_init :: "strategy_context \<Rightarrow> strategy_context result" where
  "strategy_context_init c =
     ethen (strategy_string ''strategy_id'' (sc_strategy_id c)) (
     ethen (strategy_nonnegative ''source_ingest_sequence'' (sc_source_ingest_sequence c)) (
     ethen (strategy_nonnegative ''broker_snapshot_version'' (sc_broker_snapshot_version c)) (
     ethen (require (list_all (\<lambda>p. in_strategy_id (or_intent p) = sc_strategy_id c) (sc_orders c))
              (ValueError ''orders must belong to strategy_id'')) (
     ethen (require (list_all (\<lambda>p. po_strategy_id p = sc_strategy_id c) (sc_positions c))
              (ValueError ''positions must belong to strategy_id'')) (
     ethen (require (sorted (map order_context_key (sc_orders c)))
              (ValueError ''orders must be sorted deterministically'')) (
     ethen (require (sorted (map position_context_key (sc_positions c)))
              (ValueError ''positions must be sorted deterministically''))
     (Inr c)))))))"

type_synonym strategy = "envelope \<Rightarrow> strategy_context \<Rightarrow> paper_command list result"

record strategy_registration =
  rg_strategy_id :: string
  rg_strategy :: strategy
  rg_fingerprint :: "string option"

definition canonical_fingerprint :: "string \<Rightarrow> bool" where
  "canonical_fingerprint f \<longleftrightarrow>
     length f = 71 \<and> take 7 f = ''sha256:'' \<and> list_all (\<lambda>c. c \<in> set ''0123456789abcdef'') (drop 7 f)"

definition strategy_registration_init :: "strategy_registration \<Rightarrow> strategy_registration result" where
  "strategy_registration_init r =
     ethen (strategy_string ''strategy_id'' (rg_strategy_id r)) (
     ethen (optionally (\<lambda>f. require (canonical_fingerprint f)
              (ValueError ''fingerprint must be a canonical sha256 fingerprint'')) (rg_fingerprint r))
     (Inr r))"

section \<open>The strategies that come with the system\<close>

record order_template =
  ot_strategy_id :: string
  ot_client_order_id :: string
  ot_account_id :: string
  ot_instrument_id :: string
  ot_side :: order_side
  ot_quantity :: decimal
  ot_order_type :: order_type
  ot_limit_price :: "decimal option"
  ot_time_in_force :: time_in_force
  ot_day_trade :: bool

definition order_template_init :: "order_template \<Rightarrow> order_template result" where
  "order_template_init t =
     ethen (strategy_string ''strategy_id'' (ot_strategy_id t)) (
     ethen (strategy_string ''client_order_id'' (ot_client_order_id t)) (
     ethen (strategy_string ''account_id'' (ot_account_id t)) (
     ethen (strategy_string ''instrument_id'' (ot_instrument_id t)) (
     ethen (require (dpos (ot_quantity t)) (ValueError ''quantity must be finite and positive'')) (
     ethen (case ot_order_type t of
              MARKET \<Rightarrow> require (ot_limit_price t = None)
                (ValueError ''market templates must not have a limit_price'')
            | LIMIT \<Rightarrow> require (case ot_limit_price t of None \<Rightarrow> False | Some p \<Rightarrow> dpos p)
                (ValueError ''limit templates require a finite positive limit_price''))
     (Inr t))))))"

definition no_op_strategy :: strategy where
  "no_op_strategy e c = Inr []"

definition template_intent :: "order_template \<Rightarrow> strategy_context \<Rightarrow> order_intent" where
  "template_intent t c =
     \<lparr>in_strategy_id = ot_strategy_id t, in_client_order_id = ot_client_order_id t,
      in_account_id = ot_account_id t, in_instrument_id = ot_instrument_id t, in_side = ot_side t,
      in_quantity = ot_quantity t, in_order_type = ot_order_type t, in_limit_price = ot_limit_price t,
      in_time_in_force = ot_time_in_force t, in_day_trade = ot_day_trade t,
      in_created_at = sc_decision_at c, in_source_session_id = Some (sc_source_session_id c),
      in_source_ingest_sequence = Some (sc_source_ingest_sequence c)\<rparr>"

definition instrument_triggered_strategy :: "order_template \<Rightarrow> strategy" where
  "instrument_triggered_strategy t e c =
     (case en_payload e of
        InstrumentPayload i \<Rightarrow>
          if en_event_type e \<noteq> INSTRUMENT \<or> it_instrument_id i \<noteq> ot_instrument_id t
             \<or> list_ex (\<lambda>p. in_client_order_id (or_intent p) = ot_client_order_id t) (sc_orders c)
          then Inr []
          else ebind (order_intent_init (template_intent t c)) (\<lambda>i. Inr [SubmitCommand i])
      | _ \<Rightarrow> Inr [])"

section \<open>The coordinator\<close>

record decision_record =
  dr_source_session_id :: uuid
  dr_source_ingest_sequence :: int
  dr_envelope_digest :: string
  dr_decision :: paper_decision
  dr_batch_result :: "decision_batch_result option"

definition envelope_digest_ok :: "string \<Rightarrow> bool" where
  "envelope_digest_ok d \<longleftrightarrow> length d = 64 \<and> list_all (\<lambda>c. c \<in> set ''0123456789abcdef'') d"

definition decision_record_init :: "decision_record \<Rightarrow> decision_record result" where
  "decision_record_init r =
     ethen (require (0 \<le> dr_source_ingest_sequence r)
              (ValueError ''source_ingest_sequence must be non-negative'')) (
     ethen (require (envelope_digest_ok (dr_envelope_digest r))
              (ValueError ''envelope_digest must be a lowercase sha256 digest'')) (
     ethen (require (de_source_session_id (dr_decision r) = dr_source_session_id r
                     \<and> de_source_ingest_sequence (dr_decision r) = dr_source_ingest_sequence r)
              (ValueError ''decision source causation must match record'')) (
     ethen (optionally (\<lambda>b. require (br_source_session_id b = dr_source_session_id r
                     \<and> br_source_ingest_sequence b = dr_source_ingest_sequence r
                     \<and> br_decision_fingerprint b = de_decision_fingerprint (dr_decision r))
              (ValueError ''batch result must match decision record'')) (dr_batch_result r))
     (Inr r))))"

type_synonym cache_key = "uuid \<times> int \<times> string"
type_synonym source_key = "uuid \<times> int"

record coordinator_config =
  cc_registrations :: "strategy_registration list"
  cc_mode :: execution_mode
  cc_max_records :: int

record coordinator =
  co_records :: "(cache_key, decision_record) dict"
  co_digests :: "(source_key, string) dict"

definition new_coordinator ::
  "strategy_registration list \<Rightarrow> execution_mode \<Rightarrow> int \<Rightarrow> (coordinator_config \<times> coordinator) result" where
  "new_coordinator registrations mode max_records =
     ethen (require (1 \<le> max_records) (ValueError ''max_decision_records must be at least 1'')) (
     ethen (require (distinct (map rg_strategy_id registrations))
              (ValueError ''registrations must have unique strategy_id values''))
     (Inr (\<lparr>cc_registrations = sort_key rg_strategy_id registrations, cc_mode = mode,
            cc_max_records = max_records\<rparr>,
           \<lparr>co_records = [], co_digests = []\<rparr>)))"

text \<open>A \<open>StrategyCoordinatorError\<close> is a \<open>RuntimeError\<close>.\<close>

definition coordinator_error :: "string \<Rightarrow> pyexn" where
  "coordinator_error message = RuntimeError message"

fun command_strategy :: "paper_command \<Rightarrow> string" where
  "command_strategy (SubmitCommand i) = in_strategy_id i"
| "command_strategy (CancelCommand c) = cn_strategy_id c"

fun command_client_id :: "paper_command \<Rightarrow> string" where
  "command_client_id (SubmitCommand i) = in_client_order_id i"
| "command_client_id (CancelCommand c) = cn_client_order_id c"

fun command_time :: "paper_command \<Rightarrow> instant" where
  "command_time (SubmitCommand i) = in_created_at i"
| "command_time (CancelCommand c) = cn_requested_at c"

definition validate_command :: "string \<Rightarrow> envelope \<Rightarrow> instant \<Rightarrow> paper_command \<Rightarrow> unit result" where
  "validate_command sid e decision_at c =
     ethen (require (command_strategy c = sid) (coordinator_error ''strategy command authority mismatch'')) (
     ethen (require (command_source c = (Some (en_session_id e), Some (en_ingest_sequence e)))
              (coordinator_error ''strategy command source mismatch''))
     (require (command_time c = decision_at) (coordinator_error ''strategy command time mismatch'')))"

definition validate_strategy_decision ::
  "paper_command list \<Rightarrow> string \<Rightarrow> envelope \<Rightarrow> instant \<Rightarrow> unit result" where
  "validate_strategy_decision commands sid e decision_at =
     efold (\<lambda>c _. validate_command sid e decision_at c) commands ()"

definition validate_unique_client_ids :: "paper_command list \<Rightarrow> unit result" where
  "validate_unique_client_ids commands =
     require (distinct (map (\<lambda>c. (command_strategy c, command_client_id c)) commands))
       (coordinator_error ''strategy command client id conflict'')"

definition context_for ::
  "paper_broker_snapshot \<Rightarrow> envelope \<Rightarrow> instant \<Rightarrow> string \<Rightarrow> strategy_context" where
  "context_for snapshot e decision_at sid =
     \<lparr>sc_strategy_id = sid, sc_source_session_id = en_session_id e,
      sc_source_ingest_sequence = en_ingest_sequence e, sc_decision_at = decision_at,
      sc_orders = sort_key order_context_key
        (filter (\<lambda>p. in_strategy_id (or_intent p) = sid) (sn_orders snapshot)),
      sc_positions = sort_key position_context_key
        (filter (\<lambda>p. po_strategy_id p = sid) (sn_positions snapshot)),
      sc_broker_snapshot_version = sn_snapshot_version snapshot\<rparr>"

text \<open>\<open>try: m except Exception: raise e\<close>.\<close>

definition or_raise :: "pyexn \<Rightarrow> 'a result \<Rightarrow> 'a result" where
  "or_raise e m = (case m of Inl _ \<Rightarrow> Inl e | Inr x \<Rightarrow> Inr x)"

lemma or_raise_eq_Inr [err_simps]: "or_raise e m = Inr x \<longleftrightarrow> m = Inr x"
  by (auto simp: or_raise_def split: sum.splits)

definition ask_strategy ::
  "paper_broker_snapshot \<Rightarrow> envelope \<Rightarrow> instant \<Rightarrow> strategy_registration \<Rightarrow> paper_command list
     \<Rightarrow> paper_command list result" where
  "ask_strategy snapshot e decision_at r commands =
     ebind (strategy_context_init (context_for snapshot e decision_at (rg_strategy_id r))) (\<lambda>c.
     ebind (or_raise (coordinator_error ''strategy evaluation failed'') (rg_strategy r e c)) (\<lambda>decided.
     ethen (validate_strategy_decision decided (rg_strategy_id r) e decision_at)
     (Inr (commands @ decided))))"

definition decision_time :: "envelope \<Rightarrow> instant" where
  "decision_time e = (case en_event_at e of None \<Rightarrow> en_received_at e | Some t \<Rightarrow> t)"

definition decide_all :: "coordinator_config \<Rightarrow> broker_env \<Rightarrow> envelope \<Rightarrow> broker_state \<Rightarrow> paper_decision result" where
  "decide_all cfg env e st =
     ebind (broker_snapshot env st) (\<lambda>snapshot.
     ebind (efold (ask_strategy snapshot e (decision_time e)) (cc_registrations cfg) []) (\<lambda>commands.
     ethen (validate_unique_client_ids commands)
     (or_raise (coordinator_error ''strategy decision aggregation failed'')
        (paper_decision_init (be_hashes env) (en_session_id e) (en_ingest_sequence e) commands))))"

definition envelope_digest :: "broker_env \<Rightarrow> envelope \<Rightarrow> string" where
  "envelope_digest env e = sha256_hex (be_hashes env) (utf8 (serialize_envelope e))"

type_synonym replay_state = "coordinator \<times> broker_state"

definition process_cached ::
  "coordinator_config \<Rightarrow> broker_env \<Rightarrow> envelope \<Rightarrow> cache_key \<Rightarrow> decision_record \<Rightarrow> (replay_state, unit) action" where
  "process_cached cfg env e key r s =
     (if cc_mode cfg = OBSERVE_ONLY then (s, Inr ())
      else case process_decision_batch env e (dr_decision r) (snd s) of
        Inl x \<Rightarrow> (s, Inl x)
      | Inr (st, result) \<Rightarrow>
          if dr_batch_result r = None
          then (case decision_record_init (r\<lparr>dr_batch_result := Some result\<rparr>) of
                  Inl x \<Rightarrow> ((fst s, st), Inl x)
                | Inr r' \<Rightarrow> (((fst s)\<lparr>co_records := dset key r' (co_records (fst s))\<rparr>, st), Inr ()))
          else ((fst s, st), Inr ()))"

definition new_decision_record :: "broker_env \<Rightarrow> envelope \<Rightarrow> paper_decision \<Rightarrow> decision_record result" where
  "new_decision_record env e d =
     decision_record_init
       \<lparr>dr_source_session_id = en_session_id e, dr_source_ingest_sequence = en_ingest_sequence e,
        dr_envelope_digest = envelope_digest env e, dr_decision = d, dr_batch_result = None\<rparr>"

definition coordinator_publish ::
  "coordinator_config \<Rightarrow> broker_env \<Rightarrow> envelope \<Rightarrow> (replay_state, unit) action" where
  "coordinator_publish cfg env e s =
     (let digest = envelope_digest env e;
          source = (en_session_id e, en_ingest_sequence e);
          key = (en_session_id e, en_ingest_sequence e, digest)
      in
      if \<not> (case dget (co_digests (fst s)) source of None \<Rightarrow> True | Some prior \<Rightarrow> prior = digest)
      then (s, Inl (coordinator_error ''market-data retry conflict''))
      else case dget (co_records (fst s)) key of
        Some cached \<Rightarrow> process_cached cfg env e key cached s
      | None \<Rightarrow>
          if cc_max_records cfg \<le> int (length (co_records (fst s)))
          then (s, Inl (coordinator_error ''strategy decision capacity exceeded''))
          else (case ebind (decide_all cfg env e (snd s)) (new_decision_record env e) of
                  Inl x \<Rightarrow> (s, Inl x)
                | Inr r \<Rightarrow>
                    process_cached cfg env e key r
                      (\<lparr>co_records = dset key r (co_records (fst s)),
                        co_digests = dset source digest (co_digests (fst s))\<rparr>, snd s)))"

section \<open>Checkpoints of the coordinator\<close>

definition record_sort_key :: "decision_record \<Rightarrow> string \<times> int \<times> string" where
  "record_sort_key r = (uuid_str (dr_source_session_id r), dr_source_ingest_sequence r, dr_envelope_digest r)"

definition decision_records :: "coordinator \<Rightarrow> decision_record list" where
  "decision_records c = sort_key record_sort_key (dvalues (co_records c))"

definition digest_sort_key :: "source_key \<times> string \<Rightarrow> string \<times> int" where
  "digest_sort_key x = (uuid_str (fst (fst x)), snd (fst x))"

definition exported_digests :: "coordinator \<Rightarrow> (uuid \<times> int \<times> string) list" where
  "exported_digests c = map (\<lambda>((i, n), d). (i, n, d)) (sort_key digest_sort_key (co_digests c))"

fun strictly_increasing :: "'k::linorder list \<Rightarrow> bool" where
  "strictly_increasing (a # b # ks) = (a < b \<and> strictly_increasing (b # ks))"
| "strictly_increasing _ = True"

definition record_restorable :: "coordinator_config \<Rightarrow> decision_record \<Rightarrow> bool" where
  "record_restorable cfg r \<longleftrightarrow>
     \<not> (cc_mode cfg = OBSERVE_ONLY \<and> dr_batch_result r \<noteq> None)
     \<and> list_all (\<lambda>c. command_strategy c \<in> set (map rg_strategy_id (cc_registrations cfg)))
         (de_commands (dr_decision r))"

definition record_key :: "decision_record \<Rightarrow> cache_key" where
  "record_key r = (dr_source_session_id r, dr_source_ingest_sequence r, dr_envelope_digest r)"

text \<open>\<open>_restore_state\<close>; every refusal is a bare \<open>ValueError\<close>, which the caller maps to one checkpoint error.\<close>

definition restore_coordinator ::
  "coordinator_config \<Rightarrow> decision_record list \<Rightarrow> (uuid \<times> int \<times> string) list \<Rightarrow> coordinator result" where
  "restore_coordinator cfg records digests =
     (let restored = fold (\<lambda>r d. dset (record_key r) r d) records [] in
      ethen (require (int (length records) \<le> cc_max_records cfg \<and> length records = length digests)
               (ValueError [])) (
      ethen (require (strictly_increasing (map record_sort_key records)) (ValueError [])) (
      ethen (require (list_all (record_restorable cfg) records) (ValueError [])) (
      ethen (require (strictly_increasing (map (\<lambda>(i, n, d). (uuid_str i, n)) digests)) (ValueError [])) (
      ethen (require (list_all (\<lambda>x. dget restored x \<noteq> None) digests) (ValueError []))
      (Inr \<lparr>co_records = restored, co_digests = fold (\<lambda>(i, n, d) m. dset (i, n) d m) digests []\<rparr>))))))"

end
