(* ===== verification/Strategy_Runs.thy ===== *)
theory Strategy_Runs
  imports Strategy_Runtime Broker_Retries
begin

text \<open>
  Runs of the coordinator over replayed envelopes, retries and failures included: the invariant of its
  records, the runs of the broker they amount to, and why a decision is made once.
\<close>

section \<open>What the strategies decided\<close>

text \<open>A decision is authorised for an envelope: every command is a registered strategy's own, caused by the
  envelope and issued at its time, and no two share a client identifier.\<close>

definition authorised :: "coordinator_config \<Rightarrow> uuid \<Rightarrow> int \<Rightarrow> paper_command list \<Rightarrow> bool" where
  "authorised cfg session n cs \<longleftrightarrow>
     (\<forall>c\<in>set cs. command_strategy c \<in> set (map rg_strategy_id (cc_registrations cfg))
        \<and> command_source c = (Some session, Some n))
     \<and> distinct (map (\<lambda>c. (command_strategy c, command_client_id c)) cs)"

lemma validate_command_Inr:
  "validate_command sid e t c = Inr u \<longleftrightarrow>
     command_strategy c = sid \<and> command_source c = (Some (en_session_id e), Some (en_ingest_sequence e))
     \<and> command_time c = t"
  by (simp add: validate_command_def require_eq_Inr ebind_eq_Inr)

lemma validate_decision_Inr:
  assumes "validate_strategy_decision cs sid e t = Inr u"
  shows "\<forall>c\<in>set cs. command_strategy c = sid \<and> command_time c = t
       \<and> command_source c = (Some (en_session_id e), Some (en_ingest_sequence e))"
  using assms unfolding validate_strategy_decision_def
proof (induction cs)
  case Nil
  then show ?case by simp
next
  case (Cons c cs)
  then obtain v where "validate_command sid e t c = Inr v" "efold (\<lambda>c _. validate_command sid e t c) cs () = Inr u"
    by (auto simp: ebind_eq_Inr)
  with Cons.IH show ?case by (auto simp: validate_command_Inr)
qed

definition strategies_within :: "coordinator_config \<Rightarrow> submit_key set \<Rightarrow> bool" where
  "strategies_within cfg K \<longleftrightarrow>
     (\<forall>r\<in>set (cc_registrations cfg). \<forall>e c cs. rg_strategy r e c = Inr cs \<longrightarrow> list_all (command_key_in K) cs)"

lemma ask_strategy_Inr:
  assumes "ask_strategy snapshot e t r cs = Inr cs'"
  shows "\<exists>c decided. cs' = cs @ decided \<and> rg_strategy r e c = Inr decided
    \<and> strategy_context_init c = Inr c
    \<and> (\<forall>x\<in>set decided. command_strategy x = rg_strategy_id r \<and> command_time x = t
         \<and> command_source x = (Some (en_session_id e), Some (en_ingest_sequence e)))"
proof -
  from assms obtain c decided u where
    c: "strategy_context_init (context_for snapshot e t (rg_strategy_id r)) = Inr c"
    and d: "rg_strategy r e c = Inr decided" "cs' = cs @ decided"
    and v: "validate_strategy_decision decided (rg_strategy_id r) e t = Inr u"
    by (auto simp: ask_strategy_def err_simps)
  have "c = context_for snapshot e t (rg_strategy_id r)"
    using c by (auto simp: strategy_context_init_def err_simps)
  with c d validate_decision_Inr [OF v] show ?thesis by blast
qed

lemma decide_all_Inr:
  assumes "decide_all cfg env e st = Inr d"
  shows "authorised cfg (en_session_id e) (en_ingest_sequence e) (de_commands d)
    \<and> (\<forall>c\<in>set (de_commands d). command_time c = decision_time e)
    \<and> de_source_session_id d = en_session_id e \<and> de_source_ingest_sequence d = en_ingest_sequence e
    \<and> (\<forall>K. strategies_within cfg K \<longrightarrow> list_all (command_key_in K) (de_commands d))"
proof -
  from assms obtain snapshot cs u where
    ask: "efold (ask_strategy snapshot e (decision_time e)) (cc_registrations cfg) [] = Inr cs"
    and uniq: "validate_unique_client_ids cs = Inr u"
    and d: "paper_decision_init (be_hashes env) (en_session_id e) (en_ingest_sequence e) cs = Inr d"
    by (auto simp: decide_all_def err_simps)
  let ?I = "\<lambda>cs. (\<forall>x\<in>set cs. command_strategy x \<in> set (map rg_strategy_id (cc_registrations cfg))
      \<and> command_time x = decision_time e
      \<and> command_source x = (Some (en_session_id e), Some (en_ingest_sequence e)))
      \<and> (\<forall>K. strategies_within cfg K \<longrightarrow> list_all (command_key_in K) cs)"
  have "?I cs"
  proof (rule efold_invariant [OF ask, where I = ?I])
    show "?I []" by simp
    fix r as bs
    assume r: "r \<in> set (cc_registrations cfg)" and old: "?I as" and step: "ask_strategy snapshot e (decision_time e) r as = Inr bs"
    from ask_strategy_Inr [OF step] obtain c decided where
      x: "bs = as @ decided" "rg_strategy r e c = Inr decided"
        "\<forall>x\<in>set decided. command_strategy x = rg_strategy_id r \<and> command_time x = decision_time e
         \<and> command_source x = (Some (en_session_id e), Some (en_ingest_sequence e))" by blast
    have "list_all (command_key_in K) decided" if "strategies_within cfg K" for K
      using that r x(2) unfolding strategies_within_def by blast
    with old x(1,3) r show "?I bs" by auto
  qed
  moreover have "distinct (map (\<lambda>c. (command_strategy c, command_client_id c)) cs)"
    using uniq by (simp add: validate_unique_client_ids_def require_eq_Inr)
  ultimately show ?thesis using d by (auto simp: authorised_def paper_decision_init_def err_simps)
qed

section \<open>The invariant of the records\<close>

definition record_ok :: "coordinator_config \<Rightarrow> cache_key \<Rightarrow> decision_record \<Rightarrow> bool" where
  "record_ok cfg k r \<longleftrightarrow>
     record_key r = k \<and> decision_record_init r = Inr r
     \<and> authorised cfg (dr_source_session_id r) (dr_source_ingest_sequence r) (de_commands (dr_decision r))
     \<and> (cc_mode cfg = OBSERVE_ONLY \<longrightarrow> dr_batch_result r = None)
     \<and> (\<forall>K. strategies_within cfg K \<longrightarrow> list_all (command_key_in K) (de_commands (dr_decision r)))"

definition coordinator_ok :: "coordinator_config \<Rightarrow> coordinator \<Rightarrow> bool" where
  "coordinator_ok cfg c \<longleftrightarrow>
     dict_ok (co_records c) \<and> dict_ok (co_digests c)
     \<and> (\<forall>k r. dget (co_records c) k = Some r \<longrightarrow> record_ok cfg k r)
     \<and> (\<forall>i n d. dget (co_digests c) (i, n) = Some d \<longleftrightarrow> dget (co_records c) (i, n, d) \<noteq> None)
     \<and> length (co_records c) = length (co_digests c)
     \<and> int (length (co_records c)) \<le> cc_max_records cfg"

lemma new_record_ok:
  assumes "decide_all cfg env e st = Inr d" and "new_decision_record env e d = Inr r"
  shows "record_ok cfg (en_session_id e, en_ingest_sequence e, envelope_digest env e) r \<and> dr_decision r = d
    \<and> dr_batch_result r = None"
proof -
  have "r = \<lparr>dr_source_session_id = en_session_id e, dr_source_ingest_sequence = en_ingest_sequence e,
      dr_envelope_digest = envelope_digest env e, dr_decision = d, dr_batch_result = None\<rparr>"
    "decision_record_init r = Inr r"
    using assms(2) by (auto simp: new_decision_record_def decision_record_init_def err_simps)
  with decide_all_Inr [OF assms(1)] show ?thesis by (simp add: record_ok_def record_key_def)
qed

lemma record_with_result:
  assumes "record_ok cfg k r" and "decision_record_init (r\<lparr>dr_batch_result := Some b\<rparr>) = Inr r'" and "cc_mode cfg = PAPER"
  shows "r' = r\<lparr>dr_batch_result := Some b\<rparr> \<and> record_ok cfg k r'"
proof -
  have "r' = r\<lparr>dr_batch_result := Some b\<rparr>" using assms(2) by (auto simp: decision_record_init_def err_simps)
  with assms show ?thesis by (simp add: record_ok_def record_key_def)
qed

lemma update_record:
  assumes "coordinator_ok cfg c" and "dget (co_records c) k \<noteq> None" and "record_ok cfg k r"
  shows "coordinator_ok cfg (c\<lparr>co_records := dset k r (co_records c)\<rparr>)"
  using assms by (auto simp: coordinator_ok_def length_dset)

lemma add_record:
  assumes ok: "coordinator_ok cfg c" and r: "record_ok cfg (i, n, d) r"
    and fresh: "dget (co_records c) (i, n, d) = None" and room: "int (length (co_records c)) < cc_max_records cfg"
    and source: "\<And>d'. dget (co_digests c) (i, n) = Some d' \<Longrightarrow> d' = d"
  shows "coordinator_ok cfg \<lparr>co_records = dset (i, n, d) r (co_records c), co_digests = dset (i, n) d (co_digests c)\<rparr>"
proof -
  have none: "dget (co_digests c) (i, n) = None"
  proof (rule ccontr)
    assume "dget (co_digests c) (i, n) \<noteq> None"
    then obtain d' where "dget (co_digests c) (i, n) = Some d'" by blast
    with source have "dget (co_digests c) (i, n) = Some d" by blast
    with ok fresh show False by (auto simp: coordinator_ok_def)
  qed
  have "dget (co_records c) (i, n, d') = None" for d'
    using ok none unfolding coordinator_ok_def by (metis option.distinct(1))
  with ok r fresh room none show ?thesis by (auto simp: coordinator_ok_def length_dset)
qed

section \<open>Steps\<close>

inductive replay_step :: "coordinator_config \<Rightarrow> broker_env \<Rightarrow> replay_state \<Rightarrow> replay_state \<Rightarrow> bool"
  for cfg env where
  publish_step: "coordinator_publish cfg env e s = (t, r) \<Longrightarrow> replay_step cfg env s t"

inductive_cases replay_stepE: "replay_step cfg env s t"

text \<open>What processing a cached decision does: nothing, or one committed batch, noted on the record.\<close>

lemma process_cached_cases [consumes 1, case_names unchanged committed]:
  assumes "process_cached cfg env e k r s = (t, x)"
  obtains "t = s"
  | st result where "cc_mode cfg = PAPER" "process_decision_batch env e (dr_decision r) (snd s) = Inr (st, result)"
      "snd t = st"
      "fst t = fst s \<or> (\<exists>r'. dr_batch_result r = None
         \<and> decision_record_init (r\<lparr>dr_batch_result := Some result\<rparr>) = Inr r'
         \<and> fst t = (fst s)\<lparr>co_records := dset k r' (co_records (fst s))\<rparr>)"
proof (cases "cc_mode cfg = OBSERVE_ONLY")
  case True
  with assms that(1) show thesis by (simp add: process_cached_def)
next
  case False
  then have paper: "cc_mode cfg = PAPER" by (cases "cc_mode cfg") simp_all
  show thesis
  proof (cases "process_decision_batch env e (dr_decision r) (snd s)")
    case (Inl y)
    with assms False that(1) show thesis by (simp add: process_cached_def)
  next
    case (Inr p)
    obtain st result where p: "p = (st, result)" by (cases p)
    show thesis
    proof (rule that(2) [OF paper Inr [unfolded p]])
      show "snd t = st" using assms False Inr p by (auto simp: process_cached_def split: if_splits sum.splits)
      show "fst t = fst s \<or> (\<exists>r'. dr_batch_result r = None
         \<and> decision_record_init (r\<lparr>dr_batch_result := Some result\<rparr>) = Inr r'
         \<and> fst t = (fst s)\<lparr>co_records := dset k r' (co_records (fst s))\<rparr>)"
        using assms False Inr p by (auto simp: process_cached_def split: if_splits sum.splits)
    qed
  qed
qed

definition source_of :: "envelope \<Rightarrow> source_key" where
  "source_of e = (en_session_id e, en_ingest_sequence e)"

definition key_of :: "broker_env \<Rightarrow> envelope \<Rightarrow> cache_key" where
  "key_of env e = (en_session_id e, en_ingest_sequence e, envelope_digest env e)"

definition conflicts :: "broker_env \<Rightarrow> envelope \<Rightarrow> coordinator \<Rightarrow> bool" where
  "conflicts env e c \<longleftrightarrow> (\<exists>d. dget (co_digests c) (source_of e) = Some d \<and> d \<noteq> envelope_digest env e)"

lemma publish_conflict:
  "conflicts env e (fst s) \<Longrightarrow>
     coordinator_publish cfg env e s = (s, Inl (coordinator_error ''market-data retry conflict''))"
  by (auto simp: conflicts_def coordinator_publish_def Let_def source_of_def split: option.splits)

lemma publish_cached:
  "\<not> conflicts env e (fst s) \<Longrightarrow> dget (co_records (fst s)) (key_of env e) = Some r \<Longrightarrow>
     coordinator_publish cfg env e s = process_cached cfg env e (key_of env e) r s"
  by (auto simp: conflicts_def coordinator_publish_def Let_def source_of_def key_of_def split: option.splits)

text \<open>Before the broker is called, a step leaves the state or adds the record of a fresh decision.\<close>

definition decided :: "coordinator_config \<Rightarrow> broker_env \<Rightarrow> envelope \<Rightarrow> replay_state \<Rightarrow> decision_record \<Rightarrow> coordinator \<Rightarrow> bool" where
  "decided cfg env e s r c \<longleftrightarrow>
     (dget (co_records (fst s)) (key_of env e) = Some r \<and> c = fst s)
     \<or> (dget (co_records (fst s)) (key_of env e) = None
        \<and> int (length (co_records (fst s))) < cc_max_records cfg
        \<and> (\<exists>d. decide_all cfg env e (snd s) = Inr d \<and> new_decision_record env e d = Inr r)
        \<and> c = \<lparr>co_records = dset (key_of env e) r (co_records (fst s)),
               co_digests = dset (source_of e) (envelope_digest env e) (co_digests (fst s))\<rparr>)"

lemma publish_cases [consumes 1, case_names unchanged processed]:
  assumes "coordinator_publish cfg env e s = (t, x)"
  obtains "t = s"
  | r c where "\<not> conflicts env e (fst s)" "decided cfg env e s r c"
      "process_cached cfg env e (key_of env e) r (c, snd s) = (t, x)"
proof (cases "conflicts env e (fst s)")
  case True
  with assms that(1) publish_conflict show thesis by auto
next
  case False
  show thesis
  proof (cases "dget (co_records (fst s)) (key_of env e)")
    case (Some r)
    with assms publish_cached [OF False Some] show thesis
      by (intro that(2) [OF False, of r "fst s"]) (simp_all add: decided_def)
  next
    case None
    show thesis
    proof (cases "cc_max_records cfg \<le> int (length (co_records (fst s)))")
      case True
      with assms False None that(1) show thesis
        by (auto simp: coordinator_publish_def Let_def key_of_def conflicts_def source_of_def split: option.splits if_splits)
    next
      case room: False
      show thesis
      proof (cases "ebind (decide_all cfg env e (snd s)) (new_decision_record env e)")
        case (Inl y)
        with assms False None room that(1) show thesis
          by (auto simp: coordinator_publish_def Let_def key_of_def conflicts_def source_of_def split: option.splits)
      next
        case (Inr r)
        with assms False None room show thesis
          by (intro that(2) [OF False, of r "\<lparr>co_records = dset (key_of env e) r (co_records (fst s)),
                co_digests = dset (source_of e) (envelope_digest env e) (co_digests (fst s))\<rparr>"])
            (auto simp: coordinator_publish_def Let_def key_of_def conflicts_def source_of_def decided_def ebind_eq_Inr
              split: option.splits if_splits)
      qed
    qed
  qed
qed

lemma decided_ok:
  assumes ok: "coordinator_ok cfg (fst s)" and "\<not> conflicts env e (fst s)" and "decided cfg env e s r c"
  shows "coordinator_ok cfg c \<and> record_ok cfg (key_of env e) r \<and> dget (co_records c) (key_of env e) = Some r
    \<and> dget (co_digests c) (source_of e) = Some (envelope_digest env e)"
  using assms(3) unfolding decided_def
proof
  assume "dget (co_records (fst s)) (key_of env e) = Some r \<and> c = fst s"
  with ok show ?thesis unfolding coordinator_ok_def key_of_def source_of_def by auto
next
  assume new: "dget (co_records (fst s)) (key_of env e) = None
        \<and> int (length (co_records (fst s))) < cc_max_records cfg
        \<and> (\<exists>d. decide_all cfg env e (snd s) = Inr d \<and> new_decision_record env e d = Inr r)
        \<and> c = \<lparr>co_records = dset (key_of env e) r (co_records (fst s)),
               co_digests = dset (source_of e) (envelope_digest env e) (co_digests (fst s))\<rparr>"
  then have r: "record_ok cfg (key_of env e) r" using new_record_ok unfolding key_of_def by blast
  have source: "d' = envelope_digest env e"
    if "dget (co_digests (fst s)) (en_session_id e, en_ingest_sequence e) = Some d'" for d'
    using that assms(2) by (auto simp: conflicts_def source_of_def)
  from add_record [OF ok r [unfolded key_of_def]] new source r show ?thesis
    by (simp add: key_of_def source_of_def)
qed

section \<open>The machine of the coordinator\<close>

definition replay_inv :: "coordinator_config \<Rightarrow> broker_env \<Rightarrow> submit_key set \<Rightarrow> replay_state \<Rightarrow> bool" where
  "replay_inv cfg env K s \<longleftrightarrow> strategies_within cfg K \<and> coordinator_ok cfg (fst s) \<and> broker_ok env K (snd s)"

definition records_final :: "coordinator \<Rightarrow> coordinator \<Rightarrow> bool" where
  "records_final c c' \<longleftrightarrow>
     (\<forall>k r. dget (co_records c) k = Some r \<longrightarrow>
        (\<exists>r'. dget (co_records c') k = Some r' \<and> dr_decision r' = dr_decision r
           \<and> (dr_batch_result r \<noteq> None \<longrightarrow> r' = r)))
     \<and> (\<forall>k d. dget (co_digests c) k = Some d \<longrightarrow> dget (co_digests c') k = Some d)"

definition replay_below :: "broker_env \<Rightarrow> submit_key set \<Rightarrow> replay_state \<Rightarrow> replay_state \<Rightarrow> bool" where
  "replay_below env K s t \<longleftrightarrow> records_final (fst s) (fst t) \<and> (broker_step env K)\<^sup>*\<^sup>* (snd s) (snd t)"

lemma records_final_refl: "records_final c c"
  by (simp add: records_final_def)

lemma records_final_trans: "records_final a b \<Longrightarrow> records_final b c \<Longrightarrow> records_final a c"
  unfolding records_final_def by (metis option.distinct(1))

lemma records_final_decided:
  "\<not> conflicts env e (fst s) \<Longrightarrow> decided cfg env e s r c \<Longrightarrow> records_final (fst s) c"
  by (auto simp: decided_def records_final_def conflicts_def)

lemma batch_step:
  "process_decision_batch env e d st = Inr (st', res) \<Longrightarrow> list_all (command_key_in K) (de_commands d)
    \<Longrightarrow> broker_step env K st st'"
  unfolding broker_step_def by (rule exI [of _ "BatchOp e d"]) simp

lemma replay_step_progress:
  assumes inv: "replay_inv cfg env K s" and step: "replay_step cfg env s t"
  shows "replay_inv cfg env K t \<and> replay_below env K s t"
proof -
  obtain e x where "coordinator_publish cfg env e s = (t, x)" using step by (auto elim: replay_stepE)
  then show ?thesis
  proof (cases rule: publish_cases)
    case unchanged
    with inv show ?thesis by (simp add: replay_below_def records_final_refl)
  next
    case (processed r c)
    have ok: "coordinator_ok cfg c" "record_ok cfg (key_of env e) r" "dget (co_records c) (key_of env e) = Some r"
      using decided_ok [OF _ processed(1,2)] inv by (simp_all add: replay_inv_def)
    note final = records_final_decided [OF processed(1,2)]
    from processed(3) show ?thesis
    proof (cases rule: process_cached_cases)
      case unchanged
      with inv ok final show ?thesis by (simp add: replay_inv_def replay_below_def)
    next
      case (committed st result)
      have keys: "list_all (command_key_in K) (de_commands (dr_decision r))"
        using ok(2) inv by (auto simp: record_ok_def replay_inv_def)
      have bstep: "broker_step env K (snd s) st" using batch_step [OF _ keys] committed(2) by simp
      have broker: "broker_ok env K st"
        using broker_ok_step [OF _ bstep] inv by (simp add: replay_inv_def)
      from committed(4) have "coordinator_ok cfg (fst t) \<and> records_final c (fst t)"
      proof
        assume "fst t = fst (c, snd s)"
        with ok(1) show ?thesis by (simp add: records_final_refl)
      next
        assume "\<exists>r'. dr_batch_result r = None \<and> decision_record_init (r\<lparr>dr_batch_result := Some result\<rparr>) = Inr r'
         \<and> fst t = (fst (c, snd s))\<lparr>co_records := dset (key_of env e) r' (co_records (fst (c, snd s)))\<rparr>"
        then obtain r' where none: "dr_batch_result r = None"
          and r': "decision_record_init (r\<lparr>dr_batch_result := Some result\<rparr>) = Inr r'"
          and t: "fst t = c\<lparr>co_records := dset (key_of env e) r' (co_records c)\<rparr>" by auto
        from record_with_result [OF ok(2) r' committed(1)]
          update_record [OF ok(1), of "key_of env e" r'] ok(3) none show ?thesis
          by (auto simp: t records_final_def)
      qed
      with inv bstep broker committed(3) final show ?thesis
        by (auto simp: replay_inv_def replay_below_def intro: records_final_trans)
    qed
  qed
qed

interpretation replay: state_machine "replay_step cfg env" "replay_inv cfg env K" for cfg env K
  by unfold_locales (use replay_step_progress in blast)

interpretation replay_order: ordered_machine "replay_step cfg env" "replay_inv cfg env K" "replay_below env K"
  for cfg env K
proof unfold_locales
  fix s t u
  show "replay_below env K s s" by (simp add: replay_below_def records_final_refl)
  show "replay_below env K s t \<Longrightarrow> replay_below env K t u \<Longrightarrow> replay_below env K s u"
    unfolding replay_below_def using records_final_trans by (meson rtranclp_trans)
  show "replay_inv cfg env K s \<Longrightarrow> replay_step cfg env s t \<Longrightarrow> replay_below env K s t"
    using replay_step_progress by blast
qed

end
