(* ===== verification/Strategy_Restore.thy ===== *)
theory Strategy_Restore
  imports Strategy_Runs
begin

text \<open>
  Checkpoints of the coordinator: the exported records and digests are sorted as \<open>_restore_state\<close> wants
  them, and the coordinator restored from them behaves like the one that was saved.
\<close>

section \<open>The exported lists\<close>

lemma strictly_increasing_iff: "strictly_increasing ks \<longleftrightarrow> sorted ks \<and> distinct ks"
proof (induction ks rule: strictly_increasing.induct)
  case (1 a b ks)
  then show ?case by (auto simp: less_le intro: order_trans)
qed auto

lemma record_sort_key_inject: "record_sort_key a = record_sort_key b \<longleftrightarrow> record_key a = record_key b"
  by (auto simp: record_sort_key_def record_key_def uuid.expand)

lemma decision_records_facts:
  assumes "coordinator_ok cfg c"
  shows "set (decision_records c) = snd ` set (co_records c)" "length (decision_records c) = length (co_records c)"
    "distinct (map record_key (decision_records c))" "strictly_increasing (map record_sort_key (decision_records c))"
    "\<And>k r. dget (co_records c) k = Some r \<longleftrightarrow> r \<in> set (decision_records c) \<and> record_key r = k"
proof -
  have ok: "dict_ok (co_records c)" "\<And>k r. dget (co_records c) k = Some r \<Longrightarrow> record_key r = k"
    using assms by (auto simp: coordinator_ok_def record_ok_def)
  show set: "set (decision_records c) = snd ` set (co_records c)"
    by (simp add: decision_records_def dvalues_def)
  show "length (decision_records c) = length (co_records c)" by (simp add: decision_records_def dvalues_def)
  have keys: "map record_key (dvalues (co_records c)) = map fst (co_records c)"
    using ok mem_dict [OF ok(1)] by (auto simp: dvalues_def)
  have "distinct (map record_key (dvalues (co_records c)))"
    using ok(1) keys by (simp add: dict_ok_def)
  then show distinct: "distinct (map record_key (decision_records c))"
    by (simp add: distinct_map decision_records_def)
  then have "distinct (map record_sort_key (decision_records c))"
    by (simp add: distinct_map inj_on_def record_sort_key_inject)
  then show "strictly_increasing (map record_sort_key (decision_records c))"
    by (simp add: strictly_increasing_iff decision_records_def)
  show "dget (co_records c) k = Some r \<longleftrightarrow> r \<in> set (decision_records c) \<and> record_key r = k" for k r
  proof -
    have "r \<in> snd ` set (co_records c) \<longleftrightarrow> (\<exists>j. dget (co_records c) j = Some r)"
      using set_dvalues [OF ok(1), of r] by (simp add: dvalues_def)
    with ok(2) show ?thesis unfolding set by metis
  qed
qed

lemma digest_sort_key_inject: "digest_sort_key x = digest_sort_key y \<longleftrightarrow> fst x = fst y"
  by (auto simp: digest_sort_key_def prod_eq_iff intro: uuid.expand)

lemma exported_facts:
  assumes "coordinator_ok cfg c"
  shows "length (exported_digests c) = length (co_digests c)"
    "strictly_increasing (map (\<lambda>(i, n, d). (uuid_str i, n)) (exported_digests c))"
    "\<And>i n d. (i, n, d) \<in> set (exported_digests c) \<longleftrightarrow> dget (co_digests c) (i, n) = Some d"
    "dget (fold (\<lambda>(i, n, d) m. dset (i, n) d m) (exported_digests c) []) = dget (co_digests c)"
proof -
  have ok: "dict_ok (co_digests c)" using assms by (simp add: coordinator_ok_def)
  let ?xs = "sort_key digest_sort_key (co_digests c)"
  show "length (exported_digests c) = length (co_digests c)" by (simp add: exported_digests_def)
  have dict: "distinct (map fst ?xs)"
    using ok by (simp add: dict_ok_def distinct_map)
  have keys: "map (\<lambda>(i, n, d). (uuid_str i, n)) (exported_digests c) = map digest_sort_key ?xs"
    by (simp add: exported_digests_def digest_sort_key_def case_prod_unfold)
  have "distinct (map digest_sort_key ?xs)"
    using dict by (simp add: distinct_map inj_on_def digest_sort_key_inject)
  then show "strictly_increasing (map (\<lambda>(i, n, d). (uuid_str i, n)) (exported_digests c))"
    by (simp add: keys strictly_increasing_iff)
  show "(i, n, d) \<in> set (exported_digests c) \<longleftrightarrow> dget (co_digests c) (i, n) = Some d" for i n d
    using mem_dict [OF ok, of "(i, n)" d] by (force simp: exported_digests_def)
  have "fold (\<lambda>(i, n, d) m. dset (i, n) d m) (exported_digests c) []
      = fold (\<lambda>x m. dset (fst x) (snd x) m) ?xs []"
    by (simp add: exported_digests_def fold_map comp_def case_prod_unfold)
  with fold_dset_dict [OF ok _ dict] show
    "dget (fold (\<lambda>(i, n, d) m. dset (i, n) d m) (exported_digests c) []) = dget (co_digests c)"
    by simp
qed

lemma restored_records:
  assumes "coordinator_ok cfg c"
  shows "dget (fold (\<lambda>r d. dset (record_key r) r d) (decision_records c) []) = dget (co_records c)"
proof
  fix k
  note facts = decision_records_facts [OF assms]
  show "dget (fold (\<lambda>r d. dset (record_key r) r d) (decision_records c) []) k = dget (co_records c) k"
  proof (cases "dget (co_records c) k")
    case None
    then have "find (\<lambda>r. record_key r = k) (decision_records c) = None"
      using facts(5) [of k] by (auto simp: find_None_iff)
    with None show ?thesis by (simp add: dget_fold_dset [OF facts(3)])
  next
    case (Some r)
    then have "r \<in> set (decision_records c)" "record_key r = k" using facts(5) [of k r] by auto
    with find_unique [OF facts(3), of r] Some show ?thesis by (simp add: dget_fold_dset [OF facts(3)])
  qed
qed

section \<open>The restored coordinator\<close>

text \<open>The same records and digests, in dictionaries that may have been filled in another order.\<close>

definition same_coordinator :: "coordinator \<Rightarrow> coordinator \<Rightarrow> bool" where
  "same_coordinator c c' \<longleftrightarrow>
     dget (co_records c') = dget (co_records c) \<and> dget (co_digests c') = dget (co_digests c)
     \<and> length (co_records c') = length (co_records c)"

lemma restore_exported:
  assumes ok: "coordinator_ok cfg c"
  shows "\<exists>c'. restore_coordinator cfg (decision_records c) (exported_digests c) = Inr c' \<and> same_coordinator c c'"
proof -
  note records = decision_records_facts [OF ok] and digests = exported_facts [OF ok]
    and restored = restored_records [OF ok]
  have "record_restorable cfg r" if "r \<in> set (decision_records c)" for r
  proof -
    from that records(5) [of "record_key r" r] ok have "record_ok cfg (record_key r) r"
      unfolding coordinator_ok_def by blast
    then show ?thesis by (auto simp: record_restorable_def record_ok_def authorised_def list_all_iff)
  qed
  then have "list_all (record_restorable cfg) (decision_records c)" by (simp add: list_all_iff)
  moreover have "list_all (\<lambda>x. dget (co_records c) x \<noteq> None) (exported_digests c)"
    using ok digests(3) unfolding list_all_iff coordinator_ok_def by auto
  moreover have "int (length (decision_records c)) \<le> cc_max_records cfg"
    "length (decision_records c) = length (exported_digests c)"
    using ok records(2) digests(1) by (simp_all add: coordinator_ok_def)
  moreover have "length (fold (\<lambda>r. dset (record_key r) r) (decision_records c) []) = length (co_records c)"
  proof -
    have "dict_ok (fold (\<lambda>r. dset (record_key r) r) (decision_records c) [])" "dict_ok (co_records c)"
      using ok dict_ok_fold [of "[]" record_key "\<lambda>r. r"] by (simp_all add: coordinator_ok_def)
    then show ?thesis by (simp only: dict_length restored)
  qed
  ultimately show ?thesis
    using records(4) digests(2,4)
    by (simp add: restore_coordinator_def Let_def restored err_simps same_coordinator_def)
qed

text \<open>Publishing cannot tell the two apart.\<close>

lemma same_dset:
  "same_coordinator c c' \<Longrightarrow>
     same_coordinator (c\<lparr>co_records := dset k r (co_records c)\<rparr>) (c'\<lparr>co_records := dset k r (co_records c')\<rparr>)"
  by (auto simp: same_coordinator_def length_dset dget_dset_fun)

lemma process_cached_same:
  assumes "same_coordinator c c'" and "process_cached cfg env e k r (c, st) = ((d, st'), x)"
  shows "\<exists>d'. process_cached cfg env e k r (c', st) = ((d', st'), x) \<and> same_coordinator d d'"
  using assms same_dset [OF assms(1), of k]
  by (auto simp: process_cached_def split: if_splits sum.splits prod.splits)

lemma publish_same:
  assumes same: "same_coordinator c c'" and run: "coordinator_publish cfg env e (c, st) = ((d, st'), x)"
  shows "\<exists>d'. coordinator_publish cfg env e (c', st) = ((d', st'), x) \<and> same_coordinator d d'"
proof -
  let ?digest = "envelope_digest env e"
  let ?k = "(en_session_id e, en_ingest_sequence e, ?digest)"
  have eqs: "dget (co_records c') = dget (co_records c)" "dget (co_digests c') = dget (co_digests c)"
    "length (co_records c') = length (co_records c)" using same by (simp_all add: same_coordinator_def)
  have add: "same_coordinator
      \<lparr>co_records = dset ?k r (co_records c), co_digests = dset (en_session_id e, en_ingest_sequence e) ?digest (co_digests c)\<rparr>
      \<lparr>co_records = dset ?k r (co_records c'), co_digests = dset (en_session_id e, en_ingest_sequence e) ?digest (co_digests c')\<rparr>"
    for r using eqs by (simp add: same_coordinator_def length_dset dget_dset_fun)
  show ?thesis
  proof (cases "ebind (decide_all cfg env e st) (new_decision_record env e)")
    case (Inl y)
    with run same process_cached_same [OF same, of cfg env e ?k] show ?thesis
      by (auto simp: coordinator_publish_def Let_def eqs split: option.splits if_splits)
  next
    case (Inr r)
    with run same process_cached_same [OF same, of cfg env e ?k] process_cached_same [OF add, of cfg env e ?k] show ?thesis
      by (auto simp: coordinator_publish_def Let_def eqs split: option.splits if_splits)
  qed
qed

end
