(* ===== verification/Strategy_Theorems.thy ===== *)
theory Strategy_Theorems
  imports Strategy_Restore Broker_Demo
begin

text \<open>
  A run of the coordinator for the witnesses: one template strategy is asked on the metadata of its
  instrument, its order rests in the paper broker, and the next quote fills part of it.
\<close>

definition demo_template :: order_template where
  "demo_template = \<lparr>ot_strategy_id = ''s'', ot_client_order_id = ''c2'', ot_account_id = ''a'',
     ot_instrument_id = ''TXF'', ot_side = BUY, ot_quantity = Dec 2 0, ot_order_type = LIMIT,
     ot_limit_price = Some (Dec 101 0), ot_time_in_force = DAY, ot_day_trade = False\<rparr>"

definition demo_registration :: strategy_registration where
  "demo_registration = \<lparr>rg_strategy_id = ''s'', rg_strategy = instrument_triggered_strategy demo_template,
     rg_fingerprint = None\<rparr>"

definition demo_coordinator :: "execution_mode \<Rightarrow> coordinator_config" where
  "demo_coordinator mode = \<lparr>cc_registrations = [demo_registration], cc_mode = mode, cc_max_records = 5\<rparr>"

definition no_records :: coordinator where
  "no_records = \<lparr>co_records = [], co_digests = []\<rparr>"

lemma demo_new_coordinator:
  "new_coordinator [demo_registration] mode 5 = Inr (demo_coordinator mode, no_records)"
  by (simp add: new_coordinator_def demo_coordinator_def no_records_def err_simps)

lemma order_intent_init_same: "order_intent_init i = Inr x \<Longrightarrow> x = i"
  by (auto simp: order_intent_init_def err_simps split: order_type.splits option.splits)

lemma template_command_key:
  assumes "instrument_triggered_strategy t e c = Inr cs" and "(ot_strategy_id t, ot_client_order_id t) \<in> K"
  shows "list_all (command_key_in K) cs"
  using assms
  by (auto simp: instrument_triggered_strategy_def err_simps template_intent_def intent_key_def
      dest!: order_intent_init_same split: domain_payload.splits if_splits)

lemma demo_strategies: "strategies_within (demo_coordinator mode) demo_keys"
  using template_command_key [of demo_template _ _ _ demo_keys]
  by (auto simp: strategies_within_def demo_coordinator_def demo_registration_def demo_keys_def demo_template_def)

definition demo_metadata_envelope :: envelope where
  "demo_metadata_envelope = demo_envelope INSTRUMENT (InstrumentPayload demo_instrument) 1 ''k'' 5"

text \<open>The same source position with other content.\<close>

definition demo_changed_envelope :: envelope where
  "demo_changed_envelope = demo_metadata_envelope\<lparr>en_dedupe_key := ''kkk''\<rparr>"

definition demo_replay_check :: "execution_mode \<Rightarrow> (replay_state \<Rightarrow> replay_state \<Rightarrow> bool) \<Rightarrow> bool" where
  "demo_replay_check mode f =
     (case coordinator_publish (demo_coordinator mode) demo_env demo_metadata_envelope
             (no_records, init_broker demo_env None) of
        (a, Inl x) \<Rightarrow> False
      | (a, Inr u) \<Rightarrow>
          (case coordinator_publish (demo_coordinator mode) demo_env demo_quote_envelope a of
             (b, Inl x) \<Rightarrow> False
           | (b, Inr u) \<Rightarrow> f a b))"

definition demo_replayed :: "replay_state \<Rightarrow> replay_state \<Rightarrow> bool" where
  "demo_replayed a b \<longleftrightarrow>
     length (co_records (fst b)) = 2 \<and> order_status_of (snd b) demo_order_2 = Some FILLED"

lemma demo_replay_ok: "demo_replay_check PAPER demo_replayed"
  by code_simp

lemma demo_changed:
  "envelope_digest demo_env demo_changed_envelope \<noteq> envelope_digest demo_env demo_metadata_envelope
   \<and> en_session_id demo_changed_envelope = en_session_id demo_metadata_envelope
   \<and> en_ingest_sequence demo_changed_envelope = en_ingest_sequence demo_metadata_envelope"
  by code_simp

lemma demo_published:
  obtains a b where
    "coordinator_publish (demo_coordinator PAPER) demo_env demo_metadata_envelope (no_records, init_broker demo_env None)
       = (a, Inr ())"
    "coordinator_publish (demo_coordinator PAPER) demo_env demo_quote_envelope a = (b, Inr ())"
    "demo_replayed a b"
  using demo_replay_ok by (auto simp: demo_replay_check_def split: prod.splits sum.splits)


text \<open>The properties of the strategy runtime, with a run of one template strategy as the example.\<close>

section \<open>From the start\<close>

lemma new_coordinator_start:
  assumes "new_coordinator regs mode m = Inr (cfg, c)" and "inj_on (broker_order_id env) K"
    and "strategies_within cfg K"
  shows "replay_inv cfg env K (c, init_broker env session)" and "cc_mode cfg = mode"
    and "set (map rg_strategy_id (cc_registrations cfg)) = set (map rg_strategy_id regs)"
  using assms broker_ok_init [OF assms(2)]
  by (auto simp: new_coordinator_def replay_inv_def coordinator_ok_def err_simps)

lemma observe_only_step:
  assumes "replay_step cfg env s t" and "cc_mode cfg = OBSERVE_ONLY"
  shows "snd t = snd s"
proof -
  from assms(1) obtain e x where "coordinator_publish cfg env e s = (t, x)" by (rule replay_stepE)
  then show ?thesis
  proof (cases rule: publish_cases)
    case (processed r c)
    with assms(2) show ?thesis by (auto simp: process_cached_def)
  qed simp
qed

lemma observe_only_run:
  "(replay_step cfg env)\<^sup>*\<^sup>* s t \<Longrightarrow> cc_mode cfg = OBSERVE_ONLY \<Longrightarrow> snd t = snd s"
  by (induction rule: rtranclp_induct) (auto dest: observe_only_step)

section \<open>What a completed delivery leaves\<close>

definition delivered :: "coordinator_config \<Rightarrow> broker_env \<Rightarrow> envelope \<Rightarrow> replay_state \<Rightarrow> bool" where
  "delivered cfg env e s \<longleftrightarrow>
     (\<exists>r. dget (co_records (fst s)) (key_of env e) = Some r
        \<and> dget (co_digests (fst s)) (source_of e) = Some (envelope_digest env e)
        \<and> (cc_mode cfg = OBSERVE_ONLY \<or> dr_batch_result r \<noteq> None))"

lemma process_cached_delivered:
  assumes "process_cached cfg env e (key_of env e) r (c, st) = (t, Inr ())"
    and "dget (co_records c) (key_of env e) = Some r"
    and "dget (co_digests c) (source_of e) = Some (envelope_digest env e)"
  shows "delivered cfg env e t"
  using assms
  by (auto simp: process_cached_def delivered_def decision_record_init_def err_simps split: if_splits sum.splits)

lemma publish_returns:
  assumes "coordinator_publish cfg env e s = (t, Inr ())"
  obtains r c where "\<not> conflicts env e (fst s)" "decided cfg env e s r c"
    "process_cached cfg env e (key_of env e) r (c, snd s) = (t, Inr ())"
proof -
  have free: "\<not> conflicts env e (fst s)" using publish_conflict [of env e s cfg] assms by auto
  show thesis
  proof (cases "dget (co_records (fst s)) (key_of env e)")
    case (Some r)
    with assms publish_cached [OF free Some] that [OF free, of r "fst s"] show thesis by (simp add: decided_def)
  next
    case None
    with assms free obtain r where
      "process_cached cfg env e (key_of env e) r
        (\<lparr>co_records = dset (key_of env e) r (co_records (fst s)),
          co_digests = dset (source_of e) (envelope_digest env e) (co_digests (fst s))\<rparr>, snd s) = (t, Inr ())"
      "ebind (decide_all cfg env e (snd s)) (new_decision_record env e) = Inr r"
      "\<not> cc_max_records cfg \<le> int (length (co_records (fst s)))"
      by (auto simp: coordinator_publish_def Let_def key_of_def source_of_def conflicts_def
          split: option.splits if_splits sum.splits)
    with None that [OF free] show thesis by (simp add: decided_def ebind_eq_Inr)
  qed
qed

lemma publish_delivered:
  assumes "replay_inv cfg env K s" and "coordinator_publish cfg env e s = (t, Inr ())"
  shows "delivered cfg env e t"
proof -
  obtain r c where run: "\<not> conflicts env e (fst s)" "decided cfg env e s r c"
    "process_cached cfg env e (key_of env e) r (c, snd s) = (t, Inr ())"
    using publish_returns [OF assms(2)] by blast
  from decided_ok [OF _ run(1,2)] assms(1) process_cached_delivered [OF run(3)] show ?thesis
    by (simp add: replay_inv_def)
qed

lemma delivered_later:
  "delivered cfg env e s \<Longrightarrow> records_final (fst s) (fst t) \<Longrightarrow> delivered cfg env e t"
  unfolding delivered_def records_final_def by metis

text \<open>The batch of a delivered envelope has run in the broker, so the broker takes a repeat for a duplicate.\<close>

lemma process_cached_batch:
  assumes "process_cached cfg env e k r (c, st) = (t, Inr ())" and "cc_mode cfg = PAPER"
    and "dget (co_records c) k = Some r"
  shows "\<exists>result. process_decision_batch env e (dr_decision r) st = Inr (snd t, result)
    \<and> (\<exists>r'. dget (co_records (fst t)) k = Some r' \<and> dr_decision r' = dr_decision r)"
  using assms by (auto simp: process_cached_def decision_record_init_def err_simps split: if_splits sum.splits)

lemma publish_batch:
  assumes inv: "replay_inv cfg env K s" and paper: "cc_mode cfg = PAPER"
    and run: "coordinator_publish cfg env e s = (t, Inr ())"
  shows "\<exists>d result r. process_decision_batch env e d (snd s) = Inr (snd t, result)
    \<and> list_all (command_key_in K) (de_commands d)
    \<and> dget (co_records (fst t)) (key_of env e) = Some r \<and> dr_decision r = d"
proof -
  obtain r c where steps: "\<not> conflicts env e (fst s)" "decided cfg env e s r c"
    "process_cached cfg env e (key_of env e) r (c, snd s) = (t, Inr ())"
    using publish_returns [OF run] by blast
  have ok: "record_ok cfg (key_of env e) r" "dget (co_records c) (key_of env e) = Some r"
    using decided_ok [OF _ steps(1,2)] inv by (simp_all add: replay_inv_def)
  then have "list_all (command_key_in K) (de_commands (dr_decision r))"
    using inv by (auto simp: replay_inv_def record_ok_def)
  with process_cached_batch [OF steps(3) paper ok(2)] show ?thesis by blast
qed

lemma redelivered:
  assumes "delivered cfg env e s"
    and "cc_mode cfg = PAPER \<Longrightarrow> \<forall>r. dget (co_records (fst s)) (key_of env e) = Some r \<longrightarrow>
        (\<exists>res. process_decision_batch env e (dr_decision r) (snd s) = Inr (snd s, res))"
  shows "coordinator_publish cfg env e s = (s, Inr ())"
proof -
  obtain r where r: "dget (co_records (fst s)) (key_of env e) = Some r"
    "dget (co_digests (fst s)) (source_of e) = Some (envelope_digest env e)"
    "cc_mode cfg = OBSERVE_ONLY \<or> dr_batch_result r \<noteq> None"
    using assms(1) by (auto simp: delivered_def)
  have "\<not> conflicts env e (fst s)" using r(2) by (simp add: conflicts_def)
  note cached = publish_cached [OF this r(1), of cfg]
  show ?thesis
  proof (cases "cc_mode cfg")
    case PAPER
    with assms(2) r cached show ?thesis by (auto simp: process_cached_def)
  qed (simp add: cached process_cached_def)
qed

lemma publish_again:
  assumes inv: "replay_inv cfg env K s" and run: "coordinator_publish cfg env e s = (t, Inr ())"
    and later: "(replay_step cfg env)\<^sup>*\<^sup>* t u"
  shows "coordinator_publish cfg env e u = (u, Inr ())"
proof (rule redelivered)
  have inv': "replay_inv cfg env K t"
    using replay_step_progress [OF inv publish_step [OF run]] by blast
  then have below: "replay_below env K t u" using replay_order.run_below [OF later] by blast
  then show "delivered cfg env e u"
    using delivered_later [OF publish_delivered [OF inv run]] by (simp add: replay_below_def)
  assume paper: "cc_mode cfg = PAPER"
  from publish_batch [OF inv paper run] obtain d result r where
    batch: "process_decision_batch env e d (snd s) = Inr (snd t, result)" "list_all (command_key_in K) (de_commands d)"
      "dget (co_records (fst t)) (key_of env e) = Some r" "dr_decision r = d" by blast
  have "\<exists>res. process_decision_batch env e d (snd u) = Inr (snd u, res)"
    using batch_redelivered [OF _ batch(1,2)] inv below by (auto simp: replay_inv_def replay_below_def)
  moreover have "\<exists>r'. dget (co_records (fst u)) (key_of env e) = Some r' \<and> dr_decision r' = d"
    using below batch(3,4) unfolding replay_below_def records_final_def by blast
  ultimately show "\<forall>r. dget (co_records (fst u)) (key_of env e) = Some r \<longrightarrow>
        (\<exists>res. process_decision_batch env e (dr_decision r) (snd u) = Inr (snd u, res))" by auto
qed

lemma changed_refused:
  assumes inv: "replay_inv cfg env K s" and run: "coordinator_publish cfg env e s = (t, Inr ())"
    and later: "(replay_step cfg env)\<^sup>*\<^sup>* t u"
    and "source_of e' = source_of e" and "envelope_digest env e' \<noteq> envelope_digest env e"
  shows "coordinator_publish cfg env e' u = (u, Inl (RuntimeError ''market-data retry conflict''))"
proof -
  have "replay_inv cfg env K t" using replay_step_progress [OF inv publish_step [OF run]] by blast
  then have "replay_below env K t u" using replay_order.run_below [OF later] by blast
  then have "delivered cfg env e u"
    using delivered_later [OF publish_delivered [OF inv run]] by (simp add: replay_below_def)
  with assms(4,5) have "conflicts env e' (fst u)" by (auto simp: delivered_def conflicts_def)
  from publish_conflict [OF this] show ?thesis by (simp add: coordinator_error_def)
qed

section \<open>The properties\<close>

text \<open>C12: composition. Whatever envelopes are published, in whatever order, with repeats, refusals and
  exceptions of the strategies, the broker under the coordinator goes through a run of its own
  operations, so that every property of broker runs holds for it; under OBSERVE_ONLY it never moves.\<close>

theorem replay_is_a_broker_run:
  assumes "inj_on (broker_order_id env) K" and "new_coordinator regs mode m = Inr (cfg, c)"
    and "strategies_within cfg K" and "(replay_step cfg env)\<^sup>*\<^sup>* (c, init_broker env session) s"
  shows "(broker_step env K)\<^sup>*\<^sup>* (init_broker env session) (snd s)
    \<and> (mode = OBSERVE_ONLY \<longrightarrow> snd s = init_broker env session)"
proof -
  note start = new_coordinator_start [OF assms(2,1,3)]
  from replay_order.run_below [OF assms(4) start(1)] observe_only_run [OF assms(4)] start(2)
  show ?thesis by (simp add: replay_below_def)
qed

lemma one_step: "coordinator_publish cfg env e s = (t, x) \<Longrightarrow> (replay_step cfg env)\<^sup>*\<^sup>* s t"
  using publish_step [of cfg env e s t x] by blast

lemma demo_replay_run:
  "(replay_step (demo_coordinator mode) demo_env)\<^sup>*\<^sup>* (no_records, st)
     (fst (coordinator_publish (demo_coordinator mode) demo_env e (no_records, st)))"
  by (rule one_step [OF prod.collapse [symmetric]])

lemma replay_is_a_broker_run_witness:
  "(broker_step demo_env demo_keys)\<^sup>*\<^sup>* (init_broker demo_env None)
     (snd (fst (coordinator_publish (demo_coordinator PAPER) demo_env demo_metadata_envelope
       (no_records, init_broker demo_env None))))"
  using replay_is_a_broker_run [OF demo_inj demo_new_coordinator demo_strategies demo_replay_run] by blast

text \<open>Authority. Every decision the coordinator holds was built from commands of registered
  strategies only, each caused by the recorded envelope and with its own client identifier; every source
  position has one digest and one record; and the capacity is never exceeded.\<close>

theorem decisions_are_authorised:
  assumes "inj_on (broker_order_id env) K" and "new_coordinator regs mode m = Inr (cfg, c)"
    and "strategies_within cfg K" and "(replay_step cfg env)\<^sup>*\<^sup>* (c, init_broker env session) s"
    and "dget (co_records (fst s)) (i, n, d) = Some r"
  shows "authorised cfg i n (de_commands (dr_decision r))
    \<and> dget (co_digests (fst s)) (i, n) = Some d
    \<and> int (length (co_records (fst s))) \<le> m"
proof -
  from replay.run_inv [OF assms(4) new_coordinator_start(1) [OF assms(2,1,3)]]
  have ok: "coordinator_ok cfg (fst s)" by (simp add: replay_inv_def)
  with assms(5) have "record_ok cfg (i, n, d) r" "dget (co_digests (fst s)) (i, n) = Some d"
    by (auto simp: coordinator_ok_def)
  moreover have "cc_max_records cfg = m" using assms(2) by (auto simp: new_coordinator_def err_simps)
  ultimately show ?thesis using ok by (auto simp: record_ok_def record_key_def coordinator_ok_def)
qed

lemma demo_two_steps:
  assumes "coordinator_publish cfg env e s = (a, x)" and "coordinator_publish cfg env e' a = (b, y)"
  shows "(replay_step cfg env)\<^sup>*\<^sup>* s b"
  by (rule rtranclp_trans [OF one_step [OF assms(1)] one_step [OF assms(2)]])

lemma decisions_are_authorised_witness:
  "\<exists>a b i n d r. demo_replayed a b \<and> dget (co_records (fst b)) (i, n, d) = Some r
     \<and> authorised (demo_coordinator PAPER) i n (de_commands (dr_decision r))"
proof -
  obtain a b where ab: "coordinator_publish (demo_coordinator PAPER) demo_env demo_metadata_envelope
      (no_records, init_broker demo_env None) = (a, Inr ())"
    "coordinator_publish (demo_coordinator PAPER) demo_env demo_quote_envelope a = (b, Inr ())"
    "demo_replayed a b" by (rule demo_published)
  have run: "(replay_step (demo_coordinator PAPER) demo_env)\<^sup>*\<^sup>* (no_records, init_broker demo_env None) b"
    by (rule demo_two_steps [OF ab(1,2)])
  obtain i n d r where "((i, n, d), r) \<in> set (co_records (fst b))"
    using ab(3) by (cases "co_records (fst b)") (auto simp: demo_replayed_def)
  moreover have "dict_ok (co_records (fst b))"
    using replay.run_inv [OF run new_coordinator_start(1) [OF demo_new_coordinator demo_inj demo_strategies]]
    by (simp add: replay_inv_def coordinator_ok_def)
  ultimately have r: "dget (co_records (fst b)) (i, n, d) = Some r" by (simp add: mem_dict)
  from decisions_are_authorised [OF demo_inj demo_new_coordinator demo_strategies run r] r ab(3)
  show ?thesis by blast
qed

text \<open>C13: a delivered envelope stays delivered. Once publishing it has returned, publishing it again at any
  later time, whatever was published in between, returns and changes neither coordinator nor broker.\<close>

theorem delivery_is_idempotent:
  assumes "inj_on (broker_order_id env) K" and "new_coordinator regs mode m = Inr (cfg, c)"
    and "strategies_within cfg K" and "(replay_step cfg env)\<^sup>*\<^sup>* (c, init_broker env session) s"
    and "coordinator_publish cfg env e s = (t, Inr ())" and "(replay_step cfg env)\<^sup>*\<^sup>* t u"
  shows "coordinator_publish cfg env e u = (u, Inr ())"
  by (rule publish_again [OF replay.run_inv [OF assms(4) new_coordinator_start(1) [OF assms(2,1,3)]] assms(5,6)])

lemma delivery_is_idempotent_witness:
  "\<exists>a b. demo_replayed a b
     \<and> coordinator_publish (demo_coordinator PAPER) demo_env demo_metadata_envelope b = (b, Inr ())"
proof -
  obtain a b where ab: "coordinator_publish (demo_coordinator PAPER) demo_env demo_metadata_envelope
      (no_records, init_broker demo_env None) = (a, Inr ())"
    "coordinator_publish (demo_coordinator PAPER) demo_env demo_quote_envelope a = (b, Inr ())"
    "demo_replayed a b" by (rule demo_published)
  from delivery_is_idempotent [OF demo_inj demo_new_coordinator demo_strategies rtranclp.rtrancl_refl ab(1)
      one_step [OF ab(2)]] ab(3)
  show ?thesis by blast
qed

text \<open>A source position cannot be rewritten. After a delivery, an envelope with the same session and
  sequence but other content is refused with the retry conflict at any later time, and changes nothing.\<close>

theorem changed_envelope_is_refused:
  assumes "inj_on (broker_order_id env) K" and "new_coordinator regs mode m = Inr (cfg, c)"
    and "strategies_within cfg K" and "(replay_step cfg env)\<^sup>*\<^sup>* (c, init_broker env session) s"
    and "coordinator_publish cfg env e s = (t, Inr ())" and "(replay_step cfg env)\<^sup>*\<^sup>* t u"
    and "source_of e' = source_of e" and "envelope_digest env e' \<noteq> envelope_digest env e"
  shows "coordinator_publish cfg env e' u = (u, Inl (RuntimeError ''market-data retry conflict''))"
  by (rule changed_refused [OF replay.run_inv [OF assms(4) new_coordinator_start(1) [OF assms(2,1,3)]] assms(5-8)])

lemma changed_envelope_is_refused_witness:
  "\<exists>a b. demo_replayed a b
     \<and> coordinator_publish (demo_coordinator PAPER) demo_env demo_changed_envelope b
         = (b, Inl (RuntimeError ''market-data retry conflict''))"
proof -
  obtain a b where ab: "coordinator_publish (demo_coordinator PAPER) demo_env demo_metadata_envelope
      (no_records, init_broker demo_env None) = (a, Inr ())"
    "coordinator_publish (demo_coordinator PAPER) demo_env demo_quote_envelope a = (b, Inr ())"
    "demo_replayed a b" by (rule demo_published)
  have "source_of demo_changed_envelope = source_of demo_metadata_envelope"
    using demo_changed by (simp add: source_of_def)
  from changed_envelope_is_refused [OF demo_inj demo_new_coordinator demo_strategies rtranclp.rtrancl_refl ab(1)
      one_step [OF ab(2)] this] demo_changed ab(3)
  show ?thesis by blast
qed

text \<open>C14: checkpoints. The records and digests a coordinator exports are accepted by its restoration, and
  the restored coordinator cannot be told from the saved one: any envelope gets the same result and the
  same broker state, and leaves coordinators that are the same again.\<close>

theorem coordinator_restores:
  assumes "inj_on (broker_order_id env) K" and "new_coordinator regs mode m = Inr (cfg, c)"
    and "strategies_within cfg K" and "(replay_step cfg env)\<^sup>*\<^sup>* (c, init_broker env session) s"
  shows "\<exists>c'. restore_coordinator cfg (decision_records (fst s)) (exported_digests (fst s)) = Inr c'
    \<and> same_coordinator (fst s) c'
    \<and> (\<forall>e. \<exists>d'. coordinator_publish cfg env e (c', snd s)
             = ((d', snd (fst (coordinator_publish cfg env e s))), snd (coordinator_publish cfg env e s))
           \<and> same_coordinator (fst (fst (coordinator_publish cfg env e s))) d')"
proof -
  from replay.run_inv [OF assms(4) new_coordinator_start(1) [OF assms(2,1,3)]]
  obtain c' where c': "restore_coordinator cfg (decision_records (fst s)) (exported_digests (fst s)) = Inr c'"
    "same_coordinator (fst s) c'" using restore_exported by (auto simp: replay_inv_def)
  have "\<exists>d'. coordinator_publish cfg env e (c', snd s)
             = ((d', snd (fst (coordinator_publish cfg env e s))), snd (coordinator_publish cfg env e s))
           \<and> same_coordinator (fst (fst (coordinator_publish cfg env e s))) d'" for e
    by (rule publish_same [OF c'(2)]) simp
  with c' show ?thesis by blast
qed

lemma coordinator_restores_witness:
  "\<exists>a b c'. demo_replayed a b
     \<and> restore_coordinator (demo_coordinator PAPER) (decision_records (fst b)) (exported_digests (fst b)) = Inr c'
     \<and> length (co_records c') = 2"
proof -
  obtain a b where ab: "coordinator_publish (demo_coordinator PAPER) demo_env demo_metadata_envelope
      (no_records, init_broker demo_env None) = (a, Inr ())"
    "coordinator_publish (demo_coordinator PAPER) demo_env demo_quote_envelope a = (b, Inr ())"
    "demo_replayed a b" by (rule demo_published)
  from coordinator_restores [OF demo_inj demo_new_coordinator demo_strategies demo_two_steps [OF ab(1,2)]] ab(3)
  show ?thesis by (auto simp: same_coordinator_def demo_replayed_def)
qed

end
