(* ===== verification/Live_Evidence.thy ===== *)
theory Live_Evidence
  imports Live_Contracts
begin

text \<open>
  What the broker says about an account: the observations, positions and discrepancies of
  \<open>orders/live_contracts.py\<close>, and the evidence, snapshots and journal answers of \<open>orders/live_ports.py\<close>.
\<close>

section \<open>Observations and positions\<close>

datatype reconciliation_kind =
    MISSING_LOCAL_ORDER | MISSING_BROKER_ORDER | ORDER_STATE_MISMATCH | QUANTITY_MISMATCH
  | POSITION_MISMATCH | FILL_MISMATCH | CORRELATION_MISSING

fun reconciliation_kind_value :: "reconciliation_kind \<Rightarrow> string" where
  "reconciliation_kind_value MISSING_LOCAL_ORDER = ''missing_local_order''"
| "reconciliation_kind_value MISSING_BROKER_ORDER = ''missing_broker_order''"
| "reconciliation_kind_value ORDER_STATE_MISMATCH = ''order_state_mismatch''"
| "reconciliation_kind_value QUANTITY_MISMATCH = ''quantity_mismatch''"
| "reconciliation_kind_value POSITION_MISMATCH = ''position_mismatch''"
| "reconciliation_kind_value FILL_MISMATCH = ''fill_mismatch''"
| "reconciliation_kind_value CORRELATION_MISSING = ''correlation_missing''"

fun correlation_status_value :: "correlation_status \<Rightarrow> string" where
  "correlation_status_value CANDIDATE = ''candidate''"
| "correlation_status_value CONFIRMED = ''confirmed''"
| "correlation_status_value AMBIGUOUS = ''ambiguous''"

record broker_position =
  bp_account_id :: string
  bp_instrument_id :: string
  bp_net_quantity :: decimal
  bp_average_open_price :: "decimal option"
  bp_observed_at :: instant

definition broker_position_init :: "broker_position \<Rightarrow> broker_position result" where
  "broker_position_init p =
     ethen (live_identifier ''account_id'' (bp_account_id p)) (
     ethen (live_identifier ''instrument_id'' (bp_instrument_id p)) (
     ethen (live_decimal False False ''net_quantity'' (bp_net_quantity p)) (
     ethen (optionally (live_decimal True False ''average_open_price'') (bp_average_open_price p)) (
     ethen (require (diszero (bp_net_quantity p) = (bp_average_open_price p = None))
              (ValueError ''average_open_price must exist exactly for a non-flat position''))
     (Inr p)))))"

record position_attribution =
  pa_strategy_id :: string
  pa_account_id :: string
  pa_instrument_id :: string
  pa_attributed_quantity :: decimal
  pa_as_of :: instant

definition position_attribution_init :: "position_attribution \<Rightarrow> position_attribution result" where
  "position_attribution_init a =
     ethen (live_identifier ''strategy_id'' (pa_strategy_id a)) (
     ethen (live_identifier ''account_id'' (pa_account_id a)) (
     ethen (live_identifier ''instrument_id'' (pa_instrument_id a)) (
     ethen (live_decimal False False ''attributed_quantity'' (pa_attributed_quantity a))
     (Inr a))))"

record open_order_observation =
  oo_observation_id :: string
  oo_account_id :: string
  oo_instrument_id :: string
  oo_side :: live_side
  oo_working_total_quantity :: decimal
  oo_working_remaining_quantity :: decimal
  oo_working_limit_price :: "decimal option"
  oo_correlation :: broker_correlation
  oo_observed_at :: instant

definition open_order_observation_init :: "open_order_observation \<Rightarrow> open_order_observation result" where
  "open_order_observation_init x =
     ethen (live_identifier ''observation_id'' (oo_observation_id x)) (
     ethen (live_identifier ''account_id'' (oo_account_id x)) (
     ethen (live_identifier ''instrument_id'' (oo_instrument_id x)) (
     ethen (live_decimal True False ''working_total_quantity'' (oo_working_total_quantity x)) (
     ethen (live_decimal True False ''working_remaining_quantity'' (oo_working_remaining_quantity x)) (
     ethen (require (dle (oo_working_remaining_quantity x) (oo_working_total_quantity x))
              (ValueError ''working_remaining_quantity must not exceed total'')) (
     ethen (optionally (live_decimal True False ''working_limit_price'') (oo_working_limit_price x))
     (Inr x)))))))"

record fill_observation =
  fo_observation_id :: string
  fo_account_id :: string
  fo_instrument_id :: string
  fo_side :: live_side
  fo_quantity :: decimal
  fo_execution_price :: decimal
  fo_correlation :: broker_correlation
  fo_observed_at :: instant
  fo_occurred_at :: "instant option"

definition fill_observation_init :: "fill_observation \<Rightarrow> fill_observation result" where
  "fill_observation_init x =
     ethen (live_identifier ''observation_id'' (fo_observation_id x)) (
     ethen (live_identifier ''account_id'' (fo_account_id x)) (
     ethen (live_identifier ''instrument_id'' (fo_instrument_id x)) (
     ethen (live_decimal True False ''quantity'' (fo_quantity x)) (
     ethen (live_decimal True False ''execution_price'' (fo_execution_price x)) (
     ethen (require (bc_broker_fill_id (fo_correlation x) \<noteq> None \<or> bc_execution_no (fo_correlation x) \<noteq> None)
              (ValueError ''fill observation requires broker_fill_id or execution_no'')) (
     ethen (require (case fo_occurred_at x of None \<Rightarrow> True | Some t \<Rightarrow> t \<le> fo_observed_at x)
              (ValueError ''occurred_at must not be after observed_at''))
     (Inr x)))))))"

section \<open>Accounts, discrepancies and failures\<close>

record account_snapshot =
  as_account_id :: string
  as_currency :: string
  as_available_funds :: decimal
  as_observed_at :: instant

definition account_snapshot_init :: "account_snapshot \<Rightarrow> account_snapshot result" where
  "account_snapshot_init a =
     ethen (live_identifier ''account_id'' (as_account_id a)) (
     ethen (require (length (as_currency a) = 3
                     \<and> list_all (\<lambda>c. c \<in> set ''ABCDEFGHIJKLMNOPQRSTUVWXYZ'') (as_currency a))
              (ValueError ''currency must be an uppercase 3-letter code'')) (
     ethen (live_decimal False True ''available_funds'' (as_available_funds a))
     (Inr a)))"

record readiness_snapshot =
  rs_account_id :: string
  rs_readiness :: account_readiness
  rs_trading_session_id :: string
  rs_checked_at :: instant
  rs_failure_code :: "live_failure_code option"

definition readiness_snapshot_init :: "readiness_snapshot \<Rightarrow> readiness_snapshot result" where
  "readiness_snapshot_init r =
     ethen (live_identifier ''account_id'' (rs_account_id r)) (
     ethen (live_identifier ''trading_session_id'' (rs_trading_session_id r)) (
     ethen (require ((rs_readiness r = READY) \<noteq> (rs_failure_code r \<noteq> None))
              (ValueError ''failure_code is required exactly when account is not ready''))
     (Inr r)))"

record discrepancy =
  di_discrepancy_id :: string
  di_kind :: reconciliation_kind
  di_account_id :: string
  di_instrument_id :: string
  di_observed_at :: instant
  di_client_order_id :: "string option"
  di_expected_quantity :: "decimal option"
  di_actual_quantity :: "decimal option"

definition discrepancy_init :: "discrepancy \<Rightarrow> discrepancy result" where
  "discrepancy_init d =
     ethen (live_identifier ''discrepancy_id'' (di_discrepancy_id d)) (
     ethen (live_identifier ''account_id'' (di_account_id d)) (
     ethen (live_identifier ''instrument_id'' (di_instrument_id d)) (
     ethen (optionally (live_identifier ''client_order_id'') (di_client_order_id d)) (
     ethen (optionally (live_decimal False False ''expected_quantity'') (di_expected_quantity d)) (
     ethen (optionally (live_decimal False False ''actual_quantity'') (di_actual_quantity d)) (
     ethen (require ((di_expected_quantity d = None) = (di_actual_quantity d = None))
              (ValueError ''expected_quantity and actual_quantity must be provided together''))
     (Inr d)))))))"

record command_deduplication_result =
  cd_client_command_id :: string
  cd_incoming_fingerprint :: string
  cd_recorded_fingerprint :: "string option"
  cd_disposition :: command_deduplication

definition command_deduplication_result_init ::
  "command_deduplication_result \<Rightarrow> command_deduplication_result result" where
  "command_deduplication_result_init r =
     ethen (live_identifier ''client_command_id'' (cd_client_command_id r)) (
     ethen (live_fingerprint_ok ''incoming_fingerprint'' (cd_incoming_fingerprint r)) (
     ethen (optionally (live_fingerprint_ok ''recorded_fingerprint'') (cd_recorded_fingerprint r)) (
     ethen (if cd_disposition r = FIRST_SEEN
            then require (cd_recorded_fingerprint r = None)
                   (ValueError ''FIRST_SEEN must not have recorded_fingerprint'')
            else case cd_recorded_fingerprint r of
                   None \<Rightarrow> Inl (ValueError ''retry dispositions require recorded_fingerprint'')
                 | Some recorded \<Rightarrow>
                     require ((cd_incoming_fingerprint r = recorded) = (cd_disposition r = EXACT_RETRY))
                       (ValueError ''disposition must match fingerprint equality''))
     (Inr r))))"

record live_failure =
  fa_code :: live_failure_code
  fa_occurred_at :: instant
  fa_client_command_id :: "string option"

definition live_failure_init :: "live_failure \<Rightarrow> live_failure result" where
  "live_failure_init f =
     ethen (optionally (live_identifier ''client_command_id'') (fa_client_command_id f)) (Inr f)"

section \<open>Evidence\<close>

definition port_nonempty :: "string \<Rightarrow> string \<Rightarrow> unit result" where
  "port_nonempty name v = require (v \<noteq> []) (ValueError (name @ '' must not be empty''))"

definition port_identifier :: "string \<Rightarrow> string \<Rightarrow> unit result" where
  "port_identifier name v =
     require (identifier_ok v) (ValueError (name @ '' must be a bounded ASCII identifier''))"

definition port_fingerprint :: "string \<Rightarrow> string \<Rightarrow> unit result" where
  "port_fingerprint name v =
     require (take 7 v = ''sha256:'' \<and> length (drop 7 v) = 64
              \<and> list_all (\<lambda>c. c \<in> set ''0123456789abcdef'') (drop 7 v))
       (ValueError (name @ '' must be a canonical SHA-256 fingerprint''))"

definition port_positive :: "string \<Rightarrow> int \<Rightarrow> unit result" where
  "port_positive name v = require (1 \<le> v) (ValueError (name @ '' must be positive''))"

datatype evidence_completeness = COMPLETE | INCOMPLETE | EVIDENCE_UNKNOWN
datatype evidence_query_kind = OPEN_ORDERS | FILLS | POSITIONS | REPLY_BACKFILL

fun query_kind_name :: "evidence_query_kind \<Rightarrow> string" where
  "query_kind_name OPEN_ORDERS = ''OPEN_ORDERS''"
| "query_kind_name FILLS = ''FILLS''"
| "query_kind_name POSITIONS = ''POSITIONS''"
| "query_kind_name REPLY_BACKFILL = ''REPLY_BACKFILL''"

record completeness_evidence =
  ce_query_kind :: evidence_query_kind
  ce_account_id :: string
  ce_status :: evidence_completeness
  ce_observed_at :: instant
  ce_source_cursor :: string
  ce_reason :: "string option"

definition completeness_evidence_init :: "completeness_evidence \<Rightarrow> completeness_evidence result" where
  "completeness_evidence_init e =
     ethen (port_identifier ''account_id'' (ce_account_id e)) (
     ethen (port_nonempty ''source_cursor'' (ce_source_cursor e)) (
     ethen (optionally (port_nonempty ''reason'') (ce_reason e)) (
     ethen (require ((ce_status e = COMPLETE) \<noteq> (ce_reason e \<noteq> None))
              (ValueError ''reason is required exactly when evidence is not complete''))
     (Inr e))))"

definition permits_absence_inference :: "completeness_evidence \<Rightarrow> bool" where
  "permits_absence_inference e \<longleftrightarrow> ce_status e = COMPLETE"

record raw_observation =
  ro_observation_id :: string
  ro_source :: string
  ro_broker_session_generation :: int
  ro_adapter_received_sequence :: int
  ro_received_at :: instant
  ro_payload :: string

definition raw_observation_init :: "raw_observation \<Rightarrow> raw_observation result" where
  "raw_observation_init x =
     ethen (port_identifier ''observation_id'' (ro_observation_id x)) (
     ethen (port_identifier ''source'' (ro_source x)) (
     ethen (port_positive ''broker_session_generation'' (ro_broker_session_generation x)) (
     ethen (port_positive ''adapter_received_sequence'' (ro_adapter_received_sequence x)) (
     ethen (require (ro_payload x \<noteq> []) (ValueError ''payload must not be empty''))
     (Inr x)))))"

record reply_batch =
  rb_observations :: "raw_observation list"
  rb_evidence :: completeness_evidence

definition reply_batch_init :: "reply_batch \<Rightarrow> reply_batch result" where
  "reply_batch_init b =
     ethen (require (ce_query_kind (rb_evidence b) = REPLY_BACKFILL)
              (ValueError ''reply batch evidence must cover REPLY_BACKFILL'')) (
     ethen (require (list_all (\<lambda>x. ro_received_at x \<le> ce_observed_at (rb_evidence b)) (rb_observations b))
              (ValueError ''reply observations must not postdate completeness evidence''))
     (Inr b))"

text \<open>\<open>_validate_snapshot\<close>, with the account and the time of an item as arguments.\<close>

definition validate_snapshot ::
  "('a \<Rightarrow> string) \<Rightarrow> ('a \<Rightarrow> instant) \<Rightarrow> evidence_query_kind \<Rightarrow> 'a list \<Rightarrow> completeness_evidence \<Rightarrow> unit result" where
  "validate_snapshot account_of observed_of kind items e =
     ethen (require (ce_query_kind e = kind) (ValueError (''evidence must cover '' @ query_kind_name kind)))
       (efold (\<lambda>x _.
          ethen (require (account_of x = ce_account_id e)
                   (ValueError ''snapshot observations must match evidence account''))
            (require (observed_of x \<le> ce_observed_at e)
               (ValueError ''snapshot observations must not postdate evidence''))) items ())"

record open_orders_snapshot =
  os_orders :: "open_order_observation list"
  os_evidence :: completeness_evidence

record fills_snapshot =
  fs_fills :: "fill_observation list"
  fs_evidence :: completeness_evidence

record positions_snapshot =
  ps_positions :: "broker_position list"
  ps_evidence :: completeness_evidence

definition open_orders_snapshot_init :: "open_orders_snapshot \<Rightarrow> open_orders_snapshot result" where
  "open_orders_snapshot_init s =
     ethen (validate_snapshot oo_account_id oo_observed_at OPEN_ORDERS (os_orders s) (os_evidence s)) (Inr s)"

definition fills_snapshot_init :: "fills_snapshot \<Rightarrow> fills_snapshot result" where
  "fills_snapshot_init s =
     ethen (validate_snapshot fo_account_id fo_observed_at FILLS (fs_fills s) (fs_evidence s)) (Inr s)"

definition positions_snapshot_init :: "positions_snapshot \<Rightarrow> positions_snapshot result" where
  "positions_snapshot_init s =
     ethen (validate_snapshot bp_account_id bp_observed_at POSITIONS (ps_positions s) (ps_evidence s)) (Inr s)"

section \<open>Answers of the journal\<close>

datatype reservation_disposition = RESERVED | RESERVATION_RETRY | RESERVATION_CONFLICT

record reservation =
  re_client_order_id :: string
  re_incoming_fingerprint :: string
  re_recorded_fingerprint :: "string option"
  re_disposition :: reservation_disposition

definition reservation_init :: "reservation \<Rightarrow> reservation result" where
  "reservation_init r =
     ethen (port_identifier ''client_order_id'' (re_client_order_id r)) (
     ethen (port_fingerprint ''incoming_fingerprint'' (re_incoming_fingerprint r)) (
     ethen (optionally (port_fingerprint ''recorded_fingerprint'') (re_recorded_fingerprint r)) (
     ethen (if re_disposition r = RESERVED
            then require (re_recorded_fingerprint r = None)
                   (ValueError ''RESERVED must not have a recorded fingerprint'')
            else case re_recorded_fingerprint r of
                   None \<Rightarrow> Inl (ValueError ''retry and conflict results require a recorded fingerprint'')
                 | Some recorded \<Rightarrow>
                     require ((re_incoming_fingerprint r = recorded) = (re_disposition r = RESERVATION_RETRY))
                       (ValueError ''disposition must match fingerprint equality''))
     (Inr r))))"

definition may_continue :: "reservation \<Rightarrow> bool" where
  "may_continue r \<longleftrightarrow> re_disposition r \<noteq> RESERVATION_CONFLICT"

datatype claim_disposition = ACQUIRED | ALREADY_CLAIMED | VERSION_MISMATCH | CLAIM_CONFLICT

record dispatch_claim =
  dc_command_id :: string
  dc_payload_fingerprint :: string
  dc_disposition :: claim_disposition
  dc_version :: int
  dc_claim_token :: "string option"

definition dispatch_claim_init :: "dispatch_claim \<Rightarrow> dispatch_claim result" where
  "dispatch_claim_init c =
     ethen (port_identifier ''client_command_id'' (dc_command_id c)) (
     ethen (port_fingerprint ''payload_fingerprint'' (dc_payload_fingerprint c)) (
     ethen (port_positive ''version'' (dc_version c)) (
     ethen (optionally (port_identifier ''claim_token'') (dc_claim_token c)) (
     ethen (require ((dc_disposition c = ACQUIRED) = (dc_claim_token c \<noteq> None))
              (ValueError ''claim_token is required exactly for an acquired claim''))
     (Inr c)))))"

datatype append_disposition = APPENDED | EXACT_DUPLICATE | ID_CONFLICT

record append_result =
  ar_observation_id :: string
  ar_disposition :: append_disposition

definition append_result_init :: "append_result \<Rightarrow> append_result result" where
  "append_result_init r = ethen (port_identifier ''observation_id'' (ar_observation_id r)) (Inr r)"

datatype application_disposition =
    EVENT_APPLIED | EVENT_DUPLICATE | EVENT_CONFLICT | EVENT_UNRESOLVED | EVENT_AMBIGUOUS | EVENT_STALE

record application_result =
  ap_event_id :: string
  ap_disposition :: application_disposition
  ap_order :: "live_order option"
  ap_failure_code :: "live_failure_code option"

definition application_result_init :: "application_result \<Rightarrow> application_result result" where
  "application_result_init r =
     ethen (port_identifier ''event_id'' (ap_event_id r)) (
     ethen (require ((ap_disposition r = EVENT_APPLIED) = (ap_order r \<noteq> None))
              (ValueError ''order is required exactly when an event is applied'')) (
     ethen (require (ap_failure_code r = (if ap_disposition r = EVENT_CONFLICT then Some CORRELATION_CONFLICT else None))
              (ValueError ''CORRELATION_CONFLICT is required exactly for an event conflict''))
     (Inr r)))"

record ambiguous_observation =
  ao_observation :: raw_observation
  ao_candidates :: "string list"

definition ambiguous_observation_init :: "ambiguous_observation \<Rightarrow> ambiguous_observation result" where
  "ambiguous_observation_init a =
     ethen (efold (\<lambda>c _. port_identifier ''candidate_client_order_id'' c) (ao_candidates a) ()) (
     ethen (require (2 \<le> length (ao_candidates a))
              (ValueError ''ambiguous observation requires at least two candidates'')) (
     ethen (require (distinct (ao_candidates a)) (ValueError ''candidate client order ids must be unique''))
     (Inr a)))"

section \<open>The result of a reconciliation\<close>

datatype reconciliation_status = RECON_COMPLETE | RECON_INCOMPLETE | RECON_AMBIGUOUS

record reconciliation_result =
  rr_account_id :: string
  rr_status :: reconciliation_status
  rr_discrepancies :: "discrepancy list"
  rr_evidence :: "completeness_evidence list"
  rr_reconciled_at :: instant

definition required_kinds :: "evidence_query_kind set" where
  "required_kinds = {OPEN_ORDERS, FILLS, POSITIONS}"

definition reconciliation_result_init :: "reconciliation_result \<Rightarrow> reconciliation_result result" where
  "reconciliation_result_init r =
     ethen (port_identifier ''account_id'' (rr_account_id r)) (
     ethen (require (list_all (\<lambda>d. di_account_id d = rr_account_id r) (rr_discrepancies r))
              (ValueError ''discrepancies must match reconciliation account'')) (
     ethen (require (list_all (\<lambda>e. ce_account_id e = rr_account_id r) (rr_evidence r))
              (ValueError ''evidence must match reconciliation account'')) (
     ethen (require (list_all (\<lambda>e. ce_observed_at e \<le> rr_reconciled_at r) (rr_evidence r))
              (ValueError ''evidence must not postdate reconciliation'')) (
     ethen (require (distinct (map ce_query_kind (rr_evidence r)))
              (ValueError ''reconciliation evidence kinds must be unique'')) (
     ethen (require (rr_status r = RECON_COMPLETE \<longrightarrow> required_kinds \<subseteq> set (map ce_query_kind (rr_evidence r)))
              (ValueError ''complete reconciliation requires all broker query evidence'')) (
     ethen (require (rr_status r = RECON_COMPLETE \<longrightarrow> list_all (\<lambda>e. ce_status e = COMPLETE) (rr_evidence r))
              (ValueError ''complete reconciliation requires complete evidence''))
     (Inr r)))))))"

definition is_authoritative :: "reconciliation_result \<Rightarrow> bool" where
  "is_authoritative r \<longleftrightarrow>
     rr_status r = RECON_COMPLETE \<and> rr_evidence r \<noteq> []
     \<and> required_kinds \<subseteq> set (map ce_query_kind (rr_evidence r))
     \<and> list_all permits_absence_inference (rr_evidence r)"

end
