(* ===== verification/Exact_Sums.thy ===== *)
theory Exact_Sums
  imports Live_Evidence "HOL-Library.Multiset"
begin

text \<open>
  \<open>exact_decimal_sum\<close> of \<open>orders/live_reconciliation_contracts.py\<close> and \<open>_decimal_text\<close> of
  \<open>orders/live_reconciliation.py\<close>: sums and texts of Decimals that do not consult a decimal context.
\<close>

section \<open>The code\<close>

definition supported_decimal :: "decimal \<Rightarrow> bool" where
  "supported_decimal v \<longleftrightarrow> ndigits \<bar>coef v\<bar> \<le> 34 \<and> -6143 \<le> expo v \<and> expo v \<le> 6144"

text \<open>The total in units of the least exponent so far.\<close>

definition exact_sum_step :: "decimal \<Rightarrow> int \<times> int option \<Rightarrow> (int \<times> int option) result" where
  "exact_sum_step v = (\<lambda>(acc, common).
     ethen (require (supported_decimal v) (ValueError ''value exceeds supported Decimal bounds''))
       (case common of
          None \<Rightarrow> Inr (acc + coef v, Some (expo v))
        | Some m \<Rightarrow>
            if expo v < m then Inr (acc * 10 ^ nat (m - expo v) + coef v, Some (expo v))
            else Inr (acc + coef v * 10 ^ nat (expo v - m), Some m)))"

function strip_tail :: "int \<Rightarrow> int \<Rightarrow> int \<times> int" where
  "strip_tail c e = (if c \<le> 0 \<or> c mod 10 \<noteq> 0 then (c, e) else strip_tail (c div 10) (e + 1))"
  by pat_completeness auto
termination by (relation "measure (nat \<circ> fst)") auto

declare strip_tail.simps [simp del]

definition exact_sum_finish :: "int \<Rightarrow> int \<Rightarrow> decimal result" where
  "exact_sum_finish acc m =
     (if acc = 0 then Inr (Dec 0 0)
      else
        let (c, e) = strip_tail \<bar>acc\<bar> m
        in if 10 ^ 34 \<le> c \<or> \<not> (-6143 \<le> e \<and> e \<le> 6144)
           then Inl (ValueError ''exact sum exceeds supported Decimal bounds'')
           else Inr (Dec (if acc < 0 then - c else c) e))"

definition exact_decimal_sum :: "decimal list \<Rightarrow> decimal result" where
  "exact_decimal_sum vs =
     ebind (efold exact_sum_step vs (0, None)) (\<lambda>(acc, common).
       exact_sum_finish acc (case common of None \<Rightarrow> 0 | Some m \<Rightarrow> m))"

definition decimal_text :: "decimal \<Rightarrow> string" where
  "decimal_text v =
     (if coef v = 0 then ''0''
      else let (c, e) = strip_tail \<bar>coef v\<bar> (expo v)
           in (if coef v < 0 then ''-'' else []) @ show_digits c @ ''e'' @ show_int e)"

section \<open>Canonical coefficients\<close>

text \<open>A nonzero number has one coefficient without trailing zeros.\<close>

definition canonical :: "int \<Rightarrow> bool" where
  "canonical c \<longleftrightarrow> 0 < c \<and> c mod 10 \<noteq> 0"

lemma strip_tail:
  "0 < c \<Longrightarrow> strip_tail c e = (q, k) \<Longrightarrow> canonical q \<and> dval (Dec q k) = dval (Dec c e)"
proof (induction c e rule: strip_tail.induct)
  case (1 c e)
  show ?case
  proof (cases "c mod 10 = 0")
    case False
    with "1.prems" show ?thesis by (simp add: strip_tail.simps [of c e] canonical_def)
  next
    case True
    then have c: "c = 10 * (c div 10)" by presburger
    with "1.prems"(1) have pos: "0 < c div 10" by linarith
    have "canonical q \<and> dval (Dec q k) = dval (Dec (c div 10) (e + 1))"
      using "1.IH" True "1.prems" pos by (simp add: strip_tail.simps [of c e])
    moreover have "dval (Dec (c div 10) (e + 1)) = of_int (10 * (c div 10)) * 10 powi e"
      by (simp add: dval_def power_int_add)
    ultimately show ?thesis using c by (simp add: dval_def)
  qed
qed

lemma canonical_unique:
  assumes "canonical q" "canonical p" "dval (Dec q k) = dval (Dec p j)"
  shows "q = p \<and> k = j"
proof -
  have le: "a = b \<and> m = n" if "canonical a" "canonical b" "dval (Dec a m) = dval (Dec b n)" "m \<le> n" for a b m n
  proof -
    have "of_int a * 10 powi m = (of_int (b * 10 ^ nat (n - m)) :: rat) * 10 powi m"
      using that(3,4) by (simp add: dval_def ten_powi_nat [of m n])
    then have eq: "a = b * 10 ^ nat (n - m)" by (simp del: of_int_mult of_int_power)
    have "n = m"
    proof (rule ccontr)
      assume "n \<noteq> m"
      with that(4) have "nat (n - m) = Suc (nat (n - m) - 1)" by simp
      with eq have "a = 10 * (b * 10 ^ (nat (n - m) - 1))" by (metis mult.left_commute power_Suc)
      then have "a mod 10 = 0" by simp
      with that(1) show False by (simp add: canonical_def)
    qed
    with eq show ?thesis by simp
  qed
  show ?thesis using le [of q p k j] le [of p q j k] assms by (cases "k \<le> j") auto
qed

section \<open>The sum\<close>

text \<open>What the loop keeps: the value of the total.\<close>

definition running :: "int \<times> int option \<Rightarrow> rat" where
  "running s = dval (Dec (fst s) (case snd s of None \<Rightarrow> 0 | Some m \<Rightarrow> m))"

lemma dval_scaled: "m \<le> e \<Longrightarrow> dval (Dec (c * 10 ^ nat (e - m)) m) = dval (Dec c e)"
  by (rule dval_clamped)

lemma dval_plus: "dval (Dec (a + b) m) = dval (Dec a m) + dval (Dec b m)"
  by (simp add: dval_def distrib_right)

lemma exact_sum_step_value:
  assumes "exact_sum_step v s = Inr t" and "snd s = None \<Longrightarrow> fst s = 0"
  shows "supported_decimal v \<and> running t = running s + dval v \<and> snd t \<noteq> None"
proof -
  obtain acc common where s: "s = (acc, common)" by (cases s)
  have v: "dval (Dec (coef v) (expo v)) = dval v" by simp
  show ?thesis
  proof (cases common)
    case None
    with assms s v show ?thesis by (auto simp: exact_sum_step_def running_def err_simps dval_def)
  next
    case (Some m)
    with assms(1) s v show ?thesis
      by (cases "expo v < m") (auto simp: exact_sum_step_def running_def err_simps dval_plus dval_scaled)
  qed
qed

lemma exact_sum_loop:
  assumes "efold exact_sum_step vs s = Inr t" and "snd s = None \<Longrightarrow> fst s = 0"
  shows "list_all supported_decimal vs \<and> running t = running s + (\<Sum>v\<leftarrow>vs. dval v)"
  using assms
proof (induction vs arbitrary: s)
  case Nil
  then show ?case by simp
next
  case (Cons v vs)
  then obtain u where u: "exact_sum_step v s = Inr u" "efold exact_sum_step vs u = Inr t" by (auto simp: err_simps)
  from exact_sum_step_value [OF u(1) Cons.prems(2)] Cons.IH [OF u(2)] show ?case by auto
qed

lemma exact_sum_loop_total:
  "list_all supported_decimal vs \<Longrightarrow> \<exists>t. efold exact_sum_step vs s = Inr t"
proof (induction vs arbitrary: s)
  case Nil
  then show ?case by simp
next
  case (Cons v vs)
  then have "\<exists>u. exact_sum_step v s = Inr u"
    by (cases s) (auto simp: exact_sum_step_def split: option.splits)
  with Cons show ?case by auto
qed

lemma exact_sum_loop_refused:
  "\<not> list_all supported_decimal vs \<Longrightarrow>
     efold exact_sum_step vs s = Inl (ValueError ''value exceeds supported Decimal bounds'')"
proof (induction vs arbitrary: s)
  case Nil
  then show ?case by simp
next
  case (Cons v vs)
  show ?case
  proof (cases "supported_decimal v")
    case True
    then have "\<exists>u. exact_sum_step v s = Inr u"
      by (cases s) (auto simp: exact_sum_step_def split: option.splits)
    with Cons True show ?thesis by auto
  qed (cases s, simp add: exact_sum_step_def)
qed

text \<open>The last step sees the value of the total only.\<close>

lemma finish_value:
  assumes "dval (Dec a m) = dval (Dec b n)"
  shows "exact_sum_finish a m = exact_sum_finish b n"
proof (cases "a = 0")
  case True
  with assms have "b = 0" by (simp add: dval_def)
  with True show ?thesis by (simp add: exact_sum_finish_def)
next
  case False
  have sgn: "sgn (dval (Dec c e)) = of_int (sgn c)" for c e
    by (simp add: dval_def sgn_mult) (simp add: sgn_if)
  have "sgn a = sgn b" using assms sgn [of a m] sgn [of b n] by simp
  with False have signs: "b \<noteq> 0" "(a < 0) = (b < 0)" by (auto simp: sgn_if split: if_splits)
  have "dval (Dec \<bar>a\<bar> m) = dval (Dec \<bar>b\<bar> n)"
    using assms signs by (cases "a < 0") (auto simp: dval_def)
  then have "strip_tail \<bar>a\<bar> m = strip_tail \<bar>b\<bar> n"
    using strip_tail [of "\<bar>a\<bar>" m] strip_tail [of "\<bar>b\<bar>" n] canonical_unique False signs
    by (metis prod.exhaust zero_less_abs_iff)
  with False signs show ?thesis
    by (cases "a < 0"; cases "strip_tail \<bar>b\<bar> n") (simp_all add: exact_sum_finish_def)
qed

lemma finish_exact:
  assumes "exact_sum_finish a m = Inr d"
  shows "dval d = dval (Dec a m)"
proof (cases "a = 0")
  case True
  with assms show ?thesis by (auto simp: exact_sum_finish_def dval_def)
next
  case False
  obtain c e where c: "strip_tail \<bar>a\<bar> m = (c, e)" by (cases "strip_tail \<bar>a\<bar> m")
  from strip_tail [OF _ c] False have "dval (Dec c e) = dval (Dec \<bar>a\<bar> m)" by simp
  with assms False c show ?thesis
    by (cases "a < 0") (auto simp: exact_sum_finish_def dval_def split: if_splits)
qed

theorem exact_sum_exact:
  assumes "exact_decimal_sum vs = Inr d"
  shows "dval d = (\<Sum>v\<leftarrow>vs. dval v)"
proof -
  from assms obtain t where t: "efold exact_sum_step vs (0, None) = Inr t"
    "exact_sum_finish (fst t) (case snd t of None \<Rightarrow> 0 | Some m \<Rightarrow> m) = Inr d"
    by (auto simp: exact_decimal_sum_def err_simps split: prod.splits)
  from exact_sum_loop [OF t(1)] finish_exact [OF t(2)] show ?thesis
    by (simp add: running_def dval_def)
qed

theorem exact_sum_order_free:
  assumes "mset vs = mset ws"
  shows "exact_decimal_sum vs = exact_decimal_sum ws"
proof (cases "list_all supported_decimal vs")
  case False
  moreover from assms have "set vs = set ws" by (metis set_mset_mset)
  ultimately have "\<not> list_all supported_decimal ws" by (simp add: list_all_iff)
  with False show ?thesis by (simp add: exact_decimal_sum_def exact_sum_loop_refused)
next
  case True
  moreover from assms have "set vs = set ws" by (metis set_mset_mset)
  ultimately have "list_all supported_decimal ws" by (simp add: list_all_iff)
  then obtain s t where s: "efold exact_sum_step vs (0, None) = Inr s" and t: "efold exact_sum_step ws (0, None) = Inr t"
    using exact_sum_loop_total True by metis
  have "(\<Sum>v\<leftarrow>vs. dval v) = (\<Sum>v\<leftarrow>ws. dval v)"
    using assms by (metis mset_map sum_mset_sum_list)
  then have "running s = running t" using exact_sum_loop [OF s] exact_sum_loop [OF t] by simp
  from finish_value [OF this [unfolded running_def]] show ?thesis
    by (simp add: exact_decimal_sum_def s t case_prod_unfold)
qed

section \<open>The text\<close>

text \<open>Two Decimals have the same text exactly when the source finds them equal.\<close>

lemma e_notin_digits: "0 \<le> n \<Longrightarrow> CHR ''e'' \<notin> set (show_digits n)"
  using set_show_digits [of n "CHR ''e''"] by auto

lemma digits_e_inject:
  assumes "show_digits c @ CHR ''e'' # s = show_digits d @ CHR ''e'' # t" and "0 \<le> c" "0 \<le> d"
  shows "c = d \<and> s = t"
proof -
  let ?p = "\<lambda>x. x \<noteq> CHR ''e''"
  have "takeWhile ?p (show_digits c @ CHR ''e'' # s) = show_digits c" if "0 \<le> c" for c s
    using e_notin_digits [OF that] by (subst takeWhile_append2) auto
  with assms have "show_digits c = show_digits d" by metis
  with assms show ?thesis by (simp add: show_digits_inject)
qed

lemma digits_not_minus: "0 \<le> n \<Longrightarrow> show_digits n @ CHR ''e'' # s \<noteq> CHR ''-'' # t"
  using minus_notin_show_digits [of n] by (cases "show_digits n") auto

lemma decimal_text_nonzero:
  assumes "coef v \<noteq> 0" and "strip_tail \<bar>coef v\<bar> (expo v) = (c, e)"
  shows "decimal_text v = (if coef v < 0 then ''-'' else []) @ show_digits c @ CHR ''e'' # show_int e"
    and "canonical c" and "dval (Dec c e) = \<bar>dval v\<bar>"
  using assms strip_tail [of "\<bar>coef v\<bar>" "expo v" c e]
  by (auto simp: decimal_text_def dval_def abs_mult)

theorem decimal_text_inject: "decimal_text a = decimal_text b \<longleftrightarrow> deq a b"
proof (cases "coef a = 0 \<or> coef b = 0")
  case True
  have nonzero: "decimal_text v \<noteq> ''0'' \<and> dval v \<noteq> 0" if "coef v \<noteq> 0" for v
  proof -
    obtain c e where "strip_tail \<bar>coef v\<bar> (expo v) = (c, e)" by (cases "strip_tail \<bar>coef v\<bar> (expo v)")
    from decimal_text_nonzero(1) [OF that this] have "CHR ''e'' \<in> set (decimal_text v)" by simp
    then have "decimal_text v \<noteq> ''0''" by auto
    with that show ?thesis by (simp add: dval_def)
  qed
  have zero: "decimal_text v = ''0'' \<and> dval v = 0" if "coef v = 0" for v
    using that by (simp add: decimal_text_def dval_def)
  from True nonzero zero show ?thesis by (metis deq_val)
next
  case False
  then have ab: "coef a \<noteq> 0" "coef b \<noteq> 0" by simp_all
  obtain c e where c: "strip_tail \<bar>coef a\<bar> (expo a) = (c, e)" by (cases "strip_tail \<bar>coef a\<bar> (expo a)")
  obtain d f where d: "strip_tail \<bar>coef b\<bar> (expo b) = (d, f)" by (cases "strip_tail \<bar>coef b\<bar> (expo b)")
  note ta = decimal_text_nonzero [OF ab(1) c] and tb = decimal_text_nonzero [OF ab(2) d]
  have pos: "0 \<le> c" "0 \<le> d" using ta(2) tb(2) by (simp_all add: canonical_def)
  have neg: "coef v < 0 \<longleftrightarrow> dval v < 0" for v by (simp add: dval_def mult_less_0_iff)
  show ?thesis
  proof
    assume eq: "decimal_text a = decimal_text b"
    have signs: "P = Q"
      if "(if P then ''-'' else []) @ show_digits c @ CHR ''e'' # s = (if Q then ''-'' else []) @ show_digits d @ CHR ''e'' # t"
      for P Q s t
    proof (cases P; cases Q)
      assume "P" "\<not> Q"
      with that have "CHR ''-'' # show_digits c @ CHR ''e'' # s = show_digits d @ CHR ''e'' # t" by simp
      then show ?thesis using digits_not_minus [OF pos(2), of t] by metis
    next
      assume "\<not> P" "Q"
      with that have "show_digits c @ CHR ''e'' # s = CHR ''-'' # show_digits d @ CHR ''e'' # t" by simp
      then show ?thesis using digits_not_minus [OF pos(1), of s] by blast
    qed simp_all
    have "(coef a < 0) = (coef b < 0)" by (rule signs [OF eq [unfolded ta(1) tb(1)]])
    moreover from this eq have "show_digits c @ CHR ''e'' # show_int e = show_digits d @ CHR ''e'' # show_int f"
      unfolding ta(1) tb(1) by (cases "coef a < 0") simp_all
    from digits_e_inject [OF this pos] have "c = d" "e = f" by simp_all
    ultimately have "\<bar>dval a\<bar> = \<bar>dval b\<bar>" "(dval a < 0) = (dval b < 0)" using ta(3) tb(3) neg by simp_all
    then show "deq a b" by (simp add: deq_val abs_if split: if_splits)
  next
    assume eq: "deq a b"
    then have val: "dval a = dval b" by (simp add: deq_val)
    with ta(3) tb(3) have "c = d \<and> e = f" by (intro canonical_unique [OF ta(2) tb(2)]) simp
    moreover from val have "(coef a < 0) = (coef b < 0)" by (simp add: neg)
    ultimately show "decimal_text a = decimal_text b" by (simp add: ta(1) tb(1))
  qed
qed

end
