(* ===== verification/Reconciliation.thy ===== *)
theory Reconciliation
  imports Exact_Sums
begin

text \<open>
  Reconciliation of what the journal believes with what the broker reports: the contracts of
  \<open>orders/live_reconciliation_contracts.py\<close> and the assessment of \<open>orders/live_reconciliation.py\<close>.
  A call of \<open>add\<close> in the assessment is a finding; the findings are listed in the order of the calls.
  What the constructors of observations guarantee (a confirmed correlation names its order) is used
  with \<open>the\<close> where the code asserts it.
\<close>

section \<open>Dictionaries of lists\<close>

text \<open>\<open>d.setdefault (k, []).append (v)\<close>, and \<open>{key (x): x for x in xs}\<close>.\<close>

definition dappend :: "'k \<Rightarrow> 'v \<Rightarrow> ('k, 'v list) dict \<Rightarrow> ('k, 'v list) dict" where
  "dappend k v d = dset k ((case dget d k of None \<Rightarrow> [] | Some vs \<Rightarrow> vs) @ [v]) d"

definition index_by :: "('v \<Rightarrow> 'k) \<Rightarrow> 'v list \<Rightarrow> ('k, 'v) dict" where
  "index_by key vs = fold (\<lambda>v. dset (key v) v) vs []"

text \<open>\<open>{k: exact_decimal_sum (qs) for k, qs in d.items ()}\<close>.\<close>

fun exact_sums :: "('k, decimal list) dict \<Rightarrow> ('k, decimal) dict result" where
  "exact_sums [] = Inr []"
| "exact_sums ((k, qs) # d) =
     ebind (exact_decimal_sum qs) (\<lambda>q. ebind (exact_sums d) (\<lambda>r. Inr ((k, q) # r)))"

definition same_decimals :: "('k, decimal) dict \<Rightarrow> ('k, decimal) dict \<Rightarrow> bool" where
  "same_decimals a b \<longleftrightarrow>
     length a = length b
     \<and> list_all (\<lambda>(k, v). case dget b k of None \<Rightarrow> False | Some w \<Rightarrow> deq v w) a"

section \<open>Snapshots\<close>

record local_snapshot =
  ls_account_id :: string
  ls_orders :: "live_order list"
  ls_fills :: "live_fill list"
  ls_position_attributions :: "position_attribution list"
  ls_as_of :: instant
  ls_recovery_blockers :: "string list"
  ls_journal_sequence :: int

definition order_id :: "live_order \<Rightarrow> string" where
  "order_id x = li_client_order_id (lo_intent x)"

definition fill_fits_order :: "live_fill \<Rightarrow> live_order \<Rightarrow> bool" where
  "fill_fits_order f x \<longleftrightarrow>
     lf_account_id f = li_account_id (lo_intent x) \<and> lf_strategy_id f = li_strategy_id (lo_intent x)
     \<and> lf_instrument_id f = li_instrument_id (lo_intent x) \<and> lf_side f = li_side (lo_intent x)"

definition signed_fill_quantity :: "live_fill \<Rightarrow> decimal" where
  "signed_fill_quantity f = (if lf_side f = BUY then lf_quantity f else dneg (lf_quantity f))"

definition projected_quantities :: "live_fill list \<Rightarrow> (string \<times> string, decimal list) dict" where
  "projected_quantities fills =
     fold (\<lambda>f. dappend (lf_strategy_id f, lf_instrument_id f) (signed_fill_quantity f)) fills []"

definition local_snapshot_init :: "local_snapshot \<Rightarrow> local_snapshot result" where
  "local_snapshot_init s =
     (let orders_by_id = index_by order_id (ls_orders s) in
     ethen (port_identifier ''account_id'' (ls_account_id s)) (
     ethen (require (0 \<le> ls_journal_sequence s) (ValueError ''journal_sequence must be nonnegative'')) (
     ethen (efold (\<lambda>b _. port_identifier ''recovery_blocker'' b) (ls_recovery_blockers s) ()) (
     ethen (require (distinct (ls_recovery_blockers s)) (ValueError ''recovery_blockers must be unique'')) (
     ethen (require (list_all (\<lambda>x. li_account_id (lo_intent x) = ls_account_id s) (ls_orders s))
              (ValueError ''orders must match snapshot account'')) (
     ethen (require (list_all (\<lambda>f. lf_account_id f = ls_account_id s) (ls_fills s))
              (ValueError ''fills must match snapshot account'')) (
     ethen (require (list_all (\<lambda>a. pa_account_id a = ls_account_id s) (ls_position_attributions s))
              (ValueError ''position attributions must match snapshot account'')) (
     ethen (require (distinct (map order_id (ls_orders s)))
              (ValueError ''order client_order_ids must be unique'')) (
     ethen (require (distinct (map lf_fill_id (ls_fills s))) (ValueError ''fill_ids must be unique'')) (
     ethen (require (distinct (map (\<lambda>a. (pa_strategy_id a, pa_instrument_id a)) (ls_position_attributions s)))
              (ValueError ''position attribution keys must be unique'')) (
     ethen (require (list_all (\<lambda>t. t \<le> ls_as_of s)
                (map lo_updated_at (ls_orders s) @ map lf_occurred_at (ls_fills s)
                 @ map pa_as_of (ls_position_attributions s)))
              (ValueError ''local items must not postdate as_of'')) (
     ethen (efold (\<lambda>f _. case dget orders_by_id (lf_client_order_id f) of
                None \<Rightarrow> Inl (ValueError ''each fill client_order_id must reference an order'')
              | Some x \<Rightarrow> require (fill_fits_order f x)
                  (ValueError ''fill fields must match referenced order intent'')) (ls_fills s) ()) (
     ethen (efold (\<lambda>x _.
              ebind (exact_decimal_sum
                (map lf_quantity (filter (\<lambda>f. lf_client_order_id f = order_id x) (ls_fills s)))) (\<lambda>q.
              require (deq q (lo_filled_quantity x))
                (ValueError ''fill quantity sum must equal order filled_quantity''))) (ls_orders s) ()) (
     ebind (exact_sums (projected_quantities (ls_fills s))) (\<lambda>projected.
     ethen (require (same_decimals
                (map (\<lambda>a. ((pa_strategy_id a, pa_instrument_id a), pa_attributed_quantity a))
                   (ls_position_attributions s))
                (filter (\<lambda>(k, q). \<not> diszero q) projected))
              (ValueError ''position attributions must equal durable fill projection''))
     (Inr s))))))))))))))))"

record reconciliation_snapshot =
  sb_snapshot_id :: string
  sb_account_id :: string
  sb_open_orders :: open_orders_snapshot
  sb_fills_seen :: fills_snapshot
  sb_positions_seen :: positions_snapshot
  sb_captured_at :: instant

definition snapshot_evidence :: "reconciliation_snapshot \<Rightarrow> completeness_evidence list" where
  "snapshot_evidence b =
     [os_evidence (sb_open_orders b), fs_evidence (sb_fills_seen b), ps_evidence (sb_positions_seen b)]"

definition reconciliation_snapshot_init :: "reconciliation_snapshot \<Rightarrow> reconciliation_snapshot result" where
  "reconciliation_snapshot_init b =
     (let opens = os_orders (sb_open_orders b); fills = fs_fills (sb_fills_seen b);
          positions = ps_positions (sb_positions_seen b) in
     ethen (port_identifier ''snapshot_id'' (sb_snapshot_id b)) (
     ethen (port_identifier ''account_id'' (sb_account_id b)) (
     ethen (require (list_all (\<lambda>e. ce_account_id e = sb_account_id b) (snapshot_evidence b))
              (ValueError ''broker snapshots must match snapshot account'')) (
     ethen (require (list_all (\<lambda>e. ce_observed_at e \<le> sb_captured_at b) (snapshot_evidence b))
              (ValueError ''broker evidence must not postdate captured_at'')) (
     ethen (require (list_all (\<lambda>e. ce_source_cursor e = sb_snapshot_id b) (snapshot_evidence b))
              (ValueError ''broker evidence source_cursor must equal snapshot_id'')) (
     ethen (require (list_all (\<lambda>x. x = sb_account_id b)
                (map oo_account_id opens @ map fo_account_id fills @ map bp_account_id positions))
              (ValueError ''broker observations must match snapshot account'')) (
     ethen (require (list_all (\<lambda>t. t \<le> sb_captured_at b)
                (map oo_observed_at opens @ map fo_observed_at fills @ map bp_observed_at positions))
              (ValueError ''broker observations must not postdate captured_at''))
     (Inr b))))))))"

record assessment =
  at_local :: local_snapshot
  at_broker :: reconciliation_snapshot
  at_result :: reconciliation_result

definition assessment_init :: "assessment \<Rightarrow> assessment result" where
  "assessment_init a =
     ethen (require (sb_account_id (at_broker a) = ls_account_id (at_local a)
                     \<and> rr_account_id (at_result a) = ls_account_id (at_local a))
              (ValueError ''local, broker, and result accounts must match'')) (
     ethen (require (ls_as_of (at_local a) \<le> rr_reconciled_at (at_result a))
              (ValueError ''reconciliation must not predate local snapshot'')) (
     ethen (require (sb_captured_at (at_broker a) \<le> rr_reconciled_at (at_result a))
              (ValueError ''reconciliation must not predate broker snapshot'')) (
     ethen (require (list_all (\<lambda>e. e \<in> set (rr_evidence (at_result a))) (snapshot_evidence (at_broker a)))
              (ValueError ''result evidence must include broker snapshot evidence'')) (
     ethen (require (list_all (\<lambda>e. ls_as_of (at_local a) \<le> ce_observed_at e) (snapshot_evidence (at_broker a)))
              (ValueError ''broker evidence must not predate local snapshot''))
     (Inr a)))))"

definition may_resume :: "assessment \<Rightarrow> bool" where
  "may_resume a \<longleftrightarrow>
     is_authoritative (at_result a) \<and> rr_discrepancies (at_result a) = []
     \<and> ls_recovery_blockers (at_local a) = []"

section \<open>Semantic payloads and identities\<close>

definition json_text :: "string option \<Rightarrow> json" where
  "json_text = json_opt JStr"

definition json_plain_decimal :: "decimal \<Rightarrow> json" where
  "json_plain_decimal v = JStr (decimal_text v)"

definition correlation_material :: "broker_correlation \<Rightarrow> json" where
  "correlation_material c =
     JArr [JStr (correlation_status_value (bc_status c)), json_text (bc_client_order_id c),
       json_text (bc_broker_fill_id c), json_text (bc_execution_no c), json_text (bc_broker_order_sequence c),
       json_text (bc_broker_book_no c), json_text (bc_proxy_stamp_id c), json_text (bc_async_thread_id c),
       json_text (bc_submission_attempt_id c)]"

definition open_payload :: "open_order_observation \<Rightarrow> json" where
  "open_payload x =
     JArr [JStr (oo_account_id x), JStr (oo_instrument_id x), JStr (live_side_value (oo_side x)),
       json_plain_decimal (oo_working_total_quantity x), json_plain_decimal (oo_working_remaining_quantity x),
       json_opt json_plain_decimal (oo_working_limit_price x), correlation_material (oo_correlation x)]"

text \<open>\<open>datetime.isoformat\<close> of an aware datetime in UTC.\<close>

definition plain_isoformat :: "instant \<Rightarrow> string" where
  "plain_isoformat t = butlast (utc_isoformat t) @ ''+00:00''"

definition fill_observation_payload :: "fill_observation \<Rightarrow> json" where
  "fill_observation_payload x =
     JArr [JStr (fo_account_id x), JStr (fo_instrument_id x), JStr (live_side_value (fo_side x)),
       json_plain_decimal (fo_quantity x), json_plain_decimal (fo_execution_price x),
       json_opt (\<lambda>t. JStr (plain_isoformat t)) (fo_occurred_at x), correlation_material (fo_correlation x)]"

definition position_observation_payload :: "broker_position \<Rightarrow> json" where
  "position_observation_payload p =
     JArr [JStr (bp_account_id p), JStr (bp_instrument_id p), json_plain_decimal (bp_net_quantity p),
       json_opt json_plain_decimal (bp_average_open_price p)]"

definition stable_key :: "json \<Rightarrow> string" where
  "stable_key v = json_dumps True v"

definition open_identities :: "open_order_observation \<Rightarrow> string list" where
  "open_identities x =
     (''observation:'' @ oo_observation_id x)
     # (if bc_status (oo_correlation x) = CONFIRMED
        then [''client:'' @ the (bc_client_order_id (oo_correlation x))] else [])"

definition option_list :: "'a option \<Rightarrow> 'a list" where
  "option_list x = (case x of None \<Rightarrow> [] | Some y \<Rightarrow> [y])"

definition broker_fill_ids :: "fill_observation \<Rightarrow> string list" where
  "broker_fill_ids x =
     option_list (bc_broker_fill_id (fo_correlation x)) @ option_list (bc_execution_no (fo_correlation x))"

definition fill_identities :: "fill_observation \<Rightarrow> string list" where
  "fill_identities x =
     (''observation:'' @ fo_observation_id x)
     # map (\<lambda>i. ''broker_fill:'' @ i) (option_list (bc_broker_fill_id (fo_correlation x)))
     @ map (\<lambda>i. ''execution:'' @ i) (option_list (bc_execution_no (fo_correlation x)))"

definition position_identities :: "broker_position \<Rightarrow> string list" where
  "position_identities p = [''instrument:'' @ bp_instrument_id p]"

text \<open>Equal payloads are one observation, and an identity with two payloads is a conflict.\<close>

definition note_identities ::
  "json \<Rightarrow> string list \<Rightarrow> (string, json list) dict \<Rightarrow> (string, json list) dict" where
  "note_identities material =
     fold (\<lambda>i d. dset i (List.insert material (case dget d i of None \<Rightarrow> [] | Some ms \<Rightarrow> ms)) d)"

definition dedupe_and_find_conflicts ::
  "('a \<Rightarrow> string list) \<Rightarrow> ('a \<Rightarrow> json) \<Rightarrow> 'a list \<Rightarrow> 'a list \<times> string list" where
  "dedupe_and_find_conflicts identities payload values =
     (let by_identity = fold (\<lambda>v. note_identities (payload v) (identities v)) values [];
          unique = fold (\<lambda>v u. case dget u (payload v) of None \<Rightarrow> dset (payload v) v u | Some w \<Rightarrow> u) values []
      in (map snd (sort_key (\<lambda>x. stable_key (fst x)) unique),
          map fst (filter (\<lambda>(i, ms). 1 < length ms) by_identity)))"

section \<open>Discrepancies\<close>

type_synonym finding =
  "reconciliation_kind \<times> string \<times> string option \<times> decimal option \<times> decimal option"

definition discrepancy_domain :: string where
  "discrepancy_domain = ''tx_trade.live_reconciliation.discrepancy.v1'' @ [CHR 0x00]"

definition reconciliation_discrepancy_id :: "hashes \<Rightarrow> string \<Rightarrow> finding \<Rightarrow> string" where
  "reconciliation_discrepancy_id h account = (\<lambda>(kind, instrument, client, expected, actual).
     ''sha256:'' @ sha256_hex h (discrepancy_domain @ utf8 (json_dumps True (JArr
       [JStr (reconciliation_kind_value kind), JStr account, JStr instrument, json_text client,
        json_opt json_plain_decimal expected, json_opt json_plain_decimal actual]))))"

definition make_discrepancy :: "hashes \<Rightarrow> string \<Rightarrow> instant \<Rightarrow> finding \<Rightarrow> discrepancy result" where
  "make_discrepancy h account t = (\<lambda>(kind, instrument, client, expected, actual).
     discrepancy_init
       \<lparr>di_discrepancy_id = reconciliation_discrepancy_id h account (kind, instrument, client, expected, actual),
        di_kind = kind, di_account_id = account, di_instrument_id = instrument, di_observed_at = t,
        di_client_order_id = client, di_expected_quantity = expected, di_actual_quantity = actual\<rparr>)"

definition add_discrepancy ::
  "hashes \<Rightarrow> string \<Rightarrow> instant \<Rightarrow> finding \<Rightarrow> (string, discrepancy) dict \<Rightarrow> (string, discrepancy) dict result" where
  "add_discrepancy h account t f d =
     ebind (make_discrepancy h account t f) (\<lambda>x. Inr (dset (di_discrepancy_id x) x d))"

section \<open>Orders\<close>

definition working_states :: "live_order_state set" where
  "working_states = {ACCEPTED, PARTIALLY_FILLED, CANCEL_PENDING}"

definition deduped_opens :: "reconciliation_snapshot \<Rightarrow> open_order_observation list \<times> string list" where
  "deduped_opens b = dedupe_and_find_conflicts open_identities open_payload (os_orders (sb_open_orders b))"

definition opens_ambiguous :: "reconciliation_snapshot \<Rightarrow> bool" where
  "opens_ambiguous b \<longleftrightarrow>
     snd (deduped_opens b) \<noteq> []
     \<or> list_ex (\<lambda>x. bc_status (oo_correlation x) \<noteq> CONFIRMED) (fst (deduped_opens b))"

definition local_orders :: "local_snapshot \<Rightarrow> (string, live_order) dict" where
  "local_orders l = index_by order_id (ls_orders l)"

definition pending_findings :: "local_snapshot \<Rightarrow> finding list" where
  "pending_findings l =
     map (\<lambda>x. (CORRELATION_MISSING, li_instrument_id (lo_intent x), Some (order_id x), None, None))
       (filter (\<lambda>x. lo_pending_command x \<noteq> None) (ls_orders l))"

text \<open>The local order an observation is matched with, unless it is unconfirmed, in conflict or unknown.\<close>

definition open_unresolved :: "string list \<Rightarrow> open_order_observation \<Rightarrow> bool" where
  "open_unresolved conflicts x \<longleftrightarrow>
     bc_status (oo_correlation x) \<noteq> CONFIRMED \<or> list_ex (\<lambda>i. i \<in> set conflicts) (open_identities x)"

definition open_client :: "open_order_observation \<Rightarrow> string" where
  "open_client x = the (bc_client_order_id (oo_correlation x))"

definition matched_order ::
  "(string, live_order) dict \<Rightarrow> string list \<Rightarrow> open_order_observation \<Rightarrow> live_order option" where
  "matched_order locals conflicts x =
     (if open_unresolved conflicts x then None else dget locals (open_client x))"

definition state_mismatch :: "live_order \<Rightarrow> open_order_observation \<Rightarrow> bool" where
  "state_mismatch y x \<longleftrightarrow>
     li_instrument_id (lo_intent y) \<noteq> oo_instrument_id x \<or> li_side (lo_intent y) \<noteq> oo_side x
     \<or> (lo_state y \<notin> working_states \<and> lo_pending_command y = None)
     \<or> \<not> opt_deq (lo_working_limit_price y) (oo_working_limit_price x)"

definition quantity_mismatch :: "live_order \<Rightarrow> open_order_observation \<Rightarrow> bool" where
  "quantity_mismatch y x \<longleftrightarrow>
     lo_state y \<in> working_states
     \<and> (\<not> deq (lo_total_quantity y) (oo_working_total_quantity x)
        \<or> \<not> deq (lo_remaining_quantity y) (oo_working_remaining_quantity x))"

definition compared_quantities :: "live_order \<Rightarrow> open_order_observation \<Rightarrow> decimal \<times> decimal" where
  "compared_quantities y x =
     (if \<not> deq (lo_total_quantity y) (oo_working_total_quantity x)
      then (lo_total_quantity y, oo_working_total_quantity x)
      else (lo_remaining_quantity y, oo_working_remaining_quantity x))"

definition open_findings ::
  "(string, live_order) dict \<Rightarrow> string list \<Rightarrow> open_order_observation \<Rightarrow> finding list" where
  "open_findings locals conflicts x =
     (if open_unresolved conflicts x then [(CORRELATION_MISSING, oo_instrument_id x, None, None, None)]
      else case dget locals (open_client x) of
        None \<Rightarrow> [(MISSING_LOCAL_ORDER, oo_instrument_id x, Some (open_client x), None, None)]
      | Some y \<Rightarrow>
          (if state_mismatch y x
           then [(ORDER_STATE_MISMATCH, oo_instrument_id x, Some (open_client x), None, None)] else [])
          @ (if quantity_mismatch y x
             then let (expected, actual) = compared_quantities y x
                  in [(QUANTITY_MISMATCH, oo_instrument_id x, Some (open_client x), Some expected, Some actual)]
             else []))"

definition matched_order_ids :: "(string, live_order) dict \<Rightarrow> string list \<Rightarrow> open_order_observation list \<Rightarrow> string list" where
  "matched_order_ids locals conflicts xs =
     map open_client (filter (\<lambda>x. matched_order locals conflicts x \<noteq> None) xs)"

definition missing_order_findings :: "local_snapshot \<Rightarrow> reconciliation_snapshot \<Rightarrow> finding list" where
  "missing_order_findings l b =
     (let (opens, conflicts) = deduped_opens b;
          matched = matched_order_ids (local_orders l) conflicts opens
      in map (\<lambda>(client, y). (MISSING_BROKER_ORDER, li_instrument_id (lo_intent y), Some client, None, None))
           (filter (\<lambda>(client, y). client \<notin> set matched \<and> lo_pending_command y = None
                \<and> ce_status (os_evidence (sb_open_orders b)) = COMPLETE \<and> \<not> opens_ambiguous b
                \<and> lo_state y \<in> working_states)
              (sort_key fst (local_orders l))))"

section \<open>Fills\<close>

definition deduped_fills :: "reconciliation_snapshot \<Rightarrow> fill_observation list \<times> string list" where
  "deduped_fills b = dedupe_and_find_conflicts fill_identities fill_observation_payload (fs_fills (sb_fills_seen b))"

definition local_fills :: "local_snapshot \<Rightarrow> (string, live_fill) dict" where
  "local_fills l = index_by lf_fill_id (ls_fills l)"

definition fill_unresolved :: "string list \<Rightarrow> fill_observation \<Rightarrow> bool" where
  "fill_unresolved conflicts x \<longleftrightarrow>
     bc_status (fo_correlation x) \<noteq> CONFIRMED \<or> list_ex (\<lambda>i. i \<in> set conflicts) (fill_identities x)"

definition fill_candidates :: "(string, live_fill) dict \<Rightarrow> fill_observation \<Rightarrow> string list" where
  "fill_candidates fills x = remdups (filter (\<lambda>i. dget fills i \<noteq> None) (broker_fill_ids x))"

text \<open>The outcome of the first loop for one observation: a finding, or the local fill it names.\<close>

definition resolve_fill ::
  "(string, live_fill) dict \<Rightarrow> string list \<Rightarrow> fill_observation \<Rightarrow> finding + live_fill" where
  "resolve_fill fills conflicts x =
     (if fill_unresolved conflicts x then Inl (CORRELATION_MISSING, fo_instrument_id x, None, None, None)
      else case fill_candidates fills x of
        [i] \<Rightarrow> Inr (the (dget fills i))
      | is \<Rightarrow> Inl (FILL_MISMATCH, fo_instrument_id x, bc_client_order_id (fo_correlation x), None, None))"

definition unresolved_fill_findings ::
  "(string, live_fill) dict \<Rightarrow> string list \<Rightarrow> fill_observation list \<Rightarrow> finding list" where
  "unresolved_fill_findings fills conflicts xs =
     concat (map (\<lambda>x. case resolve_fill fills conflicts x of Inl f \<Rightarrow> [f] | Inr y \<Rightarrow> []) xs)"

definition resolved_fills ::
  "(string, live_fill) dict \<Rightarrow> string list \<Rightarrow> fill_observation list \<Rightarrow> (fill_observation \<times> live_fill) list" where
  "resolved_fills fills conflicts xs =
     concat (map (\<lambda>x. case resolve_fill fills conflicts x of Inl f \<Rightarrow> [] | Inr y \<Rightarrow> [(x, y)]) xs)"

definition several_candidates ::
  "(string, live_fill) dict \<Rightarrow> string list \<Rightarrow> fill_observation list \<Rightarrow> bool" where
  "several_candidates fills conflicts xs =
     list_ex (\<lambda>x. \<not> fill_unresolved conflicts x \<and> 1 < length (fill_candidates fills x)) xs"

definition collided_fill_ids :: "(fill_observation \<times> live_fill) list \<Rightarrow> string list" where
  "collided_fill_ids resolved =
     (let observations = fold (\<lambda>(x, y). dappend (lf_fill_id y) x) resolved []
      in map fst (filter (\<lambda>(i, xs). 1 < length xs) observations))"

definition fill_mismatch :: "live_fill \<Rightarrow> fill_observation \<Rightarrow> bool" where
  "fill_mismatch y x \<longleftrightarrow>
     lf_account_id y \<noteq> fo_account_id x \<or> lf_instrument_id y \<noteq> fo_instrument_id x \<or> lf_side y \<noteq> fo_side x
     \<or> \<not> deq (lf_quantity y) (fo_quantity x) \<or> \<not> deq (lf_execution_price y) (fo_execution_price x)
     \<or> Some (lf_client_order_id y) \<noteq> bc_client_order_id (fo_correlation x)
     \<or> (case fo_occurred_at x of None \<Rightarrow> False | Some t \<Rightarrow> lf_occurred_at y \<noteq> t)"

definition resolved_fill_findings ::
  "string list \<Rightarrow> (fill_observation \<times> live_fill) list \<Rightarrow> finding list" where
  "resolved_fill_findings collided resolved =
     concat (map (\<lambda>(x, y).
       if lf_fill_id y \<in> set collided
       then [(FILL_MISMATCH, fo_instrument_id x, bc_client_order_id (fo_correlation x), None, None)]
       else if fill_mismatch y x
       then [(FILL_MISMATCH, fo_instrument_id x, Some (lf_client_order_id y), None, None)]
       else []) resolved)"

definition matched_fill_ids :: "string list \<Rightarrow> (fill_observation \<times> live_fill) list \<Rightarrow> string list" where
  "matched_fill_ids collided resolved = filter (\<lambda>i. i \<notin> set collided) (map (lf_fill_id \<circ> snd) resolved)"

text \<open>What the three loops over fills find, and whether they leave the fills ambiguous.\<close>

definition fill_findings :: "local_snapshot \<Rightarrow> reconciliation_snapshot \<Rightarrow> finding list \<times> bool" where
  "fill_findings l b =
     (let (xs, conflicts) = deduped_fills b;
          fills = local_fills l;
          resolved = resolved_fills fills conflicts xs;
          collided = collided_fill_ids resolved;
          matched = matched_fill_ids collided resolved;
          ambiguous = conflicts \<noteq> [] \<or> list_ex (\<lambda>x. bc_status (fo_correlation x) \<noteq> CONFIRMED) xs
            \<or> several_candidates fills conflicts xs \<or> collided \<noteq> [];
          missing = (if ce_status (fs_evidence (sb_fills_seen b)) = COMPLETE \<and> \<not> ambiguous
            then map (\<lambda>(i, y). (FILL_MISMATCH, lf_instrument_id y, Some (lf_client_order_id y), None, None))
                   (filter (\<lambda>(i, y). i \<notin> set matched) (sort_key fst fills))
            else [])
      in (unresolved_fill_findings fills conflicts xs @ resolved_fill_findings collided resolved @ missing,
          ambiguous))"

section \<open>Positions\<close>

definition deduped_positions :: "reconciliation_snapshot \<Rightarrow> broker_position list \<times> string list" where
  "deduped_positions b =
     dedupe_and_find_conflicts position_identities position_observation_payload (ps_positions (sb_positions_seen b))"

definition attributed_quantities :: "local_snapshot \<Rightarrow> (string, decimal list) dict" where
  "attributed_quantities l =
     fold (\<lambda>a. dappend (pa_instrument_id a) (pa_attributed_quantity a)) (ls_position_attributions l) []"

definition broker_positions :: "reconciliation_snapshot \<Rightarrow> (string, decimal) dict" where
  "broker_positions b =
     (let (ps, conflicts) = deduped_positions b
      in fold (\<lambda>p d. if ''instrument:'' @ bp_instrument_id p \<in> set conflicts then d
                      else dset (bp_instrument_id p) (bp_net_quantity p) d) ps [])"

definition quantity_or_zero :: "(string, decimal) dict \<Rightarrow> string \<Rightarrow> decimal" where
  "quantity_or_zero d i = (case dget d i of None \<Rightarrow> Dec 0 0 | Some q \<Rightarrow> q)"

definition position_findings :: "(string, decimal) dict \<Rightarrow> reconciliation_snapshot \<Rightarrow> finding list" where
  "position_findings expected b =
     (let conflicts = snd (deduped_positions b);
          actual = broker_positions b;
          complete = ce_status (ps_evidence (sb_positions_seen b)) = COMPLETE
      in map (\<lambda>i. (POSITION_MISMATCH, i, None, Some (quantity_or_zero expected i), Some (quantity_or_zero actual i)))
           (filter (\<lambda>i. ''instrument:'' @ i \<notin> set conflicts
                \<and> (dget actual i \<noteq> None \<or> complete)
                \<and> \<not> deq (quantity_or_zero expected i) (quantity_or_zero actual i))
              (sort (remdups (dkeys expected @ dkeys actual)))))"

section \<open>The assessment\<close>

definition snapshot_findings :: "local_snapshot \<Rightarrow> reconciliation_snapshot \<Rightarrow> finding list" where
  "snapshot_findings l b =
     (let (opens, conflicts) = deduped_opens b
      in pending_findings l
         @ concat (map (open_findings (local_orders l) conflicts) opens)
         @ missing_order_findings l b
         @ fst (fill_findings l b))"

definition snapshots_ambiguous :: "local_snapshot \<Rightarrow> reconciliation_snapshot \<Rightarrow> bool" where
  "snapshots_ambiguous l b \<longleftrightarrow>
     opens_ambiguous b \<or> snd (fill_findings l b) \<or> snd (deduped_positions b) \<noteq> []"

definition discrepancy_sort_key ::
  "discrepancy \<Rightarrow> string \<times> string \<times> string \<times> string \<times> string \<times> string" where
  "discrepancy_sort_key d =
     (reconciliation_kind_value (di_kind d), di_instrument_id d,
      case di_client_order_id d of None \<Rightarrow> [] | Some c \<Rightarrow> c,
      case di_expected_quantity d of None \<Rightarrow> [] | Some q \<Rightarrow> decimal_text q,
      case di_actual_quantity d of None \<Rightarrow> [] | Some q \<Rightarrow> decimal_text q,
      di_discrepancy_id d)"

definition assessed_status :: "local_snapshot \<Rightarrow> reconciliation_snapshot \<Rightarrow> reconciliation_status" where
  "assessed_status l b =
     (if snapshots_ambiguous l b then RECON_AMBIGUOUS
      else if list_ex (\<lambda>e. ce_status e \<noteq> COMPLETE) (snapshot_evidence b) then RECON_INCOMPLETE
      else RECON_COMPLETE)"

definition assess_reconciliation ::
  "hashes \<Rightarrow> local_snapshot \<Rightarrow> reconciliation_snapshot \<Rightarrow> instant \<Rightarrow> assessment result" where
  "assess_reconciliation h l b t =
     (let account = ls_account_id l; add = add_discrepancy h account t in
     ethen (require (ls_account_id l = sb_account_id b)
              (ValueError ''local and broker snapshot accounts must match'')) (
     ethen (require (ls_as_of l \<le> t \<and> sb_captured_at b \<le> t)
              (ValueError ''reconciled_at must not predate either snapshot'')) (
     ebind (efold add (snapshot_findings l b) []) (\<lambda>found.
     ebind (exact_sums (attributed_quantities l)) (\<lambda>expected.
     ebind (efold add (position_findings expected b) found) (\<lambda>found.
     ebind (reconciliation_result_init
              \<lparr>rr_account_id = account, rr_status = assessed_status l b,
               rr_discrepancies = sort_key discrepancy_sort_key (dvalues found),
               rr_evidence = snapshot_evidence b, rr_reconciled_at = t\<rparr>) (\<lambda>r.
     assessment_init \<lparr>at_local = l, at_broker = b, at_result = r\<rparr>)))))))"

text \<open>\<open>FakeOnlyReconciliationService\<close>: the sources and the clock are its ports.\<close>

record reconciliation_ports =
  load_account_snapshot :: "string \<Rightarrow> local_snapshot result"
  query_reconciliation_snapshot :: "string \<Rightarrow> reconciliation_snapshot result"
  clock_now :: "instant result"

definition service_assess :: "hashes \<Rightarrow> reconciliation_ports \<Rightarrow> string \<Rightarrow> assessment result" where
  "service_assess h p account =
     ebind (load_account_snapshot p account) (\<lambda>l.
     ebind (query_reconciliation_snapshot p account) (\<lambda>b.
     ebind (clock_now p) (\<lambda>t. assess_reconciliation h l b t)))"

definition service_reconcile :: "hashes \<Rightarrow> reconciliation_ports \<Rightarrow> string \<Rightarrow> reconciliation_result result" where
  "service_reconcile h p account = ebind (service_assess h p account) (\<lambda>a. Inr (at_result a))"

end
