(* ===== verification/Commit_Contracts.thy ===== *)
theory Commit_Contracts
  imports Reconciliation
begin

text \<open>
  The commit of an assessment: the contracts of \<open>orders/live_reconciliation_commit_contracts.py\<close> and of
  \<open>orders/live_reconciliation_projection_contracts.py\<close>. A group of targets is one list of keys.
\<close>

section \<open>Directives\<close>

definition plan_identifier :: "string \<Rightarrow> string \<Rightarrow> unit result" where
  "plan_identifier name v =
     require (identifier_ok v) (ValueError (name @ '' must be a bounded ASCII identifier''))"

definition plan_nonnegative :: "string \<Rightarrow> int \<Rightarrow> unit result" where
  "plan_nonnegative name v = require (0 \<le> v) (ValueError (name @ '' must be nonnegative''))"

definition commit_positive :: "string \<Rightarrow> int \<Rightarrow> unit result" where
  "commit_positive name v = require (1 \<le> v) (ValueError (name @ '' must be positive''))"

datatype claim_resolution = CLAIM_ORDER_CONFIRMED | CLAIM_FILL_CONFIRMED
datatype observation_status = OBSERVATION_UNRESOLVED | OBSERVATION_CONFLICT | OBSERVATION_AMBIGUOUS
datatype observation_resolution = OBSERVED_ORDER_CONFIRMED | OBSERVED_FILL_CONFIRMED
datatype requirement_resolution = SATISFIED

record expected_order_version =
  ev_client_order_id :: string
  ev_version :: int

definition expected_order_version_init :: "expected_order_version \<Rightarrow> expected_order_version result" where
  "expected_order_version_init v =
     ethen (plan_identifier ''client_order_id'' (ev_client_order_id v)) (
     ethen (commit_positive ''version'' (ev_version v)) (Inr v))"

record claim_directive =
  cl_client_command_id :: string
  cl_claim_token :: string
  cl_resolution :: claim_resolution

definition claim_directive_init :: "claim_directive \<Rightarrow> claim_directive result" where
  "claim_directive_init d =
     ethen (plan_identifier ''client_command_id'' (cl_client_command_id d)) (
     ethen (plan_identifier ''claim_token'' (cl_claim_token d)) (Inr d))"

record observation_directive =
  od_observation_id :: string
  od_expected_status :: observation_status
  od_normalized_event_id :: string
  od_resolution :: observation_resolution

definition observation_directive_init :: "observation_directive \<Rightarrow> observation_directive result" where
  "observation_directive_init d =
     ethen (plan_identifier ''observation_id'' (od_observation_id d)) (
     ethen (plan_identifier ''normalized_event_id'' (od_normalized_event_id d)) (Inr d))"

record requirement_directive =
  rd_requirement_id :: int
  rd_resolution :: requirement_resolution

definition requirement_directive_init :: "requirement_directive \<Rightarrow> requirement_directive result" where
  "requirement_directive_init d = ethen (commit_positive ''requirement_id'' (rd_requirement_id d)) (Inr d)"

section \<open>Requests and results\<close>

record commit_request =
  cr_commit_id :: string
  cr_account_id :: string
  cr_assessment :: assessment
  cr_expected_journal_sequence :: int
  cr_expected_order_versions :: "expected_order_version list"
  cr_claim_resolutions :: "claim_directive list"
  cr_observation_resolutions :: "observation_directive list"
  cr_requirement_resolutions :: "requirement_directive list"
  cr_order_projections :: "live_order list"

definition commit_request_init :: "commit_request \<Rightarrow> commit_request result" where
  "commit_request_init r =
     (let expected = fold (\<lambda>v. dset (ev_client_order_id v) (ev_version v)) (cr_expected_order_versions r) [] in
     ethen (plan_identifier ''commit_id'' (cr_commit_id r)) (
     ethen (plan_identifier ''account_id'' (cr_account_id r)) (
     ethen (require (rr_account_id (at_result (cr_assessment r)) = cr_account_id r)
              (ValueError ''assessment must match request account'')) (
     ethen (plan_nonnegative ''expected_journal_sequence'' (cr_expected_journal_sequence r)) (
     ethen (require (cr_expected_journal_sequence r = ls_journal_sequence (at_local (cr_assessment r)))
              (ValueError ''expected_journal_sequence must match assessment durable cut'')) (
     ethen (require (distinct (map ev_client_order_id (cr_expected_order_versions r))
                     \<and> distinct (map cl_client_command_id (cr_claim_resolutions r))
                     \<and> distinct (map cl_claim_token (cr_claim_resolutions r))
                     \<and> distinct (map od_observation_id (cr_observation_resolutions r))
                     \<and> distinct (map od_normalized_event_id (cr_observation_resolutions r))
                     \<and> distinct (map rd_requirement_id (cr_requirement_resolutions r))
                     \<and> distinct (map order_id (cr_order_projections r)))
              (ValueError ''resolution and order targets must be unique within each kind'')) (
     ethen (efold (\<lambda>x _.
              ethen (require (li_account_id (lo_intent x) = cr_account_id r)
                       (ValueError ''projected orders must match request account''))
                (case dget expected (order_id x) of
                   None \<Rightarrow> Inl (ValueError ''each projected order requires an expected order version'')
                 | Some v \<Rightarrow> require (lo_version x = v + 1)
                     (ValueError ''projected order version must advance expected version by one'')))
              (cr_order_projections r) ())
     (Inr r))))))))"

datatype commit_disposition =
    COMMITTED | EXACT_COMMIT_RETRY | COMMIT_ID_CONFLICT | STALE_SNAPSHOT | COMMIT_VERSION_MISMATCH
  | COMMIT_NOT_AUTHORITATIVE | UNSUPPORTED_RESOLUTION

record commit_result =
  cx_commit_id :: string
  cx_account_id :: string
  cx_disposition :: commit_disposition
  cx_committed_at :: "instant option"
  cx_resulting_journal_sequence :: "int option"
  cx_resolved_claim_ids :: "string list"
  cx_resolved_observation_ids :: "string list"
  cx_resolved_requirement_ids :: "int list"
  cx_order_projections :: "live_order list"

definition durable_result_ok :: "commit_result \<Rightarrow> unit result" where
  "durable_result_ok r =
     (if cx_disposition r \<in> {COMMITTED, EXACT_COMMIT_RETRY}
      then ethen (require (cx_committed_at r \<noteq> None \<and> cx_resulting_journal_sequence r \<noteq> None)
                    (ValueError ''durable outcomes require committed_at and journal sequence''))
             (optionally (plan_nonnegative ''resulting_journal_sequence'') (cx_resulting_journal_sequence r))
      else require (cx_committed_at r = None \<and> cx_resulting_journal_sequence r = None
                    \<and> cx_resolved_claim_ids r = [] \<and> cx_resolved_observation_ids r = []
                    \<and> cx_resolved_requirement_ids r = [] \<and> cx_order_projections r = [])
             (ValueError ''rejected outcomes must not contain committed data''))"

definition commit_result_init :: "commit_result \<Rightarrow> commit_result result" where
  "commit_result_init r =
     ethen (plan_identifier ''commit_id'' (cx_commit_id r)) (
     ethen (plan_identifier ''account_id'' (cx_account_id r)) (
     ethen (efold (\<lambda>c _. plan_identifier ''resolved_claim_id'' c) (cx_resolved_claim_ids r) ()) (
     ethen (efold (\<lambda>c _. plan_identifier ''resolved_observation_id'' c) (cx_resolved_observation_ids r) ()) (
     ethen (efold (\<lambda>n _. commit_positive ''resolved_requirement_id'' n) (cx_resolved_requirement_ids r) ()) (
     ethen (require (distinct (cx_resolved_claim_ids r) \<and> distinct (cx_resolved_observation_ids r)
                     \<and> distinct (cx_resolved_requirement_ids r) \<and> distinct (map order_id (cx_order_projections r)))
              (ValueError ''resolved targets and projected orders must be unique'')) (
     ethen (require (list_all (\<lambda>x. li_account_id (lo_intent x) = cx_account_id r) (cx_order_projections r))
              (ValueError ''projected orders must match result account'')) (
     ethen (durable_result_ok r)
     (Inr r))))))))"

section \<open>Projection plans\<close>

datatype projection_disposition = PLAN_NO_CHANGE | PLAN_READY | NOT_AUTHORITATIVE | UNSUPPORTED

datatype projection_reason =
    ASSESSMENT_MISMATCH | REASON_NOT_AUTHORITATIVE | INCOMPLETE_EVIDENCE | AMBIGUOUS_EVIDENCE
  | UNSUPPORTED_DISCREPANCY | UNSUPPORTED_LOCAL_STATE | UNSUPPORTED_COMMAND | MISSING_BROKER_MATCH
  | MULTIPLE_BROKER_MATCHES | BROKER_IDENTITY_MISMATCH | BROKER_QUANTITY_MISMATCH | BROKER_PRICE_MISMATCH
  | BROKER_TIME_MISMATCH | FILL_EVIDENCE_UNSUPPORTED

fun projection_reason_value :: "projection_reason \<Rightarrow> string" where
  "projection_reason_value ASSESSMENT_MISMATCH = ''assessment_mismatch''"
| "projection_reason_value REASON_NOT_AUTHORITATIVE = ''not_authoritative''"
| "projection_reason_value INCOMPLETE_EVIDENCE = ''incomplete_evidence''"
| "projection_reason_value AMBIGUOUS_EVIDENCE = ''ambiguous_evidence''"
| "projection_reason_value UNSUPPORTED_DISCREPANCY = ''unsupported_discrepancy''"
| "projection_reason_value UNSUPPORTED_LOCAL_STATE = ''unsupported_local_state''"
| "projection_reason_value UNSUPPORTED_COMMAND = ''unsupported_command''"
| "projection_reason_value MISSING_BROKER_MATCH = ''missing_broker_match''"
| "projection_reason_value MULTIPLE_BROKER_MATCHES = ''multiple_broker_matches''"
| "projection_reason_value BROKER_IDENTITY_MISMATCH = ''broker_identity_mismatch''"
| "projection_reason_value BROKER_QUANTITY_MISMATCH = ''broker_quantity_mismatch''"
| "projection_reason_value BROKER_PRICE_MISMATCH = ''broker_price_mismatch''"
| "projection_reason_value BROKER_TIME_MISMATCH = ''broker_time_mismatch''"
| "projection_reason_value FILL_EVIDENCE_UNSUPPORTED = ''fill_evidence_unsupported''"

record projection_plan =
  pp_account_id :: string
  pp_snapshot_id :: string
  pp_expected_journal_sequence :: int
  pp_disposition :: projection_disposition
  pp_expected_order_versions :: "expected_order_version list"
  pp_projected_orders :: "live_order list"
  pp_consumed_discrepancy_ids :: "string list"
  pp_unsupported_discrepancy_ids :: "string list"
  pp_reasons :: "projection_reason list"

definition plan_groups :: "projection_plan \<Rightarrow> string list list" where
  "plan_groups p =
     [map ev_client_order_id (pp_expected_order_versions p), map order_id (pp_projected_orders p),
      pp_consumed_discrepancy_ids p, pp_unsupported_discrepancy_ids p, map projection_reason_value (pp_reasons p)]"

definition plan_disposition_ok :: "projection_plan \<Rightarrow> unit result" where
  "plan_disposition_ok p =
     (let versions = pp_expected_order_versions p; orders = pp_projected_orders p;
          consumed = pp_consumed_discrepancy_ids p; unsupported = pp_unsupported_discrepancy_ids p;
          reasons = pp_reasons p
      in case pp_disposition p of
        PLAN_READY \<Rightarrow> require (orders \<noteq> [] \<and> consumed \<noteq> [] \<and> unsupported = [] \<and> reasons = [])
          (ValueError ''READY requires projections and consumed discrepancies only'')
      | PLAN_NO_CHANGE \<Rightarrow> require (versions = [] \<and> orders = [] \<and> consumed = [] \<and> unsupported = [] \<and> reasons = [])
          (ValueError ''NO_CHANGE must not contain projection decision data'')
      | d \<Rightarrow>
          ethen (require (versions = [] \<and> orders = [] \<and> consumed = [] \<and> reasons \<noteq> [])
                   (ValueError ''rejected plans require reasons and no projections''))
            (require (\<not> (d = NOT_AUTHORITATIVE \<and> unsupported \<noteq> []))
               (ValueError ''NOT_AUTHORITATIVE must not classify unsupported discrepancies'')))"

definition projection_plan_init :: "projection_plan \<Rightarrow> projection_plan result" where
  "projection_plan_init p =
     (let expected = fold (\<lambda>v. dset (ev_client_order_id v) (ev_version v)) (pp_expected_order_versions p) [] in
     ethen (plan_identifier ''account_id'' (pp_account_id p)) (
     ethen (plan_identifier ''snapshot_id'' (pp_snapshot_id p)) (
     ethen (plan_nonnegative ''expected_journal_sequence'' (pp_expected_journal_sequence p)) (
     ethen (efold (\<lambda>d _. plan_identifier ''discrepancy_id'' d)
              (pp_consumed_discrepancy_ids p @ pp_unsupported_discrepancy_ids p) ()) (
     ethen (require (list_all distinct (plan_groups p)) (ValueError ''plan values must be unique'')) (
     ethen (require (list_all sorted (plan_groups p))
              (ValueError ''plan values must use canonical sorted ordering'')) (
     ethen (require (set (pp_consumed_discrepancy_ids p) \<inter> set (pp_unsupported_discrepancy_ids p) = {})
              (ValueError ''consumed and unsupported discrepancy IDs must be disjoint'')) (
     ethen (require (list_all (\<lambda>x. li_account_id (lo_intent x) = pp_account_id p) (pp_projected_orders p))
              (ValueError ''projected orders must match plan account'')) (
     ethen (require (set (dkeys expected) = set (map order_id (pp_projected_orders p)))
              (ValueError ''expected versions and projections must map one-to-one'')) (
     ethen (require (list_all (\<lambda>x. \<forall>v\<in>set (option_list (dget expected (order_id x))). lo_version x = v + 1)
                (pp_projected_orders p))
              (ValueError ''projected versions must advance expected versions exactly once'')) (
     ethen (plan_disposition_ok p)
     (Inr p))))))))))))"

definition may_commit :: "projection_plan \<Rightarrow> bool" where
  "may_commit p \<longleftrightarrow> pp_disposition p = PLAN_READY"

end
