(* ===== verification/Projection.thy ===== *)
theory Projection
  imports Commit_Contracts
begin

text \<open>
  \<open>orders/live_reconciliation_projection.py\<close>: which orders an authoritative assessment lets the journal
  accept. The only projection is that of an unfilled new order whose outcome is unknown, when the
  broker lists exactly one open order for it with the same terms.
\<close>

section \<open>Reasons\<close>

text \<open>A set of reasons becomes a tuple sorted by value; a set is a list that may repeat.\<close>

definition sorted_reasons :: "projection_reason list \<Rightarrow> projection_reason list" where
  "sorted_reasons rs = sort_key projection_reason_value (remdups rs)"

definition base_plan ::
  "assessment \<Rightarrow> projection_disposition \<Rightarrow> projection_reason list \<Rightarrow> string list \<Rightarrow> projection_plan result" where
  "base_plan a disposition reasons unsupported =
     projection_plan_init
       \<lparr>pp_account_id = ls_account_id (at_local a), pp_snapshot_id = sb_snapshot_id (at_broker a),
        pp_expected_journal_sequence = ls_journal_sequence (at_local a), pp_disposition = disposition,
        pp_expected_order_versions = [], pp_projected_orders = [], pp_consumed_discrepancy_ids = [],
        pp_unsupported_discrepancy_ids = sort (remdups unsupported), pp_reasons = sorted_reasons reasons\<rparr>"

definition authority_reasons :: "assessment \<Rightarrow> projection_reason list" where
  "authority_reasons a =
     REASON_NOT_AUTHORITATIVE #
     (case rr_status (at_result a) of
        RECON_INCOMPLETE \<Rightarrow> [INCOMPLETE_EVIDENCE]
      | RECON_AMBIGUOUS \<Rightarrow> [AMBIGUOUS_EVIDENCE]
      | RECON_COMPLETE \<Rightarrow> [])"

definition local_reasons :: "live_order \<Rightarrow> projection_reason list" where
  "local_reasons x =
     (if lo_state x \<notin> {SUBMISSION_UNKNOWN, RECONCILING} \<or> lo_accepted_at x \<noteq> None
         \<or> \<not> diszero (lo_filled_quantity x) \<or> \<not> deq (lo_remaining_quantity x) (lo_total_quantity x)
         \<or> lo_average_fill_price x \<noteq> None
      then [UNSUPPORTED_LOCAL_STATE] else [])
     @ (case lo_pending_command x of
          None \<Rightarrow> [UNSUPPORTED_COMMAND]
        | Some b \<Rightarrow>
            (case pb_command b of
               NewOrderCommand c \<Rightarrow>
                 if \<not> deq (lo_total_quantity x) (li_quantity (nw_intent c))
                    \<or> \<not> deq (lo_remaining_quantity x) (li_quantity (nw_intent c))
                    \<or> \<not> opt_deq (lo_working_limit_price x) (li_limit_price (nw_intent c))
                 then [UNSUPPORTED_LOCAL_STATE] else []
             | _ \<Rightarrow> [UNSUPPORTED_COMMAND]))"

definition match_reasons :: "live_order \<Rightarrow> open_order_observation \<Rightarrow> instant \<Rightarrow> projection_reason list" where
  "match_reasons x o1 as_of =
     (if bc_status (oo_correlation o1) \<noteq> CONFIRMED
         \<or> bc_client_order_id (oo_correlation o1) \<noteq> Some (order_id x)
         \<or> oo_account_id o1 \<noteq> li_account_id (lo_intent x) \<or> oo_instrument_id o1 \<noteq> li_instrument_id (lo_intent x)
         \<or> oo_side o1 \<noteq> li_side (lo_intent x)
      then [BROKER_IDENTITY_MISMATCH] else [])
     @ (if \<not> deq (oo_working_total_quantity o1) (lo_total_quantity x)
           \<or> \<not> deq (oo_working_remaining_quantity o1) (lo_remaining_quantity x)
           \<or> \<not> deq (oo_working_remaining_quantity o1) (oo_working_total_quantity o1)
        then [BROKER_QUANTITY_MISMATCH] else [])
     @ (if \<not> opt_deq (oo_working_limit_price o1) (lo_working_limit_price x) then [BROKER_PRICE_MISMATCH] else [])
     @ (if oo_observed_at o1 < max (lo_updated_at x) as_of \<or> oo_observed_at o1 < bc_correlated_at (oo_correlation o1)
        then [BROKER_TIME_MISMATCH] else [])"

definition broker_reasons ::
  "live_order \<Rightarrow> open_order_observation list \<Rightarrow> fill_observation list \<Rightarrow> instant \<Rightarrow> projection_reason list" where
  "broker_reasons x matches fills as_of =
     (case matches of
        [] \<Rightarrow> [MISSING_BROKER_MATCH]
      | [o1] \<Rightarrow> match_reasons x o1 as_of
      | _ \<Rightarrow> [MULTIPLE_BROKER_MATCHES])
     @ (if fills \<noteq> [] then [FILL_EVIDENCE_UNSUPPORTED] else [])"

section \<open>Equality of assessments\<close>

text \<open>Dataclass equality compares Decimals by value; the snapshots are the same objects on both sides.\<close>

definition same_discrepancy :: "discrepancy \<Rightarrow> discrepancy \<Rightarrow> bool" where
  "same_discrepancy a b \<longleftrightarrow>
     di_discrepancy_id a = di_discrepancy_id b \<and> di_kind a = di_kind b \<and> di_account_id a = di_account_id b
     \<and> di_instrument_id a = di_instrument_id b \<and> di_observed_at a = di_observed_at b
     \<and> di_client_order_id a = di_client_order_id b
     \<and> opt_deq (di_expected_quantity a) (di_expected_quantity b)
     \<and> opt_deq (di_actual_quantity a) (di_actual_quantity b)"

definition same_result :: "reconciliation_result \<Rightarrow> reconciliation_result \<Rightarrow> bool" where
  "same_result a b \<longleftrightarrow>
     rr_account_id a = rr_account_id b \<and> rr_status a = rr_status b
     \<and> list_all2 same_discrepancy (rr_discrepancies a) (rr_discrepancies b)
     \<and> rr_evidence a = rr_evidence b \<and> rr_reconciled_at a = rr_reconciled_at b"

section \<open>The loop over the discrepancies\<close>

record projectable =
  pj_client_order_id :: string
  pj_discrepancy_id :: string
  pj_order :: live_order
  pj_observation :: open_order_observation

record projection_state =
  ps_seen :: "string list"
  ps_reasons :: "projection_reason list"
  ps_unsupported :: "string list"
  ps_projectable :: "projectable list"

definition correlated_opens :: "reconciliation_snapshot \<Rightarrow> string \<Rightarrow> open_order_observation list" where
  "correlated_opens b client =
     filter (\<lambda>x. bc_client_order_id (oo_correlation x) = Some client) (os_orders (sb_open_orders b))"

definition correlated_fills :: "reconciliation_snapshot \<Rightarrow> string \<Rightarrow> fill_observation list" where
  "correlated_fills b client =
     filter (\<lambda>x. bc_client_order_id (fo_correlation x) = Some client) (fs_fills (sb_fills_seen b))"

text \<open>The local order a discrepancy can be projected for, when it is the first one to name it.\<close>

definition named_order :: "assessment \<Rightarrow> string list \<Rightarrow> discrepancy \<Rightarrow> (string \<times> live_order) option" where
  "named_order a seen d =
     (case di_client_order_id d of
        None \<Rightarrow> None
      | Some client \<Rightarrow>
          (case dget (local_orders (at_local a)) client of
             None \<Rightarrow> None
           | Some x \<Rightarrow>
               if di_kind d = CORRELATION_MISSING \<and> client \<notin> set seen then Some (client, x) else None))"

definition project_discrepancy :: "assessment \<Rightarrow> discrepancy \<Rightarrow> projection_state \<Rightarrow> projection_state" where
  "project_discrepancy a d s =
     (case named_order a (ps_seen s) d of
        None \<Rightarrow>
          s\<lparr>ps_reasons := ps_reasons s @ [UNSUPPORTED_DISCREPANCY],
            ps_unsupported := ps_unsupported s @ [di_discrepancy_id d]\<rparr>
      | Some (client, x) \<Rightarrow>
          let matches = correlated_opens (at_broker a) client;
              reasons = local_reasons x
                @ broker_reasons x matches (correlated_fills (at_broker a) client) (ls_as_of (at_local a));
              seen = s\<lparr>ps_seen := client # ps_seen s\<rparr>
          in if reasons = []
             then seen\<lparr>ps_projectable := ps_projectable s
               @ [\<lparr>pj_client_order_id = client, pj_discrepancy_id = di_discrepancy_id d, pj_order = x,
                   pj_observation = hd matches\<rparr>]\<rparr>
             else seen\<lparr>ps_reasons := ps_reasons s @ reasons,
               ps_unsupported := ps_unsupported s @ [di_discrepancy_id d]\<rparr>)"

definition projected_order :: "live_order \<Rightarrow> open_order_observation \<Rightarrow> live_order result" where
  "projected_order x o1 =
     live_order_init (x\<lparr>lo_state := ACCEPTED, lo_version := lo_version x + 1, lo_updated_at := oo_observed_at o1,
       lo_accepted_at := Some (oo_observed_at o1), lo_pending_command := None\<rparr>)"

definition ready_plan :: "assessment \<Rightarrow> projectable list \<Rightarrow> projection_plan result" where
  "ready_plan a items =
     (let sorted_items = sort_key pj_client_order_id items in
     ebind (efold (\<lambda>p vs. ebind (expected_order_version_init
                \<lparr>ev_client_order_id = pj_client_order_id p, ev_version = lo_version (pj_order p)\<rparr>)
                (\<lambda>v. Inr (vs @ [v]))) sorted_items []) (\<lambda>versions.
     ebind (efold (\<lambda>p xs. ebind (projected_order (pj_order p) (pj_observation p)) (\<lambda>x. Inr (xs @ [x])))
              sorted_items []) (\<lambda>orders.
     projection_plan_init
       \<lparr>pp_account_id = ls_account_id (at_local a), pp_snapshot_id = sb_snapshot_id (at_broker a),
        pp_expected_journal_sequence = ls_journal_sequence (at_local a), pp_disposition = PLAN_READY,
        pp_expected_order_versions = versions, pp_projected_orders = orders,
        pp_consumed_discrepancy_ids = sort (map pj_discrepancy_id sorted_items),
        pp_unsupported_discrepancy_ids = [], pp_reasons = []\<rparr>)))"

definition project_authoritative_orders :: "hashes \<Rightarrow> assessment \<Rightarrow> projection_plan result" where
  "project_authoritative_orders h a =
     ebind (assess_reconciliation h (at_local a) (at_broker a) (rr_reconciled_at (at_result a))) (\<lambda>recomputed.
     if \<not> same_result (at_result recomputed) (at_result a) then base_plan a NOT_AUTHORITATIVE [ASSESSMENT_MISMATCH] []
     else if \<not> is_authoritative (at_result a) then base_plan a NOT_AUTHORITATIVE (authority_reasons a) []
     else if rr_discrepancies (at_result a) = []
     then if ls_recovery_blockers (at_local a) \<noteq> [] then base_plan a UNSUPPORTED [UNSUPPORTED_DISCREPANCY] []
          else base_plan a PLAN_NO_CHANGE [] []
     else
       let s = fold (project_discrepancy a) (rr_discrepancies (at_result a))
                 \<lparr>ps_seen = [], ps_reasons = [], ps_unsupported = [], ps_projectable = []\<rparr>
       in if ps_reasons s \<noteq> [] then base_plan a UNSUPPORTED (ps_reasons s) (ps_unsupported s)
          else ready_plan a (ps_projectable s))"

end
