(* ===== verification/Reconciliation_Proofs.thy ===== *)
theory Reconciliation_Proofs
  imports Reconciliation
begin

text \<open>
  What an assessment without findings says about the two snapshots: lemmas for each loop of the
  assessment, from the removal of duplicates to the positions.
\<close>

declare split_paired_All [simp del] split_paired_Ex [simp del]

section \<open>Indices\<close>

lemma index_by_Some: "dget (index_by key vs) k = Some v \<Longrightarrow> v \<in> set vs \<and> key v = k"
proof -
  have "dget (fold (\<lambda>v. dset (key v) v) vs d) k = Some v \<Longrightarrow>
      v \<in> set vs \<and> key v = k \<or> dget d k = Some v" for d
    by (induction vs arbitrary: d) (fastforce split: if_splits)+
  from this [of "[]"] show "dget (index_by key vs) k = Some v \<Longrightarrow> v \<in> set vs \<and> key v = k"
    by (simp add: index_by_def)
qed

lemma index_by_find:
  "distinct (map key vs) \<Longrightarrow> v \<in> set vs \<Longrightarrow> dget (index_by key vs) (key v) = Some v"
  unfolding index_by_def by (simp add: dget_fold_dset find_unique)

lemma index_by_ok [simp]: "dict_ok (index_by key vs)"
  unfolding index_by_def by (rule dict_ok_fold) simp

lemma index_by_mem: "distinct (map key vs) \<Longrightarrow> v \<in> set vs \<Longrightarrow> (key v, v) \<in> set (index_by key vs)"
  by (simp add: mem_dict index_by_find)

lemma dget_dappend:
  "dget (fold (\<lambda>x. dappend (k x) (v x)) xs d) j
     = (if \<exists>x\<in>set xs. k x = j
        then Some ((case dget d j of None \<Rightarrow> [] | Some vs \<Rightarrow> vs) @ map v (filter (\<lambda>x. k x = j) xs))
        else dget d j)"
  by (induction xs arbitrary: d) (auto simp: dappend_def split: option.splits)

lemma dict_ok_dappend [simp]: "dict_ok d \<Longrightarrow> dict_ok (fold (\<lambda>x. dappend (k x) (v x)) xs d)"
  by (induction xs arbitrary: d) (simp_all add: dappend_def)

lemma exact_sums_keys: "exact_sums d = Inr r \<Longrightarrow> map fst r = map fst d"
  by (induction d arbitrary: r rule: exact_sums.induct) (auto simp: err_simps)

lemma exact_sums_get:
  "exact_sums d = Inr r \<Longrightarrow> dget r k = Some q \<Longrightarrow> \<exists>qs. dget d k = Some qs \<and> exact_decimal_sum qs = Inr q"
  by (induction d arbitrary: r rule: exact_sums.induct) (auto simp: err_simps dget_def split: if_splits)

lemma exact_sums_None: "exact_sums d = Inr r \<Longrightarrow> dget r k = None \<longleftrightarrow> dget d k = None"
  by (simp add: dget_def map_of_eq_None_iff flip: set_map) (metis exact_sums_keys set_map)

section \<open>Duplicates\<close>

definition keyed :: "('a \<Rightarrow> json) \<Rightarrow> (json, 'a) dict \<Rightarrow> bool" where
  "keyed payload u \<longleftrightarrow> (\<forall>k v. dget u k = Some v \<longrightarrow> payload v = k)"

lemma dedupe_unique:
  assumes "fold (\<lambda>v u. case dget u (payload v) of None \<Rightarrow> dset (payload v) v u | Some w \<Rightarrow> u) vs u = w"
    and "keyed payload u" and "dict_ok u"
  shows "keyed payload w \<and> dict_ok w
    \<and> (\<forall>k x. dget w k = Some x \<longrightarrow> dget u k = Some x \<or> x \<in> set vs)
    \<and> (\<forall>v\<in>set vs. dget w (payload v) \<noteq> None) \<and> (\<forall>k. dget u k \<noteq> None \<longrightarrow> dget w k \<noteq> None)"
  using assms
proof (induction vs arbitrary: u)
  case Nil
  then show ?case by simp
next
  case (Cons v vs)
  let ?u = "case dget u (payload v) of None \<Rightarrow> dset (payload v) v u | Some w \<Rightarrow> u"
  have u: "keyed payload ?u" "dict_ok ?u" "dget ?u (payload v) \<noteq> None"
    "\<And>k x. dget ?u k = Some x \<Longrightarrow> dget u k = Some x \<or> x = v" "\<And>k. dget u k \<noteq> None \<Longrightarrow> dget ?u k \<noteq> None"
    using Cons.prems by (auto simp: keyed_def split: option.splits if_splits)
  have w: "fold (\<lambda>v u. case dget u (payload v) of None \<Rightarrow> dset (payload v) v u | Some w \<Rightarrow> u) vs ?u = w"
    using Cons.prems(1) by simp
  note IH = Cons.IH [OF w u(1,2)]
  have "dget w (payload x) \<noteq> None" if "x \<in> set (v # vs)" for x
    using that IH u(3) by auto
  moreover have "dget u k = Some x \<or> x \<in> set (v # vs)" if "dget w k = Some x" for k x
    using that IH u(4) [of k x] by (metis list.set_intros)
  ultimately show ?case using IH u(5) by blast
qed

lemma note_identities_keeps:
  "(\<forall>m. m \<in> set (case dget d i of None \<Rightarrow> [] | Some ms \<Rightarrow> ms) \<longrightarrow>
      m \<in> set (case dget (note_identities material is d) i of None \<Rightarrow> [] | Some ms \<Rightarrow> ms))
   \<and> (i \<in> set is \<longrightarrow> material \<in> set (case dget (note_identities material is d) i of None \<Rightarrow> [] | Some ms \<Rightarrow> ms))
   \<and> (dict_ok d \<longrightarrow> dict_ok (note_identities material is d))"
proof (induction "is" arbitrary: d)
  case Nil
  then show ?case by (simp add: note_identities_def)
next
  case (Cons j js)
  let ?d = "dset j (List.insert material (case dget d j of None \<Rightarrow> [] | Some ms \<Rightarrow> ms)) d"
  have "note_identities material (j # js) d = note_identities material js ?d"
    by (simp add: note_identities_def)
  with Cons.IH [of ?d] show ?case by (auto split: option.splits if_splits)
qed

lemma identities_kept:
  "(\<forall>m. m \<in> set (case dget d i of None \<Rightarrow> [] | Some ms \<Rightarrow> ms) \<longrightarrow>
      m \<in> set (case dget (fold (\<lambda>v. note_identities (payload v) (identities v)) vs d) i of None \<Rightarrow> [] | Some ms \<Rightarrow> ms))
   \<and> (\<forall>v\<in>set vs. i \<in> set (identities v) \<longrightarrow>
      payload v \<in> set (case dget (fold (\<lambda>v. note_identities (payload v) (identities v)) vs d) i of None \<Rightarrow> [] | Some ms \<Rightarrow> ms))
   \<and> (dict_ok d \<longrightarrow> dict_ok (fold (\<lambda>v. note_identities (payload v) (identities v)) vs d))"
proof (induction vs arbitrary: d)
  case Nil
  then show ?case by simp
next
  case (Cons v vs)
  from Cons.IH [of "note_identities (payload v) (identities v) d"]
    note_identities_keeps [of d i "payload v" "identities v"]
  show ?case by auto
qed

lemma dedupe_facts:
  assumes "dedupe_and_find_conflicts identities payload vs = (xs, conflicts)"
  shows "set xs \<subseteq> set vs" and "v \<in> set vs \<Longrightarrow> \<exists>x\<in>set xs. payload x = payload v"
    and "conflicts = [] \<Longrightarrow> v \<in> set vs \<Longrightarrow> w \<in> set vs \<Longrightarrow> i \<in> set (identities v) \<Longrightarrow> i \<in> set (identities w)
      \<Longrightarrow> payload v = payload w"
proof -
  define u where "u = fold (\<lambda>v u. case dget u (payload v) of None \<Rightarrow> dset (payload v) v u | Some w \<Rightarrow> u) vs []"
  define d where "d = fold (\<lambda>v. note_identities (payload v) (identities v)) vs []"
  have "xs = map snd (sort_key (\<lambda>x. stable_key (fst x)) u)" and
    conflicts: "conflicts = map fst (filter (\<lambda>(i, ms). 1 < length ms) d)"
    using assms unfolding dedupe_and_find_conflicts_def Let_def u_def d_def by simp_all
  then have xs: "set xs = snd ` set u" by simp
  have u: "keyed payload u" "dict_ok u" "\<And>k x. dget u k = Some x \<Longrightarrow> x \<in> set vs"
    "\<And>v. v \<in> set vs \<Longrightarrow> dget u (payload v) \<noteq> None"
    using dedupe_unique [OF u_def [symmetric]] by (auto simp: keyed_def)
  show "set xs \<subseteq> set vs" using u(2,3) by (auto simp: xs mem_dict)
  show "\<exists>x\<in>set xs. payload x = payload v" if v: "v \<in> set vs"
  proof -
    obtain x where "dget u (payload v) = Some x" using u(4) [OF v] by blast
    with u(1,2) have "payload x = payload v" "(payload v, x) \<in> set u" by (auto simp: keyed_def mem_dict)
    then show ?thesis by (force simp: xs)
  qed
  show "payload v = payload w" if "conflicts = []" "v \<in> set vs" "w \<in> set vs" "i \<in> set (identities v)" "i \<in> set (identities w)"
  proof -
    have both: "payload v \<in> set (case dget d i of None \<Rightarrow> [] | Some ms \<Rightarrow> ms)"
      "payload w \<in> set (case dget d i of None \<Rightarrow> [] | Some ms \<Rightarrow> ms)" "dict_ok d"
      using identities_kept [of "[]" i payload identities vs] that(2-) by (auto simp: d_def)
    then obtain ms where ms: "dget d i = Some ms" "payload v \<in> set ms" "payload w \<in> set ms"
      by (cases "dget d i") auto
    then have "(i, ms) \<in> set d" using both(3) by (simp add: mem_dict)
    with conflicts that(1) have "length ms \<le> 1" by (auto simp: filter_empty_conv)
    with ms show ?thesis by (cases ms rule: remdups_adj.cases) auto
  qed
qed

lemma deduped_open_facts:
  "set (fst (deduped_opens b)) \<subseteq> set (os_orders (sb_open_orders b))"
  "v \<in> set (os_orders (sb_open_orders b)) \<Longrightarrow> \<exists>x\<in>set (fst (deduped_opens b)). open_payload x = open_payload v"
  by (cases "deduped_opens b", simp add: deduped_opens_def dedupe_facts)+

lemma deduped_fill_facts:
  "set (fst (deduped_fills b)) \<subseteq> set (fs_fills (sb_fills_seen b))"
  "v \<in> set (fs_fills (sb_fills_seen b)) \<Longrightarrow> \<exists>x\<in>set (fst (deduped_fills b)). fill_observation_payload x = fill_observation_payload v"
  by (cases "deduped_fills b", simp add: deduped_fills_def dedupe_facts)+

section \<open>Equal payloads\<close>

lemma side_value_inject [simp]: "live_side_value a = live_side_value b \<longleftrightarrow> a = b"
  by (cases a; cases b) simp_all

lemma status_value_inject [simp]: "correlation_status_value a = correlation_status_value b \<longleftrightarrow> a = b"
  by (cases a; cases b) simp_all

lemma json_text_inject [simp]: "json_text a = json_text b \<longleftrightarrow> a = b"
  by (cases a; cases b) (simp_all add: json_text_def json_opt_def)

lemma json_decimal_inject [simp]: "json_plain_decimal a = json_plain_decimal b \<longleftrightarrow> deq a b"
  by (simp add: json_plain_decimal_def decimal_text_inject)

lemma json_opt_decimal [simp]: "json_opt json_plain_decimal a = json_opt json_plain_decimal b \<longleftrightarrow> opt_deq a b"
  by (cases a; cases b) (simp_all add: json_opt_def opt_deq_def, simp_all add: json_plain_decimal_def)

lemma open_payload_eq:
  "open_payload x = open_payload v \<longleftrightarrow>
     oo_account_id x = oo_account_id v \<and> oo_instrument_id x = oo_instrument_id v \<and> oo_side x = oo_side v
     \<and> deq (oo_working_total_quantity x) (oo_working_total_quantity v)
     \<and> deq (oo_working_remaining_quantity x) (oo_working_remaining_quantity v)
     \<and> opt_deq (oo_working_limit_price x) (oo_working_limit_price v)
     \<and> correlation_material (oo_correlation x) = correlation_material (oo_correlation v)"
  by (simp add: open_payload_def)

lemma fill_observation_payload_eq:
  "fill_observation_payload x = fill_observation_payload v \<Longrightarrow>
     fo_account_id x = fo_account_id v \<and> fo_instrument_id x = fo_instrument_id v \<and> fo_side x = fo_side v
     \<and> deq (fo_quantity x) (fo_quantity v) \<and> deq (fo_execution_price x) (fo_execution_price v)
     \<and> correlation_material (fo_correlation x) = correlation_material (fo_correlation v)"
  by (simp add: fill_observation_payload_def)

lemma position_observation_payload_eq:
  "position_observation_payload p = position_observation_payload q \<Longrightarrow>
     bp_instrument_id p = bp_instrument_id q \<and> deq (bp_net_quantity p) (bp_net_quantity q)"
  by (simp add: position_observation_payload_def)

lemma correlation_material_eq:
  "correlation_material c = correlation_material d \<Longrightarrow>
     bc_status c = bc_status d \<and> bc_client_order_id c = bc_client_order_id d
     \<and> bc_broker_fill_id c = bc_broker_fill_id d \<and> bc_execution_no c = bc_execution_no d"
  by (simp add: correlation_material_def)

section \<open>Findings\<close>

lemma add_nonempty: "add_discrepancy h a t f d = Inr d' \<Longrightarrow> d' \<noteq> []"
  by (auto simp: add_discrepancy_def err_simps dset_def)

lemma adds_empty: "efold (add_discrepancy h a t) fs d = Inr [] \<Longrightarrow> d = [] \<and> fs = []"
proof (induction fs arbitrary: d)
  case Nil
  then show ?case by simp
next
  case (Cons f fs)
  then obtain d' where "add_discrepancy h a t f d = Inr d'" "efold (add_discrepancy h a t) fs d' = Inr []"
    by (auto simp: err_simps)
  with Cons.IH add_nonempty show ?case by blast
qed

lemma assess_resumes:
  assumes "assess_reconciliation h l b t = Inr a" and "may_resume a"
  shows "\<exists>expected. exact_sums (attributed_quantities l) = Inr expected
      \<and> snapshot_findings l b = [] \<and> position_findings expected b = []"
    and "\<not> snapshots_ambiguous l b" and "\<forall>e\<in>set (snapshot_evidence b). ce_status e = COMPLETE"
    and "ls_recovery_blockers l = []" and "at_local a = l \<and> at_broker a = b"
proof -
  from assms(1) obtain found expected found' r where
    run: "efold (add_discrepancy h (ls_account_id l) t) (snapshot_findings l b) [] = Inr found"
      "exact_sums (attributed_quantities l) = Inr expected"
      "efold (add_discrepancy h (ls_account_id l) t) (position_findings expected b) found = Inr found'"
      "reconciliation_result_init
         \<lparr>rr_account_id = ls_account_id l, rr_status = assessed_status l b,
          rr_discrepancies = sort_key discrepancy_sort_key (dvalues found'),
          rr_evidence = snapshot_evidence b, rr_reconciled_at = t\<rparr> = Inr r"
      "assessment_init \<lparr>at_local = l, at_broker = b, at_result = r\<rparr> = Inr a"
    unfolding assess_reconciliation_def Let_def ebind_eq_Inr require_eq_Inr by blast
  have r: "rr_status r = assessed_status l b" "rr_discrepancies r = sort_key discrepancy_sort_key (dvalues found')"
    "rr_evidence r = snapshot_evidence b"
    using run(4) by (auto simp: reconciliation_result_init_def err_simps)
  have a: "a = \<lparr>at_local = l, at_broker = b, at_result = r\<rparr>"
    using run(5) by (auto simp: assessment_init_def err_simps)
  then show "at_local a = l \<and> at_broker a = b" by simp
  have resume: "rr_status r = RECON_COMPLETE" "rr_discrepancies r = []" "ls_recovery_blockers l = []"
    using assms(2) a by (simp_all add: may_resume_def is_authoritative_def)
  then show "ls_recovery_blockers l = []" by simp
  from resume(1) r(1) show "\<not> snapshots_ambiguous l b" "\<forall>e\<in>set (snapshot_evidence b). ce_status e = COMPLETE"
    by (auto simp: assessed_status_def list_ex_iff split: if_splits)
  have "dvalues found' = []"
    using resume(2) r(2) by (metis length_0_conv length_sort)
  then have "found' = []" by (simp add: dvalues_def)
  with adds_empty run(3) have "found = []" "position_findings expected b = []" by blast+
  with adds_empty run(1,2) show "\<exists>expected. exact_sums (attributed_quantities l) = Inr expected
      \<and> snapshot_findings l b = [] \<and> position_findings expected b = []" by blast
qed

section \<open>Orders\<close>

text \<open>An open order as the broker reports it and as the journal has it.\<close>

definition order_agrees :: "live_order \<Rightarrow> open_order_observation \<Rightarrow> bool" where
  "order_agrees y x \<longleftrightarrow>
     bc_status (oo_correlation x) = CONFIRMED \<and> open_client x = order_id y
     \<and> li_instrument_id (lo_intent y) = oo_instrument_id x \<and> li_side (lo_intent y) = oo_side x
     \<and> lo_state y \<in> working_states
     \<and> opt_deq (lo_working_limit_price y) (oo_working_limit_price x)
     \<and> deq (lo_total_quantity y) (oo_working_total_quantity x)
     \<and> deq (lo_remaining_quantity y) (oo_working_remaining_quantity x)"

lemma order_agrees_payload:
  assumes "order_agrees y x" and "open_payload x = open_payload v"
  shows "order_agrees y v"
  using assms correlation_material_eq [of "oo_correlation x" "oo_correlation v"]
  by (auto simp: order_agrees_def open_payload_eq open_client_def deq_val opt_deq_val)

lemma no_pending:
  assumes "snapshot_findings l b = []" and "y \<in> set (ls_orders l)"
  shows "lo_pending_command y = None"
  using assms by (auto simp: snapshot_findings_def pending_findings_def filter_empty_conv split: prod.splits)

lemma open_findings_Nil:
  assumes "open_findings locals conflicts x = []"
  shows "\<not> open_unresolved conflicts x
    \<and> (\<exists>y. dget locals (open_client x) = Some y \<and> \<not> state_mismatch y x \<and> \<not> quantity_mismatch y x)"
  using assms by (auto simp: open_findings_def Let_def split: if_splits option.splits prod.splits)

lemma opens_agree:
  assumes findings: "snapshot_findings l b = []" and x: "x \<in> set (fst (deduped_opens b))"
  shows "\<exists>y\<in>set (ls_orders l). order_agrees y x"
proof -
  have "open_findings (local_orders l) (snd (deduped_opens b)) x = []"
    using findings x by (auto simp: snapshot_findings_def split: prod.splits)
  from open_findings_Nil [OF this] obtain y where
    y: "\<not> open_unresolved (snd (deduped_opens b)) x" "dget (local_orders l) (open_client x) = Some y"
      "\<not> state_mismatch y x" "\<not> quantity_mismatch y x" by blast
  from index_by_Some [OF y(2) [unfolded local_orders_def]] have mem: "y \<in> set (ls_orders l)" "order_id y = open_client x"
    by simp_all
  with y no_pending [OF findings mem(1)] have "order_agrees y x"
    by (auto simp: order_agrees_def state_mismatch_def quantity_mismatch_def open_unresolved_def)
  with mem(1) show ?thesis by blast
qed

lemma working_orders_seen:
  assumes findings: "snapshot_findings l b = []" and ids: "distinct (map order_id (ls_orders l))"
    and "ce_status (os_evidence (sb_open_orders b)) = COMPLETE" and "\<not> opens_ambiguous b"
    and y: "y \<in> set (ls_orders l)" "lo_state y \<in> working_states"
  shows "\<exists>x\<in>set (fst (deduped_opens b)). order_agrees y x"
proof -
  let ?ids = "matched_order_ids (local_orders l) (snd (deduped_opens b)) (fst (deduped_opens b))"
  have "missing_order_findings l b = []"
    using findings by (auto simp: snapshot_findings_def split: prod.splits)
  then have none: "\<forall>(client, y)\<in>set (local_orders l). \<not> (client \<notin> set ?ids \<and> lo_pending_command y = None
      \<and> ce_status (os_evidence (sb_open_orders b)) = COMPLETE \<and> \<not> opens_ambiguous b \<and> lo_state y \<in> working_states)"
    by (auto simp: missing_order_findings_def Let_def filter_empty_conv case_prod_unfold)
  have "(order_id y, y) \<in> set (local_orders l)"
    using index_by_mem [OF ids y(1)] by (simp add: local_orders_def)
  with none assms(3,4) y(2) no_pending [OF findings y(1)] have "order_id y \<in> set ?ids" by fastforce
  then obtain x where x: "x \<in> set (fst (deduped_opens b))" "open_client x = order_id y"
    by (auto simp: matched_order_ids_def)
  from opens_agree [OF findings x(1)] obtain z where z: "z \<in> set (ls_orders l)" "order_agrees z x" by blast
  then have "order_id z = order_id y" using x(2) by (simp add: order_agrees_def)
  with ids z(1) y(1) have "z = y" by (meson distinct_map inj_on_def)
  with x(1) z(2) show ?thesis by blast
qed

section \<open>Fills\<close>

definition fill_agrees :: "live_fill \<Rightarrow> fill_observation \<Rightarrow> bool" where
  "fill_agrees y x \<longleftrightarrow>
     bc_status (fo_correlation x) = CONFIRMED \<and> lf_fill_id y \<in> set (broker_fill_ids x)
     \<and> bc_client_order_id (fo_correlation x) = Some (lf_client_order_id y)
     \<and> lf_account_id y = fo_account_id x \<and> lf_instrument_id y = fo_instrument_id x \<and> lf_side y = fo_side x
     \<and> deq (lf_quantity y) (fo_quantity x) \<and> deq (lf_execution_price y) (fo_execution_price x)"

lemma fill_agrees_payload:
  assumes "fill_agrees y x" and "fill_observation_payload x = fill_observation_payload v"
  shows "fill_agrees y v"
  using assms(1) fill_observation_payload_eq [OF assms(2)] correlation_material_eq [of "fo_correlation x" "fo_correlation v"]
  by (auto simp: fill_agrees_def broker_fill_ids_def deq_val)

lemma resolve_fill_Inr:
  assumes "resolve_fill (local_fills l) conflicts x = Inr y"
  shows "bc_status (fo_correlation x) = CONFIRMED \<and> y \<in> set (ls_fills l) \<and> lf_fill_id y \<in> set (broker_fill_ids x)"
proof -
  obtain i where i: "\<not> fill_unresolved conflicts x" "fill_candidates (local_fills l) x = [i]"
    "y = the (dget (local_fills l) i)"
    using assms by (auto simp: resolve_fill_def split: if_splits list.splits)
  from i(2) have "i \<in> set (fill_candidates (local_fills l) x)" by simp
  then have "i \<in> set (broker_fill_ids x)" "dget (local_fills l) i \<noteq> None" by (auto simp: fill_candidates_def)
  with i show ?thesis
    by (auto simp: fill_unresolved_def local_fills_def dest: index_by_Some)
qed

text \<open>The parts of the comparison of fills, by name.\<close>

definition collided_fills :: "local_snapshot \<Rightarrow> reconciliation_snapshot \<Rightarrow> string list" where
  "collided_fills l b =
     collided_fill_ids (resolved_fills (local_fills l) (snd (deduped_fills b)) (fst (deduped_fills b)))"

lemma fill_findings_parts:
  assumes "fst (fill_findings l b) = []"
  shows "unresolved_fill_findings (local_fills l) (snd (deduped_fills b)) (fst (deduped_fills b)) = []"
    and "resolved_fill_findings (collided_fills l b)
      (resolved_fills (local_fills l) (snd (deduped_fills b)) (fst (deduped_fills b))) = []"
    and "ce_status (fs_evidence (sb_fills_seen b)) = COMPLETE \<Longrightarrow> \<not> snd (fill_findings l b) \<Longrightarrow>
      (i, y) \<in> set (local_fills l) \<Longrightarrow>
      i \<in> set (matched_fill_ids (collided_fills l b)
        (resolved_fills (local_fills l) (snd (deduped_fills b)) (fst (deduped_fills b))))"
  using assms
  by (auto simp: fill_findings_def Let_def collided_fills_def case_prod_unfold filter_empty_conv split: if_splits)

lemma fills_agree:
  assumes findings: "fst (fill_findings l b) = []" and x: "x \<in> set (fst (deduped_fills b))"
  shows "\<exists>y\<in>set (ls_fills l). fill_agrees y x
    \<and> (x, y) \<in> set (resolved_fills (local_fills l) (snd (deduped_fills b)) (fst (deduped_fills b)))"
proof -
  obtain y where y: "resolve_fill (local_fills l) (snd (deduped_fills b)) x = Inr y"
    using fill_findings_parts(1) [OF findings] x
    by (cases "resolve_fill (local_fills l) (snd (deduped_fills b)) x")
      (fastforce simp: unresolved_fill_findings_def split: sum.splits)+
  then have mem: "(x, y) \<in> set (resolved_fills (local_fills l) (snd (deduped_fills b)) (fst (deduped_fills b)))"
    using x by (auto simp: resolved_fills_def intro!: bexI [of _ x])
  with fill_findings_parts(2) [OF findings] have "\<not> fill_mismatch y x"
    by (fastforce simp: resolved_fill_findings_def split: if_splits)
  with resolve_fill_Inr [OF y] have "fill_agrees y x" "y \<in> set (ls_fills l)"
    by (auto simp: fill_agrees_def fill_mismatch_def)
  with mem show ?thesis by blast
qed

lemma resolved_fill_agrees:
  assumes findings: "fst (fill_findings l b) = []"
    and "(x, y) \<in> set (resolved_fills (local_fills l) (snd (deduped_fills b)) (fst (deduped_fills b)))"
  shows "x \<in> set (fst (deduped_fills b)) \<and> y \<in> set (ls_fills l) \<and> fill_agrees y x"
proof -
  from assms(2) have x: "x \<in> set (fst (deduped_fills b))"
    "resolve_fill (local_fills l) (snd (deduped_fills b)) x = Inr y"
    by (auto simp: resolved_fills_def split: sum.splits)
  from assms(2) fill_findings_parts(2) [OF findings] have "\<not> fill_mismatch y x"
    by (fastforce simp: resolved_fill_findings_def split: if_splits)
  with resolve_fill_Inr [OF x(2)] x(1) show ?thesis by (auto simp: fill_agrees_def fill_mismatch_def)
qed

lemma local_fills_seen:
  assumes findings: "fst (fill_findings l b) = []" and ids: "distinct (map lf_fill_id (ls_fills l))"
    and "ce_status (fs_evidence (sb_fills_seen b)) = COMPLETE" and "\<not> snd (fill_findings l b)"
    and y: "y \<in> set (ls_fills l)"
  shows "\<exists>x\<in>set (fst (deduped_fills b)). fill_agrees y x"
proof -
  let ?resolved = "resolved_fills (local_fills l) (snd (deduped_fills b)) (fst (deduped_fills b))"
  have "(lf_fill_id y, y) \<in> set (local_fills l)"
    using index_by_mem [OF ids y] by (simp add: local_fills_def)
  from fill_findings_parts(3) [OF findings assms(3,4) this]
  obtain x z where xz: "(x, z) \<in> set ?resolved" "lf_fill_id z = lf_fill_id y"
    by (auto simp: matched_fill_ids_def)
  from resolved_fill_agrees [OF findings xz(1)] have
    "x \<in> set (fst (deduped_fills b))" "z \<in> set (ls_fills l)" "fill_agrees z x" by simp_all
  moreover have "z = y" using ids xz(2) y calculation(2) by (meson distinct_map inj_on_def)
  ultimately show ?thesis by blast
qed

section \<open>Positions\<close>

text \<open>What the strategies of the journal hold of an instrument together.\<close>

definition attributed_total :: "local_snapshot \<Rightarrow> string \<Rightarrow> rat" where
  "attributed_total l i =
     (\<Sum>a\<leftarrow>filter (\<lambda>a. pa_instrument_id a = i) (ls_position_attributions l). dval (pa_attributed_quantity a))"

lemma expected_total:
  assumes "exact_sums (attributed_quantities l) = Inr expected"
  shows "dval (quantity_or_zero expected i) = attributed_total l i"
proof (cases "dget expected i")
  case None
  then have "dget (attributed_quantities l) i = None" using exact_sums_None [OF assms] by simp
  then have "filter (\<lambda>a. pa_instrument_id a = i) (ls_position_attributions l) = []"
    by (auto simp: attributed_quantities_def dget_dappend filter_empty_conv split: if_splits)
  with None show ?thesis by (simp add: quantity_or_zero_def attributed_total_def dval_def)
next
  case (Some q)
  from exact_sums_get [OF assms Some] obtain qs where
    qs: "dget (attributed_quantities l) i = Some qs" "exact_decimal_sum qs = Inr q" by blast
  then have "qs = map pa_attributed_quantity (filter (\<lambda>a. pa_instrument_id a = i) (ls_position_attributions l))"
    by (auto simp: attributed_quantities_def dget_dappend split: if_splits)
  with exact_sum_exact [OF qs(2)] Some show ?thesis
    by (simp add: quantity_or_zero_def attributed_total_def comp_def)
qed

lemma broker_positions_fold:
  assumes "dget (fold (\<lambda>p d. if ''instrument:'' @ bp_instrument_id p \<in> set cs then d
      else dset (bp_instrument_id p) (bp_net_quantity p) d) ps d) i = Some q"
  shows "(\<exists>p\<in>set ps. bp_instrument_id p = i \<and> bp_net_quantity p = q) \<or> dget d i = Some q"
  using assms
proof (induction ps arbitrary: d)
  case Nil
  then show ?case by simp
next
  case (Cons p ps)
  from Cons.prems Cons.IH show ?case by (fastforce split: if_splits)
qed

lemma broker_positions_present:
  "cs = [] \<Longrightarrow> p \<in> set ps \<or> dget d (bp_instrument_id p) \<noteq> None \<Longrightarrow>
     dget (fold (\<lambda>p d. if ''instrument:'' @ bp_instrument_id p \<in> set cs then d
      else dset (bp_instrument_id p) (bp_net_quantity p) d) ps d) (bp_instrument_id p) \<noteq> None"
  by (induction ps arbitrary: d) auto

lemma positions_agree:
  assumes sums: "exact_sums (attributed_quantities l) = Inr expected" and findings: "position_findings expected b = []"
    and free: "snd (deduped_positions b) = []" and complete: "ce_status (ps_evidence (sb_positions_seen b)) = COMPLETE"
  shows "dval (quantity_or_zero (broker_positions b) i) = attributed_total l i"
proof (cases "i \<in> set (dkeys expected @ dkeys (broker_positions b))")
  case True
  then have "deq (quantity_or_zero expected i) (quantity_or_zero (broker_positions b) i)"
    using findings free complete by (auto simp: position_findings_def Let_def filter_empty_conv)
  then show ?thesis by (simp add: deq_val expected_total [OF sums])
next
  case False
  then have "dget expected i = None" "dget (broker_positions b) i = None" by (auto simp: set_dkeys)
  then show ?thesis using expected_total [OF sums, of i] by (simp add: quantity_or_zero_def)
qed

lemma broker_position_value:
  assumes free: "snd (deduped_positions b) = []" and p: "p \<in> set (ps_positions (sb_positions_seen b))"
  shows "dval (quantity_or_zero (broker_positions b) (bp_instrument_id p)) = dval (bp_net_quantity p)"
proof -
  obtain xs where xs: "deduped_positions b = (xs, [])" using free by (cases "deduped_positions b") auto
  note facts = dedupe_facts [OF xs [unfolded deduped_positions_def]]
  obtain x where x: "x \<in> set xs" "position_observation_payload x = position_observation_payload p" using facts(2) [OF p] by blast
  with position_observation_payload_eq [OF x(2)] have "dget (broker_positions b) (bp_instrument_id p) \<noteq> None"
    using broker_positions_present [of "[]" x xs "[]"] by (simp add: broker_positions_def xs)
  then obtain q where q: "dget (broker_positions b) (bp_instrument_id p) = Some q" by blast
  then obtain y where y: "y \<in> set xs" "bp_instrument_id y = bp_instrument_id p" "bp_net_quantity y = q"
    using broker_positions_fold [of "[]" xs "[]" "bp_instrument_id p" q] by (auto simp: broker_positions_def xs)
  then have "position_observation_payload y = position_observation_payload p"
    using facts(1) p by (intro facts(3) [of y p]) (auto simp: position_identities_def)
  from position_observation_payload_eq [OF this] y(3) q show ?thesis by (simp add: quantity_or_zero_def deq_val)
qed

lemma broker_position_absent:
  assumes "\<forall>p\<in>set (ps_positions (sb_positions_seen b)). bp_instrument_id p \<noteq> i"
  shows "dval (quantity_or_zero (broker_positions b) i) = 0"
proof (cases "dget (broker_positions b) i")
  case None
  then show ?thesis by (simp add: quantity_or_zero_def dval_def)
next
  case (Some q)
  obtain xs cs where xs: "deduped_positions b = (xs, cs)" by fastforce
  from Some broker_positions_fold [of cs xs "[]" i q] have "\<exists>p\<in>set xs. bp_instrument_id p = i"
    by (auto simp: broker_positions_def xs)
  with dedupe_facts(1) [OF xs [unfolded deduped_positions_def]] assms show ?thesis by blast
qed

end
