(* ===== verification/Reconciliation_Theorems.thy ===== *)
theory Reconciliation_Theorems
  imports Reconciliation_Proofs
begin

text \<open>
  The properties of reconciliation: resuming is safe, a missing order is really missing, and sums of
  Decimals are exact. The example is one partially filled order that both sides agree on.
\<close>

section \<open>Where a discrepancy comes from\<close>

lemma add_Inr:
  "add_discrepancy h a t f d = Inr d' \<longleftrightarrow>
     (\<exists>y. make_discrepancy h a t f = Inr y \<and> d' = dset (di_discrepancy_id y) y d)"
  by (auto simp: add_discrepancy_def err_simps)

lemma adds_from:
  assumes "efold (add_discrepancy h a t) fs d = Inr d'" and "x \<in> set (dvalues d')" and "dict_ok d"
  shows "x \<in> set (dvalues d) \<or> (\<exists>f\<in>set fs. make_discrepancy h a t f = Inr x)"
  using assms
proof (induction fs arbitrary: d)
  case Nil
  then show ?case by simp
next
  case (Cons f fs)
  then obtain y where y: "make_discrepancy h a t f = Inr y"
    "efold (add_discrepancy h a t) fs (dset (di_discrepancy_id y) y d) = Inr d'"
    by (auto simp: add_Inr ebind_eq_Inr)
  from Cons.IH [OF y(2) Cons.prems(2)] Cons.prems(3) show ?case
    using y(1) by (auto simp: set_dvalues split: if_splits)
qed

lemma assess_discrepancies:
  assumes "assess_reconciliation h l b t = Inr a" and "d \<in> set (rr_discrepancies (at_result a))"
  shows "\<exists>expected. \<exists>f\<in>set (snapshot_findings l b @ position_findings expected b).
    make_discrepancy h (ls_account_id l) t f = Inr d"
proof -
  from assms(1) obtain found expected found' r where
    run: "efold (add_discrepancy h (ls_account_id l) t) (snapshot_findings l b) [] = Inr found"
      "efold (add_discrepancy h (ls_account_id l) t) (position_findings expected b) found = Inr found'"
      "reconciliation_result_init
         \<lparr>rr_account_id = ls_account_id l, rr_status = assessed_status l b,
          rr_discrepancies = sort_key discrepancy_sort_key (dvalues found'),
          rr_evidence = snapshot_evidence b, rr_reconciled_at = t\<rparr> = Inr r"
      "assessment_init \<lparr>at_local = l, at_broker = b, at_result = r\<rparr> = Inr a"
    unfolding assess_reconciliation_def Let_def ebind_eq_Inr require_eq_Inr by blast
  have "at_result a = r" using run(4) by (auto simp: assessment_init_def err_simps)
  moreover have "rr_discrepancies r = sort_key discrepancy_sort_key (dvalues found')"
    using run(3) by (auto simp: reconciliation_result_init_def err_simps)
  ultimately have d: "d \<in> set (dvalues found')" using assms(2) by simp
  have add_ok: "dict_ok u \<Longrightarrow> efold (add_discrepancy h (ls_account_id l) t) fs u = Inr v \<Longrightarrow> dict_ok v" for fs u v
    by (rule efold_invariant [where I = dict_ok]) (auto simp: add_discrepancy_def err_simps)
  have "dict_ok found" using add_ok [OF _ run(1)] by simp
  from adds_from [OF run(2) d this] adds_from [OF run(1), of d] show ?thesis
    by (auto simp: dvalues_def)
qed

lemma make_discrepancy_Inr:
  "make_discrepancy h a t (kind, i, c, e, q) = Inr d \<Longrightarrow>
     di_kind d = kind \<and> di_instrument_id d = i \<and> di_client_order_id d = c"
  by (auto simp: make_discrepancy_def discrepancy_init_def err_simps)

lemma missing_order_finding:
  assumes "(MISSING_BROKER_ORDER, i, c, e, q) \<in> set (snapshot_findings l b @ position_findings expected b)"
  shows "(MISSING_BROKER_ORDER, i, c, e, q) \<in> set (missing_order_findings l b)"
proof -
  have no: "(MISSING_BROKER_ORDER, i, c, e, q) \<notin> set (open_findings locals cs x)" for locals cs x
    by (auto simp: open_findings_def Let_def split: if_splits option.splits prod.splits)
  have no_fill: "(MISSING_BROKER_ORDER, i, c, e, q) \<notin> set (fst (fill_findings l b))"
    by (auto simp: fill_findings_def Let_def unresolved_fill_findings_def resolved_fill_findings_def
        resolve_fill_def split: prod.splits sum.splits if_splits list.splits)
  from assms no no_fill show ?thesis
    by (auto simp: snapshot_findings_def pending_findings_def position_findings_def Let_def split: prod.splits)
qed

section \<open>The example\<close>

definition recon_hashes :: hashes where
  "recon_hashes = \<lparr>sha256_hex = (\<lambda>s. ''0''), uuid5 = (\<lambda>ns name. UUID name)\<rparr>"

definition recon_order :: live_order where
  "recon_order =
     \<lparr>lo_intent = \<lparr>li_strategy_id = ''s'', li_client_order_id = ''c1'', li_account_id = ''a'',
        li_instrument_id = ''TXF'', li_side = BUY, li_quantity = Dec 3 0, li_order_type = LIMIT,
        li_limit_price = Some (Dec 100 0), li_time_in_force = DAY, li_day_trade = False, li_created_at = 1\<rparr>,
      lo_state = PARTIALLY_FILLED, lo_total_quantity = Dec 3 0, lo_filled_quantity = Dec 1 0,
      lo_remaining_quantity = Dec 2 0, lo_average_fill_price = Some (Dec 99 0),
      lo_working_limit_price = Some (Dec 100 0), lo_version = 5, lo_updated_at = 4, lo_accepted_at = Some 2,
      lo_pending_command = None\<rparr>"

definition recon_local :: local_snapshot where
  "recon_local =
     \<lparr>ls_account_id = ''a'', ls_orders = [recon_order],
      ls_fills = [\<lparr>lf_fill_id = ''f1'', lf_client_order_id = ''c1'', lf_strategy_id = ''s'', lf_account_id = ''a'',
        lf_instrument_id = ''TXF'', lf_side = BUY, lf_quantity = Dec 10 (-1), lf_execution_price = Dec 99 0,
        lf_occurred_at = 3\<rparr>],
      ls_position_attributions = [\<lparr>pa_strategy_id = ''s'', pa_account_id = ''a'', pa_instrument_id = ''TXF'',
        pa_attributed_quantity = Dec 1 0, pa_as_of = 4\<rparr>],
      ls_as_of = 5, ls_recovery_blockers = [], ls_journal_sequence = 7\<rparr>"

definition recon_correlation :: "string option \<Rightarrow> broker_correlation" where
  "recon_correlation fill =
     \<lparr>bc_broker_session_generation = 1, bc_adapter_received_sequence = 1, bc_status = CONFIRMED,
      bc_correlated_at = 6, bc_submission_attempt_id = None, bc_async_thread_id = None, bc_proxy_stamp_id = None,
      bc_broker_order_sequence = Some ''b1'', bc_broker_book_no = None, bc_broker_fill_id = fill,
      bc_execution_no = None, bc_client_order_id = Some ''c1''\<rparr>"

definition recon_evidence :: "evidence_query_kind \<Rightarrow> completeness_evidence" where
  "recon_evidence kind = \<lparr>ce_query_kind = kind, ce_account_id = ''a'', ce_status = COMPLETE, ce_observed_at = 6,
     ce_source_cursor = ''n1'', ce_reason = None\<rparr>"

text \<open>The broker's side, with or without the open order.\<close>

definition recon_broker :: "bool \<Rightarrow> reconciliation_snapshot" where
  "recon_broker seen =
     \<lparr>sb_snapshot_id = ''n1'', sb_account_id = ''a'',
      sb_open_orders = \<lparr>os_orders = (if seen then
          [\<lparr>oo_observation_id = ''o1'', oo_account_id = ''a'', oo_instrument_id = ''TXF'', oo_side = BUY,
            oo_working_total_quantity = Dec 30 (-1), oo_working_remaining_quantity = Dec 2 0,
            oo_working_limit_price = Some (Dec 100 0), oo_correlation = recon_correlation None, oo_observed_at = 6\<rparr>]
          else []), os_evidence = recon_evidence OPEN_ORDERS\<rparr>,
      sb_fills_seen = \<lparr>fs_fills = [\<lparr>fo_observation_id = ''o2'', fo_account_id = ''a'', fo_instrument_id = ''TXF'',
          fo_side = BUY, fo_quantity = Dec 1 0, fo_execution_price = Dec 99 0,
          fo_correlation = recon_correlation (Some ''f1''), fo_observed_at = 6, fo_occurred_at = Some 3\<rparr>],
        fs_evidence = recon_evidence FILLS\<rparr>,
      sb_positions_seen = \<lparr>ps_positions = [\<lparr>bp_account_id = ''a'', bp_instrument_id = ''TXF'', bp_net_quantity = Dec 1 0,
          bp_average_open_price = Some (Dec 99 0), bp_observed_at = 6\<rparr>], ps_evidence = recon_evidence POSITIONS\<rparr>,
      sb_captured_at = 6\<rparr>"

definition returns :: "'a result \<Rightarrow> ('a \<Rightarrow> bool) \<Rightarrow> bool" where
  "returns m f = (case m of Inl e \<Rightarrow> False | Inr x \<Rightarrow> f x)"

lemma returnsE: "returns m f \<Longrightarrow> (\<And>x. m = Inr x \<Longrightarrow> f x \<Longrightarrow> P) \<Longrightarrow> P"
  by (cases m) (simp_all add: returns_def)

lemma recon_agrees: "returns (assess_reconciliation recon_hashes recon_local (recon_broker True) 8) may_resume"
  by code_simp

lemma recon_missing:
  "returns (assess_reconciliation recon_hashes recon_local (recon_broker False) 8)
     (\<lambda>a. map (\<lambda>d. (di_kind d, di_client_order_id d)) (rr_discrepancies (at_result a))
       = [(MISSING_BROKER_ORDER, Some ''c1'')])"
  by code_simp

lemma recon_local_valid: "returns (local_snapshot_init recon_local) (\<lambda>x. True)"
  by code_simp

lemma local_snapshot_init_Inr:
  assumes "local_snapshot_init s = Inr s'"
  shows "s' = s \<and> distinct (map order_id (ls_orders s)) \<and> distinct (map lf_fill_id (ls_fills s))"
  using assms unfolding local_snapshot_init_def Let_def ebind_eq_Inr require_eq_Inr by auto

lemma recon_local_init: "local_snapshot_init recon_local = Inr recon_local"
  using recon_local_valid local_snapshot_init_Inr by (metis returnsE)

section \<open>The properties\<close>

text \<open>C22: resuming is safe. If an assessment allows trading to resume, the broker's evidence was complete,
  no command is pending, and both sides agree: the open orders in account, instrument, side, price and
  quantities, in both directions; the fills in both directions; and every position is exactly what the
  strategies hold together.\<close>

theorem resume_is_safe:
  assumes "local_snapshot_init l = Inr l" and "assess_reconciliation h l b t = Inr a" and "may_resume a"
  shows "(\<forall>e\<in>set (snapshot_evidence b). ce_status e = COMPLETE)
    \<and> (\<forall>x\<in>set (os_orders (sb_open_orders b)). \<exists>y\<in>set (ls_orders l). order_agrees y x)
    \<and> (\<forall>y\<in>set (ls_orders l). lo_pending_command y = None
         \<and> (lo_state y \<in> working_states \<longrightarrow> (\<exists>x\<in>set (os_orders (sb_open_orders b)). order_agrees y x)))
    \<and> (\<forall>x\<in>set (fs_fills (sb_fills_seen b)). \<exists>y\<in>set (ls_fills l). fill_agrees y x)
    \<and> (\<forall>y\<in>set (ls_fills l). \<exists>x\<in>set (fs_fills (sb_fills_seen b)). fill_agrees y x)
    \<and> (\<forall>p\<in>set (ps_positions (sb_positions_seen b)).
         dval (bp_net_quantity p) = attributed_total l (bp_instrument_id p))
    \<and> (\<forall>i. attributed_total l i \<noteq> 0 \<longrightarrow>
         (\<exists>p\<in>set (ps_positions (sb_positions_seen b)). bp_instrument_id p = i))"
proof -
  obtain expected where findings: "snapshot_findings l b = []" "position_findings expected b = []"
    and sums: "exact_sums (attributed_quantities l) = Inr expected"
    using assess_resumes(1) [OF assms(2,3)] by blast
  note clear = assess_resumes(2) [OF assms(2,3)] and complete = assess_resumes(3) [OF assms(2,3)]
  have ids: "distinct (map order_id (ls_orders l))" "distinct (map lf_fill_id (ls_fills l))"
    using local_snapshot_init_Inr [OF assms(1)] by simp_all
  have fills: "fst (fill_findings l b) = []"
    using findings(1) by (auto simp: snapshot_findings_def split: prod.splits)
  have free: "\<not> opens_ambiguous b" "\<not> snd (fill_findings l b)" "snd (deduped_positions b) = []"
    using clear by (simp_all add: snapshots_ambiguous_def)
  have evidence: "ce_status (os_evidence (sb_open_orders b)) = COMPLETE"
    "ce_status (fs_evidence (sb_fills_seen b)) = COMPLETE" "ce_status (ps_evidence (sb_positions_seen b)) = COMPLETE"
    using complete by (simp_all add: snapshot_evidence_def)
  note opens = deduped_open_facts and seen = deduped_fill_facts
  note positions = positions_agree [OF sums findings(2) free(3) evidence(3)]
  have "\<exists>y\<in>set (ls_orders l). order_agrees y x" if "x \<in> set (os_orders (sb_open_orders b))" for x
    using opens(2) [OF that] opens_agree [OF findings(1)] order_agrees_payload by blast
  moreover have "lo_pending_command y = None
      \<and> (lo_state y \<in> working_states \<longrightarrow> (\<exists>x\<in>set (os_orders (sb_open_orders b)). order_agrees y x))"
    if "y \<in> set (ls_orders l)" for y
    using no_pending [OF findings(1) that] working_orders_seen [OF findings(1) ids(1) evidence(1) free(1) that] opens(1) [of b]
    by blast
  moreover have "\<exists>y\<in>set (ls_fills l). fill_agrees y x" if "x \<in> set (fs_fills (sb_fills_seen b))" for x
    using seen(2) [OF that] fills_agree [OF fills] fill_agrees_payload by blast
  moreover have "\<exists>x\<in>set (fs_fills (sb_fills_seen b)). fill_agrees y x" if "y \<in> set (ls_fills l)" for y
    using local_fills_seen [OF fills ids(2) evidence(2) free(2) that] seen(1) by blast
  moreover have "dval (bp_net_quantity p) = attributed_total l (bp_instrument_id p)"
    if "p \<in> set (ps_positions (sb_positions_seen b))" for p
    using broker_position_value [OF free(3) that] positions by simp
  moreover have "\<exists>p\<in>set (ps_positions (sb_positions_seen b)). bp_instrument_id p = i" if "attributed_total l i \<noteq> 0" for i
    using broker_position_absent [of b i] positions [of i] that by fastforce
  ultimately show ?thesis using complete by blast
qed

lemma resume_is_safe_witness:
  "attributed_total recon_local ''TXF'' = 1
   \<and> (\<exists>y\<in>set (ls_orders recon_local). \<exists>x\<in>set (os_orders (sb_open_orders (recon_broker True))). order_agrees y x)"
proof -
  obtain a where "assess_reconciliation recon_hashes recon_local (recon_broker True) 8 = Inr a" "may_resume a"
    using recon_agrees by (rule returnsE)
  from resume_is_safe [OF recon_local_init this] show ?thesis
    by (simp add: recon_broker_def recon_local_def recon_order_def working_states_def attributed_total_def dval_def)
qed

text \<open>No false alarm about a missing order. A MISSING_BROKER_ORDER discrepancy names a local order in a
  working state without a pending command that no observation of the broker's list mentions, and the
  list was complete and unambiguous: without that, absence is never inferred.\<close>

theorem missing_order_is_missing:
  assumes "local_snapshot_init l = Inr l" and "assess_reconciliation h l b t = Inr a"
    and "d \<in> set (rr_discrepancies (at_result a))" and "di_kind d = MISSING_BROKER_ORDER"
  shows "\<exists>y\<in>set (ls_orders l). di_client_order_id d = Some (order_id y)
      \<and> lo_state y \<in> working_states \<and> lo_pending_command y = None
      \<and> ce_status (os_evidence (sb_open_orders b)) = COMPLETE
      \<and> (\<forall>x\<in>set (os_orders (sb_open_orders b)). bc_status (oo_correlation x) = CONFIRMED \<and> open_client x \<noteq> order_id y)"
proof -
  from assess_discrepancies [OF assms(2,3)] obtain expected k i c e q where
    f: "(k, i, c, e, q) \<in> set (snapshot_findings l b @ position_findings expected b)"
      "make_discrepancy h (ls_account_id l) t (k, i, c, e, q) = Inr d"
    by (metis prod_cases5)
  from make_discrepancy_Inr [OF f(2)] assms(4) have d: "k = MISSING_BROKER_ORDER" "di_client_order_id d = c" by simp_all
  obtain xs conflicts where xs: "deduped_opens b = (xs, conflicts)" by fastforce
  from missing_order_finding [OF f(1) [unfolded d]] xs obtain client y where
    y: "c = Some client" "(client, y) \<in> set (local_orders l)"
      "client \<notin> set (matched_order_ids (local_orders l) conflicts xs)" "lo_pending_command y = None"
      "ce_status (os_evidence (sb_open_orders b)) = COMPLETE" "\<not> opens_ambiguous b" "lo_state y \<in> working_states"
    by (auto simp: missing_order_findings_def)
  have local: "dget (local_orders l) client = Some y" using y(2) by (simp add: local_orders_def mem_dict)
  then have mem: "y \<in> set (ls_orders l)" "order_id y = client"
    by (auto simp: local_orders_def dest: index_by_Some)
  have "bc_status (oo_correlation x) = CONFIRMED \<and> open_client x \<noteq> client"
    if x: "x \<in> set (os_orders (sb_open_orders b))" for x
  proof -
    from dedupe_facts(2) [OF xs [unfolded deduped_opens_def] x] obtain v where
      v: "v \<in> set xs" "open_payload v = open_payload x" by blast
    then have same: "bc_status (oo_correlation v) = bc_status (oo_correlation x)" "open_client v = open_client x"
      using correlation_material_eq [of "oo_correlation v" "oo_correlation x"]
      by (auto simp: open_payload_eq open_client_def)
    have v_ok: "conflicts = []" "bc_status (oo_correlation v) = CONFIRMED"
      using y(6) v(1) xs by (auto simp: opens_ambiguous_def list_ex_iff)
    moreover have "open_client v \<noteq> client"
      using y(3) v(1) v_ok local by (auto simp: matched_order_ids_def matched_order_def open_unresolved_def list_ex_iff)
    ultimately show ?thesis using same by simp
  qed
  with mem y d(2) show ?thesis by blast
qed

lemma missing_order_is_missing_witness:
  "\<exists>a. assess_reconciliation recon_hashes recon_local (recon_broker False) 8 = Inr a
     \<and> (\<exists>d\<in>set (rr_discrepancies (at_result a)). di_client_order_id d = Some (order_id recon_order))"
proof -
  obtain a where a: "assess_reconciliation recon_hashes recon_local (recon_broker False) 8 = Inr a"
    "map (\<lambda>d. (di_kind d, di_client_order_id d)) (rr_discrepancies (at_result a)) = [(MISSING_BROKER_ORDER, Some ''c1'')]"
    using recon_missing by (rule returnsE)
  then obtain d where d: "d \<in> set (rr_discrepancies (at_result a))" "di_kind d = MISSING_BROKER_ORDER" by auto
  from missing_order_is_missing [OF recon_local_init a(1) d] a(1) d(1) show ?thesis
    by (auto simp: recon_local_def)
qed

text \<open>Sums of Decimals are exact and do not depend on the order: whenever \<open>exact_decimal_sum\<close> returns,
  its value is the rational sum, and every permutation of the values gives the same Decimal.\<close>

theorem decimal_sum_is_exact:
  assumes "exact_decimal_sum vs = Inr d" and "mset ws = mset vs"
  shows "dval d = (\<Sum>v\<leftarrow>vs. dval v) \<and> exact_decimal_sum ws = Inr d"
  using exact_sum_exact [OF assms(1)] exact_sum_order_free [OF assms(2)] assms(1) by simp

lemma decimal_sum_is_exact_witness:
  "exact_decimal_sum [Dec 1 (-20), Dec 5 10, Dec (-50) 9] = Inr (Dec 1 (-20))"
proof -
  have "exact_decimal_sum [Dec 5 10, Dec (-50) 9, Dec 1 (-20)] = Inr (Dec 1 (-20))" by code_simp
  from decimal_sum_is_exact [OF this, of "[Dec 1 (-20), Dec 5 10, Dec (-50) 9]"] show ?thesis by simp
qed

end
