(* ===== verification/Projection_Theorems.thy ===== *)
theory Projection_Theorems
  imports Projection Reconciliation_Theorems
begin

text \<open>
  The properties of projection plans: a plan that may be committed only confirms what the broker's
  complete evidence shows; and the lemmas with which planning returns. The example is an order of unknown
  outcome that the broker lists once.
\<close>

section \<open>The loop\<close>

definition projectable_ok :: "assessment \<Rightarrow> projectable \<Rightarrow> bool" where
  "projectable_ok a p \<longleftrightarrow>
     dget (local_orders (at_local a)) (pj_client_order_id p) = Some (pj_order p)
     \<and> local_reasons (pj_order p) = [] \<and> correlated_opens (at_broker a) (pj_client_order_id p) = [pj_observation p]
     \<and> match_reasons (pj_order p) (pj_observation p) (ls_as_of (at_local a)) = []
     \<and> correlated_fills (at_broker a) (pj_client_order_id p) = []"

definition projection_inv :: "assessment \<Rightarrow> discrepancy list \<Rightarrow> projection_state \<Rightarrow> bool" where
  "projection_inv a ds s \<longleftrightarrow>
     list_all (projectable_ok a) (ps_projectable s)
     \<and> distinct (map pj_client_order_id (ps_projectable s))
     \<and> set (map pj_client_order_id (ps_projectable s)) \<subseteq> set (ps_seen s)
     \<and> (ps_reasons s = [] \<longrightarrow> map pj_discrepancy_id (ps_projectable s) = map di_discrepancy_id ds)
     \<and> set (ps_unsupported s) \<subseteq> set (map di_discrepancy_id ds)"

lemma broker_reasons_Nil:
  "broker_reasons x matches fills t = [] \<longleftrightarrow> fills = [] \<and> (\<exists>o1. matches = [o1] \<and> match_reasons x o1 t = [])"
  by (auto simp: broker_reasons_def split: list.splits if_splits)

lemma named_order_Some:
  "named_order a seen d = Some (client, x) \<Longrightarrow>
     dget (local_orders (at_local a)) client = Some x \<and> client \<notin> set seen \<and> di_client_order_id d = Some client"
  by (auto simp: named_order_def split: option.splits if_splits)

lemma project_discrepancy_inv:
  assumes "projection_inv a ds s"
  shows "projection_inv a (ds @ [d]) (project_discrepancy a d s)"
proof (cases "named_order a (ps_seen s) d")
  case None
  with assms show ?thesis by (auto simp: projection_inv_def project_discrepancy_def)
next
  case (Some n)
  obtain client x where n: "n = (client, x)" by (cases n)
  note named = named_order_Some [OF Some [unfolded n]]
  show ?thesis
  proof (cases "local_reasons x @ broker_reasons x (correlated_opens (at_broker a) client)
      (correlated_fills (at_broker a) client) (ls_as_of (at_local a)) = []")
    case False
    with assms Some n show ?thesis by (auto simp: projection_inv_def project_discrepancy_def Let_def)
  next
    case True
    then obtain o1 where o1: "correlated_opens (at_broker a) client = [o1]" "match_reasons x o1 (ls_as_of (at_local a)) = []"
      "correlated_fills (at_broker a) client = []" "local_reasons x = []"
      by (auto simp: broker_reasons_Nil)
    with assms Some n named True show ?thesis
      by (auto simp: projection_inv_def project_discrepancy_def projectable_ok_def Let_def)
  qed
qed

lemma project_discrepancies_inv:
  "projection_inv a ds s \<Longrightarrow> projection_inv a (ds @ es) (fold (project_discrepancy a) es s)"
proof (induction es arbitrary: ds s)
  case Nil
  then show ?case by simp
next
  case (Cons e es)
  from Cons.IH [OF project_discrepancy_inv [OF Cons.prems, of e]] show ?case by simp
qed

definition projections :: "assessment \<Rightarrow> projection_state" where
  "projections a =
     fold (project_discrepancy a) (rr_discrepancies (at_result a))
       \<lparr>ps_seen = [], ps_reasons = [], ps_unsupported = [], ps_projectable = []\<rparr>"

lemma projections_inv: "projection_inv a (rr_discrepancies (at_result a)) (projections a)"
  using project_discrepancies_inv [of a "[]"] by (simp add: projections_def projection_inv_def)

section \<open>Ready plans\<close>

lemma base_plan_Inr: "base_plan a d rs us = Inr p \<Longrightarrow> pp_disposition p = d"
  by (auto simp: base_plan_def projection_plan_init_def err_simps Let_def)

lemma efold_collect:
  "efold (\<lambda>p xs. ebind (f p) (\<lambda>x. Inr (xs @ [x]))) ps xs = Inr ys \<Longrightarrow>
     \<exists>zs. ys = xs @ zs \<and> list_all2 (\<lambda>p z. f p = Inr z) ps zs"
proof (induction ps arbitrary: xs)
  case Nil
  then show ?case by simp
next
  case (Cons p ps)
  then obtain x where "f p = Inr x" "efold (\<lambda>p xs. ebind (f p) (\<lambda>x. Inr (xs @ [x]))) ps (xs @ [x]) = Inr ys"
    by (auto simp: err_simps)
  with Cons.IH [of "xs @ [x]"] show ?case by fastforce
qed

lemma efold_collect_total:
  "(\<And>p. p \<in> set ps \<Longrightarrow> f p = Inr (g p)) \<Longrightarrow>
     efold (\<lambda>p xs. ebind (f p) (\<lambda>x. Inr (xs @ [x]))) ps xs = Inr (xs @ map g ps)"
  by (induction ps arbitrary: xs) simp_all

lemma ready_plan_orders:
  assumes "ready_plan a items = Inr p"
  shows "list_all2 (\<lambda>i x. projected_order (pj_order i) (pj_observation i) = Inr x)
      (sort_key pj_client_order_id items) (pp_projected_orders p)
    \<and> pp_disposition p = PLAN_READY \<and> pp_consumed_discrepancy_ids p = sort (map pj_discrepancy_id items)"
proof -
  from assms obtain versions orders where run:
    "efold (\<lambda>p xs. ebind (projected_order (pj_order p) (pj_observation p)) (\<lambda>x. Inr (xs @ [x])))
       (sort_key pj_client_order_id items) [] = Inr orders"
    "projection_plan_init
       \<lparr>pp_account_id = ls_account_id (at_local a), pp_snapshot_id = sb_snapshot_id (at_broker a),
        pp_expected_journal_sequence = ls_journal_sequence (at_local a), pp_disposition = PLAN_READY,
        pp_expected_order_versions = versions, pp_projected_orders = orders,
        pp_consumed_discrepancy_ids = sort (map pj_discrepancy_id (sort_key pj_client_order_id items)),
        pp_unsupported_discrepancy_ids = [], pp_reasons = []\<rparr> = Inr p"
    unfolding ready_plan_def Let_def ebind_eq_Inr by blast
  have "pp_projected_orders p = orders \<and> pp_disposition p = PLAN_READY
      \<and> pp_consumed_discrepancy_ids p = sort (map pj_discrepancy_id (sort_key pj_client_order_id items))"
    using run(2) by (auto simp: projection_plan_init_def err_simps Let_def)
  moreover have "sort (map pj_discrepancy_id (sort_key pj_client_order_id items)) = sort (map pj_discrepancy_id items)"
    by (rule properties_for_sort) simp_all
  ultimately show ?thesis using efold_collect [OF run(1)] by auto
qed

text \<open>What a projection does to an order, and the evidence it rests on.\<close>

definition confirms :: "assessment \<Rightarrow> live_order \<Rightarrow> open_order_observation \<Rightarrow> live_order \<Rightarrow> bool" where
  "confirms a x o1 x' \<longleftrightarrow>
     x' = x\<lparr>lo_state := ACCEPTED, lo_version := lo_version x + 1, lo_updated_at := oo_observed_at o1,
            lo_accepted_at := Some (oo_observed_at o1), lo_pending_command := None\<rparr>
     \<and> live_order_init x' = Inr x'
     \<and> lo_state x \<in> {SUBMISSION_UNKNOWN, RECONCILING} \<and> diszero (lo_filled_quantity x)
     \<and> (\<exists>binding. lo_pending_command x = Some binding \<and> binding_kind binding = NEW)
     \<and> correlated_opens (at_broker a) (order_id x) = [o1] \<and> correlated_fills (at_broker a) (order_id x) = []
     \<and> bc_status (oo_correlation o1) = CONFIRMED
     \<and> oo_account_id o1 = li_account_id (lo_intent x) \<and> oo_instrument_id o1 = li_instrument_id (lo_intent x)
     \<and> oo_side o1 = li_side (lo_intent x)
     \<and> deq (oo_working_total_quantity o1) (lo_total_quantity x)
     \<and> deq (oo_working_remaining_quantity o1) (lo_remaining_quantity x)
     \<and> opt_deq (oo_working_limit_price o1) (lo_working_limit_price x)
     \<and> lo_updated_at x \<le> oo_observed_at o1 \<and> ls_as_of (at_local a) \<le> oo_observed_at o1"

lemma live_order_init_same: "live_order_init x = Inr y \<Longrightarrow> y = x"
  by (auto simp: live_order_init_def err_simps)

lemma local_reasons_Nil:
  "local_reasons x = [] \<Longrightarrow>
     lo_state x \<in> {SUBMISSION_UNKNOWN, RECONCILING} \<and> lo_accepted_at x = None \<and> diszero (lo_filled_quantity x)
     \<and> lo_average_fill_price x = None
     \<and> (\<exists>binding. lo_pending_command x = Some binding \<and> binding_kind binding = NEW)"
  by (auto simp: local_reasons_def binding_kind_def split: if_splits option.splits live_command.splits)

lemma match_reasons_Nil:
  "match_reasons x o1 t = [] \<Longrightarrow>
     bc_status (oo_correlation o1) = CONFIRMED \<and> oo_account_id o1 = li_account_id (lo_intent x)
     \<and> oo_instrument_id o1 = li_instrument_id (lo_intent x) \<and> oo_side o1 = li_side (lo_intent x)
     \<and> deq (oo_working_total_quantity o1) (lo_total_quantity x)
     \<and> deq (oo_working_remaining_quantity o1) (lo_remaining_quantity x)
     \<and> opt_deq (oo_working_limit_price o1) (lo_working_limit_price x)
     \<and> lo_updated_at x \<le> oo_observed_at o1 \<and> t \<le> oo_observed_at o1"
  by (auto simp: match_reasons_def split: if_splits)

lemma projectable_confirms:
  assumes "projectable_ok a i" and "projected_order (pj_order i) (pj_observation i) = Inr x'"
  shows "pj_order i \<in> set (ls_orders (at_local a)) \<and> confirms a (pj_order i) (pj_observation i) x'"
proof -
  have x: "pj_order i \<in> set (ls_orders (at_local a))" "order_id (pj_order i) = pj_client_order_id i"
    using assms(1) by (auto simp: projectable_ok_def local_orders_def dest: index_by_Some)
  have init: "live_order_init (pj_order i\<lparr>lo_state := ACCEPTED, lo_version := lo_version (pj_order i) + 1,
      lo_updated_at := oo_observed_at (pj_observation i), lo_accepted_at := Some (oo_observed_at (pj_observation i)),
      lo_pending_command := None\<rparr>) = Inr x'"
    using assms(2) by (simp add: projected_order_def)
  from live_order_init_same [OF init] have x': "x' = pj_order i\<lparr>lo_state := ACCEPTED, lo_version := lo_version (pj_order i) + 1,
      lo_updated_at := oo_observed_at (pj_observation i), lo_accepted_at := Some (oo_observed_at (pj_observation i)),
      lo_pending_command := None\<rparr>" .
  from init have valid: "live_order_init x' = Inr x'" by (simp add: x')
  have ok: "local_reasons (pj_order i) = []" "correlated_opens (at_broker a) (order_id (pj_order i)) = [pj_observation i]"
    "match_reasons (pj_order i) (pj_observation i) (ls_as_of (at_local a)) = []"
    "correlated_fills (at_broker a) (order_id (pj_order i)) = []"
    using assms(1) x(2) by (simp_all add: projectable_ok_def)
  show ?thesis
    unfolding confirms_def
    using x(1) x' valid local_reasons_Nil [OF ok(1)] match_reasons_Nil [OF ok(3)] ok(2,4) by blast
qed

section \<open>The example\<close>

definition unknown_order :: live_order where
  "unknown_order =
     recon_order\<lparr>lo_state := SUBMISSION_UNKNOWN, lo_filled_quantity := Dec 0 0, lo_remaining_quantity := Dec 3 0,
       lo_average_fill_price := None, lo_accepted_at := None,
       lo_pending_command := Some
         \<lparr>pb_command = NewOrderCommand \<lparr>nw_client_command_id = ''n1'', nw_intent = lo_intent recon_order, nw_requested_at = 2\<rparr>,
          pb_payload_fingerprint = ''0''\<rparr>\<rparr>"

definition unknown_local :: local_snapshot where
  "unknown_local =
     \<lparr>ls_account_id = ''a'', ls_orders = [unknown_order], ls_fills = [], ls_position_attributions = [], ls_as_of = 5,
      ls_recovery_blockers = [], ls_journal_sequence = 7\<rparr>"

definition unknown_broker :: reconciliation_snapshot where
  "unknown_broker =
     \<lparr>sb_snapshot_id = ''n1'', sb_account_id = ''a'',
      sb_open_orders = \<lparr>os_orders =
          [\<lparr>oo_observation_id = ''o1'', oo_account_id = ''a'', oo_instrument_id = ''TXF'', oo_side = BUY,
            oo_working_total_quantity = Dec 3 0, oo_working_remaining_quantity = Dec 30 (-1),
            oo_working_limit_price = Some (Dec 100 0), oo_correlation = recon_correlation None, oo_observed_at = 6\<rparr>],
        os_evidence = recon_evidence OPEN_ORDERS\<rparr>,
      sb_fills_seen = \<lparr>fs_fills = [], fs_evidence = recon_evidence FILLS\<rparr>,
      sb_positions_seen = \<lparr>ps_positions = [], ps_evidence = recon_evidence POSITIONS\<rparr>, sb_captured_at = 6\<rparr>"

lemma unknown_projected:
  "returns (assess_reconciliation recon_hashes unknown_local unknown_broker 8)
     (\<lambda>a. returns (project_authoritative_orders recon_hashes a)
       (\<lambda>p. may_commit p \<and> map order_id (pp_projected_orders p) = [''c1''] \<and> pp_expected_journal_sequence p = 7))"
  by code_simp

lemma unknown_valid:
  "returns (local_snapshot_init unknown_local) (\<lambda>x. True)" "returns (reconciliation_snapshot_init unknown_broker) (\<lambda>x. True)"
  "returns (live_order_init unknown_order) (\<lambda>x. True)" "returns (live_order_intent_init (lo_intent unknown_order)) (\<lambda>x. True)"
  by code_simp+

section \<open>Safety\<close>

lemma project_commits:
  assumes "project_authoritative_orders h a = Inr p" and "may_commit p"
  shows "is_authoritative (at_result a) \<and> ps_reasons (projections a) = []
    \<and> ready_plan a (ps_projectable (projections a)) = Inr p"
  using assms
  by (auto simp: project_authoritative_orders_def may_commit_def err_simps Let_def projections_def
      dest!: base_plan_Inr split: if_splits)

text \<open>C23: projections are conservative. A plan that may be committed rests on authoritative evidence, consumes
  every discrepancy of the assessment, and each of its orders is a distinct local order of unknown outcome
  that the broker lists exactly once, confirmed, unfilled and on the same terms: it becomes ACCEPTED at the
  time of the observation, with the next version and nothing else changed.\<close>

theorem projection_is_conservative:
  assumes "project_authoritative_orders h a = Inr p" and "may_commit p"
  shows "is_authoritative (at_result a)
    \<and> mset (pp_consumed_discrepancy_ids p) = mset (map di_discrepancy_id (rr_discrepancies (at_result a)))
    \<and> (\<forall>x'\<in>set (pp_projected_orders p). \<exists>x\<in>set (ls_orders (at_local a)). \<exists>o1. confirms a x o1 x')
    \<and> distinct (map order_id (pp_projected_orders p))"
proof -
  let ?items = "ps_projectable (projections a)"
  from project_commits [OF assms] have run: "is_authoritative (at_result a)" "ps_reasons (projections a) = []"
    "ready_plan a ?items = Inr p" by simp_all
  note orders = ready_plan_orders [OF run(3)]
  have inv: "list_all (projectable_ok a) ?items" "distinct (map pj_client_order_id ?items)"
    "map pj_discrepancy_id ?items = map di_discrepancy_id (rr_discrepancies (at_result a))"
    using projections_inv [of a] run(2) by (simp_all add: projection_inv_def)
  have "mset (pp_consumed_discrepancy_ids p) = mset (map di_discrepancy_id (rr_discrepancies (at_result a)))"
    using orders inv(3) by simp
  moreover have each: "list_all2 (\<lambda>i x'. pj_order i \<in> set (ls_orders (at_local a))
      \<and> confirms a (pj_order i) (pj_observation i) x' \<and> order_id x' = pj_client_order_id i)
      (sort_key pj_client_order_id ?items) (pp_projected_orders p)"
  proof (rule list.rel_mono_strong [OF conjunct1 [OF orders]])
    fix i x'
    assume i: "i \<in> set (sort_key pj_client_order_id ?items)" and "x' \<in> set (pp_projected_orders p)" and x': "projected_order (pj_order i) (pj_observation i) = Inr x'"
    from i inv(1) have ok: "projectable_ok a i" by (simp add: list_all_iff)
    from projectable_confirms [OF this x'] have conf: "pj_order i \<in> set (ls_orders (at_local a))"
      "confirms a (pj_order i) (pj_observation i) x'" by simp_all
    moreover have "order_id x' = pj_client_order_id i"
      using conf(2) ok by (auto simp: confirms_def projectable_ok_def local_orders_def order_id_def dest: index_by_Some)
    ultimately show "pj_order i \<in> set (ls_orders (at_local a))
      \<and> confirms a (pj_order i) (pj_observation i) x' \<and> order_id x' = pj_client_order_id i" by blast
  qed
  then have "\<forall>x'\<in>set (pp_projected_orders p). \<exists>x\<in>set (ls_orders (at_local a)). \<exists>o1. confirms a x o1 x'"
    by (fastforce simp: list_all2_conv_all_nth in_set_conv_nth)
  moreover from each have "map order_id (pp_projected_orders p) = map pj_client_order_id (sort_key pj_client_order_id ?items)"
    by (auto simp: list_all2_conv_all_nth intro: nth_equalityI)
  then have "distinct (map order_id (pp_projected_orders p))"
    using inv(2) by (simp add: distinct_map)
  ultimately show ?thesis using run(1) by blast
qed

lemma projection_is_conservative_witness:
  "\<exists>a p. project_authoritative_orders recon_hashes a = Inr p \<and> is_authoritative (at_result a)
     \<and> (\<exists>x\<in>set (ls_orders (at_local a)). \<exists>o1 x'. confirms a x o1 x' \<and> order_id x' = ''c1'')"
proof -
  obtain a p where a: "project_authoritative_orders recon_hashes a = Inr p" "may_commit p"
    "map order_id (pp_projected_orders p) = [''c1'']"
    using unknown_projected by (auto elim!: returnsE)
  from projection_is_conservative [OF a(1,2)] a show ?thesis by fastforce
qed

section \<open>Planning returns\<close>

lemma efold_checks: "(\<And>x. x \<in> set xs \<Longrightarrow> f x () = Inr ()) \<Longrightarrow> efold f xs () = Inr ()"
  by (induction xs) simp_all

lemma reason_value_inject: "projection_reason_value a = projection_reason_value b \<longleftrightarrow> a = b"
  by (cases a; cases b; simp)

lemma plan_identifier_ok: "identifier_ok v \<Longrightarrow> plan_identifier name v = Inr ()"
  by (simp add: plan_identifier_def)

definition plan_bases_ok :: "assessment \<Rightarrow> bool" where
  "plan_bases_ok a \<longleftrightarrow>
     identifier_ok (ls_account_id (at_local a)) \<and> identifier_ok (sb_snapshot_id (at_broker a))
     \<and> 0 \<le> ls_journal_sequence (at_local a)"

lemma base_plan_total:
  assumes "plan_bases_ok a" and "\<And>u. u \<in> set us \<Longrightarrow> identifier_ok u"
    and "d = PLAN_NO_CHANGE \<and> rs = [] \<and> us = [] \<or> d = NOT_AUTHORITATIVE \<and> rs \<noteq> [] \<and> us = [] \<or> d = UNSUPPORTED \<and> rs \<noteq> []"
  shows "\<exists>p. base_plan a d rs us = Inr p"
proof -
  have "efold (\<lambda>u _. plan_identifier ''discrepancy_id'' u) (sort (remdups us)) () = Inr ()"
    by (rule efold_checks) (simp add: plan_identifier_ok assms(2))
  moreover have "distinct (map projection_reason_value (sorted_reasons rs))"
    by (simp add: sorted_reasons_def distinct_map inj_on_def reason_value_inject)
  moreover have "sorted (map projection_reason_value (sorted_reasons rs))" by (simp add: sorted_reasons_def)
  moreover have "sorted_reasons rs = [] \<longleftrightarrow> rs = []"
    by (metis sorted_reasons_def set_sort set_remdups set_empty)
  moreover have "sort (remdups us) = [] \<longleftrightarrow> us = []" by (metis set_sort set_remdups set_empty)
  ultimately show ?thesis
    using assms(1,3)
    by (auto simp: base_plan_def projection_plan_init_def plan_groups_def plan_disposition_ok_def plan_identifier_ok
        plan_bases_ok_def plan_nonnegative_def dkeys_def)
qed

definition constructed_orders :: "local_snapshot \<Rightarrow> bool" where
  "constructed_orders l \<longleftrightarrow>
     (\<forall>x\<in>set (ls_orders l). live_order_init x = Inr x \<and> live_order_intent_init (lo_intent x) = Inr (lo_intent x)
        \<and> li_account_id (lo_intent x) = ls_account_id l)"

definition confirmed_order :: "live_order \<Rightarrow> open_order_observation \<Rightarrow> live_order" where
  "confirmed_order x o1 =
     x\<lparr>lo_state := ACCEPTED, lo_version := lo_version x + 1, lo_updated_at := oo_observed_at o1,
       lo_accepted_at := Some (oo_observed_at o1), lo_pending_command := None\<rparr>"

lemma projected_order_total:
  assumes "live_order_init x = Inr x" and "local_reasons x = []"
  shows "projected_order x o1 = Inr (confirmed_order x o1)"
  using assms(1) local_reasons_Nil [OF assms(2)]
  by (auto simp: projected_order_def confirmed_order_def live_order_init_def err_simps live_order_binding_ok_def
      live_order_quantities_ok_def binding_required_def Let_def)

lemma ready_plan_total:
  assumes bases: "plan_bases_ok a" and orders: "constructed_orders (at_local a)"
    and items: "items \<noteq> []" "list_all (projectable_ok a) items" "distinct (map pj_client_order_id items)"
    and ids: "distinct (map pj_discrepancy_id items)" "\<And>i. i \<in> set items \<Longrightarrow> identifier_ok (pj_discrepancy_id i)"
  shows "\<exists>p. ready_plan a items = Inr p"
proof -
  let ?s = "sort_key pj_client_order_id items"
  let ?v = "\<lambda>i. \<lparr>ev_client_order_id = pj_client_order_id i, ev_version = lo_version (pj_order i)\<rparr>"
  let ?x = "\<lambda>i. confirmed_order (pj_order i) (pj_observation i)"
  have item: "pj_order i \<in> set (ls_orders (at_local a)) \<and> order_id (pj_order i) = pj_client_order_id i
      \<and> local_reasons (pj_order i) = []" if "i \<in> set ?s" for i
    using that items(2) by (auto simp: list_all_iff projectable_ok_def local_orders_def dest: index_by_Some)
  have valid: "live_order_init (pj_order i) = Inr (pj_order i) \<and> identifier_ok (pj_client_order_id i)
      \<and> li_account_id (lo_intent (pj_order i)) = ls_account_id (at_local a) \<and> 1 \<le> lo_version (pj_order i)"
    if "i \<in> set ?s" for i
    using item [OF that] orders
    by (auto simp: constructed_orders_def live_order_intent_init_def live_order_init_def live_identifier_def order_id_def err_simps)
  have versions: "efold (\<lambda>p vs. ebind (expected_order_version_init (?v p)) (\<lambda>v. Inr (vs @ [v]))) ?s [] = Inr (map ?v ?s)"
    using efold_collect_total [of ?s "\<lambda>p. expected_order_version_init (?v p)" ?v "[]"] valid
    by (simp add: expected_order_version_init_def plan_identifier_ok commit_positive_def)
  have projected: "efold (\<lambda>p xs. ebind (projected_order (pj_order p) (pj_observation p)) (\<lambda>x. Inr (xs @ [x]))) ?s []
      = Inr (map ?x ?s)"
    using efold_collect_total [of ?s "\<lambda>p. projected_order (pj_order p) (pj_observation p)" ?x "[]"] valid item
    by (simp add: projected_order_total)
  have x: "order_id (?x i) = pj_client_order_id i" "li_account_id (lo_intent (?x i)) = ls_account_id (at_local a)"
    "lo_version (?x i) = lo_version (pj_order i) + 1" if "i \<in> set ?s" for i
    using item [OF that] valid [OF that] by (simp_all add: confirmed_order_def order_id_def)
  have names: "map order_id (map ?x ?s) = map pj_client_order_id ?s" "distinct (map pj_client_order_id ?s)"
    using x items(3) by (simp_all add: distinct_map)
  define expected where "expected = fold (\<lambda>v. dset (ev_client_order_id v) (ev_version v)) (map ?v ?s) []"
  have expected: "dget expected j = map_option (\<lambda>v. ev_version v) (find (\<lambda>v. ev_client_order_id v = j) (map ?v ?s))" for j
    unfolding expected_def using names(2)
    by (subst dget_fold_dset) (auto simp: comp_def split: option.splits)
  have known: "dget expected (pj_client_order_id i) = Some (lo_version (pj_order i))" if "i \<in> set ?s" for i
    using find_unique [of ev_client_order_id "map ?v ?s" "?v i"] that names(2) by (simp add: expected comp_def)
  have keys: "set (dkeys expected) = set (map order_id (map ?x ?s))"
  proof -
    have "j \<in> set (map pj_client_order_id ?s)" if "dget expected j \<noteq> None" for j
      using that by (auto simp: expected find_None_iff)
    with known show ?thesis unfolding names(1) set_dkeys by fastforce
  qed
  have consumed: "distinct (sort (map pj_discrepancy_id ?s))" "sort (map pj_discrepancy_id ?s) \<noteq> []"
    "efold (\<lambda>u _. plan_identifier ''discrepancy_id'' u) (sort (map pj_discrepancy_id ?s)) () = Inr ()"
    using ids items(1) by (auto simp: distinct_map plan_identifier_ok intro!: efold_checks) (metis list.map_disc_iff set_empty set_sort)
  define vs where "vs = map ?v ?s"
  define os where "os = map ?x ?s"
  have "\<exists>p. projection_plan_init
       \<lparr>pp_account_id = ls_account_id (at_local a), pp_snapshot_id = sb_snapshot_id (at_broker a),
        pp_expected_journal_sequence = ls_journal_sequence (at_local a), pp_disposition = PLAN_READY,
        pp_expected_order_versions = vs, pp_projected_orders = os,
        pp_consumed_discrepancy_ids = sort (map pj_discrepancy_id ?s),
        pp_unsupported_discrepancy_ids = [], pp_reasons = []\<rparr> = Inr p"
  proof -
    have "list_all (\<lambda>x. \<forall>v\<in>set (option_list (dget expected (order_id x))). lo_version x = v + 1) os"
      "list_all (\<lambda>x. li_account_id (lo_intent x) = ls_account_id (at_local a)) os"
      using x known by (auto simp: os_def list_all_iff option_list_def)
    moreover have "map order_id os = map pj_client_order_id ?s" "map ev_client_order_id vs = map pj_client_order_id ?s"
      using x by (simp_all add: os_def vs_def)
    moreover have "os \<noteq> []" "vs \<noteq> []" using items(1) by (simp_all add: os_def vs_def) (metis set_empty set_sort)+
    moreover have "set (dkeys expected) = set (map order_id os)" using keys by (simp only: os_def)
    moreover have "fold (\<lambda>v. dset (ev_client_order_id v) (ev_version v)) vs [] = expected" by (simp only: expected_def vs_def)
    ultimately show ?thesis
      using bases consumed names(2) unfolding projection_plan_init_def Let_def plan_disposition_ok_def plan_groups_def
      by (simp add: plan_identifier_ok plan_bases_ok_def plan_nonnegative_def)
  qed
  with versions projected show ?thesis by (simp add: ready_plan_def Let_def vs_def os_def)
qed

end
