(* ===== verification/Projection_Returns.thy ===== *)
theory Projection_Returns
  imports Projection_Theorems
begin

text \<open>
  Planning returns: for an assessment of valid snapshots every branch of the planner passes its own
  constructors' checks.
\<close>

section \<open>The discrepancies of an assessment\<close>

definition discrepancies_ok :: "(string, discrepancy) dict \<Rightarrow> bool" where
  "discrepancies_ok d \<longleftrightarrow>
     dict_ok d \<and> (\<forall>k y. dget d k = Some y \<longrightarrow> di_discrepancy_id y = k \<and> identifier_ok k)"

lemma discrepancies_ok_add:
  assumes "discrepancies_ok d" and "add_discrepancy h a t f d = Inr d'"
  shows "discrepancies_ok d'"
proof -
  from assms(2) obtain y where y: "make_discrepancy h a t f = Inr y" "d' = dset (di_discrepancy_id y) y d"
    unfolding add_Inr by blast
  have "identifier_ok (di_discrepancy_id y)"
    using y(1) by (auto simp: make_discrepancy_def discrepancy_init_def live_identifier_def err_simps split: prod.splits)
  with assms(1) y(2) show ?thesis by (simp add: discrepancies_ok_def)
qed

lemma discrepancy_values:
  assumes "discrepancies_ok d"
  shows "distinct (map di_discrepancy_id (dvalues d)) \<and> (\<forall>y\<in>set (dvalues d). identifier_ok (di_discrepancy_id y))"
proof -
  have "map di_discrepancy_id (dvalues d) = dkeys d"
    using assms by (auto simp: discrepancies_ok_def dvalues_def dkeys_def dget_def dict_ok_def)
  moreover have "distinct (dkeys d)" using assms by (simp add: discrepancies_ok_def dict_ok_def dkeys_def)
  ultimately show ?thesis using assms by (auto simp: discrepancies_ok_def set_dvalues)
qed

lemma assess_facts:
  assumes "assess_reconciliation h l b t = Inr a"
  shows "at_local a = l" and "at_broker a = b" and "rr_reconciled_at (at_result a) = t"
    and "distinct (map di_discrepancy_id (rr_discrepancies (at_result a)))"
    and "d \<in> set (rr_discrepancies (at_result a)) \<Longrightarrow> identifier_ok (di_discrepancy_id d)"
proof -
  from assms obtain found expected found' r where
    run: "efold (add_discrepancy h (ls_account_id l) t) (snapshot_findings l b) [] = Inr found"
      "efold (add_discrepancy h (ls_account_id l) t) (position_findings expected b) found = Inr found'"
      "reconciliation_result_init
         \<lparr>rr_account_id = ls_account_id l, rr_status = assessed_status l b,
          rr_discrepancies = sort_key discrepancy_sort_key (dvalues found'),
          rr_evidence = snapshot_evidence b, rr_reconciled_at = t\<rparr> = Inr r"
      "assessment_init \<lparr>at_local = l, at_broker = b, at_result = r\<rparr> = Inr a"
    unfolding assess_reconciliation_def Let_def ebind_eq_Inr require_eq_Inr by blast
  have a: "a = \<lparr>at_local = l, at_broker = b, at_result = r\<rparr>" using run(4) by (auto simp: assessment_init_def err_simps)
  have r: "rr_discrepancies r = sort_key discrepancy_sort_key (dvalues found')" "rr_reconciled_at r = t"
    using run(3) by (auto simp: reconciliation_result_init_def err_simps)
  have add: "discrepancies_ok u \<Longrightarrow> efold (add_discrepancy h (ls_account_id l) t) fs u = Inr v \<Longrightarrow> discrepancies_ok v" for fs u v
    by (rule efold_invariant [where I = discrepancies_ok]) (auto intro: discrepancies_ok_add)
  have "discrepancies_ok ([] :: (string, discrepancy) dict)" by (simp add: discrepancies_ok_def dget_def)
  from discrepancy_values [OF add [OF add [OF this run(1)] run(2)]]
  have ok: "distinct (map di_discrepancy_id (dvalues found'))" "\<forall>y\<in>set (dvalues found'). identifier_ok (di_discrepancy_id y)"
    by simp_all
  show "at_local a = l" "at_broker a = b" "rr_reconciled_at (at_result a) = t" by (simp_all add: a r)
  show "distinct (map di_discrepancy_id (rr_discrepancies (at_result a)))"
    using ok(1) by (simp add: a r distinct_map)
  show "identifier_ok (di_discrepancy_id d)" if "d \<in> set (rr_discrepancies (at_result a))"
    using ok(2) that by (simp add: a r)
qed

lemma base_plan_disposition: "\<exists>p. base_plan a d rs us = Inr p \<Longrightarrow> \<exists>p. base_plan a d rs us = Inr p \<and> pp_disposition p = d"
  using base_plan_Inr by blast

lemma local_snapshot_bases:
  "local_snapshot_init l = Inr l' \<Longrightarrow> identifier_ok (ls_account_id l) \<and> 0 \<le> ls_journal_sequence l"
  unfolding local_snapshot_init_def Let_def ebind_eq_Inr require_eq_Inr port_identifier_def by blast

lemma reconciliation_snapshot_bases: "reconciliation_snapshot_init b = Inr b' \<Longrightarrow> identifier_ok (sb_snapshot_id b)"
  unfolding reconciliation_snapshot_init_def Let_def ebind_eq_Inr require_eq_Inr port_identifier_def by blast

lemma reconciliation_snapshot_init_same: "reconciliation_snapshot_init b = Inr b' \<Longrightarrow> b' = b"
  unfolding reconciliation_snapshot_init_def Let_def ebind_eq_Inr require_eq_Inr by auto

lemma live_order_intent_init_same: "live_order_intent_init i = Inr i' \<Longrightarrow> i' = i"
  unfolding live_order_intent_init_def Let_def ebind_eq_Inr require_eq_Inr by (auto simp: err_simps)

lemma same_result_refl [simp]: "same_result r r"
  by (simp add: same_result_def same_discrepancy_def list_all2_refl)

lemma unknown_inits:
  "local_snapshot_init unknown_local = Inr unknown_local" "reconciliation_snapshot_init unknown_broker = Inr unknown_broker"
  "constructed_orders unknown_local"
proof -
  show "local_snapshot_init unknown_local = Inr unknown_local"
    using unknown_valid(1) local_snapshot_init_Inr by (metis returnsE)
  show "reconciliation_snapshot_init unknown_broker = Inr unknown_broker"
    using unknown_valid(2) reconciliation_snapshot_init_same by (metis returnsE)
  have "live_order_init unknown_order = Inr unknown_order" using unknown_valid(3) live_order_init_same by (metis returnsE)
  moreover have "live_order_intent_init (lo_intent unknown_order) = Inr (lo_intent unknown_order)"
    using unknown_valid(4) live_order_intent_init_same by (metis returnsE)
  ultimately show "constructed_orders unknown_local"
    by (simp add: constructed_orders_def unknown_local_def unknown_order_def recon_order_def)
qed

text \<open>Planning returns. For an assessment of valid snapshots the planner never raises: it makes a plan, the
  plan is \<open>PLAN_NO_CHANGE\<close> exactly when trading may resume, and \<open>NOT_AUTHORITATIVE\<close> exactly when the evidence is.\<close>

theorem projection_returns:
  assumes "local_snapshot_init l = Inr l" and "reconciliation_snapshot_init b = Inr b" and "constructed_orders l"
    and "assess_reconciliation h l b t = Inr a"
  shows "\<exists>p. project_authoritative_orders h a = Inr p
    \<and> (pp_disposition p = PLAN_NO_CHANGE \<longleftrightarrow> may_resume a)
    \<and> (pp_disposition p = NOT_AUTHORITATIVE \<longleftrightarrow> \<not> is_authoritative (at_result a))"
proof -
  note a = assess_facts [OF assms(4)]
  have bases: "plan_bases_ok a"
    using local_snapshot_bases [OF assms(1)] reconciliation_snapshot_bases [OF assms(2)] by (simp add: plan_bases_ok_def a)
  let ?d = "rr_discrepancies (at_result a)" and ?s = "projections a"
  have inv: "projection_inv a ?d ?s" by (rule projections_inv)
  have step: "project_authoritative_orders h a =
      (if \<not> is_authoritative (at_result a) then base_plan a NOT_AUTHORITATIVE (authority_reasons a) []
       else if ?d = []
       then if ls_recovery_blockers (at_local a) \<noteq> [] then base_plan a UNSUPPORTED [UNSUPPORTED_DISCREPANCY] []
            else base_plan a PLAN_NO_CHANGE [] []
       else if ps_reasons ?s \<noteq> [] then base_plan a UNSUPPORTED (ps_reasons ?s) (ps_unsupported ?s)
            else ready_plan a (ps_projectable ?s))"
    using assms(4) by (simp add: project_authoritative_orders_def a projections_def Let_def)
  have none: "\<exists>p. base_plan a NOT_AUTHORITATIVE (authority_reasons a) [] = Inr p"
    "\<exists>p. base_plan a UNSUPPORTED [UNSUPPORTED_DISCREPANCY] [] = Inr p" "\<exists>p. base_plan a PLAN_NO_CHANGE [] [] = Inr p"
    by (rule base_plan_total [OF bases]; simp add: authority_reasons_def)+
  have unsupported: "\<exists>p. base_plan a UNSUPPORTED (ps_reasons ?s) (ps_unsupported ?s) = Inr p" if "ps_reasons ?s \<noteq> []"
    by (rule base_plan_total [OF bases]) (use inv a(5) that in \<open>auto simp: projection_inv_def\<close>)
  have ready: "\<exists>p. ready_plan a (ps_projectable ?s) = Inr p" if "ps_reasons ?s = []" and some: "?d \<noteq> []"
  proof (rule ready_plan_total [OF bases])
    have ids: "map pj_discrepancy_id (ps_projectable ?s) = map di_discrepancy_id ?d"
      using inv that(1) by (simp add: projection_inv_def)
    show "ps_projectable ?s \<noteq> []" using ids some by (metis list.map_disc_iff)
    show "distinct (map pj_discrepancy_id (ps_projectable ?s))" by (simp only: ids a(4))
    show "identifier_ok (pj_discrepancy_id i)" if "i \<in> set (ps_projectable ?s)" for i
      using that arg_cong [OF ids, of set] a(5) by (metis (no_types, lifting) image_eqI imageE set_map)
    show "constructed_orders (at_local a)" by (simp only: a assms(3))
  qed (use inv in \<open>simp_all add: projection_inv_def\<close>)
  show ?thesis
    unfolding step may_resume_def
    using none [THEN base_plan_disposition] unsupported [THEN base_plan_disposition] ready ready_plan_orders
    by (auto split: if_splits) 
qed

lemma projection_returns_witness:
  "\<exists>a p. assess_reconciliation recon_hashes unknown_local unknown_broker 8 = Inr a
     \<and> project_authoritative_orders recon_hashes a = Inr p \<and> pp_disposition p \<noteq> NOT_AUTHORITATIVE"
proof -
  obtain a p where a: "assess_reconciliation recon_hashes unknown_local unknown_broker 8 = Inr a"
    "project_authoritative_orders recon_hashes a = Inr p" "may_commit p"
    using unknown_projected by (auto elim!: returnsE)
  from projection_returns [OF unknown_inits(1,2,3) a(1)] a show ?thesis by (auto simp: may_commit_def)
qed

end
