(* ===== verification/Replay_Contracts.thy ===== *)
theory Replay_Contracts
  imports Market_Models
begin

text \<open>
  \<open>replay/contracts.py\<close>, the integrity report of \<open>market_data/ports.py\<close>, and \<open>replay/sqlite_source.py\<close>,
  which prepares a recorded session for replay. A float is a rational or not finite; the arithmetic of
  delays is that of the rationals, without rounding.
\<close>

section \<open>States and failures\<close>

datatype replay_state = READY | RUNNING | PAUSED | STOPPED | COMPLETED | FAILED
datatype replay_mode = FASTEST | PACED

datatype replay_failure_code =
    SESSION_NOT_FOUND | SESSION_NOT_COMPLETE | SCHEMA_MISMATCH | EMPTY_SESSION | INTEGRITY_FAILED
  | CURSOR_OUT_OF_RANGE | SOURCE_FAILED | SINK_FAILED | TIMER_FAILED | INTERNAL_FAILED

definition replay_terminal :: "replay_state \<Rightarrow> bool" where
  "replay_terminal s \<longleftrightarrow> s \<in> {STOPPED, COMPLETED, FAILED}"

text \<open>The text of a \<open>ReplayError\<close>: it depends on the code alone.\<close>

fun replay_failure_message :: "replay_failure_code \<Rightarrow> string" where
  "replay_failure_message SESSION_NOT_FOUND = ''replay session was not found''"
| "replay_failure_message SESSION_NOT_COMPLETE = ''replay session is not complete''"
| "replay_failure_message SCHEMA_MISMATCH = ''replay session schema is unsupported''"
| "replay_failure_message EMPTY_SESSION = ''replay session contains no events''"
| "replay_failure_message INTEGRITY_FAILED = ''replay session failed integrity validation''"
| "replay_failure_message CURSOR_OUT_OF_RANGE = ''replay cursor is outside the session''"
| "replay_failure_message SOURCE_FAILED = ''replay source failed''"
| "replay_failure_message SINK_FAILED = ''replay sink failed''"
| "replay_failure_message TIMER_FAILED = ''replay timer failed''"
| "replay_failure_message INTERNAL_FAILED = ''replay runtime failed''"

definition replay_nonnegative :: "string \<Rightarrow> int \<Rightarrow> unit result" where
  "replay_nonnegative name v = require (0 \<le> v) (ValueError (name @ '' must be non-negative''))"

definition replay_nonempty :: "string \<Rightarrow> string \<Rightarrow> unit result" where
  "replay_nonempty name v = require (strip v \<noteq> []) (ValueError (name @ '' must not be empty''))"

section \<open>Options, descriptors and snapshots\<close>

datatype pyfloat = Finite rat | Infinite | NaN

record replay_options =
  ro_mode :: replay_mode
  ro_speed :: pyfloat
  ro_after_ingest_sequence :: "int option"

definition replay_options_init :: "replay_options \<Rightarrow> replay_options result" where
  "replay_options_init r =
     ethen (require (case ro_speed r of Finite v \<Rightarrow> 0 < v | _ \<Rightarrow> False)
              (ValueError ''speed must be finite and positive'')) (
     ethen (optionally (replay_nonnegative ''after_ingest_sequence'') (ro_after_ingest_sequence r))
     (Inr r))"

record replay_descriptor =
  rd_session_id :: uuid
  rd_status :: string
  rd_schema_version :: int
  rd_event_count :: int
  rd_first_ingest_sequence :: int
  rd_last_ingest_sequence :: int

definition replay_descriptor_init :: "replay_descriptor \<Rightarrow> replay_descriptor result" where
  "replay_descriptor_init d =
     ethen (replay_nonempty ''status'' (rd_status d)) (
     ethen (require (1 \<le> rd_schema_version d) (ValueError ''schema_version must be at least 1'')) (
     ethen (require (1 \<le> rd_event_count d) (ValueError ''event_count must be positive'')) (
     ethen (replay_nonnegative ''first_ingest_sequence'' (rd_first_ingest_sequence d)) (
     ethen (replay_nonnegative ''last_ingest_sequence'' (rd_last_ingest_sequence d)) (
     ethen (require (rd_first_ingest_sequence d \<le> rd_last_ingest_sequence d)
              (ValueError ''first_ingest_sequence must not exceed last''))
     (Inr d))))))"

record replay_snapshot =
  rs_state :: replay_state
  rs_session_id :: uuid
  rs_cursor :: "int option"
  rs_emitted_count :: int
  rs_failure_code :: "replay_failure_code option"

definition replay_snapshot_init :: "replay_snapshot \<Rightarrow> replay_snapshot result" where
  "replay_snapshot_init s =
     ethen (optionally (replay_nonnegative ''cursor'') (rs_cursor s)) (
     ethen (replay_nonnegative ''emitted_count'' (rs_emitted_count s)) (
     ethen (if rs_state s = FAILED
            then require (rs_failure_code s \<noteq> None) (ValueError ''failed snapshots require a failure_code'')
            else require (rs_failure_code s = None) (ValueError ''only failed snapshots may have a failure_code''))
     (Inr s)))"

record readback_report =
  rb_session_id :: uuid
  rb_event_count :: int
  rb_first_ingest_sequence :: "int option"
  rb_last_ingest_sequence :: "int option"
  rb_is_valid :: bool
  rb_errors :: "string list"

definition readback_report_init :: "readback_report \<Rightarrow> readback_report result" where
  "readback_report_init r =
     ethen (replay_nonnegative ''event_count'' (rb_event_count r)) (
     ethen (optionally (replay_nonnegative ''first_ingest_sequence'') (rb_first_ingest_sequence r)) (
     ethen (optionally (replay_nonnegative ''last_ingest_sequence'') (rb_last_ingest_sequence r)) (
     ethen (if rb_event_count r = 0
            then require (rb_first_ingest_sequence r = None \<and> rb_last_ingest_sequence r = None)
                   (ValueError ''empty reports must not have sequence bounds'')
            else (case (rb_first_ingest_sequence r, rb_last_ingest_sequence r) of
                    (Some lo, Some hi) \<Rightarrow>
                      require (lo \<le> hi) (ValueError ''first_ingest_sequence must not exceed last'')
                  | _ \<Rightarrow> Inl (ValueError ''non-empty reports require sequence bounds''))) (
     ethen (efold (\<lambda>e _. replay_nonempty ''error'' e) (rb_errors r) ()) (
     ethen (require (rb_is_valid r = (rb_errors r = []))
              (ValueError ''is_valid must match whether errors are absent''))
     (Inr r))))))"

section \<open>Preparing a recorded session\<close>

text \<open>What the repository keeps of a session, and the source that reads one.\<close>

record stored_session =
  ss_session_id :: uuid
  ss_schema_version :: int
  ss_source :: string
  ss_source_mode :: source_mode
  ss_status :: string
  ss_last_ingest_sequence :: int

text \<open>A stream is what an iterator yields before it stops, normally or with an exception.\<close>

record event_stream =
  st_events :: "envelope list"
  st_error :: "pyexn option"

text \<open>
  A source as the runtime sees it. It may answer the calls of \<open>iter_events\<close> differently: the first
  argument of \<open>iter_events_at\<close> counts them.
\<close>

record replay_source =
  open_session :: "uuid \<Rightarrow> unit result"
  verify_integrity :: "readback_report result"
  iter_events_at :: "nat \<Rightarrow> int option \<Rightarrow> event_stream result"

text \<open>A preparation fails with a \<open>ReplayError\<close>, or with what the constructor of the descriptor raises.\<close>

datatype preparation_error = ReplayError replay_failure_code | DescriptorError pyexn

definition prepare_sqlite_replay_source ::
  "(uuid \<Rightarrow> stored_session option result) \<Rightarrow> replay_source \<Rightarrow> uuid
   \<Rightarrow> preparation_error + replay_source \<times> replay_descriptor" where
  "prepare_sqlite_replay_source get_session source session_id =
     (case get_session session_id of
        Inl _ \<Rightarrow> Inl (ReplayError SOURCE_FAILED)
      | Inr None \<Rightarrow> Inl (ReplayError SESSION_NOT_FOUND)
      | Inr (Some s) \<Rightarrow>
          if ss_status s \<noteq> ''complete'' then Inl (ReplayError SESSION_NOT_COMPLETE)
          else if ss_schema_version s \<noteq> 1 then Inl (ReplayError SCHEMA_MISMATCH)
          else (case open_session source session_id of
            Inl _ \<Rightarrow> Inl (ReplayError SOURCE_FAILED)
          | Inr _ \<Rightarrow>
              (case verify_integrity source of
                 Inl _ \<Rightarrow> Inl (ReplayError INTEGRITY_FAILED)
               | Inr r \<Rightarrow>
                   if \<not> rb_is_valid r then Inl (ReplayError INTEGRITY_FAILED)
                   else if rb_event_count r = 0 then Inl (ReplayError EMPTY_SESSION)
                   else (case (rb_first_ingest_sequence r, rb_last_ingest_sequence r) of
                     (Some lo, Some hi) \<Rightarrow>
                       (case replay_descriptor_init
                               \<lparr>rd_session_id = ss_session_id s, rd_status = ss_status s,
                                rd_schema_version = ss_schema_version s, rd_event_count = rb_event_count r,
                                rd_first_ingest_sequence = lo, rd_last_ingest_sequence = hi\<rparr> of
                          Inl e \<Rightarrow> Inl (DescriptorError e)
                        | Inr d \<Rightarrow> Inr (source, d))
                   | _ \<Rightarrow> Inl (ReplayError INTEGRITY_FAILED)))))"

end
