(* ===== verification/Replay_Runtime.thy ===== *)
theory Replay_Runtime
  imports Replay_Contracts
begin

text \<open>
  \<open>replay/runtime.py\<close>: \<open>ReplayRuntime\<close>, a worker that publishes one session and controls that other
  threads, or the sink itself, call at any time. What runs under the condition's lock is one function;
  the worker's program counter is its phase, and each worker function is the code from one point where
  other threads may run to the next. A wait on the condition is a phase that is left when its predicate
  holds.
\<close>

section \<open>State\<close>

record replay_config =
  rc_source :: replay_source
  rc_descriptor :: replay_descriptor
  rc_options :: replay_options

text \<open>Where the worker goes on after a control point: the next event, a pause before an event, its publication.\<close>

datatype resume_point = Fetch | Delay envelope rat | Publish envelope

text \<open>
  \<open>Controls k\<close> is about to acknowledge the controls and \<open>At k\<close> has done so; \<open>Suspended k\<close> waits for a
  resume; \<open>Sleeping\<close> is in the timer and \<open>Publishing\<close> in the sink.
\<close>

datatype worker_phase =
    Idle | Opening | Controls resume_point | Suspended resume_point | At resume_point
  | Sleeping envelope rat | Publishing envelope | Ended

text \<open>
  The fields of the runtime, the local variables of \<open>_publish_all\<close>, whether \<open>run\<close> or \<open>start\<close> began it, and
  the envelopes the sink was given.
\<close>

record replay =
  rp_state :: replay_state
  rp_cursor :: "int option"
  rp_emitted_count :: int
  rp_expected_emitted_count :: int
  rp_failure_code :: "replay_failure_code option"
  rp_pause_requested :: bool
  rp_stop_requested :: bool
  rp_wake_event :: bool
  rp_phase :: worker_phase
  rp_iterator :: event_stream
  rp_anchor :: "instant option"
  rp_previous_sequence :: "int option"
  rp_synchronous :: bool
  rp_published :: "envelope list"

definition validate_session :: "replay_descriptor \<Rightarrow> replay_options \<Rightarrow> replay_failure_code + unit" where
  "validate_session d r =
     ethen (require (rd_status d = ''complete'') SESSION_NOT_COMPLETE) (
     ethen (require (rd_schema_version d = 1) SCHEMA_MISMATCH)
     (require (case ro_after_ingest_sequence r of None \<Rightarrow> True | Some c \<Rightarrow> c \<le> rd_last_ingest_sequence d)
        CURSOR_OUT_OF_RANGE))"

definition new_replay :: "replay_config \<Rightarrow> replay_failure_code + replay" where
  "new_replay cfg =
     ethen (validate_session (rc_descriptor cfg) (rc_options cfg))
     (Inr \<lparr>rp_state = READY, rp_cursor = ro_after_ingest_sequence (rc_options cfg), rp_emitted_count = 0,
           rp_expected_emitted_count = 0, rp_failure_code = None, rp_pause_requested = False,
           rp_stop_requested = False, rp_wake_event = False, rp_phase = Idle,
           rp_iterator = \<lparr>st_events = [], st_error = None\<rparr>, rp_anchor = None, rp_previous_sequence = None,
           rp_synchronous = False, rp_published = []\<rparr>)"

definition snapshot :: "replay_config \<Rightarrow> replay \<Rightarrow> replay_snapshot result" where
  "snapshot cfg s =
     replay_snapshot_init
       \<lparr>rs_state = rp_state s, rs_session_id = rd_session_id (rc_descriptor cfg), rs_cursor = rp_cursor s,
        rs_emitted_count = rp_emitted_count s, rs_failure_code = rp_failure_code s\<rparr>"

section \<open>Controls\<close>

definition start :: "bool \<Rightarrow> replay \<Rightarrow> replay \<times> unit result" where
  "start synchronous s =
     (if rp_state s \<noteq> READY then (s, Inl (RuntimeError ''replay runtime is single-use''))
      else (s\<lparr>rp_state := RUNNING, rp_phase := Opening, rp_synchronous := synchronous\<rparr>, Inr ()))"

text \<open>A call from another thread then waits until the state is not \<open>RUNNING\<close>.\<close>

definition pause :: "replay \<Rightarrow> replay \<times> unit result" where
  "pause s =
     (if rp_state s = PAUSED then (s, Inr ())
      else if rp_state s \<noteq> RUNNING then (s, Inl (RuntimeError ''replay runtime is not running''))
      else (s\<lparr>rp_pause_requested := True, rp_wake_event := True\<rparr>, Inr ()))"

definition pause_answered :: "replay \<Rightarrow> bool" where
  "pause_answered s \<longleftrightarrow> rp_state s \<noteq> RUNNING"

definition resume :: "replay \<Rightarrow> replay \<times> unit result" where
  "resume s =
     (if rp_state s = RUNNING \<and> \<not> rp_pause_requested s then (s, Inr ())
      else if rp_state s \<noteq> PAUSED then (s, Inl (RuntimeError ''replay runtime is not paused''))
      else (s\<lparr>rp_pause_requested := False, rp_state := RUNNING, rp_wake_event := True\<rparr>, Inr ()))"

text \<open>A call from another thread then joins the worker.\<close>

definition stop :: "replay \<Rightarrow> replay" where
  "stop s =
     (if replay_terminal (rp_state s) then s
      else if rp_state s = READY then s\<lparr>rp_stop_requested := True, rp_state := STOPPED\<rparr>
      else s\<lparr>rp_stop_requested := True, rp_pause_requested := False, rp_wake_event := True\<rparr>)"

text \<open>An exception that is not an \<open>Exception\<close> leaves \<open>run\<close>, as when the user interrupts the program.\<close>

definition interrupted :: "replay \<Rightarrow> replay" where
  "interrupted s =
     (if replay_terminal (rp_state s) then s\<lparr>rp_phase := Ended\<rparr>
      else s\<lparr>rp_stop_requested := True, rp_state := STOPPED, rp_phase := Ended\<rparr>)"

section \<open>The worker\<close>

definition fail :: "replay_failure_code \<Rightarrow> replay \<Rightarrow> replay" where
  "fail code s =
     (if replay_terminal (rp_state s) then s\<lparr>rp_phase := Ended\<rparr>
      else s\<lparr>rp_state := FAILED, rp_failure_code := Some code, rp_phase := Ended\<rparr>)"

definition acknowledge_controls :: "resume_point \<Rightarrow> replay \<Rightarrow> replay" where
  "acknowledge_controls k s =
     (if rp_stop_requested s then s\<lparr>rp_state := STOPPED, rp_phase := Ended\<rparr>
      else if rp_pause_requested s then s\<lparr>rp_state := PAUSED, rp_phase := Suspended k\<rparr>
      else s\<lparr>rp_phase := At k\<rparr>)"

definition suspension_over :: "replay \<Rightarrow> bool" where
  "suspension_over s \<longleftrightarrow> \<not> rp_pause_requested s \<or> rp_stop_requested s"

definition leave_suspension :: "resume_point \<Rightarrow> replay \<Rightarrow> replay" where
  "leave_suspension k s =
     (if rp_stop_requested s then s\<lparr>rp_state := STOPPED, rp_phase := Ended\<rparr>
      else s\<lparr>rp_state := RUNNING, rp_phase := At k\<rparr>)"

text \<open>\<open>_prepare_expected_count\<close>: the variables \<open>last\<close> and \<open>previous\<close> are always equal.\<close>

record plan_count =
  pc_count :: int
  pc_expected :: int
  pc_first :: "int option"
  pc_last :: "int option"

definition count_event :: "replay_config \<Rightarrow> envelope \<Rightarrow> plan_count \<Rightarrow> replay_failure_code + plan_count" where
  "count_event cfg e c =
     (if en_session_id e \<noteq> rd_session_id (rc_descriptor cfg)
         \<or> (case pc_last c of None \<Rightarrow> False | Some p \<Rightarrow> en_ingest_sequence e \<le> p)
      then Inl INTEGRITY_FAILED
      else Inr \<lparr>pc_count = pc_count c + 1,
                pc_expected = pc_expected c
                  + (case ro_after_ingest_sequence (rc_options cfg) of
                       None \<Rightarrow> 1 | Some a \<Rightarrow> if a < en_ingest_sequence e then 1 else 0),
                pc_first = (if pc_first c = None then Some (en_ingest_sequence e) else pc_first c),
                pc_last = Some (en_ingest_sequence e)\<rparr>)"

definition prepare_expected_count :: "replay_config \<Rightarrow> replay_failure_code + int" where
  "prepare_expected_count cfg =
     (case iter_events_at (rc_source cfg) 0 None of
        Inl _ \<Rightarrow> Inl SOURCE_FAILED
      | Inr plan \<Rightarrow>
          ebind (efold (count_event cfg) (st_events plan)
                   \<lparr>pc_count = 0, pc_expected = 0, pc_first = None, pc_last = None\<rparr>) (\<lambda>c.
          ethen (require (st_error plan = None) SOURCE_FAILED) (
          ethen (require (pc_count c = rd_event_count (rc_descriptor cfg)
                          \<and> pc_first c = Some (rd_first_ingest_sequence (rc_descriptor cfg))
                          \<and> pc_last c = Some (rd_last_ingest_sequence (rc_descriptor cfg))) INTEGRITY_FAILED)
          (Inr (pc_expected c)))))"

definition report_matches :: "replay_descriptor \<Rightarrow> readback_report \<Rightarrow> bool" where
  "report_matches d r \<longleftrightarrow>
     rb_is_valid r \<and> rb_session_id r = rd_session_id d \<and> rb_event_count r = rd_event_count d
     \<and> rb_first_ingest_sequence r = Some (rd_first_ingest_sequence d)
     \<and> rb_last_ingest_sequence r = Some (rd_last_ingest_sequence d)"

definition open_source :: "replay_config \<Rightarrow> replay_failure_code + int \<times> event_stream" where
  "open_source cfg =
     (let d = rc_descriptor cfg; src = rc_source cfg in
      case open_session src (rd_session_id d) of
        Inl _ \<Rightarrow> Inl SOURCE_FAILED
      | Inr _ \<Rightarrow>
          (case verify_integrity src of
             Inl _ \<Rightarrow> Inl INTEGRITY_FAILED
           | Inr r \<Rightarrow>
               ethen (require (report_matches d r) INTEGRITY_FAILED) (
               ebind (prepare_expected_count cfg) (\<lambda>expected.
               case iter_events_at src 1 (ro_after_ingest_sequence (rc_options cfg)) of
                 Inl _ \<Rightarrow> Inl SOURCE_FAILED
               | Inr stream \<Rightarrow> Inr (expected, stream)))))"

definition opened :: "replay_config \<Rightarrow> replay \<Rightarrow> replay" where
  "opened cfg s =
     (case open_source cfg of
        Inl code \<Rightarrow> fail code s
      | Inr (expected, stream) \<Rightarrow>
          s\<lparr>rp_expected_emitted_count := expected, rp_iterator := stream, rp_anchor := None,
            rp_previous_sequence := ro_after_ingest_sequence (rc_options cfg), rp_phase := Controls Fetch\<rparr>)"

definition finish_or_fail :: "replay_config \<Rightarrow> replay \<Rightarrow> replay" where
  "finish_or_fail cfg s =
     (if rp_stop_requested s then s\<lparr>rp_state := STOPPED, rp_phase := Ended\<rparr>
      else if rp_cursor s \<noteq> Some (rd_last_ingest_sequence (rc_descriptor cfg))
              \<or> rp_emitted_count s \<noteq> rp_expected_emitted_count s
      then s\<lparr>rp_state := FAILED, rp_failure_code := Some INTEGRITY_FAILED, rp_phase := Ended\<rparr>
      else s\<lparr>rp_state := COMPLETED, rp_phase := Ended\<rparr>)"

definition event_misplaced :: "replay_config \<Rightarrow> int option \<Rightarrow> envelope \<Rightarrow> bool" where
  "event_misplaced cfg previous e \<longleftrightarrow>
     en_session_id e \<noteq> rd_session_id (rc_descriptor cfg)
     \<or> en_ingest_sequence e < rd_first_ingest_sequence (rc_descriptor cfg)
     \<or> rd_last_ingest_sequence (rc_descriptor cfg) < en_ingest_sequence e
     \<or> (case previous of None \<Rightarrow> False | Some p \<Rightarrow> en_ingest_sequence e \<le> p)"

text \<open>Instants are microseconds; a speed that is not finite never gets past the options.\<close>

definition pacing_delay :: "replay_options \<Rightarrow> instant option \<Rightarrow> envelope \<Rightarrow> rat" where
  "pacing_delay r anchor e =
     (case (ro_mode r, anchor, en_event_at e, ro_speed r) of
        (PACED, Some a, Some t, Finite v) \<Rightarrow> max 0 (of_int (t - a) / 1000000) / v
      | _ \<Rightarrow> 0)"

definition fetched :: "replay_config \<Rightarrow> replay \<Rightarrow> replay" where
  "fetched cfg s =
     (case st_events (rp_iterator s) of
        [] \<Rightarrow> if st_error (rp_iterator s) = None then finish_or_fail cfg s else fail SOURCE_FAILED s
      | e # es \<Rightarrow>
          let rest = s\<lparr>rp_iterator := (rp_iterator s)\<lparr>st_events := es\<rparr>\<rparr>;
              delay = pacing_delay (rc_options cfg) (rp_anchor s) e in
          if event_misplaced cfg (rp_previous_sequence s) e then fail SOURCE_FAILED rest
          else rest\<lparr>rp_phase := Controls (if 0 < delay then Delay e delay else Publish e)\<rparr>)"

definition begin_delay :: "envelope \<Rightarrow> rat \<Rightarrow> replay \<Rightarrow> replay" where
  "begin_delay e remaining s =
     s\<lparr>rp_wake_event := False,
       rp_phase := (if rp_stop_requested s \<or> rp_pause_requested s then Controls (Delay e remaining)
                    else Sleeping e remaining)\<rparr>"

text \<open>How a call of the sink or the timer ends: \<open>Woken d\<close> is a timer interrupted after \<open>d\<close> seconds.\<close>

datatype call_outcome = Returned | Raised | Woken rat

definition slept :: "envelope \<Rightarrow> rat \<Rightarrow> call_outcome \<Rightarrow> replay \<Rightarrow> replay" where
  "slept e remaining r s =
     (case r of
        Raised \<Rightarrow> fail TIMER_FAILED s
      | Returned \<Rightarrow> s\<lparr>rp_phase := Controls (Publish e)\<rparr>
      | Woken elapsed \<Rightarrow>
          let left = max 0 (remaining - max 0 elapsed)
          in s\<lparr>rp_phase := Controls (if 0 < left then Delay e left else Publish e)\<rparr>)"

definition begin_publish :: "envelope \<Rightarrow> replay \<Rightarrow> replay" where
  "begin_publish e s = s\<lparr>rp_phase := Publishing e, rp_published := rp_published s @ [e]\<rparr>"

definition published :: "envelope \<Rightarrow> call_outcome \<Rightarrow> replay \<Rightarrow> replay" where
  "published e r s =
     (if r = Raised then fail SINK_FAILED s
      else s\<lparr>rp_cursor := Some (en_ingest_sequence e), rp_emitted_count := rp_emitted_count s + 1,
             rp_previous_sequence := Some (en_ingest_sequence e),
             rp_anchor := (case en_event_at e of None \<Rightarrow> rp_anchor s | Some t \<Rightarrow> Some t),
             rp_phase := Controls Fetch\<rparr>)"

definition worker_step :: "replay_config \<Rightarrow> call_outcome \<Rightarrow> replay \<Rightarrow> replay option" where
  "worker_step cfg r s =
     (case rp_phase s of
        Idle \<Rightarrow> None
      | Opening \<Rightarrow> Some (opened cfg s)
      | Controls k \<Rightarrow> Some (acknowledge_controls k s)
      | Suspended k \<Rightarrow> if suspension_over s then Some (leave_suspension k s) else None
      | At Fetch \<Rightarrow> Some (fetched cfg s)
      | At (Delay e remaining) \<Rightarrow> Some (begin_delay e remaining s)
      | At (Publish e) \<Rightarrow> Some (begin_publish e s)
      | Sleeping e remaining \<Rightarrow> Some (slept e remaining r s)
      | Publishing e \<Rightarrow> Some (published e r s)
      | Ended \<Rightarrow> None)"

section \<open>Runs\<close>

datatype replay_act = Start bool | Pause | Resume | Stop | Interrupt | Work call_outcome

text \<open>The controls are called at any time, by any thread, the worker of a synchronous run included.\<close>

inductive replay_step :: "replay_config \<Rightarrow> replay_act \<Rightarrow> replay \<Rightarrow> replay \<Rightarrow> bool" for cfg where
  step_start: "replay_step cfg (Start b) s (fst (start b s))"
| step_pause: "replay_step cfg Pause s (fst (pause s))"
| step_resume: "replay_step cfg Resume s (fst (resume s))"
| step_stop: "replay_step cfg Stop s (stop s)"
| step_interrupt: "rp_synchronous s \<Longrightarrow> rp_phase s \<noteq> Idle \<Longrightarrow> rp_phase s \<noteq> Ended \<Longrightarrow> replay_step cfg Interrupt s (interrupted s)"
| step_work: "worker_step cfg r s = Some t \<Longrightarrow> replay_step cfg (Work r) s t"

inductive replay_run :: "replay_config \<Rightarrow> replay_act list \<Rightarrow> replay \<Rightarrow> replay \<Rightarrow> bool" for cfg where
  run_nil: "replay_run cfg [] s s"
| run_cons: "replay_step cfg a s t \<Longrightarrow> replay_run cfg as t u \<Longrightarrow> replay_run cfg (a # as) s u"

inductive_cases replay_runE: "replay_run cfg as s t"

end
