(* ===== verification/Replay_Proofs.thy ===== *)
theory Replay_Proofs
  imports Replay_Runtime
begin

text \<open>
  The invariant of replay: what was published is an ordered prefix of the source's events, the cursor and
  the count agree with it, and the state agrees with the phase of the worker.
\<close>

section \<open>Order\<close>

definition after_cursor :: "replay_config \<Rightarrow> int option" where
  "after_cursor cfg = ro_after_ingest_sequence (rc_options cfg)"

definition in_order :: "replay_config \<Rightarrow> envelope list \<Rightarrow> bool" where
  "in_order cfg es \<longleftrightarrow>
     sorted_wrt (\<lambda>a b. en_ingest_sequence a < en_ingest_sequence b) es
     \<and> (\<forall>e\<in>set es. \<not> event_misplaced cfg (after_cursor cfg) e)"

definition last_sequence :: "int option \<Rightarrow> envelope list \<Rightarrow> int option" where
  "last_sequence a es = (if es = [] then a else Some (en_ingest_sequence (last es)))"

lemma in_order_Nil [simp]: "in_order cfg []"
  by (simp add: in_order_def)

lemma in_order_snoc:
  assumes "in_order cfg es" and "\<not> event_misplaced cfg (last_sequence (after_cursor cfg) es) e"
  shows "in_order cfg (es @ [e])"
proof (cases es rule: rev_cases)
  case Nil
  with assms show ?thesis by (simp add: in_order_def last_sequence_def)
next
  case (snoc xs x)
  have "en_ingest_sequence x < en_ingest_sequence e" using assms(2) snoc by (simp add: event_misplaced_def last_sequence_def)
  moreover have "\<not> event_misplaced cfg (after_cursor cfg) e"
    using assms snoc by (auto simp: event_misplaced_def last_sequence_def in_order_def split: option.splits)
  ultimately show ?thesis using assms(1) snoc by (auto simp: in_order_def sorted_wrt_append)
qed

section \<open>The invariant\<close>

fun point_pending :: "resume_point \<Rightarrow> envelope list" where
  "point_pending Fetch = []"
| "point_pending (Delay e _) = [e]"
| "point_pending (Publish e) = [e]"

text \<open>The event the worker holds and has not given to the sink.\<close>

fun pending :: "worker_phase \<Rightarrow> envelope list" where
  "pending (Controls k) = point_pending k"
| "pending (Suspended k) = point_pending k"
| "pending (At k) = point_pending k"
| "pending (Sleeping e _) = [e]"
| "pending _ = []"

definition reading :: "worker_phase \<Rightarrow> bool" where
  "reading p \<longleftrightarrow> p \<noteq> Idle \<and> p \<noteq> Opening \<and> p \<noteq> Ended"

definition event_source :: "replay_config \<Rightarrow> event_stream" where
  "event_source cfg =
     (case open_source cfg of Inl _ \<Rightarrow> \<lparr>st_events = [], st_error = None\<rparr> | Inr (_, stream) \<Rightarrow> stream)"

definition log_ok :: "replay \<Rightarrow> bool" where
  "log_ok s \<longleftrightarrow>
     (case rp_phase s of
        Publishing e \<Rightarrow> \<exists>es. rp_published s = es @ [e] \<and> rp_emitted_count s = int (length es)
      | Ended \<Rightarrow> 0 \<le> rp_emitted_count s
          \<and> (rp_emitted_count s = int (length (rp_published s))
               \<or> rp_emitted_count s + 1 = int (length (rp_published s)))
      | _ \<Rightarrow> rp_emitted_count s = int (length (rp_published s)))"

definition cursor_ok :: "replay_config \<Rightarrow> replay \<Rightarrow> bool" where
  "cursor_ok cfg s \<longleftrightarrow>
     rp_cursor s = last_sequence (after_cursor cfg) (take (nat (rp_emitted_count s)) (rp_published s))"

definition reading_ok :: "replay_config \<Rightarrow> replay \<Rightarrow> bool" where
  "reading_ok cfg s \<longleftrightarrow>
     (if reading (rp_phase s)
      then open_source cfg = Inr (rp_expected_emitted_count s, event_source cfg)
        \<and> st_events (event_source cfg) = rp_published s @ pending (rp_phase s) @ st_events (rp_iterator s)
        \<and> st_error (rp_iterator s) = st_error (event_source cfg) \<and> rp_previous_sequence s = rp_cursor s
      else prefix (rp_published s) (st_events (event_source cfg))
        \<and> (rp_phase s = Idle \<or> rp_phase s = Opening \<longrightarrow> rp_published s = []))"

definition state_ok :: "replay \<Rightarrow> bool" where
  "state_ok s \<longleftrightarrow>
     (case rp_phase s of
        Idle \<Rightarrow> rp_state s = STOPPED \<or> rp_state s = READY \<and> \<not> rp_stop_requested s \<and> \<not> rp_pause_requested s
      | Suspended k \<Rightarrow> rp_state s = RUNNING \<or> rp_state s = PAUSED \<and> (rp_pause_requested s \<or> rp_stop_requested s)
      | Ended \<Rightarrow> replay_terminal (rp_state s)
      | _ \<Rightarrow> rp_state s = RUNNING)
     \<and> (rp_failure_code s \<noteq> None \<longleftrightarrow> rp_state s = FAILED)"

definition completed_ok :: "replay_config \<Rightarrow> replay \<Rightarrow> bool" where
  "completed_ok cfg s \<longleftrightarrow>
     (rp_state s = COMPLETED \<longrightarrow>
        open_source cfg = Inr (int (length (rp_published s)), event_source cfg)
        \<and> rp_published s = st_events (event_source cfg) \<and> st_error (event_source cfg) = None
        \<and> rp_emitted_count s = int (length (rp_published s))
        \<and> rp_cursor s = Some (rd_last_ingest_sequence (rc_descriptor cfg)))"

definition replay_ok :: "replay_config \<Rightarrow> replay \<Rightarrow> bool" where
  "replay_ok cfg s \<longleftrightarrow>
     log_ok s \<and> cursor_ok cfg s \<and> in_order cfg (rp_published s @ pending (rp_phase s)) \<and> reading_ok cfg s
     \<and> state_ok s \<and> completed_ok cfg s"

lemmas replay_ok_defs = replay_ok_def log_ok_def cursor_ok_def reading_ok_def state_ok_def completed_ok_def reading_def

lemma terminal_simps [simp]:
  "replay_terminal STOPPED" "replay_terminal COMPLETED" "replay_terminal FAILED"
  "\<not> replay_terminal READY" "\<not> replay_terminal RUNNING" "\<not> replay_terminal PAUSED"
  by (simp_all add: replay_terminal_def)

lemma take_published [simp]: "take (nat (int (length xs))) xs = xs"
  by simp

section \<open>Every step keeps it\<close>

text \<open>A control changes the state and the requests, and leaves the worker where it is.\<close>

definition same_progress :: "replay \<Rightarrow> replay \<Rightarrow> bool" where
  "same_progress s t \<longleftrightarrow>
     rp_cursor t = rp_cursor s \<and> rp_emitted_count t = rp_emitted_count s
     \<and> rp_expected_emitted_count t = rp_expected_emitted_count s \<and> rp_phase t = rp_phase s
     \<and> rp_iterator t = rp_iterator s \<and> rp_previous_sequence t = rp_previous_sequence s
     \<and> rp_published t = rp_published s"

lemma same_progress_ok:
  assumes "replay_ok cfg s" and "same_progress s t" and "state_ok t" and "rp_state t = COMPLETED \<Longrightarrow> rp_state s = COMPLETED"
  shows "replay_ok cfg t"
proof -
  have same: "rp_cursor t = rp_cursor s" "rp_emitted_count t = rp_emitted_count s"
    "rp_expected_emitted_count t = rp_expected_emitted_count s" "rp_phase t = rp_phase s"
    "rp_iterator t = rp_iterator s" "rp_previous_sequence t = rp_previous_sequence s"
    "rp_published t = rp_published s"
    using assms(2) by (simp_all add: same_progress_def)
  have "log_ok t" "cursor_ok cfg t" "in_order cfg (rp_published t @ pending (rp_phase t))" "reading_ok cfg t"
    using assms(1) unfolding replay_ok_def log_ok_def cursor_ok_def reading_ok_def same by blast+
  moreover have "completed_ok cfg t"
    using assms(1,4) unfolding replay_ok_def completed_ok_def same by blast
  ultimately show ?thesis using assms(3) by (simp add: replay_ok_def)
qed

lemma new_replay_ok: "new_replay cfg = Inr s \<Longrightarrow> replay_ok cfg s"
  by (auto simp: new_replay_def err_simps replay_ok_defs in_order_def last_sequence_def after_cursor_def)

lemma start_ok:
  assumes "replay_ok cfg s"
  shows "replay_ok cfg (fst (start b s))"
proof (cases "rp_state s = READY")
  case True
  with assms have idle: "rp_phase s = Idle"
    by (auto simp: replay_ok_def state_ok_def split: worker_phase.splits)
  then show ?thesis using assms True
    by (simp add: start_def replay_ok_def log_ok_def cursor_ok_def reading_ok_def state_ok_def completed_ok_def reading_def)
qed (use assms in \<open>simp add: start_def\<close>)

lemma pause_ok:
  assumes "replay_ok cfg s"
  shows "replay_ok cfg (fst (pause s))"
proof (rule same_progress_ok [OF assms])
  have "state_ok s" using assms by (simp add: replay_ok_def)
  then show "state_ok (fst (pause s))"
    by (cases "rp_phase s") (auto simp: pause_def state_ok_def)
qed (simp_all add: pause_def same_progress_def split: if_splits)

lemma resume_ok:
  assumes "replay_ok cfg s"
  shows "replay_ok cfg (fst (resume s))"
proof (rule same_progress_ok [OF assms])
  have "state_ok s" using assms by (simp add: replay_ok_def)
  then show "state_ok (fst (resume s))"
    by (cases "rp_phase s") (auto simp: resume_def state_ok_def)
qed (simp_all add: resume_def same_progress_def split: if_splits)

lemma stop_ok:
  assumes "replay_ok cfg s"
  shows "replay_ok cfg (stop s)"
proof (rule same_progress_ok [OF assms])
  have "state_ok s" using assms by (simp add: replay_ok_def)
  then show "state_ok (stop s)"
    by (cases "rp_phase s") (auto simp: stop_def state_ok_def)
qed (simp_all add: stop_def same_progress_def split: if_splits)

text \<open>Every way to end: the phase becomes \<open>Ended\<close>, what was published stays.\<close>

lemma published_prefix: "replay_ok cfg s \<Longrightarrow> prefix (rp_published s) (st_events (event_source cfg))"
  by (auto simp: replay_ok_def reading_ok_def split: if_splits)

lemma published_in_order: "replay_ok cfg s \<Longrightarrow> in_order cfg (rp_published s)"
  by (auto simp: replay_ok_def in_order_def sorted_wrt_append)

lemma ended_log: "log_ok s \<Longrightarrow> log_ok (s\<lparr>rp_state := x, rp_failure_code := c, rp_phase := Ended\<rparr>)"
  by (cases "rp_phase s") (auto simp: log_ok_def)

definition ends :: "replay_state \<Rightarrow> replay_failure_code option \<Rightarrow> replay \<Rightarrow> replay" where
  "ends x c s = s\<lparr>rp_state := x, rp_failure_code := c, rp_phase := Ended\<rparr>"

lemma ends_ok:
  assumes "replay_ok cfg s" and "x = STOPPED \<and> c = None \<or> x = FAILED \<and> c \<noteq> None"
  shows "replay_ok cfg (ends x c s)"
proof -
  have "log_ok (ends x c s)" using assms(1) ended_log by (simp add: ends_def replay_ok_def)
  moreover have "cursor_ok cfg (ends x c s)" using assms(1) by (simp add: ends_def replay_ok_def cursor_ok_def)
  moreover have "in_order cfg (rp_published s)" "prefix (rp_published s) (st_events (event_source cfg))"
    using published_in_order [OF assms(1)] published_prefix [OF assms(1)] by simp_all
  ultimately show ?thesis
    using assms(2) by (auto simp: ends_def replay_ok_def reading_ok_def reading_def state_ok_def completed_ok_def)
qed

text \<open>The state of a worker that is not waiting, and how it ends.\<close>

lemma active_state:
  assumes "replay_ok cfg s" and "rp_phase s \<noteq> Idle" and "rp_phase s \<noteq> Ended"
  shows "\<not> replay_terminal (rp_state s)" and "rp_failure_code s = None"
  using assms by (cases "rp_phase s"; auto simp: replay_ok_def state_ok_def)+

lemma ending_simps:
  assumes "replay_ok cfg s" and "rp_phase s \<noteq> Idle" and "rp_phase s \<noteq> Ended"
  shows "fail code s = ends FAILED (Some code) s" "interrupted s = ends STOPPED None (s\<lparr>rp_stop_requested := True\<rparr>)"
    "s\<lparr>rp_state := STOPPED, rp_phase := Ended\<rparr> = ends STOPPED None s"
  using active_state [OF assms] by (simp_all add: fail_def interrupted_def ends_def)

lemma request_ok:
  assumes "replay_ok cfg s" and "rp_phase s \<noteq> Idle"
  shows "replay_ok cfg (s\<lparr>rp_stop_requested := b \<or> rp_stop_requested s, rp_wake_event := w\<rparr>)"
proof (rule same_progress_ok [OF assms(1)])
  have "state_ok s" using assms(1) by (simp add: replay_ok_def)
  then show "state_ok (s\<lparr>rp_stop_requested := b \<or> rp_stop_requested s, rp_wake_event := w\<rparr>)"
    using assms(2) by (cases "rp_phase s") (auto simp: state_ok_def)
qed (simp_all add: same_progress_def)

lemma interrupted_ok:
  assumes "replay_ok cfg s" and "rp_phase s \<noteq> Idle" and "rp_phase s \<noteq> Ended"
  shows "replay_ok cfg (interrupted s)"
  unfolding ending_simps(2) [OF assms]
  using ends_ok [OF request_ok [OF assms(1,2), where b = True and w = "rp_wake_event s"], of STOPPED None] by simp

text \<open>Moving on: a new phase between two events, or with the same event, keeps everything else.\<close>

definition moves :: "replay_state \<Rightarrow> worker_phase \<Rightarrow> replay \<Rightarrow> replay" where
  "moves x p s = s\<lparr>rp_state := x, rp_phase := p\<rparr>"

lemma moves_ok:
  assumes ok: "replay_ok cfg s" and "reading (rp_phase s)" and "reading p"
    and "pending p = pending (rp_phase s)" and "\<And>e. rp_phase s \<noteq> Publishing e" and "\<And>e. p \<noteq> Publishing e"
    and x: "x = RUNNING \<or> x = PAUSED \<and> (\<exists>k. p = Suspended k) \<and> (rp_pause_requested s \<or> rp_stop_requested s)"
  shows "replay_ok cfg (moves x p s)"
proof -
  have "log_ok s" using ok by (simp add: replay_ok_def)
  then have "rp_emitted_count s = int (length (rp_published s))"
    using assms(2,5) by (cases "rp_phase s") (auto simp: log_ok_def reading_def)
  then have "log_ok (moves x p s)" using assms(3,6) by (cases p) (auto simp: log_ok_def moves_def reading_def)
  moreover have "cursor_ok cfg (moves x p s)" using ok by (simp add: replay_ok_def cursor_ok_def moves_def)
  moreover have "in_order cfg (rp_published (moves x p s) @ pending (rp_phase (moves x p s)))"
    using ok assms(4) by (simp add: replay_ok_def moves_def)
  moreover have "reading_ok cfg (moves x p s)"
    using ok assms(2-4) by (simp add: replay_ok_def reading_ok_def moves_def)
  moreover have "rp_failure_code s = None" using active_state(2) [OF ok] assms(2) by (simp add: reading_def)
  then have "state_ok (moves x p s)" using x assms(3) by (cases p) (auto simp: state_ok_def moves_def reading_def)
  moreover have "completed_ok cfg (moves x p s)" using x by (auto simp: completed_ok_def moves_def)
  ultimately show ?thesis by (simp add: replay_ok_def)
qed

section \<open>The worker keeps it\<close>

lemma running: "replay_ok cfg s \<Longrightarrow> rp_phase s \<noteq> Idle \<Longrightarrow> rp_phase s \<noteq> Ended \<Longrightarrow> (\<And>k. rp_phase s \<noteq> Suspended k) \<Longrightarrow> rp_state s = RUNNING"
  by (cases "rp_phase s") (auto simp: replay_ok_def state_ok_def)

lemma opened_ok:
  assumes ok: "replay_ok cfg s" and p: "rp_phase s = Opening"
  shows "replay_ok cfg (opened cfg s)"
proof (cases "open_source cfg")
  case (Inl code)
  then show ?thesis using ending_simps(1) [OF ok] ends_ok [OF ok] p by (simp add: opened_def)
next
  case (Inr x)
  then obtain expected stream where x: "open_source cfg = Inr (expected, stream)" by (cases x) simp
  have "rp_failure_code s = None" using active_state(2) [OF ok] p by simp
  moreover have "rp_published s = []" "rp_emitted_count s = 0" "rp_state s = RUNNING"
    using ok p by (simp_all add: replay_ok_def reading_ok_def reading_def log_ok_def state_ok_def)
  moreover from this have "rp_cursor s = after_cursor cfg" using ok by (simp add: replay_ok_def cursor_ok_def last_sequence_def)
  ultimately show ?thesis using x
    by (simp add: opened_def replay_ok_def log_ok_def cursor_ok_def reading_ok_def reading_def state_ok_def
        completed_ok_def event_source_def last_sequence_def after_cursor_def)
qed

lemma acknowledge_ok:
  assumes ok: "replay_ok cfg s" and p: "rp_phase s = Controls k"
  shows "replay_ok cfg (acknowledge_controls k s)"
proof -
  have "s\<lparr>rp_phase := At k\<rparr> = moves RUNNING (At k) s"
    using running [OF ok] p by (simp add: moves_def)
  moreover have "s\<lparr>rp_state := PAUSED, rp_phase := Suspended k\<rparr> = moves PAUSED (Suspended k) s"
    by (simp add: moves_def)
  ultimately show ?thesis
    using ends_ok [OF ok] ending_simps(3) [OF ok] moves_ok [OF ok] p
    by (simp add: acknowledge_controls_def reading_def)
qed

lemma leave_suspension_ok:
  assumes ok: "replay_ok cfg s" and p: "rp_phase s = Suspended k"
  shows "replay_ok cfg (leave_suspension k s)"
proof -
  have "s\<lparr>rp_state := RUNNING, rp_phase := At k\<rparr> = moves RUNNING (At k) s" by (simp add: moves_def)
  then show ?thesis
    using ends_ok [OF ok] ending_simps(3) [OF ok] moves_ok [OF ok] p
    by (simp add: leave_suspension_def reading_def)
qed

lemma begin_delay_ok:
  assumes ok: "replay_ok cfg s" and p: "rp_phase s = At (Delay e r)"
  shows "replay_ok cfg (begin_delay e r s)"
proof -
  let ?t = "s\<lparr>rp_wake_event := False\<rparr>"
  have t: "replay_ok cfg ?t" using request_ok [OF ok, where b = False and w = False] p by simp
  moreover have "rp_state ?t = RUNNING" using running [OF ok] p by simp
  then have "begin_delay e r s = moves RUNNING (if rp_stop_requested s \<or> rp_pause_requested s then Controls (Delay e r) else Sleeping e r) ?t"
    by (simp add: begin_delay_def moves_def)
  ultimately show ?thesis using p by (auto intro!: moves_ok simp: reading_def)
qed

lemma slept_ok:
  assumes ok: "replay_ok cfg s" and p: "rp_phase s = Sleeping e r"
  shows "replay_ok cfg (slept e r out s)"
proof -
  have run: "rp_state s = RUNNING" using running [OF ok] p by simp
  have move: "replay_ok cfg (s\<lparr>rp_phase := Controls k\<rparr>)" if "point_pending k = [e]" for k
  proof -
    have "s\<lparr>rp_phase := Controls k\<rparr> = moves RUNNING (Controls k) s" using run by (simp add: moves_def)
    then show ?thesis using moves_ok [OF ok] p that by (simp add: reading_def)
  qed
  show ?thesis
    using ends_ok [OF ok] ending_simps(1) [OF ok] p move
    by (cases out) (simp_all add: slept_def Let_def)
qed

lemma begin_publish_ok:
  assumes ok: "replay_ok cfg s" and p: "rp_phase s = At (Publish e)"
  shows "replay_ok cfg (begin_publish e s)"
  using ok p running [OF ok] active_state(2) [OF ok]
  by (simp add: begin_publish_def replay_ok_def log_ok_def cursor_ok_def reading_ok_def reading_def state_ok_def completed_ok_def)

lemma published_ok:
  assumes ok: "replay_ok cfg s" and p: "rp_phase s = Publishing e"
  shows "replay_ok cfg (published e out s)"
proof (cases "out = Raised")
  case True
  then show ?thesis using ending_simps(1) [OF ok] ends_ok [OF ok] p by (simp add: published_def)
next
  case False
  from ok p obtain es where es: "rp_published s = es @ [e]" "rp_emitted_count s = int (length es)"
    by (auto simp: replay_ok_def log_ok_def)
  have "nat (rp_emitted_count s + 1) = length (rp_published s)" using es by simp
  with False show ?thesis
    using ok p running [OF ok] active_state(2) [OF ok] es
    by (simp add: published_def replay_ok_def log_ok_def cursor_ok_def reading_ok_def reading_def state_ok_def
        completed_ok_def last_sequence_def)
qed

lemma fetched_ok:
  assumes ok: "replay_ok cfg s" and p: "rp_phase s = At Fetch"
  shows "replay_ok cfg (fetched cfg s)"
proof (cases "st_events (rp_iterator s)")
  case Nil
  have all: "rp_published s = st_events (event_source cfg)" "st_error (rp_iterator s) = st_error (event_source cfg)"
    "open_source cfg = Inr (rp_expected_emitted_count s, event_source cfg)"
    "rp_emitted_count s = int (length (rp_published s))"
    using ok p Nil by (simp_all add: replay_ok_def reading_ok_def reading_def log_ok_def)
  have "replay_ok cfg (s\<lparr>rp_state := COMPLETED, rp_phase := Ended\<rparr>)"
    if "rp_cursor s = Some (rd_last_ingest_sequence (rc_descriptor cfg))" "st_error (rp_iterator s) = None"
      "rp_emitted_count s = rp_expected_emitted_count s"
  proof -
    have "completed_ok cfg (s\<lparr>rp_state := COMPLETED, rp_phase := Ended\<rparr>)"
      using all that unfolding completed_ok_def by simp
    moreover have "prefix (rp_published s) (st_events (event_source cfg))" using all(1) by simp
    moreover have "in_order cfg (rp_published s)" by (rule published_in_order [OF ok])
    moreover have "rp_failure_code s = None" using active_state(2) [OF ok] p by simp
    moreover have "cursor_ok cfg (s\<lparr>rp_state := COMPLETED, rp_phase := Ended\<rparr>)"
      using ok by (simp add: replay_ok_def cursor_ok_def)
    moreover have "log_ok (s\<lparr>rp_state := COMPLETED, rp_phase := Ended\<rparr>)" using all(4) by (simp add: log_ok_def)
    ultimately show ?thesis by (simp add: replay_ok_def reading_ok_def reading_def state_ok_def)
  qed
  moreover have "s\<lparr>rp_state := FAILED, rp_failure_code := Some INTEGRITY_FAILED, rp_phase := Ended\<rparr>
      = ends FAILED (Some INTEGRITY_FAILED) s"
    by (simp add: ends_def)
  ultimately show ?thesis
    using Nil p ends_ok [OF ok] ending_simps(1,3) [OF ok] by (simp add: fetched_def finish_or_fail_def)
next
  case (Cons e es)
  let ?t = "s\<lparr>rp_iterator := (rp_iterator s)\<lparr>st_events := es\<rparr>\<rparr>"
  have source: "st_events (event_source cfg) = rp_published s @ e # es" "rp_previous_sequence s = rp_cursor s"
    "rp_emitted_count s = int (length (rp_published s))"
    using ok p Cons by (simp_all add: replay_ok_def reading_ok_def reading_def log_ok_def)
  have cursor: "rp_cursor s = last_sequence (after_cursor cfg) (rp_published s)"
    using ok source(3) by (simp add: replay_ok_def cursor_ok_def)
  show ?thesis
  proof (cases "event_misplaced cfg (rp_previous_sequence s) e")
    case True
    have "fetched cfg s = ends FAILED (Some SOURCE_FAILED) s\<lparr>rp_iterator := (rp_iterator s)\<lparr>st_events := es\<rparr>\<rparr>"
      using True Cons active_state [OF ok] p by (simp add: fetched_def Let_def fail_def ends_def)
    moreover have "replay_ok cfg (ends FAILED (Some SOURCE_FAILED) s)" by (rule ends_ok [OF ok]) simp
    then have "replay_ok cfg (ends FAILED (Some SOURCE_FAILED) s\<lparr>rp_iterator := (rp_iterator s)\<lparr>st_events := es\<rparr>\<rparr>)"
      by (simp add: ends_def replay_ok_def log_ok_def cursor_ok_def reading_ok_def reading_def state_ok_def completed_ok_def)
    ultimately show ?thesis by simp
  next
    case False
    with cursor source(2) have ordered: "in_order cfg (rp_published s @ [e])"
      using in_order_snoc [OF published_in_order [OF ok]] by simp
    obtain k where k: "fetched cfg s = ?t\<lparr>rp_phase := Controls k\<rparr>" "point_pending k = [e]"
      using False Cons by (fastforce simp: fetched_def Let_def)
    show ?thesis unfolding k(1)
      using ok p ordered source k(2) running [OF ok] active_state(2) [OF ok]
      by (simp add: replay_ok_def log_ok_def cursor_ok_def reading_ok_def reading_def state_ok_def completed_ok_def)
  qed
qed

lemma worker_step_ok:
  assumes ok: "replay_ok cfg s" and step: "worker_step cfg out s = Some t"
  shows "replay_ok cfg t"
proof (cases "rp_phase s")
  case (At k)
  with assms fetched_ok begin_delay_ok begin_publish_ok show ?thesis by (cases k) (auto simp: worker_step_def)
qed (use assms opened_ok acknowledge_ok leave_suspension_ok slept_ok published_ok in
    \<open>auto simp: worker_step_def split: if_splits\<close>)

lemma replay_step_ok: "replay_step cfg a s t \<Longrightarrow> replay_ok cfg s \<Longrightarrow> replay_ok cfg t"
  by (induction rule: replay_step.induct) (simp_all add: start_ok pause_ok resume_ok stop_ok interrupted_ok worker_step_ok)

lemma replay_run_ok: "replay_run cfg as s t \<Longrightarrow> replay_ok cfg s \<Longrightarrow> replay_ok cfg t"
  by (induction rule: replay_run.induct) (simp_all add: replay_step_ok)

lemma replay_reached: "new_replay cfg = Inr s \<Longrightarrow> replay_run cfg as s t \<Longrightarrow> replay_ok cfg t"
  using replay_run_ok new_replay_ok by blast

end
