(* ===== verification/Replay_Theorems.thy ===== *)
theory Replay_Theorems
  imports Replay_Proofs
begin

text \<open>
  The properties of replay: an ordered prefix, all of it when completed, silence while paused, a prompt
  stop, final terminal states; and the pause that is never answered.
\<close>

section \<open>The plan\<close>

definition after_start :: "replay_config \<Rightarrow> envelope \<Rightarrow> bool" where
  "after_start cfg e \<longleftrightarrow> (case after_cursor cfg of None \<Rightarrow> True | Some a \<Rightarrow> a < en_ingest_sequence e)"

text \<open>The counters after the events that were seen.\<close>

definition counts :: "replay_config \<Rightarrow> envelope list \<Rightarrow> plan_count \<Rightarrow> bool" where
  "counts cfg es c \<longleftrightarrow>
     pc_count c = int (length es) \<and> pc_expected c = int (length (filter (after_start cfg) es))
     \<and> pc_first c = (if es = [] then None else Some (en_ingest_sequence (hd es)))
     \<and> pc_last c = last_sequence None es
     \<and> sorted_wrt (\<lambda>a b. en_ingest_sequence a < en_ingest_sequence b) es
     \<and> (\<forall>e\<in>set es. en_session_id e = rd_session_id (rc_descriptor cfg))"

lemma count_event_counts:
  assumes "counts cfg es c" and "count_event cfg e c = Inr c'"
  shows "counts cfg (es @ [e]) c'"
proof -
  have "sorted_wrt (\<lambda>a b. en_ingest_sequence a < en_ingest_sequence b) (es @ [e])"
    using assms
    by (cases es rule: rev_cases)
      (auto simp: counts_def count_event_def last_sequence_def sorted_wrt_append split: if_splits)
  then show ?thesis
    using assms
    by (auto simp: counts_def count_event_def last_sequence_def after_start_def after_cursor_def
        split: if_splits option.splits)
qed

lemma count_events: "efold (count_event cfg) fs c = Inr c' \<Longrightarrow> counts cfg es c \<Longrightarrow> counts cfg (es @ fs) c'"
proof (induction fs arbitrary: c es)
  case Nil
  then show ?case by simp
next
  case (Cons f fs)
  then obtain d where d: "count_event cfg f c = Inr d" "efold (count_event cfg) fs d = Inr c'" by (auto simp: ebind_eq_Inr)
  from Cons.IH [OF d(2) count_event_counts [OF Cons.prems(2) d(1)]] show ?case by simp
qed

text \<open>The plan of the first call: all events of the session, in order, from the first to the last.\<close>

definition plan_ok :: "replay_config \<Rightarrow> envelope list \<Rightarrow> bool" where
  "plan_ok cfg es \<longleftrightarrow>
     int (length es) = rd_event_count (rc_descriptor cfg)
     \<and> sorted_wrt (\<lambda>a b. en_ingest_sequence a < en_ingest_sequence b) es
     \<and> (\<forall>e\<in>set es. en_session_id e = rd_session_id (rc_descriptor cfg))
     \<and> map_option en_ingest_sequence (if es = [] then None else Some (hd es)) = Some (rd_first_ingest_sequence (rc_descriptor cfg))
     \<and> last_sequence None es = Some (rd_last_ingest_sequence (rc_descriptor cfg))"

lemma open_source_Inr:
  assumes "open_source cfg = Inr (expected, stream)"
  shows "\<exists>plan. iter_events_at (rc_source cfg) 0 None = Inr plan \<and> plan_ok cfg (st_events plan)
    \<and> expected = int (length (filter (after_start cfg) (st_events plan)))"
    and "iter_events_at (rc_source cfg) 1 (after_cursor cfg) = Inr stream"
proof -
  have prepared: "prepare_expected_count cfg = Inr expected"
    and events: "iter_events_at (rc_source cfg) 1 (after_cursor cfg) = Inr stream"
    using assms
    by (cases "iter_events_at (rc_source cfg) 1 (ro_after_ingest_sequence (rc_options cfg))";
        auto simp: open_source_def Let_def ebind_eq_Inr after_cursor_def split: sum.splits)+
  show "iter_events_at (rc_source cfg) 1 (after_cursor cfg) = Inr stream" by (rule events)
  from prepared obtain plan c where plan: "iter_events_at (rc_source cfg) 0 None = Inr plan"
    "efold (count_event cfg) (st_events plan) \<lparr>pc_count = 0, pc_expected = 0, pc_first = None, pc_last = None\<rparr> = Inr c"
    "pc_count c = rd_event_count (rc_descriptor cfg)"
    "pc_first c = Some (rd_first_ingest_sequence (rc_descriptor cfg))"
    "pc_last c = Some (rd_last_ingest_sequence (rc_descriptor cfg))" "expected = pc_expected c"
    by (auto simp: prepare_expected_count_def err_simps split: sum.splits)
  have "counts cfg (st_events plan) c"
    using count_events [OF plan(2), of "[]"] by (simp add: counts_def last_sequence_def)
  with plan show "\<exists>plan. iter_events_at (rc_source cfg) 0 None = Inr plan \<and> plan_ok cfg (st_events plan)
    \<and> expected = int (length (filter (after_start cfg) (st_events plan)))"
    by (auto simp: counts_def plan_ok_def split: if_splits)
qed

section \<open>The example\<close>

text \<open>Three events of one session, and a source that lists them.\<close>

definition replay_event :: "int \<Rightarrow> envelope" where
  "replay_event n =
     \<lparr>en_schema_version = 1, en_event_type = CONNECTION_STATUS,
      en_payload = ConnectionStatusPayload \<lparr>cs_state = CS_CONNECTED, cs_broker_kind_raw = None,
        cs_broker_code_raw = None, cs_message = None, cs_is_ready = False, cs_changed_at = n,
        cs_connection_generation = 1\<rparr>,
      en_source = ''capital'', en_source_mode = LIVE, en_session_id = UUID ''s'', en_ingest_sequence = n,
      en_connection_generation = 1, en_sequence = n, en_broker_sequence = None, en_dedupe_key = show_int n,
      en_event_at = Some n, en_received_at = n, en_trading_day = None, en_metadata_version = None,
      en_raw_payload = None\<rparr>"

definition replay_demo_source :: replay_source where
  "replay_demo_source =
     \<lparr>open_session = (\<lambda>_. Inr ()),
      verify_integrity = Inr \<lparr>rb_session_id = UUID ''s'', rb_event_count = 3, rb_first_ingest_sequence = Some 0,
        rb_last_ingest_sequence = Some 5, rb_is_valid = True, rb_errors = []\<rparr>,
      iter_events_at = (\<lambda>_ after. Inr \<lparr>st_events =
        filter (\<lambda>e. case after of None \<Rightarrow> True | Some a \<Rightarrow> a < en_ingest_sequence e) (map replay_event [0, 3, 5]),
        st_error = None\<rparr>)\<rparr>"

definition replay_demo :: replay_config where
  "replay_demo =
     \<lparr>rc_source = replay_demo_source,
      rc_descriptor = \<lparr>rd_session_id = UUID ''s'', rd_status = ''complete'', rd_schema_version = 1,
        rd_event_count = 3, rd_first_ingest_sequence = 0, rd_last_ingest_sequence = 5\<rparr>,
      rc_options = \<lparr>ro_mode = PACED, ro_speed = Finite 2, ro_after_ingest_sequence = Some 0\<rparr>\<rparr>"

text \<open>Executing a list of acts.\<close>

fun replay_act_result :: "replay_config \<Rightarrow> replay_act \<Rightarrow> replay \<Rightarrow> replay option" where
  "replay_act_result cfg (Start b) s = Some (fst (start b s))"
| "replay_act_result cfg Pause s = Some (fst (pause s))"
| "replay_act_result cfg Resume s = Some (fst (resume s))"
| "replay_act_result cfg Stop s = Some (stop s)"
| "replay_act_result cfg Interrupt s =
     (if rp_synchronous s \<and> rp_phase s \<noteq> Idle \<and> rp_phase s \<noteq> Ended then Some (interrupted s) else None)"
| "replay_act_result cfg (Work r) s = worker_step cfg r s"

fun replay_acts :: "replay_config \<Rightarrow> replay_act list \<Rightarrow> replay \<Rightarrow> replay option" where
  "replay_acts cfg [] s = Some s"
| "replay_acts cfg (a # as) s = (case replay_act_result cfg a s of None \<Rightarrow> None | Some t \<Rightarrow> replay_acts cfg as t)"

lemma replay_act_step: "replay_act_result cfg a s = Some t \<Longrightarrow> replay_step cfg a s t"
  by (cases a) (auto intro: replay_step.intros split: if_splits)

lemma replay_acts_run: "replay_acts cfg as s = Some t \<Longrightarrow> replay_run cfg as s t"
  by (induction as arbitrary: s) (auto intro: replay_run.intros dest: replay_act_step split: option.splits)

definition replay_demo_new :: replay where
  "replay_demo_new = projr (new_replay replay_demo)"

lemma replay_demo_created: "new_replay replay_demo = Inr replay_demo_new"
  by code_simp

definition demo_works :: "nat \<Rightarrow> replay_act list" where
  "demo_works n = replicate n (Work Returned)"

definition replay_demo_completed :: replay where
  "replay_demo_completed = the (replay_acts replay_demo (Start True # demo_works 16) replay_demo_new)"

definition replay_demo_paused :: replay where
  "replay_demo_paused = the (replay_acts replay_demo
     ([Start False] @ demo_works 5 @ [Pause] @ demo_works 2) replay_demo_new)"

lemma replay_demo_evaluated:
  "replay_acts replay_demo (Start True # demo_works 16) replay_demo_new \<noteq> None"
  "rp_state replay_demo_completed = COMPLETED \<and> map en_ingest_sequence (rp_published replay_demo_completed) = [3, 5]"
  "replay_acts replay_demo ([Start False] @ demo_works 5 @ [Pause] @ demo_works 2) replay_demo_new \<noteq> None"
  "rp_state replay_demo_paused = PAUSED \<and> map en_ingest_sequence (rp_published replay_demo_paused) = [3]"
  by code_simp+

lemma replay_demo_runs:
  "replay_run replay_demo (Start True # demo_works 16) replay_demo_new replay_demo_completed"
  "replay_run replay_demo ([Start False] @ demo_works 5 @ [Pause] @ demo_works 2) replay_demo_new replay_demo_paused"
  using replay_demo_evaluated(1,3)
  by (auto simp only: replay_demo_completed_def replay_demo_paused_def option.sel intro!: replay_acts_run)

section \<open>What is published\<close>

text \<open>C24: replay publishes in order and loses nothing. However controls interleave, what the sink was given is a
  prefix of the events the source answered with, strictly increasing, of the session, beyond the cursor it
  started from; the count is the number published, or one less while the last publication has not returned
  or has failed, and the cursor is the last event counted.\<close>

theorem replay_publishes_in_order:
  assumes "new_replay cfg = Inr s" and "replay_run cfg as s t"
  shows "prefix (rp_published t) (st_events (event_source cfg))
    \<and> sorted_wrt (\<lambda>a b. en_ingest_sequence a < en_ingest_sequence b) (rp_published t)
    \<and> (\<forall>e\<in>set (rp_published t). en_session_id e = rd_session_id (rc_descriptor cfg) \<and> after_start cfg e)
    \<and> (rp_emitted_count t = int (length (rp_published t)) \<or> rp_emitted_count t + 1 = int (length (rp_published t)))
    \<and> rp_cursor t = last_sequence (after_cursor cfg) (take (nat (rp_emitted_count t)) (rp_published t))"
proof -
  have ok: "replay_ok cfg t" by (rule replay_reached [OF assms])
  have "rp_emitted_count t = int (length (rp_published t)) \<or> rp_emitted_count t + 1 = int (length (rp_published t))"
    using ok by (cases "rp_phase t") (auto simp: replay_ok_def log_ok_def)
  moreover have "rp_cursor t = last_sequence (after_cursor cfg) (take (nat (rp_emitted_count t)) (rp_published t))"
    using ok by (simp add: replay_ok_def cursor_ok_def)
  ultimately show ?thesis
    using published_prefix [OF ok] published_in_order [OF ok]
    by (fastforce simp: in_order_def event_misplaced_def after_start_def split: option.splits)
qed

lemma replay_publishes_in_order_witness:
  "rp_published replay_demo_paused = [replay_event 3] \<and> rp_cursor replay_demo_paused = Some 3
   \<and> sorted_wrt (\<lambda>a b. en_ingest_sequence a < en_ingest_sequence b) (rp_published replay_demo_completed)"
proof -
  have "rp_published replay_demo_paused = [replay_event 3] \<and> rp_cursor replay_demo_paused = Some 3" by code_simp
  with replay_publishes_in_order [OF replay_demo_created replay_demo_runs(1)] show ?thesis by blast
qed

text \<open>C25: a completed replay is complete. The sink was given every event the source answered with, which are as
  many as a full, ordered reading of the session from its first to its last event has beyond the cursor.\<close>

theorem completed_replay_is_complete:
  assumes "new_replay cfg = Inr s" and "replay_run cfg as s t" and "rp_state t = COMPLETED"
  shows "\<exists>plan stream. iter_events_at (rc_source cfg) 0 None = Inr plan \<and> plan_ok cfg (st_events plan)
    \<and> iter_events_at (rc_source cfg) 1 (after_cursor cfg) = Inr stream \<and> st_error stream = None
    \<and> rp_published t = st_events stream
    \<and> length (rp_published t) = length (filter (after_start cfg) (st_events plan))
    \<and> rp_emitted_count t = int (length (rp_published t))
    \<and> rp_cursor t = Some (rd_last_ingest_sequence (rc_descriptor cfg))"
proof -
  have "completed_ok cfg t" using replay_reached [OF assms(1,2)] by (simp add: replay_ok_def)
  then have all: "open_source cfg = Inr (int (length (rp_published t)), event_source cfg)"
    "rp_published t = st_events (event_source cfg)" "st_error (event_source cfg) = None"
    "rp_emitted_count t = int (length (rp_published t))" "rp_cursor t = Some (rd_last_ingest_sequence (rc_descriptor cfg))"
    using assms(3) by (auto simp: completed_ok_def)
  from open_source_Inr [OF all(1)] all show ?thesis by force
qed

lemma completed_replay_is_complete_witness:
  "rp_cursor replay_demo_completed = Some 5 \<and> rp_emitted_count replay_demo_completed = 2
   \<and> (\<exists>plan. plan_ok replay_demo plan \<and> length (filter (after_start replay_demo) plan) = 2)"
proof -
  have "rp_emitted_count replay_demo_completed = 2" by code_simp
  with completed_replay_is_complete [OF replay_demo_created replay_demo_runs(1)] replay_demo_evaluated(2)
  show ?thesis by (force simp: replay_demo_def)
qed

section \<open>Controls\<close>

definition is_work :: "replay_act \<Rightarrow> bool" where
  "is_work a \<longleftrightarrow> (\<exists>out. a = Work out)"

lemma terminal_step:
  assumes "replay_step cfg a s t" and "replay_ok cfg s" and "replay_terminal (rp_state s)"
  shows "t = s \<and> \<not> is_work a"
proof -
  have phase: "rp_phase s = Idle \<or> rp_phase s = Ended" using active_state(1) assms(2,3) by blast
  from assms(3) have "rp_state s = STOPPED \<or> rp_state s = COMPLETED \<or> rp_state s = FAILED" by (simp add: replay_terminal_def)
  with assms(1) phase show ?thesis
    by cases (auto simp: start_def pause_def resume_def stop_def worker_step_def is_work_def)
qed

lemma terminal_run:
  "replay_run cfg as s t \<Longrightarrow> replay_ok cfg s \<Longrightarrow> replay_terminal (rp_state s) \<Longrightarrow> t = s \<and> filter is_work as = []"
  by (induction rule: replay_run.induct) (auto dest: terminal_step)

lemma paused_step:
  assumes "replay_step cfg a s t" and "replay_ok cfg s" and "rp_state s = PAUSED" and "\<not> rp_stop_requested s"
    and "a \<notin> {Resume, Stop, Interrupt}"
  shows "t = s"
proof -
  obtain k where k: "rp_phase s = Suspended k" "rp_pause_requested s"
    using assms(2-4) by (cases "rp_phase s") (auto simp: replay_ok_def state_ok_def)
  with assms show ?thesis
    by cases (auto simp: start_def pause_def worker_step_def suspension_over_def)
qed

lemma paused_run:
  "replay_run cfg as s t \<Longrightarrow> replay_ok cfg s \<Longrightarrow> rp_state s = PAUSED \<Longrightarrow> \<not> rp_stop_requested s
   \<Longrightarrow> {Resume, Stop, Interrupt} \<inter> set as = {} \<Longrightarrow> t = s"
  by (induction rule: replay_run.induct) (auto dest: paused_step)

text \<open>A paused replay is silent and a finished one is final. After an acknowledged pause nothing changes,
  whatever the worker and other controls do, until a resume, a stop or an interrupt; from a terminal state
  nothing changes at all, so a runtime is used once.\<close>

theorem paused_and_finished_are_silent:
  assumes "new_replay cfg = Inr s" and "replay_run cfg as s t" and "replay_run cfg bs t u"
    and "rp_state t = PAUSED \<and> \<not> rp_stop_requested t \<and> {Resume, Stop, Interrupt} \<inter> set bs = {}
         \<or> replay_terminal (rp_state t)"
  shows "u = t"
  using assms(4) terminal_run [OF assms(3) replay_reached [OF assms(1,2)]]
    paused_run [OF assms(3) replay_reached [OF assms(1,2)]] by blast

lemma paused_and_finished_are_silent_witness:
  "fst (start True replay_demo_completed) = replay_demo_completed"
proof -
  have "replay_run replay_demo [Start True] replay_demo_completed (fst (start True replay_demo_completed))"
    by (rule run_cons [OF step_start run_nil])
  from paused_and_finished_are_silent [OF replay_demo_created replay_demo_runs(1) this] replay_demo_evaluated(2)
  show ?thesis by simp
qed

section \<open>Stopping\<close>

text \<open>The steps of the worker left after a stop was requested, and the publications.\<close>

fun steps_left :: "worker_phase \<Rightarrow> nat" where
  "steps_left Idle = 0"
| "steps_left Ended = 0"
| "steps_left (Suspended _) = 1"
| "steps_left (Controls _) = 1"
| "steps_left (At (Publish _)) = 3"
| "steps_left _ = 2"

definition publications_left :: "worker_phase \<Rightarrow> nat" where
  "publications_left p = (if \<exists>e. p = At (Publish e) then 1 else 0)"

definition stopping :: "replay \<Rightarrow> bool" where
  "stopping s \<longleftrightarrow> rp_stop_requested s \<and> rp_state s \<noteq> READY"

text \<open>What is left of a replay that was asked to stop: steps of the worker and publications.\<close>

definition nearer :: "nat \<Rightarrow> replay \<Rightarrow> replay \<Rightarrow> bool" where
  "nearer n s t \<longleftrightarrow>
     stopping t \<and> steps_left (rp_phase t) + n \<le> steps_left (rp_phase s)
     \<and> length (rp_published t) + publications_left (rp_phase t)
         \<le> length (rp_published s) + publications_left (rp_phase s)"

lemma nearer_trans: "nearer m s t \<Longrightarrow> nearer n t u \<Longrightarrow> nearer (m + n) s u"
  by (auto simp: nearer_def)

lemma stopping_work:
  assumes "worker_step cfg out s = Some t" and "stopping s"
  shows "nearer 1 s t"
proof (cases "rp_phase s")
  case (At k)
  with assms show ?thesis
    by (cases k) (auto simp: worker_step_def fetched_def finish_or_fail_def fail_def begin_delay_def begin_publish_def
        publications_left_def nearer_def stopping_def Let_def split: list.splits if_splits)
qed (use assms in \<open>auto simp: worker_step_def opened_def acknowledge_controls_def leave_suspension_def slept_def
    published_def fail_def publications_left_def nearer_def stopping_def Let_def
    split: sum.splits if_splits call_outcome.splits\<close>)

lemma stopping_step:
  assumes "replay_step cfg a s t" and "stopping s"
  shows "nearer (if is_work a then 1 else 0) s t"
  using assms
proof cases
  case (step_work out)
  then show ?thesis using stopping_work [OF step_work(2) assms(2)] by (simp add: is_work_def)
qed (use assms(2) in \<open>auto simp: start_def pause_def resume_def stop_def interrupted_def is_work_def
    publications_left_def nearer_def stopping_def\<close>)

lemma stopping_run: "replay_run cfg as s t \<Longrightarrow> stopping s \<Longrightarrow> nearer (length (filter is_work as)) s t"
proof (induction rule: replay_run.induct)
  case (run_nil s)
  then show ?case by (simp add: nearer_def)
next
  case (run_cons a s t as u)
  have first: "nearer (if is_work a then 1 else 0) s t" by (rule stopping_step [OF run_cons(1,4)])
  then have "stopping t" by (simp add: nearer_def)
  from nearer_trans [OF first run_cons.IH [OF this]] show ?case by (cases "is_work a") simp_all
qed

text \<open>Stopping is prompt. After a call of \<open>stop\<close> the sink is given at most one more event and the worker takes
  at most three more steps, whatever else is called; and until the worker has ended it is never blocked, so
  it does end, in a terminal state, which is what the caller of \<open>stop\<close> waits for.\<close>

theorem stop_is_prompt:
  assumes "new_replay cfg = Inr s" and "replay_run cfg as s t" and "replay_run cfg bs (stop t) u"
  shows "length (rp_published u) \<le> length (rp_published t) + 1 \<and> length (filter is_work bs) \<le> 3
    \<and> (replay_terminal (rp_state u) \<or> (\<forall>out. worker_step cfg out u \<noteq> None))"
proof (cases "replay_terminal (rp_state t)")
  case True
  then have "stop t = t" by (simp add: stop_def)
  with True show ?thesis using terminal_run [OF assms(3)] replay_reached [OF assms(1,2)] by simp
next
  case False
  then have "stopping (stop t)" by (simp add: stopping_def stop_def replay_terminal_def)
  from stopping_run [OF assms(3) this] have near: "nearer (length (filter is_work bs)) (stop t) u" .
  have "steps_left p \<le> 3" "publications_left p \<le> 1" for p
    by (cases p rule: steps_left.cases; simp add: publications_left_def)+
  from near this [of "rp_phase (stop t)"]
  have bounds: "length (filter is_work bs) \<le> 3" "length (rp_published u) \<le> length (rp_published (stop t)) + 1"
    by (auto simp: nearer_def)
  have ok: "replay_ok cfg u"
    using replay_run_ok [OF assms(3) stop_ok [OF replay_reached [OF assms(1,2)]]] .
  have "worker_step cfg out u \<noteq> None" if "\<not> replay_terminal (rp_state u)" for out
    using near that ok
    by (cases "rp_phase u") (auto simp: nearer_def stopping_def worker_step_def suspension_over_def replay_ok_def
        state_ok_def split: resume_point.splits)
  with bounds show ?thesis by (auto simp: stop_def split: if_splits)
qed

lemma stop_is_prompt_witness:
  "\<exists>u. replay_run replay_demo (demo_works 1) (stop replay_demo_paused) u \<and> length (rp_published u) \<le> 2
     \<and> replay_terminal (rp_state u)"
proof -
  define u where "u = the (replay_acts replay_demo (demo_works 1) (stop replay_demo_paused))"
  have some: "replay_acts replay_demo (demo_works 1) (stop replay_demo_paused) \<noteq> None" "length (rp_published replay_demo_paused) = 1"
    by code_simp+
  then have "replay_run replay_demo (demo_works 1) (stop replay_demo_paused) u"
    by (auto simp: u_def intro: replay_acts_run)
  moreover have "replay_terminal (rp_state u)" unfolding u_def by code_simp
  ultimately show ?thesis
    using stop_is_prompt [OF replay_demo_created replay_demo_runs(2)] some(2) by fastforce
qed

section \<open>A pause that is never answered\<close>

text \<open>The worker waits for \<open>pause_requested\<close> to be withdrawn, and the new call for the state to change.\<close>

definition forgotten_pause :: "replay \<Rightarrow> bool" where
  "forgotten_pause s \<longleftrightarrow>
     rp_state s = RUNNING \<and> rp_pause_requested s \<and> \<not> rp_stop_requested s \<and> (\<exists>k. rp_phase s = Suspended k)"

lemma forgotten_step:
  assumes "replay_step cfg a s t" and "forgotten_pause s" and "a \<notin> {Stop, Interrupt}"
  shows "forgotten_pause t \<and> rp_published t = rp_published s"
  using assms
  by cases (auto simp: forgotten_pause_def start_def pause_def resume_def worker_step_def suspension_over_def)

lemma forgotten_run:
  "replay_run cfg as s t \<Longrightarrow> forgotten_pause s \<Longrightarrow> {Stop, Interrupt} \<inter> set as = {}
   \<Longrightarrow> forgotten_pause t \<and> rp_published t = rp_published s"
  by (induction rule: replay_run.induct) (auto dest: forgotten_step)

text \<open>C26: a pause right after a resume hangs. If \<open>pause\<close> is called again before the suspended worker has noticed
  the \<open>resume\<close>, both calls are accepted, but the worker goes on waiting in a state that says \<open>RUNNING\<close>: until
  someone stops the replay the pause is not answered, nothing is published, and a further \<open>resume\<close> raises.\<close>

theorem pause_after_resume_hangs:
  assumes "new_replay cfg = Inr s" and "replay_run cfg as s t" and "rp_state t = PAUSED" and "\<not> rp_stop_requested t"
  shows "\<exists>u v. resume t = (u, Inr ()) \<and> pause u = (v, Inr ())
    \<and> (\<forall>bs w. replay_run cfg bs v w \<longrightarrow> {Stop, Interrupt} \<inter> set bs = {} \<longrightarrow>
         \<not> pause_answered w \<and> rp_published w = rp_published t
         \<and> resume w = (w, Inl (RuntimeError ''replay runtime is not paused'')))"
proof -
  obtain k where k: "rp_phase t = Suspended k"
    using replay_reached [OF assms(1,2)] assms(3) by (cases "rp_phase t") (auto simp: replay_ok_def state_ok_def)
  define v where "v = fst (pause (fst (resume t)))"
  have v: "resume t = (fst (resume t), Inr ())" "pause (fst (resume t)) = (v, Inr ())" "forgotten_pause v"
    "rp_published v = rp_published t"
    using assms(3,4) k by (auto simp: v_def resume_def pause_def forgotten_pause_def)
  have "\<not> pause_answered w \<and> rp_published w = rp_published t
      \<and> resume w = (w, Inl (RuntimeError ''replay runtime is not paused''))"
    if "replay_run cfg bs v w" "{Stop, Interrupt} \<inter> set bs = {}" for bs w
    using forgotten_run [OF that(1) v(3) that(2)] v(4) by (auto simp: forgotten_pause_def pause_answered_def resume_def)
  with v(1,2) show ?thesis by blast
qed

lemma pause_after_resume_hangs_witness:
  "\<exists>v. fst (pause (fst (resume replay_demo_paused))) = v \<and> \<not> pause_answered v \<and> rp_published v = [replay_event 3]"
proof -
  have "\<not> rp_stop_requested replay_demo_paused" "rp_published replay_demo_paused = [replay_event 3]" by code_simp+
  with pause_after_resume_hangs [OF replay_demo_created replay_demo_runs(2) conjunct1 [OF replay_demo_evaluated(4)]]
  show ?thesis by (metis fst_conv inf_bot_right list.set(1) run_nil)
qed

end
