(* ===== verification/Replay_Liveness.thy ===== *)
theory Replay_Liveness
  imports Replay_Theorems
begin

text \<open>
  Undisturbed, a replay of a coherent source completes, whatever the mode and the speed; and a snapshot
  taken at any time passes its constructor.
\<close>

section \<open>Snapshots\<close>

text \<open>Snapshots are well formed. For validated options and descriptor, a snapshot taken at any time, under any
  interleaving, passes the checks of its constructor: a failure code is there exactly in the failed state.\<close>

theorem snapshots_are_valid:
  assumes "replay_options_init (rc_options cfg) = Inr o'" and "replay_descriptor_init (rc_descriptor cfg) = Inr d'"
    and "new_replay cfg = Inr s" and "replay_run cfg as s t"
  shows "snapshot cfg t =
    Inr \<lparr>rs_state = rp_state t, rs_session_id = rd_session_id (rc_descriptor cfg), rs_cursor = rp_cursor t,
         rs_emitted_count = rp_emitted_count t, rs_failure_code = rp_failure_code t\<rparr>"
proof -
  have ok: "replay_ok cfg t" by (rule replay_reached [OF assms(3,4)])
  have emitted: "0 \<le> rp_emitted_count t"
    using ok by (cases "rp_phase t") (auto simp: replay_ok_def log_ok_def reading_ok_def reading_def)
  have start: "\<And>a. after_cursor cfg = Some a \<Longrightarrow> 0 \<le> a" and first: "0 \<le> rd_first_ingest_sequence (rc_descriptor cfg)"
    using assms(1,2) by (auto simp: replay_options_init_def replay_descriptor_init_def replay_nonnegative_def err_simps after_cursor_def)
  have "0 \<le> en_ingest_sequence e" if "e \<in> set (rp_published t)" for e
    using published_in_order [OF ok] that first by (force simp: in_order_def event_misplaced_def)
  then have "0 \<le> en_ingest_sequence (last xs)" if "xs = take n (rp_published t)" "xs \<noteq> []" for xs n
    using that by (metis in_set_takeD last_in_set)
  then have cursor: "\<And>c. rp_cursor t = Some c \<Longrightarrow> 0 \<le> c"
    using ok start by (auto simp: replay_ok_def cursor_ok_def last_sequence_def split: if_splits)
  have failure: "rp_failure_code t \<noteq> None \<longleftrightarrow> rp_state t = FAILED"
    using ok unfolding replay_ok_def state_ok_def by blast
  have "optionally (replay_nonnegative ''cursor'') (rp_cursor t) = Inr ()"
    using cursor by (cases "rp_cursor t") (simp_all add: replay_nonnegative_def)
  with emitted failure show ?thesis
    by (auto simp: snapshot_def replay_snapshot_init_def replay_nonnegative_def)
qed

lemma snapshots_are_valid_witness: "\<exists>x. snapshot replay_demo replay_demo_paused = Inr x \<and> rs_cursor x = Some 3"
proof -
  have init: "replay_options_init (rc_options replay_demo) = Inr (rc_options replay_demo)"
    "replay_descriptor_init (rc_descriptor replay_demo) = Inr (rc_descriptor replay_demo)"
    by code_simp+
  have "rp_cursor replay_demo_paused = Some 3" by code_simp
  with snapshots_are_valid [OF init replay_demo_created replay_demo_runs(2)] show ?thesis by simp
qed

section \<open>Completion\<close>

definition undisturbed :: "replay \<Rightarrow> bool" where
  "undisturbed s \<longleftrightarrow> rp_state s = RUNNING \<and> \<not> rp_pause_requested s \<and> \<not> rp_stop_requested s"

lemma acts_append: "replay_acts cfg as s = Some t \<Longrightarrow> replay_acts cfg (as @ bs) s = replay_acts cfg bs t"
  by (induction as arbitrary: s) (auto split: option.splits)

text \<open>One event, from the top of the loop back to it.\<close>

lemma one_event:
  assumes "undisturbed s" and "rp_phase s = Controls Fetch" and "st_events (rp_iterator s) = e # es"
    and "\<not> event_misplaced cfg (rp_previous_sequence s) e"
  shows "\<exists>n t. replay_acts cfg (demo_works n) s = Some t \<and> undisturbed t \<and> rp_phase t = Controls Fetch
    \<and> rp_iterator t = (rp_iterator s)\<lparr>st_events := es\<rparr> \<and> rp_published t = rp_published s @ [e]
    \<and> rp_expected_emitted_count t = rp_expected_emitted_count s"
proof -
  define delay where "delay = pacing_delay (rc_options cfg) (rp_anchor s) e"
  have acts: "demo_works 5 = [Work Returned, Work Returned, Work Returned, Work Returned, Work Returned]"
    "demo_works 8 = demo_works 5 @ [Work Returned, Work Returned, Work Returned]"
    by (simp_all add: demo_works_def eval_nat_numeral)
  show ?thesis
  proof (cases "0 < delay")
    case True
    then show ?thesis
      using assms
      by (intro exI [of _ 8])
        (simp add: acts worker_step_def acknowledge_controls_def undisturbed_def fetched_def Let_def
          begin_publish_def published_def begin_delay_def slept_def flip: delay_def)
  next
    case False
    then show ?thesis
      using assms
      by (intro exI [of _ 5])
        (simp add: acts worker_step_def acknowledge_controls_def undisturbed_def fetched_def Let_def
          begin_publish_def published_def flip: delay_def)
  qed
qed

lemma all_events:
  assumes "undisturbed s" and "rp_phase s = Controls Fetch" and "replay_ok cfg s"
    and "in_order cfg (st_events (event_source cfg))"
  shows "\<exists>n t. replay_acts cfg (demo_works n) s = Some t \<and> undisturbed t \<and> rp_phase t = Controls Fetch
    \<and> st_events (rp_iterator t) = [] \<and> rp_expected_emitted_count t = rp_expected_emitted_count s"
  using assms
proof (induction "st_events (rp_iterator s)" arbitrary: s)
  case Nil
  then show ?case by (intro exI [of _ 0] exI [of _ s]) (simp add: demo_works_def)
next
  case (Cons e es)
  note ok = Cons.prems(3)
  have source: "st_events (event_source cfg) = rp_published s @ e # es" "rp_previous_sequence s = rp_cursor s"
    "rp_emitted_count s = int (length (rp_published s))"
    using ok Cons.prems(2) Cons.hyps(2) by (simp_all add: replay_ok_def reading_ok_def reading_def log_ok_def)
  then have cursor: "rp_previous_sequence s = last_sequence (after_cursor cfg) (rp_published s)"
    using ok by (simp add: replay_ok_def cursor_ok_def)
  have "\<not> event_misplaced cfg (rp_previous_sequence s) e"
    using Cons.prems(4) unfolding cursor source(1)
    by (cases "rp_published s" rule: rev_cases)
      (auto simp: in_order_def last_sequence_def event_misplaced_def sorted_wrt_append)
  from one_event [OF Cons.prems(1,2) Cons.hyps(2) [symmetric] this] obtain n t where
    t: "replay_acts cfg (demo_works n) s = Some t" "undisturbed t" "rp_phase t = Controls Fetch"
      "rp_iterator t = (rp_iterator s)\<lparr>st_events := es\<rparr>" "rp_expected_emitted_count t = rp_expected_emitted_count s"
    by blast
  have "replay_ok cfg t" by (rule replay_run_ok [OF replay_acts_run [OF t(1)] ok])
  with Cons.hyps(1) [of t] t Cons.prems(4) obtain m u where
    u: "replay_acts cfg (demo_works m) t = Some u" "undisturbed u" "rp_phase u = Controls Fetch"
      "st_events (rp_iterator u) = []" "rp_expected_emitted_count u = rp_expected_emitted_count s"
    by auto
  have "demo_works (n + m) = demo_works n @ demo_works m" by (simp add: demo_works_def replicate_add)
  then have "replay_acts cfg (demo_works (n + m)) s = Some u" using acts_append [OF t(1)] u(1) by simp
  with u show ?case by blast
qed

text \<open>C29: undisturbed, a replay completes. When the source opens, answers with as many events as the session has
  beyond the cursor, in order and up to the last, and neither the sink nor the timer raises, a started
  replay that nobody controls reaches \<open>COMPLETED\<close> in finitely many steps, having published all of them.\<close>

theorem undisturbed_replay_completes:
  assumes "new_replay cfg = Inr s" and "open_source cfg = Inr (int (length es), \<lparr>st_events = es, st_error = None\<rparr>)"
    and "in_order cfg es" and "last_sequence (after_cursor cfg) es = Some (rd_last_ingest_sequence (rc_descriptor cfg))"
  shows "\<exists>n t. replay_run cfg (Start b # replicate n (Work Returned)) s t
    \<and> rp_state t = COMPLETED \<and> rp_published t = es"
proof -
  let ?o = "opened cfg (fst (start b s))"
  have source: "event_source cfg = \<lparr>st_events = es, st_error = None\<rparr>" by (simp add: event_source_def assms(2))
  have new: "rp_state s = READY" "\<not> rp_stop_requested s" "\<not> rp_pause_requested s"
    using assms(1) by (auto simp: new_replay_def err_simps)
  then have start: "replay_acts cfg (Start b # demo_works 1) s = Some ?o"
    by (simp add: demo_works_def start_def worker_step_def)
  have o: "undisturbed ?o" "rp_phase ?o = Controls Fetch" "rp_expected_emitted_count ?o = int (length es)"
    using new by (simp_all add: undisturbed_def opened_def start_def assms(2))
  have o_ok: "replay_ok cfg ?o" by (rule replay_reached [OF assms(1) replay_acts_run [OF start]])
  from all_events [OF o(1,2) o_ok] assms(3) obtain n t where
    t: "replay_acts cfg (demo_works n) ?o = Some t" "undisturbed t" "rp_phase t = Controls Fetch"
      "st_events (rp_iterator t) = []" "rp_expected_emitted_count t = int (length es)"
    by (auto simp: source o(3))
  have t_ok: "replay_ok cfg t" by (rule replay_run_ok [OF replay_acts_run [OF t(1)] o_ok])
  have all: "rp_published t = es" "st_error (rp_iterator t) = None" "rp_emitted_count t = int (length es)"
    using t_ok t(3,4) by (auto simp: replay_ok_def reading_ok_def reading_def log_ok_def source)
  then have cursor: "rp_cursor t = Some (rd_last_ingest_sequence (rc_descriptor cfg))"
    using t_ok assms(4) by (simp add: replay_ok_def cursor_ok_def)
  obtain u where u: "replay_acts cfg (demo_works 2) t = Some u" "rp_state u = COMPLETED" "rp_published u = es"
    using t(2-5) all cursor
    by (auto simp: demo_works_def eval_nat_numeral worker_step_def acknowledge_controls_def undisturbed_def
        fetched_def finish_or_fail_def)
  have "Start b # replicate (1 + n + 2) (Work Returned) = (Start b # demo_works 1) @ demo_works n @ demo_works 2"
    by (simp add: demo_works_def replicate_add eval_nat_numeral replicate_app_Cons_same)
  then have "replay_acts cfg (Start b # replicate (1 + n + 2) (Work Returned)) s = Some u"
    using acts_append [OF start] acts_append [OF t(1)] u(1) by simp
  with replay_acts_run u show ?thesis by blast
qed

lemma undisturbed_replay_completes_witness:
  "\<exists>n t. replay_run replay_demo (Start False # replicate n (Work Returned)) replay_demo_new t
     \<and> rp_state t = COMPLETED \<and> rp_published t = [replay_event 3, replay_event 5]"
proof -
  have "open_source replay_demo = Inr (2, \<lparr>st_events = [replay_event 3, replay_event 5], st_error = None\<rparr>)" by code_simp
  then have "open_source replay_demo
      = Inr (int (length [replay_event 3, replay_event 5]), \<lparr>st_events = [replay_event 3, replay_event 5], st_error = None\<rparr>)"
    by simp
  from undisturbed_replay_completes [OF replay_demo_created this] show ?thesis
    by (simp add: in_order_def event_misplaced_def last_sequence_def after_cursor_def replay_demo_def replay_event_def)
qed

end
