(* ===== verification/Journal_Codec.thy ===== *)
theory Journal_Codec
  imports Commit_Contracts Live_State_Machine
begin

text \<open>
  The codec of the durable journal, \<open>orders/live_journal_codec.py\<close>: Python values as a tree, the tagged
  JSON node of each, the bounded text of a Decimal, the canonical payload and its domain-separated
  digest; and the errors of the journal as values. A payload is canonical JSON in UTF-8, so a text is
  what the database holds; what reading it back gives is \<open>stored_decimal\<close> for a Decimal and the value
  itself for everything else.
\<close>

section \<open>Errors of the journal\<close>

text \<open>
  The journal's own exceptions, the private compare-and-swap signal, the three classes of a SQLite
  error the code tells apart (a violated constraint, a full database, anything else), the error of an
  authorization with its code, and the exceptions of the contracts it calls.
\<close>

datatype authorization_failure = INVALID_AUTHORIZATION | AUTHORIZATION_EXPIRED | AUTHORIZATION_CONFLICT

datatype journal_exn =
    JournalIntegrity string
  | JournalConflict string
  | JournalCapacity string
  | JournalClosed string
  | JournalCodecError
  | CasMismatch
  | SqliteConstraint
  | SqliteFull
  | SqliteOther
  | AuthorizationError authorization_failure
  | JournalPython pyexn

type_synonym 'a jresult = "journal_exn + 'a"

definition python :: "'a result \<Rightarrow> 'a jresult" where
  "python m = (case m of Inl e \<Rightarrow> Inl (JournalPython e) | Inr x \<Rightarrow> Inr x)"

lemma python_simps [simp]: "python (Inl e) = Inl (JournalPython e)" "python (Inr x) = Inr x"
  by (simp_all add: python_def)

lemma python_eq_Inr [err_simps]: "python m = Inr x \<longleftrightarrow> m = Inr x"
  by (cases m) simp_all

section \<open>Decimals\<close>

definition max_codec_payload_bytes :: int where
  "max_codec_payload_bytes = 1048576"

definition max_decimal_digits :: nat where
  "max_decimal_digits = 128"

definition max_decimal_abs_exponent :: int where
  "max_decimal_abs_exponent = 128"

definition is_digit :: "char \<Rightarrow> bool" where
  "is_digit c = (let n = (of_char c :: int) in 48 \<le> n \<and> n \<le> 57)"

text \<open>
  A decimal text: the sign, the digits before the point, the digits after it when there is a point,
  and the text of the exponent when there is one; \<open>None\<close> when the text does not have this form.
\<close>

definition split_exponent :: "string \<Rightarrow> string \<times> string option" where
  "split_exponent s =
     (let coefficient = takeWhile (\<lambda>c. c \<noteq> CHR ''e'') s in
      (coefficient, if coefficient = s then None else Some (drop (Suc (length coefficient)) s)))"

definition split_point :: "string \<Rightarrow> string \<times> string option" where
  "split_point s =
     (let whole = takeWhile (\<lambda>c. c \<noteq> CHR ''.'') s in
      (whole, if whole = s then None else Some (drop (Suc (length whole)) s)))"

definition remove_minus :: "string \<Rightarrow> bool \<times> string" where
  "remove_minus s = (if s \<noteq> [] \<and> hd s = CHR ''-'' then (True, tl s) else (False, s))"

definition whole_ok :: "string \<Rightarrow> bool" where
  "whole_ok w \<longleftrightarrow> w = ''0'' \<or> (w \<noteq> [] \<and> list_all is_digit w \<and> hd w \<noteq> CHR ''0'')"

definition digits_ok :: "string \<Rightarrow> bool" where
  "digits_ok d \<longleftrightarrow> d \<noteq> [] \<and> list_all is_digit d"

definition exponent_ok :: "string \<Rightarrow> bool" where
  "exponent_ok e \<longleftrightarrow> digits_ok (snd (remove_minus e))"

definition decimal_text_form ::
  "string \<Rightarrow> (bool \<times> string \<times> string option \<times> string option) option" where
  "decimal_text_form raw =
     (let (negative, unsigned) = remove_minus raw;
          (coefficient, exponent) = split_exponent unsigned;
          (whole, fraction) = split_point coefficient
      in if whole_ok whole \<and> (case fraction of None \<Rightarrow> True | Some f \<Rightarrow> digits_ok f)
            \<and> (case exponent of None \<Rightarrow> True | Some e \<Rightarrow> exponent_ok e)
         then Some (negative, whole, fraction, exponent) else None)"

definition read_exponent :: "string \<Rightarrow> int" where
  "read_exponent e = (let (negative, digits) = remove_minus e in
     if negative then - read_digits digits else read_digits digits)"

definition bounded_decimal_text :: "string \<Rightarrow> bool" where
  "bounded_decimal_text raw \<longleftrightarrow>
     length raw \<le> 128
     \<and> (case decimal_text_form raw of
          None \<Rightarrow> False
        | Some (negative, whole, fraction, exponent) \<Rightarrow>
            length whole + (case fraction of None \<Rightarrow> 0 | Some f \<Rightarrow> length f) \<le> max_decimal_digits
            \<and> (case exponent of
                 None \<Rightarrow> True
               | Some e \<Rightarrow> length (snd (remove_minus e)) \<le> 3
                   \<and> \<bar>read_exponent e\<bar> \<le> max_decimal_abs_exponent))"

text \<open>
  \<open>_canonical_decimal\<close>: the bounds of the coefficient and the exponent, then the text the contracts
  use too (\<open>normalize\<close> rounds to the 28 digits of the default context), then the bounds of the text.
\<close>

definition codec_decimal :: "decimal \<Rightarrow> string jresult" where
  "codec_decimal v =
     (if max_decimal_digits < ndigits \<bar>coef v\<bar> \<or> max_decimal_abs_exponent < \<bar>expo v\<bar>
      then Inl JournalCodecError
      else if coef v = 0 then Inr ''0''
      else case live_canonical_decimal v of
             Inl e \<Rightarrow> Inl JournalCodecError
           | Inr s \<Rightarrow> if bounded_decimal_text s then Inr s else Inl JournalCodecError)"

text \<open>\<open>Decimal (text)\<close> of a text of this form.\<close>

definition read_decimal :: "string \<Rightarrow> decimal" where
  "read_decimal raw =
     (case decimal_text_form raw of
        None \<Rightarrow> dzero
      | Some (negative, whole, fraction, exponent) \<Rightarrow>
          let f = (case fraction of None \<Rightarrow> [] | Some f \<Rightarrow> f);
              n = read_digits (whole @ f)
          in Dec (if negative then - n else n)
               ((case exponent of None \<Rightarrow> 0 | Some e \<Rightarrow> read_exponent e) - int (length f)))"

text \<open>The Decimal that is read back for one that was written.\<close>

definition stored_decimal :: "decimal \<Rightarrow> decimal" where
  "stored_decimal v = (case codec_decimal v of Inl e \<Rightarrow> v | Inr s \<Rightarrow> read_decimal s)"

section \<open>Values and nodes\<close>

datatype py_value =
    PyNone
  | PyBool bool
  | PyInt int
  | PyStr string
  | PyDecimal decimal
  | PyTime instant
  | PyBytes string
  | PyTuple "py_value list"
  | PyEnum string string
  | PyData string "(string \<times> py_value) list"

definition base64_digit :: "int \<Rightarrow> char" where
  "base64_digit n =
     (if n < 26 then char_of (65 + n) else if n < 52 then char_of (71 + n)
      else if n < 62 then char_of (n - 4) else if n = 62 then CHR ''+'' else CHR ''/'')"

fun base64 :: "string \<Rightarrow> string" where
  "base64 [] = []"
| "base64 [a] =
     (let x = (of_char a :: int) in [base64_digit (x div 4), base64_digit (x mod 4 * 16), CHR ''='', CHR ''=''])"
| "base64 [a, b] =
     (let x = (of_char a :: int); y = (of_char b :: int) in
      [base64_digit (x div 4), base64_digit (x mod 4 * 16 + y div 16), base64_digit (y mod 16 * 4), CHR ''=''])"
| "base64 (a # b # c # rest) =
     (let x = (of_char a :: int); y = (of_char b :: int); z = (of_char c :: int) in
      [base64_digit (x div 4), base64_digit (x mod 4 * 16 + y div 16),
       base64_digit (y mod 16 * 4 + z div 64), base64_digit (z mod 64)] @ base64 rest)"

text \<open>\<open>_node\<close>, on values of the registered classes and enumerations.\<close>

fun node :: "py_value \<Rightarrow> json jresult"
  and node_items :: "py_value list \<Rightarrow> json list jresult"
  and node_members :: "(string \<times> py_value) list \<Rightarrow> (string \<times> json) list jresult" where
  "node PyNone = Inr JNull"
| "node (PyBool b) = Inr (JBool b)"
| "node (PyInt i) = Inr (JInt i)"
| "node (PyStr s) = Inr (JStr s)"
| "node (PyDecimal d) = ebind (codec_decimal d) (\<lambda>s. Inr (JObj [(''$decimal'', JStr s)]))"
| "node (PyTime t) = Inr (JObj [(''$datetime'', json_utc t)])"
| "node (PyBytes b) = Inr (JObj [(''$bytes'', JStr (base64 b))])"
| "node (PyTuple xs) = ebind (node_items xs) (\<lambda>js. Inr (JObj [(''$tuple'', JArr js)]))"
| "node (PyEnum name v) = Inr (JObj [(''$enum'', JStr name), (''$value'', JStr v)])"
| "node (PyData name members) =
     ebind (node_members members) (\<lambda>js. Inr (JObj [(''$type'', JStr name), (''$value'', JObj js)]))"
| "node_items [] = Inr []"
| "node_items (x # xs) = ebind (node x) (\<lambda>j. ebind (node_items xs) (\<lambda>js. Inr (j # js)))"
| "node_members [] = Inr []"
| "node_members ((k, x) # xs) = ebind (node x) (\<lambda>j. ebind (node_members xs) (\<lambda>js. Inr ((k, j) # js)))"

text \<open>\<open>encode_journal_value\<close>: only a dataclass is a root.\<close>

definition encode_journal_value :: "py_value \<Rightarrow> string jresult" where
  "encode_journal_value v =
     (case v of
        PyData name members \<Rightarrow>
          ebind (node_members members) (\<lambda>js.
          let payload = utf8 (json_dumps False (JObj
                [(''schema_version'', JInt 1), (''type'', JStr name), (''value'', JObj js)]))
          in if max_codec_payload_bytes < int (length payload) then Inl JournalCodecError else Inr payload)
      | _ \<Rightarrow> Inl JournalCodecError)"

definition journal_digest :: "hashes \<Rightarrow> string \<Rightarrow> string \<Rightarrow> string" where
  "journal_digest h domain payload = ''sha256:'' @ sha256_hex h (domain @ [CHR 0x00] @ payload)"

text \<open>\<open>_encode\<close>: the payload, whose codec errors the journal reports as a failed integrity check.\<close>

definition journal_encode :: "hashes \<Rightarrow> py_value \<Rightarrow> string \<Rightarrow> (string \<times> string) jresult" where
  "journal_encode h v domain =
     (case encode_journal_value v of
        Inl e \<Rightarrow> Inl (JournalIntegrity ''live journal payload is invalid'')
      | Inr payload \<Rightarrow> Inr (payload, journal_digest h domain payload))"

end
