(* ===== verification/Journal_Values.thy ===== *)
theory Journal_Values
  imports Journal_Codec
begin

text \<open>
  What the journal stores and answers: the contracts of \<open>orders/live_journal_contracts.py\<close>, the value tree
  of each durable dataclass in the order of its fields, and what the codec reads back for each (its
  Decimals replaced by the stored ones, and the constructors of the value and its parts run again).
\<close>

section \<open>Contracts of the journal\<close>

definition intent_fingerprint :: "hashes \<Rightarrow> live_order_intent \<Rightarrow> string result" where
  "intent_fingerprint h i =
     ebind (json_live_intent i) (\<lambda>v. Inr (domain_fingerprint h ''tx_trade.live.order.intent.v1'' v))"

record journal_identity =
  ji_journal_id :: string
  ji_schema_version :: int
  ji_schema_fingerprint :: string
  ji_created_at :: instant

definition journal_identity_init :: "journal_identity \<Rightarrow> journal_identity result" where
  "journal_identity_init i =
     ethen (port_identifier ''journal_id'' (ji_journal_id i)) (
     ethen (port_positive ''schema_version'' (ji_schema_version i)) (
     ethen (port_fingerprint ''schema_fingerprint'' (ji_schema_fingerprint i))
     (Inr i)))"

datatype registration_disposition =
    COMMAND_REGISTERED | COMMAND_RETRY | COMMAND_CONFLICT | COMMAND_VERSION_MISMATCH

record registration_result =
  reg_command_id :: string
  reg_disposition :: registration_disposition
  reg_order :: "live_order option"

definition registration_result_init :: "registration_result \<Rightarrow> registration_result result" where
  "registration_result_init r =
     ethen (port_identifier ''client_command_id'' (reg_command_id r)) (
     ethen (require ((reg_disposition r = COMMAND_REGISTERED) = (reg_order r \<noteq> None))
              (ValueError ''order is required exactly when a command is registered''))
     (Inr r))"

datatype receipt_disposition =
    RECEIPT_RECORDED | RECEIPT_RETRY | RECEIPT_VERSION_MISMATCH | RECEIPT_TOKEN_MISMATCH | RECEIPT_CONFLICT

record receipt_result =
  rcp_command_id :: string
  rcp_disposition :: receipt_disposition
  rcp_order :: "live_order option"

definition receipt_result_init :: "receipt_result \<Rightarrow> receipt_result result" where
  "receipt_result_init r =
     ethen (port_identifier ''client_command_id'' (rcp_command_id r)) (
     ethen (require ((rcp_disposition r = RECEIPT_RECORDED) = (rcp_order r \<noteq> None))
              (ValueError ''order is required exactly when a receipt is recorded''))
     (Inr r))"

record outstanding_claim =
  oc_command :: live_command
  oc_claim_token :: string
  oc_claimant_id :: string
  oc_expected_order_version :: int
  oc_claimed_at :: instant

definition outstanding_claim_init :: "outstanding_claim \<Rightarrow> outstanding_claim result" where
  "outstanding_claim_init c =
     ethen (port_identifier ''claim_token'' (oc_claim_token c)) (
     ethen (port_identifier ''claimant_id'' (oc_claimant_id c)) (
     ethen (port_positive ''expected_order_version'' (oc_expected_order_version c))
     (Inr c)))"

record durable_requirement =
  dq_requirement_id :: int
  dq_reason_code :: string
  dq_created_at :: instant
  dq_client_order_id :: "string option"
  dq_observation_id :: "string option"

definition durable_requirement_init :: "durable_requirement \<Rightarrow> durable_requirement result" where
  "durable_requirement_init r =
     ethen (port_positive ''requirement_id'' (dq_requirement_id r)) (
     ethen (port_identifier ''reason_code'' (dq_reason_code r)) (
     ethen (optionally (port_identifier ''client_order_id'') (dq_client_order_id r)) (
     ethen (optionally (port_identifier ''observation_id'') (dq_observation_id r)) (
     ethen (require (\<not> (dq_client_order_id r = None \<and> dq_observation_id r = None))
              (ValueError ''a reconciliation requirement must identify durable evidence''))
     (Inr r)))))"

record recovery_snapshot =
  rv_identity :: journal_identity
  rv_orders :: "live_order list"
  rv_outstanding_claims :: "outstanding_claim list"
  rv_unresolved_observations :: "raw_observation list"
  rv_conflict_observations :: "raw_observation list"
  rv_ambiguous_observations :: "ambiguous_observation list"
  rv_requirements :: "durable_requirement list"
  rv_applied_event_ledger :: event_ledger
  rv_journal_sequence :: int

definition recovery_snapshot_init :: "recovery_snapshot \<Rightarrow> recovery_snapshot result" where
  "recovery_snapshot_init s =
     ethen (port_positive ''journal_sequence'' (rv_journal_sequence s)) (
     ethen (require (distinct (map (\<lambda>x. li_client_order_id (lo_intent x)) (rv_orders s)))
              (ValueError ''recovery orders must have unique client_order_id values''))
     (Inr s))"

section \<open>Value trees\<close>

definition py_opt :: "('a \<Rightarrow> py_value) \<Rightarrow> 'a option \<Rightarrow> py_value" where
  "py_opt f v = (case v of None \<Rightarrow> PyNone | Some x \<Rightarrow> f x)"

definition py_intent :: "live_order_intent \<Rightarrow> py_value" where
  "py_intent i = PyData ''LiveOrderIntent''
     [(''strategy_id'', PyStr (li_strategy_id i)), (''client_order_id'', PyStr (li_client_order_id i)),
      (''account_id'', PyStr (li_account_id i)), (''instrument_id'', PyStr (li_instrument_id i)),
      (''side'', PyEnum ''LiveSide'' (live_side_value (li_side i))),
      (''quantity'', PyDecimal (li_quantity i)),
      (''order_type'', PyEnum ''LiveOrderType'' (live_type_value (li_order_type i))),
      (''limit_price'', py_opt PyDecimal (li_limit_price i)),
      (''time_in_force'', PyEnum ''LiveTimeInForce'' (live_tif_value (li_time_in_force i))),
      (''day_trade'', PyBool (li_day_trade i)), (''created_at'', PyTime (li_created_at i))]"

fun py_command :: "live_command \<Rightarrow> py_value" where
  "py_command (NewOrderCommand c) = PyData ''NewOrderCommand''
     [(''client_command_id'', PyStr (nw_client_command_id c)), (''intent'', py_intent (nw_intent c)),
      (''requested_at'', PyTime (nw_requested_at c)), (''kind'', PyEnum ''LiveCommandKind'' (kind_value NEW))]"
| "py_command (CancelOrderCommand c) = PyData ''CancelOrderCommand''
     [(''client_command_id'', PyStr (cc_client_command_id c)),
      (''client_order_id'', PyStr (cc_client_order_id c)),
      (''requested_at'', PyTime (cc_requested_at c)), (''kind'', PyEnum ''LiveCommandKind'' (kind_value CANCEL))]"
| "py_command (AmendOrderCommand c) = PyData ''AmendOrderCommand''
     [(''client_command_id'', PyStr (am_client_command_id c)),
      (''client_order_id'', PyStr (am_client_order_id c)),
      (''new_limit_price'', PyDecimal (am_new_limit_price c)),
      (''requested_at'', PyTime (am_requested_at c)), (''kind'', PyEnum ''LiveCommandKind'' (kind_value AMEND))]"
| "py_command (DecreaseOrderCommand c) = PyData ''DecreaseOrderCommand''
     [(''client_command_id'', PyStr (dc_client_command_id c)),
      (''client_order_id'', PyStr (dc_client_order_id c)),
      (''expected_total_quantity'', PyDecimal (dc_expected_total_quantity c)),
      (''new_total_quantity'', PyDecimal (dc_new_total_quantity c)),
      (''requested_at'', PyTime (dc_requested_at c)), (''kind'', PyEnum ''LiveCommandKind'' (kind_value DECREASE))]"

definition py_binding :: "pending_command_binding \<Rightarrow> py_value" where
  "py_binding b = PyData ''PendingCommandBinding''
     [(''command'', py_command (pb_command b)), (''payload_fingerprint'', PyStr (pb_payload_fingerprint b))]"

definition py_order :: "live_order \<Rightarrow> py_value" where
  "py_order x = PyData ''LiveOrder''
     [(''intent'', py_intent (lo_intent x)),
      (''state'', PyEnum ''LiveOrderState'' (live_state_value (lo_state x))),
      (''total_quantity'', PyDecimal (lo_total_quantity x)),
      (''filled_quantity'', PyDecimal (lo_filled_quantity x)),
      (''remaining_quantity'', PyDecimal (lo_remaining_quantity x)),
      (''average_fill_price'', py_opt PyDecimal (lo_average_fill_price x)),
      (''working_limit_price'', py_opt PyDecimal (lo_working_limit_price x)),
      (''version'', PyInt (lo_version x)), (''updated_at'', PyTime (lo_updated_at x)),
      (''accepted_at'', py_opt PyTime (lo_accepted_at x)),
      (''pending_command'', py_opt py_binding (lo_pending_command x))]"

definition py_failure :: "live_failure_code option \<Rightarrow> py_value" where
  "py_failure c = py_opt (\<lambda>x. PyEnum ''LiveFailureCode'' (failure_value x)) c"

definition py_receipt :: "dispatch_receipt \<Rightarrow> py_value" where
  "py_receipt r = PyData ''DispatchReceipt''
     [(''client_command_id'', PyStr (dr_client_command_id r)),
      (''payload_fingerprint'', PyStr (dr_payload_fingerprint r)),
      (''state'', PyEnum ''DispatchState'' (dispatch_state_value (dr_state r))),
      (''attempted_at'', PyTime (dr_attempted_at r)), (''completed_at'', py_opt PyTime (dr_completed_at r)),
      (''failure_code'', py_failure (dr_failure_code r))]"

definition py_correlation :: "broker_correlation \<Rightarrow> py_value" where
  "py_correlation c = PyData ''BrokerCorrelation''
     [(''broker_session_generation'', PyInt (bc_broker_session_generation c)),
      (''adapter_received_sequence'', PyInt (bc_adapter_received_sequence c)),
      (''status'', PyEnum ''CorrelationStatus'' (correlation_status_value (bc_status c))),
      (''correlated_at'', PyTime (bc_correlated_at c)),
      (''submission_attempt_id'', py_opt PyStr (bc_submission_attempt_id c)),
      (''async_thread_id'', py_opt PyStr (bc_async_thread_id c)),
      (''proxy_stamp_id'', py_opt PyStr (bc_proxy_stamp_id c)),
      (''broker_order_sequence'', py_opt PyStr (bc_broker_order_sequence c)),
      (''broker_book_no'', py_opt PyStr (bc_broker_book_no c)),
      (''broker_fill_id'', py_opt PyStr (bc_broker_fill_id c)),
      (''execution_no'', py_opt PyStr (bc_execution_no c)),
      (''client_order_id'', py_opt PyStr (bc_client_order_id c))]"

text \<open>The two classes of normalised broker events, and what the journal reads of both.\<close>

datatype broker_event = BrokerOrderEvent broker_order_event | BrokerFillEvent broker_fill_event

fun py_event :: "broker_event \<Rightarrow> py_value" where
  "py_event (BrokerOrderEvent e) = PyData ''NormalizedBrokerOrderEvent''
     [(''event_id'', PyStr (be_event_id e)), (''account_id'', PyStr (be_account_id e)),
      (''instrument_id'', PyStr (be_instrument_id e)),
      (''event_type'', PyEnum ''BrokerOrderEventType'' (broker_event_value (be_event_type e))),
      (''received_at'', PyTime (be_received_at e)),
      (''broker_session_generation'', PyInt (be_broker_session_generation e)),
      (''adapter_received_sequence'', PyInt (be_adapter_received_sequence e)),
      (''correlation'', py_correlation (be_correlation e)),
      (''occurred_at'', py_opt PyTime (be_occurred_at e)),
      (''failure_code'', py_failure (be_failure_code e)),
      (''decreased_quantity'', py_opt PyDecimal (be_decreased_quantity e)),
      (''new_limit_price'', py_opt PyDecimal (be_new_limit_price e))]"
| "py_event (BrokerFillEvent e) = PyData ''NormalizedBrokerFillEvent''
     [(''event_id'', PyStr (bf_event_id e)), (''account_id'', PyStr (bf_account_id e)),
      (''instrument_id'', PyStr (bf_instrument_id e)),
      (''side'', PyEnum ''LiveSide'' (live_side_value (bf_side e))),
      (''quantity'', PyDecimal (bf_quantity e)), (''execution_price'', PyDecimal (bf_execution_price e)),
      (''received_at'', PyTime (bf_received_at e)),
      (''broker_session_generation'', PyInt (bf_broker_session_generation e)),
      (''adapter_received_sequence'', PyInt (bf_adapter_received_sequence e)),
      (''correlation'', py_correlation (bf_correlation e)),
      (''occurred_at'', py_opt PyTime (bf_occurred_at e))]"

fun event_id_of :: "broker_event \<Rightarrow> string" where
  "event_id_of (BrokerOrderEvent e) = be_event_id e"
| "event_id_of (BrokerFillEvent e) = bf_event_id e"

fun event_account_of :: "broker_event \<Rightarrow> string" where
  "event_account_of (BrokerOrderEvent e) = be_account_id e"
| "event_account_of (BrokerFillEvent e) = bf_account_id e"

fun event_received_at :: "broker_event \<Rightarrow> instant" where
  "event_received_at (BrokerOrderEvent e) = be_received_at e"
| "event_received_at (BrokerFillEvent e) = bf_received_at e"

fun event_generation :: "broker_event \<Rightarrow> int" where
  "event_generation (BrokerOrderEvent e) = be_broker_session_generation e"
| "event_generation (BrokerFillEvent e) = bf_broker_session_generation e"

fun event_sequence :: "broker_event \<Rightarrow> int" where
  "event_sequence (BrokerOrderEvent e) = be_adapter_received_sequence e"
| "event_sequence (BrokerFillEvent e) = bf_adapter_received_sequence e"

fun event_correlation :: "broker_event \<Rightarrow> broker_correlation" where
  "event_correlation (BrokerOrderEvent e) = be_correlation e"
| "event_correlation (BrokerFillEvent e) = bf_correlation e"

fun broker_semantic_fingerprint :: "hashes \<Rightarrow> broker_event \<Rightarrow> string result" where
  "broker_semantic_fingerprint h (BrokerOrderEvent e) = order_event_fingerprint h e"
| "broker_semantic_fingerprint h (BrokerFillEvent e) = fill_event_fingerprint h e"

definition py_fill :: "live_fill \<Rightarrow> py_value" where
  "py_fill f = PyData ''LiveFill''
     [(''fill_id'', PyStr (lf_fill_id f)), (''client_order_id'', PyStr (lf_client_order_id f)),
      (''strategy_id'', PyStr (lf_strategy_id f)), (''account_id'', PyStr (lf_account_id f)),
      (''instrument_id'', PyStr (lf_instrument_id f)), (''side'', PyEnum ''LiveSide'' (live_side_value (lf_side f))),
      (''quantity'', PyDecimal (lf_quantity f)), (''execution_price'', PyDecimal (lf_execution_price f)),
      (''occurred_at'', PyTime (lf_occurred_at f))]"

definition py_raw :: "raw_observation \<Rightarrow> py_value" where
  "py_raw x = PyData ''RawBrokerObservation''
     [(''observation_id'', PyStr (ro_observation_id x)), (''source'', PyStr (ro_source x)),
      (''broker_session_generation'', PyInt (ro_broker_session_generation x)),
      (''adapter_received_sequence'', PyInt (ro_adapter_received_sequence x)),
      (''received_at'', PyTime (ro_received_at x)), (''payload'', PyBytes (ro_payload x))]"

definition py_claim :: "outstanding_claim \<Rightarrow> py_value" where
  "py_claim c = PyData ''OutstandingDispatchClaim''
     [(''command'', py_command (oc_command c)), (''claim_token'', PyStr (oc_claim_token c)),
      (''claimant_id'', PyStr (oc_claimant_id c)),
      (''expected_order_version'', PyInt (oc_expected_order_version c)),
      (''claimed_at'', PyTime (oc_claimed_at c))]"

definition py_requirement :: "durable_requirement \<Rightarrow> py_value" where
  "py_requirement r = PyData ''DurableReconciliationRequirement''
     [(''requirement_id'', PyInt (dq_requirement_id r)), (''reason_code'', PyStr (dq_reason_code r)),
      (''created_at'', PyTime (dq_created_at r)),
      (''client_order_id'', py_opt PyStr (dq_client_order_id r)),
      (''observation_id'', py_opt PyStr (dq_observation_id r))]"

definition py_identity :: "journal_identity \<Rightarrow> py_value" where
  "py_identity i = PyData ''LiveJournalIdentity''
     [(''journal_id'', PyStr (ji_journal_id i)), (''schema_version'', PyInt (ji_schema_version i)),
      (''schema_fingerprint'', PyStr (ji_schema_fingerprint i)), (''created_at'', PyTime (ji_created_at i))]"

section \<open>Reading back\<close>

text \<open>The value with the Decimals the payload holds.\<close>

definition stored_intent :: "live_order_intent \<Rightarrow> live_order_intent" where
  "stored_intent i = i\<lparr>li_quantity := stored_decimal (li_quantity i),
     li_limit_price := map_option stored_decimal (li_limit_price i)\<rparr>"

fun stored_command :: "live_command \<Rightarrow> live_command" where
  "stored_command (NewOrderCommand c) = NewOrderCommand (c\<lparr>nw_intent := stored_intent (nw_intent c)\<rparr>)"
| "stored_command (CancelOrderCommand c) = CancelOrderCommand c"
| "stored_command (AmendOrderCommand c) =
     AmendOrderCommand (c\<lparr>am_new_limit_price := stored_decimal (am_new_limit_price c)\<rparr>)"
| "stored_command (DecreaseOrderCommand c) =
     DecreaseOrderCommand (c\<lparr>dc_expected_total_quantity := stored_decimal (dc_expected_total_quantity c),
                             dc_new_total_quantity := stored_decimal (dc_new_total_quantity c)\<rparr>)"

definition stored_binding :: "pending_command_binding \<Rightarrow> pending_command_binding" where
  "stored_binding b = b\<lparr>pb_command := stored_command (pb_command b)\<rparr>"

definition stored_order :: "live_order \<Rightarrow> live_order" where
  "stored_order x = x\<lparr>lo_intent := stored_intent (lo_intent x),
     lo_total_quantity := stored_decimal (lo_total_quantity x),
     lo_filled_quantity := stored_decimal (lo_filled_quantity x),
     lo_remaining_quantity := stored_decimal (lo_remaining_quantity x),
     lo_average_fill_price := map_option stored_decimal (lo_average_fill_price x),
     lo_working_limit_price := map_option stored_decimal (lo_working_limit_price x),
     lo_pending_command := map_option stored_binding (lo_pending_command x)\<rparr>"

fun stored_event :: "broker_event \<Rightarrow> broker_event" where
  "stored_event (BrokerOrderEvent e) =
     BrokerOrderEvent (e\<lparr>be_decreased_quantity := map_option stored_decimal (be_decreased_quantity e),
                         be_new_limit_price := map_option stored_decimal (be_new_limit_price e)\<rparr>)"
| "stored_event (BrokerFillEvent e) =
     BrokerFillEvent (e\<lparr>bf_quantity := stored_decimal (bf_quantity e),
                        bf_execution_price := stored_decimal (bf_execution_price e)\<rparr>)"

definition stored_fill :: "live_fill \<Rightarrow> live_fill" where
  "stored_fill f = f\<lparr>lf_quantity := stored_decimal (lf_quantity f),
     lf_execution_price := stored_decimal (lf_execution_price f)\<rparr>"

text \<open>
  The constructors that decoding runs, innermost first. Whatever one of them raises, the journal
  reports a failed integrity check.
\<close>

definition reread :: "'a result \<Rightarrow> 'a jresult" where
  "reread m = (case m of Inl e \<Rightarrow> Inl (JournalIntegrity ''live journal integrity check failed'') | Inr x \<Rightarrow> Inr x)"

fun live_command_init :: "live_command \<Rightarrow> live_command result" where
  "live_command_init (NewOrderCommand c) =
     ethen (live_order_intent_init (nw_intent c)) (ethen (new_order_command_init c) (Inr (NewOrderCommand c)))"
| "live_command_init (CancelOrderCommand c) = ethen (cancel_order_command_init c) (Inr (CancelOrderCommand c))"
| "live_command_init (AmendOrderCommand c) = ethen (amend_order_command_init c) (Inr (AmendOrderCommand c))"
| "live_command_init (DecreaseOrderCommand c) = ethen (decrease_order_command_init c) (Inr (DecreaseOrderCommand c))"

definition order_parts_init :: "hashes \<Rightarrow> live_order \<Rightarrow> live_order result" where
  "order_parts_init h x =
     ethen (live_order_intent_init (lo_intent x)) (
     ethen (optionally (\<lambda>b. ethen (live_command_init (pb_command b))
              (ethen (pending_command_binding_init h b) (Inr ()))) (lo_pending_command x))
     (live_order_init x))"

fun event_init :: "broker_event \<Rightarrow> broker_event result" where
  "event_init (BrokerOrderEvent e) =
     ethen (broker_correlation_init (be_correlation e)) (ethen (broker_order_event_init e) (Inr (BrokerOrderEvent e)))"
| "event_init (BrokerFillEvent e) =
     ethen (broker_correlation_init (bf_correlation e)) (ethen (broker_fill_event_init e) (Inr (BrokerFillEvent e)))"

end
