(* ===== verification/Commit_Authorization.thy ===== *)
theory Commit_Authorization
  imports Journal_Values
begin

text \<open>
  The authorization of one reconciliation commit: the contracts of
  \<open>orders/live_reconciliation_authorization_contracts.py\<close>, the canonical digests and the validation of
  \<open>orders/live_reconciliation_authorization.py\<close>, and the value trees of everything a commit request
  holds, from which the digest that binds an authorization to its request is made.
\<close>

section \<open>Value trees of a commit request\<close>

definition py_position :: "broker_position \<Rightarrow> py_value" where
  "py_position p = PyData ''BrokerPosition''
     [(''account_id'', PyStr (bp_account_id p)), (''instrument_id'', PyStr (bp_instrument_id p)),
      (''net_quantity'', PyDecimal (bp_net_quantity p)),
      (''average_open_price'', py_opt PyDecimal (bp_average_open_price p)),
      (''observed_at'', PyTime (bp_observed_at p))]"

definition py_attribution :: "position_attribution \<Rightarrow> py_value" where
  "py_attribution a = PyData ''StrategyPositionAttribution''
     [(''strategy_id'', PyStr (pa_strategy_id a)), (''account_id'', PyStr (pa_account_id a)),
      (''instrument_id'', PyStr (pa_instrument_id a)),
      (''attributed_quantity'', PyDecimal (pa_attributed_quantity a)), (''as_of'', PyTime (pa_as_of a))]"

definition py_open_observation :: "open_order_observation \<Rightarrow> py_value" where
  "py_open_observation x = PyData ''BrokerOpenOrderObservation''
     [(''observation_id'', PyStr (oo_observation_id x)), (''account_id'', PyStr (oo_account_id x)),
      (''instrument_id'', PyStr (oo_instrument_id x)),
      (''side'', PyEnum ''LiveSide'' (live_side_value (oo_side x))),
      (''working_total_quantity'', PyDecimal (oo_working_total_quantity x)),
      (''working_remaining_quantity'', PyDecimal (oo_working_remaining_quantity x)),
      (''working_limit_price'', py_opt PyDecimal (oo_working_limit_price x)),
      (''correlation'', py_correlation (oo_correlation x)), (''observed_at'', PyTime (oo_observed_at x))]"

definition py_fill_observation :: "fill_observation \<Rightarrow> py_value" where
  "py_fill_observation x = PyData ''BrokerFillObservation''
     [(''observation_id'', PyStr (fo_observation_id x)), (''account_id'', PyStr (fo_account_id x)),
      (''instrument_id'', PyStr (fo_instrument_id x)),
      (''side'', PyEnum ''LiveSide'' (live_side_value (fo_side x))),
      (''quantity'', PyDecimal (fo_quantity x)), (''execution_price'', PyDecimal (fo_execution_price x)),
      (''correlation'', py_correlation (fo_correlation x)), (''observed_at'', PyTime (fo_observed_at x)),
      (''occurred_at'', py_opt PyTime (fo_occurred_at x))]"

definition py_discrepancy :: "discrepancy \<Rightarrow> py_value" where
  "py_discrepancy d = PyData ''ReconciliationDiscrepancy''
     [(''discrepancy_id'', PyStr (di_discrepancy_id d)),
      (''kind'', PyEnum ''ReconciliationKind'' (reconciliation_kind_value (di_kind d))),
      (''account_id'', PyStr (di_account_id d)), (''instrument_id'', PyStr (di_instrument_id d)),
      (''observed_at'', PyTime (di_observed_at d)),
      (''client_order_id'', py_opt PyStr (di_client_order_id d)),
      (''expected_quantity'', py_opt PyDecimal (di_expected_quantity d)),
      (''actual_quantity'', py_opt PyDecimal (di_actual_quantity d))]"

fun query_kind_value :: "evidence_query_kind \<Rightarrow> string" where
  "query_kind_value OPEN_ORDERS = ''open_orders''"
| "query_kind_value FILLS = ''fills''"
| "query_kind_value POSITIONS = ''positions''"
| "query_kind_value REPLY_BACKFILL = ''reply_backfill''"

fun completeness_value :: "evidence_completeness \<Rightarrow> string" where
  "completeness_value COMPLETE = ''complete''"
| "completeness_value INCOMPLETE = ''incomplete''"
| "completeness_value EVIDENCE_UNKNOWN = ''unknown''"

definition py_evidence :: "completeness_evidence \<Rightarrow> py_value" where
  "py_evidence e = PyData ''CompletenessEvidence''
     [(''query_kind'', PyEnum ''EvidenceQueryKind'' (query_kind_value (ce_query_kind e))),
      (''account_id'', PyStr (ce_account_id e)),
      (''status'', PyEnum ''EvidenceCompleteness'' (completeness_value (ce_status e))),
      (''observed_at'', PyTime (ce_observed_at e)), (''source_cursor'', PyStr (ce_source_cursor e)),
      (''reason'', py_opt PyStr (ce_reason e))]"

definition py_open_orders :: "open_orders_snapshot \<Rightarrow> py_value" where
  "py_open_orders s = PyData ''OpenOrdersSnapshot''
     [(''orders'', PyTuple (map py_open_observation (os_orders s))), (''evidence'', py_evidence (os_evidence s))]"

definition py_fills_snapshot :: "fills_snapshot \<Rightarrow> py_value" where
  "py_fills_snapshot s = PyData ''BrokerFillsSnapshot''
     [(''fills'', PyTuple (map py_fill_observation (fs_fills s))), (''evidence'', py_evidence (fs_evidence s))]"

definition py_positions_snapshot :: "positions_snapshot \<Rightarrow> py_value" where
  "py_positions_snapshot s = PyData ''BrokerPositionsSnapshot''
     [(''positions'', PyTuple (map py_position (ps_positions s))), (''evidence'', py_evidence (ps_evidence s))]"

fun reconciliation_status_value :: "reconciliation_status \<Rightarrow> string" where
  "reconciliation_status_value RECON_COMPLETE = ''complete''"
| "reconciliation_status_value RECON_INCOMPLETE = ''incomplete''"
| "reconciliation_status_value RECON_AMBIGUOUS = ''ambiguous''"

definition py_reconciliation_result :: "reconciliation_result \<Rightarrow> py_value" where
  "py_reconciliation_result r = PyData ''ReconciliationResult''
     [(''account_id'', PyStr (rr_account_id r)),
      (''status'', PyEnum ''ReconciliationStatus'' (reconciliation_status_value (rr_status r))),
      (''discrepancies'', PyTuple (map py_discrepancy (rr_discrepancies r))),
      (''evidence'', PyTuple (map py_evidence (rr_evidence r))), (''reconciled_at'', PyTime (rr_reconciled_at r))]"

definition py_local_snapshot :: "local_snapshot \<Rightarrow> py_value" where
  "py_local_snapshot s = PyData ''LocalReconciliationSnapshot''
     [(''account_id'', PyStr (ls_account_id s)), (''orders'', PyTuple (map py_order (ls_orders s))),
      (''fills'', PyTuple (map py_fill (ls_fills s))),
      (''position_attributions'', PyTuple (map py_attribution (ls_position_attributions s))),
      (''as_of'', PyTime (ls_as_of s)), (''recovery_blockers'', PyTuple (map PyStr (ls_recovery_blockers s))),
      (''journal_sequence'', PyInt (ls_journal_sequence s))]"

definition py_broker_snapshot :: "reconciliation_snapshot \<Rightarrow> py_value" where
  "py_broker_snapshot b = PyData ''BrokerReconciliationSnapshot''
     [(''snapshot_id'', PyStr (sb_snapshot_id b)), (''account_id'', PyStr (sb_account_id b)),
      (''open_orders'', py_open_orders (sb_open_orders b)), (''fills'', py_fills_snapshot (sb_fills_seen b)),
      (''positions'', py_positions_snapshot (sb_positions_seen b)), (''captured_at'', PyTime (sb_captured_at b))]"

definition py_assessment :: "assessment \<Rightarrow> py_value" where
  "py_assessment a = PyData ''ReconciliationAssessment''
     [(''local_snapshot'', py_local_snapshot (at_local a)), (''broker_snapshot'', py_broker_snapshot (at_broker a)),
      (''result'', py_reconciliation_result (at_result a))]"

fun claim_resolution_value :: "claim_resolution \<Rightarrow> string" where
  "claim_resolution_value CLAIM_ORDER_CONFIRMED = ''broker_order_confirmed''"
| "claim_resolution_value CLAIM_FILL_CONFIRMED = ''broker_fill_confirmed''"

fun observation_status_value :: "observation_status \<Rightarrow> string" where
  "observation_status_value OBSERVATION_UNRESOLVED = ''unresolved''"
| "observation_status_value OBSERVATION_CONFLICT = ''conflict''"
| "observation_status_value OBSERVATION_AMBIGUOUS = ''ambiguous''"

fun observation_resolution_value :: "observation_resolution \<Rightarrow> string" where
  "observation_resolution_value OBSERVED_ORDER_CONFIRMED = ''broker_order_confirmed''"
| "observation_resolution_value OBSERVED_FILL_CONFIRMED = ''broker_fill_confirmed''"

fun requirement_resolution_value :: "requirement_resolution \<Rightarrow> string" where
  "requirement_resolution_value SATISFIED = ''satisfied''"

definition py_expected_version :: "expected_order_version \<Rightarrow> py_value" where
  "py_expected_version v = PyData ''ExpectedOrderVersion''
     [(''client_order_id'', PyStr (ev_client_order_id v)), (''version'', PyInt (ev_version v))]"

definition py_claim_directive :: "claim_directive \<Rightarrow> py_value" where
  "py_claim_directive d = PyData ''ClaimResolutionDirective''
     [(''client_command_id'', PyStr (cl_client_command_id d)), (''claim_token'', PyStr (cl_claim_token d)),
      (''resolution'', PyEnum ''ClaimResolution'' (claim_resolution_value (cl_resolution d)))]"

definition py_observation_directive :: "observation_directive \<Rightarrow> py_value" where
  "py_observation_directive d = PyData ''ObservationResolutionDirective''
     [(''observation_id'', PyStr (od_observation_id d)),
      (''expected_status'', PyEnum ''ObservationStatus'' (observation_status_value (od_expected_status d))),
      (''normalized_event_id'', PyStr (od_normalized_event_id d)),
      (''resolution'', PyEnum ''ObservationResolution'' (observation_resolution_value (od_resolution d)))]"

definition py_requirement_directive :: "requirement_directive \<Rightarrow> py_value" where
  "py_requirement_directive d = PyData ''RequirementResolutionDirective''
     [(''requirement_id'', PyInt (rd_requirement_id d)),
      (''resolution'', PyEnum ''RequirementResolution'' (requirement_resolution_value (rd_resolution d)))]"

definition py_commit_request :: "commit_request \<Rightarrow> py_value" where
  "py_commit_request r = PyData ''DurableReconciliationCommitRequest''
     [(''commit_id'', PyStr (cr_commit_id r)), (''account_id'', PyStr (cr_account_id r)),
      (''assessment'', py_assessment (cr_assessment r)),
      (''expected_journal_sequence'', PyInt (cr_expected_journal_sequence r)),
      (''expected_order_versions'', PyTuple (map py_expected_version (cr_expected_order_versions r))),
      (''claim_resolutions'', PyTuple (map py_claim_directive (cr_claim_resolutions r))),
      (''observation_resolutions'', PyTuple (map py_observation_directive (cr_observation_resolutions r))),
      (''requirement_resolutions'', PyTuple (map py_requirement_directive (cr_requirement_resolutions r))),
      (''order_projections'', PyTuple (map py_order (cr_order_projections r)))]"

section \<open>Authorizations\<close>

definition max_authorization_ttl :: instant where
  "max_authorization_ttl = 300 * 1000000"

text \<open>The only action is the commit, so an authorization carries no field for it.\<close>

definition authorization_action :: string where
  "authorization_action = ''reconciliation_commit''"

record commit_authorization =
  ca_authorization_id :: string
  ca_principal_id :: string
  ca_authority_context_digest :: string
  ca_journal_id :: string
  ca_account_id :: string
  ca_source_inspection_digest :: string
  ca_operator_plan_digest :: string
  ca_commit_id :: string
  ca_request_digest :: string
  ca_broker_snapshot_id :: string
  ca_expected_journal_sequence :: int
  ca_authorized_at :: instant
  ca_expires_at :: instant
  ca_reason_code :: string

definition commit_authorization_init :: "commit_authorization \<Rightarrow> commit_authorization result" where
  "commit_authorization_init a =
     ethen (port_identifier ''authorization_id'' (ca_authorization_id a)) (
     ethen (port_identifier ''principal_id'' (ca_principal_id a)) (
     ethen (port_identifier ''journal_id'' (ca_journal_id a)) (
     ethen (port_identifier ''account_id'' (ca_account_id a)) (
     ethen (port_identifier ''commit_id'' (ca_commit_id a)) (
     ethen (port_identifier ''broker_snapshot_id'' (ca_broker_snapshot_id a)) (
     ethen (port_identifier ''reason_code'' (ca_reason_code a)) (
     ethen (port_fingerprint ''authority_context_digest'' (ca_authority_context_digest a)) (
     ethen (port_fingerprint ''source_inspection_digest'' (ca_source_inspection_digest a)) (
     ethen (port_fingerprint ''operator_plan_digest'' (ca_operator_plan_digest a)) (
     ethen (port_fingerprint ''request_digest'' (ca_request_digest a)) (
     ethen (plan_nonnegative ''expected_journal_sequence'' (ca_expected_journal_sequence a)) (
     ethen (require (ca_authorized_at a < ca_expires_at a)
              (ValueError ''authorization TTL must be positive'')) (
     ethen (require (ca_expires_at a - ca_authorized_at a \<le> max_authorization_ttl)
              (ValueError ''authorization TTL must not exceed maximum''))
     (Inr a))))))))))))))"

definition py_authorization :: "commit_authorization \<Rightarrow> py_value" where
  "py_authorization a = PyData ''ReconciliationCommitAuthorization''
     [(''authorization_id'', PyStr (ca_authorization_id a)), (''principal_id'', PyStr (ca_principal_id a)),
      (''authority_context_digest'', PyStr (ca_authority_context_digest a)),
      (''action'', PyEnum ''ReconciliationAuthorizationAction'' authorization_action),
      (''journal_id'', PyStr (ca_journal_id a)), (''account_id'', PyStr (ca_account_id a)),
      (''source_inspection_digest'', PyStr (ca_source_inspection_digest a)),
      (''operator_plan_digest'', PyStr (ca_operator_plan_digest a)), (''commit_id'', PyStr (ca_commit_id a)),
      (''request_digest'', PyStr (ca_request_digest a)), (''broker_snapshot_id'', PyStr (ca_broker_snapshot_id a)),
      (''expected_journal_sequence'', PyInt (ca_expected_journal_sequence a)),
      (''authorized_at'', PyTime (ca_authorized_at a)), (''expires_at'', PyTime (ca_expires_at a)),
      (''reason_code'', PyStr (ca_reason_code a))]"

record authorized_request =
  az_authorization :: commit_authorization
  az_request :: commit_request

definition authorized_request_init :: "authorized_request \<Rightarrow> authorized_request result" where
  "authorized_request_init v =
     (let a = az_authorization v; r = az_request v in
     ethen (require (ca_account_id a = cr_account_id r)
              (ValueError ''authorization account must match request account'')) (
     ethen (require (ca_commit_id a = cr_commit_id r)
              (ValueError ''authorization commit_id must match request commit_id'')) (
     ethen (require (ca_expected_journal_sequence a = cr_expected_journal_sequence r)
              (ValueError ''authorization journal sequence must match request'')) (
     ethen (require (ca_broker_snapshot_id a = sb_snapshot_id (at_broker (cr_assessment r)))
              (ValueError ''authorization broker snapshot must match request''))
     (Inr v)))))"

section \<open>Digests and validation\<close>

definition commit_request_domain :: string where
  "commit_request_domain = ''tx_trade.live.journal.reconciliation-commit-request.v2''"

definition authorization_domain :: string where
  "authorization_domain = ''tx_trade.live.journal.reconciliation-authorization.v3''"

definition commit_request_digest :: "hashes \<Rightarrow> commit_request \<Rightarrow> string jresult" where
  "commit_request_digest h r =
     ebind (encode_journal_value (py_commit_request r)) (\<lambda>payload.
     Inr (journal_digest h commit_request_domain payload))"

definition authorization_digest :: "hashes \<Rightarrow> commit_authorization \<Rightarrow> string jresult" where
  "authorization_digest h a =
     ebind (encode_journal_value (py_authorization a)) (\<lambda>payload.
     Inr (journal_digest h authorization_domain payload))"

text \<open>
  \<open>authorize_reconciliation_commit\<close>: the caller gives the identity of the authorization, the others
  are those of the request.
\<close>

definition authorize_reconciliation_commit ::
  "hashes \<Rightarrow> commit_authorization \<Rightarrow> commit_request \<Rightarrow> authorized_request jresult" where
  "authorize_reconciliation_commit h a r =
     ebind (commit_request_digest h r) (\<lambda>digest.
     ebind (python (commit_authorization_init (a\<lparr>
              ca_account_id := cr_account_id r, ca_commit_id := cr_commit_id r, ca_request_digest := digest,
              ca_broker_snapshot_id := sb_snapshot_id (at_broker (cr_assessment r)),
              ca_expected_journal_sequence := cr_expected_journal_sequence r\<rparr>))) (\<lambda>authorization.
     python (authorized_request_init \<lparr>az_authorization = authorization, az_request = r\<rparr>)))"

definition validate_authorized_commit :: "hashes \<Rightarrow> authorized_request \<Rightarrow> authorized_request jresult" where
  "validate_authorized_commit h v =
     (case ethen (python (authorized_request_init v)) (commit_request_digest h (az_request v)) of
        Inr digest \<Rightarrow>
          if ca_request_digest (az_authorization v) = digest then Inr v
          else Inl (AuthorizationError INVALID_AUTHORIZATION)
      | Inl e \<Rightarrow> Inl (AuthorizationError INVALID_AUTHORIZATION))"

end
