(* ===== verification/Journal_Tables.thy ===== *)
theory Journal_Tables
  imports Commit_Authorization
begin

text \<open>
  The tables of the durable journal (\<open>orders/live_journal_schema.sql\<close>) and the row access of
  \<open>orders/sqlite_live_order_journal.py\<close>: one dictionary per table with a primary key, in insertion order,
  and a list for a table numbered by SQLite, whose sequence number is the position counted from one.
  An insertion checks the constraints of its table and of the tables it refers to. A payload column is
  the value that reading it back decodes, beside its digest; a Decimal in it is the stored one. The
  payload of a commit request is compared as a text too, and is kept as both.
\<close>

section \<open>Rows\<close>

record record_row =
  rec_kind :: string
  rec_id :: string
  rec_digest :: string
  rec_at :: instant

record order_row =
  row_account_id :: string
  row_state :: string
  row_version :: int
  row_order :: live_order
  row_digest :: string
  row_updated_at :: instant

record history_row =
  hist_order_id :: string
  hist_version :: int
  hist_order :: live_order
  hist_digest :: string
  hist_at :: instant

record command_row =
  cmd_order_id :: string
  cmd_kind :: string
  cmd_fingerprint :: string
  cmd_command :: live_command
  cmd_digest :: string
  cmd_registered_at :: instant

record claim_row =
  clm_token :: string
  clm_claimant :: string
  clm_expected_order_version :: int
  clm_version :: int
  clm_claimed_at :: instant

record receipt_row =
  rct_fingerprint :: string
  rct_receipt :: dispatch_receipt
  rct_digest :: string
  rct_recorded_at :: instant

datatype resolution_status = STATUS_UNRESOLVED | STATUS_AMBIGUOUS | STATUS_RESOLVED | STATUS_CONFLICT

fun resolution_status_text :: "resolution_status \<Rightarrow> string" where
  "resolution_status_text STATUS_UNRESOLVED = ''unresolved''"
| "resolution_status_text STATUS_AMBIGUOUS = ''ambiguous''"
| "resolution_status_text STATUS_RESOLVED = ''resolved''"
| "resolution_status_text STATUS_CONFLICT = ''conflict''"

record raw_row =
  raw_source :: string
  raw_generation :: int
  raw_sequence :: int
  raw_received_at :: instant
  raw_value :: raw_observation
  raw_digest :: string
  raw_status :: resolution_status

record event_row =
  evt_raw_id :: string
  evt_fingerprint :: string
  evt_event :: broker_event
  evt_digest :: string
  evt_received_at :: instant

record application_row =
  app_order_id :: "string option"
  app_disposition :: application_disposition
  app_failure :: "live_failure_code option"
  app_at :: instant

record fill_row =
  fil_order_id :: string
  fil_event_id :: string
  fil_fill :: live_fill
  fil_digest :: string

text \<open>The rows of a reconciliation commit: the request, what it resolved, and the authorization it consumed.\<close>

record commit_row =
  com_account_id :: string
  com_expected_sequence :: int
  com_base_sequence :: int
  com_snapshot_id :: string
  com_payload :: string
  com_request :: commit_request
  com_digest :: string
  com_at :: instant
  com_resulting_sequence :: int

record claim_resolution_row =
  crr_commit_id :: string
  crr_token :: string
  crr_claim_version :: int
  crr_order_version :: int
  crr_precondition :: string
  crr_kind :: string
  crr_at :: instant
  crr_digest :: string

record observation_resolution_row =
  orr_commit_id :: string
  orr_status :: string
  orr_precondition :: string
  orr_event_id :: string
  orr_kind :: string
  orr_at :: instant
  orr_digest :: string

record requirement_resolution_row =
  qrr_commit_id :: string
  qrr_precondition :: string
  qrr_kind :: string
  qrr_at :: instant
  qrr_digest :: string

record authorization_row =
  aut_authorization :: commit_authorization
  aut_consumed_at :: instant
  aut_digest :: string
  aut_resulting_sequence :: int

record journal_tables =
  t_records :: "record_row list"
  t_reservations :: "(string, string \<times> instant) dict"
  t_orders :: "(string, order_row) dict"
  t_history :: "history_row list"
  t_commands :: "(string, command_row) dict"
  t_claims :: "(string, claim_row) dict"
  t_receipts :: "(string, receipt_row) dict"
  t_raw :: "(string, raw_row) dict"
  t_events :: "(string, event_row) dict"
  t_applications :: "(string, application_row) dict"
  t_fills :: "(string, fill_row) dict"
  t_ambiguity :: "(string \<times> string) list"
  t_requirements :: "durable_requirement list"
  t_commits :: "(string, commit_row) dict"
  t_claim_resolutions :: "(string, claim_resolution_row) dict"
  t_observation_resolutions :: "(string, observation_resolution_row) dict"
  t_requirement_resolutions :: "(int, requirement_resolution_row) dict"
  t_authorizations :: "(string, authorization_row) dict"

definition empty_tables :: journal_tables where
  "empty_tables =
     \<lparr>t_records = [], t_reservations = [], t_orders = [], t_history = [], t_commands = [], t_claims = [],
      t_receipts = [], t_raw = [], t_events = [], t_applications = [], t_fills = [], t_ambiguity = [],
      t_requirements = [], t_commits = [], t_claim_resolutions = [], t_observation_resolutions = [],
      t_requirement_resolutions = [], t_authorizations = []\<rparr>"

section \<open>Rows in and out\<close>

definition integrity :: "string \<Rightarrow> 'a jresult" where
  "integrity message = Inl (JournalIntegrity message)"

definition constraint :: "bool \<Rightarrow> unit jresult" where
  "constraint ok = require ok SqliteConstraint"

definition insert_row :: "'k \<Rightarrow> 'v \<Rightarrow> ('k, 'v) dict \<Rightarrow> ('k, 'v) dict jresult" where
  "insert_row k v d = ethen (constraint (dget d k = None)) (Inr (dset k v d))"

text \<open>\<open>_append_record\<close>: the number of the new record.\<close>

definition append_record ::
  "string \<Rightarrow> string \<Rightarrow> string \<Rightarrow> instant \<Rightarrow> journal_tables \<Rightarrow> (int \<times> journal_tables) jresult" where
  "append_record kind i digest moment t =
     ethen (constraint (list_all (\<lambda>r. \<not> (rec_kind r = kind \<and> rec_id r = i)) (t_records t)))
       (Inr (int (Suc (length (t_records t))),
             t\<lparr>t_records := t_records t @ [\<lparr>rec_kind = kind, rec_id = i, rec_digest = digest, rec_at = moment\<rparr>]\<rparr>))"

definition order_domain :: string where "order_domain = ''tx_trade.live.journal.order.v1''"
definition command_domain_text :: string where "command_domain_text = ''tx_trade.live.journal.command.v1''"
definition claim_domain :: string where "claim_domain = ''tx_trade.live.journal.dispatch-claim.v1''"
definition receipt_domain :: string where "receipt_domain = ''tx_trade.live.journal.receipt.v1''"
definition raw_domain :: string where "raw_domain = ''tx_trade.live.journal.raw-observation.v1''"
definition event_domain :: string where "event_domain = ''tx_trade.live.journal.normalized-event.v1''"
definition fill_domain :: string where "fill_domain = ''tx_trade.live.journal.fill.v1''"
definition requirement_domain :: string where "requirement_domain = ''tx_trade.live.journal.reconciliation.v1''"

fun command_order_id :: "live_command \<Rightarrow> string" where
  "command_order_id (NewOrderCommand c) = li_client_order_id (nw_intent c)"
| "command_order_id (CancelOrderCommand c) = cc_client_order_id c"
| "command_order_id (AmendOrderCommand c) = am_client_order_id c"
| "command_order_id (DecreaseOrderCommand c) = dc_client_order_id c"

text \<open>\<open>_load_order_row\<close>, \<open>_load_history_order\<close>, \<open>_load_command\<close>.\<close>

definition load_order_row :: "hashes \<Rightarrow> string \<Rightarrow> journal_tables \<Rightarrow> live_order option jresult" where
  "load_order_row h i t =
     (case dget (t_orders t) i of
        None \<Rightarrow> Inr None
      | Some r \<Rightarrow>
          ebind (reread (order_parts_init h (row_order r))) (\<lambda>x.
          if i \<noteq> li_client_order_id (lo_intent x) \<or> row_account_id r \<noteq> li_account_id (lo_intent x)
             \<or> row_state r \<noteq> live_state_value (lo_state x) \<or> row_version r \<noteq> lo_version x
             \<or> row_updated_at r \<noteq> lo_updated_at x
          then integrity ''live journal order projection is invalid'' else Inr (Some x)))"

definition load_history_order :: "hashes \<Rightarrow> string \<Rightarrow> int \<Rightarrow> journal_tables \<Rightarrow> live_order option jresult" where
  "load_history_order h i v t =
     (case find (\<lambda>r. hist_order_id r = i \<and> hist_version r = v) (t_history t) of
        None \<Rightarrow> Inr None
      | Some r \<Rightarrow>
          ebind (reread (order_parts_init h (hist_order r))) (\<lambda>x.
          if li_client_order_id (lo_intent x) \<noteq> i \<or> lo_version x \<noteq> v
          then integrity ''live journal order history is invalid'' else Inr (Some x)))"

definition load_command :: "hashes \<Rightarrow> string \<Rightarrow> journal_tables \<Rightarrow> live_command jresult" where
  "load_command h i t =
     (case dget (t_commands t) i of
        None \<Rightarrow> integrity ''live journal command is missing''
      | Some r \<Rightarrow>
          ebind (reread (live_command_init (cmd_command r))) (\<lambda>c.
          ebind (python (payload_fingerprint h c)) (\<lambda>fingerprint.
          if i \<noteq> command_id_of c \<or> cmd_order_id r \<noteq> command_order_id c
             \<or> cmd_kind r \<noteq> kind_value (command_kind_of c) \<or> cmd_fingerprint r \<noteq> fingerprint
          then integrity ''live journal command is invalid'' else Inr c)))"

text \<open>\<open>_write_order\<close>: the new row and its history; false when the row does not have the expected version.\<close>

definition order_columns :: "live_order \<Rightarrow> string \<Rightarrow> order_row" where
  "order_columns x digest =
     \<lparr>row_account_id = li_account_id (lo_intent x), row_state = live_state_value (lo_state x),
      row_version = lo_version x, row_order = stored_order x, row_digest = digest,
      row_updated_at = lo_updated_at x\<rparr>"

definition insert_history :: "live_order \<Rightarrow> string \<Rightarrow> journal_tables \<Rightarrow> journal_tables jresult" where
  "insert_history x digest t =
     (let i = li_client_order_id (lo_intent x) in
      ethen (constraint (dget (t_orders t) i \<noteq> None \<and> 0 < lo_version x)) (
      ethen (constraint (list_all (\<lambda>r. \<not> (hist_order_id r = i \<and> hist_version r = lo_version x)) (t_history t)))
        (Inr (t\<lparr>t_history := t_history t @
           [\<lparr>hist_order_id = i, hist_version = lo_version x, hist_order = stored_order x,
             hist_digest = digest, hist_at = lo_updated_at x\<rparr>]\<rparr>))))"

definition write_order ::
  "hashes \<Rightarrow> live_order \<Rightarrow> int option \<Rightarrow> journal_tables \<Rightarrow> (bool \<times> journal_tables) jresult" where
  "write_order h x expected t =
     ebind (journal_encode h (py_order x) order_domain) (\<lambda>(payload, digest).
     let i = li_client_order_id (lo_intent x); row = order_columns x digest in
     case expected of
       None \<Rightarrow>
         ethen (constraint (dget (t_reservations t) i \<noteq> None \<and> 0 < lo_version x)) (
         ebind (insert_row i row (t_orders t)) (\<lambda>orders.
         ebind (insert_history x digest (t\<lparr>t_orders := orders\<rparr>)) (\<lambda>t'. Inr (True, t'))))
     | Some v \<Rightarrow>
         (case dget (t_orders t) i of
            None \<Rightarrow> Inr (False, t)
          | Some old \<Rightarrow>
              if row_version old \<noteq> v then Inr (False, t)
              else
                ethen (constraint (0 < lo_version x)) (
                ebind (insert_history x digest (t\<lparr>t_orders := dset i row (t_orders t)\<rparr>)) (\<lambda>t'.
                Inr (True, t')))))"

text \<open>\<open>_insert_command\<close>.\<close>

definition insert_command :: "hashes \<Rightarrow> live_command \<Rightarrow> string \<Rightarrow> journal_tables \<Rightarrow> journal_tables jresult" where
  "insert_command h c fingerprint t =
     ebind (journal_encode h (py_command c) command_domain_text) (\<lambda>(payload, digest).
     ethen (constraint (dget (t_orders t) (command_order_id c) \<noteq> None)) (
     ebind (insert_row (command_id_of c)
              \<lparr>cmd_order_id = command_order_id c, cmd_kind = kind_value (command_kind_of c),
               cmd_fingerprint = fingerprint, cmd_command = stored_command c, cmd_digest = digest,
               cmd_registered_at = requested_at_of c\<rparr> (t_commands t)) (\<lambda>commands.
     Inr (t\<lparr>t_commands := commands\<rparr>))))"

section \<open>The ledger of applied events\<close>

text \<open>
  \<open>_load_applied_event_ledger\<close>: the receipts, then the applied events, in the order of insertion; a
  stored value that no longer validates or has another key or fingerprint fails the integrity check.
\<close>

definition receipt_entry :: "hashes \<Rightarrow> string \<times> receipt_row \<Rightarrow> event_ledger \<Rightarrow> event_ledger jresult" where
  "receipt_entry h kr l =
     (let (i, r) = kr in
      ebind (reread (dispatch_receipt_init (rct_receipt r))) (\<lambda>receipt.
      if i \<noteq> dr_client_command_id receipt \<or> rct_fingerprint r \<noteq> dr_payload_fingerprint receipt
      then integrity ''live journal receipt is invalid''
      else Inr (l @ [\<lparr>ae_source = ''dispatch'', ae_event_id = i, ae_fingerprint = dispatch_fingerprint h receipt\<rparr>])))"

definition event_entry ::
  "hashes \<Rightarrow> (string, application_row) dict \<Rightarrow> string \<times> event_row \<Rightarrow> event_ledger \<Rightarrow> event_ledger jresult" where
  "event_entry h applications kr l =
     (let (i, r) = kr in
      if map_option app_disposition (dget applications i) \<noteq> Some EVENT_APPLIED then Inr l
      else
        ebind (reread (event_init (evt_event r))) (\<lambda>e.
        ebind (python (broker_semantic_fingerprint h e)) (\<lambda>semantic.
        if i \<noteq> event_id_of e \<or> evt_fingerprint r \<noteq> semantic
        then integrity ''live journal event is invalid''
        else Inr (l @ [\<lparr>ae_source = ''broker-event'', ae_event_id = i, ae_fingerprint = evt_fingerprint r\<rparr>]))))"

definition load_applied_event_ledger :: "hashes \<Rightarrow> journal_tables \<Rightarrow> event_ledger jresult" where
  "load_applied_event_ledger h t =
     ebind (efold (receipt_entry h) (t_receipts t) []) (efold (event_entry h (t_applications t)) (t_events t))"

end
