(* ===== verification/Journal_Store.thy ===== *)
theory Journal_Store
  imports Journal_Tables
begin

text \<open>
  The operations of \<open>orders/sqlite_live_order_journal.py\<close> on open journal tables. A transaction is a
  function from the tables to the answer and the new tables; an exception gives no tables, which is
  the rollback. What an operation answers after its commit is an answer that may itself be an
  exception. \<open>journal_operation\<close> is the combination of \<open>_operation\<close>, \<open>_transaction\<close> and the
  \<open>except\<close> clauses every operation has.
\<close>

section \<open>Operations and transactions\<close>

record journal =
  jn_closed :: bool
  jn_tables :: journal_tables

text \<open>What the journal asks its environment for: the clock and the factory of claim tokens.\<close>

record journal_env =
  je_now :: "instant result"
  je_token :: "string result"

definition journal_now :: "journal_env \<Rightarrow> instant jresult" where
  "journal_now env = python (je_now env)"

fun sqlite_failure :: "journal_exn \<Rightarrow> journal_exn" where
  "sqlite_failure SqliteFull = JournalCapacity ''live journal capacity exceeded''"
| "sqlite_failure SqliteConstraint = JournalIntegrity ''live journal operation failed''"
| "sqlite_failure SqliteOther = JournalIntegrity ''live journal operation failed''"
| "sqlite_failure e = e"

fun poisons :: "journal_exn \<Rightarrow> bool" where
  "poisons (JournalIntegrity m) = True"
| "poisons (JournalCapacity m) = True"
| "poisons e = False"

type_synonym 'a transaction = "journal_tables \<Rightarrow> ('a jresult \<times> journal_tables) jresult"

definition journal_operation :: "'a jresult \<Rightarrow> 'a transaction \<Rightarrow> journal \<Rightarrow> 'a jresult \<times> journal" where
  "journal_operation on_cas body j =
     (if jn_closed j then (Inl (JournalClosed ''live journal is closed''), j)
      else case body (jn_tables j) of
             Inr (answer, t) \<Rightarrow> (answer, j\<lparr>jn_tables := t\<rparr>)
           | Inl CasMismatch \<Rightarrow> (on_cas, j)
           | Inl e \<Rightarrow> (Inl (sqlite_failure e), if poisons (sqlite_failure e) then j\<lparr>jn_closed := True\<rparr> else j))"

text \<open>An answer that is returned from inside the transaction.\<close>

definition answer :: "'a result \<Rightarrow> journal_tables \<Rightarrow> ('a jresult \<times> journal_tables) jresult" where
  "answer m t = ebind (python m) (\<lambda>x. Inr (Inr x, t))"

section \<open>Equality of dataclasses\<close>

fun same_command :: "live_command \<Rightarrow> live_command \<Rightarrow> bool" where
  "same_command (NewOrderCommand a) (NewOrderCommand b) \<longleftrightarrow>
     nw_client_command_id a = nw_client_command_id b \<and> same_live_intent (nw_intent a) (nw_intent b)
     \<and> nw_requested_at a = nw_requested_at b"
| "same_command (CancelOrderCommand a) (CancelOrderCommand b) \<longleftrightarrow> a = b"
| "same_command (AmendOrderCommand a) (AmendOrderCommand b) \<longleftrightarrow>
     am_client_command_id a = am_client_command_id b \<and> am_client_order_id a = am_client_order_id b
     \<and> deq (am_new_limit_price a) (am_new_limit_price b) \<and> am_requested_at a = am_requested_at b"
| "same_command (DecreaseOrderCommand a) (DecreaseOrderCommand b) \<longleftrightarrow>
     dc_client_command_id a = dc_client_command_id b \<and> dc_client_order_id a = dc_client_order_id b
     \<and> deq (dc_expected_total_quantity a) (dc_expected_total_quantity b)
     \<and> deq (dc_new_total_quantity a) (dc_new_total_quantity b) \<and> dc_requested_at a = dc_requested_at b"
| "same_command _ _ \<longleftrightarrow> False"

definition same_binding :: "pending_command_binding \<Rightarrow> pending_command_binding \<Rightarrow> bool" where
  "same_binding a b \<longleftrightarrow>
     same_command (pb_command a) (pb_command b) \<and> pb_payload_fingerprint a = pb_payload_fingerprint b"

definition same_live_order :: "live_order \<Rightarrow> live_order \<Rightarrow> bool" where
  "same_live_order a b \<longleftrightarrow>
     same_live_intent (lo_intent a) (lo_intent b) \<and> lo_state a = lo_state b
     \<and> deq (lo_total_quantity a) (lo_total_quantity b) \<and> deq (lo_filled_quantity a) (lo_filled_quantity b)
     \<and> deq (lo_remaining_quantity a) (lo_remaining_quantity b)
     \<and> opt_deq (lo_average_fill_price a) (lo_average_fill_price b)
     \<and> opt_deq (lo_working_limit_price a) (lo_working_limit_price b)
     \<and> lo_version a = lo_version b \<and> lo_updated_at a = lo_updated_at b
     \<and> lo_accepted_at a = lo_accepted_at b
     \<and> rel_option same_binding (lo_pending_command a) (lo_pending_command b)"

definition matches_history :: "live_order option \<Rightarrow> live_order \<Rightarrow> bool" where
  "matches_history stored x = (case stored of None \<Rightarrow> False | Some y \<Rightarrow> same_live_order y x)"

section \<open>Registration of commands\<close>

definition registration ::
  "live_command \<Rightarrow> registration_disposition \<Rightarrow> live_order option \<Rightarrow> registration_result result" where
  "registration c d x = registration_result_init
     \<lparr>reg_command_id = command_id_of c, reg_disposition = d, reg_order = x\<rparr>"

text \<open>The order and the command of a new reservation, each with its record.\<close>

definition store_new_order ::
  "hashes \<Rightarrow> live_command \<Rightarrow> live_order \<Rightarrow> string \<Rightarrow> string \<Rightarrow> journal_tables \<Rightarrow> journal_tables jresult" where
  "store_new_order h c x fingerprint command_fingerprint t =
     (let i = li_client_order_id (lo_intent x) in
      ebind (insert_row i (fingerprint, requested_at_of c) (t_reservations t)) (\<lambda>reservations.
      ebind (write_order h x None (t\<lparr>t_reservations := reservations\<rparr>)) (\<lambda>(_, t).
      ebind (journal_encode h (py_order x) order_domain) (\<lambda>(_, order_digest).
      ebind (append_record ''order'' i order_digest (lo_updated_at x) t) (\<lambda>(_, t).
      ebind (insert_command h c command_fingerprint t) (\<lambda>t.
      ebind (journal_encode h (py_command c) command_domain_text) (\<lambda>(_, command_digest).
      ebind (append_record ''command'' (command_id_of c) command_digest (requested_at_of c) t) (\<lambda>(_, t).
      Inr t))))))))"

definition register_new_order_tx ::
  "hashes \<Rightarrow> live_command \<Rightarrow> live_order \<Rightarrow> string \<Rightarrow> string \<Rightarrow> registration_result transaction" where
  "register_new_order_tx h c x fingerprint command_fingerprint t =
     (let existing = map_option cmd_fingerprint (dget (t_commands t) (command_id_of c)) in
      case dget (t_reservations t) (li_client_order_id (lo_intent x)) of
        Some reserved \<Rightarrow>
          ebind (load_history_order h (li_client_order_id (lo_intent x)) (lo_version x) t) (\<lambda>stored.
          answer (registration c
            (if fst reserved = fingerprint \<and> existing = Some command_fingerprint \<and> matches_history stored x
             then COMMAND_RETRY else COMMAND_CONFLICT) None) t)
      | None \<Rightarrow>
          if existing \<noteq> None then answer (registration c COMMAND_CONFLICT None) t
          else ebind (store_new_order h c x fingerprint command_fingerprint t) (\<lambda>t.
               Inr (python (registration c COMMAND_REGISTERED (Some x)), t)))"

definition register_new_order ::
  "hashes \<Rightarrow> live_command \<Rightarrow> live_order \<Rightarrow> string \<Rightarrow> journal \<Rightarrow> registration_result jresult \<times> journal" where
  "register_new_order h c x fingerprint j =
     (case c of
        NewOrderCommand new \<Rightarrow>
          (case ethen (require (same_live_intent (lo_intent x) (nw_intent new))
                         (ValueError ''order must match the NEW command intent'')) (
                ebind (intent_fingerprint h (lo_intent x)) (\<lambda>calculated.
                ethen (require (fingerprint = calculated)
                         (ValueError ''intent_fingerprint does not match order intent''))
                  (payload_fingerprint h c))) of
             Inl e \<Rightarrow> (Inl (JournalPython e), j)
           | Inr command_fingerprint \<Rightarrow>
               journal_operation (Inl CasMismatch) (register_new_order_tx h c x fingerprint command_fingerprint) j)
      | _ \<Rightarrow> (Inl (JournalPython (TypeError ''register_new_order requires NewOrderCommand'')), j))"

definition binds_command :: "live_order \<Rightarrow> live_command \<Rightarrow> string \<Rightarrow> bool" where
  "binds_command x c fingerprint =
     (case lo_pending_command x of
        None \<Rightarrow> False
      | Some b \<Rightarrow> same_command (pb_command b) c \<and> pb_payload_fingerprint b = fingerprint)"

text \<open>The checks of a command for the current row of its order, and the write of both.\<close>

definition store_command ::
  "hashes \<Rightarrow> live_command \<Rightarrow> live_order \<Rightarrow> int \<Rightarrow> string \<Rightarrow> journal_tables \<Rightarrow> journal_tables jresult" where
  "store_command h c x expected fingerprint t =
     ethen (require (lo_version x = expected + 1)
              (JournalPython (ValueError ''registered command order must advance version exactly once''))) (
     ethen (require (binds_command x c fingerprint)
              (JournalPython (ValueError ''order must bind the exact registered command''))) (
     ebind (write_order h x (Some expected) t) (\<lambda>(written, t).
     ethen (require written CasMismatch) (
     ebind (insert_command h c fingerprint t) (\<lambda>t.
     ebind (journal_encode h (py_command c) command_domain_text) (\<lambda>(_, digest).
     ebind (append_record ''command'' (command_id_of c) digest (requested_at_of c) t) (\<lambda>(_, t).
     Inr t)))))))"

definition register_command_tx ::
  "hashes \<Rightarrow> live_command \<Rightarrow> live_order \<Rightarrow> int \<Rightarrow> string \<Rightarrow> registration_result transaction" where
  "register_command_tx h c x expected fingerprint t =
     (let i = li_client_order_id (lo_intent x) in
      case dget (t_commands t) (command_id_of c) of
        Some existing \<Rightarrow>
          ebind (load_history_order h i (lo_version x) t) (\<lambda>stored.
          answer (registration c
            (if cmd_fingerprint existing = fingerprint \<and> matches_history stored x
             then COMMAND_RETRY else COMMAND_CONFLICT) None) t)
      | None \<Rightarrow>
          ebind (load_order_row h i t) (\<lambda>current.
          case current of
            None \<Rightarrow> answer (registration c COMMAND_VERSION_MISMATCH None) t
          | Some y \<Rightarrow>
              if lo_version y \<noteq> expected then answer (registration c COMMAND_VERSION_MISMATCH None) t
              else
                ebind (if same_live_intent (lo_intent x) (lo_intent y)
                       then (case dget (t_reservations t) i of
                               None \<Rightarrow> Inr False
                             | Some reserved \<Rightarrow>
                                 ebind (python (intent_fingerprint h (lo_intent y))) (\<lambda>calculated.
                                 Inr (fst reserved = calculated)))
                       else Inr False) (\<lambda>identity_kept.
                if \<not> identity_kept then answer (registration c COMMAND_CONFLICT None) t
                else ebind (store_command h c x expected fingerprint t) (\<lambda>t.
                     Inr (python (registration c COMMAND_REGISTERED (Some x)), t)))))"

definition register_command ::
  "hashes \<Rightarrow> live_command \<Rightarrow> live_order \<Rightarrow> int \<Rightarrow> journal \<Rightarrow> registration_result jresult \<times> journal" where
  "register_command h c x expected j =
     (case ethen (require (command_order_id c = li_client_order_id (lo_intent x))
                    (ValueError ''command and order must have the same client_order_id''))
             (payload_fingerprint h c) of
        Inl e \<Rightarrow> (Inl (JournalPython e), j)
      | Inr fingerprint \<Rightarrow>
          journal_operation (python (registration c COMMAND_VERSION_MISMATCH None))
            (register_command_tx h c x expected fingerprint) j)"

section \<open>Dispatch claims\<close>

definition claim_answer ::
  "string \<Rightarrow> string \<Rightarrow> claim_disposition \<Rightarrow> int \<Rightarrow> string option \<Rightarrow> dispatch_claim result" where
  "claim_answer i fingerprint d v token = dispatch_claim_init
     \<lparr>dc_command_id = i, dc_payload_fingerprint = fingerprint, dc_disposition = d, dc_version = v,
      dc_claim_token = token\<rparr>"

text \<open>\<open>_new_claim_token\<close>\<close>

definition new_claim_token :: "journal_env \<Rightarrow> journal_tables \<Rightarrow> string jresult" where
  "new_claim_token env t =
     ebind (python (je_token env)) (\<lambda>token.
     ethen (require (identifier_ok token)
              (JournalPython (ValueError ''claim_token_factory must return a bounded ASCII identifier''))) (
     ethen (require (list_all (\<lambda>(i, r). clm_token r \<noteq> token) (t_claims t))
              (JournalConflict ''claim token is not unique''))
     (Inr token)))"

definition store_claim ::
  "hashes \<Rightarrow> journal_env \<Rightarrow> string \<Rightarrow> int \<Rightarrow> string \<Rightarrow> journal_tables \<Rightarrow> (string \<times> journal_tables) jresult" where
  "store_claim h env i expected claimant t =
     ebind (new_claim_token env t) (\<lambda>token.
     ebind (journal_now env) (\<lambda>claimed_at.
     ethen (constraint (0 < expected)) (
     ebind (insert_row i
              \<lparr>clm_token = token, clm_claimant = claimant, clm_expected_order_version = expected,
               clm_version = expected, clm_claimed_at = claimed_at\<rparr> (t_claims t)) (\<lambda>claims.
     ebind (load_command h i t) (\<lambda>c.
     ebind (python (outstanding_claim_init
              \<lparr>oc_command = c, oc_claim_token = token, oc_claimant_id = claimant,
               oc_expected_order_version = expected, oc_claimed_at = claimed_at\<rparr>)) (\<lambda>outstanding.
     ebind (journal_encode h (py_claim outstanding) claim_domain) (\<lambda>(_, digest).
     ebind (append_record ''dispatch-claim'' i digest claimed_at (t\<lparr>t_claims := claims\<rparr>)) (\<lambda>(_, t).
     Inr (token, t)))))))))"

definition claim_dispatch_tx ::
  "hashes \<Rightarrow> journal_env \<Rightarrow> string \<Rightarrow> string \<Rightarrow> int \<Rightarrow> string \<Rightarrow> dispatch_claim transaction" where
  "claim_dispatch_tx h env i fingerprint expected claimant t =
     (case dget (t_commands t) i of
        None \<Rightarrow> answer (claim_answer i fingerprint CLAIM_CONFLICT (max expected 1) None) t
      | Some c \<Rightarrow>
          (case dget (t_orders t) (cmd_order_id c) of
             None \<Rightarrow> answer (claim_answer i fingerprint CLAIM_CONFLICT (max expected 1) None) t
           | Some x \<Rightarrow>
               if cmd_fingerprint c \<noteq> fingerprint
               then answer (claim_answer i fingerprint CLAIM_CONFLICT (max expected 1) None) t
               else if row_version x \<noteq> expected
               then answer (claim_answer i fingerprint VERSION_MISMATCH (row_version x) None) t
               else (case dget (t_claims t) i of
                       Some existing \<Rightarrow>
                         answer (claim_answer i fingerprint ALREADY_CLAIMED (clm_version existing) None) t
                     | None \<Rightarrow>
                         ebind (store_claim h env i expected claimant t) (\<lambda>(token, t).
                         Inr (python (claim_answer i fingerprint ACQUIRED expected (Some token)), t)))))"

definition claim_dispatch ::
  "hashes \<Rightarrow> journal_env \<Rightarrow> string \<Rightarrow> string \<Rightarrow> int \<Rightarrow> string \<Rightarrow> journal \<Rightarrow> dispatch_claim jresult \<times> journal" where
  "claim_dispatch h env i fingerprint expected claimant =
     journal_operation (Inl CasMismatch) (claim_dispatch_tx h env i fingerprint expected claimant)"

end
