(* ===== verification/Journal_Events.thy ===== *)
theory Journal_Events
  imports Journal_Store
begin

text \<open>
  The rest of the writing operations of \<open>orders/sqlite_live_order_journal.py\<close>: dispatch receipts, raw
  observations, and the application of normalised broker events, which runs the reducer of live orders
  inside the transaction and stores what it decided.
\<close>

section \<open>Dispatch receipts\<close>

definition receipt_answer ::
  "dispatch_receipt \<Rightarrow> receipt_disposition \<Rightarrow> live_order option \<Rightarrow> receipt_result result" where
  "receipt_answer r d x = receipt_result_init
     \<lparr>rcp_command_id = dr_client_command_id r, rcp_disposition = d, rcp_order = x\<rparr>"

definition receipt_time :: "dispatch_receipt \<Rightarrow> instant" where
  "receipt_time r = (case dr_completed_at r of Some t \<Rightarrow> t | None \<Rightarrow> dr_attempted_at r)"

text \<open>The write of an order the reducer returned, when its version is a new one.\<close>

definition write_reduced :: "hashes \<Rightarrow> live_order \<Rightarrow> live_order \<Rightarrow> journal_tables \<Rightarrow> journal_tables jresult" where
  "write_reduced h old x t =
     (if lo_version x = lo_version old then Inr t
      else ebind (write_order h x (Some (lo_version old)) t) (\<lambda>(written, t).
           ethen (require written CasMismatch) (Inr t)))"

definition store_receipt ::
  "hashes \<Rightarrow> dispatch_receipt \<Rightarrow> string \<Rightarrow> journal_tables \<Rightarrow> journal_tables jresult" where
  "store_receipt h r digest t =
     ethen (constraint (dget (t_claims t) (dr_client_command_id r) \<noteq> None)) (
     ebind (insert_row (dr_client_command_id r)
              \<lparr>rct_fingerprint = dr_payload_fingerprint r, rct_receipt = r, rct_digest = digest,
               rct_recorded_at = receipt_time r\<rparr> (t_receipts t)) (\<lambda>receipts.
     ebind (append_record ''dispatch-receipt'' (dr_client_command_id r) digest (receipt_time r)
              (t\<lparr>t_receipts := receipts\<rparr>)) (\<lambda>(_, t).
     Inr t)))"

definition record_receipt_tx ::
  "hashes \<Rightarrow> dispatch_receipt \<Rightarrow> string \<Rightarrow> string \<Rightarrow> int \<Rightarrow> receipt_result transaction" where
  "record_receipt_tx h r digest token expected t =
     (let i = dr_client_command_id r in
      case (dget (t_claims t) i, dget (t_commands t) i) of
        (Some claim, Some c) \<Rightarrow>
          if clm_token claim \<noteq> token then answer (receipt_answer r RECEIPT_TOKEN_MISMATCH None) t
          else if dget (t_claim_resolutions t) i \<noteq> None then answer (receipt_answer r RECEIPT_CONFLICT None) t
          else (case dget (t_receipts t) i of
            Some prior \<Rightarrow>
              answer (receipt_answer r (if rct_digest prior = digest then RECEIPT_RETRY else RECEIPT_CONFLICT) None) t
          | None \<Rightarrow>
              if cmd_fingerprint c \<noteq> dr_payload_fingerprint r then answer (receipt_answer r RECEIPT_CONFLICT None) t
              else
                ebind (load_order_row h (cmd_order_id c) t) (\<lambda>current.
                case current of
                  None \<Rightarrow> answer (receipt_answer r RECEIPT_VERSION_MISMATCH None) t
                | Some x \<Rightarrow>
                    if lo_version x \<noteq> expected \<or> clm_expected_order_version claim \<noteq> expected
                    then answer (receipt_answer r RECEIPT_VERSION_MISMATCH None) t
                    else
                      ebind (load_applied_event_ledger h t) (\<lambda>ledger.
                      ebind (python (reduce_dispatch h x r ledger)) (\<lambda>reduced.
                      if rr_disposition reduced = reduction_disposition.EVENT_CONFLICT
                      then answer (receipt_answer r RECEIPT_CONFLICT None) t
                      else
                        ebind (store_receipt h r digest t) (\<lambda>t.
                        ebind (write_reduced h x (rr_order reduced) t) (\<lambda>t.
                        Inr (python (receipt_answer r RECEIPT_RECORDED (Some (rr_order reduced))), t)))))))
      | _ \<Rightarrow> answer (receipt_answer r RECEIPT_TOKEN_MISMATCH None) t)"

definition record_dispatch_receipt ::
  "hashes \<Rightarrow> dispatch_receipt \<Rightarrow> string \<Rightarrow> int \<Rightarrow> journal \<Rightarrow> receipt_result jresult \<times> journal" where
  "record_dispatch_receipt h r token expected j =
     (case journal_encode h (py_receipt r) receipt_domain of
        Inl e \<Rightarrow> (Inl e, j)
      | Inr (payload, digest) \<Rightarrow>
          journal_operation (python (receipt_answer r RECEIPT_VERSION_MISMATCH None))
            (record_receipt_tx h r digest token expected) j)"

section \<open>Raw observations\<close>

definition append_answer :: "raw_observation \<Rightarrow> append_disposition \<Rightarrow> append_result result" where
  "append_answer x d = append_result_init \<lparr>ar_observation_id = ro_observation_id x, ar_disposition = d\<rparr>"

definition raw_columns :: "raw_observation \<Rightarrow> string \<Rightarrow> raw_row" where
  "raw_columns x digest =
     \<lparr>raw_source = ro_source x, raw_generation = ro_broker_session_generation x,
      raw_sequence = ro_adapter_received_sequence x, raw_received_at = ro_received_at x,
      raw_value = x, raw_digest = digest, raw_status = STATUS_UNRESOLVED\<rparr>"

definition raw_place :: "raw_row \<Rightarrow> string \<times> int \<times> int" where
  "raw_place r = (raw_source r, raw_generation r, raw_sequence r)"

definition store_raw :: "raw_observation \<Rightarrow> string \<Rightarrow> journal_tables \<Rightarrow> journal_tables jresult" where
  "store_raw x digest t =
     (let row = raw_columns x digest in
      ethen (constraint (0 < raw_generation row \<and> 0 < raw_sequence row)) (
      ethen (constraint (list_all (\<lambda>(i, r). raw_place r \<noteq> raw_place row) (t_raw t))) (
      ebind (insert_row (ro_observation_id x) row (t_raw t)) (\<lambda>raws.
      ebind (append_record ''raw-observation'' (ro_observation_id x) digest (ro_received_at x)
               (t\<lparr>t_raw := raws\<rparr>)) (\<lambda>(_, t).
      Inr t)))))"

text \<open>
  A violated constraint of the insertion is caught inside the transaction: the statement that failed
  left nothing behind, and the commit is of an unchanged database.
\<close>

definition append_raw_tx :: "raw_observation \<Rightarrow> string \<Rightarrow> append_result transaction" where
  "append_raw_tx x digest t =
     (case dget (t_raw t) (ro_observation_id x) of
        Some existing \<Rightarrow>
          answer (append_answer x
            (if raw_digest existing = digest then append_disposition.EXACT_DUPLICATE else ID_CONFLICT)) t
      | None \<Rightarrow>
          (case store_raw x digest t of
             Inl SqliteConstraint \<Rightarrow> answer (append_answer x ID_CONFLICT) t
           | Inl e \<Rightarrow> Inl e
           | Inr t' \<Rightarrow> Inr (python (append_answer x APPENDED), t')))"

definition append_raw_observation ::
  "hashes \<Rightarrow> raw_observation \<Rightarrow> journal \<Rightarrow> append_result jresult \<times> journal" where
  "append_raw_observation h x j =
     (if max_codec_payload_bytes < int (length (ro_payload x))
      then (Inl (JournalCapacity ''raw observation exceeds the durable payload limit''), j)
      else case encode_journal_value (py_raw x) of
             Inl e \<Rightarrow> (Inl (JournalCapacity ''raw observation exceeds the durable payload limit''), j)
           | Inr payload \<Rightarrow>
               journal_operation (Inl CasMismatch) (append_raw_tx x (journal_digest h raw_domain payload)) j)"

section \<open>Application of normalised events\<close>

definition json_option :: "string option \<Rightarrow> json" where
  "json_option v = json_opt JStr v"

fun application_value :: "application_disposition \<Rightarrow> string" where
  "application_value EVENT_APPLIED = ''applied''"
| "application_value EVENT_DUPLICATE = ''exact_duplicate''"
| "application_value application_disposition.EVENT_CONFLICT = ''event_conflict''"
| "application_value EVENT_UNRESOLVED = ''unresolved''"
| "application_value EVENT_AMBIGUOUS = ''ambiguous''"
| "application_value EVENT_STALE = ''version_mismatch''"

text \<open>\<open>_scalar_digest\<close> and the digests of the facts.\<close>

definition scalar_digest :: "hashes \<Rightarrow> string \<Rightarrow> (string \<times> json) list \<Rightarrow> string" where
  "scalar_digest h domain values =
     ''sha256:'' @ sha256_hex h (domain @ [CHR 0x00] @ json_dumps True (JObj values))"

definition application_digest ::
  "hashes \<Rightarrow> string \<Rightarrow> string \<Rightarrow> application_row \<Rightarrow> string" where
  "application_digest h event_digest raw_id a =
     scalar_digest h ''tx_trade.live.journal.application-fact.v1''
       [(''applied_at'', json_utc (app_at a)), (''client_order_id'', json_option (app_order_id a)),
        (''disposition'', JStr (application_value (app_disposition a))),
        (''event_payload_digest'', JStr event_digest),
        (''failure_code'', json_option (map_option failure_value (app_failure a))),
        (''raw_observation_id'', JStr raw_id)]"

definition resolution_digest :: "hashes \<Rightarrow> string \<Rightarrow> resolution_status \<Rightarrow> instant \<Rightarrow> string" where
  "resolution_digest h i s moment =
     scalar_digest h ''tx_trade.live.journal.observation-resolution.v1''
       [(''observation_id'', JStr i), (''resolution_status'', JStr (resolution_status_text s)),
        (''resolved_at'', json_utc moment)]"

text \<open>\<open>_insert_normalized_application\<close>, \<open>_resolve_observation\<close>, \<open>_record_reconciliation\<close>.\<close>

definition insert_application ::
  "hashes \<Rightarrow> broker_event \<Rightarrow> string \<Rightarrow> application_disposition \<Rightarrow> string option \<Rightarrow> live_failure_code option
     \<Rightarrow> journal_tables \<Rightarrow> journal_tables jresult" where
  "insert_application h e raw_id d oid failure t =
     (let i = event_id_of e; moment = event_received_at e;
          a = \<lparr>app_order_id = oid, app_disposition = d, app_failure = failure, app_at = moment\<rparr> in
      ebind (journal_encode h (py_event e) event_domain) (\<lambda>(_, digest).
      ebind (python (broker_semantic_fingerprint h e)) (\<lambda>semantic.
      ethen (constraint (dget (t_raw t) raw_id \<noteq> None)) (
      ebind (insert_row i \<lparr>evt_raw_id = raw_id, evt_fingerprint = semantic, evt_event = stored_event e,
                           evt_digest = digest, evt_received_at = moment\<rparr> (t_events t)) (\<lambda>events.
      ethen (constraint (case oid of None \<Rightarrow> True | Some x \<Rightarrow> dget (t_orders t) x \<noteq> None)) (
      ebind (insert_row i a (t_applications t)) (\<lambda>applications.
      ebind (append_record ''normalized-application'' i (application_digest h digest raw_id a) moment
               (t\<lparr>t_events := events, t_applications := applications\<rparr>)) (\<lambda>(_, t).
      Inr t))))))))"

definition resolve_observation ::
  "hashes \<Rightarrow> string \<Rightarrow> resolution_status \<Rightarrow> instant \<Rightarrow> journal_tables \<Rightarrow> journal_tables jresult" where
  "resolve_observation h i s moment t =
     (case dget (t_raw t) i of
        None \<Rightarrow> Inl CasMismatch
      | Some r \<Rightarrow>
          if raw_status r \<noteq> STATUS_UNRESOLVED then Inl CasMismatch
          else ebind (append_record ''observation-resolution'' i (resolution_digest h i s moment) moment
                        (t\<lparr>t_raw := dset i (r\<lparr>raw_status := s\<rparr>) (t_raw t)\<rparr>)) (\<lambda>(_, t). Inr t))"

definition record_requirement ::
  "hashes \<Rightarrow> journal_env \<Rightarrow> string option \<Rightarrow> string option \<Rightarrow> string \<Rightarrow> journal_tables \<Rightarrow> journal_tables jresult" where
  "record_requirement h env observation_id oid reason t =
     ebind (journal_now env) (\<lambda>created_at.
     let r = \<lparr>dq_requirement_id = int (Suc (length (t_requirements t))), dq_reason_code = reason,
              dq_created_at = created_at, dq_client_order_id = oid, dq_observation_id = observation_id\<rparr> in
     ethen (constraint ((case oid of None \<Rightarrow> True | Some x \<Rightarrow> dget (t_orders t) x \<noteq> None)
              \<and> (case observation_id of None \<Rightarrow> True | Some x \<Rightarrow> dget (t_raw t) x \<noteq> None))) (
     ebind (python (durable_requirement_init r)) (\<lambda>r.
     ebind (journal_encode h (py_requirement r) requirement_domain) (\<lambda>(_, digest).
     ebind (append_record ''reconciliation'' (show_int (dq_requirement_id r)) digest created_at
              (t\<lparr>t_requirements := t_requirements t @ [r]\<rparr>)) (\<lambda>(_, t).
     Inr t)))))"

definition existing_order_id :: "string option \<Rightarrow> journal_tables \<Rightarrow> string option" where
  "existing_order_id i t =
     (case i of None \<Rightarrow> None | Some x \<Rightarrow> if dget (t_orders t) x \<noteq> None then Some x else None)"

definition application_answer ::
  "broker_event \<Rightarrow> application_disposition \<Rightarrow> live_order option \<Rightarrow> application_result result" where
  "application_answer e d x = application_result_init
     \<lparr>ap_event_id = event_id_of e, ap_disposition = d, ap_order = x,
      ap_failure_code = (if d = application_disposition.EVENT_CONFLICT then Some CORRELATION_CONFLICT else None)\<rparr>"

definition provenance_matches :: "broker_event \<Rightarrow> string \<Rightarrow> raw_row \<Rightarrow> raw_observation \<Rightarrow> bool" where
  "provenance_matches e raw_id r v \<longleftrightarrow>
     ro_observation_id v = raw_id \<and> raw_generation r = event_generation e \<and> raw_sequence r = event_sequence e
     \<and> raw_received_at r = event_received_at e \<and> ro_broker_session_generation v = event_generation e
     \<and> ro_adapter_received_sequence v = event_sequence e \<and> ro_received_at v = event_received_at e"

text \<open>The branches of \<open>apply_normalized_event\<close>, each with what it writes.\<close>

definition conflict_writes ::
  "hashes \<Rightarrow> journal_env \<Rightarrow> broker_event \<Rightarrow> string \<Rightarrow> string option \<Rightarrow> string \<Rightarrow> journal_tables \<Rightarrow> journal_tables jresult" where
  "conflict_writes h env e raw_id oid reason t =
     ebind (record_requirement h env (Some raw_id) oid reason t)
       (resolve_observation h raw_id STATUS_CONFLICT (event_received_at e))"

definition misplaced_event ::
  "hashes \<Rightarrow> journal_env \<Rightarrow> broker_event \<Rightarrow> string \<Rightarrow> resolution_status \<Rightarrow> bool \<Rightarrow> application_result transaction" where
  "misplaced_event h env e raw_id status known t =
     (let oid = existing_order_id (bc_client_order_id (event_correlation e)) t in
      ebind (if status \<noteq> STATUS_UNRESOLVED then Inr t
             else ebind (if known then Inr t
                         else insert_application h e raw_id application_disposition.EVENT_CONFLICT oid
                                (Some CORRELATION_CONFLICT) t)
                    (conflict_writes h env e raw_id oid ''observation_provenance_conflict''))
        (answer (application_answer e application_disposition.EVENT_CONFLICT None)))"

definition known_event ::
  "hashes \<Rightarrow> journal_env \<Rightarrow> broker_event \<Rightarrow> string \<Rightarrow> string \<Rightarrow> event_row \<Rightarrow> application_row \<Rightarrow> application_result transaction" where
  "known_event h env e raw_id semantic n a t =
     (if evt_fingerprint n = semantic \<and> app_disposition a = EVENT_APPLIED
      then ebind (resolve_observation h raw_id STATUS_RESOLVED (event_received_at e) t)
             (answer (application_answer e EVENT_DUPLICATE None))
      else
        let oid = existing_order_id (bc_client_order_id (event_correlation e)) t;
            reason = (if evt_fingerprint n \<noteq> semantic then ''event_conflict''
                      else ''prior_application_not_applied'')
        in ebind (conflict_writes h env e raw_id oid reason t)
             (answer (application_answer e application_disposition.EVENT_CONFLICT None)))"

fun reduce_broker_event ::
  "hashes \<Rightarrow> live_order \<Rightarrow> broker_event \<Rightarrow> event_ledger \<Rightarrow> reduction_result result" where
  "reduce_broker_event h x (BrokerOrderEvent e) l = reduce_broker_order_event h x e l"
| "reduce_broker_event h x (BrokerFillEvent e) l = reduce_broker_fill_event h x e l"

definition store_fill ::
  "hashes \<Rightarrow> broker_event \<Rightarrow> string \<Rightarrow> live_fill option \<Rightarrow> journal_tables \<Rightarrow> journal_tables jresult" where
  "store_fill h e oid fill t =
     (case fill of
        None \<Rightarrow> Inr t
      | Some f \<Rightarrow>
          ebind (journal_encode h (py_fill f) fill_domain) (\<lambda>(_, digest).
          ethen (constraint (dget (t_orders t) oid \<noteq> None \<and> dget (t_events t) (event_id_of e) \<noteq> None)) (
          ethen (constraint (list_all (\<lambda>(i, r). fil_event_id r \<noteq> event_id_of e) (t_fills t))) (
          ebind (insert_row (lf_fill_id f)
                   \<lparr>fil_order_id = oid, fil_event_id = event_id_of e, fil_fill = stored_fill f,
                    fil_digest = digest\<rparr> (t_fills t)) (\<lambda>fills.
          Inr (t\<lparr>t_fills := fills\<rparr>))))))"

definition apply_reduction ::
  "hashes \<Rightarrow> journal_env \<Rightarrow> broker_event \<Rightarrow> string \<Rightarrow> string \<Rightarrow> live_order \<Rightarrow> reduction_result
     \<Rightarrow> application_result transaction" where
  "apply_reduction h env e raw_id oid x reduced t =
     (if reconciliation_required reduced
      then
        ebind (insert_application h e raw_id EVENT_UNRESOLVED (Some oid) (rr_failure_code reduced) t) (\<lambda>t.
        ebind (conflict_writes h env e raw_id (Some oid) ''reducer_reconciliation'' t)
          (answer (application_answer e EVENT_UNRESOLVED None)))
      else if (case rr_fill reduced of None \<Rightarrow> False | Some f \<Rightarrow> dget (t_fills t) (lf_fill_id f) \<noteq> None)
      then
        ebind (insert_application h e raw_id application_disposition.EVENT_CONFLICT (Some oid)
                 (Some CORRELATION_CONFLICT) t) (\<lambda>t.
        ebind (conflict_writes h env e raw_id (Some oid) ''fill_id_conflict'' t)
          (answer (application_answer e application_disposition.EVENT_CONFLICT None)))
      else
        ebind (insert_application h e raw_id EVENT_APPLIED (Some oid) (rr_failure_code reduced) t) (\<lambda>t.
        ebind (write_reduced h x (rr_order reduced) t) (\<lambda>t.
        ebind (store_fill h e oid (rr_fill reduced) t) (\<lambda>t.
        ebind (resolve_observation h raw_id STATUS_RESOLVED (event_received_at e) t) (\<lambda>t.
        Inr (python (application_answer e EVENT_APPLIED (Some (rr_order reduced))), t))))))"

definition new_event ::
  "hashes \<Rightarrow> journal_env \<Rightarrow> broker_event \<Rightarrow> string \<Rightarrow> int option \<Rightarrow> application_result transaction" where
  "new_event h env e raw_id expected t =
     (let unresolved =
            ebind (insert_application h e raw_id EVENT_UNRESOLVED None None t)
              (answer (application_answer e EVENT_UNRESOLVED None))
      in case bc_client_order_id (event_correlation e) of
           None \<Rightarrow> unresolved
         | Some oid \<Rightarrow>
             ebind (load_order_row h oid t) (\<lambda>current.
             case current of
               None \<Rightarrow> unresolved
             | Some x \<Rightarrow>
                 if expected \<noteq> None \<and> expected \<noteq> Some (lo_version x)
                 then answer (application_answer e EVENT_STALE None) t
                 else
                   ebind (load_applied_event_ledger h t) (\<lambda>ledger.
                   ebind (python (reduce_broker_event h x e ledger)) (\<lambda>reduced.
                   apply_reduction h env e raw_id oid x reduced t))))"

definition apply_event_tx ::
  "hashes \<Rightarrow> journal_env \<Rightarrow> broker_event \<Rightarrow> string \<Rightarrow> string \<Rightarrow> int option \<Rightarrow> application_result transaction" where
  "apply_event_tx h env e semantic raw_id expected t =
     (case dget (t_raw t) raw_id of
        None \<Rightarrow> Inl (JournalConflict ''normalized event requires a durable raw observation'')
      | Some r \<Rightarrow>
          ebind (reread (raw_observation_init (raw_value r))) (\<lambda>v.
          let existing = (case (dget (t_events t) (event_id_of e), dget (t_applications t) (event_id_of e)) of
                            (Some n, Some a) \<Rightarrow> Some (n, a) | _ \<Rightarrow> None)
          in if (case existing of None \<Rightarrow> False
                 | Some (n, a) \<Rightarrow> evt_fingerprint n = semantic \<and> evt_raw_id n = raw_id
                     \<and> app_disposition a = EVENT_APPLIED \<and> raw_status r = STATUS_RESOLVED)
             then answer (application_answer e EVENT_DUPLICATE None) t
             else if \<not> provenance_matches e raw_id r v
             then misplaced_event h env e raw_id (raw_status r) (existing \<noteq> None) t
             else if raw_status r \<noteq> STATUS_UNRESOLVED
             then answer (application_answer e application_disposition.EVENT_CONFLICT None) t
             else (case existing of
                     Some (n, a) \<Rightarrow> known_event h env e raw_id semantic n a t
                   | None \<Rightarrow> new_event h env e raw_id expected t)))"

definition apply_normalized_event ::
  "hashes \<Rightarrow> journal_env \<Rightarrow> broker_event \<Rightarrow> string \<Rightarrow> int option \<Rightarrow> journal \<Rightarrow> application_result jresult \<times> journal" where
  "apply_normalized_event h env e raw_id expected j =
     (case broker_semantic_fingerprint h e of
        Inl x \<Rightarrow> (Inl (JournalPython x), j)
      | Inr semantic \<Rightarrow>
          journal_operation (python (application_answer e EVENT_STALE None))
            (apply_event_tx h env e semantic raw_id expected) j)"

end
