(* ===== verification/Journal_Verify.thy ===== *)
theory Journal_Verify
  imports Journal_Events Projection
begin

text \<open>
  The integrity check of a journal, \<open>_verify_durable_payloads\<close> of
  \<open>orders/sqlite_live_order_journal.py\<close>, for a journal created at schema version 3: every table is read
  back and checked against the others, and the records it should have left are collected and compared
  with the records that are there. That the numbers of the records have no gap is built into their
  being a list. One function per table, in the order of the code.
\<close>

section \<open>Identity and migrations\<close>

text \<open>The fingerprints of the three schema texts, which are files of the package.\<close>

record schema_fingerprints =
  sf_v1 :: string
  sf_v2 :: string
  sf_v3 :: string

type_synonym expected_records = "(string \<times> string, string \<times> instant) dict"

definition record_at :: "string \<Rightarrow> string \<Rightarrow> journal_tables \<Rightarrow> record_row option" where
  "record_at kind i t = find (\<lambda>r. rec_kind r = kind \<and> rec_id r = i) (t_records t)"

text \<open>The number of a record: its position, counted from one.\<close>

fun record_number :: "string \<Rightarrow> string \<Rightarrow> record_row list \<Rightarrow> int option" where
  "record_number kind i [] = None"
| "record_number kind i (r # rs) =
     (if rec_kind r = kind \<and> rec_id r = i then Some 1 else map_option (\<lambda>n. n + 1) (record_number kind i rs))"

definition identity_domain :: string where "identity_domain = ''tx_trade.live.journal.identity.v1''"

definition identity_digest :: "hashes \<Rightarrow> journal_identity \<Rightarrow> string jresult" where
  "identity_digest h i = ebind (journal_encode h (py_identity i) identity_domain) (\<lambda>(_, digest). Inr digest)"

definition migration_digest :: "hashes \<Rightarrow> int \<Rightarrow> string \<Rightarrow> string \<Rightarrow> instant \<Rightarrow> string" where
  "migration_digest h version from_fingerprint to_fingerprint moment =
     scalar_digest h ''tx_trade.live.journal.schema-migration.v2''
       [(''version'', JInt version), (''from_fingerprint'', JStr from_fingerprint),
        (''to_fingerprint'', JStr to_fingerprint), (''recorded_at'', json_utc moment)]"

text \<open>The records \<open>_initialize\<close> writes into a new journal.\<close>

definition initialize :: "hashes \<Rightarrow> schema_fingerprints \<Rightarrow> journal_identity \<Rightarrow> journal_tables jresult" where
  "initialize h f i =
     (let t0 = ji_created_at i in
      ebind (identity_digest h i) (\<lambda>digest.
      ebind (append_record ''identity'' (ji_journal_id i) digest t0 empty_tables) (\<lambda>(_, t).
      ebind (append_record ''schema-migration'' ''2'' (migration_digest h 2 (sf_v1 f) (sf_v2 f) t0) t0 t) (\<lambda>(_, t).
      ebind (append_record ''schema-migration'' ''3'' (migration_digest h 3 (sf_v2 f) (sf_v3 f) t0) t0 t) (\<lambda>(_, t).
      Inr t)))))"

definition verify_migration ::
  "hashes \<Rightarrow> int \<Rightarrow> string \<Rightarrow> string \<Rightarrow> journal_tables \<Rightarrow> expected_records \<Rightarrow> expected_records jresult" where
  "verify_migration h version from_fingerprint to_fingerprint t e =
     (case record_at ''schema-migration'' (show_int version) t of
        None \<Rightarrow> integrity ''live journal migration record is missing''
      | Some r \<Rightarrow>
          let digest = migration_digest h version from_fingerprint to_fingerprint (rec_at r) in
          if rec_digest r \<noteq> digest then integrity ''live journal migration record is invalid''
          else Inr (dset (''schema-migration'', show_int version) (digest, rec_at r) e))"

definition verify_identity ::
  "hashes \<Rightarrow> schema_fingerprints \<Rightarrow> journal_identity \<Rightarrow> journal_tables \<Rightarrow> expected_records jresult" where
  "verify_identity h f i t =
     ebind (identity_digest h i) (\<lambda>digest.
     ebind (verify_migration h 2 (sf_v1 f) (sf_v2 f) t
              (dset (''identity'', ji_journal_id i) (digest, ji_created_at i) [])) (\<lambda>e.
     verify_migration h 3 (sf_v2 f) (sf_v3 f) t e))"

section \<open>Orders and commands\<close>

definition history_of :: "string \<Rightarrow> journal_tables \<Rightarrow> history_row list" where
  "history_of i t = sort_key hist_version (filter (\<lambda>r. hist_order_id r = i) (t_history t))"

fun consecutive :: "int list \<Rightarrow> bool" where
  "consecutive (a # b # xs) \<longleftrightarrow> b = a + 1 \<and> consecutive (b # xs)"
| "consecutive _ \<longleftrightarrow> True"

definition verify_version :: "hashes \<Rightarrow> string \<Rightarrow> live_order \<Rightarrow> history_row \<Rightarrow> unit jresult" where
  "verify_version h i current r =
     ebind (reread (order_parts_init h (hist_order r))) (\<lambda>x.
     if li_client_order_id (lo_intent x) \<noteq> i \<or> hist_version r \<noteq> lo_version x
        \<or> \<not> same_live_intent (lo_intent x) (lo_intent current) \<or> hist_at r \<noteq> lo_updated_at x
     then integrity ''live journal order history is invalid'' else Inr ())"

definition verify_reservation ::
  "hashes \<Rightarrow> journal_tables \<Rightarrow> string \<times> string \<times> instant \<Rightarrow> expected_records \<Rightarrow> expected_records jresult" where
  "verify_reservation h t reservation e =
     (let (i, fingerprint, _) = reservation; versions = history_of i t in
      ebind (load_order_row h i t) (\<lambda>current.
      case (versions, current) of
        (first # _, Some x) \<Rightarrow>
          ebind (efold (\<lambda>r _. verify_version h i x r) versions ()) (\<lambda>_.
          if \<not> consecutive (map hist_version versions) \<or> hist_version (last versions) \<noteq> lo_version x
          then integrity ''live journal order history is invalid''
          else
            ebind (python (intent_fingerprint h (lo_intent x))) (\<lambda>calculated.
            if fingerprint \<noteq> calculated then integrity ''live journal reservation is invalid''
            else Inr (dset (''order'', i) (hist_digest first, hist_at first) e)))
      | _ \<Rightarrow> integrity ''live journal order history is invalid''))"

definition verify_command ::
  "hashes \<Rightarrow> journal_tables \<Rightarrow> string \<times> command_row \<Rightarrow> expected_records \<Rightarrow> expected_records jresult" where
  "verify_command h t row e =
     ebind (load_command h (fst row) t) (\<lambda>c.
     Inr (dset (''command'', fst row) (cmd_digest (snd row), requested_at_of c) e))"

definition verify_claim ::
  "hashes \<Rightarrow> journal_tables \<Rightarrow> string \<times> claim_row \<Rightarrow> expected_records \<Rightarrow> expected_records jresult" where
  "verify_claim h t row e =
     (let (i, r) = row in
      ebind (load_command h i t) (\<lambda>c.
      if clm_expected_order_version r \<noteq> clm_version r
      then integrity ''live journal dispatch claim is invalid''
      else
        ebind (python (outstanding_claim_init
                 \<lparr>oc_command = c, oc_claim_token = clm_token r, oc_claimant_id = clm_claimant r,
                  oc_expected_order_version = clm_expected_order_version r,
                  oc_claimed_at = clm_claimed_at r\<rparr>)) (\<lambda>claim.
        ebind (journal_encode h (py_claim claim) claim_domain) (\<lambda>(_, digest).
        Inr (dset (''dispatch-claim'', i) (digest, clm_claimed_at r) e)))))"

definition verify_receipt :: "string \<times> receipt_row \<Rightarrow> expected_records \<Rightarrow> expected_records jresult" where
  "verify_receipt row e =
     (let (i, r) = row in
      ebind (reread (dispatch_receipt_init (rct_receipt r))) (\<lambda>receipt.
      if i \<noteq> dr_client_command_id receipt \<or> rct_fingerprint r \<noteq> dr_payload_fingerprint receipt
         \<or> rct_recorded_at r \<noteq> receipt_time receipt
      then integrity ''live journal receipt is invalid''
      else Inr (dset (''dispatch-receipt'', i) (rct_digest r, rct_recorded_at r) e)))"

section \<open>Observations and events\<close>

text \<open>The open requirement of an observation, which no operation ever closes in place.\<close>

definition has_requirement :: "journal_tables \<Rightarrow> string \<Rightarrow> bool" where
  "has_requirement t i = list_ex (\<lambda>q. dq_observation_id q = Some i) (t_requirements t)"

definition verify_resolution ::
  "hashes \<Rightarrow> journal_tables \<Rightarrow> string \<Rightarrow> resolution_status \<Rightarrow> expected_records \<Rightarrow> expected_records jresult" where
  "verify_resolution h t i s e =
     (case record_at ''observation-resolution'' i t of
        None \<Rightarrow>
          if s = STATUS_UNRESOLVED then Inr e
          else integrity ''live journal observation resolution is invalid''
      | Some r \<Rightarrow>
          if s = STATUS_UNRESOLVED \<or> rec_digest r \<noteq> resolution_digest h i s (rec_at r)
             \<or> (s = STATUS_CONFLICT \<and> \<not> has_requirement t i)
          then integrity ''live journal observation resolution is invalid''
          else Inr (dset (''observation-resolution'', i) (rec_digest r, rec_at r) e))"

definition verify_raw ::
  "hashes \<Rightarrow> journal_tables \<Rightarrow> string \<times> raw_row \<Rightarrow> expected_records \<Rightarrow> expected_records jresult" where
  "verify_raw h t row e =
     (let (i, r) = row in
      ebind (reread (raw_observation_init (raw_value r))) (\<lambda>v.
      if i \<noteq> ro_observation_id v \<or> raw_source r \<noteq> ro_source v
         \<or> raw_generation r \<noteq> ro_broker_session_generation v
         \<or> raw_sequence r \<noteq> ro_adapter_received_sequence v \<or> raw_received_at r \<noteq> ro_received_at v
      then integrity ''live journal observation is invalid''
      else verify_resolution h t i (raw_status r)
             (dset (''raw-observation'', i) (raw_digest r, raw_received_at r) e)))"

definition candidates_of :: "journal_tables \<Rightarrow> string \<Rightarrow> nat" where
  "candidates_of t i = length (filter (\<lambda>(o_id, _). o_id = i) (t_ambiguity t))"

definition verify_ambiguity :: "journal_tables \<Rightarrow> unit jresult" where
  "verify_ambiguity t =
     ethen (if list_all (\<lambda>(_, c). identifier_ok c) (t_ambiguity t) then Inr ()
            else integrity ''live journal observation ambiguity is invalid'')
       (if list_all (\<lambda>(i, r). if raw_status r = STATUS_AMBIGUOUS then 2 \<le> candidates_of t i
                              else candidates_of t i = 0) (t_raw t)
        then Inr () else integrity ''live journal observation ambiguity is invalid'')"

text \<open>Whether an application fits the state its raw observation is in now.\<close>

definition application_fits ::
  "journal_tables \<Rightarrow> string \<Rightarrow> raw_row option \<Rightarrow> application_row \<Rightarrow> broker_event \<Rightarrow> bool" where
  "application_fits t raw_id raw a e \<longleftrightarrow>
     (let status = map_option raw_status raw;
          provenance = (case raw of None \<Rightarrow> False | Some r \<Rightarrow>
             raw_generation r = event_generation e \<and> raw_sequence r = event_sequence e
             \<and> raw_received_at r = event_received_at e);
          required = has_requirement t raw_id
      in app_disposition a \<in> {EVENT_APPLIED, EVENT_UNRESOLVED, application_disposition.EVENT_CONFLICT}
         \<and> app_at a = event_received_at e
         \<and> (\<not> provenance \<longrightarrow> app_disposition a = application_disposition.EVENT_CONFLICT \<and> required)
         \<and> (app_order_id a \<noteq> None \<longrightarrow> app_order_id a = bc_client_order_id (event_correlation e))
         \<and> (app_disposition a = EVENT_APPLIED \<longrightarrow> status = Some STATUS_RESOLVED)
         \<and> (app_disposition a = application_disposition.EVENT_CONFLICT \<longrightarrow> status = Some STATUS_CONFLICT)
         \<and> (app_disposition a = EVENT_UNRESOLVED \<longrightarrow>
              status \<in> {Some STATUS_UNRESOLVED, Some STATUS_CONFLICT, Some STATUS_AMBIGUOUS}
              \<and> (status = Some STATUS_CONFLICT \<longrightarrow> required)))"

definition verify_event ::
  "hashes \<Rightarrow> journal_tables \<Rightarrow> string \<times> event_row \<Rightarrow> expected_records \<Rightarrow> expected_records jresult" where
  "verify_event h t row e =
     (let (i, r) = row in
      ebind (reread (event_init (evt_event r))) (\<lambda>event.
      ebind (python (broker_semantic_fingerprint h event)) (\<lambda>semantic.
      case dget (t_applications t) i of
        None \<Rightarrow> integrity ''live journal event application is invalid''
      | Some a \<Rightarrow>
          if i \<noteq> event_id_of event \<or> evt_fingerprint r \<noteq> semantic \<or> evt_received_at r \<noteq> event_received_at event
             \<or> \<not> application_fits t (evt_raw_id r) (dget (t_raw t) (evt_raw_id r)) a event
             \<or> (app_disposition a = application_disposition.EVENT_CONFLICT
                \<and> app_failure a \<noteq> Some CORRELATION_CONFLICT)
          then integrity ''live journal event application is invalid''
          else Inr (dset (''normalized-application'', i)
                      (application_digest h (evt_digest r) (evt_raw_id r) a, app_at a) e))))"

definition verify_fill :: "hashes \<Rightarrow> journal_tables \<Rightarrow> string \<times> fill_row \<Rightarrow> unit jresult" where
  "verify_fill h t row =
     (let (i, r) = row in
      ebind (reread (live_fill_init (fil_fill r))) (\<lambda>f.
      ebind (load_order_row h (fil_order_id r) t) (\<lambda>current.
      case current of
        None \<Rightarrow> integrity ''live journal fill is invalid''
      | Some x \<Rightarrow>
          if i \<noteq> lf_fill_id f \<or> fil_order_id r \<noteq> lf_client_order_id f \<or> \<not> fill_fits_order f x
          then integrity ''live journal fill is invalid'' else Inr ())))"

definition verify_requirement ::
  "hashes \<Rightarrow> durable_requirement \<Rightarrow> expected_records \<Rightarrow> expected_records jresult" where
  "verify_requirement h q e =
     ebind (python (durable_requirement_init q)) (\<lambda>q.
     ebind (journal_encode h (py_requirement q) requirement_domain) (\<lambda>(_, digest).
     Inr (dset (''reconciliation'', show_int (dq_requirement_id q)) (digest, dq_created_at q) e)))"

end
