(* ===== verification/Journal_Reads.thy ===== *)
theory Journal_Reads
  imports Journal_Verify
begin

text \<open>
  What the journal answers without writing: orders, the recovery blockers with the accounts they are
  attributed to, and the rows a reconciliation commit has to resolve. A set of accounts is a list
  without repetition.
\<close>

section \<open>Orders\<close>

definition journal_read :: "(journal_tables \<Rightarrow> 'a jresult) \<Rightarrow> journal \<Rightarrow> 'a jresult \<times> journal" where
  "journal_read query j =
     journal_operation (Inl CasMismatch) (\<lambda>t. ebind (query t) (\<lambda>x. Inr (Inr x, t))) j"

definition journal_get_order :: "hashes \<Rightarrow> string \<Rightarrow> journal \<Rightarrow> live_order option jresult \<times> journal" where
  "journal_get_order h i = journal_read (load_order_row h i)"

text \<open>The orders of a list of identifiers, all of which have to be there.\<close>

definition load_orders :: "hashes \<Rightarrow> string list \<Rightarrow> journal_tables \<Rightarrow> live_order list jresult" where
  "load_orders h ids t =
     efold (\<lambda>i xs. ebind (load_order_row h i t) (\<lambda>x.
       case x of None \<Rightarrow> integrity ''live journal order projection is invalid'' | Some y \<Rightarrow> Inr (xs @ [y]))) ids []"

definition active_states :: "string list" where
  "active_states =
     map live_state_value [CREATED, VALIDATED, SUBMITTING, ACCEPTED, PARTIALLY_FILLED, CANCEL_PENDING,
                           SUBMISSION_UNKNOWN, RECONCILING]"

definition list_active_orders :: "hashes \<Rightarrow> string option \<Rightarrow> journal \<Rightarrow> live_order list jresult \<times> journal" where
  "list_active_orders h account =
     journal_read (\<lambda>t. load_orders h
       (sort (map fst (filter (\<lambda>(i, r). row_state r \<in> set active_states
          \<and> (account = None \<or> account = Some (row_account_id r))) (t_orders t)))) t)"

definition account_order_ids :: "string \<Rightarrow> journal_tables \<Rightarrow> string list" where
  "account_order_ids account t = sort (map fst (filter (\<lambda>(i, r). row_account_id r = account) (t_orders t)))"

section \<open>What is outstanding\<close>

text \<open>
  A claim without a receipt and without a resolution, joined with its command and its order; the
  accounts an observation is attributed to; the observations that are not settled; the requirements.
\<close>

record outstanding_row =
  out_command_id :: string
  out_claim :: claim_row
  out_command :: command_row
  out_order :: order_row

definition outstanding_rows :: "journal_tables \<Rightarrow> outstanding_row list" where
  "outstanding_rows t =
     List.map_filter (\<lambda>(i, c).
       if dget (t_receipts t) i \<noteq> None \<or> dget (t_claim_resolutions t) i \<noteq> None then None
       else (case dget (t_commands t) i of
               None \<Rightarrow> None
             | Some m \<Rightarrow> map_option (\<lambda>x. \<lparr>out_command_id = i, out_claim = c, out_command = m, out_order = x\<rparr>)
                           (dget (t_orders t) (cmd_order_id m)))) (t_claims t)"

definition event_accounts :: "hashes \<Rightarrow> journal_tables \<Rightarrow> (string \<times> string) list jresult" where
  "event_accounts h t =
     efold (\<lambda>(i, r) xs. ebind (reread (event_init (evt_event r))) (\<lambda>e.
       Inr (xs @ [(evt_raw_id r, event_account_of e)]))) (t_events t) []"

definition candidate_accounts :: "journal_tables \<Rightarrow> (string \<times> string) list" where
  "candidate_accounts t =
     List.map_filter (\<lambda>(o_id, c). map_option (\<lambda>x. (o_id, row_account_id x)) (dget (t_orders t) c)) (t_ambiguity t)"

definition observation_accounts :: "hashes \<Rightarrow> journal_tables \<Rightarrow> (string \<times> string) list jresult" where
  "observation_accounts h t = ebind (event_accounts h t) (\<lambda>xs. Inr (xs @ candidate_accounts t))"

definition accounts_of :: "(string \<times> string) list \<Rightarrow> string \<Rightarrow> string list" where
  "accounts_of attributed i = remdups (map snd (filter (\<lambda>(o_id, a). o_id = i) attributed))"

definition unsettled_observations :: "journal_tables \<Rightarrow> (string \<times> resolution_status) list" where
  "unsettled_observations t =
     map (\<lambda>(i, r). (i, raw_status r))
       (filter (\<lambda>(i, r). raw_status r \<noteq> STATUS_RESOLVED \<and> dget (t_observation_resolutions t) i = None) (t_raw t))"

definition open_requirements :: "journal_tables \<Rightarrow> durable_requirement list" where
  "open_requirements t =
     filter (\<lambda>q. dget (t_requirement_resolutions t) (dq_requirement_id q) = None) (t_requirements t)"

definition requirement_accounts ::
  "(string \<times> string) list \<Rightarrow> journal_tables \<Rightarrow> durable_requirement \<Rightarrow> string list" where
  "requirement_accounts attributed t q =
     remdups (option_list (Option.bind (dq_client_order_id q)
                (\<lambda>i. map_option row_account_id (dget (t_orders t) i)))
              @ (case dq_observation_id q of None \<Rightarrow> [] | Some i \<Rightarrow> accounts_of attributed i))"

section \<open>Recovery blockers\<close>

definition blocker_attributions :: "hashes \<Rightarrow> journal_tables \<Rightarrow> (string \<times> string \<times> string list) list jresult" where
  "blocker_attributions h t =
     ebind (observation_accounts h t) (\<lambda>attributed.
     if list_ex (\<lambda>q. case dq_client_order_id q of None \<Rightarrow> False | Some i \<Rightarrow> dget (t_orders t) i = None)
          (open_requirements t)
     then integrity ''live journal reconciliation requirement is invalid''
     else Inr
       (map (\<lambda>o1. (''claim'', out_command_id o1, [row_account_id (out_order o1)])) (outstanding_rows t)
        @ map (\<lambda>(i, s). (''observation-'' @ resolution_status_text s, i, accounts_of attributed i))
            (unsettled_observations t)
        @ map (\<lambda>q. (''requirement'', show_int (dq_requirement_id q), requirement_accounts attributed t q))
            (open_requirements t)))"

definition recovery_blocker :: "hashes \<Rightarrow> string \<Rightarrow> string \<Rightarrow> string" where
  "recovery_blocker h kind i =
     ''recovery:'' @ kind @ '':''
       @ sha256_hex h (''tx_trade.live.journal.recovery-blocker.v1'' @ [CHR 0x00] @ kind @ [CHR 0x00] @ i)"

text \<open>A blocker that is not attributed to exactly one account blocks every account.\<close>

definition blocks_account :: "string \<Rightarrow> string list \<Rightarrow> bool" where
  "blocks_account account accounts \<longleftrightarrow> length accounts \<noteq> 1 \<or> account \<in> set accounts"

definition recovery_blockers :: "hashes \<Rightarrow> string \<Rightarrow> journal_tables \<Rightarrow> string list jresult" where
  "recovery_blockers h account t =
     ebind (blocker_attributions h t) (\<lambda>bs.
     Inr (sort (remdups (map (\<lambda>(kind, i, accounts). recovery_blocker h kind i)
                   (filter (\<lambda>(kind, i, accounts). blocks_account account accounts) bs)))))"

definition issue_of_kind :: "string \<Rightarrow> string" where
  "issue_of_kind kind =
     (if kind = ''observation-unresolved'' then ''unresolved_observation''
      else if kind = ''observation-conflict'' then ''conflict_observation''
      else if kind = ''observation-ambiguous'' then ''ambiguous_observation''
      else ''durable_reconciliation_requirement'')"

definition inspection_issue_codes :: "hashes \<Rightarrow> string \<Rightarrow> journal_tables \<Rightarrow> string list jresult" where
  "inspection_issue_codes h account t =
     ebind (blocker_attributions h t) (\<lambda>bs.
     Inr (sort (remdups (List.map_filter (\<lambda>(kind, i, accounts).
            if kind = ''claim'' then None
            else if length accounts \<noteq> 1 then Some ''global_recovery_blocker''
            else if account \<in> set accounts then Some (issue_of_kind kind) else None) bs))))"

end
