(* ===== verification/Commit_Storage.thy ===== *)
theory Commit_Storage
  imports Journal_Reads
begin

text \<open>
  The commit request as it is written and read back, and \<open>_validate_authorized_request\<close> of
  \<open>orders/sqlite_live_order_journal.py\<close>: a request takes effect only as what its own canonical payload
  decodes to, and its authorization has to bind exactly that payload.
\<close>

section \<open>Reading a request back\<close>

definition stored_position :: "broker_position \<Rightarrow> broker_position" where
  "stored_position p = p\<lparr>bp_net_quantity := stored_decimal (bp_net_quantity p),
     bp_average_open_price := map_option stored_decimal (bp_average_open_price p)\<rparr>"

definition stored_attribution :: "position_attribution \<Rightarrow> position_attribution" where
  "stored_attribution a = a\<lparr>pa_attributed_quantity := stored_decimal (pa_attributed_quantity a)\<rparr>"

definition stored_open :: "open_order_observation \<Rightarrow> open_order_observation" where
  "stored_open x = x\<lparr>oo_working_total_quantity := stored_decimal (oo_working_total_quantity x),
     oo_working_remaining_quantity := stored_decimal (oo_working_remaining_quantity x),
     oo_working_limit_price := map_option stored_decimal (oo_working_limit_price x)\<rparr>"

definition stored_fill_observation :: "fill_observation \<Rightarrow> fill_observation" where
  "stored_fill_observation x = x\<lparr>fo_quantity := stored_decimal (fo_quantity x),
     fo_execution_price := stored_decimal (fo_execution_price x)\<rparr>"

definition stored_discrepancy :: "discrepancy \<Rightarrow> discrepancy" where
  "stored_discrepancy d = d\<lparr>di_expected_quantity := map_option stored_decimal (di_expected_quantity d),
     di_actual_quantity := map_option stored_decimal (di_actual_quantity d)\<rparr>"

definition stored_local :: "local_snapshot \<Rightarrow> local_snapshot" where
  "stored_local s = s\<lparr>ls_orders := map stored_order (ls_orders s), ls_fills := map stored_fill (ls_fills s),
     ls_position_attributions := map stored_attribution (ls_position_attributions s)\<rparr>"

definition stored_broker :: "reconciliation_snapshot \<Rightarrow> reconciliation_snapshot" where
  "stored_broker b = b\<lparr>
     sb_open_orders := (sb_open_orders b)\<lparr>os_orders := map stored_open (os_orders (sb_open_orders b))\<rparr>,
     sb_fills_seen := (sb_fills_seen b)\<lparr>fs_fills := map stored_fill_observation (fs_fills (sb_fills_seen b))\<rparr>,
     sb_positions_seen := (sb_positions_seen b)\<lparr>ps_positions := map stored_position (ps_positions (sb_positions_seen b))\<rparr>\<rparr>"

definition stored_assessment :: "assessment \<Rightarrow> assessment" where
  "stored_assessment a = \<lparr>at_local = stored_local (at_local a), at_broker = stored_broker (at_broker a),
     at_result = (at_result a)\<lparr>rr_discrepancies := map stored_discrepancy (rr_discrepancies (at_result a))\<rparr>\<rparr>"

definition stored_request :: "commit_request \<Rightarrow> commit_request" where
  "stored_request r = r\<lparr>cr_assessment := stored_assessment (cr_assessment r),
     cr_order_projections := map stored_order (cr_order_projections r)\<rparr>"

text \<open>The constructors of every part; the order does not matter, since each failure is reported alike.\<close>

definition each :: "('a \<Rightarrow> 'b result) \<Rightarrow> 'a list \<Rightarrow> unit result" where
  "each f xs = efold (\<lambda>x _. ethen (f x) (Inr ())) xs ()"

definition local_parts_init :: "hashes \<Rightarrow> local_snapshot \<Rightarrow> unit result" where
  "local_parts_init h s =
     ethen (each (order_parts_init h) (ls_orders s)) (
     ethen (each live_fill_init (ls_fills s)) (
     ethen (each position_attribution_init (ls_position_attributions s)) (
     ethen (local_snapshot_init s) (Inr ()))))"

definition broker_parts_init :: "reconciliation_snapshot \<Rightarrow> unit result" where
  "broker_parts_init b =
     ethen (each (\<lambda>x. ethen (broker_correlation_init (oo_correlation x)) (open_order_observation_init x))
              (os_orders (sb_open_orders b))) (
     ethen (each (\<lambda>x. ethen (broker_correlation_init (fo_correlation x)) (fill_observation_init x))
              (fs_fills (sb_fills_seen b))) (
     ethen (each broker_position_init (ps_positions (sb_positions_seen b))) (
     ethen (each completeness_evidence_init (snapshot_evidence b)) (
     ethen (open_orders_snapshot_init (sb_open_orders b)) (
     ethen (fills_snapshot_init (sb_fills_seen b)) (
     ethen (positions_snapshot_init (sb_positions_seen b)) (
     ethen (reconciliation_snapshot_init b) (Inr ()))))))))"

definition assessment_parts_init :: "hashes \<Rightarrow> assessment \<Rightarrow> unit result" where
  "assessment_parts_init h a =
     ethen (local_parts_init h (at_local a)) (
     ethen (broker_parts_init (at_broker a)) (
     ethen (each discrepancy_init (rr_discrepancies (at_result a))) (
     ethen (each completeness_evidence_init (rr_evidence (at_result a))) (
     ethen (reconciliation_result_init (at_result a)) (
     ethen (assessment_init a) (Inr ()))))))"

definition request_parts_init :: "hashes \<Rightarrow> commit_request \<Rightarrow> commit_request result" where
  "request_parts_init h r =
     ethen (assessment_parts_init h (cr_assessment r)) (
     ethen (each expected_order_version_init (cr_expected_order_versions r)) (
     ethen (each claim_directive_init (cr_claim_resolutions r)) (
     ethen (each observation_directive_init (cr_observation_resolutions r)) (
     ethen (each requirement_directive_init (cr_requirement_resolutions r)) (
     ethen (each (order_parts_init h) (cr_order_projections r)) (
     commit_request_init r))))))"

section \<open>Validation before the transaction\<close>

text \<open>The request, the authorization, the payload of the request and the two digests.\<close>

record validated_commit =
  vc_request :: commit_request
  vc_authorization :: commit_authorization
  vc_payload :: string
  vc_request_digest :: string
  vc_authorization_digest :: string

definition authorization_binds :: "commit_authorization \<Rightarrow> commit_request \<Rightarrow> string \<Rightarrow> bool" where
  "authorization_binds a r digest \<longleftrightarrow>
     ca_account_id a = cr_account_id r \<and> ca_commit_id a = cr_commit_id r
     \<and> ca_expected_journal_sequence a = cr_expected_journal_sequence r
     \<and> ca_broker_snapshot_id a = sb_snapshot_id (at_broker (cr_assessment r))
     \<and> ca_request_digest a = digest"

text \<open>
  The errors of the integrity check and of the authorization pass through the \<open>try\<close>, any other one
  becomes an invalid authorization.
\<close>

definition validation_error :: "'a jresult \<Rightarrow> 'a jresult" where
  "validation_error m =
     (case m of
        Inl (JournalIntegrity s) \<Rightarrow> Inl (JournalIntegrity s)
      | Inl (AuthorizationError c) \<Rightarrow> Inl (AuthorizationError c)
      | Inl e \<Rightarrow> Inl (AuthorizationError INVALID_AUTHORIZATION)
      | Inr x \<Rightarrow> Inr x)"

definition validate_authorized_request :: "hashes \<Rightarrow> authorized_request \<Rightarrow> validated_commit jresult" where
  "validate_authorized_request h v =
     ebind (validation_error (
       ebind (validate_authorized_commit h v) (\<lambda>v.
       ebind (journal_encode h (py_commit_request (az_request v)) commit_request_domain) (\<lambda>(payload, digest).
       ebind (reread (request_parts_init h (stored_request (az_request v)))) (\<lambda>r.
       ebind (journal_encode h (py_authorization (az_authorization v)) authorization_domain) (\<lambda>(_, a_digest).
       ebind (reread (commit_authorization_init (az_authorization v))) (\<lambda>a.
       ebind (python (authorized_request_init \<lparr>az_authorization = a, az_request = r\<rparr>)) (\<lambda>again.
       ebind (validate_authorized_commit h again) (\<lambda>_.
       Inr \<lparr>vc_request = r, vc_authorization = a, vc_payload = payload, vc_request_digest = digest,
            vc_authorization_digest = a_digest\<rparr>))))))))) (\<lambda>c.
     ebind (commit_request_digest h (vc_request c)) (\<lambda>digest.
     if vc_request_digest c \<noteq> digest then integrity ''live journal request digest is invalid''
     else
       ebind (authorization_digest h (vc_authorization c)) (\<lambda>a_digest.
       if vc_authorization_digest c \<noteq> a_digest then integrity ''live journal authorization digest is invalid''
       else if \<not> authorization_binds (vc_authorization c) (vc_request c) (vc_request_digest c)
       then Inl (AuthorizationError AUTHORIZATION_CONFLICT)
       else Inr c)))"

end
