(* ===== verification/Journal_Commit.thy ===== *)
theory Journal_Commit
  imports Commit_Storage
begin

text \<open>
  \<open>commit_authorized_reconciliation\<close> of \<open>orders/sqlite_live_order_journal.py\<close>: the checks that let an
  authorized request take effect, in the order of the code and each with the disposition it rejects
  with, and the writes of a request that passes them all.
\<close>

section \<open>Checks\<close>

text \<open>The first rejection, or none.\<close>

type_synonym rejection = "commit_disposition option jresult"

definition then_check :: "rejection \<Rightarrow> rejection \<Rightarrow> rejection" where
  "then_check m k = ebind m (\<lambda>d. case d of Some x \<Rightarrow> Inr (Some x) | None \<Rightarrow> k)"

definition reject_if :: "bool \<Rightarrow> commit_disposition \<Rightarrow> rejection" where
  "reject_if b d = Inr (if b then Some d else None)"

definition same_orders :: "live_order list \<Rightarrow> live_order list \<Rightarrow> bool" where
  "same_orders = list_all2 same_live_order"

definition same_live_fill :: "live_fill \<Rightarrow> live_fill \<Rightarrow> bool" where
  "same_live_fill a b \<longleftrightarrow>
     lf_fill_id a = lf_fill_id b \<and> lf_client_order_id a = lf_client_order_id b
     \<and> lf_strategy_id a = lf_strategy_id b \<and> lf_account_id a = lf_account_id b
     \<and> lf_instrument_id a = lf_instrument_id b \<and> lf_side a = lf_side b
     \<and> deq (lf_quantity a) (lf_quantity b) \<and> deq (lf_execution_price a) (lf_execution_price b)
     \<and> lf_occurred_at a = lf_occurred_at b"

text \<open>The assessment is the one the two snapshots give, and the projections are the plan's.\<close>

definition check_authority :: "hashes \<Rightarrow> commit_request \<Rightarrow> rejection" where
  "check_authority h r =
     (let a = cr_assessment r; account = cr_account_id r in
      ebind (python (assess_reconciliation h (at_local a) (at_broker a) (rr_reconciled_at (at_result a)))) (\<lambda>again.
      then_check (reject_if (\<not> same_result (at_result again) (at_result a)) COMMIT_NOT_AUTHORITATIVE) (
      then_check (reject_if (ls_account_id (at_local a) \<noteq> account \<or> sb_account_id (at_broker a) \<noteq> account
                     \<or> rr_account_id (at_result a) \<noteq> account
                     \<or> ls_journal_sequence (at_local a) \<noteq> cr_expected_journal_sequence r)
                   COMMIT_NOT_AUTHORITATIVE) (
      ebind (python (project_authoritative_orders h a)) (\<lambda>plan.
      if pp_disposition plan = PLAN_READY
      then then_check (reject_if (cr_expected_order_versions r \<noteq> pp_expected_order_versions plan
                         \<or> \<not> same_orders (cr_order_projections r) (pp_projected_orders plan))
                         COMMIT_NOT_AUTHORITATIVE)
             (then_check (reject_if (cr_order_projections r = []) COMMIT_NOT_AUTHORITATIVE) (Inr None))
      else then_check (reject_if (cr_order_projections r \<noteq> []) UNSUPPORTED_RESOLUTION)
             (reject_if (\<not> is_authoritative (at_result a) \<or> rr_discrepancies (at_result a) \<noteq> [])
                COMMIT_NOT_AUTHORITATIVE))))))"

text \<open>The local snapshot of the assessment is still what the journal holds.\<close>

definition account_fills :: "string \<Rightarrow> journal_tables \<Rightarrow> live_fill list jresult" where
  "account_fills account t =
     efold (\<lambda>(i, r) fs.
       if map_option row_account_id (dget (t_orders t) (fil_order_id r)) \<noteq> Some account then Inr fs
       else ebind (reread (live_fill_init (fil_fill r))) (\<lambda>f. Inr (fs @ [f]))) (t_fills t) []"

definition fill_sort_key :: "live_fill \<Rightarrow> instant \<times> string" where
  "fill_sort_key f = (lf_occurred_at f, lf_fill_id f)"

definition journal_length :: "journal_tables \<Rightarrow> int" where
  "journal_length t = int (length (t_records t))"

definition check_current :: "hashes \<Rightarrow> commit_request \<Rightarrow> journal_tables \<Rightarrow> rejection" where
  "check_current h r t =
     (let l = at_local (cr_assessment r) in
      ebind (load_orders h (account_order_ids (cr_account_id r) t) t) (\<lambda>orders.
      ebind (account_fills (cr_account_id r) t) (\<lambda>fills.
      ebind (recovery_blockers h (cr_account_id r) t) (\<lambda>blockers.
      then_check (reject_if (\<not> same_orders orders (sort_key order_id (ls_orders l))
                     \<or> \<not> list_all2 same_live_fill (sort_key fill_sort_key fills) (sort_key fill_sort_key (ls_fills l))
                     \<or> blockers \<noteq> ls_recovery_blockers l) STALE_SNAPSHOT)
        (reject_if (journal_length t \<noteq> cr_expected_journal_sequence r) STALE_SNAPSHOT)))))"

definition expected_versions :: "commit_request \<Rightarrow> (string, int) dict" where
  "expected_versions r = fold (\<lambda>v. dset (ev_client_order_id v) (ev_version v)) (cr_expected_order_versions r) []"

definition check_versions :: "commit_request \<Rightarrow> journal_tables \<Rightarrow> rejection" where
  "check_versions r t =
     then_check (reject_if (cr_claim_resolutions r = [] \<and> cr_observation_resolutions r = []
                    \<and> cr_requirement_resolutions r = [] \<and> cr_order_projections r = []) UNSUPPORTED_RESOLUTION)
       (reject_if (list_ex (\<lambda>(i, v). case dget (t_orders t) i of
            None \<Rightarrow> True
          | Some x \<Rightarrow> row_account_id x \<noteq> cr_account_id r \<or> row_version x \<noteq> v) (expected_versions r))
          COMMIT_VERSION_MISMATCH)"

text \<open>The directives name exactly the outstanding claims of the account, as they are now.\<close>

definition account_claims :: "commit_request \<Rightarrow> journal_tables \<Rightarrow> outstanding_row list" where
  "account_claims r t = filter (\<lambda>o1. row_account_id (out_order o1) = cr_account_id r) (outstanding_rows t)"

definition claim_directives :: "commit_request \<Rightarrow> (string, claim_directive) dict" where
  "claim_directives r = fold (\<lambda>d. dset (cl_client_command_id d) d) (cr_claim_resolutions r) []"

definition pending_command_id :: "live_order option \<Rightarrow> string option" where
  "pending_command_id x = Option.bind x (\<lambda>y. map_option (\<lambda>b. command_id_of (pb_command b)) (lo_pending_command y))"

definition claim_current :: "commit_request \<Rightarrow> outstanding_row \<Rightarrow> bool" where
  "claim_current r o1 =
     (case dget (claim_directives r) (out_command_id o1) of
        None \<Rightarrow> False
      | Some d \<Rightarrow> clm_token (out_claim o1) = cl_claim_token d
          \<and> clm_version (out_claim o1) = clm_expected_order_version (out_claim o1)
          \<and> dget (expected_versions r) (cmd_order_id (out_command o1)) = Some (row_version (out_order o1)))"

definition check_claims :: "hashes \<Rightarrow> commit_request \<Rightarrow> journal_tables \<Rightarrow> rejection" where
  "check_claims h r t =
     (let claims = account_claims r t; ids = map out_command_id claims in
      then_check (reject_if (set ids \<noteq> set (map cl_client_command_id (cr_claim_resolutions r)))
                    COMMIT_VERSION_MISMATCH) (
      then_check (efold (\<lambda>x d. if d \<noteq> None then Inr d
          else ebind (load_order_row h (order_id x) t) (\<lambda>current.
               reject_if (case pending_command_id current of None \<Rightarrow> True | Some i \<Rightarrow> i \<notin> set ids)
                 UNSUPPORTED_RESOLUTION)) (cr_order_projections r) None)
        (reject_if (\<not> list_all (claim_current r) claims) COMMIT_VERSION_MISMATCH)))"

text \<open>The same for the observations and the requirements; one that no single account owns forbids every commit.\<close>

fun observation_status_of :: "observation_status \<Rightarrow> resolution_status" where
  "observation_status_of OBSERVATION_UNRESOLVED = STATUS_UNRESOLVED"
| "observation_status_of OBSERVATION_CONFLICT = STATUS_CONFLICT"
| "observation_status_of OBSERVATION_AMBIGUOUS = STATUS_AMBIGUOUS"

definition account_observations ::
  "commit_request \<Rightarrow> (string \<times> string) list \<Rightarrow> journal_tables \<Rightarrow> (string \<times> resolution_status) list" where
  "account_observations r attributed t =
     filter (\<lambda>(i, s). accounts_of attributed i = [cr_account_id r]) (unsettled_observations t)"

definition check_observations ::
  "commit_request \<Rightarrow> (string \<times> string) list \<Rightarrow> journal_tables \<Rightarrow> rejection" where
  "check_observations r attributed t =
     (let found = account_observations r attributed t; ds = cr_observation_resolutions r in
      then_check (reject_if (list_ex (\<lambda>(i, s). length (accounts_of attributed i) \<noteq> 1) (unsettled_observations t))
                    UNSUPPORTED_RESOLUTION) (
      then_check (reject_if (set (map fst found) \<noteq> set (map od_observation_id ds)) COMMIT_VERSION_MISMATCH)
        (reject_if (list_ex (\<lambda>d. dget found (od_observation_id d)
                                   \<noteq> Some (observation_status_of (od_expected_status d))) ds)
           COMMIT_VERSION_MISMATCH)))"

definition account_requirements ::
  "commit_request \<Rightarrow> (string \<times> string) list \<Rightarrow> journal_tables \<Rightarrow> durable_requirement list" where
  "account_requirements r attributed t =
     filter (\<lambda>q. requirement_accounts attributed t q = [cr_account_id r]) (open_requirements t)"

definition check_requirements ::
  "commit_request \<Rightarrow> (string \<times> string) list \<Rightarrow> journal_tables \<Rightarrow> rejection" where
  "check_requirements r attributed t =
     then_check (reject_if (list_ex (\<lambda>q. length (requirement_accounts attributed t q) \<noteq> 1) (open_requirements t))
                   UNSUPPORTED_RESOLUTION)
       (reject_if (set (map dq_requirement_id (account_requirements r attributed t))
                     \<noteq> set (map rd_requirement_id (cr_requirement_resolutions r))) COMMIT_VERSION_MISMATCH)"

text \<open>After the projections no order of the account may still wait for a command.\<close>

definition projections_by_order :: "commit_request \<Rightarrow> (string, live_order) dict" where
  "projections_by_order r = fold (\<lambda>x. dset (order_id x) x) (cr_order_projections r) []"

definition check_pending :: "hashes \<Rightarrow> commit_request \<Rightarrow> journal_tables \<Rightarrow> rejection" where
  "check_pending h r t =
     ebind (load_orders h (account_order_ids (cr_account_id r) t) t) (\<lambda>orders.
     reject_if (list_ex (\<lambda>x. lo_pending_command
         (case dget (projections_by_order r) (order_id x) of Some y \<Rightarrow> y | None \<Rightarrow> x) \<noteq> None) orders)
       UNSUPPORTED_RESOLUTION)"

section \<open>Broker evidence\<close>

definition evidence_matches ::
  "commit_request \<Rightarrow> live_order \<Rightarrow> string \<Rightarrow> string \<Rightarrow> live_side \<Rightarrow> broker_correlation \<Rightarrow> bool" where
  "evidence_matches r x account instrument side c \<longleftrightarrow>
     account = cr_account_id r \<and> instrument = li_instrument_id (lo_intent x) \<and> side = li_side (lo_intent x)
     \<and> bc_status c = CONFIRMED \<and> bc_client_order_id c = Some (order_id x)"

definition matching_broker_evidence :: "commit_request \<Rightarrow> live_order \<Rightarrow> bool \<Rightarrow> bool" where
  "matching_broker_evidence r x by_order =
     (let b = at_broker (cr_assessment r) in
      if by_order
      then list_ex (\<lambda>y. evidence_matches r x (oo_account_id y) (oo_instrument_id y) (oo_side y) (oo_correlation y))
             (os_orders (sb_open_orders b))
      else list_ex (\<lambda>y. evidence_matches r x (fo_account_id y) (fo_instrument_id y) (fo_side y) (fo_correlation y))
             (fs_fills (sb_fills_seen b)))"

definition projection_accepts :: "live_order \<Rightarrow> live_order \<Rightarrow> live_command \<Rightarrow> bool" where
  "projection_accepts current projected c \<longleftrightarrow>
     (case lo_pending_command current of None \<Rightarrow> False | Some b \<Rightarrow> same_command (pb_command b) c)
     \<and> same_live_intent (lo_intent projected) (lo_intent current)
     \<and> lo_version projected = lo_version current + 1 \<and> lo_state projected = ACCEPTED
     \<and> lo_pending_command projected = None \<and> diszero (lo_filled_quantity projected)
     \<and> deq (lo_remaining_quantity projected) (lo_total_quantity current)
     \<and> lo_average_fill_price projected = None"

text \<open>A claim is resolved by evidence of its new order, projected or already known.\<close>

definition claim_supported :: "hashes \<Rightarrow> commit_request \<Rightarrow> journal_tables \<Rightarrow> outstanding_row \<Rightarrow> bool jresult" where
  "claim_supported h r t o1 =
     ebind (load_command h (out_command_id o1) t) (\<lambda>c.
     ebind (load_order_row h (cmd_order_id (out_command o1)) t) (\<lambda>current.
     let projected = dget (projections_by_order r) (cmd_order_id (out_command o1));
         by_order = (case dget (claim_directives r) (out_command_id o1) of
                       None \<Rightarrow> False | Some d \<Rightarrow> cl_resolution d = CLAIM_ORDER_CONFIRMED)
     in Inr (case current of
          None \<Rightarrow> False
        | Some x \<Rightarrow>
            command_kind_of c = NEW
            \<and> (case projected of
                 None \<Rightarrow> lo_pending_command x = None \<and> matching_broker_evidence r x by_order
               | Some y \<Rightarrow> projection_accepts x y c \<and> matching_broker_evidence r y by_order))))"

definition check_each :: "('a \<Rightarrow> bool jresult) \<Rightarrow> commit_disposition \<Rightarrow> 'a list \<Rightarrow> rejection" where
  "check_each ok d xs =
     efold (\<lambda>x found. if found \<noteq> None then Inr found
              else ebind (ok x) (\<lambda>b. reject_if (\<not> b) d)) xs None"

fun event_side :: "broker_event \<Rightarrow> live_side option" where
  "event_side (BrokerOrderEvent e) = None"
| "event_side (BrokerFillEvent e) = Some (bf_side e)"

fun confirms_order :: "broker_event \<Rightarrow> bool" where
  "confirms_order (BrokerOrderEvent e) = True"
| "confirms_order (BrokerFillEvent e) = False"

text \<open>An observation is resolved by the one normalised event it holds of that name.\<close>

definition observation_supported ::
  "hashes \<Rightarrow> commit_request \<Rightarrow> journal_tables \<Rightarrow> observation_directive \<Rightarrow> bool jresult" where
  "observation_supported h r t d =
     (case dget (t_events t) (od_normalized_event_id d) of
        None \<Rightarrow> Inr False
      | Some n \<Rightarrow>
          if evt_raw_id n \<noteq> od_observation_id d then Inr False
          else
            ebind (reread (event_init (evt_event n))) (\<lambda>e.
            let client = bc_client_order_id (event_correlation e);
                by_order = (od_resolution d = OBSERVED_ORDER_CONFIRMED) in
            ebind (case client of None \<Rightarrow> Inr None | Some i \<Rightarrow> load_order_row h i t) (\<lambda>current.
            Inr (case (client, current) of
                   (Some i, Some x) \<Rightarrow>
                     confirms_order e = by_order \<and> event_account_of e = cr_account_id r
                     \<and> bc_status (event_correlation e) = CONFIRMED
                     \<and> (od_expected_status d = OBSERVATION_AMBIGUOUS \<longrightarrow> (od_observation_id d, i) \<in> set (t_ambiguity t))
                     \<and> (event_side e = None \<or> event_side e = Some (li_side (lo_intent x)))
                     \<and> matching_broker_evidence r x by_order
                 | _ \<Rightarrow> False))))"

text \<open>
  The causes of the open requirements: the order of one has a resolved claim when it has an
  outstanding one, which the equality of the two sets already gives; the observation is resolved too.
\<close>

definition check_causes ::
  "commit_request \<Rightarrow> (string \<times> string) list \<Rightarrow> journal_tables \<Rightarrow> rejection" where
  "check_causes r attributed t =
     (let found = map fst (account_observations r attributed t);
          orders = map (\<lambda>o1. cmd_order_id (out_command o1)) (account_claims r t)
      in reject_if (list_ex (\<lambda>q.
            (case dq_client_order_id q of None \<Rightarrow> False
             | Some i \<Rightarrow> filter (\<lambda>x. x = i) orders \<noteq> [] \<and> i \<notin> set orders)
            \<or> (case dq_observation_id q of None \<Rightarrow> False | Some i \<Rightarrow> i \<notin> set found))
          (account_requirements r attributed t)) UNSUPPORTED_RESOLUTION)"

definition check_commit :: "hashes \<Rightarrow> commit_request \<Rightarrow> instant \<Rightarrow> journal_tables \<Rightarrow> rejection" where
  "check_commit h r now t =
     then_check (check_authority h r) (
     then_check (check_current h r t) (
     then_check (check_versions r t) (
     then_check (check_claims h r t) (
     ebind (observation_accounts h t) (\<lambda>attributed.
     then_check (check_observations r attributed t) (
     then_check (check_requirements r attributed t) (
     then_check (check_pending h r t) (
     then_check (check_each (claim_supported h r t) UNSUPPORTED_RESOLUTION (account_claims r t)) (
     then_check (check_each (observation_supported h r t) UNSUPPORTED_RESOLUTION (cr_observation_resolutions r)) (
     then_check (check_causes r attributed t)
       (reject_if (now < rr_reconciled_at (at_result (cr_assessment r))) COMMIT_NOT_AUTHORITATIVE)))))))))))"

end
