(* ===== verification/Journal_Commit_Run.thy ===== *)
theory Journal_Commit_Run
  imports Journal_Commit
begin

text \<open>
  The rest of \<open>commit_authorized_reconciliation\<close>: the writes of an accepted request, the exact retry of
  a commit that is already there, and the transaction around them; and the part of the integrity
  check that covers commits, with which \<open>verify_journal\<close> is complete.
\<close>

section \<open>Digests of what a commit writes\<close>

definition authorization_fact_digest :: "hashes \<Rightarrow> string \<Rightarrow> string \<Rightarrow> instant \<Rightarrow> int \<Rightarrow> string" where
  "authorization_fact_digest h digest commit_id consumed_at resulting =
     scalar_digest h ''tx_trade.live.journal.operator-authorization.v3''
       [(''authorization_digest'', JStr digest), (''commit_id'', JStr commit_id),
        (''consumed_at'', json_utc consumed_at), (''resulting_sequence'', JInt resulting)]"

definition claim_resolution_domain :: string where
  "claim_resolution_domain = ''tx_trade.live.journal.dispatch-claim-resolution.v2''"

definition observation_resolution_domain :: string where
  "observation_resolution_domain = ''tx_trade.live.journal.observation-reconciliation-resolution.v2''"

definition requirement_resolution_domain :: string where
  "requirement_resolution_domain = ''tx_trade.live.journal.reconciliation-requirement-resolution.v2''"

definition claim_precondition :: "hashes \<Rightarrow> string \<Rightarrow> string \<Rightarrow> int \<Rightarrow> int \<Rightarrow> string" where
  "claim_precondition h i token claim_version order_version =
     scalar_digest h claim_resolution_domain
       [(''client_command_id'', JStr i), (''claim_token'', JStr token),
        (''claim_version'', JInt claim_version), (''order_version'', JInt order_version)]"

definition claim_resolution_digest :: "hashes \<Rightarrow> string \<Rightarrow> claim_resolution_row \<Rightarrow> string" where
  "claim_resolution_digest h i r =
     scalar_digest h claim_resolution_domain
       [(''commit_id'', JStr (crr_commit_id r)), (''client_command_id'', JStr i),
        (''precondition'', JStr (crr_precondition r)), (''resolution'', JStr (crr_kind r)),
        (''resolved_at'', json_utc (crr_at r))]"

definition observation_precondition :: "hashes \<Rightarrow> string \<Rightarrow> string \<Rightarrow> string \<Rightarrow> string" where
  "observation_precondition h i status event_id =
     scalar_digest h observation_resolution_domain
       [(''observation_id'', JStr i), (''status'', JStr status), (''normalized_event_id'', JStr event_id)]"

definition observation_resolution_digest :: "hashes \<Rightarrow> string \<Rightarrow> observation_resolution_row \<Rightarrow> string" where
  "observation_resolution_digest h i r =
     scalar_digest h observation_resolution_domain
       [(''commit_id'', JStr (orr_commit_id r)), (''observation_id'', JStr i),
        (''precondition'', JStr (orr_precondition r)), (''resolution'', JStr (orr_kind r)),
        (''resolved_at'', json_utc (orr_at r))]"

definition requirement_precondition :: "hashes \<Rightarrow> durable_requirement \<Rightarrow> string" where
  "requirement_precondition h q =
     scalar_digest h requirement_resolution_domain
       [(''requirement_id'', JInt (dq_requirement_id q)), (''client_order_id'', json_option (dq_client_order_id q)),
        (''observation_id'', json_option (dq_observation_id q)), (''reason_code'', JStr (dq_reason_code q)),
        (''created_at'', json_utc (dq_created_at q))]"

definition requirement_resolution_digest :: "hashes \<Rightarrow> int \<Rightarrow> requirement_resolution_row \<Rightarrow> string" where
  "requirement_resolution_digest h i r =
     scalar_digest h requirement_resolution_domain
       [(''commit_id'', JStr (qrr_commit_id r)), (''requirement_id'', JInt i),
        (''precondition'', JStr (qrr_precondition r)), (''resolution'', JStr (qrr_kind r)),
        (''resolved_at'', json_utc (qrr_at r))]"

definition commit_fact_digest :: "hashes \<Rightarrow> string \<Rightarrow> commit_row \<Rightarrow> string" where
  "commit_fact_digest h i r =
     scalar_digest h ''tx_trade.live.journal.reconciliation-commit.v2''
       [(''commit_id'', JStr i), (''account_id'', JStr (com_account_id r)),
        (''request_digest'', JStr (com_digest r)), (''base_sequence'', JInt (com_base_sequence r)),
        (''resulting_sequence'', JInt (com_resulting_sequence r)), (''committed_at'', json_utc (com_at r))]"

section \<open>Writes\<close>

definition write_projections :: "hashes \<Rightarrow> commit_request \<Rightarrow> journal_tables \<Rightarrow> journal_tables jresult" where
  "write_projections h r =
     efold (\<lambda>x t.
       case dget (expected_versions r) (order_id x) of
         None \<Rightarrow> Inl (JournalPython KeyError)
       | Some v \<Rightarrow> ebind (write_order h x (Some v) t) (\<lambda>(written, t).
           if written then Inr t else integrity ''live journal reconciliation projection write failed''))
       (cr_order_projections r)"

definition insert_commit :: "string \<Rightarrow> commit_row \<Rightarrow> journal_tables \<Rightarrow> journal_tables jresult" where
  "insert_commit i row t =
     ethen (constraint (com_base_sequence row = com_expected_sequence row \<and> 0 \<le> com_expected_sequence row
              \<and> com_base_sequence row < com_resulting_sequence row)) (
     ethen (constraint (list_all (\<lambda>(j, r). com_account_id r = com_account_id row \<longrightarrow>
              com_snapshot_id r \<noteq> com_snapshot_id row \<and> com_digest r \<noteq> com_digest row
              \<and> com_resulting_sequence r \<noteq> com_resulting_sequence row) (t_commits t))) (
     ebind (insert_row i row (t_commits t)) (\<lambda>commits. Inr (t\<lparr>t_commits := commits\<rparr>))))"

definition insert_authorization ::
  "hashes \<Rightarrow> authorization_row \<Rightarrow> journal_tables \<Rightarrow> journal_tables jresult" where
  "insert_authorization h row t =
     (let a = aut_authorization row in
      ethen (constraint (dget (t_commits t) (ca_commit_id a) \<noteq> None
               \<and> ca_expected_journal_sequence a < aut_resulting_sequence row)) (
      ethen (constraint (list_all (\<lambda>(i, r). ca_commit_id (aut_authorization r) \<noteq> ca_commit_id a)
               (t_authorizations t))) (
      ebind (insert_row (ca_authorization_id a) row (t_authorizations t)) (\<lambda>authorizations.
      ebind (append_record ''operator-authorization'' (ca_authorization_id a)
               (authorization_fact_digest h (aut_digest row) (ca_commit_id a) (aut_consumed_at row)
                  (aut_resulting_sequence row))
               (aut_consumed_at row) (t\<lparr>t_authorizations := authorizations\<rparr>)) (\<lambda>(_, t).
      Inr t)))))"

text \<open>The row of what one directive resolves, with its digest.\<close>

definition claim_resolution_of ::
  "hashes \<Rightarrow> string \<Rightarrow> instant \<Rightarrow> outstanding_row \<Rightarrow> claim_directive \<Rightarrow> claim_resolution_row" where
  "claim_resolution_of h commit_id moment o1 d =
     (let i = cl_client_command_id d;
          row = \<lparr>crr_commit_id = commit_id, crr_token = clm_token (out_claim o1),
                 crr_claim_version = clm_version (out_claim o1), crr_order_version = row_version (out_order o1),
                 crr_precondition = claim_precondition h i (clm_token (out_claim o1)) (clm_version (out_claim o1))
                                      (row_version (out_order o1)),
                 crr_kind = claim_resolution_value (cl_resolution d), crr_at = moment, crr_digest = []\<rparr>
      in row\<lparr>crr_digest := claim_resolution_digest h i row\<rparr>)"

definition observation_resolution_of ::
  "hashes \<Rightarrow> string \<Rightarrow> instant \<Rightarrow> observation_directive \<Rightarrow> observation_resolution_row" where
  "observation_resolution_of h commit_id moment d =
     (let i = od_observation_id d; status = observation_status_value (od_expected_status d);
          row = \<lparr>orr_commit_id = commit_id, orr_status = status,
                 orr_precondition = observation_precondition h i status (od_normalized_event_id d),
                 orr_event_id = od_normalized_event_id d,
                 orr_kind = observation_resolution_value (od_resolution d), orr_at = moment, orr_digest = []\<rparr>
      in row\<lparr>orr_digest := observation_resolution_digest h i row\<rparr>)"

definition requirement_resolution_of ::
  "hashes \<Rightarrow> string \<Rightarrow> instant \<Rightarrow> durable_requirement \<Rightarrow> requirement_directive \<Rightarrow> requirement_resolution_row" where
  "requirement_resolution_of h commit_id moment q d =
     (let row = \<lparr>qrr_commit_id = commit_id, qrr_precondition = requirement_precondition h q,
                 qrr_kind = requirement_resolution_value (rd_resolution d), qrr_at = moment, qrr_digest = []\<rparr>
      in row\<lparr>qrr_digest := requirement_resolution_digest h (rd_requirement_id d) row\<rparr>)"

definition resolve_claim ::
  "hashes \<Rightarrow> string \<Rightarrow> instant \<Rightarrow> outstanding_row list \<Rightarrow> claim_directive \<Rightarrow> journal_tables \<Rightarrow> journal_tables jresult" where
  "resolve_claim h commit_id moment claims d t =
     (let i = cl_client_command_id d in
      case find (\<lambda>o1. out_command_id o1 = i) claims of
        None \<Rightarrow> Inl (JournalPython KeyError)
      | Some o1 \<Rightarrow>
          let row = claim_resolution_of h commit_id moment o1 d in
          ethen (constraint (dget (t_claims t) i \<noteq> None \<and> dget (t_commits t) commit_id \<noteq> None
                   \<and> 0 < crr_claim_version row \<and> 0 < crr_order_version row)) (
          ebind (insert_row i row (t_claim_resolutions t)) (\<lambda>rows.
          ebind (append_record ''dispatch-claim-resolution'' i (crr_digest row) moment
                   (t\<lparr>t_claim_resolutions := rows\<rparr>)) (\<lambda>(_, t).
          Inr t))))"

definition settle_observation ::
  "hashes \<Rightarrow> string \<Rightarrow> instant \<Rightarrow> observation_directive \<Rightarrow> journal_tables \<Rightarrow> journal_tables jresult" where
  "settle_observation h commit_id moment d t =
     (let i = od_observation_id d; row = observation_resolution_of h commit_id moment d in
      ethen (constraint (dget (t_raw t) i \<noteq> None \<and> dget (t_commits t) commit_id \<noteq> None)) (
      ebind (insert_row i row (t_observation_resolutions t)) (\<lambda>rows.
      ebind (append_record ''observation-reconciliation-resolution'' i (orr_digest row) moment
               (t\<lparr>t_observation_resolutions := rows\<rparr>)) (\<lambda>(_, t).
      Inr t))))"

definition satisfy_requirement ::
  "hashes \<Rightarrow> string \<Rightarrow> instant \<Rightarrow> durable_requirement list \<Rightarrow> requirement_directive \<Rightarrow> journal_tables
     \<Rightarrow> journal_tables jresult" where
  "satisfy_requirement h commit_id moment open_rows d t =
     (let i = rd_requirement_id d in
      case find (\<lambda>q. dq_requirement_id q = i) open_rows of
        None \<Rightarrow> Inl (JournalPython KeyError)
      | Some q \<Rightarrow>
          let row = requirement_resolution_of h commit_id moment q d in
          ethen (constraint (list_ex (\<lambda>q. dq_requirement_id q = i) (t_requirements t)
                   \<and> dget (t_commits t) commit_id \<noteq> None)) (
          ebind (insert_row i row (t_requirement_resolutions t)) (\<lambda>rows.
          ebind (append_record ''reconciliation-requirement-resolution'' (show_int i) (qrr_digest row) moment
                   (t\<lparr>t_requirement_resolutions := rows\<rparr>)) (\<lambda>(_, t).
          Inr t))))"

text \<open>Everything an accepted request writes; the numbers of its records are known in advance.\<close>

definition commit_columns :: "validated_commit \<Rightarrow> int \<Rightarrow> int \<Rightarrow> instant \<Rightarrow> commit_row" where
  "commit_columns c sequence resulting moment =
     \<lparr>com_account_id = cr_account_id (vc_request c),
      com_expected_sequence = cr_expected_journal_sequence (vc_request c), com_base_sequence = sequence,
      com_snapshot_id = sb_snapshot_id (at_broker (cr_assessment (vc_request c))), com_payload = vc_payload c, com_request = vc_request c,
      com_digest = vc_request_digest c, com_at = moment, com_resulting_sequence = resulting\<rparr>"

definition target_count :: "commit_request \<Rightarrow> int" where
  "target_count r =
     int (length (cr_claim_resolutions r) + length (cr_observation_resolutions r) + length (cr_requirement_resolutions r))"

definition store_commit :: "hashes \<Rightarrow> validated_commit \<Rightarrow> instant \<Rightarrow> journal_tables \<Rightarrow> (int \<times> journal_tables) jresult" where
  "store_commit h c moment t0 =
     (let r = vc_request c; i = cr_commit_id r; sequence = journal_length t0;
          resulting = sequence + target_count r + 2; row = commit_columns c sequence resulting moment in
      ebind (observation_accounts h t0) (\<lambda>attributed.
      ebind (write_projections h r t0) (\<lambda>t.
      ebind (insert_commit i row t) (\<lambda>t.
      ebind (insert_authorization h
               \<lparr>aut_authorization = (vc_authorization c)\<lparr>ca_commit_id := i\<rparr>, aut_consumed_at = moment,
                aut_digest = vc_authorization_digest c, aut_resulting_sequence = resulting\<rparr> t) (\<lambda>t.
      ebind (efold (resolve_claim h i moment (account_claims r t0)) (cr_claim_resolutions r) t) (\<lambda>t.
      ebind (efold (settle_observation h i moment) (cr_observation_resolutions r) t) (\<lambda>t.
      ebind (efold (satisfy_requirement h i moment (account_requirements r attributed t0))
               (cr_requirement_resolutions r) t) (\<lambda>t.
      ebind (append_record ''reconciliation-commit'' i (commit_fact_digest h i row) moment t) (\<lambda>(final, t).
      if final \<noteq> resulting then integrity ''live journal reconciliation sequence is invalid''
      else Inr (resulting, t))))))))))"

section \<open>The integrity check of commits\<close>

text \<open>
  A commit row against its record, its authorization and its own request. The columns of a stored
  authorization are read back as one value.
\<close>

definition verify_authorization ::
  "hashes \<Rightarrow> journal_identity \<Rightarrow> journal_tables \<Rightarrow> string \<times> commit_row \<Rightarrow> commit_request \<Rightarrow> authorization_row
     \<Rightarrow> expected_records \<Rightarrow> expected_records jresult" where
  "verify_authorization h identity t row r u e =
     (let (i, m) = row; invalid = integrity ''live journal reconciliation authorization is invalid'' in
      case ebind (python (commit_authorization_init (aut_authorization u))) (\<lambda>a.
             ebind (authorization_digest h a) (\<lambda>digest. Inr (a, digest))) of
        Inl x \<Rightarrow> invalid
      | Inr (a, digest) \<Rightarrow>
          let fact = authorization_fact_digest h digest (ca_commit_id a) (aut_consumed_at u) (aut_resulting_sequence u) in
          if record_at ''operator-authorization'' (ca_authorization_id a) t = None
             \<or> ca_commit_id a \<noteq> cr_commit_id r \<or> ca_journal_id a \<noteq> ji_journal_id identity
             \<or> ca_account_id a \<noteq> cr_account_id r \<or> ca_request_digest a \<noteq> com_digest m
             \<or> ca_broker_snapshot_id a \<noteq> com_snapshot_id m
             \<or> ca_expected_journal_sequence a \<noteq> com_expected_sequence m
             \<or> com_at m < ca_authorized_at a \<or> ca_expires_at a \<le> com_at m
             \<or> aut_consumed_at u \<noteq> com_at m \<or> aut_digest u \<noteq> digest
             \<or> aut_resulting_sequence u \<noteq> com_resulting_sequence m
             \<or> record_number ''operator-authorization'' (ca_authorization_id a) (t_records t)
                 \<noteq> Some (com_base_sequence m + 1)
             \<or> map_option rec_digest (record_at ''operator-authorization'' (ca_authorization_id a) t) \<noteq> Some fact
             \<or> map_option rec_at (record_at ''operator-authorization'' (ca_authorization_id a) t) \<noteq> Some (com_at m)
          then invalid
          else Inr (dset (''operator-authorization'', ca_authorization_id a) (fact, com_at m) e))"

text \<open>A projection against the history it continues and the claim it resolved.\<close>

definition verify_projection ::
  "hashes \<Rightarrow> journal_tables \<Rightarrow> commit_request \<Rightarrow> live_order \<Rightarrow> unit jresult" where
  "verify_projection h t r x =
     (let i = order_id x; invalid = integrity ''live journal reconciliation projection history is invalid'' in
      case dget (expected_versions r) i of
        None \<Rightarrow> Inl (JournalPython KeyError)
      | Some v \<Rightarrow>
          ebind (load_history_order h i v t) (\<lambda>prior.
          ebind (journal_encode h (py_order x) order_domain) (\<lambda>(_, digest).
          case prior of
            None \<Rightarrow> invalid
          | Some y \<Rightarrow>
              (case lo_pending_command y of
                 None \<Rightarrow> invalid
               | Some b \<Rightarrow>
                   let c = command_id_of (pb_command b) in
                   if command_kind_of (pb_command b) \<noteq> NEW
                      \<or> map_option cl_resolution (dget (claim_directives r) c) \<noteq> Some CLAIM_ORDER_CONFIRMED
                      \<or> (case (dget (t_claim_resolutions t) c, dget (t_claims t) c) of
                           (Some z, Some k) \<Rightarrow> crr_commit_id z \<noteq> cr_commit_id r \<or> crr_order_version z \<noteq> v
                             \<or> clm_expected_order_version k \<noteq> v \<or> clm_version k \<noteq> v
                         | _ \<Rightarrow> True)
                      \<or> (case find (\<lambda>z. order_id z = i) (ls_orders (at_local (cr_assessment r))) of
                           None \<Rightarrow> True | Some z \<Rightarrow> \<not> same_live_order y z)
                      \<or> \<not> same_live_intent (lo_intent y) (lo_intent x) \<or> lo_version x \<noteq> v + 1
                      \<or> map_option (\<lambda>z. (hist_order z, hist_digest z))
                           (find (\<lambda>z. hist_order_id z = i \<and> hist_version z = lo_version x) (t_history t))
                         \<noteq> Some (stored_order x, digest)
                   then invalid else Inr ()))))"

text \<open>The request against its own assessment and plan.\<close>

definition verify_plan :: "hashes \<Rightarrow> journal_tables \<Rightarrow> commit_request \<Rightarrow> unit jresult" where
  "verify_plan h t r =
     (let a = cr_assessment r in
      ebind (python (assess_reconciliation h (at_local a) (at_broker a) (rr_reconciled_at (at_result a)))) (\<lambda>again.
      if \<not> same_result (at_result again) (at_result a)
      then integrity ''live journal reconciliation projection is invalid''
      else
        ebind (python (project_authoritative_orders h a)) (\<lambda>plan.
        if cr_order_projections r \<noteq> []
        then (if pp_disposition plan \<noteq> PLAN_READY \<or> cr_expected_order_versions r \<noteq> pp_expected_order_versions plan
                 \<or> \<not> same_orders (cr_order_projections r) (pp_projected_orders plan)
              then integrity ''live journal reconciliation projection is invalid''
              else efold (\<lambda>x _. verify_projection h t r x) (cr_order_projections r) ())
        else if pp_disposition plan = PLAN_READY
        then integrity ''live journal reconciliation projection is missing''
        else if \<not> is_authoritative (at_result a) \<or> rr_discrepancies (at_result a) \<noteq> []
        then integrity ''live journal reconciliation assessment is invalid''
        else Inr ())))"

definition verify_commit ::
  "hashes \<Rightarrow> journal_identity \<Rightarrow> journal_tables \<Rightarrow> string \<times> commit_row \<Rightarrow> expected_records
     \<Rightarrow> expected_records jresult" where
  "verify_commit h identity t row e =
     (let (i, m) = row; number = record_number ''reconciliation-commit'' i (t_records t) in
      ebind (reread (request_parts_init h (com_request m))) (\<lambda>r.
      let fact = commit_fact_digest h i m in
      case record_at ''reconciliation-commit'' i t of
        None \<Rightarrow> integrity ''live journal reconciliation commit is invalid''
      | Some c \<Rightarrow>
          if i \<noteq> cr_commit_id r \<or> com_account_id m \<noteq> cr_account_id r
             \<or> com_expected_sequence m \<noteq> cr_expected_journal_sequence r
             \<or> com_base_sequence m \<noteq> cr_expected_journal_sequence r
             \<or> com_snapshot_id m \<noteq> sb_snapshot_id (at_broker (cr_assessment r))
             \<or> number \<noteq> Some (com_resulting_sequence m) \<or> com_at m \<noteq> rec_at c \<or> rec_digest c \<noteq> fact
          then integrity ''live journal reconciliation commit is invalid''
          else (case find (\<lambda>(k, u). ca_commit_id (aut_authorization u) = i) (t_authorizations t) of
                  None \<Rightarrow> integrity ''live journal reconciliation authorization is missing''
                | Some (k, u) \<Rightarrow>
                    ebind (verify_authorization h identity t (i, m) r u
                             (dset (''reconciliation-commit'', i) (fact, com_at m) e)) (\<lambda>e.
                    ebind (verify_plan h t r) (\<lambda>_. Inr e)))))"

text \<open>What each commit resolved is what its request asked for, no more and no less.\<close>

definition verify_mapping :: "journal_tables \<Rightarrow> string \<times> commit_row \<Rightarrow> unit jresult" where
  "verify_mapping t row =
     (let (i, m) = row; r = com_request m;
          claims = map cl_client_command_id (cr_claim_resolutions r);
          observations = map od_observation_id (cr_observation_resolutions r);
          requirements = map rd_requirement_id (cr_requirement_resolutions r);
          n = int (length (remdups claims) + length (remdups observations) + length (remdups requirements)) in
      if (n = 0 \<and> cr_order_projections r = [])
         \<or> set claims \<noteq> set (map fst (filter (\<lambda>(k, x). crr_commit_id x = i) (t_claim_resolutions t)))
         \<or> set observations \<noteq> set (map fst (filter (\<lambda>(k, x). orr_commit_id x = i) (t_observation_resolutions t)))
         \<or> set requirements \<noteq> set (map fst (filter (\<lambda>(k, x). qrr_commit_id x = i) (t_requirement_resolutions t)))
         \<or> com_base_sequence m \<noteq> cr_expected_journal_sequence r
         \<or> com_resulting_sequence m \<noteq> cr_expected_journal_sequence r + n + 2
      then integrity ''live journal reconciliation commit mapping is invalid'' else Inr ())"

definition verify_authorization_mapping :: "journal_tables \<Rightarrow> unit jresult" where
  "verify_authorization_mapping t =
     (if set (map (\<lambda>(k, u). ca_commit_id (aut_authorization u)) (t_authorizations t)) \<noteq> set (map fst (t_commits t))
      then integrity ''live journal reconciliation authorization mapping is invalid'' else Inr ())"

definition verify_claim_resolution ::
  "hashes \<Rightarrow> journal_tables \<Rightarrow> string \<times> claim_resolution_row \<Rightarrow> expected_records \<Rightarrow> expected_records jresult" where
  "verify_claim_resolution h t row e =
     (let (i, x) = row in
      case (dget (t_claims t) i, dget (t_commands t) i) of
        (Some k, Some m) \<Rightarrow>
          (case dget (t_orders t) (cmd_order_id m) of
             None \<Rightarrow> Inr e
           | Some o1 \<Rightarrow>
               if (case dget (t_commits t) (crr_commit_id x) of
                     None \<Rightarrow> True
                   | Some c \<Rightarrow>
                       (case find (\<lambda>d. cl_client_command_id d = i) (cr_claim_resolutions (com_request c)) of
                          None \<Rightarrow> True
                        | Some d \<Rightarrow> cr_account_id (com_request c) \<noteq> row_account_id o1
                            \<or> cl_claim_token d \<noteq> crr_token x
                            \<or> claim_resolution_value (cl_resolution d) \<noteq> crr_kind x))
                  \<or> crr_token x \<noteq> clm_token k \<or> crr_claim_version x \<noteq> clm_version k
                  \<or> crr_precondition x \<noteq> claim_precondition h i (crr_token x) (crr_claim_version x) (crr_order_version x)
                  \<or> crr_digest x \<noteq> claim_resolution_digest h i x \<or> dget (t_receipts t) i \<noteq> None
               then integrity ''live journal claim resolution is invalid''
               else Inr (dset (''dispatch-claim-resolution'', i) (crr_digest x, crr_at x) e))
      | _ \<Rightarrow> Inr e)"

definition verify_observation_resolution ::
  "hashes \<Rightarrow> journal_tables \<Rightarrow> string \<times> observation_resolution_row \<Rightarrow> expected_records \<Rightarrow> expected_records jresult" where
  "verify_observation_resolution h t row e =
     (let (i, x) = row in
      case dget (t_raw t) i of
        None \<Rightarrow> Inr e
      | Some raw \<Rightarrow>
          ebind (case dget (t_events t) (orr_event_id x) of
                   None \<Rightarrow> Inr None
                 | Some n \<Rightarrow> if evt_raw_id n \<noteq> i then Inr None
                             else ebind (reread (event_init (evt_event n))) (\<lambda>event. Inr (Some event))) (\<lambda>event.
          if (case dget (t_commits t) (orr_commit_id x) of
                None \<Rightarrow> True
              | Some c \<Rightarrow>
                  (case find (\<lambda>d. od_observation_id d = i) (cr_observation_resolutions (com_request c)) of
                     None \<Rightarrow> True
                   | Some d \<Rightarrow> observation_status_value (od_expected_status d) \<noteq> orr_status x
                       \<or> od_normalized_event_id d \<noteq> orr_event_id x
                       \<or> observation_resolution_value (od_resolution d) \<noteq> orr_kind x))
             \<or> resolution_status_text (raw_status raw) \<noteq> orr_status x \<or> event = None
             \<or> (orr_status x = ''ambiguous'' \<and>
                  (case Option.bind event (\<lambda>y. bc_client_order_id (event_correlation y)) of
                     None \<Rightarrow> True | Some c \<Rightarrow> (i, c) \<notin> set (t_ambiguity t)))
             \<or> orr_precondition x \<noteq> observation_precondition h i (orr_status x) (orr_event_id x)
             \<or> orr_digest x \<noteq> observation_resolution_digest h i x
          then integrity ''live journal observation reconciliation resolution is invalid''
          else Inr (dset (''observation-reconciliation-resolution'', i) (orr_digest x, orr_at x) e)))"

definition verify_requirement_resolution ::
  "hashes \<Rightarrow> journal_tables \<Rightarrow> int \<times> requirement_resolution_row \<Rightarrow> expected_records \<Rightarrow> expected_records jresult" where
  "verify_requirement_resolution h t row e =
     (let (i, x) = row in
      case find (\<lambda>q. dq_requirement_id q = i) (t_requirements t) of
        None \<Rightarrow> Inr e
      | Some q \<Rightarrow>
          if (case dget (t_commits t) (qrr_commit_id x) of
                None \<Rightarrow> True
              | Some c \<Rightarrow>
                  (case find (\<lambda>d. rd_requirement_id d = i) (cr_requirement_resolutions (com_request c)) of
                     None \<Rightarrow> True
                   | Some d \<Rightarrow> requirement_resolution_value (rd_resolution d) \<noteq> qrr_kind x))
             \<or> qrr_precondition x \<noteq> requirement_precondition h q
             \<or> qrr_digest x \<noteq> requirement_resolution_digest h i x
          then integrity ''live journal requirement resolution is invalid''
          else Inr (dset (''reconciliation-requirement-resolution'', show_int i) (qrr_digest x, qrr_at x) e))"

section \<open>The whole check\<close>

text \<open>The records that are there are exactly the ones the tables account for.\<close>

definition records_match :: "journal_tables \<Rightarrow> expected_records \<Rightarrow> bool" where
  "records_match t e \<longleftrightarrow>
     length (t_records t) = length e
     \<and> list_all (\<lambda>r. dget e (rec_kind r, rec_id r) = Some (rec_digest r, rec_at r)) (t_records t)"

definition verify_journal ::
  "hashes \<Rightarrow> schema_fingerprints \<Rightarrow> journal_identity \<Rightarrow> journal_tables \<Rightarrow> unit jresult" where
  "verify_journal h f identity t =
     ebind (verify_identity h f identity t) (\<lambda>e.
     ebind (efold (verify_reservation h t) (t_reservations t) e) (\<lambda>e.
     ebind (efold (verify_command h t) (t_commands t) e) (\<lambda>e.
     ebind (efold (verify_claim h t) (t_claims t) e) (\<lambda>e.
     ebind (efold verify_receipt (t_receipts t) e) (\<lambda>e.
     ebind (efold (verify_raw h t) (t_raw t) e) (\<lambda>e.
     ethen (verify_ambiguity t) (
     ebind (efold (verify_event h t) (t_events t) e) (\<lambda>e.
     ethen (efold (\<lambda>row _. verify_fill h t row) (t_fills t) ()) (
     ebind (efold (verify_requirement h) (t_requirements t) e) (\<lambda>e.
     ebind (efold (verify_commit h identity t) (t_commits t) e) (\<lambda>e.
     ethen (verify_authorization_mapping t) (
     ethen (efold (\<lambda>row _. verify_mapping t row) (t_commits t) ()) (
     ebind (efold (verify_claim_resolution h t) (t_claim_resolutions t) e) (\<lambda>e.
     ebind (efold (verify_observation_resolution h t) (t_observation_resolutions t) e) (\<lambda>e.
     ebind (efold (verify_requirement_resolution h t) (t_requirement_resolutions t) e) (\<lambda>e.
     if records_match t e then Inr () else integrity ''live journal record mapping is invalid''))))))))))))))))"

section \<open>The transaction of a commit and the account snapshot\<close>

definition rejected :: "commit_request \<Rightarrow> commit_disposition \<Rightarrow> commit_result result" where
  "rejected r d = commit_result_init
     \<lparr>cx_commit_id = cr_commit_id r, cx_account_id = cr_account_id r, cx_disposition = d, cx_committed_at = None,
      cx_resulting_journal_sequence = None, cx_resolved_claim_ids = [], cx_resolved_observation_ids = [],
      cx_resolved_requirement_ids = [], cx_order_projections = []\<rparr>"

definition committed ::
  "commit_request \<Rightarrow> commit_disposition \<Rightarrow> instant \<Rightarrow> int \<Rightarrow> string list \<Rightarrow> string list \<Rightarrow> int list
     \<Rightarrow> commit_result result" where
  "committed r d moment sequence claims observations requirements = commit_result_init
     \<lparr>cx_commit_id = cr_commit_id r, cx_account_id = cr_account_id r, cx_disposition = d,
      cx_committed_at = Some moment, cx_resulting_journal_sequence = Some sequence,
      cx_resolved_claim_ids = claims, cx_resolved_observation_ids = observations,
      cx_resolved_requirement_ids = requirements, cx_order_projections = cr_order_projections r\<rparr>"

text \<open>A commit that is already there: only the very same request and authorization get its result.\<close>

definition retry_commit :: "validated_commit \<Rightarrow> commit_row \<Rightarrow> commit_result transaction" where
  "retry_commit c m t =
     (let r = vc_request c; i = cr_commit_id r in
      if com_account_id m \<noteq> cr_account_id r \<or> com_payload m \<noteq> vc_payload c \<or> com_digest m \<noteq> vc_request_digest c
      then answer (rejected r COMMIT_ID_CONFLICT) t
      else if map_option snd (find (\<lambda>(k, u). ca_commit_id (aut_authorization u) = i) (t_authorizations t))
                \<noteq> Some \<lparr>aut_authorization = vc_authorization c, aut_consumed_at = com_at m,
                       aut_digest = vc_authorization_digest c, aut_resulting_sequence = com_resulting_sequence m\<rparr>
      then Inl (AuthorizationError AUTHORIZATION_CONFLICT)
      else answer (committed r EXACT_COMMIT_RETRY (com_at m) (com_resulting_sequence m)
             (sort (map fst (filter (\<lambda>(k, x). crr_commit_id x = i) (t_claim_resolutions t))))
             (sort (map fst (filter (\<lambda>(k, x). orr_commit_id x = i) (t_observation_resolutions t))))
             (sort (map fst (filter (\<lambda>(k, x). qrr_commit_id x = i) (t_requirement_resolutions t))))) t)"

definition accept_commit :: "hashes \<Rightarrow> validated_commit \<Rightarrow> instant \<Rightarrow> commit_result transaction" where
  "accept_commit h c now t =
     (let r = vc_request c in
      ebind (check_commit h r now t) (\<lambda>verdict.
      case verdict of
        Some d \<Rightarrow> answer (rejected r d) t
      | None \<Rightarrow>
          ebind (store_commit h c now t) (\<lambda>(sequence, t).
          Inr (python (committed r COMMITTED now sequence
                 (sort (map cl_client_command_id (cr_claim_resolutions r)))
                 (sort (map od_observation_id (cr_observation_resolutions r)))
                 (sort (map rd_requirement_id (cr_requirement_resolutions r)))), t))))"

definition commit_tx ::
  "hashes \<Rightarrow> schema_fingerprints \<Rightarrow> journal_identity \<Rightarrow> journal_env \<Rightarrow> validated_commit \<Rightarrow> commit_result transaction" where
  "commit_tx h f identity env c t =
     (let r = vc_request c; a = vc_authorization c in
      ethen (verify_journal h f identity t) (
      ethen (require (ca_journal_id a = ji_journal_id identity) (AuthorizationError AUTHORIZATION_CONFLICT)) (
      ebind (journal_now env) (\<lambda>now.
      case dget (t_commits t) (cr_commit_id r) of
        Some m \<Rightarrow> retry_commit c m t
      | None \<Rightarrow>
          ethen (require (ca_authorized_at a \<le> now) (AuthorizationError INVALID_AUTHORIZATION)) (
          ethen (require (now < ca_expires_at a) (AuthorizationError AUTHORIZATION_EXPIRED)) (
          ethen (require (dget (t_authorizations t) (ca_authorization_id a) = None)
                   (AuthorizationError AUTHORIZATION_CONFLICT)) (
          if list_ex (\<lambda>(i, m). com_account_id m = cr_account_id r
                \<and> (com_snapshot_id m = sb_snapshot_id (at_broker (cr_assessment r))
                   \<or> com_digest m = vc_request_digest c)) (t_commits t)
          then answer (rejected r COMMIT_ID_CONFLICT) t
          else accept_commit h c now t)))))))"

definition commit_authorized_reconciliation ::
  "hashes \<Rightarrow> schema_fingerprints \<Rightarrow> journal_identity \<Rightarrow> journal_env \<Rightarrow> authorized_request \<Rightarrow> journal
     \<Rightarrow> commit_result jresult \<times> journal" where
  "commit_authorized_reconciliation h f identity env v j =
     (case validate_authorized_request h v of
        Inl e \<Rightarrow> (Inl e, j)
      | Inr c \<Rightarrow> journal_operation (Inl CasMismatch) (commit_tx h f identity env c) j)"

text \<open>
  \<open>load_account_snapshot\<close>. It reads in a context of 34 digits, where the sum of the filled and the
  remaining quantity of an order may be too long for the 28 digits of the other operations.
\<close>

definition snapshot_ctx :: dctx where
  "snapshot_ctx = default_ctx\<lparr>prec := 34\<rparr>"

definition sums_in_snapshot :: "live_order \<Rightarrow> bool" where
  "sums_in_snapshot x =
     (case dadd snapshot_ctx (lo_filled_quantity x) (lo_remaining_quantity x) of
        Inl e \<Rightarrow> False | Inr q \<Rightarrow> deq q (lo_total_quantity x))"

definition strategy_quantities :: "live_fill list \<Rightarrow> (string \<times> string, decimal list) dict" where
  "strategy_quantities fills =
     fold (\<lambda>f. dappend (lf_strategy_id f, lf_instrument_id f) (signed_fill_quantity f)) fills []"

definition hydrate_account_snapshot ::
  "hashes \<Rightarrow> schema_fingerprints \<Rightarrow> journal_identity \<Rightarrow> string \<Rightarrow> instant \<Rightarrow> journal_tables \<Rightarrow> local_snapshot jresult" where
  "hydrate_account_snapshot h f identity account as_of t =
     ethen (verify_journal h f identity t) (
     ethen (if list_all sums_in_snapshot (map row_order (dvalues (t_orders t)) @ map hist_order (t_history t))
            then Inr () else integrity ''live journal integrity check failed'') (
     ebind (load_orders h (account_order_ids account t) t) (\<lambda>orders.
     ebind (account_fills account t) (\<lambda>fills.
     ethen (if list_all (\<lambda>x. lf_account_id x = account) fills then Inr ()
            else integrity ''live journal fill is invalid'') (
     ethen (require (list_all (\<lambda>x. x \<le> as_of) (map lo_updated_at orders @ map lf_occurred_at fills))
              (JournalPython (ValueError ''clock predates durable account data''))) (
     ebind (python (exact_sums (strategy_quantities (sort_key fill_sort_key fills)))) (\<lambda>held.
     ebind (recovery_blockers h account t) (\<lambda>blockers.
     ebind (efold (\<lambda>((strategy, instrument), q) found.
              if diszero q then Inr found
              else ebind (python (position_attribution_init
                     \<lparr>pa_strategy_id = strategy, pa_account_id = account, pa_instrument_id = instrument,
                      pa_attributed_quantity = q, pa_as_of = as_of\<rparr>)) (\<lambda>a. Inr (found @ [a])))
              (sort_key fst held) []) (\<lambda>attributions.
     python (local_snapshot_init
       \<lparr>ls_account_id = account, ls_orders = orders, ls_fills = sort_key fill_sort_key fills,
        ls_position_attributions = attributions, ls_as_of = as_of, ls_recovery_blockers = blockers,
        ls_journal_sequence = journal_length t\<rparr>))))))))))"

definition journal_account_snapshot ::
  "hashes \<Rightarrow> schema_fingerprints \<Rightarrow> journal_identity \<Rightarrow> journal_env \<Rightarrow> string \<Rightarrow> journal
     \<Rightarrow> local_snapshot jresult \<times> journal" where
  "journal_account_snapshot h f identity env account j =
     (if \<not> identifier_ok account
      then (Inl (JournalPython (ValueError ''account_id must be a bounded ASCII identifier'')), j)
      else journal_read (\<lambda>t. ebind (journal_now env) (\<lambda>as_of.
             hydrate_account_snapshot h f identity account as_of t)) j)"

end
