(* ===== verification/Journal_Writes.thy ===== *)
theory Journal_Writes
  imports Journal_Commit_Run Journal_Reads Live_Machine
begin

text \<open>
  The writes of the journal as one step relation on its tables: each rule is a row together with the
  record that accounts for it, under what the transaction has checked when it writes it. Rules for
  walking down error-propagating code then show that every transaction is a sequence of such writes.
  What the writes keep, and with it what every transaction keeps, is proved on the relation.
\<close>

section \<open>Writes\<close>

lemma insert_row_Inr: "insert_row k v d = Inr d' \<longleftrightarrow> dget d k = None \<and> d' = dset k v d"
  by (auto simp: insert_row_def constraint_def err_simps)

lemma append_record_Inr:
  "append_record kind i digest moment t = Inr (n, t') \<longleftrightarrow>
     (\<forall>r\<in>set (t_records t). \<not> (rec_kind r = kind \<and> rec_id r = i)) \<and> n = int (Suc (length (t_records t)))
     \<and> t' = t\<lparr>t_records := t_records t @ [\<lparr>rec_kind = kind, rec_id = i, rec_digest = digest, rec_at = moment\<rparr>]\<rparr>"
  by (auto simp: append_record_def constraint_def err_simps list_all_iff)

lemma insert_history_Inr:
  "insert_history x digest t = Inr t' \<longleftrightarrow>
     dget (t_orders t) (li_client_order_id (lo_intent x)) \<noteq> None \<and> 0 < lo_version x
     \<and> (\<forall>r\<in>set (t_history t). \<not> (hist_order_id r = li_client_order_id (lo_intent x) \<and> hist_version r = lo_version x))
     \<and> t' = t\<lparr>t_history := t_history t @
           [\<lparr>hist_order_id = li_client_order_id (lo_intent x), hist_version = lo_version x,
             hist_order = stored_order x, hist_digest = digest, hist_at = lo_updated_at x\<rparr>]\<rparr>"
  by (auto simp: insert_history_def constraint_def Let_def err_simps list_all_iff)

text \<open>The two ways an order row is written: a new row, or the row of the expected version replaced.\<close>

definition order_written :: "live_order \<Rightarrow> string \<Rightarrow> journal_tables \<Rightarrow> journal_tables" where
  "order_written x digest t =
     t\<lparr>t_orders := dset (li_client_order_id (lo_intent x)) (order_columns x digest) (t_orders t),
       t_history := t_history t @
           [\<lparr>hist_order_id = li_client_order_id (lo_intent x), hist_version = lo_version x,
             hist_order = stored_order x, hist_digest = digest, hist_at = lo_updated_at x\<rparr>]\<rparr>"

lemma write_order_new:
  assumes "write_order h x None t = Inr (written, t')"
  obtains payload digest where "journal_encode h (py_order x) order_domain = Inr (payload, digest)"
    "t' = order_written x digest t" "dget (t_orders t) (li_client_order_id (lo_intent x)) = None" "0 < lo_version x"
    "\<forall>r\<in>set (t_history t). \<not> (hist_order_id r = li_client_order_id (lo_intent x) \<and> hist_version r = lo_version x)"
  using assms
  by (auto simp: write_order_def Let_def err_simps constraint_def insert_row_Inr insert_history_Inr order_written_def)

lemma write_order_next:
  assumes "write_order h x (Some v) t = Inr (written, t')"
  obtains "t' = t" "\<not> written"
  | payload digest old where "journal_encode h (py_order x) order_domain = Inr (payload, digest)"
    "t' = order_written x digest t" "dget (t_orders t) (li_client_order_id (lo_intent x)) = Some old" "row_version old = v"
    "\<forall>r\<in>set (t_history t). \<not> (hist_order_id r = li_client_order_id (lo_intent x) \<and> hist_version r = lo_version x)"
    "written"
  using assms
  by (auto simp: write_order_def Let_def err_simps constraint_def insert_history_Inr order_written_def
      split: option.splits if_splits)

definition command_columns :: "live_command \<Rightarrow> string \<Rightarrow> string \<Rightarrow> command_row" where
  "command_columns c fingerprint digest =
     \<lparr>cmd_order_id = command_order_id c, cmd_kind = kind_value (command_kind_of c),
      cmd_fingerprint = fingerprint, cmd_command = stored_command c, cmd_digest = digest,
      cmd_registered_at = requested_at_of c\<rparr>"

lemma insert_command_Inr:
  "insert_command h c fingerprint t = Inr t' \<longleftrightarrow>
     (\<exists>payload digest. journal_encode h (py_command c) command_domain_text = Inr (payload, digest)
        \<and> dget (t_orders t) (command_order_id c) \<noteq> None \<and> dget (t_commands t) (command_id_of c) = None
        \<and> t' = t\<lparr>t_commands := dset (command_id_of c) (command_columns c fingerprint digest) (t_commands t)\<rparr>)"
  by (auto simp: insert_command_def command_columns_def err_simps constraint_def insert_row_Inr)

lemma answer_Inr: "answer m t = Inr (a, t') \<longleftrightarrow> t' = t \<and> (\<exists>x. m = Inr x \<and> a = Inr x)"
  by (auto simp: answer_def err_simps)

definition recorded :: "string \<Rightarrow> string \<Rightarrow> string \<Rightarrow> instant \<Rightarrow> journal_tables \<Rightarrow> journal_tables" where
  "recorded kind i digest moment t =
     t\<lparr>t_records := t_records t @ [\<lparr>rec_kind = kind, rec_id = i, rec_digest = digest, rec_at = moment\<rparr>]\<rparr>"

definition unrecorded :: "string \<Rightarrow> string \<Rightarrow> journal_tables \<Rightarrow> bool" where
  "unrecorded kind i t \<longleftrightarrow> (\<forall>r\<in>set (t_records t). \<not> (rec_kind r = kind \<and> rec_id r = i))"

abbreviation client_order :: "live_order \<Rightarrow> string" where
  "client_order x \<equiv> li_client_order_id (lo_intent x)"

definition claim_of :: "live_command \<Rightarrow> claim_row \<Rightarrow> outstanding_claim" where
  "claim_of c r =
     \<lparr>oc_command = c, oc_claim_token = clm_token r, oc_claimant_id = clm_claimant r,
      oc_expected_order_version = clm_expected_order_version r, oc_claimed_at = clm_claimed_at r\<rparr>"

inductive table_write :: "hashes \<Rightarrow> journal_tables \<Rightarrow> journal_tables \<Rightarrow> bool" for h where
  order_stored:
    "dget (t_reservations t) (client_order x) = None \<Longrightarrow> dget (t_orders t) (client_order x) = None \<Longrightarrow>
     0 < lo_version x \<Longrightarrow>
     \<forall>r\<in>set (t_history t). \<not> (hist_order_id r = client_order x \<and> hist_version r = lo_version x) \<Longrightarrow>
     intent_fingerprint h (lo_intent x) = Inr fingerprint \<Longrightarrow>
     journal_encode h (py_order x) order_domain = Inr (payload, digest) \<Longrightarrow>
     unrecorded ''order'' (client_order x) t \<Longrightarrow>
     table_write h t (recorded ''order'' (client_order x) digest (lo_updated_at x)
       (order_written x digest (t\<lparr>t_reservations := dset (client_order x) (fingerprint, moment) (t_reservations t)\<rparr>)))"
| order_updated:
    "dget (t_orders t) (client_order x) = Some old \<Longrightarrow> lo_version x = row_version old + 1 \<Longrightarrow>
     row_account_id old = li_account_id (lo_intent x) \<Longrightarrow>
     \<forall>r\<in>set (t_history t). \<not> (hist_order_id r = client_order x \<and> hist_version r = lo_version x) \<Longrightarrow>
     journal_encode h (py_order x) order_domain = Inr (payload, digest) \<Longrightarrow>
     table_write h t (order_written x digest t)"
| command_stored:
    "dget (t_commands t) (command_id_of c) = None \<Longrightarrow> dget (t_orders t) (command_order_id c) \<noteq> None \<Longrightarrow>
     payload_fingerprint h c = Inr fingerprint \<Longrightarrow>
     journal_encode h (py_command c) command_domain_text = Inr (payload, digest) \<Longrightarrow>
     unrecorded ''command'' (command_id_of c) t \<Longrightarrow>
     table_write h t (recorded ''command'' (command_id_of c) digest (requested_at_of c)
       (t\<lparr>t_commands := dset (command_id_of c) (command_columns c fingerprint digest) (t_commands t)\<rparr>))"
| claim_stored:
    "dget (t_claims t) i = None \<Longrightarrow> dget (t_commands t) i = Some m \<Longrightarrow>
     dget (t_orders t) (cmd_order_id m) = Some x \<Longrightarrow> row_version x = clm_version r \<Longrightarrow>
     clm_expected_order_version r = clm_version r \<Longrightarrow> 0 < clm_version r \<Longrightarrow>
     \<forall>k c. dget (t_claims t) k = Some c \<longrightarrow> clm_token c \<noteq> clm_token r \<Longrightarrow>
     load_command h i t = Inr c \<Longrightarrow> outstanding_claim_init (claim_of c r) = Inr outstanding \<Longrightarrow>
     journal_encode h (py_claim outstanding) claim_domain = Inr (payload, digest) \<Longrightarrow>
     unrecorded ''dispatch-claim'' i t \<Longrightarrow>
     table_write h t (recorded ''dispatch-claim'' i digest (clm_claimed_at r)
       (t\<lparr>t_claims := dset i r (t_claims t)\<rparr>))"
| receipt_stored:
    "i = dr_client_command_id r \<Longrightarrow> dget (t_receipts t) i = None \<Longrightarrow> dget (t_claims t) i \<noteq> None \<Longrightarrow>
     dget (t_claim_resolutions t) i = None \<Longrightarrow>
     journal_encode h (py_receipt r) receipt_domain = Inr (payload, digest) \<Longrightarrow>
     unrecorded ''dispatch-receipt'' i t \<Longrightarrow>
     table_write h t (recorded ''dispatch-receipt'' i digest (receipt_time r)
       (t\<lparr>t_receipts := dset i
             \<lparr>rct_fingerprint = dr_payload_fingerprint r, rct_receipt = r, rct_digest = digest,
              rct_recorded_at = receipt_time r\<rparr> (t_receipts t)\<rparr>))"
| raw_stored:
    "dget (t_raw t) (ro_observation_id x) = None \<Longrightarrow>
     0 < raw_generation (raw_columns x digest) \<Longrightarrow> 0 < raw_sequence (raw_columns x digest) \<Longrightarrow>
     \<forall>i r. dget (t_raw t) i = Some r \<longrightarrow> raw_place r \<noteq> raw_place (raw_columns x digest) \<Longrightarrow>
     encode_journal_value (py_raw x) = Inr payload \<Longrightarrow> digest = journal_digest h raw_domain payload \<Longrightarrow>
     unrecorded ''raw-observation'' (ro_observation_id x) t \<Longrightarrow>
     table_write h t (recorded ''raw-observation'' (ro_observation_id x) digest (ro_received_at x)
       (t\<lparr>t_raw := dset (ro_observation_id x) (raw_columns x digest) (t_raw t)\<rparr>))"
| event_stored:
    "i = event_id_of e \<Longrightarrow> dget (t_events t) i = None \<Longrightarrow> dget (t_applications t) i = None \<Longrightarrow>
     dget (t_raw t) raw_id \<noteq> None \<Longrightarrow>
     (case app_order_id a of None \<Rightarrow> True | Some x \<Rightarrow> dget (t_orders t) x \<noteq> None) \<Longrightarrow>
     app_order_id a = None \<or> app_order_id a = bc_client_order_id (event_correlation e) \<Longrightarrow>
     app_at a = event_received_at e \<Longrightarrow>
     app_disposition a \<in> {EVENT_APPLIED, EVENT_UNRESOLVED, application_disposition.EVENT_CONFLICT} \<Longrightarrow>
     journal_encode h (py_event e) event_domain = Inr (payload, digest) \<Longrightarrow>
     broker_semantic_fingerprint h e = Inr semantic \<Longrightarrow>
     unrecorded ''normalized-application'' i t \<Longrightarrow>
     table_write h t (recorded ''normalized-application'' i (application_digest h digest raw_id a) (event_received_at e)
       (t\<lparr>t_events := dset i \<lparr>evt_raw_id = raw_id, evt_fingerprint = semantic, evt_event = stored_event e,
                               evt_digest = digest, evt_received_at = event_received_at e\<rparr> (t_events t),
         t_applications := dset i a (t_applications t)\<rparr>))"
| requirement_stored:
    "dq_requirement_id r = int (Suc (length (t_requirements t))) \<Longrightarrow>
     (case dq_client_order_id r of None \<Rightarrow> True | Some x \<Rightarrow> dget (t_orders t) x \<noteq> None) \<Longrightarrow>
     (case dq_observation_id r of None \<Rightarrow> True | Some x \<Rightarrow> dget (t_raw t) x \<noteq> None) \<Longrightarrow>
     durable_requirement_init r = Inr r \<Longrightarrow>
     journal_encode h (py_requirement r) requirement_domain = Inr (payload, digest) \<Longrightarrow>
     unrecorded ''reconciliation'' (show_int (dq_requirement_id r)) t \<Longrightarrow>
     table_write h t (recorded ''reconciliation'' (show_int (dq_requirement_id r)) digest (dq_created_at r)
       (t\<lparr>t_requirements := t_requirements t @ [r]\<rparr>))"
| raw_settled:
    "dget (t_raw t) i = Some r \<Longrightarrow> raw_status r = STATUS_UNRESOLVED \<Longrightarrow> s \<in> {STATUS_RESOLVED, STATUS_CONFLICT} \<Longrightarrow>
     (s = STATUS_CONFLICT \<longrightarrow> has_requirement t i) \<Longrightarrow>
     unrecorded ''observation-resolution'' i t \<Longrightarrow>
     table_write h t (recorded ''observation-resolution'' i (resolution_digest h i s moment) moment
       (t\<lparr>t_raw := dset i (r\<lparr>raw_status := s\<rparr>) (t_raw t)\<rparr>))"
| fill_stored:
    "dget (t_fills t) (lf_fill_id f) = None \<Longrightarrow> dget (t_orders t) oid \<noteq> None \<Longrightarrow> dget (t_events t) i \<noteq> None \<Longrightarrow>
     dget (t_applications t) i = Some a \<Longrightarrow> app_disposition a = EVENT_APPLIED \<Longrightarrow> app_order_id a = Some oid \<Longrightarrow>
     \<forall>k r. dget (t_fills t) k = Some r \<longrightarrow> fil_event_id r \<noteq> i \<Longrightarrow> lf_client_order_id f = oid \<Longrightarrow>
     journal_encode h (py_fill f) fill_domain = Inr (payload, digest) \<Longrightarrow>
     table_write h t (t\<lparr>t_fills := dset (lf_fill_id f)
       \<lparr>fil_order_id = oid, fil_event_id = i, fil_fill = stored_fill f, fil_digest = digest\<rparr> (t_fills t)\<rparr>)"
| commit_stored:
    "dget (t_commits t) i = None \<Longrightarrow>
     \<forall>k r. dget (t_commits t) k = Some r \<longrightarrow> com_account_id r = com_account_id m \<longrightarrow>
       com_snapshot_id r \<noteq> com_snapshot_id m \<and> com_digest r \<noteq> com_digest m \<Longrightarrow>
     table_write h t (t\<lparr>t_commits := dset i m (t_commits t)\<rparr>)"
| authorization_stored:
    "i = ca_authorization_id (aut_authorization u) \<Longrightarrow> dget (t_authorizations t) i = None \<Longrightarrow>
     dget (t_commits t) (ca_commit_id (aut_authorization u)) \<noteq> None \<Longrightarrow>
     \<forall>k r. dget (t_authorizations t) k = Some r \<longrightarrow>
       ca_commit_id (aut_authorization r) \<noteq> ca_commit_id (aut_authorization u) \<Longrightarrow>
     unrecorded ''operator-authorization'' i t \<Longrightarrow>
     table_write h t (recorded ''operator-authorization'' i digest (aut_consumed_at u)
       (t\<lparr>t_authorizations := dset i u (t_authorizations t)\<rparr>))"
| claim_settled:
    "dget (t_claim_resolutions t) i = None \<Longrightarrow> dget (t_claims t) i \<noteq> None \<Longrightarrow>
     dget (t_commits t) (crr_commit_id z) \<noteq> None \<Longrightarrow> unrecorded ''dispatch-claim-resolution'' i t \<Longrightarrow>
     table_write h t (recorded ''dispatch-claim-resolution'' i (crr_digest z) moment
       (t\<lparr>t_claim_resolutions := dset i z (t_claim_resolutions t)\<rparr>))"
| observation_settled:
    "dget (t_observation_resolutions t) i = None \<Longrightarrow> dget (t_raw t) i \<noteq> None \<Longrightarrow>
     dget (t_commits t) (orr_commit_id o1) \<noteq> None \<Longrightarrow> unrecorded ''observation-reconciliation-resolution'' i t \<Longrightarrow>
     table_write h t (recorded ''observation-reconciliation-resolution'' i (orr_digest o1) moment
       (t\<lparr>t_observation_resolutions := dset i o1 (t_observation_resolutions t)\<rparr>))"
| requirement_settled:
    "dget (t_requirement_resolutions t) n = None \<Longrightarrow> list_ex (\<lambda>q. dq_requirement_id q = n) (t_requirements t) \<Longrightarrow>
     dget (t_commits t) (qrr_commit_id q) \<noteq> None \<Longrightarrow>
     unrecorded ''reconciliation-requirement-resolution'' (show_int n) t \<Longrightarrow>
     table_write h t (recorded ''reconciliation-requirement-resolution'' (show_int n) (qrr_digest q) moment
       (t\<lparr>t_requirement_resolutions := dset n q (t_requirement_resolutions t)\<rparr>))"
| commit_recorded:
    "unrecorded ''reconciliation-commit'' i t \<Longrightarrow>
     table_write h t (recorded ''reconciliation-commit'' i digest moment t)"

abbreviation written :: "hashes \<Rightarrow> journal_tables \<Rightarrow> journal_tables \<Rightarrow> bool" where
  "written h \<equiv> (table_write h)\<^sup>*\<^sup>*"

lemmas writtenI = rtranclp.rtrancl_into_rtrancl [where r = "table_write h" for h]

section \<open>What a run gives\<close>

text \<open>
  A postcondition of error-propagating code, for one result and for a pair, and its rules: they walk
  down the code and leave the obligations of the single writes.
\<close>

definition gives :: "('a \<Rightarrow> bool) \<Rightarrow> 'e + 'a \<Rightarrow> bool" where
  "gives P m \<longleftrightarrow> (\<forall>y. m = Inr y \<longrightarrow> P y)"

definition gives2 :: "('a \<Rightarrow> 'b \<Rightarrow> bool) \<Rightarrow> 'e + 'a \<times> 'b \<Rightarrow> bool" where
  "gives2 P m \<longleftrightarrow> (\<forall>a b. m = Inr (a, b) \<longrightarrow> P a b)"

lemma givesD: "gives P m \<Longrightarrow> m = Inr y \<Longrightarrow> P y"
  by (simp add: gives_def)

lemma gives2D: "gives2 P m \<Longrightarrow> m = Inr (a, b) \<Longrightarrow> P a b"
  by (simp add: gives2_def)

lemma givesI: "(\<And>y. m = Inr y \<Longrightarrow> P y) \<Longrightarrow> gives P m"
  by (simp add: gives_def)

lemma gives2I: "(\<And>a b. m = Inr (a, b) \<Longrightarrow> P a b) \<Longrightarrow> gives2 P m"
  by (simp add: gives2_def)

lemma gives_bind: "gives Q m \<Longrightarrow> (\<And>x. Q x \<Longrightarrow> gives P (f x)) \<Longrightarrow> gives P (ebind m f)"
  by (cases m) (auto simp: gives_def)

lemma gives_bind2: "gives2 Q m \<Longrightarrow> (\<And>a b. Q a b \<Longrightarrow> gives P (f a b)) \<Longrightarrow> gives P (ebind m (\<lambda>(a, b). f a b))"
  by (cases m) (auto simp: gives_def gives2_def)

lemma gives2_bind: "gives Q m \<Longrightarrow> (\<And>x. Q x \<Longrightarrow> gives2 P (f x)) \<Longrightarrow> gives2 P (ebind m f)"
  by (cases m) (auto simp: gives_def gives2_def)

lemma gives2_bind2: "gives2 Q m \<Longrightarrow> (\<And>a b. Q a b \<Longrightarrow> gives2 P (f a b)) \<Longrightarrow> gives2 P (ebind m (\<lambda>(a, b). f a b))"
  by (cases m) (auto simp: gives2_def)

lemmas gives_binds = gives_bind2 gives2_bind2 gives_bind gives2_bind

text \<open>A computation that is only read.\<close>

lemma gives_reads:
  "(\<And>x. m = Inr x \<Longrightarrow> gives P (f x)) \<Longrightarrow> gives P (ebind m f)"
  "(\<And>x. m = Inr x \<Longrightarrow> gives2 R (g x)) \<Longrightarrow> gives2 R (ebind m g)"
  by (cases m; simp add: gives_def gives2_def)+

lemma gives_ends:
  "P y \<Longrightarrow> gives P (Inr y)" "gives P (Inl e)" "R a b \<Longrightarrow> gives2 R (Inr (a, b))" "gives2 R (Inl e)"
  by (simp_all add: gives_def gives2_def)

lemma gives_splits:
  "(b \<Longrightarrow> gives P m) \<Longrightarrow> (\<not> b \<Longrightarrow> gives P n) \<Longrightarrow> gives P (if b then m else n)"
  "(b \<Longrightarrow> gives2 R m') \<Longrightarrow> (\<not> b \<Longrightarrow> gives2 R n') \<Longrightarrow> gives2 R (if b then m' else n')"
  "(v = None \<Longrightarrow> gives P k) \<Longrightarrow> (\<And>x. v = Some x \<Longrightarrow> gives P (l x)) \<Longrightarrow> gives P (case v of None \<Rightarrow> k | Some x \<Rightarrow> l x)"
  "(v = None \<Longrightarrow> gives2 R k') \<Longrightarrow> (\<And>x. v = Some x \<Longrightarrow> gives2 R (l' x)) \<Longrightarrow>
     gives2 R (case v of None \<Rightarrow> k' | Some x \<Rightarrow> l' x)"
  "(\<And>a b. p = (a, b) \<Longrightarrow> gives P (q a b)) \<Longrightarrow> gives P (case p of (a, b) \<Rightarrow> q a b)"
  "(\<And>a b. p = (a, b) \<Longrightarrow> gives2 R (q' a b)) \<Longrightarrow> gives2 R (case p of (a, b) \<Rightarrow> q' a b)"
  by (auto split: option.splits prod.splits)

section \<open>Transactions\<close>

named_theorems writes \<open>what a transaction or a part of one does is a sequence of writes\<close>

lemma answer_writes [writes]: "written h s t \<Longrightarrow> gives2 (\<lambda>_. written h s) (answer m t)"
  by (auto intro: gives2I simp: answer_Inr)

lemma unrecorded_iff:
  "append_record kind i digest moment t = Inr (n, t') \<longleftrightarrow>
     unrecorded kind i t \<and> n = int (Suc (length (t_records t))) \<and> t' = recorded kind i digest moment t"
  by (auto simp: append_record_Inr unrecorded_def recorded_def)

lemma order_written_records [simp]: "t_records (order_written x digest t) = t_records t"
  by (simp add: order_written_def)

text \<open>Orders, commands and claims.\<close>

lemma insert_command_writes:
  assumes "insert_command h c fingerprint t = Inr t1" "payload_fingerprint h c = Inr fingerprint"
    and "journal_encode h (py_command c) command_domain_text = Inr (payload, digest)"
    and "append_record ''command'' (command_id_of c) digest (requested_at_of c) t1 = Inr (n, t')"
  shows "table_write h t t'"
proof -
  from assms(1,3) have t1: "t1 = t\<lparr>t_commands := dset (command_id_of c) (command_columns c fingerprint digest) (t_commands t)\<rparr>"
    and ok: "dget (t_orders t) (command_order_id c) \<noteq> None" "dget (t_commands t) (command_id_of c) = None"
    by (auto simp: insert_command_Inr)
  from assms(4) have "t' = recorded ''command'' (command_id_of c) digest (requested_at_of c) t1"
    and "unrecorded ''command'' (command_id_of c) t" by (simp_all add: unrecorded_iff unrecorded_def t1)
  then show ?thesis unfolding t1 by (simp only:) (rule command_stored [OF ok(2,1) assms(2,3)])
qed

lemma store_new_order_writes [writes]:
  assumes "intent_fingerprint h (lo_intent x) = Inr fingerprint" "payload_fingerprint h c = Inr command_fingerprint"
    and "written h s t"
  shows "gives (written h s) (store_new_order h c x fingerprint command_fingerprint t)"
proof (rule givesI)
  fix t'
  assume "store_new_order h c x fingerprint command_fingerprint t = Inr t'"
  then obtain rs w t1 p d n t2 t3 p' d' n' where
      rs: "insert_row (client_order x) (fingerprint, requested_at_of c) (t_reservations t) = Inr rs"
    and w: "write_order h x None (t\<lparr>t_reservations := rs\<rparr>) = Inr (w, t1)"
    and d: "journal_encode h (py_order x) order_domain = Inr (p, d)"
    and r: "append_record ''order'' (client_order x) d (lo_updated_at x) t1 = Inr (n, t2)"
    and c: "insert_command h c command_fingerprint t2 = Inr t3"
      "journal_encode h (py_command c) command_domain_text = Inr (p', d')"
      "append_record ''command'' (command_id_of c) d' (requested_at_of c) t3 = Inr (n', t')"
    unfolding store_new_order_def Let_def ebind_eq_Inr by (auto simp: err_simps)
  have "table_write h t t2"
    using w
  proof (rule write_order_new)
    fix payload digest
    assume "journal_encode h (py_order x) order_domain = Inr (payload, digest)"
      "t1 = order_written x digest (t\<lparr>t_reservations := rs\<rparr>)"
      "dget (t_orders (t\<lparr>t_reservations := rs\<rparr>)) (client_order x) = None" "0 < lo_version x"
      "\<forall>r\<in>set (t_history (t\<lparr>t_reservations := rs\<rparr>)). \<not> (hist_order_id r = client_order x \<and> hist_version r = lo_version x)"
    moreover from this rs d r have "t2 = recorded ''order'' (client_order x) d (lo_updated_at x)
        (order_written x d (t\<lparr>t_reservations := dset (client_order x) (fingerprint, requested_at_of c) (t_reservations t)\<rparr>))"
      and "unrecorded ''order'' (client_order x) t" "dget (t_reservations t) (client_order x) = None"
      by (simp_all add: insert_row_Inr unrecorded_iff unrecorded_def)
    ultimately show ?thesis by (simp only:) (rule order_stored [OF _ _ _ _ assms(1) d]; simp)
  qed
  moreover have "table_write h t2 t'" using insert_command_writes [OF c(1) assms(2) c(2,3)] .
  ultimately show "written h s t'" using assms(3) by (meson rtranclp.rtrancl_into_rtrancl)
qed

lemma write_order_writes:
  assumes "write_order h x (Some v) t = Inr (w, t')" and "lo_version x = v + 1"
    and "\<And>old. dget (t_orders t) (client_order x) = Some old \<Longrightarrow> row_account_id old = li_account_id (lo_intent x)"
    and "written h s t"
  shows "written h s t'"
  using assms(1)
proof (cases rule: write_order_next)
  case 2
  then have "table_write h t t'" using assms(2,3) by (auto intro!: order_updated)
  with assms(4) show ?thesis by (rule rtranclp.rtrancl_into_rtrancl)
qed (use assms(4) in simp)

lemma load_order_row_Inr:
  "load_order_row h i t = Inr (Some x) \<Longrightarrow>
     \<exists>r. dget (t_orders t) i = Some r \<and> i = client_order x \<and> row_account_id r = li_account_id (lo_intent x)
       \<and> row_version r = lo_version x \<and> row_state r = live_state_value (lo_state x) \<and> row_updated_at r = lo_updated_at x
       \<and> order_parts_init h (row_order r) = Inr x"
  by (auto simp: load_order_row_def reread_def err_simps integrity_def split: option.splits sum.splits if_splits)

lemma store_command_writes [writes]:
  assumes "payload_fingerprint h c = Inr fingerprint"
    and "\<And>old. dget (t_orders t) (client_order x) = Some old \<Longrightarrow> row_account_id old = li_account_id (lo_intent x)"
    and "written h s t"
  shows "gives (written h s) (store_command h c x expected fingerprint t)"
proof (rule givesI)
  fix t'
  assume "store_command h c x expected fingerprint t = Inr t'"
  then obtain w t1 t2 p d n where v: "lo_version x = expected + 1"
    and w: "write_order h x (Some expected) t = Inr (w, t1)"
    and c: "insert_command h c fingerprint t1 = Inr t2"
      "journal_encode h (py_command c) command_domain_text = Inr (p, d)"
      "append_record ''command'' (command_id_of c) d (requested_at_of c) t2 = Inr (n, t')"
    unfolding store_command_def ebind_eq_Inr require_eq_Inr by (auto simp: err_simps)
  have "written h s t1" using w v assms(2,3) by (rule write_order_writes)
  moreover have "table_write h t1 t'" using insert_command_writes [OF c(1) assms(1) c(2,3)] .
  ultimately show "written h s t'" by (rule rtranclp.rtrancl_into_rtrancl)
qed

lemma store_claim_Inr:
  assumes "store_claim h env i expected claimant t = Inr (token, t')"
  obtains now c outstanding payload digest where
    "t' = recorded ''dispatch-claim'' i digest now (t\<lparr>t_claims := dset i
       \<lparr>clm_token = token, clm_claimant = claimant, clm_expected_order_version = expected, clm_version = expected,
        clm_claimed_at = now\<rparr> (t_claims t)\<rparr>)"
    "dget (t_claims t) i = None" "0 < expected" "identifier_ok token"
    "\<forall>k c. dget (t_claims t) k = Some c \<longrightarrow> clm_token c \<noteq> token" "load_command h i t = Inr c"
    "outstanding_claim_init (claim_of c \<lparr>clm_token = token, clm_claimant = claimant,
       clm_expected_order_version = expected, clm_version = expected, clm_claimed_at = now\<rparr>) = Inr outstanding"
    "journal_encode h (py_claim outstanding) claim_domain = Inr (payload, digest)"
    "unrecorded ''dispatch-claim'' i t"
proof -
  have tokens: "\<forall>k c. dget (t_claims t) k = Some c \<longrightarrow> clm_token c \<noteq> token"
    if "list_all (\<lambda>(i, r). clm_token r \<noteq> token) (t_claims t)" for token
    using that by (auto simp: list_all_iff dget_def dest!: map_of_SomeD)
  from assms show thesis
    unfolding store_claim_def new_claim_token_def constraint_def ebind_eq_Inr require_eq_Inr
    by (auto simp: insert_row_Inr unrecorded_iff unrecorded_def claim_of_def err_simps dest!: tokens intro!: that)
qed

lemma store_claim_writes:
  assumes "store_claim h env i expected claimant t = Inr (token, t')"
    and "dget (t_commands t) i = Some m" "dget (t_orders t) (cmd_order_id m) = Some x" "row_version x = expected"
  shows "table_write h t t'"
  using assms(1)
proof (rule store_claim_Inr)
  fix now c outstanding payload digest
  let ?r = "\<lparr>clm_token = token, clm_claimant = claimant, clm_expected_order_version = expected,
     clm_version = expected, clm_claimed_at = now\<rparr>"
  assume t': "t' = recorded ''dispatch-claim'' i digest now (t\<lparr>t_claims := dset i ?r (t_claims t)\<rparr>)"
    and *: "dget (t_claims t) i = None" "0 < expected" "\<forall>k c. dget (t_claims t) k = Some c \<longrightarrow> clm_token c \<noteq> token"
      "load_command h i t = Inr c" "outstanding_claim_init (claim_of c ?r) = Inr outstanding"
      "journal_encode h (py_claim outstanding) claim_domain = Inr (payload, digest)" "unrecorded ''dispatch-claim'' i t"
  have "table_write h t (recorded ''dispatch-claim'' i digest (clm_claimed_at ?r) (t\<lparr>t_claims := dset i ?r (t_claims t)\<rparr>))"
    by (rule claim_stored [OF *(1) assms(2,3) _ _ _ _ *(4-7)]) (use * assms(4) in simp_all)
  then show ?thesis by (simp add: t')
qed

lemma register_new_order_writes [writes]:
  assumes "intent_fingerprint h (lo_intent x) = Inr fingerprint" "payload_fingerprint h c = Inr command_fingerprint"
    and "written h s t"
  shows "gives2 (\<lambda>_. written h s) (register_new_order_tx h c x fingerprint command_fingerprint t)"
  unfolding register_new_order_tx_def Let_def
  by ((rule gives_binds, rule store_new_order_writes, (rule assms)+) | (rule writes, rule assms)
    | rule gives_reads | rule gives_splits | rule gives_ends | assumption)+

lemma register_command_writes [writes]:
  assumes "payload_fingerprint h c = Inr fingerprint" and "written h s t"
  shows "gives2 (\<lambda>_. written h s) (register_command_tx h c x expected fingerprint t)"
proof -
  have "gives (written h s) (store_command h c x expected fingerprint t)"
    if "load_order_row h (client_order x) t = Inr (Some y)" "same_live_intent (lo_intent x) (lo_intent y)" for y
    using that assms load_order_row_Inr [OF that(1)]
    by (intro store_command_writes) (auto simp: same_live_intent_def)
  note stored = this
  show ?thesis
  proof (rule gives2I)
    fix a b
    assume run: "register_command_tx h c x expected fingerprint t = Inr (a, b)"
    show "written h s b"
    proof (cases "dget (t_commands t) (command_id_of c)")
      case (Some m)
      then show ?thesis using run assms(2) by (auto simp: register_command_tx_def Let_def err_simps answer_Inr)
    next
      case None
      then obtain y where l: "load_order_row h (client_order x) t = Inr y"
        and rest: "y = None \<and> b = t \<or> (\<exists>z. y = Some z \<and> (b = t \<or> same_live_intent (lo_intent x) (lo_intent z)
          \<and> store_command h c x expected fingerprint t = Inr b))"
        using run
        by (fastforce simp: register_command_tx_def Let_def err_simps answer_Inr split: if_splits option.splits)
      then show ?thesis using stored [of "the y"] assms(2) by (auto simp: gives_def)
    qed
  qed
qed

lemma claim_dispatch_writes [writes]:
  assumes "written h s t"
  shows "gives2 (\<lambda>_. written h s) (claim_dispatch_tx h env i fingerprint expected claimant t)"
  unfolding claim_dispatch_tx_def
  using assms
  by (auto simp: gives2_def err_simps answer_Inr split: option.splits if_splits dest!: store_claim_writes
      elim: rtranclp.rtrancl_into_rtrancl)

text \<open>Receipts: the order the reducer returns is the one it got, or its next version.\<close>

definition next_version :: "live_order \<Rightarrow> live_order \<Rightarrow> bool" where
  "next_version x y \<longleftrightarrow> lo_intent y = lo_intent x \<and> (y = x \<or> lo_version y = lo_version x + 1)"

lemma reduce_dispatch_next: "reduce_dispatch h x r l = Inr res \<Longrightarrow> next_version x (rr_order res)"
  using reduce_dispatch_Inr [of h x r l res] status_change_fields [of x "rr_order res"]
  by (auto simp: next_version_def)

lemma reduce_broker_event_next: "reduce_broker_event h x e l = Inr res \<Longrightarrow> next_version x (rr_order res)"
proof (cases e)
  case (BrokerOrderEvent b)
  assume "reduce_broker_event h x e l = Inr res"
  with BrokerOrderEvent reduce_order_event_Inr [of h x b l res]
  consider "rr_order res = x" | tr where "apply_transition x b tr = Inr (rr_order res)" by auto
  then show ?thesis
  proof cases
    case 2
    then show ?thesis by (cases tr) (auto simp: next_version_def elim!: apply_transition_Inr)
  qed (simp add: next_version_def)
next
  case (BrokerFillEvent b)
  assume "reduce_broker_event h x e l = Inr res"
  with BrokerFillEvent reduce_fill_event_Inr [of h x b l res]
  consider "rr_order res = x" | "apply_live_fill x b = Inr (rr_order res)" by auto
  then show ?thesis
    by cases (auto simp: next_version_def elim!: apply_live_fill_Inr)
qed

lemma write_reduced_writes:
  assumes "write_reduced h x y t = Inr t'" and "next_version x y"
    and "dget (t_orders t) (client_order x) = Some r" "row_account_id r = li_account_id (lo_intent x)"
    and "written h s t"
  shows "written h s t'"
proof (cases "lo_version y = lo_version x")
  case False
  then obtain w where w: "write_order h y (Some (lo_version x)) t = Inr (w, t')"
    using assms(1) by (auto simp: write_reduced_def err_simps)
  show ?thesis by (rule write_order_writes [OF w]) (use assms False in \<open>auto simp: next_version_def\<close>)
qed (use assms in \<open>simp add: write_reduced_def\<close>)

lemma store_receipt_writes:
  assumes "store_receipt h r digest t = Inr t'"
    and "journal_encode h (py_receipt r) receipt_domain = Inr (payload, digest)"
    and "dget (t_claim_resolutions t) (dr_client_command_id r) = None"
  shows "table_write h t t'" "t_orders t' = t_orders t"
proof -
  let ?i = "dr_client_command_id r"
  let ?row = "\<lparr>rct_fingerprint = dr_payload_fingerprint r, rct_receipt = r, rct_digest = digest,
     rct_recorded_at = receipt_time r\<rparr>"
  have t': "t' = recorded ''dispatch-receipt'' ?i digest (receipt_time r) (t\<lparr>t_receipts := dset ?i ?row (t_receipts t)\<rparr>)"
    and ok: "dget (t_receipts t) ?i = None" "dget (t_claims t) ?i \<noteq> None" "unrecorded ''dispatch-receipt'' ?i t"
    using assms(1)
    by (auto simp: store_receipt_def constraint_def err_simps insert_row_Inr unrecorded_iff unrecorded_def)
  show "table_write h t t'" unfolding t' by (rule receipt_stored [OF refl ok(1,2) assms(3,2) ok(3)])
  show "t_orders t' = t_orders t" by (simp add: t' recorded_def)
qed

lemma record_receipt_stores:
  assumes "record_receipt_tx h r digest token expected t = Inr (a, t')"
  obtains "t' = t"
  | claim c x reduced ledger t1 where "dget (t_claims t) (dr_client_command_id r) = Some claim"
    "clm_token claim = token" "dget (t_commands t) (dr_client_command_id r) = Some c"
    "cmd_fingerprint c = dr_payload_fingerprint r" "dget (t_claim_resolutions t) (dr_client_command_id r) = None"
    "dget (t_receipts t) (dr_client_command_id r) = None"
    "load_order_row h (cmd_order_id c) t = Inr (Some x)" "lo_version x = expected"
    "clm_expected_order_version claim = expected" "load_applied_event_ledger h t = Inr ledger"
    "reduce_dispatch h x r ledger = Inr reduced" "store_receipt h r digest t = Inr t1"
    "write_reduced h x (rr_order reduced) t1 = Inr t'"
proof (cases "dget (t_claims t) (dr_client_command_id r)"; cases "dget (t_commands t) (dr_client_command_id r)")
  fix claim c
  assume some: "dget (t_claims t) (dr_client_command_id r) = Some claim" "dget (t_commands t) (dr_client_command_id r) = Some c"
  show thesis
  proof (cases "t' = t")
    case True
    then show thesis by (rule that(1))
  next
    case False
    note run = assms [unfolded record_receipt_tx_def Let_def some prod.case option.case]
    have token: "clm_token claim = token" "dget (t_claim_resolutions t) (dr_client_command_id r) = None"
      "dget (t_receipts t) (dr_client_command_id r) = None" "cmd_fingerprint c = dr_payload_fingerprint r"
      using run False by (auto simp: answer_Inr split: if_splits option.splits)
    obtain x where l: "load_order_row h (cmd_order_id c) t = Inr (Some x)"
      using run token False
      by (cases "load_order_row h (cmd_order_id c) t") (auto simp: answer_Inr split: option.splits)
    have v: "lo_version x = expected" "clm_expected_order_version claim = expected"
      using run token l False by (auto simp: answer_Inr split: if_splits)
    with run token l False obtain ledger reduced t1 where "load_applied_event_ledger h t = Inr ledger"
      "reduce_dispatch h x r ledger = Inr reduced" "store_receipt h r digest t = Inr t1"
      "write_reduced h x (rr_order reduced) t1 = Inr t'"
      by (auto simp: err_simps answer_Inr split: if_splits)
    then show thesis using that(2) [OF some(1) token(1) some(2) token(4,2,3) l v] by simp
  qed
qed (use assms that(1) in \<open>simp_all add: record_receipt_tx_def Let_def answer_Inr\<close>)

lemma record_receipt_writes [writes]:
  assumes "journal_encode h (py_receipt r) receipt_domain = Inr (payload, digest)" and "written h s t"
  shows "gives2 (\<lambda>_. written h s) (record_receipt_tx h r digest token expected t)"
proof (rule gives2I)
  fix a t'
  assume "record_receipt_tx h r digest token expected t = Inr (a, t')"
  then show "written h s t'"
  proof (cases rule: record_receipt_stores)
    case (2 claim c x reduced ledger t1)
    note st = store_receipt_writes [OF 2(12) assms(1) 2(5)]
    from st(1) assms(2) have "written h s t1" by (meson rtranclp.rtrancl_into_rtrancl)
    moreover from load_order_row_Inr [OF 2(7)] st(2) obtain row where "dget (t_orders t1) (client_order x) = Some row"
      "row_account_id row = li_account_id (lo_intent x)" by auto
    ultimately show ?thesis using write_reduced_writes [OF 2(13) reduce_dispatch_next [OF 2(11)]] by blast
  qed (use assms(2) in simp)
qed

text \<open>Raw observations.\<close>

lemma list_all_dget: "list_all P d \<Longrightarrow> dget d k = Some v \<Longrightarrow> P (k, v)"
  by (auto simp: list_all_iff dget_def dest!: map_of_SomeD)

lemma store_raw_writes:
  assumes "store_raw x digest t = Inr t'" and "encode_journal_value (py_raw x) = Inr payload"
    and "digest = journal_digest h raw_domain payload"
  shows "table_write h t t'"
proof -
  have t': "t' = recorded ''raw-observation'' (ro_observation_id x) digest (ro_received_at x)
       (t\<lparr>t_raw := dset (ro_observation_id x) (raw_columns x digest) (t_raw t)\<rparr>)"
    and ok: "dget (t_raw t) (ro_observation_id x) = None" "0 < raw_generation (raw_columns x digest)"
      "0 < raw_sequence (raw_columns x digest)"
      "\<forall>i r. dget (t_raw t) i = Some r \<longrightarrow> raw_place r \<noteq> raw_place (raw_columns x digest)"
      "unrecorded ''raw-observation'' (ro_observation_id x) t"
    using assms(1)
    by (auto simp: store_raw_def Let_def constraint_def err_simps insert_row_Inr unrecorded_iff unrecorded_def
        list_all_iff dget_def dest!: map_of_SomeD)
  show ?thesis unfolding t' by (rule raw_stored [OF ok(1-4) assms(2,3) ok(5)])
qed

lemma append_raw_writes [writes]:
  assumes "encode_journal_value (py_raw x) = Inr payload" and "written h s t"
  shows "gives2 (\<lambda>_. written h s) (append_raw_tx x (journal_digest h raw_domain payload) t)"
  using assms store_raw_writes [OF _ assms(1) refl, of h t]
  unfolding append_raw_tx_def
  by (auto simp: gives2_def answer_Inr split: option.splits sum.splits journal_exn.splits if_splits
      elim: rtranclp.rtrancl_into_rtrancl)

text \<open>Events: the event with its application, the requirement, the status of the observation, the fill.\<close>

definition application :: "broker_event \<Rightarrow> application_disposition \<Rightarrow> string option \<Rightarrow> live_failure_code option
    \<Rightarrow> application_row" where
  "application e d oid failure =
     \<lparr>app_order_id = oid, app_disposition = d, app_failure = failure, app_at = event_received_at e\<rparr>"

lemma insert_application_Inr:
  assumes "insert_application h e raw_id d oid failure t = Inr t'"
  obtains payload digest semantic where "journal_encode h (py_event e) event_domain = Inr (payload, digest)"
    "broker_semantic_fingerprint h e = Inr semantic" "dget (t_raw t) raw_id \<noteq> None"
    "dget (t_events t) (event_id_of e) = None" "dget (t_applications t) (event_id_of e) = None"
    "case oid of None \<Rightarrow> True | Some x \<Rightarrow> dget (t_orders t) x \<noteq> None"
    "unrecorded ''normalized-application'' (event_id_of e) t"
    "t' = recorded ''normalized-application'' (event_id_of e)
        (application_digest h digest raw_id (application e d oid failure)) (event_received_at e)
       (t\<lparr>t_events := dset (event_id_of e) \<lparr>evt_raw_id = raw_id, evt_fingerprint = semantic,
            evt_event = stored_event e, evt_digest = digest, evt_received_at = event_received_at e\<rparr> (t_events t),
         t_applications := dset (event_id_of e) (application e d oid failure) (t_applications t)\<rparr>)"
  using assms unfolding insert_application_def Let_def constraint_def ebind_eq_Inr require_eq_Inr
  by (auto simp: err_simps insert_row_Inr unrecorded_iff unrecorded_def application_def)

lemma insert_application_writes:
  assumes "insert_application h e raw_id d oid failure t = Inr t'"
    and "d \<in> {EVENT_APPLIED, EVENT_UNRESOLVED, application_disposition.EVENT_CONFLICT}"
    and "oid = None \<or> oid = bc_client_order_id (event_correlation e)"
  shows "table_write h t t'" "t_orders t' = t_orders t" "t_raw t' = t_raw t"
    "dget (t_applications t') (event_id_of e) = Some (application e d oid failure)"
    "dget (t_events t') (event_id_of e) \<noteq> None"
proof -
  obtain payload digest semantic where
    *: "journal_encode h (py_event e) event_domain = Inr (payload, digest)"
      "broker_semantic_fingerprint h e = Inr semantic" "dget (t_raw t) raw_id \<noteq> None"
      "dget (t_events t) (event_id_of e) = None" "dget (t_applications t) (event_id_of e) = None"
      "case oid of None \<Rightarrow> True | Some x \<Rightarrow> dget (t_orders t) x \<noteq> None"
      "unrecorded ''normalized-application'' (event_id_of e) t"
    and t': "t' = recorded ''normalized-application'' (event_id_of e)
        (application_digest h digest raw_id (application e d oid failure)) (event_received_at e)
       (t\<lparr>t_events := dset (event_id_of e) \<lparr>evt_raw_id = raw_id, evt_fingerprint = semantic,
            evt_event = stored_event e, evt_digest = digest, evt_received_at = event_received_at e\<rparr> (t_events t),
         t_applications := dset (event_id_of e) (application e d oid failure) (t_applications t)\<rparr>)"
    by (rule insert_application_Inr [OF assms(1)])
  show "table_write h t t'"
    unfolding t' by (rule event_stored [OF refl *(4,5,3) _ _ _ _ *(1,2,7)])
      (use *(6) assms(2,3) in \<open>simp_all add: application_def\<close>)
  show "t_orders t' = t_orders t" "t_raw t' = t_raw t"
    "dget (t_applications t') (event_id_of e) = Some (application e d oid failure)"
    "dget (t_events t') (event_id_of e) \<noteq> None"
    by (simp_all add: t' recorded_def)
qed

lemma durable_requirement_init_Inr: "durable_requirement_init r = Inr r' \<Longrightarrow> r' = r"
  by (auto simp: durable_requirement_init_def err_simps)

lemma record_requirement_writes:
  assumes "record_requirement h env observation_id oid reason t = Inr t'"
  shows "table_write h t t'" "t_raw t' = t_raw t" "observation_id = Some i \<Longrightarrow> has_requirement t' i"
proof -
  obtain now where "journal_now env = Inr now"
    using assms by (auto simp: record_requirement_def err_simps)
  define r where r: "r = \<lparr>dq_requirement_id = int (Suc (length (t_requirements t))), dq_reason_code = reason,
              dq_created_at = now, dq_client_order_id = oid, dq_observation_id = observation_id\<rparr>"
  from assms obtain r' where "durable_requirement_init r = Inr r'"
    by (auto simp: record_requirement_def err_simps \<open>journal_now env = Inr now\<close> r [symmetric] simp del: of_nat_Suc)
  then have init: "durable_requirement_init r = Inr r" using durable_requirement_init_Inr by blast
  obtain digest payload where
    *: "journal_encode h (py_requirement r) requirement_domain = Inr (payload, digest)"
      "(case oid of None \<Rightarrow> True | Some x \<Rightarrow> dget (t_orders t) x \<noteq> None)"
      "(case observation_id of None \<Rightarrow> True | Some x \<Rightarrow> dget (t_raw t) x \<noteq> None)"
      "unrecorded ''reconciliation'' (show_int (dq_requirement_id r)) t"
    and t': "t' = recorded ''reconciliation'' (show_int (dq_requirement_id r)) digest (dq_created_at r)
       (t\<lparr>t_requirements := t_requirements t @ [r]\<rparr>)"
    using assms unfolding record_requirement_def Let_def constraint_def \<open>journal_now env = Inr now\<close> ebind_simps r [symmetric] init python_simps
    by (auto simp: err_simps unrecorded_iff unrecorded_def simp flip: r) (simp add: r)
  show "table_write h t t'"
    unfolding t' by (rule requirement_stored [OF _ _ _ init *(1,4)]) (use *(2,3) in \<open>simp_all add: r\<close>)
  show "t_raw t' = t_raw t" by (simp add: t' recorded_def)
  show "has_requirement t' i" if "observation_id = Some i"
    using that by (simp add: t' recorded_def has_requirement_def r)
qed

lemma resolve_observation_writes:
  assumes "resolve_observation h i s moment t = Inr t'" and "s \<in> {STATUS_RESOLVED, STATUS_CONFLICT}"
    and "s = STATUS_CONFLICT \<Longrightarrow> has_requirement t i"
  shows "table_write h t t'"
proof -
  obtain r where *: "dget (t_raw t) i = Some r" "raw_status r = STATUS_UNRESOLVED"
      "unrecorded ''observation-resolution'' i t"
    and t': "t' = recorded ''observation-resolution'' i (resolution_digest h i s moment) moment
       (t\<lparr>t_raw := dset i (r\<lparr>raw_status := s\<rparr>) (t_raw t)\<rparr>)"
    using assms(1)
    by (auto simp: resolve_observation_def err_simps unrecorded_iff unrecorded_def split: option.splits if_splits)
  show ?thesis unfolding t' by (rule raw_settled [OF *(1,2) assms(2) _ *(3)]) (use assms(3) in simp)
qed

lemma resolve_observation_moves [writes]:
  "written h s t \<Longrightarrow> gives (written h s) (resolve_observation h i STATUS_RESOLVED moment t)"
  by (rule givesI) (blast intro: resolve_observation_writes rtranclp.rtrancl_into_rtrancl)

lemma conflict_writes_writes [writes]:
  "written h s t \<Longrightarrow> gives (written h s) (conflict_writes h env e raw_id oid reason t)"
  by (rule givesI, unfold conflict_writes_def ebind_eq_Inr)
    (blast intro: record_requirement_writes resolve_observation_writes rtranclp.rtrancl_into_rtrancl)

lemma insert_application_moves [writes]:
  "d \<in> {EVENT_APPLIED, EVENT_UNRESOLVED, application_disposition.EVENT_CONFLICT} \<Longrightarrow>
   oid = None \<or> oid = bc_client_order_id (event_correlation e) \<Longrightarrow> written h s t \<Longrightarrow>
     gives (written h s) (insert_application h e raw_id d oid failure t)"
  by (rule givesI) (blast dest: insert_application_writes(1) intro: rtranclp.rtrancl_into_rtrancl)

lemma existing_order_id_cases: "existing_order_id i t = None \<or> existing_order_id i t = i"
  by (simp add: existing_order_id_def split: option.splits)

lemma misplaced_event_writes [writes]:
  assumes "written h s t"
  shows "gives2 (\<lambda>_. written h s) (misplaced_event h env e raw_id status known t)"
proof -
  let ?oid = "existing_order_id (bc_client_order_id (event_correlation e)) t"
  have new: "gives (written h s) (if known then Inr t
     else insert_application h e raw_id application_disposition.EVENT_CONFLICT ?oid (Some CORRELATION_CONFLICT) t)"
    using assms existing_order_id_cases by (auto intro!: gives_ends writes)
  have "gives (written h s) (if status \<noteq> STATUS_UNRESOLVED then Inr t
      else ebind (if known then Inr t
         else insert_application h e raw_id application_disposition.EVENT_CONFLICT ?oid (Some CORRELATION_CONFLICT) t)
        (conflict_writes h env e raw_id ?oid ''observation_provenance_conflict''))"
    by (intro gives_splits gives_bind [OF new] gives_ends assms) (rule writes)
  then show ?thesis
    unfolding misplaced_event_def Let_def by (rule gives2_bind) (rule writes)
qed

lemma known_event_writes [writes]:
  "written h s t \<Longrightarrow> gives2 (\<lambda>_. written h s) (known_event h env e raw_id semantic n a t)"
  unfolding known_event_def Let_def
  by ((rule gives_binds, rule writes, assumption) | (rule writes, assumption) | rule gives_splits)+

lemma store_fill_writes:
  assumes "store_fill h e oid fill t = Inr t'" and "\<And>f. fill = Some f \<Longrightarrow> lf_client_order_id f = oid"
    and "dget (t_applications t) (event_id_of e) = Some a" "app_disposition a = EVENT_APPLIED" "app_order_id a = Some oid"
  shows "written h t t'"
proof (cases fill)
  case (Some f)
  then obtain payload digest where
    *: "journal_encode h (py_fill f) fill_domain = Inr (payload, digest)" "dget (t_orders t) oid \<noteq> None"
      "dget (t_events t) (event_id_of e) \<noteq> None" "list_all (\<lambda>(i, r). fil_event_id r \<noteq> event_id_of e) (t_fills t)"
      "dget (t_fills t) (lf_fill_id f) = None"
    and t': "t' = t\<lparr>t_fills := dset (lf_fill_id f)
       \<lparr>fil_order_id = oid, fil_event_id = event_id_of e, fil_fill = stored_fill f, fil_digest = digest\<rparr> (t_fills t)\<rparr>"
    using assms(1)
    by (auto simp: store_fill_def constraint_def err_simps insert_row_Inr)
  have fresh: "\<forall>k r. dget (t_fills t) k = Some r \<longrightarrow> fil_event_id r \<noteq> event_id_of e"
    using list_all_dget [OF *(4)] by fastforce
  have "table_write h t t'"
    unfolding t' by (rule fill_stored [OF *(5,2,3) assms(3-5) fresh assms(2) [OF Some] *(1)])
  then show ?thesis by (rule r_into_rtranclp)
qed (use assms in \<open>simp add: store_fill_def\<close>)

lemma apply_reduction_runs:
  assumes "apply_reduction h env e raw_id oid x reduced t = Inr (a, t')"
  obtains (refused) d failure reason t1 where
    "d = EVENT_UNRESOLVED \<or> d = application_disposition.EVENT_CONFLICT \<and> failure = Some CORRELATION_CONFLICT"
    "insert_application h e raw_id d (Some oid) failure t = Inr t1"
    "conflict_writes h env e raw_id (Some oid) reason t1 = Inr t'"
    "\<And>c. a = Inr c \<Longrightarrow> ap_disposition c = d"
  | (applied) t1 t2 t3 where
    "insert_application h e raw_id EVENT_APPLIED (Some oid) (rr_failure_code reduced) t = Inr t1"
    "write_reduced h x (rr_order reduced) t1 = Inr t2" "store_fill h e oid (rr_fill reduced) t2 = Inr t3"
    "resolve_observation h raw_id STATUS_RESOLVED (event_received_at e) t3 = Inr t'"
    "\<not> reconciliation_required reduced" "a = python (application_answer e EVENT_APPLIED (Some (rr_order reduced)))"
proof -
  have answers: "application_answer e d v = Inr c \<Longrightarrow> ap_disposition c = d" for d v c
    by (auto simp: application_answer_def application_result_init_def err_simps)
  show thesis
  proof (cases "reconciliation_required reduced")
    case True
    with assms obtain t1 where "insert_application h e raw_id EVENT_UNRESOLVED (Some oid) (rr_failure_code reduced) t = Inr t1"
      "conflict_writes h env e raw_id (Some oid) ''reducer_reconciliation'' t1 = Inr t'"
      and "\<exists>c. application_answer e EVENT_UNRESOLVED None = Inr c \<and> a = Inr c"
      by (auto simp: apply_reduction_def err_simps answer_Inr)
    then show thesis by (intro refused [of EVENT_UNRESOLVED]) (auto dest: answers)
  next
    case False
    show thesis
    proof (cases "case rr_fill reduced of None \<Rightarrow> False | Some f \<Rightarrow> dget (t_fills t) (lf_fill_id f) \<noteq> None")
      case True
      with assms False obtain t1 where
        "insert_application h e raw_id application_disposition.EVENT_CONFLICT (Some oid) (Some CORRELATION_CONFLICT) t = Inr t1"
        "conflict_writes h env e raw_id (Some oid) ''fill_id_conflict'' t1 = Inr t'"
        and "\<exists>c. application_answer e application_disposition.EVENT_CONFLICT None = Inr c \<and> a = Inr c"
        by (auto simp: apply_reduction_def err_simps answer_Inr)
      then show thesis by (intro refused [of application_disposition.EVENT_CONFLICT]) (auto dest: answers)
    next
      case none: False
      have "ebind (insert_application h e raw_id EVENT_APPLIED (Some oid) (rr_failure_code reduced) t) (\<lambda>t.
        ebind (write_reduced h x (rr_order reduced) t) (\<lambda>t.
        ebind (store_fill h e oid (rr_fill reduced) t) (\<lambda>t.
        ebind (resolve_observation h raw_id STATUS_RESOLVED (event_received_at e) t) (\<lambda>t.
        Inr (python (application_answer e EVENT_APPLIED (Some (rr_order reduced))), t))))) = Inr (a, t')"
        using assms unfolding apply_reduction_def if_not_P [OF False] if_not_P [OF none] .
      with False show thesis unfolding ebind_eq_Inr by (auto intro: applied)
    qed
  qed
qed

lemma reduced_fill_order:
  assumes "reduce_broker_event h x e l = Inr reduced" "rr_fill reduced = Some f"
  shows "lf_client_order_id f = client_order x"
  using assms
proof (cases e)
  case (BrokerOrderEvent b)
  with assms reduce_order_event_Inr [of h x b l reduced] show ?thesis by simp
next
  case (BrokerFillEvent b)
  with assms reduce_fill_event_Inr [of h x b l reduced] show ?thesis by (auto dest: live_fill_of_Inr)
qed

lemma apply_reduction_writes:
  assumes run: "apply_reduction h env e raw_id oid x reduced t = Inr (a, t')"
    and oid: "bc_client_order_id (event_correlation e) = Some oid"
    and x: "load_order_row h oid t = Inr (Some x)" and reduced: "reduce_broker_event h x e l = Inr reduced"
    and s: "written h s t"
  shows "written h s t'"
  using run
proof (cases rule: apply_reduction_runs)
  case (refused d failure reason t1)
  then have "table_write h t t1" by (intro insert_application_writes(1) [OF refused(2)]) (auto simp: oid)
  with s have "written h s t1" by (rule rtranclp.rtrancl_into_rtrancl)
  with refused(3) show ?thesis by (auto dest: givesD [OF conflict_writes_writes])
next
  case (applied t1 t2 t3)
  note app = insert_application_writes [OF applied(1), simplified oid, simplified]
  from load_order_row_Inr [OF x] obtain r where r: "oid = client_order x" "dget (t_orders t1) (client_order x) = Some r"
    "row_account_id r = li_account_id (lo_intent x)" using app(2) by auto
  have "written h s t1" using s app(1) by (rule rtranclp.rtrancl_into_rtrancl)
  then have t2: "written h s t2"
    using write_reduced_writes [OF applied(2) reduce_broker_event_next [OF reduced] r(2,3)] by blast
  have "t_applications t2 = t_applications t1"
    using applied(2)
    by (auto simp: write_reduced_def order_written_def err_simps elim!: write_order_next split: if_splits)
  with app(4) have a: "dget (t_applications t2) (event_id_of e)
      = Some (application e EVENT_APPLIED (Some oid) (rr_failure_code reduced))" by simp
  have "written h t2 t3"
    by (rule store_fill_writes [OF applied(3) _ a]) (use reduced_fill_order [OF reduced] r(1) in \<open>auto simp: application_def\<close>)
  with t2 have "written h s t3" by (rule rtranclp_trans)
  with applied(4) show ?thesis by (auto dest: givesD [OF resolve_observation_moves])
qed

lemma new_event_runs:
  assumes "new_event h env e raw_id expected t = Inr (a, t')"
  obtains (stale) "t' = t" "\<And>c. a = Inr c \<Longrightarrow> ap_disposition c = EVENT_STALE"
  | (unknown) "insert_application h e raw_id EVENT_UNRESOLVED None None t = Inr t'"
      "\<And>c. a = Inr c \<Longrightarrow> ap_disposition c = EVENT_UNRESOLVED"
  | (reduced) oid x ledger reduced where "bc_client_order_id (event_correlation e) = Some oid"
      "load_order_row h oid t = Inr (Some x)" "load_applied_event_ledger h t = Inr ledger"
      "reduce_broker_event h x e ledger = Inr reduced"
      "apply_reduction h env e raw_id oid x reduced t = Inr (a, t')"
proof -
  have answers: "application_answer e d v = Inr c \<Longrightarrow> ap_disposition c = d" for d v c
    by (auto simp: application_answer_def application_result_init_def err_simps)
  show thesis
  proof (cases "bc_client_order_id (event_correlation e)")
    case None
    with assms show thesis by (auto simp: new_event_def err_simps answer_Inr dest: answers intro: unknown)
  next
    case (Some oid)
    with assms obtain y where y: "load_order_row h oid t = Inr y" by (auto simp: new_event_def Let_def err_simps)
    show thesis
    proof (cases y)
      case None
      with assms Some y show thesis by (auto simp: new_event_def err_simps answer_Inr dest: answers intro: unknown)
    next
      case x: (Some x)
      with assms Some y show thesis
        by (auto simp: new_event_def Let_def err_simps answer_Inr dest: answers intro: stale reduced split: if_splits)
    qed
  qed
qed

lemma new_event_writes [writes]:
  assumes "written h s t"
  shows "gives2 (\<lambda>_. written h s) (new_event h env e raw_id expected t)"
proof (rule gives2I)
  fix a t'
  assume "new_event h env e raw_id expected t = Inr (a, t')"
  then show "written h s t'"
  proof (cases rule: new_event_runs)
    case unknown
    then have "table_write h t t'" by (intro insert_application_writes(1) [OF unknown(1)]) simp_all
    with assms show ?thesis by (rule rtranclp.rtrancl_into_rtrancl)
  next
    case (reduced oid x ledger reduced)
    then show ?thesis using apply_reduction_writes assms by blast
  qed (use assms in simp)
qed

lemma apply_event_writes [writes]:
  "written h s t \<Longrightarrow> gives2 (\<lambda>_. written h s) (apply_event_tx h env e semantic raw_id expected t)"
  unfolding apply_event_tx_def Let_def
  by ((rule gives_splits | rule gives_ends | rule gives_reads | (rule writes, assumption)))+

text \<open>Commits: the projections of a request that was validated, then what it resolves.\<close>

definition request_fits :: "commit_request \<Rightarrow> bool" where
  "request_fits r \<longleftrightarrow> (\<forall>x\<in>set (cr_order_projections r). li_account_id (lo_intent x) = cr_account_id r
     \<and> dget (expected_versions r) (order_id x) = Some (lo_version x - 1))"

definition rows_fit :: "commit_request \<Rightarrow> journal_tables \<Rightarrow> bool" where
  "rows_fit r t \<longleftrightarrow> (\<forall>i v x. dget (expected_versions r) i = Some v \<longrightarrow> dget (t_orders t) i = Some x \<longrightarrow>
     row_account_id x = cr_account_id r)"

lemma efold_unit: "efold (\<lambda>x _. f x) xs () = Inr u \<Longrightarrow> \<forall>x\<in>set xs. f x = Inr ()"
proof (induction xs)
  case (Cons x xs)
  then show ?case by (cases "f x") auto
qed simp

lemma commit_request_fits:
  assumes "commit_request_init r = Inr r'"
  shows "request_fits r" "r' = r"
proof -
  have each: "efold (\<lambda>x _.
              ethen (require (li_account_id (lo_intent x) = cr_account_id r)
                       (ValueError ''projected orders must match request account''))
                (case dget (expected_versions r) (order_id x) of
                   None \<Rightarrow> Inl (ValueError ''each projected order requires an expected order version'')
                 | Some v \<Rightarrow> require (lo_version x = v + 1)
                     (ValueError ''projected order version must advance expected version by one'')))
              (cr_order_projections r) () = Inr ()" and "r' = r"
    using assms unfolding commit_request_init_def Let_def expected_versions_def by (auto simp: err_simps)
  from efold_unit [OF each(1)] show "request_fits r"
    by (fastforce simp: request_fits_def err_simps split: option.splits)
  show "r' = r" by fact
qed

lemma validated_request_fits:
  assumes "validate_authorized_request h v = Inr c"
  shows "request_fits (vc_request c)"
proof -
  from assms obtain q where "reread (request_parts_init h q) = Inr (vc_request c)"
    unfolding validate_authorized_request_def ebind_eq_Inr
    by (auto simp: validation_error_def err_simps integrity_def split: sum.splits journal_exn.splits if_splits)
  then have "commit_request_init q = Inr (vc_request c)"
    by (auto simp: reread_def request_parts_init_def err_simps split: sum.splits)
  then show ?thesis using commit_request_fits by metis
qed

lemma write_projections_writes:
  assumes "write_projections h r t = Inr t'" and "request_fits r" "rows_fit r t" "written h s t"
  shows "written h s t'"
proof -
  have "written h s t' \<and> rows_fit r t'"
    using assms(1) unfolding write_projections_def
  proof (rule efold_invariant)
    fix x u u'
    assume x: "x \<in> set (cr_order_projections r)" and u: "written h s u \<and> rows_fit r u"
      and step: "(case dget (expected_versions r) (order_id x) of
         None \<Rightarrow> Inl (JournalPython KeyError)
       | Some v \<Rightarrow> ebind (write_order h x (Some v) u) (\<lambda>(written, t).
           if written then Inr t else integrity ''live journal reconciliation projection write failed'')) = Inr u'"
    from x assms(2) have v: "dget (expected_versions r) (order_id x) = Some (lo_version x - 1)"
      and account: "li_account_id (lo_intent x) = cr_account_id r" by (simp_all add: request_fits_def)
    with step have w: "write_order h x (Some (lo_version x - 1)) u = Inr (True, u')"
      by (auto simp: err_simps integrity_def split: if_splits)
    have "written h s u'"
      by (rule write_order_writes [OF w]) (use u v account in \<open>auto simp: rows_fit_def order_id_def\<close>)
    moreover have "rows_fit r u'"
      using w u account
      by (auto elim!: write_order_next simp: rows_fit_def order_written_def order_columns_def split: if_splits) blast
    ultimately show "written h s u' \<and> rows_fit r u'" ..
  qed (use assms in simp)
  then show ?thesis ..
qed

lemma insert_commit_writes [writes]: "written h s t \<Longrightarrow> gives (written h s) (insert_commit i m t)"
proof (rule givesI)
  fix t'
  assume s: "written h s t" and run: "insert_commit i m t = Inr t'"
  then have "list_all (\<lambda>(j, r). com_account_id r = com_account_id m \<longrightarrow>
              com_snapshot_id r \<noteq> com_snapshot_id m \<and> com_digest r \<noteq> com_digest m
              \<and> com_resulting_sequence r \<noteq> com_resulting_sequence m) (t_commits t)"
    and i: "dget (t_commits t) i = None" and t': "t' = t\<lparr>t_commits := dset i m (t_commits t)\<rparr>"
    by (auto simp: insert_commit_def constraint_def err_simps insert_row_Inr)
  from list_all_dget [OF this(1)] have "\<forall>k r. dget (t_commits t) k = Some r \<longrightarrow> com_account_id r = com_account_id m \<longrightarrow>
       com_snapshot_id r \<noteq> com_snapshot_id m \<and> com_digest r \<noteq> com_digest m" by fastforce
  with i have "table_write h t t'" unfolding t' by (rule commit_stored)
  with s show "written h s t'" by (rule rtranclp.rtrancl_into_rtrancl)
qed

lemma insert_authorization_writes [writes]: "written h s t \<Longrightarrow> gives (written h s) (insert_authorization h u t)"
proof (rule givesI)
  fix t'
  let ?i = "ca_authorization_id (aut_authorization u)"
  assume s: "written h s t" and run: "insert_authorization h u t = Inr t'"
  then have fresh: "list_all (\<lambda>(i, r). ca_commit_id (aut_authorization r) \<noteq> ca_commit_id (aut_authorization u)) (t_authorizations t)"
    and *: "dget (t_authorizations t) ?i = None" "dget (t_commits t) (ca_commit_id (aut_authorization u)) \<noteq> None"
      "unrecorded ''operator-authorization'' ?i t"
    and "\<exists>digest. t' = recorded ''operator-authorization'' ?i digest (aut_consumed_at u)
       (t\<lparr>t_authorizations := dset ?i u (t_authorizations t)\<rparr>)"
    by (auto simp: insert_authorization_def Let_def constraint_def err_simps insert_row_Inr unrecorded_iff unrecorded_def)
  moreover have "\<forall>k r. dget (t_authorizations t) k = Some r \<longrightarrow>
       ca_commit_id (aut_authorization r) \<noteq> ca_commit_id (aut_authorization u)"
    using list_all_dget [OF fresh] by fastforce
  ultimately have "table_write h t t'" using authorization_stored [OF refl *(1,2) _ *(3)] by auto
  with s show "written h s t'" by (rule rtranclp.rtrancl_into_rtrancl)
qed

lemma resolution_of_commit [simp]:
  "crr_commit_id (claim_resolution_of h i moment o1 d) = i"
  "orr_commit_id (observation_resolution_of h i moment d') = i"
  "qrr_commit_id (requirement_resolution_of h i moment q d'') = i"
  by (simp_all add: claim_resolution_of_def observation_resolution_of_def requirement_resolution_of_def Let_def)

lemma resolve_claim_writes: "resolve_claim h i moment claims d t = Inr t' \<Longrightarrow> table_write h t t'"
  by (auto simp: resolve_claim_def Let_def constraint_def err_simps insert_row_Inr unrecorded_iff unrecorded_def
      split: option.splits intro!: claim_settled)

lemma settle_observation_writes: "settle_observation h i moment d t = Inr t' \<Longrightarrow> table_write h t t'"
  by (auto simp: settle_observation_def Let_def constraint_def err_simps insert_row_Inr unrecorded_iff unrecorded_def
      intro!: observation_settled)

lemma satisfy_requirement_writes: "satisfy_requirement h i moment rows d t = Inr t' \<Longrightarrow> table_write h t t'"
  by (auto simp: satisfy_requirement_def Let_def constraint_def err_simps insert_row_Inr unrecorded_iff unrecorded_def
      split: option.splits intro!: requirement_settled)

lemma efold_writes:
  assumes "efold f xs t = Inr t'" and "\<And>x u u'. f x u = Inr u' \<Longrightarrow> table_write h u u'" and "written h s t"
  shows "written h s t'"
  using assms(1,3) by (rule efold_invariant) (blast intro: rtranclp.rtrancl_into_rtrancl assms(2))

lemma then_check_None: "then_check m k = Inr None \<longleftrightarrow> m = Inr None \<and> k = Inr None"
  by (cases m) (auto simp: then_check_def split: option.splits)

lemma reject_if_None: "reject_if b d = Inr None \<longleftrightarrow> \<not> b"
  by (simp add: reject_if_def)

lemma check_versions_fit:
  assumes "check_versions r t = Inr None"
  shows "rows_fit r t"
    "dget (expected_versions r) i = Some v \<Longrightarrow> \<exists>x. dget (t_orders t) i = Some x \<and> row_account_id x = cr_account_id r
       \<and> row_version x = v"
proof -
  have "list_all (\<lambda>(i, v). case dget (t_orders t) i of None \<Rightarrow> False
      | Some x \<Rightarrow> row_account_id x = cr_account_id r \<and> row_version x = v) (expected_versions r)"
    using assms unfolding check_versions_def then_check_None reject_if_None
    by (auto simp: list_ex_iff list_all_iff split: option.splits)
  from list_all_dget [OF this]
  have *: "\<And>i v. dget (expected_versions r) i = Some v \<Longrightarrow> \<exists>x. dget (t_orders t) i = Some x
      \<and> row_account_id x = cr_account_id r \<and> row_version x = v"
    by (fastforce split: option.splits)
  then show "dget (expected_versions r) i = Some v \<Longrightarrow> \<exists>x. dget (t_orders t) i = Some x \<and> row_account_id x = cr_account_id r
       \<and> row_version x = v" .
  show "rows_fit r t" unfolding rows_fit_def using * by fastforce
qed

lemma check_commit_parts:
  assumes "check_commit h r now t = Inr None"
  shows "check_authority h r = Inr None" "check_current h r t = Inr None" "check_versions r t = Inr None"
    "check_claims h r t = Inr None" "check_pending h r t = Inr None" "rr_reconciled_at (at_result (cr_assessment r)) \<le> now"
    and "\<exists>attributed. observation_accounts h t = Inr attributed \<and> check_observations r attributed t = Inr None
      \<and> check_requirements r attributed t = Inr None \<and> check_causes r attributed t = Inr None"
    and "check_each (claim_supported h r t) UNSUPPORTED_RESOLUTION (account_claims r t) = Inr None"
      "check_each (observation_supported h r t) UNSUPPORTED_RESOLUTION (cr_observation_resolutions r) = Inr None"
  using assms unfolding check_commit_def then_check_None ebind_eq_Inr
  by (auto simp: then_check_None reject_if_def split: if_splits)

lemma store_commit_runs:
  assumes "store_commit h c moment t0 = Inr (n, t')"
  obtains attributed t1 t2 t3 t4 t5 t6 row u digest where
    "observation_accounts h t0 = Inr attributed" "write_projections h (vc_request c) t0 = Inr t1"
    "insert_commit (cr_commit_id (vc_request c)) row t1 = Inr t2" "insert_authorization h u t2 = Inr t3"
    "efold (resolve_claim h (cr_commit_id (vc_request c)) moment (account_claims (vc_request c) t0))
       (cr_claim_resolutions (vc_request c)) t3 = Inr t4"
    "efold (settle_observation h (cr_commit_id (vc_request c)) moment) (cr_observation_resolutions (vc_request c)) t4 = Inr t5"
    "efold (satisfy_requirement h (cr_commit_id (vc_request c)) moment
        (account_requirements (vc_request c) attributed t0)) (cr_requirement_resolutions (vc_request c)) t5 = Inr t6"
    "unrecorded ''reconciliation-commit'' (cr_commit_id (vc_request c)) t6"
    "t' = recorded ''reconciliation-commit'' (cr_commit_id (vc_request c)) digest moment t6"
    "n = journal_length t'" "n = journal_length t0 + target_count (vc_request c) + 2"
    "row = commit_columns c (journal_length t0) n moment"
    "u = \<lparr>aut_authorization = (vc_authorization c)\<lparr>ca_commit_id := cr_commit_id (vc_request c)\<rparr>, aut_consumed_at = moment,
          aut_digest = vc_authorization_digest c, aut_resulting_sequence = n\<rparr>"
  using assms unfolding store_commit_def Let_def ebind_eq_Inr
  by (auto simp: err_simps unrecorded_iff integrity_def journal_length_def recorded_def intro!: that split: if_splits)

lemma store_commit_writes:
  assumes "store_commit h c moment t = Inr (n, t')" and "request_fits (vc_request c)" "rows_fit (vc_request c) t"
    and "written h s t"
  shows "written h s t'"
proof -
  obtain attributed t1 t2 t3 t4 t5 t6 row u digest where
    "observation_accounts h t = Inr attributed" and t1: "write_projections h (vc_request c) t = Inr t1"
    and t2: "insert_commit (cr_commit_id (vc_request c)) row t1 = Inr t2" and t3: "insert_authorization h u t2 = Inr t3"
    and t4: "efold (resolve_claim h (cr_commit_id (vc_request c)) moment (account_claims (vc_request c) t))
       (cr_claim_resolutions (vc_request c)) t3 = Inr t4"
    and t5: "efold (settle_observation h (cr_commit_id (vc_request c)) moment) (cr_observation_resolutions (vc_request c)) t4 = Inr t5"
    and t6: "efold (satisfy_requirement h (cr_commit_id (vc_request c)) moment
        (account_requirements (vc_request c) attributed t)) (cr_requirement_resolutions (vc_request c)) t5 = Inr t6"
    and r: "unrecorded ''reconciliation-commit'' (cr_commit_id (vc_request c)) t6"
    and t': "t' = recorded ''reconciliation-commit'' (cr_commit_id (vc_request c)) digest moment t6"
    by (rule store_commit_runs [OF assms(1)])
  have "written h s t1" by (rule write_projections_writes [OF t1 assms(2-4)])
  then have "written h s t2" using t2 by (rule givesD [OF insert_commit_writes])
  then have "written h s t3" using t3 by (rule givesD [OF insert_authorization_writes])
  then have "written h s t4" using efold_writes [OF t4, of h s] resolve_claim_writes by blast
  then have "written h s t5" using efold_writes [OF t5, of h s] settle_observation_writes by blast
  then have "written h s t6" using efold_writes [OF t6, of h s] satisfy_requirement_writes by blast
  then show ?thesis unfolding t' by (rule rtranclp.rtrancl_into_rtrancl) (rule commit_recorded [OF r])
qed

lemma commit_tx_runs:
  assumes "commit_tx h f identity env c t = Inr (a, t')"
  obtains (rejected) "t' = t" "\<And>x. a = Inr x \<Longrightarrow> cx_disposition x \<noteq> COMMITTED"
  | (stored) now n where "verify_journal h f identity t = Inr ()"
      "ca_journal_id (vc_authorization c) = ji_journal_id identity" "journal_now env = Inr now"
      "dget (t_commits t) (cr_commit_id (vc_request c)) = None"
      "ca_authorized_at (vc_authorization c) \<le> now" "now < ca_expires_at (vc_authorization c)"
      "dget (t_authorizations t) (ca_authorization_id (vc_authorization c)) = None"
      "check_commit h (vc_request c) now t = Inr None" "store_commit h c now t = Inr (n, t')"
proof -
  have rejected_kind: "rejected r d = Inr x \<Longrightarrow> cx_disposition x \<noteq> COMMITTED" for r d x
    by (auto simp: rejected_def commit_result_init_def durable_result_ok_def err_simps)
  have committed_kind: "committed r d m s1 c1 o1 q1 = Inr x \<Longrightarrow> cx_disposition x = d" for r d m s1 c1 o1 q1 x
    by (auto simp: committed_def commit_result_init_def err_simps)
  obtain now where pre: "verify_journal h f identity t = Inr ()"
      "ca_journal_id (vc_authorization c) = ji_journal_id identity" "journal_now env = Inr now"
    using assms unfolding commit_tx_def Let_def ebind_eq_Inr require_eq_Inr by auto
  show thesis
  proof (cases "dget (t_commits t) (cr_commit_id (vc_request c))")
    case (Some m)
    with assms pre have "retry_commit c m t = Inr (a, t')" by (simp add: commit_tx_def Let_def)
    then have "t' = t" "\<And>x. a = Inr x \<Longrightarrow> cx_disposition x \<noteq> COMMITTED"
      by (auto simp: retry_commit_def Let_def answer_Inr dest!: rejected_kind committed_kind split: if_splits)
    then show thesis by (rule rejected)
  next
    case None
    with assms pre have window: "ca_authorized_at (vc_authorization c) \<le> now" "now < ca_expires_at (vc_authorization c)"
        "dget (t_authorizations t) (ca_authorization_id (vc_authorization c)) = None"
      and rest: "t' = t \<and> (\<forall>x. a = Inr x \<longrightarrow> cx_disposition x \<noteq> COMMITTED) \<or> accept_commit h c now t = Inr (a, t')"
      by (auto simp: commit_tx_def Let_def err_simps answer_Inr dest!: rejected_kind split: if_splits)
    show thesis
    proof (cases "t' = t \<and> (\<forall>x. a = Inr x \<longrightarrow> cx_disposition x \<noteq> COMMITTED)")
      case True
      then show thesis using rejected by blast
    next
      case False
      with rest have "accept_commit h c now t = Inr (a, t')" by blast
      then obtain verdict where v: "check_commit h (vc_request c) now t = Inr verdict"
        and more: "(case verdict of Some d \<Rightarrow> answer (rejected (vc_request c) d) t
          | None \<Rightarrow> ebind (store_commit h c now t) (\<lambda>(sequence, t).
          Inr (python (committed (vc_request c) COMMITTED now sequence
                 (sort (map cl_client_command_id (cr_claim_resolutions (vc_request c))))
                 (sort (map od_observation_id (cr_observation_resolutions (vc_request c))))
                 (sort (map rd_requirement_id (cr_requirement_resolutions (vc_request c))))), t))) = Inr (a, t')"
        unfolding accept_commit_def Let_def ebind_eq_Inr by blast
      show thesis
      proof (cases verdict)
        case None
        with more obtain n where "store_commit h c now t = Inr (n, t')" by (auto simp: err_simps)
        with v None show thesis using stored [OF pre \<open>dget (t_commits t) _ = None\<close> window] by simp
      next
        case (Some d)
        with more have "t' = t" "\<And>x. a = Inr x \<Longrightarrow> cx_disposition x \<noteq> COMMITTED"
          by (auto simp: answer_Inr dest: rejected_kind)
        then show thesis by (rule rejected)
      qed
    qed
  qed
qed

lemma commit_writes [writes]:
  assumes "request_fits (vc_request c)" "written h s t"
  shows "gives2 (\<lambda>_. written h s) (commit_tx h f identity env c t)"
proof (rule gives2I)
  fix a t'
  assume "commit_tx h f identity env c t = Inr (a, t')"
  then show "written h s t'"
  proof (cases rule: commit_tx_runs)
    case (stored now n)
    from check_commit_parts(3) [OF stored(8)] have "rows_fit (vc_request c) t" by (rule check_versions_fit)
    then show ?thesis by (rule store_commit_writes [OF stored(9) assms(1) _ assms(2)])
  qed (use assms in simp)
qed

end
