(* ===== verification/Journal_Run.thy ===== *)
theory Journal_Run
  imports Journal_Writes
begin

text \<open>
  What every write keeps: rows are added and never removed or changed, but for the current row of an
  order and the status of a raw observation, which leaves \<open>unresolved\<close> once; the records, the history
  and the requirements only grow at the end.
\<close>

definition kept :: "('k, 'v) dict \<Rightarrow> ('k, 'v) dict \<Rightarrow> bool" where
  "kept d d' \<longleftrightarrow> (\<forall>k v. dget d k = Some v \<longrightarrow> dget d' k = Some v)"

lemma kept_refl [simp]: "kept d d"
  by (simp add: kept_def)

lemma kept_trans: "kept a b \<Longrightarrow> kept b c \<Longrightarrow> kept a c"
  by (simp add: kept_def)

lemma keptD: "kept d d' \<Longrightarrow> dget d k = Some v \<Longrightarrow> dget d' k = Some v"
  by (simp add: kept_def)

definition settles :: "(string, raw_row) dict \<Rightarrow> (string, raw_row) dict \<Rightarrow> bool" where
  "settles d d' \<longleftrightarrow> (\<forall>i r. dget d i = Some r \<longrightarrow> (\<exists>r'. dget d' i = Some r' \<and>
     (r' = r \<or> raw_status r = STATUS_UNRESOLVED \<and> raw_status r' \<noteq> STATUS_UNRESOLVED
               \<and> r' = r\<lparr>raw_status := raw_status r'\<rparr>)))"

lemma settles_refl [simp]: "settles d d"
  by (simp add: settles_def)

lemma settles_trans:
  assumes "settles a b" "settles b c"
  shows "settles a c"
  unfolding settles_def
proof (intro allI impI)
  fix i r
  assume "dget a i = Some r"
  with assms(1) obtain s where s: "dget b i = Some s" "s = r \<or> raw_status r = STATUS_UNRESOLVED
      \<and> raw_status s \<noteq> STATUS_UNRESOLVED \<and> s = r\<lparr>raw_status := raw_status s\<rparr>"
    unfolding settles_def by blast
  with assms(2) obtain u where u: "dget c i = Some u" "u = s \<or> raw_status s = STATUS_UNRESOLVED
      \<and> raw_status u \<noteq> STATUS_UNRESOLVED \<and> u = s\<lparr>raw_status := raw_status u\<rparr>"
    unfolding settles_def by blast
  from s(2) u show "\<exists>r'. dget c i = Some r' \<and> (r' = r \<or> raw_status r = STATUS_UNRESOLVED
      \<and> raw_status r' \<noteq> STATUS_UNRESOLVED \<and> r' = r\<lparr>raw_status := raw_status r'\<rparr>)"
    by auto
qed

definition keys_kept :: "('k, 'v) dict \<Rightarrow> ('k, 'v) dict \<Rightarrow> bool" where
  "keys_kept d d' \<longleftrightarrow> (\<forall>k. dget d k \<noteq> None \<longrightarrow> dget d' k \<noteq> None)"

lemma keys_kept_refl [simp]: "keys_kept d d"
  by (simp add: keys_kept_def)

lemma keys_kept_trans: "keys_kept a b \<Longrightarrow> keys_kept b c \<Longrightarrow> keys_kept a c"
  by (simp add: keys_kept_def)

lemma keys_kept_dset [simp]: "keys_kept d (dset k v d)"
  by (simp add: keys_kept_def)

definition grows :: "journal_tables \<Rightarrow> journal_tables \<Rightarrow> bool" where
  "grows t t' \<longleftrightarrow>
     prefix (t_records t) (t_records t') \<and> kept (t_reservations t) (t_reservations t')
     \<and> keys_kept (t_orders t) (t_orders t') \<and> prefix (t_history t) (t_history t')
     \<and> kept (t_commands t) (t_commands t') \<and> kept (t_claims t) (t_claims t')
     \<and> kept (t_receipts t) (t_receipts t') \<and> settles (t_raw t) (t_raw t')
     \<and> kept (t_events t) (t_events t') \<and> kept (t_applications t) (t_applications t')
     \<and> kept (t_fills t) (t_fills t') \<and> t_ambiguity t' = t_ambiguity t
     \<and> prefix (t_requirements t) (t_requirements t') \<and> kept (t_commits t) (t_commits t')
     \<and> kept (t_claim_resolutions t) (t_claim_resolutions t')
     \<and> kept (t_observation_resolutions t) (t_observation_resolutions t')
     \<and> kept (t_requirement_resolutions t) (t_requirement_resolutions t')
     \<and> kept (t_authorizations t) (t_authorizations t')"

lemma grows_refl [simp]: "grows t t"
  by (simp add: grows_def)

lemma grows_trans: "grows a b \<Longrightarrow> grows b c \<Longrightarrow> grows a c"
  unfolding grows_def
  by (elim conjE, intro conjI)
    (simp, (erule (1) kept_trans | erule (1) keys_kept_trans | erule (1) settles_trans
      | erule (1) prefix_order.order_trans | simp)+)

lemma kept_dset: "dget d k = None \<Longrightarrow> kept d (dset k v d)"
  by (auto simp: kept_def)

lemma settles_dset:
  "dget d k = None \<Longrightarrow> settles d (dset k v d)"
  "dget d k = Some r \<Longrightarrow> raw_status r = STATUS_UNRESOLVED \<Longrightarrow> s \<noteq> STATUS_UNRESOLVED \<Longrightarrow>
     settles d (dset k (r\<lparr>raw_status := s\<rparr>) d)"
  by (auto simp: settles_def)

lemma table_write_grows: "table_write h t t' \<Longrightarrow> grows t t'"
  by (induction rule: table_write.induct)
    (auto simp: grows_def recorded_def order_written_def kept_dset settles_dset)

lemma written_grows: "written h t t' \<Longrightarrow> grows t t'"
  by (induction rule: rtranclp_induct) (auto dest: table_write_grows elim: grows_trans)


text \<open>
  Runs of a journal: its operations as values, what a sequence of calls answers, and the lemmas every
  statement about a run rests on. A call after which the connection is lost (a SQLite fault, a
  \<open>close\<close>) is the call followed by \<open>CloseJournal\<close>; opening the file again is \<open>ResumeJournal\<close>, which
  validates everything first.
\<close>

section \<open>Operations and answers\<close>

datatype journal_op =
    RegisterOrder live_command live_order string
  | RegisterCommand live_command live_order int
  | ClaimDispatch journal_env string string int string
  | RecordReceipt dispatch_receipt string int
  | AppendRaw raw_observation
  | ApplyEvent journal_env broker_event string "int option"
  | CommitReconciliation journal_env authorized_request
  | ReadOrder string
  | ReadActive "string option"
  | ReadAccount journal_env string
  | CloseJournal
  | ResumeJournal

datatype journal_answer =
    RegistrationAnswer "registration_result jresult"
  | ClaimAnswer "dispatch_claim jresult"
  | ReceiptAnswer "receipt_result jresult"
  | AppendAnswer "append_result jresult"
  | ApplicationAnswer "application_result jresult"
  | CommitAnswer "commit_result jresult"
  | OrderAnswer "live_order option jresult"
  | ActiveAnswer "live_order list jresult"
  | SnapshotAnswer "local_snapshot jresult"
  | DoneAnswer "unit jresult"

text \<open>\<open>close\<close>, and opening the file again in the mode RESUME: the content is verified read-only first.\<close>

definition close_journal :: "journal \<Rightarrow> unit jresult \<times> journal" where
  "close_journal j = (Inr (), j\<lparr>jn_closed := True\<rparr>)"

fun open_failure :: "journal_exn \<Rightarrow> journal_exn" where
  "open_failure (JournalPython (ValueError m)) = JournalIntegrity ''live journal could not be opened''"
| "open_failure e = sqlite_failure e"

definition resume_journal ::
  "hashes \<Rightarrow> schema_fingerprints \<Rightarrow> journal_identity \<Rightarrow> journal \<Rightarrow> unit jresult \<times> journal" where
  "resume_journal h f identity j =
     (case verify_journal h f identity (jn_tables j) of
        Inl e \<Rightarrow> (Inl (open_failure e), j\<lparr>jn_closed := True\<rparr>)
      | Inr u \<Rightarrow> (Inr (), j\<lparr>jn_closed := False\<rparr>))"

fun journal_do ::
  "hashes \<Rightarrow> schema_fingerprints \<Rightarrow> journal_identity \<Rightarrow> journal_op \<Rightarrow> journal \<Rightarrow> journal_answer \<times> journal" where
  "journal_do h f identity (RegisterOrder c x fingerprint) j = apfst RegistrationAnswer (register_new_order h c x fingerprint j)"
| "journal_do h f identity (RegisterCommand c x expected) j = apfst RegistrationAnswer (register_command h c x expected j)"
| "journal_do h f identity (ClaimDispatch env i fingerprint expected claimant) j =
     apfst ClaimAnswer (claim_dispatch h env i fingerprint expected claimant j)"
| "journal_do h f identity (RecordReceipt r token expected) j = apfst ReceiptAnswer (record_dispatch_receipt h r token expected j)"
| "journal_do h f identity (AppendRaw x) j = apfst AppendAnswer (append_raw_observation h x j)"
| "journal_do h f identity (ApplyEvent env e raw_id expected) j =
     apfst ApplicationAnswer (apply_normalized_event h env e raw_id expected j)"
| "journal_do h f identity (CommitReconciliation env v) j =
     apfst CommitAnswer (commit_authorized_reconciliation h f identity env v j)"
| "journal_do h f identity (ReadOrder i) j = apfst OrderAnswer (journal_get_order h i j)"
| "journal_do h f identity (ReadActive account) j = apfst ActiveAnswer (list_active_orders h account j)"
| "journal_do h f identity (ReadAccount env account) j =
     apfst SnapshotAnswer (journal_account_snapshot h f identity env account j)"
| "journal_do h f identity CloseJournal j = apfst DoneAnswer (close_journal j)"
| "journal_do h f identity ResumeJournal j = apfst DoneAnswer (resume_journal h f identity j)"

text \<open>A sequence of calls: each with its answer, and the state after the last.\<close>

fun act_run :: "('op \<Rightarrow> 's \<Rightarrow> 'a \<times> 's) \<Rightarrow> 'op list \<Rightarrow> 's \<Rightarrow> ('op \<times> 'a) list \<times> 's" where
  "act_run act [] s = ([], s)"
| "act_run act (op # ops) s =
     (let (a, s1) = act op s; (answers, s2) = act_run act ops s1 in ((op, a) # answers, s2))"

abbreviation journal_run ::
  "hashes \<Rightarrow> schema_fingerprints \<Rightarrow> journal_identity \<Rightarrow> journal_op list \<Rightarrow> journal
     \<Rightarrow> (journal_op \<times> journal_answer) list \<times> journal" where
  "journal_run h f identity \<equiv> act_run (journal_do h f identity)"

text \<open>
  An interface of operations that hand something out: what was taken stays taken, and an answer that
  gives a key is only given when the key was free. No run gives a key twice.
\<close>

locale hands_out_once =
  fixes act :: "'op \<Rightarrow> 's \<Rightarrow> 'a \<times> 's"
    and given :: "'op \<Rightarrow> 'a \<Rightarrow> 'k option"
    and taken :: "'s \<Rightarrow> 'k \<Rightarrow> bool"
  assumes stays: "taken s k \<Longrightarrow> taken (snd (act op s)) k"
    and takes: "given op (fst (act op s)) = Some k \<Longrightarrow> \<not> taken s k \<and> taken (snd (act op s)) k"
begin

lemma run_stays: "taken s k \<Longrightarrow> taken (snd (act_run act ops s)) k"
proof (induction ops arbitrary: s)
  case (Cons op ops)
  from Cons.IH [OF stays [OF Cons.prems, of op]] show ?case by (simp add: Let_def split_beta)
qed simp

lemma run_given:
  "distinct (List.map_filter (\<lambda>(op, a). given op a) (fst (act_run act ops s)))
   \<and> (\<forall>k\<in>set (List.map_filter (\<lambda>(op, a). given op a) (fst (act_run act ops s))).
        \<not> taken s k \<and> taken (snd (act_run act ops s)) k)"
proof (induction ops arbitrary: s)
  case Nil
  then show ?case by (simp add: List.map_filter_def)
next
  case (Cons op ops)
  obtain a s1 where a: "act op s = (a, s1)" by fastforce
  obtain log s2 where log: "act_run act ops s1 = (log, s2)" by fastforce
  note IH = Cons.IH [of s1, unfolded log fst_conv snd_conv]
  have stay: "taken s k \<Longrightarrow> taken s1 k" for k using stays [of s k op] a by simp
  show ?case
  proof (cases "given op a")
    case None
    with IH stay show ?thesis by (auto simp: a log List.map_filter_simps)
  next
    case (Some k)
    then have "\<not> taken s k" "taken s1 k" using takes [of op s k] a by simp_all
    moreover have "taken s2 k" using run_stays [OF \<open>taken s1 k\<close>, of ops] log by simp
    ultimately show ?thesis using IH stay Some by (auto simp: a log List.map_filter_simps)
  qed
qed

end

section \<open>What one call does\<close>

lemma journal_operation_tables:
  assumes "journal_operation on_cas body j = (a, j')"
  obtains "jn_tables j' = jn_tables j"
  | t' where "\<not> jn_closed j" "body (jn_tables j) = Inr (a, t')" "j' = j\<lparr>jn_tables := t'\<rparr>"
proof (cases "jn_closed j")
  case True
  with assms that(1) show thesis by (simp add: journal_operation_def)
next
  case False
  show thesis
  proof (cases "body (jn_tables j)")
    case (Inl e)
    then have "jn_tables j' = jn_tables j"
      using assms False by (cases e) (auto simp: journal_operation_def split: if_splits)
    then show thesis by (rule that(1))
  next
    case (Inr r)
    then have "body (jn_tables j) = Inr (a, snd r)" "j' = j\<lparr>jn_tables := snd r\<rparr>"
      using assms False by (auto simp: journal_operation_def split: prod.splits)
    with False show thesis by (rule that(2))
  qed
qed

lemma journal_operation_cases:
  "jn_tables (snd (journal_operation on_cas body j)) = jn_tables j
   \<or> (\<exists>a. \<not> jn_closed j \<and> body (jn_tables j) = Inr (a, jn_tables (snd (journal_operation on_cas body j)))
        \<and> fst (journal_operation on_cas body j) = a)"
  by (cases "journal_operation on_cas body j", cases rule: journal_operation_tables) auto

lemma journal_read_tables: "jn_tables (snd (journal_read query j)) = jn_tables j"
  using journal_operation_cases [of "Inl CasMismatch" "\<lambda>t. ebind (query t) (\<lambda>x. Inr (Inr x, t))" j]
  by (auto simp: journal_read_def err_simps)

text \<open>The transactions that can write, as a step relation on the tables, with what is known at the call.\<close>

inductive journal_write ::
  "hashes \<Rightarrow> schema_fingerprints \<Rightarrow> journal_identity \<Rightarrow> journal_tables \<Rightarrow> journal_tables \<Rightarrow> bool"
  for h f identity where
  order_registered: "register_new_order_tx h (NewOrderCommand new) x fingerprint command_fingerprint t = Inr (a, t') \<Longrightarrow>
     same_live_intent (lo_intent x) (nw_intent new) \<Longrightarrow>
     intent_fingerprint h (lo_intent x) = Inr fingerprint \<Longrightarrow>
     payload_fingerprint h (NewOrderCommand new) = Inr command_fingerprint \<Longrightarrow> journal_write h f identity t t'"
| command_registered: "register_command_tx h c x expected fingerprint t = Inr (a, t') \<Longrightarrow>
     command_order_id c = li_client_order_id (lo_intent x) \<Longrightarrow>
     payload_fingerprint h c = Inr fingerprint \<Longrightarrow> journal_write h f identity t t'"
| dispatch_claimed: "claim_dispatch_tx h env i fingerprint expected claimant t = Inr (a, t') \<Longrightarrow>
     journal_write h f identity t t'"
| receipt_recorded: "record_receipt_tx h r digest token expected t = Inr (a, t') \<Longrightarrow>
     journal_encode h (py_receipt r) receipt_domain = Inr (payload, digest) \<Longrightarrow> journal_write h f identity t t'"
| raw_appended: "append_raw_tx x (journal_digest h raw_domain payload) t = Inr (a, t') \<Longrightarrow>
     encode_journal_value (py_raw x) = Inr payload \<Longrightarrow> journal_write h f identity t t'"
| event_applied: "apply_event_tx h env e semantic raw_id expected t = Inr (a, t') \<Longrightarrow>
     broker_semantic_fingerprint h e = Inr semantic \<Longrightarrow> journal_write h f identity t t'"
| reconciliation_committed: "commit_tx h f identity env v t = Inr (a, t') \<Longrightarrow>
     validate_authorized_request h w = Inr v \<Longrightarrow> journal_write h f identity t t'"

lemma journal_write_writes: "journal_write h f identity t t' \<Longrightarrow> written h t t'"
proof (induction rule: journal_write.induct)
  case (order_registered new x fingerprint command_fingerprint t a t')
  then show ?case by (blast intro: gives2D [OF register_new_order_writes])
next
  case (command_registered c x expected fingerprint t a t')
  then show ?case by (blast intro: gives2D [OF register_command_writes])
next
  case (dispatch_claimed env i fingerprint expected claimant t a t')
  then show ?case by (blast intro: gives2D [OF claim_dispatch_writes])
next
  case (receipt_recorded r digest token expected t a t' payload)
  then show ?case by (blast intro: gives2D [OF record_receipt_writes])
next
  case (raw_appended x payload t a t')
  then show ?case by (blast intro: gives2D [OF append_raw_writes])
next
  case (event_applied env e semantic raw_id expected t a t')
  then show ?case by (blast intro: gives2D [OF apply_event_writes])
next
  case (reconciliation_committed env v t a t' w)
  then show ?case by (blast intro: gives2D [OF commit_writes] validated_request_fits)
qed

lemmas journal_write_grows = written_grows [OF journal_write_writes]

lemma journal_operation_write:
  assumes "\<And>a t'. body (jn_tables j) = Inr (a, t') \<Longrightarrow> journal_write h f identity (jn_tables j) t'"
  shows "(journal_write h f identity)\<^sup>=\<^sup>= (jn_tables j) (jn_tables (snd (journal_operation on_cas body j)))"
  using journal_operation_cases [of on_cas body j] assms by auto

lemma journal_operation_wrote:
  assumes "\<And>a t'. body (jn_tables j) = Inr (a, t') \<Longrightarrow> journal_write h f identity (jn_tables j) t'"
    and "jn_tables j \<noteq> jn_tables (snd (journal_operation on_cas body j))"
  shows "journal_write h f identity (jn_tables j) (jn_tables (snd (journal_operation on_cas body j)))"
  using journal_operation_write [of body j h f identity on_cas] assms by auto

lemma journal_do_write:
  "(journal_write h f identity)\<^sup>=\<^sup>= (jn_tables j) (jn_tables (snd (journal_do h f identity op j)))"
proof (cases op)
  case (RegisterOrder c x fingerprint)
  show ?thesis
  proof (cases c)
    case (NewOrderCommand new)
    show ?thesis
      unfolding RegisterOrder NewOrderCommand
      by (auto simp: register_new_order_def err_simps split: sum.splits
          intro!: journal_operation_wrote elim: order_registered)
  qed (simp_all add: RegisterOrder register_new_order_def)
next
  case (RegisterCommand c x expected)
  then show ?thesis
    by (auto simp: register_command_def err_simps split: sum.splits intro!: journal_operation_wrote
        elim: command_registered)
next
  case (ClaimDispatch env i fingerprint expected claimant)
  then show ?thesis
    by (auto simp: claim_dispatch_def intro!: journal_operation_wrote elim: dispatch_claimed)
next
  case (RecordReceipt r token expected)
  then show ?thesis
    by (auto simp: record_dispatch_receipt_def split: sum.splits intro!: journal_operation_wrote elim: receipt_recorded)
next
  case (AppendRaw x)
  then show ?thesis
    by (auto simp: append_raw_observation_def split: sum.splits intro!: journal_operation_wrote elim: raw_appended)
next
  case (ApplyEvent env e raw_id expected)
  then show ?thesis
    by (auto simp: apply_normalized_event_def split: sum.splits intro!: journal_operation_wrote elim: event_applied)
next
  case (CommitReconciliation env v)
  then show ?thesis
    by (auto simp: commit_authorized_reconciliation_def split: sum.splits intro!: journal_operation_wrote
        elim: reconciliation_committed)
qed (auto simp: journal_get_order_def list_active_orders_def journal_account_snapshot_def journal_read_tables
       close_journal_def resume_journal_def split: sum.splits)

lemma journal_run_writes:
  "(journal_write h f identity)\<^sup>*\<^sup>* (jn_tables j) (jn_tables (snd (journal_run h f identity ops j)))"
proof (induction ops arbitrary: j)
  case Nil
  then show ?case by simp
next
  case (Cons op ops)
  have "(journal_write h f identity)\<^sup>*\<^sup>* (jn_tables j) (jn_tables (snd (journal_do h f identity op j)))"
    using journal_do_write [of h f identity j op] by auto
  with Cons [of "snd (journal_do h f identity op j)"] show ?case
    by (auto simp: Let_def split: prod.splits)
qed

interpretation jn: journalled_machine "journal_write h f identity" "\<lambda>_. True" t_records for h f identity
  by unfold_locales (auto dest: journal_write_grows simp: grows_def)

lemma journal_writes_grow: "(journal_write h f identity)\<^sup>*\<^sup>* t t' \<Longrightarrow> grows t t'"
  by (induction rule: rtranclp_induct) (auto dest: journal_write_grows elim: grows_trans)

lemmas journal_run_grows = journal_writes_grow [OF journal_run_writes]

section \<open>Claims\<close>

lemma claim_answer_Inr:
  "claim_answer i fingerprint d v token = Inr c \<Longrightarrow>
     dc_command_id c = i \<and> dc_disposition c = d \<and> dc_claim_token c = token \<and> dc_version c = v
     \<and> dc_payload_fingerprint c = fingerprint"
  by (auto simp: claim_answer_def dispatch_claim_init_def err_simps)

lemma claim_dispatch_acquired:
  assumes "claim_dispatch_tx h env i fingerprint expected claimant t = Inr (a, t')"
    and "a = Inr c" "dc_disposition c = ACQUIRED"
  obtains r m x token where "dc_command_id c = i" "dc_claim_token c = Some token" "dc_version c = expected"
    "dget (t_commands t) i = Some m" "cmd_fingerprint m = fingerprint"
    "dget (t_orders t) (cmd_order_id m) = Some x" "row_version x = expected"
    "dget (t_claims t) i = None" "dget (t_claims t') i = Some r" "clm_token r = token" "clm_version r = expected"
    "\<forall>k c. dget (t_claims t) k = Some c \<longrightarrow> clm_token c \<noteq> token" "written h t t'"
proof -
  from assms obtain m x token where *: "dget (t_commands t) i = Some m" "cmd_fingerprint m = fingerprint"
      "dget (t_orders t) (cmd_order_id m) = Some x" "row_version x = expected"
      "store_claim h env i expected claimant t = Inr (token, t')"
      "claim_answer i fingerprint ACQUIRED expected (Some token) = Inr c"
    unfolding claim_dispatch_tx_def
    by (auto simp: answer_Inr err_simps dest: claim_answer_Inr split: option.splits if_splits)
  from *(5) show thesis
    by (rule store_claim_Inr)
      (use claim_answer_Inr [OF *(6)] *(1-4) store_claim_writes [OF *(5,1,3,4)] in
        \<open>auto simp: recorded_def intro: that\<close>)
qed

end
