(* ===== verification/Journal_Invariants.thy ===== *)
theory Journal_Invariants
  imports Journal_Run
begin

text \<open>
  The invariant of the tables of a journal: keys are unique, rows refer to rows that are there, a claim
  token belongs to one command, every order has a history without gaps that ends in its current row,
  every fill belongs to one applied event of its order, requirements are numbered from one, and every
  record has its own kind and identifier. It holds of a new journal and every write keeps it.
\<close>

section \<open>The parts of the invariant\<close>

definition keys_ok :: "journal_tables \<Rightarrow> bool" where
  "keys_ok t \<longleftrightarrow> dict_ok (t_reservations t) \<and> dict_ok (t_orders t) \<and> dict_ok (t_commands t)
     \<and> dict_ok (t_claims t) \<and> dict_ok (t_receipts t) \<and> dict_ok (t_raw t) \<and> dict_ok (t_events t)
     \<and> dict_ok (t_applications t) \<and> dict_ok (t_fills t) \<and> dict_ok (t_commits t)
     \<and> dict_ok (t_claim_resolutions t) \<and> dict_ok (t_observation_resolutions t)
     \<and> dict_ok (t_requirement_resolutions t) \<and> dict_ok (t_authorizations t)
     \<and> map dq_requirement_id (t_requirements t) = map int [1..<Suc (length (t_requirements t))]
     \<and> distinct (map (\<lambda>r. (rec_kind r, rec_id r)) (t_records t))"

definition links_ok :: "journal_tables \<Rightarrow> bool" where
  "links_ok t \<longleftrightarrow>
     (\<forall>i. dget (t_reservations t) i = None \<longleftrightarrow> dget (t_orders t) i = None)
     \<and> (\<forall>i m. dget (t_commands t) i = Some m \<longrightarrow> dget (t_orders t) (cmd_order_id m) \<noteq> None)
     \<and> (\<forall>i. dget (t_claims t) i \<noteq> None \<longrightarrow> dget (t_commands t) i \<noteq> None)
     \<and> (\<forall>i. dget (t_receipts t) i \<noteq> None \<longrightarrow> dget (t_claims t) i \<noteq> None)
     \<and> (\<forall>i. dget (t_claim_resolutions t) i \<noteq> None \<longrightarrow> dget (t_claims t) i \<noteq> None)
     \<and> (\<forall>i n. dget (t_events t) i = Some n \<longrightarrow> dget (t_raw t) (evt_raw_id n) \<noteq> None)
     \<and> (\<forall>i. dget (t_events t) i = None \<longleftrightarrow> dget (t_applications t) i = None)
     \<and> (\<forall>i u. dget (t_authorizations t) i = Some u \<longrightarrow> i = ca_authorization_id (aut_authorization u)
              \<and> dget (t_commits t) (ca_commit_id (aut_authorization u)) \<noteq> None)"

definition claims_ok :: "journal_tables \<Rightarrow> bool" where
  "claims_ok t \<longleftrightarrow> (\<forall>i j a b. dget (t_claims t) i = Some a \<longrightarrow> dget (t_claims t) j = Some b \<longrightarrow>
     clm_token a = clm_token b \<longrightarrow> i = j)"

definition fills_ok :: "journal_tables \<Rightarrow> bool" where
  "fills_ok t \<longleftrightarrow>
     (\<forall>k r. dget (t_fills t) k = Some r \<longrightarrow> (\<exists>a. dget (t_applications t) (fil_event_id r) = Some a
        \<and> app_disposition a = EVENT_APPLIED \<and> app_order_id a = Some (fil_order_id r))
        \<and> lf_fill_id (fil_fill r) = k \<and> lf_client_order_id (fil_fill r) = fil_order_id r)
     \<and> (\<forall>k j r s. dget (t_fills t) k = Some r \<longrightarrow> dget (t_fills t) j = Some s \<longrightarrow>
          fil_event_id r = fil_event_id s \<longrightarrow> k = j)"

text \<open>The history of one order, in the order of its rows.\<close>

definition versions_of :: "string \<Rightarrow> journal_tables \<Rightarrow> history_row list" where
  "versions_of i t = filter (\<lambda>r. hist_order_id r = i) (t_history t)"

definition current_version :: "order_row \<Rightarrow> history_row \<Rightarrow> bool" where
  "current_version r z \<longleftrightarrow> hist_version z = row_version r \<and> hist_order z = row_order r
     \<and> hist_digest z = row_digest r \<and> hist_at z = row_updated_at r"

definition history_ok :: "journal_tables \<Rightarrow> bool" where
  "history_ok t \<longleftrightarrow>
     (\<forall>z\<in>set (t_history t). dget (t_orders t) (hist_order_id z) \<noteq> None)
     \<and> (\<forall>i r. dget (t_orders t) i = Some r \<longrightarrow>
          (\<exists>v zs z. versions_of i t = zs @ [z] \<and> map hist_version (zs @ [z]) = [v..row_version r] \<and> 0 < v
             \<and> current_version r z))"

definition journal_ok :: "journal_tables \<Rightarrow> bool" where
  "journal_ok t \<longleftrightarrow> keys_ok t \<and> links_ok t \<and> claims_ok t \<and> fills_ok t \<and> history_ok t"

section \<open>Preservation\<close>

lemma dict_ok_update: "dict_ok d \<Longrightarrow> dict_ok (dset k v d)"
  by simp

lemma keys_ok_write: "table_write h t t' \<Longrightarrow> keys_ok t \<Longrightarrow> keys_ok t'"
  by (induction rule: table_write.induct)
    (auto simp: keys_ok_def recorded_def order_written_def unrecorded_def)

lemma links_ok_write: "table_write h t t' \<Longrightarrow> links_ok t \<Longrightarrow> links_ok t'"
  by (induction rule: table_write.induct)
    (auto simp: links_ok_def recorded_def order_written_def command_columns_def)

lemma claims_ok_write: "table_write h t t' \<Longrightarrow> claims_ok t \<Longrightarrow> claims_ok t'"
proof (induction rule: table_write.induct)
  case (claim_stored t i m x r c outstanding payload digest)
  then show ?case by (simp add: claims_ok_def recorded_def) metis
qed (auto simp: claims_ok_def recorded_def order_written_def)

lemma stored_fill_fields [simp]: "lf_fill_id (stored_fill f) = lf_fill_id f"
    "lf_client_order_id (stored_fill f) = lf_client_order_id f"
  by (simp_all add: stored_fill_def)

lemma fills_ok_write: "table_write h t t' \<Longrightarrow> fills_ok t \<Longrightarrow> fills_ok t'"
proof (induction rule: table_write.induct)
  case (event_stored i e t raw_id a payload digest semantic)
  then have "dget (t_fills t) k = Some r \<Longrightarrow> fil_event_id r \<noteq> i" for k r
    by (force simp: fills_ok_def)
  with event_stored show ?case by (simp add: fills_ok_def recorded_def)
next
  case (fill_stored t f oid i a payload digest)
  then show ?case by (simp add: fills_ok_def) blast
qed (auto simp: fills_ok_def recorded_def order_written_def)

lemma versions_written:
  "versions_of i (order_written x digest t) = (if i = client_order x
     then versions_of i t @ [\<lparr>hist_order_id = i, hist_version = lo_version x, hist_order = stored_order x,
       hist_digest = digest, hist_at = lo_updated_at x\<rparr>] else versions_of i t)"
  by (simp add: versions_of_def order_written_def)

lemma orders_written: "t_orders (order_written x digest t) = dset (client_order x) (order_columns x digest) (t_orders t)"
  by (simp add: order_written_def)

lemma history_ok_same:
  "t_history t' = t_history t \<Longrightarrow> t_orders t' = t_orders t \<Longrightarrow> history_ok t \<Longrightarrow> history_ok t'"
  by (simp add: history_ok_def versions_of_def)

lemma history_ok_update:
  assumes "history_ok t" and versions: "\<exists>v. map hist_version (versions_of (client_order x) t) = [v..lo_version x - 1] \<and> 0 < v
      \<and> v \<le> lo_version x"
  shows "history_ok (order_written x digest t)"
proof -
  let ?z = "\<lparr>hist_order_id = client_order x, hist_version = lo_version x, hist_order = stored_order x,
       hist_digest = digest, hist_at = lo_updated_at x\<rparr>"
  from versions obtain v where v: "map hist_version (versions_of (client_order x) t) = [v..lo_version x - 1]" "0 < v"
    "v \<le> lo_version x" by blast
  then have "map hist_version (versions_of (client_order x) t @ [?z]) = [v..lo_version x]"
    using upto_rec2 [of v "lo_version x"] by simp
  moreover have "current_version (order_columns x digest) ?z"
    by (simp add: current_version_def order_columns_def)
  ultimately have "\<exists>v zs z. versions_of i (order_written x digest t) = zs @ [z]
      \<and> map hist_version (zs @ [z]) = [v..row_version r] \<and> 0 < v \<and> current_version r z"
    if "dget (t_orders (order_written x digest t)) i = Some r" for i r
    using that assms(1) v(2)
    by (auto simp: orders_written versions_written history_ok_def order_columns_def split: if_splits)
  moreover have "\<forall>z\<in>set (t_history (order_written x digest t)).
      dget (t_orders (order_written x digest t)) (hist_order_id z) \<noteq> None"
    using assms(1) by (auto simp: order_written_def history_ok_def)
  ultimately show ?thesis unfolding history_ok_def by blast
qed

lemma history_ok_write: "table_write h t t' \<Longrightarrow> history_ok t \<Longrightarrow> history_ok t'"
proof (induction rule: table_write.induct)
  case (order_stored t x fingerprint payload digest moment)
  let ?u = "t\<lparr>t_reservations := dset (client_order x) (fingerprint, moment) (t_reservations t)\<rparr>"
  have u: "history_ok ?u" by (rule history_ok_same [OF _ _ order_stored.prems]) simp_all
  from order_stored have "versions_of (client_order x) ?u = []"
    by (auto simp: versions_of_def history_ok_def filter_empty_conv)
  then have "history_ok (order_written x digest ?u)"
    by (intro history_ok_update [OF u]) (use order_stored in \<open>auto intro!: exI [of _ "lo_version x"]\<close>)
  then show ?case by (rule history_ok_same [rotated 2]) (simp_all add: recorded_def)
next
  case (order_updated t x old payload digest)
  then obtain v zs z where "versions_of (client_order x) t = zs @ [z]"
    and "map hist_version (zs @ [z]) = [v..row_version old]" "0 < v"
    unfolding history_ok_def by blast
  moreover from this have "v \<le> row_version old" by (cases "v \<le> row_version old") auto
  ultimately have "map hist_version (versions_of (client_order x) t) = [v..lo_version x - 1]" "v \<le> lo_version x" "0 < v"
    using order_updated(2) by simp_all
  then show ?case by (intro history_ok_update [OF order_updated.prems]) blast
qed (erule history_ok_same [rotated 2]; simp add: recorded_def)+

lemma journal_ok_write: "table_write h t t' \<Longrightarrow> journal_ok t \<Longrightarrow> journal_ok t'"
  unfolding journal_ok_def
  by (elim conjE, intro conjI) (erule (1) keys_ok_write links_ok_write claims_ok_write fills_ok_write history_ok_write)+

lemma initialize_ok: "initialize h f i = Inr t \<Longrightarrow> journal_ok t"
  by (auto simp: initialize_def err_simps unrecorded_iff recorded_def empty_tables_def journal_ok_def keys_ok_def
      links_ok_def claims_ok_def fills_ok_def history_ok_def unrecorded_def Let_def)

interpretation tables: journalled_machine "table_write h" journal_ok t_records for h
  by unfold_locales (auto dest: journal_ok_write table_write_grows simp: grows_def)

lemma journal_write_ok: "journal_write h f identity t t' \<Longrightarrow> journal_ok t \<Longrightarrow> journal_ok t'"
  using tables.run_inv journal_write_writes by blast

lemma journal_run_ok: "journal_ok (jn_tables j) \<Longrightarrow> journal_ok (jn_tables (snd (journal_run h f identity ops j)))"
  by (rule state_machine.run_inv [of "journal_write h f identity", OF _ journal_run_writes])
    (unfold_locales, auto intro: journal_write_ok)

end
