(* ===== verification/Journal_Outcomes.thy ===== *)
theory Journal_Outcomes
  imports Journal_Invariants
begin

text \<open>
  What the answers of a journal mean for its tables: an acquired claim, an applied event, a registered
  command and a committed reconciliation each leave a row that no earlier call had left, which makes
  the operations instances of the interface that hands a key out once; what is outstanding blocks the
  account; a committed reconciliation leaves nothing outstanding.
\<close>

section \<open>What each answer gives\<close>

fun acquired_command :: "journal_op \<Rightarrow> journal_answer \<Rightarrow> string option" where
  "acquired_command op (ClaimAnswer (Inr c)) = (if dc_disposition c = ACQUIRED then Some (dc_command_id c) else None)"
| "acquired_command op _ = None"

fun acquired_token :: "journal_op \<Rightarrow> journal_answer \<Rightarrow> string option" where
  "acquired_token op (ClaimAnswer (Inr c)) = (if dc_disposition c = ACQUIRED then dc_claim_token c else None)"
| "acquired_token op _ = None"

fun applied_event :: "journal_op \<Rightarrow> journal_answer \<Rightarrow> string option" where
  "applied_event op (ApplicationAnswer (Inr r)) = (if ap_disposition r = EVENT_APPLIED then Some (ap_event_id r) else None)"
| "applied_event op _ = None"

fun registered_command :: "journal_op \<Rightarrow> journal_answer \<Rightarrow> string option" where
  "registered_command op (RegistrationAnswer (Inr r)) =
     (if reg_disposition r = COMMAND_REGISTERED then Some (reg_command_id r) else None)"
| "registered_command op _ = None"

fun consumed_authorization :: "journal_op \<Rightarrow> journal_answer \<Rightarrow> string option" where
  "consumed_authorization (CommitReconciliation env v) (CommitAnswer (Inr r)) =
     (if cx_disposition r = COMMITTED then Some (ca_authorization_id (az_authorization v)) else None)"
| "consumed_authorization op _ = None"

lemma journal_do_grows: "grows (jn_tables j) (jn_tables (snd (journal_do h f identity op j)))"
  using journal_do_write [of h f identity j op] by (auto dest: journal_write_grows)

text \<open>A call that answers from its transaction.\<close>

lemma operation_answer:
  assumes "fst (journal_operation on_cas body j) = Inr c" "on_cas \<noteq> Inr c"
  shows "body (jn_tables j) = Inr (Inr c, jn_tables (snd (journal_operation on_cas body j)))"
  using assms by (auto simp: journal_operation_def split: sum.splits journal_exn.splits prod.splits if_splits)

lemma claim_call_acquired:
  assumes "fst (claim_dispatch h env i fingerprint expected claimant j) = Inr c" "dc_disposition c = ACQUIRED"
  shows "claim_dispatch_tx h env i fingerprint expected claimant (jn_tables j)
    = Inr (Inr c, jn_tables (snd (claim_dispatch h env i fingerprint expected claimant j)))"
  using assms unfolding claim_dispatch_def by (intro operation_answer) simp_all

interpretation claims: hands_out_once "journal_do h f identity" acquired_command
    "\<lambda>j i. dget (t_claims (jn_tables j)) i \<noteq> None" for h f identity
proof
  show "dget (t_claims (jn_tables (snd (journal_do h f identity op j)))) i \<noteq> None"
    if "dget (t_claims (jn_tables j)) i \<noteq> None" for j i op
    using that journal_do_grows [of j h f identity op] by (auto simp: grows_def kept_def)
  show "\<not> dget (t_claims (jn_tables j)) i \<noteq> None \<and> dget (t_claims (jn_tables (snd (journal_do h f identity op j)))) i \<noteq> None"
    if "acquired_command op (fst (journal_do h f identity op j)) = Some i" for op j i
  proof -
    from that obtain env k fp v claimant c where op: "op = ClaimDispatch env k fp v claimant"
      and c: "fst (claim_dispatch h env k fp v claimant j) = Inr c" "dc_disposition c = ACQUIRED" "i = dc_command_id c"
      by (cases op; cases "fst (journal_do h f identity op j)") (auto split: if_splits simp: apfst_def map_prod_def split_beta elim!: acquired_command.elims)
    from claim_call_acquired [OF c(1,2)] show ?thesis
      by (rule claim_dispatch_acquired [OF _ refl c(2)]) (simp add: op c(3))
  qed
qed

interpretation tokens: hands_out_once "journal_do h f identity" acquired_token
    "\<lambda>j k. \<exists>i r. dget (t_claims (jn_tables j)) i = Some r \<and> clm_token r = k" for h f identity
proof
  show "\<exists>i r. dget (t_claims (jn_tables (snd (journal_do h f identity op j)))) i = Some r \<and> clm_token r = k"
    if "\<exists>i r. dget (t_claims (jn_tables j)) i = Some r \<and> clm_token r = k" for j k op
  proof -
    have "kept (t_claims (jn_tables j)) (t_claims (jn_tables (snd (journal_do h f identity op j))))"
      using journal_do_grows [of j h f identity op] by (simp add: grows_def)
    then show ?thesis using that keptD by metis
  qed
  show "\<not> (\<exists>i r. dget (t_claims (jn_tables j)) i = Some r \<and> clm_token r = k)
      \<and> (\<exists>i r. dget (t_claims (jn_tables (snd (journal_do h f identity op j)))) i = Some r \<and> clm_token r = k)"
    if "acquired_token op (fst (journal_do h f identity op j)) = Some k" for op j k
  proof -
    from that obtain env i fp v claimant c where op: "op = ClaimDispatch env i fp v claimant"
      and c: "fst (claim_dispatch h env i fp v claimant j) = Inr c" "dc_disposition c = ACQUIRED" "dc_claim_token c = Some k"
      by (cases op; cases "fst (journal_do h f identity op j)") (auto split: if_splits simp: apfst_def map_prod_def split_beta elim!: acquired_token.elims)
    from claim_call_acquired [OF c(1,2)] show ?thesis
      by (rule claim_dispatch_acquired [OF _ refl c(2)]) (use c(3) in \<open>auto simp: op\<close>)
  qed
qed

text \<open>Applied events.\<close>

lemma application_answer_Inr:
  "application_answer e d v = Inr c \<Longrightarrow> ap_disposition c = d \<and> ap_event_id c = event_id_of e \<and> ap_order c = v"
  by (auto simp: application_answer_def application_result_init_def err_simps)

lemma apply_event_applied:
  assumes "apply_event_tx h env e semantic raw_id expected t = Inr (Inr c, t')" "ap_disposition c = EVENT_APPLIED"
  obtains r oid x ledger reduced where "dget (t_raw t) raw_id = Some r" "raw_status r = STATUS_UNRESOLVED"
    "bc_client_order_id (event_correlation e) = Some oid" "load_order_row h oid t = Inr (Some x)"
    "load_applied_event_ledger h t = Inr ledger" "reduce_broker_event h x e ledger = Inr reduced"
    "apply_reduction h env e raw_id oid x reduced t = Inr (Inr c, t')"
proof -
  have misplaced: "misplaced_event h env e raw_id status known t \<noteq> Inr (Inr c, t')" for status known
    using assms(2) by (auto simp: misplaced_event_def Let_def err_simps answer_Inr dest: application_answer_Inr)
  have known: "known_event h env e raw_id semantic n a t \<noteq> Inr (Inr c, t')" for n a
    using assms(2)
    by (auto simp: known_event_def Let_def err_simps answer_Inr dest: application_answer_Inr split: if_splits)
  from assms obtain r where "dget (t_raw t) raw_id = Some r" "raw_status r = STATUS_UNRESOLVED"
    and new: "new_event h env e raw_id expected t = Inr (Inr c, t')"
    by (auto simp: apply_event_tx_def Let_def err_simps answer_Inr misplaced known
        dest: application_answer_Inr split: option.splits if_splits)
  from new show thesis
  proof (cases rule: new_event_runs)
    case (reduced oid x ledger reduced)
    then show thesis using that \<open>dget (t_raw t) raw_id = Some r\<close> \<open>raw_status r = STATUS_UNRESOLVED\<close> by blast
  qed (use assms(2) in auto)
qed

lemma applied_reduction_event:
  assumes "apply_reduction h env e raw_id oid x reduced t = Inr (Inr c, t')" "ap_disposition c = EVENT_APPLIED"
  shows "dget (t_events t) (event_id_of e) = None" "ap_event_id c = event_id_of e"
    "ap_order c = Some (rr_order reduced)"
proof -
  obtain t1 where "insert_application h e raw_id EVENT_APPLIED (Some oid) (rr_failure_code reduced) t = Inr t1"
    and c: "application_answer e EVENT_APPLIED (Some (rr_order reduced)) = Inr c"
    using assms(1)
  proof (cases rule: apply_reduction_runs)
    case (applied t1 t2 t3)
    then show thesis using that by (cases "application_answer e EVENT_APPLIED (Some (rr_order reduced))") simp_all
  qed (use assms(2) in auto)
  then show "dget (t_events t) (event_id_of e) = None" by (auto elim: insert_application_Inr)
  show "ap_event_id c = event_id_of e" "ap_order c = Some (rr_order reduced)" using application_answer_Inr [OF c] by simp_all
qed

lemma event_call_applied:
  assumes "fst (apply_normalized_event h env e raw_id expected j) = Inr c" "ap_disposition c = EVENT_APPLIED"
  obtains semantic where "apply_event_tx h env e semantic raw_id expected (jn_tables j)
    = Inr (Inr c, jn_tables (snd (apply_normalized_event h env e raw_id expected j)))"
proof -
  from assms obtain semantic where s: "broker_semantic_fingerprint h e = Inr semantic"
    by (auto simp: apply_normalized_event_def split: sum.splits)
  have "python (application_answer e EVENT_STALE None) \<noteq> Inr c"
    using assms(2) by (auto simp: err_simps dest: application_answer_Inr)
  from operation_answer [OF _ this, of "apply_event_tx h env e semantic raw_id expected" j] assms(1) s
  show thesis by (intro that [of semantic]) (simp add: apply_normalized_event_def)
qed

lemma applied_event_after:
  assumes "apply_event_tx h env e semantic raw_id expected t = Inr (Inr c, t')" "ap_disposition c = EVENT_APPLIED"
  shows "dget (t_events t) (ap_event_id c) = None" "dget (t_events t') (ap_event_id c) \<noteq> None"
proof -
  obtain oid x reduced where r: "apply_reduction h env e raw_id oid x reduced t = Inr (Inr c, t')"
    using apply_event_applied [OF assms] by metis
  note before = applied_reduction_event [OF r assms(2)]
  then show "dget (t_events t) (ap_event_id c) = None" by simp
  from r show "dget (t_events t') (ap_event_id c) \<noteq> None"
  proof (cases rule: apply_reduction_runs)
    case (applied t1 t2 t3)
    have "dget (t_events t1) (event_id_of e) \<noteq> None"
      using applied(1) by (auto elim!: insert_application_Inr simp: recorded_def)
    moreover have "t_events t2 = t_events t1"
      using applied(2) by (auto simp: write_reduced_def err_simps order_written_def elim!: write_order_next split: if_splits)
    moreover have "t_events t3 = t_events t2"
      using applied(3) by (auto simp: store_fill_def err_simps split: option.splits)
    moreover have "t_events t' = t_events t3"
      using applied(4) by (auto simp: resolve_observation_def err_simps unrecorded_iff recorded_def split: option.splits if_splits)
    ultimately show ?thesis using before by simp
  qed (use assms(2) in auto)
qed

interpretation events: hands_out_once "journal_do h f identity" applied_event
    "\<lambda>j i. dget (t_events (jn_tables j)) i \<noteq> None" for h f identity
proof
  show "dget (t_events (jn_tables (snd (journal_do h f identity op j)))) i \<noteq> None"
    if "dget (t_events (jn_tables j)) i \<noteq> None" for j i op
    using that journal_do_grows [of j h f identity op] by (auto simp: grows_def kept_def)
  show "\<not> dget (t_events (jn_tables j)) i \<noteq> None \<and> dget (t_events (jn_tables (snd (journal_do h f identity op j)))) i \<noteq> None"
    if "applied_event op (fst (journal_do h f identity op j)) = Some i" for op j i
  proof -
    from that obtain env e raw_id v c where op: "op = ApplyEvent env e raw_id v"
      and c: "fst (apply_normalized_event h env e raw_id v j) = Inr c" "ap_disposition c = EVENT_APPLIED" "i = ap_event_id c"
      by (cases op; cases "fst (journal_do h f identity op j)") (auto split: if_splits simp: apfst_def map_prod_def split_beta elim!: applied_event.elims)
    from event_call_applied [OF c(1,2)] obtain semantic where
      "apply_event_tx h env e semantic raw_id v (jn_tables j)
         = Inr (Inr c, jn_tables (snd (apply_normalized_event h env e raw_id v j)))" .
    from applied_event_after [OF this c(2)] show ?thesis by (simp add: op c(3))
  qed
qed

text \<open>Registered commands.\<close>

lemma registration_Inr:
  "registration c d x = Inr r \<Longrightarrow> reg_disposition r = d \<and> reg_command_id r = command_id_of c \<and> reg_order r = x"
  by (auto simp: registration_def registration_result_init_def err_simps)

lemma command_inserted:
  "insert_command h c fingerprint t = Inr t1 \<Longrightarrow> append_record kind i d m t1 = Inr (n, t') \<Longrightarrow>
     dget (t_commands t') (command_id_of c) \<noteq> None"
  by (auto simp: insert_command_Inr unrecorded_iff recorded_def)

lemma register_new_order_registered:
  assumes "register_new_order_tx h c x fingerprint command_fingerprint t = Inr (Inr r, t')"
    and "reg_disposition r = COMMAND_REGISTERED"
  shows "reg_command_id r = command_id_of c" "dget (t_commands t) (command_id_of c) = None"
    "dget (t_commands t') (command_id_of c) \<noteq> None" "dget (t_reservations t) (client_order x) = None"
    "store_new_order h c x fingerprint command_fingerprint t = Inr t'" "reg_order r = Some x"
proof -
  from assms have *: "dget (t_commands t) (command_id_of c) = None" "dget (t_reservations t) (client_order x) = None"
    and run: "store_new_order h c x fingerprint command_fingerprint t = Inr t'"
    and r: "registration c COMMAND_REGISTERED (Some x) = Inr r"
    by (auto simp: register_new_order_tx_def Let_def err_simps answer_Inr dest: registration_Inr
        split: option.splits if_splits)
  show "dget (t_commands t) (command_id_of c) = None" "dget (t_reservations t) (client_order x) = None"
    "store_new_order h c x fingerprint command_fingerprint t = Inr t'" by fact+
  show "reg_command_id r = command_id_of c" "reg_order r = Some x" using registration_Inr [OF r] by simp_all
  show "dget (t_commands t') (command_id_of c) \<noteq> None"
    using run unfolding store_new_order_def Let_def by (auto simp: err_simps dest: command_inserted)
qed

lemma register_command_runs:
  assumes "register_command_tx h c x expected fingerprint t = Inr (a, t')"
  obtains (refused) "t' = t" "\<And>r. a = Inr r \<Longrightarrow> reg_disposition r \<noteq> COMMAND_REGISTERED"
  | (stored) y where "dget (t_commands t) (command_id_of c) = None"
      "load_order_row h (client_order x) t = Inr (Some y)" "lo_version y = expected"
      "same_live_intent (lo_intent x) (lo_intent y)" "store_command h c x expected fingerprint t = Inr t'"
      "a = python (registration c COMMAND_REGISTERED (Some x))"
proof (cases "dget (t_commands t) (command_id_of c)")
  case (Some m)
  with assms show thesis
    by (intro refused) (auto simp: register_command_tx_def Let_def err_simps answer_Inr dest: registration_Inr
        split: if_splits)
next
  case none: None
  note run = assms [unfolded register_command_tx_def Let_def none option.case]
  then obtain y where y: "load_order_row h (client_order x) t = Inr y" by (auto simp: err_simps)
  show thesis
  proof (cases "\<exists>z. y = Some z \<and> lo_version z = expected")
    case False
    with run y show thesis
      by (intro refused) (auto simp: answer_Inr dest: registration_Inr split: option.splits)
  next
    case True
    then obtain z where z: "y = Some z" "lo_version z = expected" by blast
    with run y have "ebind (if same_live_intent (lo_intent x) (lo_intent z)
         then (case dget (t_reservations t) (client_order x) of None \<Rightarrow> Inr False
               | Some reserved \<Rightarrow> ebind (python (intent_fingerprint h (lo_intent z))) (\<lambda>calculated.
                   Inr (fst reserved = calculated)))
         else Inr False) (\<lambda>identity_kept. if \<not> identity_kept then answer (registration c COMMAND_CONFLICT None) t
         else ebind (store_command h c x expected fingerprint t) (\<lambda>t.
              Inr (python (registration c COMMAND_REGISTERED (Some x)), t))) = Inr (a, t')" by simp
    then obtain k where k: "k \<Longrightarrow> same_live_intent (lo_intent x) (lo_intent z)"
      and rest: "(if \<not> k then answer (registration c COMMAND_CONFLICT None) t
         else ebind (store_command h c x expected fingerprint t) (\<lambda>t.
              Inr (python (registration c COMMAND_REGISTERED (Some x)), t))) = Inr (a, t')"
      unfolding ebind_eq_Inr by (metis Inr_inject)
    show thesis
    proof (cases k)
      case True
      with rest show thesis using stored [OF none y [unfolded z(1)] z(2) k] by (auto simp: ebind_eq_Inr)
    next
      case False
      with rest show thesis by (intro refused) (auto simp: answer_Inr dest: registration_Inr)
    qed
  qed
qed

lemma register_command_registered:
  assumes "register_command_tx h c x expected fingerprint t = Inr (Inr r, t')"
    and "reg_disposition r = COMMAND_REGISTERED"
  shows "reg_command_id r = command_id_of c" "dget (t_commands t) (command_id_of c) = None"
    "dget (t_commands t') (command_id_of c) \<noteq> None"
proof -
  from assms(1) obtain *: "dget (t_commands t) (command_id_of c) = None"
    and run: "store_command h c x expected fingerprint t = Inr t'"
    and r: "registration c COMMAND_REGISTERED (Some x) = Inr r"
    by (cases rule: register_command_runs)
      (use assms(2) in \<open>auto simp: python_def split: sum.splits\<close>)
  show "dget (t_commands t) (command_id_of c) = None" by fact
  show "reg_command_id r = command_id_of c" using registration_Inr [OF r] by simp
  show "dget (t_commands t') (command_id_of c) \<noteq> None"
    using run unfolding store_command_def by (auto simp: err_simps dest: command_inserted)
qed

interpretation commands: hands_out_once "journal_do h f identity" registered_command
    "\<lambda>j i. dget (t_commands (jn_tables j)) i \<noteq> None" for h f identity
proof
  show "dget (t_commands (jn_tables (snd (journal_do h f identity op j)))) i \<noteq> None"
    if "dget (t_commands (jn_tables j)) i \<noteq> None" for j i op
    using that journal_do_grows [of j h f identity op] by (auto simp: grows_def kept_def)
  show "\<not> dget (t_commands (jn_tables j)) i \<noteq> None
      \<and> dget (t_commands (jn_tables (snd (journal_do h f identity op j)))) i \<noteq> None"
    if given: "registered_command op (fst (journal_do h f identity op j)) = Some i" for op j i
  proof -
    obtain r where a: "fst (journal_do h f identity op j) = RegistrationAnswer (Inr r)"
      and r: "reg_disposition r = COMMAND_REGISTERED" "i = reg_command_id r"
      using given by (auto elim!: registered_command.elims split: if_splits)
    show ?thesis
    proof (cases op)
      case (RegisterOrder c x fingerprint)
      with a obtain new cf where call: "register_new_order h c x fingerprint j
            = journal_operation (Inl CasMismatch) (register_new_order_tx h c x fingerprint cf) j"
          "fst (register_new_order h c x fingerprint j) = Inr r"
        by (auto simp: register_new_order_def apfst_def map_prod_def split_beta
            split: sum.splits live_command.splits)
      have "register_new_order_tx h c x fingerprint cf (jn_tables j)
          = Inr (Inr r, jn_tables (snd (journal_do h f identity op j)))"
        using operation_answer [of "Inl CasMismatch" "register_new_order_tx h c x fingerprint cf" j r] call
        by (simp add: RegisterOrder apfst_def map_prod_def split_beta)
      from register_new_order_registered(1-3) [OF this r(1)] show ?thesis by (simp add: r(2))
    next
      case (RegisterCommand c x expected)
      have "python (registration c COMMAND_VERSION_MISMATCH None) \<noteq> Inr r"
        using r(1) by (auto simp: err_simps dest: registration_Inr)
      moreover from RegisterCommand a obtain fp where call: "register_command h c x expected j
            = journal_operation (python (registration c COMMAND_VERSION_MISMATCH None))
                (register_command_tx h c x expected fp) j"
          "fst (register_command h c x expected j) = Inr r"
        by (auto simp: register_command_def apfst_def map_prod_def split_beta split: sum.splits)
      ultimately have "register_command_tx h c x expected fp (jn_tables j)
          = Inr (Inr r, jn_tables (snd (journal_do h f identity op j)))"
        using operation_answer [of "python (registration c COMMAND_VERSION_MISMATCH None)"
            "register_command_tx h c x expected fp" j r]
        by (simp add: RegisterCommand apfst_def map_prod_def split_beta)
      from register_command_registered [OF this r(1)] show ?thesis by (simp add: r(2))
    qed (use a in \<open>simp_all add: apfst_def map_prod_def split_beta\<close>)
  qed
qed

text \<open>Commits.\<close>

lemma commit_authorization_init_Inr: "commit_authorization_init a = Inr a' \<Longrightarrow> a' = a"
  by (auto simp: commit_authorization_init_def err_simps split: if_splits)

lemma validate_authorized_commit_Inr: "validate_authorized_commit h v = Inr w \<Longrightarrow> w = v"
  by (auto simp: validate_authorized_commit_def split: sum.splits if_splits)

lemma validated_authorization:
  assumes "validate_authorized_request h v = Inr c"
  shows "vc_authorization c = az_authorization v" "ca_commit_id (az_authorization v) = cr_commit_id (vc_request c)"
    "ca_account_id (az_authorization v) = cr_account_id (vc_request c)"
proof -
  from assms have *: "reread (commit_authorization_init (az_authorization v)) = Inr (vc_authorization c)"
    and binds: "authorization_binds (vc_authorization c) (vc_request c) (vc_request_digest c)"
    unfolding validate_authorized_request_def ebind_eq_Inr
    by (auto simp: validation_error_def err_simps integrity_def dest!: validate_authorized_commit_Inr
        split: sum.splits journal_exn.splits if_splits)
  from * show a: "vc_authorization c = az_authorization v"
    by (auto simp: reread_def dest: commit_authorization_init_Inr split: sum.splits)
  from binds a show "ca_commit_id (az_authorization v) = cr_commit_id (vc_request c)"
    "ca_account_id (az_authorization v) = cr_account_id (vc_request c)"
    by (simp_all add: authorization_binds_def)
qed

lemma commit_call_committed:
  assumes "fst (commit_authorized_reconciliation h f identity env v j) = Inr r" "cx_disposition r = COMMITTED"
  obtains c now n where "validate_authorized_request h v = Inr c" "journal_now env = Inr now"
    "verify_journal h f identity (jn_tables j) = Inr ()"
    "dget (t_commits (jn_tables j)) (cr_commit_id (vc_request c)) = None"
    "dget (t_authorizations (jn_tables j)) (ca_authorization_id (az_authorization v)) = None"
    "ca_authorized_at (az_authorization v) \<le> now" "now < ca_expires_at (az_authorization v)"
    "ca_journal_id (az_authorization v) = ji_journal_id identity"
    "check_commit h (vc_request c) now (jn_tables j) = Inr None"
    "store_commit h c now (jn_tables j)
       = Inr (n, jn_tables (snd (commit_authorized_reconciliation h f identity env v j)))"
proof -
  from assms obtain c where c: "validate_authorized_request h v = Inr c"
    by (auto simp: commit_authorized_reconciliation_def split: sum.splits)
  with assms(1) have "commit_tx h f identity env c (jn_tables j)
      = Inr (Inr r, jn_tables (snd (commit_authorized_reconciliation h f identity env v j)))"
    by (simp add: commit_authorized_reconciliation_def operation_answer)
  then show thesis
  proof (cases rule: commit_tx_runs)
    case (stored now n)
    then show thesis using that [OF c] by (simp add: validated_authorization(1) [OF c])
  qed (use assms(2) in auto)
qed

lemma authorization_stored_after:
  assumes "store_commit h c now t = Inr (n, t')" "request_fits (vc_request c)" "rows_fit (vc_request c) t"
  shows "dget (t_authorizations t') (ca_authorization_id (vc_authorization c)) \<noteq> None"
proof -
  obtain t2 t3 t4 t5 t6 u digest attributed where t3: "insert_authorization h u t2 = Inr t3"
    and u: "ca_authorization_id (aut_authorization u) = ca_authorization_id (vc_authorization c)"
    and t4: "efold (resolve_claim h (cr_commit_id (vc_request c)) now (account_claims (vc_request c) t))
       (cr_claim_resolutions (vc_request c)) t3 = Inr t4"
    and t5: "efold (settle_observation h (cr_commit_id (vc_request c)) now) (cr_observation_resolutions (vc_request c)) t4 = Inr t5"
    and t6: "efold (satisfy_requirement h (cr_commit_id (vc_request c)) now
        (account_requirements (vc_request c) attributed t)) (cr_requirement_resolutions (vc_request c)) t5 = Inr t6"
    and t': "t' = recorded ''reconciliation-commit'' (cr_commit_id (vc_request c)) digest now t6"
    by (rule store_commit_runs [OF assms(1)]) simp
  have "dget (t_authorizations t3) (ca_authorization_id (vc_authorization c)) \<noteq> None"
    using t3 u by (auto simp: insert_authorization_def Let_def err_simps insert_row_Inr unrecorded_iff recorded_def)
  moreover have "written h t3 t4" using efold_writes [OF t4, of h t3] resolve_claim_writes by blast
  then have "written h t3 t5" using efold_writes [OF t5, of h t3] settle_observation_writes by blast
  then have "written h t3 t6" using efold_writes [OF t6, of h t3] satisfy_requirement_writes by blast
  then have "kept (t_authorizations t3) (t_authorizations t6)" using written_grows unfolding grows_def by blast
  ultimately show ?thesis unfolding t' by (auto simp: kept_def recorded_def)
qed

interpretation authorizations: hands_out_once "journal_do h f identity" consumed_authorization
    "\<lambda>j i. dget (t_authorizations (jn_tables j)) i \<noteq> None" for h f identity
proof
  show "dget (t_authorizations (jn_tables (snd (journal_do h f identity op j)))) i \<noteq> None"
    if "dget (t_authorizations (jn_tables j)) i \<noteq> None" for j i op
    using that journal_do_grows [of j h f identity op] by (auto simp: grows_def kept_def)
  show "\<not> dget (t_authorizations (jn_tables j)) i \<noteq> None
      \<and> dget (t_authorizations (jn_tables (snd (journal_do h f identity op j)))) i \<noteq> None"
    if given: "consumed_authorization op (fst (journal_do h f identity op j)) = Some i" for op j i
  proof -
    from given obtain env v r where op: "op = CommitReconciliation env v"
      and r: "fst (commit_authorized_reconciliation h f identity env v j) = Inr r" "cx_disposition r = COMMITTED"
        "i = ca_authorization_id (az_authorization v)"
      by (cases op; cases "fst (journal_do h f identity op j)")
        (auto split: if_splits simp: apfst_def map_prod_def split_beta elim!: consumed_authorization.elims)
    from r(1,2) show ?thesis
    proof (rule commit_call_committed)
      fix c now n
      let ?t' = "jn_tables (snd (commit_authorized_reconciliation h f identity env v j))"
      assume c: "validate_authorized_request h v = Inr c"
        and free: "dget (t_authorizations (jn_tables j)) (ca_authorization_id (az_authorization v)) = None"
        and ok: "check_commit h (vc_request c) now (jn_tables j) = Inr None"
        and st: "store_commit h c now (jn_tables j) = Inr (n, ?t')"
      from authorization_stored_after [OF st validated_request_fits [OF c] check_versions_fit(1) [OF check_commit_parts(3) [OF ok]]]
      show ?thesis using free by (simp add: op r(3) validated_authorization(1) [OF c])
    qed
  qed
qed

end
