(* ===== verification/Journal_Recovery.thy ===== *)
theory Journal_Recovery
  imports Journal_Outcomes
begin

text \<open>
  What the journal reports as outstanding, over its tables: a claim without receipt and resolution
  blocks its account, an observation or a requirement that is attributed to no single account blocks
  every account, and after a committed reconciliation nothing blocks the account it was for.
\<close>

section \<open>Blockers\<close>

lemma map_filter_member: "y \<in> set (List.map_filter g xs) \<longleftrightarrow> (\<exists>x\<in>set xs. g x = Some y)"
  by (induction xs) (auto simp: List.map_filter_simps split: option.splits)

lemma outstanding_claim:
  assumes "links_ok t" "keys_ok t"
    and "dget (t_claims t) i = Some c" "dget (t_receipts t) i = None" "dget (t_claim_resolutions t) i = None"
  obtains m x where "dget (t_commands t) i = Some m" "dget (t_orders t) (cmd_order_id m) = Some x"
    "\<lparr>out_command_id = i, out_claim = c, out_command = m, out_order = x\<rparr> \<in> set (outstanding_rows t)"
proof -
  from assms obtain m where m: "dget (t_commands t) i = Some m" unfolding links_ok_def by blast
  with assms(1) obtain x where x: "dget (t_orders t) (cmd_order_id m) = Some x" unfolding links_ok_def by blast
  from assms(2,3) have "(i, c) \<in> set (t_claims t)" by (simp add: keys_ok_def mem_dict)
  then have "\<lparr>out_command_id = i, out_claim = c, out_command = m, out_order = x\<rparr> \<in> set (outstanding_rows t)"
    unfolding outstanding_rows_def map_filter_member by (rule bexI [rotated]) (use assms(4,5) m x in simp)
  with m x show thesis by (rule that)
qed

lemma blocker_member:
  assumes "recovery_blockers h account t = Inr bs"
  obtains found where "blocker_attributions h t = Inr found"
    "set bs = {recovery_blocker h kind i |kind i accounts. (kind, i, accounts) \<in> set found \<and> blocks_account account accounts}"
proof -
  from assms obtain found where found: "blocker_attributions h t = Inr found"
    and bs: "bs = sort (remdups (map (\<lambda>(kind, i, accounts). recovery_blocker h kind i)
       (filter (\<lambda>(kind, i, accounts). blocks_account account accounts) found)))"
    by (auto simp: recovery_blockers_def err_simps)
  have "set bs = (\<lambda>(kind, i, accounts). recovery_blocker h kind i) `
     {x \<in> set found. case x of (kind, i, accounts) \<Rightarrow> blocks_account account accounts}"
    unfolding bs by simp
  also have "\<dots> = {recovery_blocker h kind i |kind i accounts. (kind, i, accounts) \<in> set found \<and> blocks_account account accounts}"
    by (auto simp: image_iff) blast
  finally show thesis using found that by blast
qed

lemma attributions_Inr:
  "blocker_attributions h t = Inr found \<longleftrightarrow> (\<exists>attributed. observation_accounts h t = Inr attributed
     \<and> \<not> list_ex (\<lambda>q. case dq_client_order_id q of None \<Rightarrow> False | Some i \<Rightarrow> dget (t_orders t) i = None) (open_requirements t)
     \<and> found = map (\<lambda>o1. (''claim'', out_command_id o1, [row_account_id (out_order o1)])) (outstanding_rows t)
        @ map (\<lambda>(i, s). (''observation-'' @ resolution_status_text s, i, accounts_of attributed i)) (unsettled_observations t)
        @ map (\<lambda>q. (''requirement'', show_int (dq_requirement_id q), requirement_accounts attributed t q))
            (open_requirements t))"
  unfolding blocker_attributions_def by (auto simp: ebind_eq_Inr integrity_def split: if_splits)

lemma claim_blocks:
  assumes "links_ok t" "keys_ok t"
    and "dget (t_claims t) i = Some c" "dget (t_receipts t) i = None" "dget (t_claim_resolutions t) i = None"
    and "dget (t_commands t) i = Some m" "dget (t_orders t) (cmd_order_id m) = Some x"
    and "recovery_blockers h (row_account_id x) t = Inr bs"
  shows "recovery_blocker h ''claim'' i \<in> set bs"
proof -
  obtain m' x' where "dget (t_commands t) i = Some m'" "dget (t_orders t) (cmd_order_id m') = Some x'"
    "\<lparr>out_command_id = i, out_claim = c, out_command = m', out_order = x'\<rparr> \<in> set (outstanding_rows t)"
    using outstanding_claim [OF assms(1-5)] .
  with assms(6,7) have o1: "\<lparr>out_command_id = i, out_claim = c, out_command = m, out_order = x\<rparr> \<in> set (outstanding_rows t)"
    by simp
  obtain found where found: "blocker_attributions h t = Inr found" and bs: "set bs = {recovery_blocker h kind j |kind j accounts.
      (kind, j, accounts) \<in> set found \<and> blocks_account (row_account_id x) accounts}"
    by (rule blocker_member [OF assms(8)])
  have "(''claim'', i, [row_account_id x]) \<in> set found"
    using found imageI [OF o1, of "\<lambda>o1. (''claim'', out_command_id o1, [row_account_id (out_order o1)])"]
    unfolding attributions_Inr by auto
  moreover have "blocks_account (row_account_id x) [row_account_id x]" by (simp add: blocks_account_def)
  ultimately show ?thesis unfolding bs by blast
qed

lemma observation_blocks:
  assumes "recovery_blockers h account t = Inr bs" "observation_accounts h t = Inr attributed"
    and "(i, s) \<in> set (unsettled_observations t)" "length (accounts_of attributed i) \<noteq> 1 \<or> account \<in> set (accounts_of attributed i)"
  shows "recovery_blocker h (''observation-'' @ resolution_status_text s) i \<in> set bs"
proof -
  obtain found where found: "blocker_attributions h t = Inr found" and bs: "set bs = {recovery_blocker h kind j |kind j accounts.
      (kind, j, accounts) \<in> set found \<and> blocks_account account accounts}"
    by (rule blocker_member [OF assms(1)])
  have "(''observation-'' @ resolution_status_text s, i, accounts_of attributed i) \<in> set found"
    using found assms(2) imageI [OF assms(3), of "\<lambda>(i, s). (''observation-'' @ resolution_status_text s, i, accounts_of attributed i)"]
    unfolding attributions_Inr by auto
  with assms(4) show ?thesis unfolding bs blocks_account_def by blast
qed

section \<open>The account snapshot\<close>

lemma local_snapshot_init_fields: "local_snapshot_init s = Inr s' \<Longrightarrow> s' = s"
  by (auto simp: local_snapshot_init_def Let_def err_simps)

lemma snapshot_blockers:
  assumes "journal_account_snapshot h f identity env account j = (Inr s, j')"
  shows "recovery_blockers h account (jn_tables j) = Inr (ls_recovery_blockers s)" "ls_account_id s = account"
    "verify_journal h f identity (jn_tables j) = Inr ()" "ls_journal_sequence s = journal_length (jn_tables j)"
proof -
  from assms obtain as_of where "hydrate_account_snapshot h f identity account as_of (jn_tables j) = Inr s"
    by (auto simp: journal_account_snapshot_def journal_read_def journal_operation_def err_simps
        split: if_splits sum.splits journal_exn.splits prod.splits)
  then obtain orders fills held blockers attributions u where "verify_journal h f identity (jn_tables j) = Inr u"
    and "recovery_blockers h account (jn_tables j) = Inr blockers"
    and "local_snapshot_init
       \<lparr>ls_account_id = account, ls_orders = orders, ls_fills = sort_key fill_sort_key fills,
        ls_position_attributions = attributions, ls_as_of = as_of, ls_recovery_blockers = blockers,
        ls_journal_sequence = journal_length (jn_tables j)\<rparr> = Inr s"
    unfolding hydrate_account_snapshot_def ebind_eq_Inr python_eq_Inr by blast
  then show "recovery_blockers h account (jn_tables j) = Inr (ls_recovery_blockers s)" "ls_account_id s = account"
    "verify_journal h f identity (jn_tables j) = Inr ()" "ls_journal_sequence s = journal_length (jn_tables j)"
    using local_snapshot_init_fields by fastforce+
qed

section \<open>What a commit leaves\<close>

text \<open>The tables a commit does not touch, and the accounts of the orders, which it keeps.\<close>

definition same_evidence :: "journal_tables \<Rightarrow> journal_tables \<Rightarrow> bool" where
  "same_evidence t t' \<longleftrightarrow> t_claims t' = t_claims t \<and> t_receipts t' = t_receipts t \<and> t_commands t' = t_commands t
     \<and> t_raw t' = t_raw t \<and> t_events t' = t_events t \<and> t_ambiguity t' = t_ambiguity t
     \<and> t_requirements t' = t_requirements t
     \<and> (\<forall>i. map_option row_account_id (dget (t_orders t') i) = map_option row_account_id (dget (t_orders t) i))"

lemma same_evidence_refl [simp]: "same_evidence t t"
  by (simp add: same_evidence_def)

lemma same_evidence_trans: "same_evidence a b \<Longrightarrow> same_evidence b c \<Longrightarrow> same_evidence a c"
  by (simp add: same_evidence_def)

lemma efold_evidence:
  assumes "efold f xs t = Inr t'" "\<And>x u u'. f x u = Inr u' \<Longrightarrow> same_evidence u u'"
  shows "same_evidence t t'"
  using assms(1) by (rule efold_invariant [where I = "same_evidence t"]) (auto elim: same_evidence_trans assms(2))

lemma projections_evidence:
  assumes "write_projections h r t = Inr t'" "request_fits r" "rows_fit r t"
  shows "same_evidence t t'"
proof -
  have "same_evidence t t' \<and> rows_fit r t'"
    using assms(1) unfolding write_projections_def
  proof (rule efold_invariant)
    fix x u u'
    assume x: "x \<in> set (cr_order_projections r)" and u: "same_evidence t u \<and> rows_fit r u"
      and step: "(case dget (expected_versions r) (order_id x) of
         None \<Rightarrow> Inl (JournalPython KeyError)
       | Some v \<Rightarrow> ebind (write_order h x (Some v) u) (\<lambda>(written, t).
           if written then Inr t else integrity ''live journal reconciliation projection write failed'')) = Inr u'"
    from x assms(2) have v: "dget (expected_versions r) (order_id x) = Some (lo_version x - 1)"
      and account: "li_account_id (lo_intent x) = cr_account_id r" by (simp_all add: request_fits_def)
    with step have w: "write_order h x (Some (lo_version x - 1)) u = Inr (True, u')"
      by (auto simp: err_simps integrity_def split: if_splits)
    then obtain digest old where u': "u' = order_written x digest u" and old: "dget (t_orders u) (client_order x) = Some old"
      by (rule write_order_next) simp_all
    from u v old have "row_account_id old = cr_account_id r" by (auto simp: rows_fit_def order_id_def)
    with old account have "same_evidence u u'"
      by (simp add: u' same_evidence_def order_written_def order_columns_def)
    moreover have "rows_fit r u'"
      using u account by (auto simp: u' rows_fit_def order_written_def order_columns_def split: if_splits)
    ultimately show "same_evidence t u' \<and> rows_fit r u'" using u same_evidence_trans by blast
  qed (use assms in simp)
  then show ?thesis ..
qed

lemma resolve_claim_evidence: "resolve_claim h i moment claims d t = Inr t' \<Longrightarrow> same_evidence t t'"
  by (auto simp: resolve_claim_def Let_def err_simps unrecorded_iff recorded_def same_evidence_def split: option.splits)

lemma settle_observation_evidence: "settle_observation h i moment d t = Inr t' \<Longrightarrow> same_evidence t t'"
  by (auto simp: settle_observation_def Let_def err_simps unrecorded_iff recorded_def same_evidence_def)

lemma satisfy_requirement_evidence: "satisfy_requirement h i moment rows d t = Inr t' \<Longrightarrow> same_evidence t t'"
  by (auto simp: satisfy_requirement_def Let_def err_simps unrecorded_iff recorded_def same_evidence_def split: option.splits)

text \<open>A loop over directives leaves a row for each of them.\<close>

lemma efold_leaves:
  assumes "efold f xs t = Inr t'" "\<And>x u u'. f x u = Inr u' \<Longrightarrow> P (k x) u'" "\<And>x y u u'. f x u = Inr u' \<Longrightarrow> P y u \<Longrightarrow> P y u'"
  shows "\<forall>x\<in>set xs. P (k x) t'"
  using assms(1)
proof (induction xs arbitrary: t)
  case (Cons x xs)
  then obtain u where u: "f x t = Inr u" "efold f xs u = Inr t'" by (auto simp: err_simps)
  have "P y t'" if "P y u" for y
    using u(2) that by (rule efold_invariant [where I = "P y"]) (use assms(3) in blast)
  with Cons.IH [OF u(2)] assms(2) [OF u(1)] show ?case by simp
qed simp

lemma same_evidence_reads:
  assumes "same_evidence t t'"
  shows "observation_accounts h t' = observation_accounts h t"
    "requirement_accounts attributed t' q = requirement_accounts attributed t q"
proof -
  have rows: "map_option row_account_id (dget (t_orders t') i) = map_option row_account_id (dget (t_orders t) i)" for i
    using assms by (simp add: same_evidence_def)
  then show "requirement_accounts attributed t' q = requirement_accounts attributed t q"
    by (simp add: requirement_accounts_def)
  have pair: "map_option (\<lambda>x. (k, row_account_id x)) v = map_option (Pair k) (map_option row_account_id v)"
    for k :: string and v :: "order_row option"
    by (cases v) simp_all
  have "candidate_accounts t' = candidate_accounts t"
    using assms by (simp add: candidate_accounts_def same_evidence_def pair)
  then show "observation_accounts h t' = observation_accounts h t"
    using assms by (simp add: observation_accounts_def event_accounts_def same_evidence_def)
qed

lemma outstanding_before:
  assumes "same_evidence t t'" "kept (t_claim_resolutions t) (t_claim_resolutions t')" "o1 \<in> set (outstanding_rows t')"
  obtains o2 where "o2 \<in> set (outstanding_rows t)" "out_command_id o2 = out_command_id o1"
    "row_account_id (out_order o2) = row_account_id (out_order o1)"
    "dget (t_claim_resolutions t') (out_command_id o1) = None"
proof -
  from assms(3) obtain r where r: "r \<in> set (t_claims t')"
    and "(case r of (i, c) \<Rightarrow>
       if dget (t_receipts t') i \<noteq> None \<or> dget (t_claim_resolutions t') i \<noteq> None then None
       else case dget (t_commands t') i of None \<Rightarrow> None
         | Some m \<Rightarrow> map_option (\<lambda>x. \<lparr>out_command_id = i, out_claim = c, out_command = m, out_order = x\<rparr>)
                        (dget (t_orders t') (cmd_order_id m))) = Some o1"
    unfolding outstanding_rows_def map_filter_member by (elim bexE) (rule that)
  moreover obtain i c where "r = (i, c)" by (cases r)
  ultimately have c: "(i, c) \<in> set (t_claims t')" and row: "(if dget (t_receipts t') i \<noteq> None \<or> dget (t_claim_resolutions t') i \<noteq> None then None
       else case dget (t_commands t') i of None \<Rightarrow> None
         | Some m \<Rightarrow> map_option (\<lambda>x. \<lparr>out_command_id = i, out_claim = c, out_command = m, out_order = x\<rparr>)
                        (dget (t_orders t') (cmd_order_id m))) = Some o1"
    by simp_all
  from row obtain m x where free: "dget (t_receipts t') i = None" "dget (t_claim_resolutions t') i = None"
    and m: "dget (t_commands t') i = Some m" and x: "dget (t_orders t') (cmd_order_id m) = Some x"
    and o1: "o1 = \<lparr>out_command_id = i, out_claim = c, out_command = m, out_order = x\<rparr>"
    by (auto split: if_splits option.splits)
  have "map_option row_account_id (dget (t_orders t) (cmd_order_id m)) = Some (row_account_id x)"
    using assms(1) x unfolding same_evidence_def by (metis option.simps(9))
  then obtain y where y: "dget (t_orders t) (cmd_order_id m) = Some y" "row_account_id y = row_account_id x"
    by (auto simp: map_option_eq_Some)
  have "dget (t_claim_resolutions t) i = None" using assms(2) free(2) unfolding kept_def by (cases "dget (t_claim_resolutions t) i") auto
  with assms(1) c free m y have "\<lparr>out_command_id = i, out_claim = c, out_command = m, out_order = y\<rparr> \<in> set (outstanding_rows t)"
    unfolding outstanding_rows_def map_filter_member by (intro bexI [of _ "(i, c)"]) (auto simp: same_evidence_def)
  then show thesis by (rule that) (use o1 y free in simp_all)
qed

lemma store_commit_settles:
  assumes "store_commit h c now t = Inr (n, t')" "request_fits (vc_request c)" "rows_fit (vc_request c) t"
  shows "same_evidence t t'" "written h t t'"
    "\<forall>d\<in>set (cr_claim_resolutions (vc_request c)). dget (t_claim_resolutions t') (cl_client_command_id d) \<noteq> None"
    "\<forall>d\<in>set (cr_observation_resolutions (vc_request c)). dget (t_observation_resolutions t') (od_observation_id d) \<noteq> None"
    "\<forall>d\<in>set (cr_requirement_resolutions (vc_request c)). dget (t_requirement_resolutions t') (rd_requirement_id d) \<noteq> None"
proof -
  show w: "written h t t'" using store_commit_writes [OF assms] by simp
  obtain attributed t1 t2 t3 t4 t5 t6 row u digest where t1: "write_projections h (vc_request c) t = Inr t1"
    and t2: "insert_commit (cr_commit_id (vc_request c)) row t1 = Inr t2" and t3: "insert_authorization h u t2 = Inr t3"
    and t4: "efold (resolve_claim h (cr_commit_id (vc_request c)) now (account_claims (vc_request c) t))
       (cr_claim_resolutions (vc_request c)) t3 = Inr t4"
    and t5: "efold (settle_observation h (cr_commit_id (vc_request c)) now) (cr_observation_resolutions (vc_request c)) t4 = Inr t5"
    and t6: "efold (satisfy_requirement h (cr_commit_id (vc_request c)) now
        (account_requirements (vc_request c) attributed t)) (cr_requirement_resolutions (vc_request c)) t5 = Inr t6"
    and t': "t' = recorded ''reconciliation-commit'' (cr_commit_id (vc_request c)) digest now t6"
    by (rule store_commit_runs [OF assms(1)])
  have "same_evidence t t1" by (rule projections_evidence [OF t1 assms(2,3)])
  moreover have "same_evidence t1 t3"
    using t2 t3 by (auto simp: insert_commit_def insert_authorization_def Let_def err_simps unrecorded_iff recorded_def same_evidence_def)
  moreover have "same_evidence t3 t4" by (rule efold_evidence [OF t4]) (rule resolve_claim_evidence)
  moreover have "same_evidence t4 t5" by (rule efold_evidence [OF t5]) (rule settle_observation_evidence)
  moreover have "same_evidence t5 t6" by (rule efold_evidence [OF t6]) (rule satisfy_requirement_evidence)
  moreover have "same_evidence t6 t'" by (simp add: t' same_evidence_def recorded_def)
  ultimately show "same_evidence t t'" by (meson same_evidence_trans)
  have w45: "written h t4 t5" using efold_writes [OF t5, of h t4] settle_observation_writes by blast
  moreover have w56: "written h t5 t6" using efold_writes [OF t6, of h t5] satisfy_requirement_writes by blast
  ultimately have g: "grows t4 t6" "grows t5 t6" by (auto intro: written_grows rtranclp_trans)
  have stays: "table_write h v v' \<Longrightarrow> dget (t_claim_resolutions v) i \<noteq> None \<Longrightarrow> dget (t_claim_resolutions v') i \<noteq> None"
    "table_write h v v' \<Longrightarrow> dget (t_observation_resolutions v) i \<noteq> None \<Longrightarrow> dget (t_observation_resolutions v') i \<noteq> None"
    "table_write h v v' \<Longrightarrow> dget (t_requirement_resolutions v) k \<noteq> None \<Longrightarrow> dget (t_requirement_resolutions v') k \<noteq> None"
    for v v' i k
    by (auto dest!: table_write_grows simp: grows_def kept_def)
  have leaves: "resolve_claim h i now claims d v = Inr v' \<Longrightarrow> dget (t_claim_resolutions v') (cl_client_command_id d) \<noteq> None"
    "settle_observation h i now d' v = Inr v' \<Longrightarrow> dget (t_observation_resolutions v') (od_observation_id d') \<noteq> None"
    "satisfy_requirement h i now rows d'' v = Inr v' \<Longrightarrow> dget (t_requirement_resolutions v') (rd_requirement_id d'') \<noteq> None"
    for i claims rows d d' d'' v v'
    by (auto simp: resolve_claim_def settle_observation_def satisfy_requirement_def Let_def err_simps insert_row_Inr
        unrecorded_iff recorded_def split: option.splits)
  have "\<forall>d\<in>set (cr_claim_resolutions (vc_request c)). dget (t_claim_resolutions t4) (cl_client_command_id d) \<noteq> None"
    by (rule efold_leaves [OF t4, where k = cl_client_command_id and P = "\<lambda>i t. dget (t_claim_resolutions t) i \<noteq> None"])
      (blast dest: leaves stays(1) resolve_claim_writes)+
  with g(1) show "\<forall>d\<in>set (cr_claim_resolutions (vc_request c)). dget (t_claim_resolutions t') (cl_client_command_id d) \<noteq> None"
    by (force simp: t' recorded_def grows_def kept_def)
  have "\<forall>d\<in>set (cr_observation_resolutions (vc_request c)). dget (t_observation_resolutions t5) (od_observation_id d) \<noteq> None"
    by (rule efold_leaves [OF t5, where k = od_observation_id and P = "\<lambda>i t. dget (t_observation_resolutions t) i \<noteq> None"])
      (blast dest: leaves stays(2) settle_observation_writes)+
  with g(2) show "\<forall>d\<in>set (cr_observation_resolutions (vc_request c)). dget (t_observation_resolutions t') (od_observation_id d) \<noteq> None"
    by (force simp: t' recorded_def grows_def kept_def)
  have "\<forall>d\<in>set (cr_requirement_resolutions (vc_request c)). dget (t_requirement_resolutions t6) (rd_requirement_id d) \<noteq> None"
    by (rule efold_leaves [OF t6, where k = rd_requirement_id and P = "\<lambda>i t. dget (t_requirement_resolutions t) i \<noteq> None"])
      (blast dest: leaves stays(3) satisfy_requirement_writes)+
  then show "\<forall>d\<in>set (cr_requirement_resolutions (vc_request c)). dget (t_requirement_resolutions t') (rd_requirement_id d) \<noteq> None"
    by (simp add: t' recorded_def)
qed

text \<open>What the checks of a commit said about the account before.\<close>

lemma one_account: "length xs = 1 \<Longrightarrow> account \<in> set xs \<Longrightarrow> xs = [account]"
  by (cases xs) auto

lemma checked_claim:
  assumes "check_claims h r t = Inr None" "o1 \<in> set (outstanding_rows t)" "row_account_id (out_order o1) = cr_account_id r"
  shows "\<exists>d\<in>set (cr_claim_resolutions r). cl_client_command_id d = out_command_id o1"
proof -
  from assms(1) have "set (map out_command_id (account_claims r t)) = set (map cl_client_command_id (cr_claim_resolutions r))"
    unfolding check_claims_def Let_def then_check_None reject_if_None by blast
  moreover have "out_command_id o1 \<in> set (map out_command_id (account_claims r t))"
    using assms(2,3) by (simp add: account_claims_def)
  ultimately have "out_command_id o1 \<in> set (map cl_client_command_id (cr_claim_resolutions r))" by simp
  then show ?thesis by auto
qed

lemma checked_observation:
  assumes "check_observations r attributed t = Inr None" "(i, s) \<in> set (unsettled_observations t)"
  shows "length (accounts_of attributed i) = 1"
    "cr_account_id r \<in> set (accounts_of attributed i) \<Longrightarrow> \<exists>d\<in>set (cr_observation_resolutions r). od_observation_id d = i"
proof -
  from assms(1) have all: "\<not> list_ex (\<lambda>(i, s). length (accounts_of attributed i) \<noteq> 1) (unsettled_observations t)"
    and ids: "set (map fst (account_observations r attributed t)) = set (map od_observation_id (cr_observation_resolutions r))"
    unfolding check_observations_def Let_def then_check_None reject_if_None by blast+
  from all assms(2) show one: "length (accounts_of attributed i) = 1" by (auto simp: list_ex_iff)
  assume "cr_account_id r \<in> set (accounts_of attributed i)"
  with one have "accounts_of attributed i = [cr_account_id r]" by (rule one_account)
  with assms(2) have "i \<in> set (map fst (account_observations r attributed t))"
    by (force simp: account_observations_def)
  with ids show "\<exists>d\<in>set (cr_observation_resolutions r). od_observation_id d = i" by auto
qed

lemma checked_requirement:
  assumes "check_requirements r attributed t = Inr None" "q \<in> set (open_requirements t)"
  shows "length (requirement_accounts attributed t q) = 1"
    "cr_account_id r \<in> set (requirement_accounts attributed t q) \<Longrightarrow>
       \<exists>d\<in>set (cr_requirement_resolutions r). rd_requirement_id d = dq_requirement_id q"
proof -
  from assms(1) have all: "\<not> list_ex (\<lambda>q. length (requirement_accounts attributed t q) \<noteq> 1) (open_requirements t)"
    and ids: "set (map dq_requirement_id (account_requirements r attributed t)) = set (map rd_requirement_id (cr_requirement_resolutions r))"
    unfolding check_requirements_def then_check_None reject_if_None by blast+
  from all assms(2) show one: "length (requirement_accounts attributed t q) = 1" by (auto simp: list_ex_iff)
  assume "cr_account_id r \<in> set (requirement_accounts attributed t q)"
  with one have "requirement_accounts attributed t q = [cr_account_id r]" by (rule one_account)
  with assms(2) have "dq_requirement_id q \<in> set (map dq_requirement_id (account_requirements r attributed t))"
    by (simp add: account_requirements_def)
  with ids show "\<exists>d\<in>set (cr_requirement_resolutions r). rd_requirement_id d = dq_requirement_id q" by auto
qed

lemma check_current_blockers:
  assumes "check_current h r t = Inr None"
  shows "recovery_blockers h (cr_account_id r) t = Inr (ls_recovery_blockers (at_local (cr_assessment r)))"
    "journal_length t = cr_expected_journal_sequence r"
  using assms unfolding check_current_def Let_def ebind_eq_Inr then_check_None reject_if_None by auto

lemma kept_None: "kept d d' \<Longrightarrow> dget d' k = None \<Longrightarrow> dget d k = None"
  unfolding kept_def by (cases "dget d k") auto

lemma attributions_committed:
  assumes checks: "check_commit h (vc_request c) now t = Inr None" and st: "store_commit h c now t = Inr (n, t')"
    and fits: "request_fits (vc_request c)"
  obtains found where "blocker_attributions h t' = Inr found"
    "\<forall>(kind, i, accounts)\<in>set found. \<not> blocks_account (cr_account_id (vc_request c)) accounts"
proof -
  let ?r = "vc_request c"
  note parts = check_commit_parts [OF checks]
  obtain attributed where attributed: "observation_accounts h t = Inr attributed"
    and obs: "check_observations ?r attributed t = Inr None" and req: "check_requirements ?r attributed t = Inr None"
    using parts(7) by blast
  note settled = store_commit_settles [OF st fits check_versions_fit(1) [OF parts(3)]]
  note same = same_evidence_reads [OF settled(1)]
  have grows: "kept (t_claim_resolutions t) (t_claim_resolutions t')" "kept (t_observation_resolutions t) (t_observation_resolutions t')"
    "kept (t_requirement_resolutions t) (t_requirement_resolutions t')" "keys_kept (t_orders t) (t_orders t')"
    using written_grows [OF settled(2)] by (simp_all add: grows_def)
  have raw: "t_raw t' = t_raw t" "t_requirements t' = t_requirements t" using settled(1) by (simp_all add: same_evidence_def)
  have unsettled: "(i, s) \<in> set (unsettled_observations t) \<and> dget (t_observation_resolutions t') i = None"
    if "(i, s) \<in> set (unsettled_observations t')" for i s
    using that kept_None [OF grows(2)] by (auto simp: unsettled_observations_def raw)
  have opened: "q \<in> set (open_requirements t) \<and> dget (t_requirement_resolutions t') (dq_requirement_id q) = None"
    if "q \<in> set (open_requirements t')" for q
    using that kept_None [OF grows(3)] by (auto simp: open_requirements_def raw)
  obtain found0 where "blocker_attributions h t = Inr found0"
    using check_current_blockers(1) [OF parts(2)] by (auto simp: recovery_blockers_def err_simps)
  then have orders: "\<not> list_ex (\<lambda>q. case dq_client_order_id q of None \<Rightarrow> False | Some i \<Rightarrow> dget (t_orders t) i = None) (open_requirements t)"
    unfolding attributions_Inr by blast
  have "\<not> list_ex (\<lambda>q. case dq_client_order_id q of None \<Rightarrow> False | Some i \<Rightarrow> dget (t_orders t') i = None) (open_requirements t')"
    using orders opened grows(4) by (fastforce simp: list_ex_iff keys_kept_def split: option.splits)
  then obtain found where found: "blocker_attributions h t' = Inr found"
    and list: "found = map (\<lambda>o1. (''claim'', out_command_id o1, [row_account_id (out_order o1)])) (outstanding_rows t')
        @ map (\<lambda>(i, s). (''observation-'' @ resolution_status_text s, i, accounts_of attributed i)) (unsettled_observations t')
        @ map (\<lambda>q. (''requirement'', show_int (dq_requirement_id q), requirement_accounts attributed t' q)) (open_requirements t')"
    using attributed same(1) by (auto simp: attributions_Inr)
  have "cr_account_id ?r \<noteq> row_account_id (out_order o1)" if mem: "o1 \<in> set (outstanding_rows t')" for o1
  proof
    assume account: "cr_account_id ?r = row_account_id (out_order o1)"
    obtain o2 where o2: "o2 \<in> set (outstanding_rows t)" "out_command_id o2 = out_command_id o1"
      "row_account_id (out_order o2) = row_account_id (out_order o1)" "dget (t_claim_resolutions t') (out_command_id o1) = None"
      using outstanding_before [OF settled(1) grows(1) mem] .
    with checked_claim [OF parts(4) o2(1)] account settled(3) show False by force
  qed
  moreover have "length (accounts_of attributed i) = 1 \<and> cr_account_id ?r \<notin> set (accounts_of attributed i)"
    if "(i, s) \<in> set (unsettled_observations t')" for i s
    using checked_observation [OF obs, of i s] unsettled [OF that] settled(4) by fastforce
  moreover have "length (requirement_accounts attributed t' q) = 1 \<and> cr_account_id ?r \<notin> set (requirement_accounts attributed t' q)"
    if "q \<in> set (open_requirements t')" for q
    unfolding same(2) using checked_requirement [OF req, of q] opened [OF that] settled(5) by fastforce
  ultimately have "\<forall>(kind, i, accounts)\<in>set found. \<not> blocks_account (cr_account_id ?r) accounts"
    unfolding list by (auto simp: blocks_account_def)
  with found show thesis by (rule that)
qed

lemma commit_clears_blockers:
  assumes "check_commit h (vc_request c) now t = Inr None" "store_commit h c now t = Inr (n, t')"
    and "request_fits (vc_request c)"
  shows "recovery_blockers h (cr_account_id (vc_request c)) t' = Inr []"
proof -
  obtain found where found: "blocker_attributions h t' = Inr found"
    "\<forall>(kind, i, accounts)\<in>set found. \<not> blocks_account (cr_account_id (vc_request c)) accounts"
    using attributions_committed [OF assms] .
  then have "filter (\<lambda>(kind, i, accounts). blocks_account (cr_account_id (vc_request c)) accounts) found = []"
    by (auto simp: filter_empty_conv)
  with found(1) show ?thesis by (simp add: recovery_blockers_def)
qed

end
