(* ===== verification/Journal_Theorems.thy ===== *)
theory Journal_Theorems
  imports Journal_Recovery Projection_Theorems
begin

text \<open>The properties of the durable journal of live orders, over all sequences of calls.\<close>

section \<open>An example\<close>

text \<open>
  A journal with one order whose outcome a broker event made unknown, at version 5, and whose command
  was claimed at version 4; and the request that the assessment and the plan of this state ask for.
\<close>

definition moved_hashes :: hashes where
  "moved_hashes = \<lparr>sha256_hex = (\<lambda>s. replicate 64 (CHR ''0'')), uuid5 = (\<lambda>ns name. UUID name)\<rparr>"

definition moved_command :: live_command where
  "moved_command = NewOrderCommand \<lparr>nw_client_command_id = ''n1'', nw_intent = lo_intent recon_order, nw_requested_at = 2\<rparr>"

text \<open>The order after a broker event told that the outcome is unknown: version 5, claimed at version 4.\<close>

definition moved_fingerprint :: string where
  "moved_fingerprint = ''sha256:'' @ replicate 64 (CHR ''0'')"

definition moved_order :: live_order where
  "moved_order = unknown_order\<lparr>lo_pending_command := Some
     \<lparr>pb_command = moved_command, pb_payload_fingerprint = moved_fingerprint\<rparr>\<rparr>"

definition moved_claim :: claim_row where
  "moved_claim = \<lparr>clm_token = ''t1'', clm_claimant = ''w1'', clm_expected_order_version = 4, clm_version = 4, clm_claimed_at = 3\<rparr>"

definition moved_tables :: journal_tables where
  "moved_tables = empty_tables
     \<lparr>t_reservations := [(''c1'', moved_fingerprint, 2)],
      t_orders := [(''c1'', order_columns moved_order moved_fingerprint)],
      t_history := [\<lparr>hist_order_id = ''c1'', hist_version = 5, hist_order = stored_order moved_order,
         hist_digest = moved_fingerprint, hist_at = lo_updated_at moved_order\<rparr>],
      t_commands := [(''n1'', \<lparr>cmd_order_id = ''c1'', cmd_kind = ''new'', cmd_fingerprint = moved_fingerprint,
         cmd_command = moved_command, cmd_digest = moved_fingerprint, cmd_registered_at = 2\<rparr>)],
      t_claims := [(''n1'', moved_claim)]\<rparr>"











section \<open>What is given once\<close>

text \<open>C5: Whatever is called in whatever order, with any crash and resumption in between, no command is
  claimed for dispatch twice and no claim token is given twice; and a command that was claimed was
  not claimed before and has its claim in the journal afterwards. This is what keeps an order from
  being sent to the broker twice.\<close>

theorem claim_is_exclusive:
  "distinct (List.map_filter (\<lambda>(op, a). acquired_command op a) (fst (journal_run h f identity ops j)))
   \<and> distinct (List.map_filter (\<lambda>(op, a). acquired_token op a) (fst (journal_run h f identity ops j)))
   \<and> list_all (\<lambda>i. dget (t_claims (jn_tables j)) i = None
          \<and> dget (t_claims (jn_tables (snd (journal_run h f identity ops j)))) i \<noteq> None)
        (List.map_filter (\<lambda>(op, a). acquired_command op a) (fst (journal_run h f identity ops j)))"
  using claims.run_given [where h = h and f = f and identity = identity and ops = ops and s = j]
    tokens.run_given [where h = h and f = f and identity = identity and ops = ops and s = j]
  by (simp add: list_all_iff)

text \<open>C8: Over any sequence of calls, a command is registered at most once, a broker event is applied at
  most once, and an authorization lets at most one reconciliation commit take effect.\<close>

theorem journal_acts_once:
  "distinct (List.map_filter (\<lambda>(op, a). registered_command op a) (fst (journal_run h f identity ops j)))
   \<and> distinct (List.map_filter (\<lambda>(op, a). applied_event op a) (fst (journal_run h f identity ops j)))
   \<and> distinct (List.map_filter (\<lambda>(op, a). consumed_authorization op a) (fst (journal_run h f identity ops j)))"
  using commands.run_given [where h = h and f = f and identity = identity and ops = ops and s = j]
    events.run_given [where h = h and f = f and identity = identity and ops = ops and s = j]
    authorizations.run_given [where h = h and f = f and identity = identity and ops = ops and s = j] by simp

text \<open>C10: No call removes or changes what the journal holds: the records, the history of the orders and
  the requirements only grow at the end, every claim, receipt, command, event, fill, commit and
  resolution stays as it was written, and an observation changes its status at most once.\<close>

theorem journal_is_append_only:
  "grows (jn_tables j) (jn_tables (snd (journal_run h f identity ops j)))"
  by (rule journal_run_grows)

section \<open>The invariant\<close>

definition new_journal :: "journal_tables \<Rightarrow> journal" where
  "new_journal t = \<lparr>jn_closed = False, jn_tables = t\<rparr>"

text \<open>C7: In every journal that was created and then called in any way, each order has a history of
  consecutive versions that ends in its current row, every fill belongs to one applied event of its
  order, every claim to a registered command of a known order, no two commands share a claim token,
  and the requirements and records are numbered without gaps.\<close>

theorem journal_stays_consistent:
  "initialize h f identity = Inr t \<Longrightarrow> journal_ok (jn_tables (snd (journal_run h f identity ops (new_journal t))))"
  using journal_run_ok [where j = "new_journal t"] initialize_ok by (simp add: new_journal_def)

definition new_identity :: journal_identity where
  "new_identity = \<lparr>ji_journal_id = ''j1'', ji_schema_version = 3, ji_schema_fingerprint = moved_fingerprint, ji_created_at = 0\<rparr>"

definition new_schema :: schema_fingerprints where
  "new_schema = \<lparr>sf_v1 = ''v1'', sf_v2 = ''v2'', sf_v3 = ''v3''\<rparr>"

lemma initialized: "case initialize moved_hashes new_schema new_identity of Inl e \<Rightarrow> False | Inr t \<Rightarrow> True"
  by code_simp

lemma journal_stays_consistent_witness:
  "\<exists>t. initialize moved_hashes new_schema new_identity = Inr t
     \<and> journal_ok (jn_tables (snd (journal_run moved_hashes new_schema new_identity [CloseJournal, ResumeJournal] (new_journal t))))"
proof -
  from initialized obtain t where "initialize moved_hashes new_schema new_identity = Inr t" by (auto split: sum.splits)
  from this journal_stays_consistent [OF this] show ?thesis by (intro exI conjI)
qed

section \<open>Calls that change nothing\<close>

lemma operation_on_closed:
  assumes "jn_closed j \<or> jn_closed (snd (journal_operation on_cas body j))"
  shows "jn_tables (snd (journal_operation on_cas body j)) = jn_tables j"
    "jn_closed (snd (journal_operation on_cas body j))"
  using assms by (auto simp: journal_operation_def split: sum.splits journal_exn.splits if_splits)

text \<open>C27: A call that finds the journal closed, or leaves it closed because the database or a payload
  failed, changes nothing in it; and a closed journal only opens again when everything it holds was
  verified.\<close>

theorem closed_journal_is_inert:
  assumes "jn_closed j \<or> jn_closed (snd (journal_do h f identity op j))"
  shows "jn_tables (snd (journal_do h f identity op j)) = jn_tables j
    \<and> (jn_closed (snd (journal_do h f identity op j))
         \<or> op = ResumeJournal \<and> verify_journal h f identity (jn_tables j) = Inr ())"
proof (cases op)
  case ResumeJournal
  then show ?thesis by (auto simp: resume_journal_def split: sum.splits)
qed (use assms in \<open>auto simp: register_new_order_def register_command_def claim_dispatch_def record_dispatch_receipt_def
      append_raw_observation_def apply_normalized_event_def commit_authorized_reconciliation_def journal_get_order_def
      list_active_orders_def journal_account_snapshot_def journal_read_def close_journal_def operation_on_closed
      split: sum.splits live_command.splits\<close>)

lemma closed_journal_is_inert_witness:
  "jn_tables (snd (journal_do moved_hashes new_schema new_identity CloseJournal (new_journal moved_tables))) = moved_tables
     \<and> jn_closed (snd (journal_do moved_hashes new_schema new_identity CloseJournal (new_journal moved_tables)))"
  using closed_journal_is_inert [of "new_journal moved_tables" moved_hashes new_schema new_identity CloseJournal]
  by (simp add: close_journal_def new_journal_def)

section \<open>Recovery\<close>

text \<open>C9: As long as a command is claimed and neither its receipt nor a resolution of the claim is in
  the journal, the account of its order has a recovery blocker for it.\<close>

theorem outstanding_claim_blocks:
  assumes "journal_ok t"
    and "dget (t_claims t) i = Some c" "dget (t_receipts t) i = None" "dget (t_claim_resolutions t) i = None"
    and "dget (t_commands t) i = Some m" "dget (t_orders t) (cmd_order_id m) = Some x"
    and "recovery_blockers h (row_account_id x) t = Inr bs"
  shows "recovery_blocker h ''claim'' i \<in> set bs"
  using assms by (intro claim_blocks) (auto simp: journal_ok_def)

lemma moved_tables_ok: "journal_ok moved_tables"
  by (auto simp: journal_ok_def keys_ok_def links_ok_def claims_ok_def fills_ok_def history_ok_def versions_of_def
      current_version_def moved_tables_def empty_tables_def order_columns_def dict_ok_def dget_def
      moved_order_def unknown_order_def recon_order_def split: if_splits intro!: exI [of _ 5])

lemma outstanding_claim_blocks_witness:
  "recovery_blocker moved_hashes ''claim'' ''n1''
     \<in> set (case recovery_blockers moved_hashes ''a'' moved_tables of Inl e \<Rightarrow> [] | Inr bs \<Rightarrow> bs)"
proof -
  have "case recovery_blockers moved_hashes ''a'' moved_tables of Inl e \<Rightarrow> False | Inr bs \<Rightarrow> True" by code_simp
  then obtain bs where bs: "recovery_blockers moved_hashes ''a'' moved_tables = Inr bs" by (auto split: sum.splits)
  have rows: "dget (t_claims moved_tables) ''n1'' = Some moved_claim" "dget (t_receipts moved_tables) ''n1'' = None"
    "dget (t_claim_resolutions moved_tables) ''n1'' = None"
    "dget (t_commands moved_tables) ''n1'' = Some \<lparr>cmd_order_id = ''c1'', cmd_kind = ''new'', cmd_fingerprint = moved_fingerprint,
         cmd_command = moved_command, cmd_digest = moved_fingerprint, cmd_registered_at = 2\<rparr>"
    "dget (t_orders moved_tables) ''c1'' = Some (order_columns moved_order moved_fingerprint)"
    "row_account_id (order_columns moved_order moved_fingerprint) = ''a''"
    by (simp_all add: moved_tables_def empty_tables_def dget_def order_columns_def moved_order_def unknown_order_def recon_order_def)
  show ?thesis
    using outstanding_claim_blocks [OF moved_tables_ok rows(1-4), of _ moved_hashes bs] rows(5,6) bs by simp
qed





section \<open>A commit after the order moved\<close>











end
