(* ===== verification/Spec2Isabelle.thy ===== *)
theory Spec2Isabelle
  imports Broker_Theorems Live_Theorems Ingress_Theorems Capture_Theorems
    Strategy_Theorems Projection_Returns Replay_Liveness Journal_Theorems
begin

text \<open>
  A verification library for \<open>tx_trade\<close>, a Python system that records the market data of a futures
  broker, replays it, and trades on it. It models the parts that decide: what enters the pipeline, what
  a replay publishes, what an order may become, what the paper broker fills, what a live order believes
  about the broker, what is durable about it, and when the two sides are reconciled. Paths are relative
  to \<open>src/tx_trade\<close>.

  \<^bold>\<open>The program.\<close> Callbacks of the vendor's library become captured events (\<open>market_data/models.py\<close>) and
  are published to a bounded ingress (\<open>market_data/ingress.py\<close>); a processor drains it into a pipeline
  that numbers, maps (\<open>event_mapper.py\<close>) and stores them (\<open>sequencer.py\<close>, \<open>pipeline.py\<close>). Health, damaged
  sessions, shutdown and counters are shared by all of them (\<open>monitoring/\<close>). A recorded session is read
  back and published again by the replay runtime (\<open>replay/\<close>). On envelopes the strategies decide under a
  coordinator (\<open>strategy/\<close>), and the paper broker (\<open>orders/paper_broker.py\<close>) accepts, matches, fills and
  journals orders. Live orders are reduced from commands, dispatch receipts and normalised broker events
  (\<open>orders/live_contracts.py\<close>, \<open>live_state_machine.py\<close>); all of these are kept in a durable journal
  (\<open>sqlite_live_order_journal.py\<close>), through which a command is claimed before it is dispatched. A
  reconciliation compares the journal's account with a snapshot of the broker
  (\<open>live_reconciliation.py\<close>), plans what orders it may accept (\<open>live_reconciliation_projection.py\<close>), and an
  authorized plan is committed to the journal.

  \<^bold>\<open>Theories and sources.\<close>
  \<^item> \<open>Prelude\<close>: exceptions as values (\<open>pyexn\<close>, \<open>ebind\<close>), dictionaries in insertion order, and the
    interfaces \<open>dictionary\<close>, \<open>state_machine\<close>, \<open>journalled_machine\<close>, \<open>ordered_machine\<close>, each interpreted
    on the components below. \<open>PyDecimal\<close>: Python's decimal contexts, with signals as exceptions;
    \<open>PyText\<close>: text, JSON and names.
  \<^item> \<open>Paper_Contracts\<close> (\<open>orders/contracts.py\<close>), \<open>Market_Models\<close> and \<open>Captured_Events\<close>
    (\<open>market_data/models.py\<close>), \<open>Live_Contracts\<close>, \<open>Live_Evidence\<close> (\<open>orders/live_ports.py\<close>),
    \<open>Replay_Contracts\<close>, \<open>Commit_Contracts\<close>, \<open>Journal_Values\<close>: one record per dataclass, one \<open>_init\<close>
    function per constructor, its checks in the order of the code and its messages as the exceptions.
  \<^item> \<open>Execution_Policies\<close>, \<open>Matching\<close>, \<open>Position_Ledger\<close>, \<open>Order_State_Machine\<close>: the modules of the same
    name under \<open>orders/\<close>. \<open>Paper_Broker\<close> (\<open>orders/paper_broker.py\<close>): \<open>broker_env\<close> is what an instance
    keeps for its life, \<open>broker_state\<close> what its operations change, \<open>match_state\<close> the staging area of a
    batch; \<open>submit\<close>, \<open>cancel\<close>, \<open>process_decision_batch\<close> and the helpers they call. \<open>Broker_Checkpoint\<close>: the
    validation of a checkpoint and its restore.
  \<^item> \<open>Strategy_Runtime\<close> (\<open>strategy/\<close>): registrations, the built-in strategies, publishing an envelope to
    strategies and broker, the records and digests of what was delivered and their restoration.
  \<^item> \<open>Live_State_Machine\<close> (\<open>orders/live_state_machine.py\<close>): the reducer with its ledger of applied events.
  \<^item> \<open>Exact_Sums\<close>, \<open>Reconciliation\<close>, \<open>Projection\<close> (\<open>orders/live_reconciliation*.py\<close>): the comparison of the
    two sides and the plan that follows from it.
  \<^item> \<open>Journal_Codec\<close> (\<open>orders/live_journal_codec.py\<close>), \<open>Commit_Authorization\<close>
    (\<open>live_reconciliation_authorization*.py\<close>); \<open>Journal_Tables\<close> (\<open>live_journal_schema.sql\<close>), \<open>Journal_Store\<close>,
    \<open>Journal_Events\<close>, \<open>Journal_Reads\<close>, \<open>Commit_Storage\<close>, \<open>Journal_Commit\<close>, \<open>Journal_Commit_Run\<close>,
    \<open>Journal_Verify\<close> (\<open>sqlite_live_order_journal.py\<close>): one dictionary per table, one function per
    operation, per group of checks and per table of the integrity check. A transaction is a function to
    new tables or an exception, which is the rollback.
  \<^item> \<open>Monitoring\<close> (\<open>monitoring/health.py\<close>, \<open>monitoring/metrics.py\<close>), \<open>Ingress\<close> and \<open>Ingress_Processor\<close>
    (\<open>market_data/ingress.py\<close>, \<open>sequencer.py\<close>, \<open>pipeline.py\<close>), \<open>Event_Mapper\<close>, \<open>Capture_Pipeline\<close>. A method
    that changes its object before it raises is an action: it returns the changed state beside the
    exception. \<open>Replay_Runtime\<close> (\<open>replay/runtime.py\<close>, \<open>sqlite_source.py\<close>): the worker as a program counter.

  \<^bold>\<open>What is proved.\<close>
  \<^item> Paper broker: \<open>Broker_Book\<close> specifies an order book with four guarded steps and its invariant;
    \<open>Broker_Refinement\<close> shows that every operation runs a sequence of them; \<open>Broker_Run\<close> and
    \<open>Broker_Limits\<close> carry the invariants over all interleavings of operations; \<open>Broker_Properties\<close>,
    \<open>Broker_Retries\<close> and \<open>Broker_Theorems\<close> state the consequences: no look-ahead, journal replay, exact
    positions, capacities, idempotent retries and redeliveries, fills in acceptance order within the
    quoted quantity; and two flaws.
  \<^item> Strategies: \<open>Strategy_Runs\<close>, \<open>Strategy_Restore\<close> and \<open>Strategy_Theorems\<close>: what a coordinator does to
    the broker is a run of the broker, delivery is idempotent, a saved coordinator is restored.
  \<^item> Live orders: \<open>Live_Run\<close> inverts every operation, \<open>Live_Machine\<close> proves the invariant of reachable
    orders, \<open>Live_Quantities\<close> (on \<open>Whole_Quantities\<close>) the conservation of quantity, \<open>Live_Totality\<close> that
    no admissible broker order event makes the reducer raise; \<open>Live_Theorems\<close> states the properties, and
    what goes wrong beyond 28 digits.
  \<^item> Reconciliation: \<open>Reconciliation_Proofs\<close>, \<open>Reconciliation_Theorems\<close>, \<open>Projection_Theorems\<close> and
    \<open>Projection_Returns\<close>: what a resumed account, a missing order and a committable plan rest on.
  \<^item> Journal: \<open>Journal_Writes\<close> shows that every transaction is a sequence of guarded row writes;
    \<open>Journal_Run\<close> that writes only add, over all sequences of calls, crashes and resumptions, and an
    interface of operations that hand a key out once; \<open>Journal_Invariants\<close> the invariant of the tables;
    \<open>Journal_Outcomes\<close> interprets the interface for claims, tokens, events, commands and authorizations;
    \<open>Journal_Recovery\<close> follows a commit through the blockers; \<open>Journal_Theorems\<close> states the properties, and
    that a commit the checks accept can make the journal unreadable.
  \<^item> Ingress: \<open>Ingress_Overflow\<close> is a calculus of reports to the monitors, \<open>Ingress_Queues\<close> and
    \<open>Ingress_Run\<close> describe publishing and popping on lanes seen as lists, \<open>Ingress_Machine\<close> the runs with
    their log, \<open>Ingress_Drain\<close> the processor; \<open>Ingress_Theorems\<close> and \<open>Capture_Theorems\<close> state the
    properties.
  \<^item> Replay: \<open>Replay_Proofs\<close>, \<open>Replay_Theorems\<close> and \<open>Replay_Liveness\<close>: order and completeness of what is
    published whatever the controls, promptness of stopping, completion of an undisturbed replay, and
    that a pause right after a resume hangs.
  \<^item> The theories named \<open>Demo\<close> and the sections called examples hold concrete runs that the kernel
    evaluates; every property with hypotheses is applied to one of them.

  \<^bold>\<open>Parameters, bounds and fuel.\<close> The hash functions, the name-based UUIDs, the sink, the source of a
  replay, the observer, the clocks and the factory of claim tokens are arguments. The properties of the
  broker assume that the identifiers derived for the submit keys in use are distinct (\<open>inj_on\<close>), which
  \<open>Broker_Theorems\<close> shows the code does not ensure. Exact conservation of live quantities is for whole
  lots below \<open>10 ^ 28\<close>, the precision of the default context. All definitions terminate; the only counter
  is that of \<open>drain_loop\<close>, which is the \<open>max_events\<close> of the code.

  \<^bold>\<open>Abstractions.\<close> A method that holds its object's lock is one atomic function; what \<open>try_publish\<close> does
  to the monitors after it released the lock is part of the same step, and the runs of the ingress let
  other components use the monitors between steps. The controls of a replay are interleaved with the
  steps of its worker. Aware datetimes are instants, UUIDs their canonical text, the speed of a replay a
  rational. Checks of Python types that the types of the model make vacuous are left out. A payload
  column holds the value that decoding it gives, beside its digest, so that text no encoder wrote does
  not occur in it; a fault of the database is a call that fails, followed by the closing of the journal.

  \<^bold>\<open>Not modelled.\<close> The SQL engine, the migration of a journal from schema versions 1 and 2 and the checks
  of its file and directory; \<open>load_recovery_snapshot\<close>, the inspection of a journal through a second
  connection and the rendering of its result; the stores of assessments, research runs and market data;
  operator recovery, which composes inspection, authorization and commit; the adapter of the vendor's
  COM library, the parser of its replies and the vendor samples; command lines, configuration and output
  files; the textual encoding of checkpoints. The snapshots of ingress, health and metrics only read.
\<close>

end
